(* ===== verification/Prelude.thy ===== *)
theory Prelude
  imports Complex_Main
begin

text \<open>
  What every component of the model shares: identifiers, error values, the text
  of messages, the lemma collections, and generic lemmas on lists, options and
  association lists.

  Python raises; the model returns. A call that may raise has the type
  \<open>exn + 'a\<close>: \<open>Inl\<close> holds the exception, \<open>Inr\<close> the returned value.
\<close>

section \<open>Lemma collections\<close>

named_theorems plan_simps \<open>unfolding rules of the planning functions\<close>
named_theorems num_simps \<open>evaluation of Python's numeric operations\<close>
named_theorems event_simps \<open>unfolding rules of the event constructors\<close>
named_theorems kobo_simps \<open>two-decimal floats as whole numbers of kobo\<close>

section \<open>Identifiers and clocks\<close>

text \<open>
  A \<open>UUID\<close> is kept as its canonical string, so \<open>str(u)\<close> is the identity. A UUID
  object is always truthy. Fresh identifiers (\<open>uuid4()\<close>) and the clock
  (\<open>datetime.now(UTC)\<close>) are arguments of the operations that read them.
\<close>

type_synonym uuid = string
type_synonym timestamp = int

section \<open>The sum type as the type of results\<close>

fun is_ok :: "'e + 'a \<Rightarrow> bool" where
  "is_ok (Inl _) = False"
| "is_ok (Inr _) = True"

fun res_bind :: "'e + 'a \<Rightarrow> ('a \<Rightarrow> 'e + 'b) \<Rightarrow> 'e + 'b" where
  "res_bind (Inl e) f = Inl e"
| "res_bind (Inr x) f = f x"

text \<open>A loop over a list that stops at the first exception.\<close>

fun res_fold :: "('a \<Rightarrow> 's \<Rightarrow> 'e + 's) \<Rightarrow> 'a list \<Rightarrow> 's \<Rightarrow> 'e + 's" where
  "res_fold f [] s = Inr s"
| "res_fold f (x # xs) s = res_bind (f x s) (res_fold f xs)"

lemma is_okE: "is_ok r \<Longrightarrow> (\<And>x. r = Inr x \<Longrightarrow> P) \<Longrightarrow> P"
  by (cases r) auto

lemma is_ok_iff: "is_ok r \<longleftrightarrow> (\<exists>x. r = Inr x)"
  by (cases r) auto

lemma res_bind_eq_Inr:
  "res_bind r f = Inr y \<longleftrightarrow> (\<exists>x. r = Inr x \<and> f x = Inr y)"
  by (cases r) auto

lemma res_bind_eq_Inl:
  "res_bind r f = Inl e \<longleftrightarrow> r = Inl e \<or> (\<exists>x. r = Inr x \<and> f x = Inl e)"
  by (cases r) auto

lemma res_fold_append:
  "res_fold f (xs @ ys) s = res_bind (res_fold f xs s) (res_fold f ys)"
proof (induction xs arbitrary: s)
  case (Cons x xs)
  show ?case by (cases "f x s") (simp_all add: Cons.IH)
qed simp

text \<open>An invariant of the body is an invariant of the loop.\<close>

lemma res_fold_invariant:
  assumes "res_fold f xs s = Inr s'" and "I s"
    and "\<And>x s s'. x \<in> set xs \<Longrightarrow> I s \<Longrightarrow> f x s = Inr s' \<Longrightarrow> I s'"
  shows "I s'"
  using assms
proof (induction xs arbitrary: s)
  case (Cons x xs)
  from Cons.prems(1) obtain t where t: "f x s = Inr t" "res_fold f xs t = Inr s'"
    by (auto simp: res_bind_eq_Inr)
  have "I t" using Cons.prems(2,3) t(1) by (meson list.set_intros(1))
  with t(2) Cons.prems(3) show ?case
    by (intro Cons.IH) (auto simp: list.set_intros(2))
qed simp

section \<open>Python's \<open>or\<close> on optional values\<close>

text \<open>\<open>a or b\<close> where \<open>a\<close> is \<open>None\<close> or a truthy object.\<close>

definition opt_or :: "'a option \<Rightarrow> 'a option \<Rightarrow> 'a option" where
  "opt_or a b = (case a of Some x \<Rightarrow> Some x | None \<Rightarrow> b)"

text \<open>\<open>s or d\<close> on an optional string: the empty string is falsy too.\<close>

definition str_or :: "string option \<Rightarrow> string \<Rightarrow> string" where
  "str_or s d = (case s of None \<Rightarrow> d | Some x \<Rightarrow> if x = [] then d else x)"

definition str_truthy :: "string option \<Rightarrow> bool" where
  "str_truthy s = (case s of None \<Rightarrow> False | Some x \<Rightarrow> x \<noteq> [])"

lemma opt_or_simps [simp]:
  "opt_or (Some x) b = Some x" "opt_or None b = b"
  by (simp_all add: opt_or_def)

lemma str_or_None [simp]: "str_or None d = d"
  by (simp add: str_or_def)

lemma str_or_Some [simp]: "x \<noteq> [] \<Longrightarrow> str_or (Some x) d = x"
  by (simp add: str_or_def)

section \<open>ASCII text\<close>

definition upper_char :: "char \<Rightarrow> char" where
  "upper_char c = (let n = of_char c :: nat in if 97 \<le> n \<and> n \<le> 122 then char_of (n - 32) else c)"

section \<open>Decimal digits\<close>

fun nat_str :: "nat \<Rightarrow> string" where
  "nat_str n = (if n < 10 then [char_of (48 + n)] else nat_str (n div 10) @ [char_of (48 + n mod 10)])"

declare nat_str.simps [simp del]

definition lower_char :: "char \<Rightarrow> char" where
  "lower_char c = (let n = of_char c :: nat in if 65 \<le> n \<and> n \<le> 90 then char_of (n + 32) else c)"

definition is_digit :: "char \<Rightarrow> bool" where
  "is_digit c = (let n = of_char c :: nat in 48 \<le> n \<and> n \<le> 57)"

definition digits_value :: "string \<Rightarrow> nat" where
  "digits_value ds = foldl (\<lambda>n c. 10 * n + (of_char c - 48)) 0 ds"

text \<open>A number is read back from what it prints as.\<close>

lemma digits_value_snoc: "digits_value (ds @ [c]) = 10 * digits_value ds + (of_char c - 48)"
  by (simp add: digits_value_def)

lemma digits_value_nat_str [simp]: "digits_value (nat_str n) = n"
proof (induction n rule: nat_str.induct)
  case (1 n)
  show ?case
  proof (cases "n < 10")
    case True
    then show ?thesis by (simp add: nat_str.simps[of n] digits_value_def)
  next
    case False
    then show ?thesis using 1 by (simp add: nat_str.simps[of n] digits_value_snoc)
  qed
qed

lemma nat_str_inject [simp]: "nat_str m = nat_str n \<longleftrightarrow> m = n"
  by (metis digits_value_nat_str)

section \<open>Insertion-ordered dictionaries\<close>

text \<open>
  A Python dictionary iterates in insertion order; where the order is observable it
  is an association list. Assigning to a present key keeps its position.
\<close>

fun dict_set :: "'k \<Rightarrow> 'v \<Rightarrow> ('k \<times> 'v) list \<Rightarrow> ('k \<times> 'v) list" where
  "dict_set k v [] = [(k, v)]"
| "dict_set k v ((k', v') # m) = (if k = k' then (k, v) # m else (k', v') # dict_set k v m)"

lemma map_of_dict_set [simp]: "map_of (dict_set k v m) = (map_of m)(k \<mapsto> v)"
  by (induction k v m rule: dict_set.induct) auto

lemma keys_dict_set: "fst ` set (dict_set k v m) = insert k (fst ` set m)"
  by (induction k v m rule: dict_set.induct) auto

lemma distinct_dict_set: "distinct (map fst m) \<Longrightarrow> distinct (map fst (dict_set k v m))"
  by (induction k v m rule: dict_set.induct) (auto simp: keys_dict_set)

lemma dict_set_snoc: "k \<notin> fst ` set m \<Longrightarrow> dict_set k v m = m @ [(k, v)]"
  by (induction k v m rule: dict_set.induct) auto

lemma map_fst_dict_set: "k \<in> fst ` set m \<Longrightarrow> map fst (dict_set k v m) = map fst m"
  by (induction k v m rule: dict_set.induct) auto

text \<open>Summing a measure over the values of a dictionary, before and after an update.\<close>

lemma sum_dict_set_new:
  fixes h :: "'v \<Rightarrow> 'a :: comm_monoid_add"
  shows "map_of m k = None \<Longrightarrow>
    sum_list (map (\<lambda>e. h (snd e)) (dict_set k v m)) = sum_list (map (\<lambda>e. h (snd e)) m) + h v"
  by (induction k v m rule: dict_set.induct) (auto split: if_splits simp: add_ac)

lemma sum_dict_set_old:
  fixes h :: "'v \<Rightarrow> 'a :: ab_group_add"
  shows "map_of m k = Some w \<Longrightarrow>
    sum_list (map (\<lambda>e. h (snd e)) (dict_set k v m)) =
      sum_list (map (\<lambda>e. h (snd e)) m) - h w + h v"
  by (induction k v m rule: dict_set.induct) (auto split: if_splits simp: algebra_simps)

section \<open>Lists\<close>

lemma find_Some_set: "List.find P xs = Some x \<Longrightarrow> x \<in> set xs \<and> P x"
  by (induction xs) (auto split: if_splits)

lemma find_append:
  "List.find P (xs @ ys) = (case List.find P xs of None \<Rightarrow> List.find P ys | Some x \<Rightarrow> Some x)"
  by (induction xs) simp_all

lemma find_map_same:
  "(\<And>x. P (f x) = P x) \<Longrightarrow> List.find P (map f xs) = map_option f (List.find P xs)"
  by (induction xs) auto

lemma head_of_sorted: "sort_key k (filter P xs) = x # ys \<Longrightarrow> x \<in> set xs \<and> P x"
proof -
  assume "sort_key k (filter P xs) = x # ys"
  then have "x \<in> set (sort_key k (filter P xs))" by simp
  then show ?thesis by simp
qed

lemma sum_list_map_diff:
  fixes f g :: "'a \<Rightarrow> 'b :: ab_group_add"
  shows "(\<Sum>x\<leftarrow>xs. f x - g x) = (\<Sum>x\<leftarrow>xs. f x) - (\<Sum>x\<leftarrow>xs. g x)"
  by (induction xs) (auto simp: algebra_simps)

lemma sum_list_sort_key:
  fixes f :: "'a \<Rightarrow> 'b :: comm_monoid_add"
  shows "(\<Sum>x\<leftarrow>sort_key k xs. f x) = (\<Sum>x\<leftarrow>xs. f x)"
proof (induction xs)
  case (Cons a xs)
  have "(\<Sum>x\<leftarrow>insort_key k a ys. f x) = f a + (\<Sum>x\<leftarrow>ys. f x)" for ys
    by (induction ys) (auto simp: add_ac)
  then show ?case by (simp add: Cons.IH)
qed simp

text \<open>\<open>f"'{s}'"\<close>\<close>

definition in_quotes :: "string \<Rightarrow> string" where
  "in_quotes s = [CHR 0x27] @ s @ [CHR 0x27]"

end
