(* ===== verification/Rounding.thy ===== *)
theory Rounding
  imports Prelude
begin

text \<open>
  Rounding of an exact rational to a fixed number of significant digits in a radix,
  half to even. A Python \<open>float\<close> operation is the exact operation followed by rounding to
  53 binary digits; an operation of \<open>decimal\<close>'s default context is the exact operation
  followed by rounding to 28 decimal digits. Both are instances of one definition, and
  both interpret the locale \<open>correct_rounding\<close>, in which the error bounds are proved once.
\<close>

section \<open>Number of digits and magnitude\<close>

function ndig :: "nat \<Rightarrow> nat \<Rightarrow> nat" where
  "ndig b n = (if n = 0 \<or> b < 2 then 0 else Suc (ndig b (n div b)))"
  by pat_completeness auto
termination
  by (relation "measure snd") auto

declare ndig.simps [simp del]

lemma ndig_bounds:
  assumes "2 \<le> b"
  shows "n < b ^ ndig b n \<and> (0 < n \<longrightarrow> b ^ ndig b n \<le> n * b)"
proof (induction n rule: less_induct)
  case (less n)
  show ?case
  proof (cases "n = 0")
    case True
    then show ?thesis by (simp add: ndig.simps)
  next
    case False
    then have dig: "ndig b n = Suc (ndig b (n div b))"
      using assms by (simp add: ndig.simps)
    have IH: "n div b < b ^ ndig b (n div b)"
      "0 < n div b \<Longrightarrow> b ^ ndig b (n div b) \<le> n div b * b"
      using less[of "n div b"] False assms by auto
    have "n < b * (n div b + 1)"
      using assms by (metis Suc_eq_plus1 dividend_less_times_div less_le_trans mult_Suc_right
          zero_less_numeral)
    also have "\<dots> \<le> b * b ^ ndig b (n div b)"
      using IH(1) by (intro mult_le_mono2) simp
    finally have upper: "n < b ^ ndig b n" by (simp add: dig)
    have "b ^ ndig b (n div b) \<le> n"
    proof (cases "n div b = 0")
      case True
      then show ?thesis using False by (simp add: ndig.simps)
    next
      case False
      with IH(2) have "b ^ ndig b (n div b) \<le> n div b * b" by simp
      also have "\<dots> \<le> n" by simp
      finally show ?thesis .
    qed
    then show ?thesis using upper by (simp add: dig)
  qed
qed

text \<open>The exponent of the leading digit: \<open>b ^ e \<le> x < b ^ (e + 1)\<close>.\<close>

definition expo :: "nat \<Rightarrow> rat \<Rightarrow> int" where
  "expo b x = (if 1 \<le> x then int (ndig b (nat \<lfloor>x\<rfloor>)) - 1
               else - int (ndig b (nat (\<lceil>1 / x\<rceil> - 1))))"

lemma powi_pos: "2 \<le> b \<Longrightarrow> 0 < (of_nat b :: rat) powi k"
  by (intro zero_less_power_int) simp

lemma powi_Suc: "2 \<le> b \<Longrightarrow> (of_nat b :: rat) powi (k + 1) = of_nat b powi k * of_nat b"
  by (intro power_int_add_1) auto

lemma powi_of_int_pow: "2 \<le> b \<Longrightarrow> 0 \<le> k \<Longrightarrow> (of_nat b :: rat) powi k = of_int (int b ^ nat k)"
  by (simp add: power_int_nonneg_exp)

lemma of_nat_le_of_floor: "(of_nat n :: rat) \<le> x \<longleftrightarrow> int n \<le> \<lfloor>x\<rfloor>"
  by (metis le_floor_iff of_int_of_nat_eq)

lemma expo_bounds_ge1:
  assumes "2 \<le> b" "1 \<le> x"
  shows "of_nat b powi expo b x \<le> x \<and> x < of_nat b powi (expo b x + 1)"
proof -
  define n where "n = nat \<lfloor>x\<rfloor>"
  have n: "0 < n" "of_nat n \<le> x" "x < of_nat n + 1"
    using assms(2) by (auto simp: n_def le_floor_iff of_nat_nat) linarith+
  have e: "expo b x = int (ndig b n) - 1" using assms(2) by (simp add: expo_def n_def)
  have pos: "0 < ndig b n" using n(1) assms(1) by (simp add: ndig.simps)
  have "b ^ ndig b n \<le> n * b" "n < b ^ ndig b n"
    using ndig_bounds[OF assms(1), of n] n(1) by auto
  then have low: "b ^ (ndig b n - 1) \<le> n"
    using pos assms(1) by (cases "ndig b n") auto
  have "of_nat b powi expo b x = (of_nat (b ^ (ndig b n - 1)) :: rat)"
    using pos by (simp add: e power_int_nonneg_exp nat_diff_distrib')
  also have "\<dots> \<le> of_nat n" using low by (simp only: of_nat_le_iff)
  finally have 1: "of_nat b powi expo b x \<le> x" using n(2) by simp
  have "x < of_nat (n + 1)" using n(3) by simp
  also have "\<dots> \<le> (of_nat (b ^ ndig b n) :: rat)"
    using \<open>n < b ^ ndig b n\<close> by (subst of_nat_le_iff) simp
  also have "\<dots> = of_nat b powi (expo b x + 1)" by (simp add: e)
  finally show ?thesis using 1 by simp
qed

lemma expo_bounds_lt1:
  assumes "2 \<le> b" "0 < x" "x < 1"
  shows "of_nat b powi expo b x \<le> x \<and> x < of_nat b powi (expo b x + 1)"
proof -
  define n where "n = nat (\<lceil>1 / x\<rceil> - 1)"
  have inv: "1 < 1 / x" using assms by simp
  then have c: "2 \<le> \<lceil>1 / x\<rceil>" by (simp add: less_ceiling_iff flip: zle_add1_eq_le)
  have n: "0 < n" "of_nat n < 1 / x" "1 / x \<le> of_nat n + 1"
    using c by (auto simp: n_def of_nat_nat) (linarith+)
  have e: "expo b x = - int (ndig b n)" using assms by (simp add: expo_def n_def)
  have pos: "0 < ndig b n" using n(1) assms(1) by (simp add: ndig.simps)
  have up: "n < b ^ ndig b n" and "b ^ ndig b n \<le> n * b"
    using ndig_bounds[OF assms(1), of n] n(1) by auto
  then have low: "b ^ (ndig b n - 1) \<le> n"
    using pos assms(1) by (cases "ndig b n") auto
  have "1 / x \<le> of_nat (n + 1)" using n(3) by simp
  also have "\<dots> \<le> (of_nat (b ^ ndig b n) :: rat)" using up by (subst of_nat_le_iff) simp
  finally have "1 / x \<le> of_nat b ^ ndig b n" by simp
  then have 1: "of_nat b powi expo b x \<le> x"
    using assms by (simp add: e power_int_minus field_simps)
  have "(of_nat (b ^ (ndig b n - 1)) :: rat) \<le> of_nat n" using low by (simp only: of_nat_le_iff)
  also have "\<dots> < 1 / x" by (rule n(2))
  finally have "of_nat b ^ (ndig b n - 1) < 1 / x" by simp
  moreover have "expo b x + 1 = - int (ndig b n - 1)" using pos by (simp add: e)
  ultimately have "x < of_nat b powi (expo b x + 1)"
    using assms by (simp only: power_int_minus) (simp add: field_simps)
  with 1 show ?thesis by simp
qed

lemma expo_bounds:
  assumes "2 \<le> b" "0 < x"
  shows "of_nat b powi expo b x \<le> x" "x < of_nat b powi (expo b x + 1)"
  using expo_bounds_ge1[OF assms(1)] expo_bounds_lt1[OF assms] by (meson not_le)+

lemma expo_unique:
  assumes "2 \<le> b" "of_nat b powi k \<le> x" "x < of_nat b powi (k + 1)"
  shows "expo b x = k"
proof -
  have x: "0 < x" using assms(2) powi_pos[OF assms(1), of k] by linarith
  have b: "1 < (of_nat b :: rat)" using assms(1) by simp
  from expo_bounds[OF assms(1) x] assms have
    "(of_nat b :: rat) powi k < of_nat b powi (expo b x + 1)"
    "(of_nat b :: rat) powi expo b x < of_nat b powi (k + 1)" by linarith+
  then have "k < expo b x + 1" "expo b x < k + 1"
    using b by (meson power_int_le_imp_less_exp power_int_increasing less_imp_le not_le)+
  then show ?thesis by simp
qed

lemma expo_mono:
  assumes "2 \<le> b" "0 < x" "x \<le> y"
  shows "expo b x \<le> expo b y"
proof (rule ccontr)
  assume "\<not> ?thesis"
  then have "expo b y + 1 \<le> expo b x" by simp
  then have "(of_nat b :: rat) powi (expo b y + 1) \<le> of_nat b powi expo b x"
    using assms(1) by (intro power_int_increasing) auto
  with expo_bounds[OF assms(1), of x] expo_bounds[OF assms(1), of y] assms show False
    by linarith
qed

section \<open>Round half to even\<close>

definition rhe :: "rat \<Rightarrow> int" where
  "rhe x = (let f = \<lfloor>x\<rfloor>; d = x - of_int f in
     if d < 1 / 2 then f
     else if 1 / 2 < d then f + 1
     else if even f then f else f + 1)"

text \<open>Round half away from zero: \<open>ROUND_HALF_UP\<close> of \<open>decimal\<close>.\<close>

definition rhu :: "rat \<Rightarrow> int" where
  "rhu x = (if 0 \<le> x then \<lfloor>x + 1 / 2\<rfloor> else - \<lfloor>- x + 1 / 2\<rfloor>)"

lemma rhe_err: "\<bar>of_int (rhe x) - x\<bar> \<le> 1 / 2"
  unfolding rhe_def Let_def using floor_correct[of x] by (auto simp: abs_le_iff; linarith)

lemma rhe_unique:
  assumes "\<bar>x - of_int k\<bar> < 1 / 2"
  shows "rhe x = k"
proof -
  have "\<bar>of_int (rhe x) - (of_int k :: rat)\<bar> < 1"
    using rhe_err[of x] assms by linarith
  then have "\<bar>rhe x - k\<bar> < 1"
    by (metis of_int_1 of_int_abs of_int_diff of_int_less_iff)
  then show ?thesis by simp
qed

lemma rhe_of_int [simp]: "rhe (of_int k) = k"
  by (rule rhe_unique) simp

lemma rhe_0 [simp]: "rhe 0 = 0"
  using rhe_of_int[of 0] by simp

lemma rhe_mono:
  assumes "x \<le> y"
  shows "rhe x \<le> rhe y"
proof (cases "\<lfloor>x\<rfloor> = \<lfloor>y\<rfloor>")
  case True
  then show ?thesis using assms by (auto simp: rhe_def Let_def)
next
  case False
  then have "\<lfloor>x\<rfloor> + 1 \<le> \<lfloor>y\<rfloor>" using floor_mono[OF assms] by linarith
  moreover have "rhe x \<le> \<lfloor>x\<rfloor> + 1" "\<lfloor>y\<rfloor> \<le> rhe y" by (auto simp: rhe_def Let_def)
  ultimately show ?thesis by linarith
qed

lemma rhe_le_of_int: "x \<le> of_int k \<Longrightarrow> rhe x \<le> k"
  using rhe_mono[of x "of_int k"] by simp

lemma rhe_ge_of_int: "of_int k \<le> x \<Longrightarrow> k \<le> rhe x"
  using rhe_mono[of "of_int k" x] by simp

lemma rhe_minus: "rhe (- x) = - rhe x"
proof (cases "x = of_int \<lfloor>x\<rfloor>")
  case True
  then show ?thesis by (metis of_int_minus rhe_of_int)
next
  case False
  then have "\<lfloor>- x\<rfloor> = - \<lfloor>x\<rfloor> - 1"
    using floor_correct[of x] by (intro floor_unique) (auto simp: less_le)
  then show ?thesis by (auto simp: rhe_def Let_def)
qed

lemma floor_half_err: "\<bar>of_int \<lfloor>y + 1 / 2\<rfloor> - y\<bar> \<le> (1 / 2 :: rat)"
  using floor_correct[of "y + 1 / 2"] unfolding abs_le_iff of_int_add of_int_1 by linarith

lemma rhu_err: "\<bar>of_int (rhu x) - x\<bar> \<le> 1 / 2"
  using floor_half_err[of x] floor_half_err[of "- x"]
  by (cases "0 \<le> x") (simp_all add: rhu_def abs_minus_commute add.commute)

lemma rhu_unique:
  assumes "\<bar>x - of_int k\<bar> < 1 / 2"
  shows "rhu x = k"
proof -
  have "\<bar>of_int (rhu x) - (of_int k :: rat)\<bar> < 1"
    using rhu_err[of x] assms by linarith
  then have "\<bar>rhu x - k\<bar> < 1"
    by (metis of_int_1 of_int_abs of_int_diff of_int_less_iff)
  then show ?thesis by simp
qed

lemma rhu_of_int [simp]: "rhu (of_int k) = k"
  by (rule rhu_unique) simp

lemma rhu_nonneg: "0 \<le> x \<Longrightarrow> 0 \<le> rhu x"
  by (simp add: rhu_def)

lemma floor_half [simp]: "\<lfloor>1 / 2 :: rat\<rfloor> = 0"
  by (simp add: floor_eq_iff)

lemma rhu_minus: "rhu (- x) = - rhu x"
  by (cases "x = 0") (auto simp: rhu_def)

lemma rhu_mono:
  assumes "x \<le> y"
  shows "rhu x \<le> rhu y"
proof -
  consider "0 \<le> x" | "x < 0" "0 \<le> y" | "y < 0" by linarith
  then show ?thesis
  proof cases
    case 2
    then have "0 \<le> \<lfloor>- x + 1 / 2\<rfloor>" "0 \<le> \<lfloor>y + 1 / 2\<rfloor>" by (simp_all add: le_floor_iff)
    then have "- \<lfloor>- x + 1 / 2\<rfloor> \<le> \<lfloor>y + 1 / 2\<rfloor>" by linarith
    with 2 show ?thesis by (simp add: rhu_def)
  qed (use assms in \<open>auto simp: rhu_def intro!: floor_mono\<close>)
qed

section \<open>Rounding to \<open>p\<close> significant digits in radix \<open>b\<close>\<close>

definition ulp :: "nat \<Rightarrow> nat \<Rightarrow> rat \<Rightarrow> rat" where
  "ulp b p x = of_nat b powi (expo b \<bar>x\<bar> - (int p - 1))"

definition rnd :: "nat \<Rightarrow> nat \<Rightarrow> rat \<Rightarrow> rat" where
  "rnd b p x = (if x = 0 then 0 else of_int (rhe (x / ulp b p x)) * ulp b p x)"

lemma rnd_0 [simp]: "rnd b p 0 = 0"
  by (simp add: rnd_def)

lemma ulp_pos: "2 \<le> b \<Longrightarrow> 0 < ulp b p x"
  by (simp add: ulp_def powi_pos)

lemma ulp_minus [simp]: "ulp b p (- x) = ulp b p x"
  by (simp add: ulp_def)

lemma rnd_minus: "rnd b p (- x) = - rnd b p x"
  by (simp add: rnd_def rhe_minus)

lemma rnd_half_ulp:
  assumes "2 \<le> b"
  shows "\<bar>rnd b p x - x\<bar> \<le> ulp b p x / 2"
proof (cases "x = 0")
  case True
  then show ?thesis using ulp_pos[OF assms, of p x] by simp
next
  case False
  let ?q = "ulp b p x"
  have q: "0 < ?q" by (rule ulp_pos[OF assms])
  have "rnd b p x - x = (of_int (rhe (x / ?q)) - x / ?q) * ?q"
    using q False by (simp add: rnd_def algebra_simps)
  then have "\<bar>rnd b p x - x\<bar> = \<bar>of_int (rhe (x / ?q)) - x / ?q\<bar> * ?q"
    using q by (simp add: abs_mult)
  also have "\<dots> \<le> 1 / 2 * ?q"
    by (intro mult_right_mono rhe_err) (use q in simp)
  finally show ?thesis by simp
qed

lemma ulp_le:
  assumes "2 \<le> b" "x \<noteq> 0"
  shows "ulp b p x \<le> \<bar>x\<bar> * of_nat b powi (1 - int p)"
proof -
  have "ulp b p x = of_nat b powi expo b \<bar>x\<bar> * of_nat b powi (1 - int p)"
    unfolding ulp_def using assms(1)
    by (subst power_int_add[symmetric]) (auto simp: algebra_simps)
  also have "\<dots> \<le> \<bar>x\<bar> * of_nat b powi (1 - int p)"
    using expo_bounds(1)[OF assms(1), of "\<bar>x\<bar>"] assms powi_pos[OF assms(1), of "1 - int p"]
    by (intro mult_right_mono) auto
  finally show ?thesis .
qed

lemma rnd_rel_err:
  assumes "2 \<le> b"
  shows "\<bar>rnd b p x - x\<bar> \<le> of_nat b powi (1 - int p) / 2 * \<bar>x\<bar>"
  using rnd_half_ulp[OF assms, of p x] ulp_le[OF assms, of x p] by (cases "x = 0") (auto simp: mult.commute)

lemma rnd_nonneg: "2 \<le> b \<Longrightarrow> 0 \<le> x \<Longrightarrow> 0 \<le> rnd b p x"
  using ulp_pos[of b p x] by (auto simp: rnd_def intro!: mult_nonneg_nonneg rhe_ge_of_int)

text \<open>Scaled to its own unit, a positive number lies between \<open>b ^ (p - 1)\<close> and \<open>b ^ p\<close>.\<close>

lemma pow_mult_ulp:
  assumes "2 \<le> b" "0 < x"
  shows "of_int (int b ^ n) * ulp b p x = of_nat b powi (expo b x + (int n - int p) + 1)"
proof -
  have "of_int (int b ^ n) * ulp b p x = of_nat b powi int n * of_nat b powi (expo b x - (int p - 1))"
    using assms by (simp add: ulp_def)
  also have "\<dots> = of_nat b powi (int n + (expo b x - (int p - 1)))"
    using assms by (subst power_int_add) auto
  also have "int n + (expo b x - (int p - 1)) = expo b x + (int n - int p) + 1" by simp
  finally show ?thesis .
qed

lemma scaled_bounds:
  assumes "2 \<le> b" "0 < p" "0 < x"
  shows "of_int (int b ^ (p - 1)) \<le> x / ulp b p x" "x / ulp b p x < of_int (int b ^ p)"
proof -
  let ?q = "ulp b p x"
  have q: "0 < ?q" by (rule ulp_pos[OF assms(1)])
  have "of_int (int b ^ (p - 1)) * ?q \<le> x" "x < of_int (int b ^ p) * ?q"
    using expo_bounds[OF assms(1,3)] assms by (simp_all only: pow_mult_ulp) (simp_all add: of_nat_diff)
  then show "of_int (int b ^ (p - 1)) \<le> x / ?q" "x / ?q < of_int (int b ^ p)"
    using q by (simp_all only: pos_le_divide_eq pos_divide_less_eq)
qed

lemma rnd_between:
  assumes "2 \<le> b" "0 < p" "0 < x"
  shows "of_nat b powi expo b x \<le> rnd b p x" "rnd b p x \<le> of_nat b powi (expo b x + 1)"
proof -
  let ?q = "ulp b p x"
  have q: "0 < ?q" by (rule ulp_pos[OF assms(1)])
  have eq: "of_nat b powi expo b x = of_int (int b ^ (p - 1)) * ?q"
    "of_nat b powi (expo b x + 1) = of_int (int b ^ p) * ?q"
    using assms by (simp_all only: pow_mult_ulp) (simp_all add: of_nat_diff)
  show "of_nat b powi expo b x \<le> rnd b p x"
    unfolding eq using assms q scaled_bounds(1)[OF assms]
    by (auto simp: rnd_def intro!: rhe_ge_of_int simp flip: of_int_power)
  show "rnd b p x \<le> of_nat b powi (expo b x + 1)"
    unfolding eq using assms q rhe_le_of_int[OF less_imp_le[OF scaled_bounds(2)[OF assms]]]
    by (auto simp: rnd_def simp del: of_int_power)
qed

lemma rnd_mono_pos:
  assumes "2 \<le> b" "0 < p" "0 < x" "x \<le> y"
  shows "rnd b p x \<le> rnd b p y"
proof (cases "expo b x = expo b y")
  case True
  with assms have "ulp b p x = ulp b p y" by (simp add: ulp_def)
  moreover have "0 < ulp b p y" by (rule ulp_pos[OF assms(1)])
  ultimately show ?thesis
    using assms by (auto simp: rnd_def intro!: mult_right_mono rhe_mono divide_right_mono)
next
  case False
  then have "expo b x + 1 \<le> expo b y" using expo_mono[OF assms(1,3,4)] by simp
  then have "(of_nat b :: rat) powi (expo b x + 1) \<le> of_nat b powi expo b y"
    using assms(1) by (intro power_int_increasing) auto
  with rnd_between(2)[OF assms(1-3)] rnd_between(1)[OF assms(1,2), of y] assms(3,4)
  show ?thesis by linarith
qed

lemma rnd_mono:
  assumes "2 \<le> b" "0 < p" "x \<le> y"
  shows "rnd b p x \<le> rnd b p y"
proof -
  consider "0 < x" | "x \<le> 0" "0 \<le> y" | "y < 0" by linarith
  then show ?thesis
  proof cases
    case 1
    then show ?thesis using assms rnd_mono_pos by blast
  next
    case 2
    then have "0 \<le> rnd b p (- x)" "0 \<le> rnd b p y" using rnd_nonneg[OF assms(1)] by auto
    then show ?thesis by (simp add: rnd_minus)
  next
    case 3
    then have "rnd b p (- y) \<le> rnd b p (- x)" using assms rnd_mono_pos by auto
    then show ?thesis by (simp add: rnd_minus)
  qed
qed

lemma ulp_divides:
  assumes "2 \<le> b" "0 < p" "x = of_int m * of_nat b powi k" "\<bar>m\<bar> < int b ^ p" "x \<noteq> 0"
  shows "\<exists>j. x / ulp b p x = of_int j"
proof -
  let ?u = "expo b \<bar>x\<bar> - (int p - 1)"
  have x: "\<bar>x\<bar> = of_int \<bar>m\<bar> * of_nat b powi k"
    using assms by (simp add: abs_mult power_int_abs)
  have "(of_int \<bar>m\<bar> :: rat) < of_int (int b ^ p)" using assms(4) by (simp only: of_int_less_iff)
  then have "\<bar>x\<bar> < of_int (int b ^ p) * of_nat b powi k"
    unfolding x using powi_pos[OF assms(1), of k] by (rule mult_strict_right_mono)
  also have "\<dots> = of_nat b powi (int p + k)"
    using assms(1) by (subst power_int_add) auto
  finally have "of_nat b powi expo b \<bar>x\<bar> < (of_nat b :: rat) powi (int p + k)"
    using expo_bounds(1)[OF assms(1), of "\<bar>x\<bar>"] assms(5) by linarith
  then have "\<not> int p + k \<le> expo b \<bar>x\<bar>"
    using assms(1) power_int_increasing[of "int p + k" "expo b \<bar>x\<bar>" "of_nat b :: rat"]
    by (auto simp: not_le[symmetric])
  then have u: "?u \<le> k" by linarith
  have "x / ulp b p x = of_int m * (of_nat b powi k / of_nat b powi ?u)"
    by (simp add: assms(3)[symmetric] ulp_def)
  also have "of_nat b powi k / of_nat b powi ?u = (of_nat b :: rat) powi (k - ?u)"
    using assms(1) by (subst power_int_diff) auto
  also have "\<dots> = of_int (int b ^ nat (k - ?u))" using u assms(1) by (intro powi_of_int_pow) auto
  finally show ?thesis by (metis of_int_mult)
qed

text \<open>A number that needs at most \<open>p\<close> digits is not changed.\<close>

lemma rnd_exact:
  assumes "2 \<le> b" "0 < p" "x = of_int m * of_nat b powi k" "\<bar>m\<bar> < int b ^ p"
  shows "rnd b p x = x"
proof (cases "x = 0")
  case False
  from ulp_divides[OF assms False] obtain j where j: "x / ulp b p x = of_int j" ..
  then have "x = of_int j * ulp b p x" using ulp_pos[OF assms(1), of p x] by (simp add: field_simps)
  with j False show ?thesis by (simp add: rnd_def)
qed simp

lemma rnd_idem:
  assumes "2 \<le> b" "0 < p"
  shows "rnd b p (rnd b p x) = rnd b p x"
proof -
  have pos: "rnd b p (rnd b p x) = rnd b p x" if "0 < x" for x
  proof (cases "rnd b p x = of_nat b powi (expo b x + 1)")
    case True
    have "\<bar>1 :: int\<bar> < int b ^ p" using assms by (simp add: one_less_power)
    then have "rnd b p (of_nat b powi (expo b x + 1)) = of_nat b powi (expo b x + 1)"
      using rnd_exact[OF assms, of _ 1 "expo b x + 1"] by simp
    with True show ?thesis by simp
  next
    case False
    with rnd_between[OF assms that] have lt: "rnd b p x < of_nat b powi (expo b x + 1)" by simp
    then have "expo b (rnd b p x) = expo b x"
      using expo_unique[OF assms(1)] rnd_between(1)[OF assms that] by blast
    then have "ulp b p (rnd b p x) = ulp b p x"
      using that rnd_nonneg[OF assms(1), of x p] by (simp add: ulp_def)
    moreover have "rnd b p x = of_int (rhe (x / ulp b p x)) * ulp b p x"
      using that by (simp add: rnd_def)
    moreover have "0 < ulp b p x" by (rule ulp_pos[OF assms(1)])
    ultimately have "rnd b p x / ulp b p (rnd b p x) = of_int (rhe (x / ulp b p x))" by simp
    with \<open>ulp b p (rnd b p x) = ulp b p x\<close> show ?thesis
      by (subst rnd_def) (simp add: \<open>rnd b p x = of_int (rhe (x / ulp b p x)) * ulp b p x\<close>)
  qed
  consider "x = 0" | "0 < x" | "x < 0" by linarith
  then show ?thesis
  proof cases
    case 3
    then show ?thesis using pos[of "- x"] by (simp add: rnd_minus)
  qed (use pos in auto)
qed

end
