(* ===== verification/PyNum.thy ===== *)
theory PyNum
  imports Rounding
begin

text \<open>
  Python's numbers. \<open>float\<close> values are the rationals a double holds; \<open>fl\<close> rounds an exact
  result to one (53 binary digits, half to even). \<open>Decimal\<close> values are exact rationals whose
  operations round to the default context's 28 digits (\<open>dctx\<close>). The exponent range is not
  bounded: overflow, subnormals, infinities and NaN are outside the model, far from any
  amount that fits the program's \<open>Numeric(15, 2)\<close> columns. The digits a \<open>Decimal\<close> prints
  (trailing zeros) are not kept.

  \<open>num\<close> keeps the run-time type, because mixing \<open>float\<close> and \<open>Decimal\<close> in arithmetic raises
  \<open>TypeError\<close> while comparing them is exact, and both happen in the program.
\<close>

section \<open>Exceptions and message text\<close>

datatype num = PInt int | PFlt rat | PDec rat

datatype msgpart = Txt string | Num num

type_synonym pytext = "msgpart list"

datatype exn =
    ValueError pytext
  | TypeError
  | KeyError
  | HTTPError nat string
  | NameError string
  | AuthError string string
  | TotpRequired

text \<open>\<open>scalar_one_or_none()\<close>: no row, one row, or an exception.\<close>

definition at_most_one :: "'a list \<Rightarrow> exn + 'a option" where
  "at_most_one xs = (case xs of [] \<Rightarrow> Inr None | [x] \<Rightarrow> Inr (Some x)
     | _ \<Rightarrow> Inl (ValueError [Txt ''MultipleResultsFound'']))"

lemma at_most_one_simps:
  "at_most_one xs = Inr None \<longleftrightarrow> xs = []" "at_most_one xs = Inr (Some x) \<longleftrightarrow> xs = [x]"
  by (auto simp: at_most_one_def split: list.splits)

lemma at_most_one_Nil [simp]: "at_most_one [] = Inr None"
  by (simp add: at_most_one_def)

section \<open>Correct rounding as an interface\<close>

locale correct_rounding =
  fixes r :: "rat \<Rightarrow> rat" and u :: rat
  assumes r_minus: "r (- x) = - r x"
    and r_mono: "x \<le> y \<Longrightarrow> r x \<le> r y"
    and r_idem: "r (r x) = r x"
    and r_err: "\<bar>r x - x\<bar> \<le> u * \<bar>x\<bar>"
    and u_small: "0 \<le> u" "u \<le> 1 / 4"
begin

lemma r_zero [simp]: "r 0 = 0"
  using r_minus[of 0] by simp

lemma r_nonneg: "0 \<le> x \<Longrightarrow> 0 \<le> r x"
  using r_mono[of 0 x] by simp

lemma r_nonpos: "x \<le> 0 \<Longrightarrow> r x \<le> 0"
  using r_mono[of x 0] by simp

lemma r_abs: "\<bar>r x\<bar> = r \<bar>x\<bar>"
  using r_nonneg[of x] r_nonpos[of x] by (cases "0 \<le> x") (simp_all add: r_minus)

lemma r_abs_le: "\<bar>r x\<bar> \<le> (1 + u) * \<bar>x\<bar>"
  using r_err[of x] by (simp add: algebra_simps; linarith)

lemma r_abs_ge: "(1 - u) * \<bar>x\<bar> \<le> \<bar>r x\<bar>"
  using r_err[of x] by (simp add: algebra_simps; linarith)

lemma r_err_le: "\<bar>x\<bar> \<le> B \<Longrightarrow> \<bar>r x - x\<bar> \<le> u * B"
  using r_err[of x] mult_left_mono[of "\<bar>x\<bar>" B u] u_small(1) by linarith

lemma r_abs_le2: "\<bar>x\<bar> \<le> B \<Longrightarrow> \<bar>r x\<bar> \<le> 2 * B"
  using r_abs_le[of x] mult_mono[of "1 + u" 2 "\<bar>x\<bar>" B] u_small by linarith

lemma r_pos_iff: "0 < r x \<longleftrightarrow> 0 < x"
proof
  assume "0 < x"
  then have "0 < (1 - u) * \<bar>x\<bar>" using u_small by simp
  then show "0 < r x" using r_abs_ge[of x] r_nonneg[of x] \<open>0 < x\<close> by simp
next
  assume "0 < r x"
  then show "0 < x" using r_nonpos[of x] by (meson not_le)
qed

end

definition fl :: "rat \<Rightarrow> rat" where
  "fl x = rnd 2 53 x"

definition dctx :: "rat \<Rightarrow> rat" where
  "dctx x = rnd 10 28 x"

abbreviation eps :: rat where
  "eps \<equiv> 1 / 9007199254740992"

interpretation flt: correct_rounding fl eps
proof
  show "\<bar>fl x - x\<bar> \<le> eps * \<bar>x\<bar>" for x
    using rnd_rel_err[of 2 53 x] by (simp add: fl_def power_int_minus_divide)
qed (simp_all add: fl_def rnd_minus rnd_mono rnd_idem)

interpretation dec: correct_rounding dctx "1 / 10 ^ 27"
proof
  show "\<bar>dctx x - x\<bar> \<le> 1 / 10 ^ 27 * \<bar>x\<bar>" for x
    using rnd_rel_err[of 10 28 x] by (simp add: dctx_def power_int_minus_divide)
qed (simp_all add: dctx_def rnd_minus rnd_mono rnd_idem)

text \<open>Integers below \<open>2 ^ 53\<close>, and two-decimal numbers below \<open>10 ^ 26\<close>, are exact.\<close>

lemma fl_of_int: "\<bar>k\<bar> < 2 ^ 53 \<Longrightarrow> fl (of_int k) = of_int k"
  unfolding fl_def by (rule rnd_exact[where m = k and k = 0]) auto

lemma dctx_cents: "\<bar>k\<bar> < 10 ^ 28 \<Longrightarrow> dctx (of_int k / 100) = of_int k / 100"
  unfolding dctx_def
  by (rule rnd_exact[where m = k and k = "-2"]) (auto simp: power_int_minus_divide)

text \<open>The double nearest to a number, by its 53-digit integer \<open>m\<close>.\<close>

lemma fl_eqI:
  assumes "2 ^ 52 \<le> x * 2 ^ n" "x * 2 ^ n < 2 ^ 53" "\<bar>x * 2 ^ n - of_int m\<bar> < 1 / 2"
  shows "fl x = of_int m / 2 ^ n"
proof -
  have x: "0 < x" using assms(1) by (meson le_less_trans linorder_not_le mult_nonpos_nonneg not_less zero_le_numeral zero_le_power zero_less_power zero_less_numeral order_less_le_trans)
  have e: "expo 2 \<bar>x\<bar> = 52 - int n"
  proof (rule expo_unique)
    show "of_nat 2 powi (52 - int n) \<le> \<bar>x\<bar>" "\<bar>x\<bar> < of_nat 2 powi (52 - int n + 1)"
      using assms(1,2) x by (simp_all add: power_int_diff power_int_add field_simps)
  qed simp
  have u: "ulp 2 53 x = 1 / 2 ^ n"
    by (simp add: ulp_def e power_int_minus_divide)
  then have "rhe (x / ulp 2 53 x) = m" using assms(3) by (intro rhe_unique) simp
  then show ?thesis using x by (simp add: fl_def rnd_def u)
qed

section \<open>\<open>round(x, 2)\<close> and \<open>quantize\<close>\<close>

text \<open>
  \<open>round\<close> on a float rounds the exact value of the double half to even and returns the
  nearest double of the decimal result.
\<close>

definition round2 :: "rat \<Rightarrow> rat" where
  "round2 x = fl (of_int (rhe (x * 100)) / 100)"

definition round_n :: "nat \<Rightarrow> rat \<Rightarrow> rat" where
  "round_n n x = fl (of_int (rhe (x * 10 ^ n)) / 10 ^ n)"

definition quant2_half_up :: "rat \<Rightarrow> rat" where
  "quant2_half_up d = of_int (rhu (d * 100)) / 100"

definition quant2_half_even :: "rat \<Rightarrow> rat" where
  "quant2_half_even d = of_int (rhe (d * 100)) / 100"

section \<open>\<open>Decimal(str(x))\<close>\<close>

text \<open>
  \<open>str\<close> of a float is the shortest decimal that rounds to it, the nearest one where there
  are several. With \<open>n\<close> digits the candidates are the two neighbours of \<open>x\<close>; 17 digits
  always suffice.
\<close>

definition repr_pick :: "nat \<Rightarrow> rat \<Rightarrow> rat option" where
  "repr_pick n x =
     (let q = ulp 10 n x; lo = of_int \<lfloor>x / q\<rfloor> * q; hi = of_int \<lceil>x / q\<rceil> * q
      in if fl lo = x \<and> fl hi = x then Some (of_int (rhe (x / q)) * q)
         else if fl lo = x then Some lo
         else if fl hi = x then Some hi
         else None)"

function repr_from :: "nat \<Rightarrow> rat \<Rightarrow> rat" where
  "repr_from n x =
     (if 17 \<le> n then rnd 10 17 x
      else case repr_pick n x of Some d \<Rightarrow> d | None \<Rightarrow> repr_from (Suc n) x)"
  by pat_completeness auto
termination
  by (relation "measure (\<lambda>(n, x). 17 - n)") auto

declare repr_from.simps [simp del]

definition flt_repr :: "rat \<Rightarrow> rat" where
  "flt_repr x = (if x = 0 then 0 else repr_from 1 x)"

lemma rhe_floor_or_ceiling: "rhe x = \<lfloor>x\<rfloor> \<or> rhe x = \<lceil>x\<rceil>"
proof (cases "x = of_int \<lfloor>x\<rfloor>")
  case True
  then show ?thesis by (metis rhe_of_int)
next
  case False
  then have "\<lceil>x\<rceil> = \<lfloor>x\<rfloor> + 1" by (simp add: ceiling_altdef)
  then show ?thesis by (auto simp: rhe_def Let_def)
qed

lemma repr_pick_SomeD:
  assumes "repr_pick n x = Some c"
  shows "fl c = x" "\<exists>m. c = of_int m * ulp 10 n x"
proof -
  let ?q = "ulp 10 n x"
  have "rhe (x / ?q) = \<lfloor>x / ?q\<rfloor> \<or> rhe (x / ?q) = \<lceil>x / ?q\<rceil>"
    by (rule rhe_floor_or_ceiling)
  with assms have "fl c = x \<and> (c = of_int \<lfloor>x / ?q\<rfloor> * ?q \<or> c = of_int \<lceil>x / ?q\<rceil> * ?q)"
    unfolding repr_pick_def Let_def by (elim disjE) (simp_all split: if_splits)
  then show "fl c = x" "\<exists>m. c = of_int m * ?q" by blast+
qed

lemma repr_pick_NoneD:
  assumes "repr_pick n x = None"
  shows "fl (of_int \<lfloor>x / ulp 10 n x\<rfloor> * ulp 10 n x) \<noteq> x"
    "fl (of_int \<lceil>x / ulp 10 n x\<rceil> * ulp 10 n x) \<noteq> x"
  using assms unfolding repr_pick_def Let_def by (simp_all split: if_splits)

section \<open>Decimals of at most 15 digits survive the trip through a float\<close>

text \<open>
  Two multiples of the unit of the 15th digit that round to the same double are equal: the
  doubles are closer together than those decimals.
\<close>

lemma near_multiples_eq:
  assumes g: "0 < g" and c: "c = of_int i * g" "fl c = x" and d: "d = of_int j * g" "fl d = x"
    and x: "\<bar>x\<bar> < 1000000000000000 * g"
  shows "c = d"
proof -
  have near: "\<bar>y\<bar> * (1 - eps) < 1000000000000000 * g" if "fl y = x" for y
    using flt.r_abs_ge[of y] x that by (simp add: mult.commute)
  have "\<bar>c\<bar> < 2000000000000000 * g" "\<bar>d\<bar> < 2000000000000000 * g"
    using near[OF c(2)] near[OF d(2)] g by (simp_all add: algebra_simps)
  moreover have "\<bar>x - c\<bar> \<le> eps * \<bar>c\<bar>" "\<bar>x - d\<bar> \<le> eps * \<bar>d\<bar>"
    using flt.r_err[of c] flt.r_err[of d] c(2) d(2) by simp_all
  ultimately have "\<bar>c - d\<bar> < g" by linarith
  then have "\<bar>of_int (i - j)\<bar> * g < 1 * g" using g by (simp add: c(1) d(1) abs_mult flip: left_diff_distrib)
  then have "\<bar>of_int (i - j) :: rat\<bar> < 1" using g by simp
  then have "i = j" by (metis abs_less_iff of_int_abs of_int_less_1_iff zero_less_abs_iff
      eq_iff_diff_eq_0 int_one_le_iff_zero_less not_le)
  then show ?thesis by (simp add: c(1) d(1))
qed

lemma ulp10_multiple:
  assumes "n \<le> n'"
  shows "\<exists>m. ulp 10 n x = of_int m * ulp 10 n' x"
proof -
  have "ulp 10 n x = 10 powi int (n' - n) * ulp 10 n' x"
    using assms unfolding ulp_def by (subst of_nat_numeral, subst of_nat_numeral,
      subst power_int_add[symmetric]) (simp_all add: of_nat_diff algebra_simps)
  then show ?thesis by (intro exI[of _ "10 ^ (n' - n)"]) simp
qed

lemma repr_from_15:
  assumes fld: "fl d = x" and x: "x \<noteq> 0" and d: "d = of_int j * ulp 10 15 x"
    and near: "\<bar>d - x\<bar> < ulp 10 15 x" and n: "n \<le> 15"
  shows "repr_from n x = d"
  using n
proof (induction "15 - n" arbitrary: n)
  let ?g = "ulp 10 15 x"
  have g: "0 < ?g" by (simp add: ulp_pos)
  have "\<bar>x\<bar> / ulp 10 15 \<bar>x\<bar> < of_int (int 10 ^ 15)"
    by (rule scaled_bounds(2)) (use x in auto)
  then have bound: "\<bar>x\<bar> < 1000000000000000 * ?g" using g by (simp add: ulp_def field_simps)
  have pick: "c = d" if c: "repr_pick m x = Some c" and m: "m \<le> 15" for c m
  proof -
    from ulp10_multiple[OF m, of x] repr_pick_SomeD(2)[OF c] obtain i where "c = of_int i * ?g"
      by (metis mult.assoc of_int_mult)
    then show ?thesis
      using near_multiples_eq[OF g _ repr_pick_SomeD(1)[OF c] d fld bound] by blast
  qed
  {
    case 0
    then have n: "n = 15" by simp
    have "repr_pick 15 x \<noteq> None"
    proof
      assume none: "repr_pick 15 x = None"
      have "(of_int j - x / ?g) * ?g = d - x" using g by (simp add: d left_diff_distrib)
      then have "\<bar>of_int j - x / ?g\<bar> * ?g < 1 * ?g"
        using near g by (metis abs_mult abs_of_pos mult_1)
      then have "\<bar>of_int j - x / ?g\<bar> < 1" using g by simp
      then have "j = \<lfloor>x / ?g\<rfloor> \<or> j = \<lceil>x / ?g\<rceil>" by linarith
      then show False using repr_pick_NoneD[OF none] fld d by auto
    qed
    then show ?case using pick[of 15] by (auto simp: n repr_from.simps[of 15])
  next
    case (Suc k)
    then have "repr_from (Suc n) x = d" by auto
    then show ?case using Suc.prems pick[of n]
      by (auto simp: repr_from.simps[of n] split: option.splits)
  }
qed

lemma flt_repr_cents:
  assumes "\<bar>k\<bar> < 10 ^ 15"
  shows "flt_repr (fl (of_int k / 100)) = of_int k / 100"
proof (cases "k = 0")
  case True
  then show ?thesis by (simp add: flt_repr_def)
next
  case False
  define d where "d = (of_int k / 100 :: rat)"
  define x where "x = fl d"
  let ?e = "expo 10 \<bar>x\<bar>"
  have "\<bar>k\<bar> \<le> 999999999999999" using assms by simp
  then have "(of_int \<bar>k\<bar> :: rat) \<le> of_int 999999999999999" by (simp only: of_int_le_iff)
  then have d: "\<bar>d\<bar> \<le> 999999999999999 / 100" "d \<noteq> 0" using False by (simp_all add: d_def)
  have err: "\<bar>x - d\<bar> \<le> eps * \<bar>d\<bar>" unfolding x_def by (rule flt.r_err)
  have x0: "x \<noteq> 0" using err d(2) by auto
  have xb: "\<bar>x\<bar> < 10000000000000" using err d by linarith
  have lo: "10 powi ?e \<le> \<bar>x\<bar>" and hi: "\<bar>x\<bar> < 10 powi (?e + 1)"
    using expo_bounds[of 10 "\<bar>x\<bar>"] x0 by auto
  have "\<not> 13 \<le> ?e"
    using lo xb power_int_increasing[of 13 ?e "10 :: rat"] by auto
  then have e: "?e \<le> 12" by simp
  have "d = of_int k * 10 powi (- 2)" by (simp add: d_def power_int_minus_divide)
  also have "(10 :: rat) powi (- 2) = 10 powi (12 - ?e) * 10 powi (?e - 14)"
    by (subst power_int_add[symmetric]) auto
  also have "(10 :: rat) powi (12 - ?e) = of_int (10 ^ nat (12 - ?e))"
    using e powi_of_int_pow[of 10 "12 - ?e"] by simp
  finally have dj: "d = of_int (k * 10 ^ nat (12 - ?e)) * ulp 10 15 x"
    by (simp add: ulp_def)
  have "10 powi (?e + 1) = 1000000000000000 * ulp 10 15 x"
    using pow_mult_ulp[of 10 "\<bar>x\<bar>" 15 15] x0 by (simp add: ulp_def)
  with hi have "\<bar>x\<bar> < 1000000000000000 * ulp 10 15 x" by simp
  with err have "\<bar>d - x\<bar> < ulp 10 15 x" by linarith
  then have "repr_from 1 x = d"
    by (intro repr_from_15[OF _ x0 dj]) (simp_all add: x_def)
  then show ?thesis using x0 by (simp add: flt_repr_def x_def d_def)
qed

section \<open>Arithmetic on run-time numbers\<close>

fun nval :: "num \<Rightarrow> rat" where
  "nval (PInt i) = of_int i"
| "nval (PFlt x) = x"
| "nval (PDec d) = d"

text \<open>\<open>float(x)\<close>; the conversion of an integer or a decimal is correctly rounded.\<close>

fun py_float :: "num \<Rightarrow> rat" where
  "py_float (PInt i) = fl (of_int i)"
| "py_float (PFlt x) = x"
| "py_float (PDec d) = fl d"

text \<open>\<open>Decimal(str(x))\<close>; constructing a decimal from a string does not round.\<close>

fun dec_of_str :: "num \<Rightarrow> rat" where
  "dec_of_str (PInt i) = of_int i"
| "dec_of_str (PFlt x) = flt_repr x"
| "dec_of_str (PDec d) = d"

text \<open>\<open>bool(x)\<close>: zero is falsy; so is \<open>None\<close> for an optional number.\<close>

definition num_truthy :: "num \<Rightarrow> bool" where
  "num_truthy x \<longleftrightarrow> nval x \<noteq> 0"

definition num_or_zero :: "num option \<Rightarrow> num" where
  "num_or_zero x = (case x of None \<Rightarrow> PInt 0 | Some v \<Rightarrow> if num_truthy v then v else PInt 0)"

text \<open>
  A binary operation: integers combine with either kind; a float with a decimal is a
  \<open>TypeError\<close>.
\<close>

fun py_arith :: "(rat \<Rightarrow> rat \<Rightarrow> rat) \<Rightarrow> (int \<Rightarrow> int \<Rightarrow> int) \<Rightarrow> num \<Rightarrow> num \<Rightarrow> exn + num" where
  "py_arith f g (PInt i) (PInt j) = Inr (PInt (g i j))"
| "py_arith f g (PInt i) (PFlt y) = Inr (PFlt (fl (f (fl (of_int i)) y)))"
| "py_arith f g (PFlt x) (PInt j) = Inr (PFlt (fl (f x (fl (of_int j)))))"
| "py_arith f g (PFlt x) (PFlt y) = Inr (PFlt (fl (f x y)))"
| "py_arith f g (PInt i) (PDec e) = Inr (PDec (dctx (f (of_int i) e)))"
| "py_arith f g (PDec d) (PInt j) = Inr (PDec (dctx (f d (of_int j))))"
| "py_arith f g (PDec d) (PDec e) = Inr (PDec (dctx (f d e)))"
| "py_arith f g (PFlt x) (PDec e) = Inl TypeError"
| "py_arith f g (PDec d) (PFlt y) = Inl TypeError"

definition py_add :: "num \<Rightarrow> num \<Rightarrow> exn + num" where
  "py_add = py_arith (+) (+)"

definition py_sub :: "num \<Rightarrow> num \<Rightarrow> exn + num" where
  "py_sub = py_arith (-) (-)"

definition py_mul :: "num \<Rightarrow> num \<Rightarrow> exn + num" where
  "py_mul = py_arith (*) (*)"

text \<open>Comparison is exact between all three kinds.\<close>

definition py_lt :: "num \<Rightarrow> num \<Rightarrow> bool" where
  "py_lt x y \<longleftrightarrow> nval x < nval y"

definition py_le :: "num \<Rightarrow> num \<Rightarrow> bool" where
  "py_le x y \<longleftrightarrow> nval x \<le> nval y"

text \<open>\<open>max(a, b)\<close> returns the first argument unless the second is greater.\<close>

definition py_max :: "num \<Rightarrow> num \<Rightarrow> num" where
  "py_max x y = (if py_lt x y then y else x)"

text \<open>Addition, subtraction and multiplication of decimals.\<close>

definition dadd :: "rat \<Rightarrow> rat \<Rightarrow> rat" where
  "dadd d e = dctx (d + e)"

definition dsub :: "rat \<Rightarrow> rat \<Rightarrow> rat" where
  "dsub d e = dctx (d - e)"

definition dmul :: "rat \<Rightarrow> rat \<Rightarrow> rat" where
  "dmul d e = dctx (d * e)"

definition ddiv :: "rat \<Rightarrow> rat \<Rightarrow> rat" where
  "ddiv d e = dctx (d / e)"

text \<open>Float addition, subtraction, multiplication and division.\<close>

definition fadd :: "rat \<Rightarrow> rat \<Rightarrow> rat" where
  "fadd x y = fl (x + y)"

definition fsub :: "rat \<Rightarrow> rat \<Rightarrow> rat" where
  "fsub x y = fl (x - y)"

definition fmul :: "rat \<Rightarrow> rat \<Rightarrow> rat" where
  "fmul x y = fl (x * y)"

definition fdiv :: "rat \<Rightarrow> rat \<Rightarrow> rat" where
  "fdiv x y = fl (x / y)"

lemmas num_defs [num_simps] =
  py_add_def py_sub_def py_mul_def py_lt_def py_le_def
  dadd_def dsub_def dmul_def ddiv_def fadd_def fsub_def fmul_def fdiv_def

lemma dec_of_str_PDec [simp]: "dec_of_str (PDec d) = d"
  by simp

lemma nval_num_or_zero [simp]:
  "nval (num_or_zero (Some v)) = nval v" "nval (num_or_zero None) = 0"
  by (simp_all add: num_or_zero_def num_truthy_def)

section \<open>\<open>sum\<close> of floats\<close>

text \<open>
  Since CPython 3.12 \<open>sum\<close> of floats is compensated (Neumaier's variant of Kahan's
  algorithm); the project requires 3.14. The state is the running sum and the
  accumulated low-order part.
\<close>

definition csum_step :: "rat \<times> rat \<Rightarrow> rat \<Rightarrow> rat \<times> rat" where
  "csum_step s x = (let hi = fst s; t = fadd hi x
     in (t, fadd (snd s) (if \<bar>x\<bar> \<le> \<bar>hi\<bar> then fadd (fsub hi t) x else fadd (fsub x t) hi)))"

definition py_fsum :: "rat list \<Rightarrow> rat" where
  "py_fsum xs = (case xs of [] \<Rightarrow> 0
     | x # ys \<Rightarrow> (let s = foldl csum_step (x, 0) ys
         in if snd s = 0 then fst s else fadd (fst s) (snd s)))"

end
