(* ===== verification/Events.thy ===== *)
theory Events
  imports PyNum
begin

text \<open>
  \<open>app/common/events\<close>: the event names, the envelope, the outbox row and the conversion of a
  staged write to a row; and the event constructors of every domain
  (\<open>app/*/events.py\<close>). The identifier and the time of an envelope, which the code draws from
  \<open>uuid4()\<close> and the clock, are the first two arguments of each constructor.

  A payload is a JSON object. \<open>JStrOf x\<close> is the string \<open>str(x)\<close> of a number, which is how the
  program sends quantities and amounts.
\<close>

section \<open>JSON values\<close>

datatype json =
    JNull
  | JBool bool
  | JStr string
  | JNum num
  | JStrOf num
  | JList "json list"
  | JObj "(string \<times> json) list"

type_synonym payload = "(string \<times> json) list"

definition jopt :: "string option \<Rightarrow> json" where
  "jopt s = (case s of None \<Rightarrow> JNull | Some x \<Rightarrow> JStr x)"

definition jint :: "int \<Rightarrow> json" where
  "jint i = JNum (PInt i)"

text \<open>\<open>payload.get(key)\<close>: a missing key and an explicit \<open>None\<close> are both \<open>JNull\<close>.\<close>

definition jget :: "payload \<Rightarrow> string \<Rightarrow> json" where
  "jget p k = (case map_of p k of None \<Rightarrow> JNull | Some v \<Rightarrow> v)"

fun json_truthy :: "json \<Rightarrow> bool" where
  "json_truthy JNull = False"
| "json_truthy (JBool b) = b"
| "json_truthy (JStr s) = (s \<noteq> [])"
| "json_truthy (JNum x) = num_truthy x"
| "json_truthy (JStrOf x) = True"
| "json_truthy (JList xs) = (xs \<noteq> [])"
| "json_truthy (JObj kvs) = (kvs \<noteq> [])"

lemma jget_simps [simp]:
  "jget [] k = JNull"
  "jget ((k', v) # p) k = (if k = k' then v else jget p k)"
  by (simp_all add: jget_def)

section \<open>Event names\<close>

text \<open>\<open>app/common/events/names.py\<close>.\<close>

definition TENANT_CREATED :: string where
  "TENANT_CREATED = ''tenancy.tenant_created''"

definition TENANT_TIER_CHANGED :: string where
  "TENANT_TIER_CHANGED = ''tenancy.tier_changed''"

definition TENANT_SUSPENDED :: string where
  "TENANT_SUSPENDED = ''tenancy.tenant_suspended''"

definition TENANT_REACTIVATED :: string where
  "TENANT_REACTIVATED = ''tenancy.tenant_reactivated''"

definition IDENTITY_USER_CREATED :: string where
  "IDENTITY_USER_CREATED = ''identity.user_created''"

definition IDENTITY_USER_LOGGED_IN :: string where
  "IDENTITY_USER_LOGGED_IN = ''identity.user_logged_in''"

definition IDENTITY_ROLE_CHANGED :: string where
  "IDENTITY_ROLE_CHANGED = ''identity.role_changed''"

definition IDENTITY_SESSION_REVOKED :: string where
  "IDENTITY_SESSION_REVOKED = ''identity.session_revoked''"

definition CATALOG_PRODUCT_CREATED :: string where
  "CATALOG_PRODUCT_CREATED = ''catalog.product_created''"

definition CATALOG_PRODUCT_UPDATED :: string where
  "CATALOG_PRODUCT_UPDATED = ''catalog.product_updated''"

definition CATALOG_PRODUCT_DELETED :: string where
  "CATALOG_PRODUCT_DELETED = ''catalog.product_deleted''"

definition CATALOG_PRODUCT_QR_GENERATED :: string where
  "CATALOG_PRODUCT_QR_GENERATED = ''catalog.product_qr_generated''"

definition CATALOG_PRICE_CHANGED :: string where
  "CATALOG_PRICE_CHANGED = ''catalog.price_changed''"

definition CART_CREATED :: string where
  "CART_CREATED = ''cart.created''"

definition CART_ITEM_ADDED :: string where
  "CART_ITEM_ADDED = ''cart.item_added''"

definition CART_ITEM_REMOVED :: string where
  "CART_ITEM_REMOVED = ''cart.item_removed''"

definition CART_CHECKED_OUT :: string where
  "CART_CHECKED_OUT = ''cart.checked_out''"

definition CART_ABANDONED :: string where
  "CART_ABANDONED = ''cart.abandoned''"

definition INVENTORY_STOCK_ADJUSTED :: string where
  "INVENTORY_STOCK_ADJUSTED = ''inventory.stock_adjusted''"

definition INVENTORY_STOCK_RESERVED :: string where
  "INVENTORY_STOCK_RESERVED = ''inventory.stock_reserved''"

definition INVENTORY_STOCK_RELEASED :: string where
  "INVENTORY_STOCK_RELEASED = ''inventory.stock_released''"

definition INVENTORY_STOCK_COMMITTED :: string where
  "INVENTORY_STOCK_COMMITTED = ''inventory.stock_committed''"

definition INVENTORY_LOW_STOCK_DETECTED :: string where
  "INVENTORY_LOW_STOCK_DETECTED = ''inventory.low_stock_detected''"

definition INVENTORY_TRANSFER_REQUESTED :: string where
  "INVENTORY_TRANSFER_REQUESTED = ''inventory.transfer_requested''"

definition INVENTORY_TRANSFER_APPROVED :: string where
  "INVENTORY_TRANSFER_APPROVED = ''inventory.transfer_approved''"

definition INVENTORY_TRANSFER_REJECTED :: string where
  "INVENTORY_TRANSFER_REJECTED = ''inventory.transfer_rejected''"

definition INVENTORY_TRANSFER_FULFILLED :: string where
  "INVENTORY_TRANSFER_FULFILLED = ''inventory.transfer_fulfilled''"

definition INVENTORY_DISTRIBUTION_DISPATCHED :: string where
  "INVENTORY_DISTRIBUTION_DISPATCHED = ''inventory.distribution_dispatched''"

definition INVENTORY_DISTRIBUTION_RECEIVED :: string where
  "INVENTORY_DISTRIBUTION_RECEIVED = ''inventory.distribution_received''"

definition INVENTORY_DISTRIBUTION_CANCELLED :: string where
  "INVENTORY_DISTRIBUTION_CANCELLED = ''inventory.distribution_cancelled''"

definition SALE_CREATED :: string where
  "SALE_CREATED = ''sales.sale_created''"

definition SALE_CONFIRMED :: string where
  "SALE_CONFIRMED = ''sales.sale_confirmed''"

definition SALE_VOIDED :: string where
  "SALE_VOIDED = ''sales.sale_voided''"

definition SALE_RETURNED :: string where
  "SALE_RETURNED = ''sales.sale_returned''"

definition SALE_RECEIPT_CREATED :: string where
  "SALE_RECEIPT_CREATED = ''sales.receipt_created''"

definition PAYMENT_INTENT_CREATED :: string where
  "PAYMENT_INTENT_CREATED = ''payment.intent_created''"

definition PAYMENT_SUCCEEDED :: string where
  "PAYMENT_SUCCEEDED = ''payment.succeeded''"

definition PAYMENT_FAILED :: string where
  "PAYMENT_FAILED = ''payment.failed''"

definition PAYMENT_REVERSED :: string where
  "PAYMENT_REVERSED = ''payment.reversed''"

definition PAYMENT_DISPUTE_CREATED :: string where
  "PAYMENT_DISPUTE_CREATED = ''payment.dispute_created''"

definition TERMINAL_CREATE_REQUESTED :: string where
  "TERMINAL_CREATE_REQUESTED = ''terminal.create_requested''"

definition TERMINAL_CREATED :: string where
  "TERMINAL_CREATED = ''terminal.created''"

definition TERMINAL_CREATION_FAILED :: string where
  "TERMINAL_CREATION_FAILED = ''terminal.creation_failed''"

definition TERMINAL_DISABLED :: string where
  "TERMINAL_DISABLED = ''terminal.disabled''"

definition TERMINAL_DESTINATION_UPDATED :: string where
  "TERMINAL_DESTINATION_UPDATED = ''terminal.destination_updated''"

definition ACCOUNTING_JOURNAL_POSTED :: string where
  "ACCOUNTING_JOURNAL_POSTED = ''accounting.journal_posted''"

definition ACCOUNTING_JOURNAL_FAILED :: string where
  "ACCOUNTING_JOURNAL_FAILED = ''accounting.journal_failed''"

definition NOTIFICATION_SENT :: string where
  "NOTIFICATION_SENT = ''notification.sent''"

definition NOTIFICATION_FAILED :: string where
  "NOTIFICATION_FAILED = ''notification.failed''"

definition REPORTING_PROJECTION_UPDATED :: string where
  "REPORTING_PROJECTION_UPDATED = ''reporting.projection_updated''"

definition STORE_CREATED :: string where
  "STORE_CREATED = ''stores.store_created''"

definition STORE_UPDATED :: string where
  "STORE_UPDATED = ''stores.store_updated''"

definition DOCUMENT_CREATED :: string where
  "DOCUMENT_CREATED = ''documents.document_created''"

definition DOCUMENT_STATUS_CHANGED :: string where
  "DOCUMENT_STATUS_CHANGED = ''documents.status_changed''"

definition DOCUMENT_CONVERTED_TO_SALE :: string where
  "DOCUMENT_CONVERTED_TO_SALE = ''documents.converted_to_sale''"

definition event_names :: "string list" where
  "event_names = [TENANT_CREATED,
    TENANT_TIER_CHANGED,
    TENANT_SUSPENDED,
    TENANT_REACTIVATED,
    IDENTITY_USER_CREATED,
    IDENTITY_USER_LOGGED_IN,
    IDENTITY_ROLE_CHANGED,
    IDENTITY_SESSION_REVOKED,
    CATALOG_PRODUCT_CREATED,
    CATALOG_PRODUCT_UPDATED,
    CATALOG_PRODUCT_DELETED,
    CATALOG_PRODUCT_QR_GENERATED,
    CATALOG_PRICE_CHANGED,
    CART_CREATED,
    CART_ITEM_ADDED,
    CART_ITEM_REMOVED,
    CART_CHECKED_OUT,
    CART_ABANDONED,
    INVENTORY_STOCK_ADJUSTED,
    INVENTORY_STOCK_RESERVED,
    INVENTORY_STOCK_RELEASED,
    INVENTORY_STOCK_COMMITTED,
    INVENTORY_LOW_STOCK_DETECTED,
    INVENTORY_TRANSFER_REQUESTED,
    INVENTORY_TRANSFER_APPROVED,
    INVENTORY_TRANSFER_REJECTED,
    INVENTORY_TRANSFER_FULFILLED,
    INVENTORY_DISTRIBUTION_DISPATCHED,
    INVENTORY_DISTRIBUTION_RECEIVED,
    INVENTORY_DISTRIBUTION_CANCELLED,
    SALE_CREATED,
    SALE_CONFIRMED,
    SALE_VOIDED,
    SALE_RETURNED,
    SALE_RECEIPT_CREATED,
    PAYMENT_INTENT_CREATED,
    PAYMENT_SUCCEEDED,
    PAYMENT_FAILED,
    PAYMENT_REVERSED,
    PAYMENT_DISPUTE_CREATED,
    TERMINAL_CREATE_REQUESTED,
    TERMINAL_CREATED,
    TERMINAL_CREATION_FAILED,
    TERMINAL_DISABLED,
    TERMINAL_DESTINATION_UPDATED,
    ACCOUNTING_JOURNAL_POSTED,
    ACCOUNTING_JOURNAL_FAILED,
    NOTIFICATION_SENT,
    NOTIFICATION_FAILED,
    REPORTING_PROJECTION_UPDATED,
    STORE_CREATED,
    STORE_UPDATED,
    DOCUMENT_CREATED,
    DOCUMENT_STATUS_CHANGED,
    DOCUMENT_CONVERTED_TO_SALE]"

lemmas event_name_defs =
  TENANT_CREATED_def
  TENANT_TIER_CHANGED_def
  TENANT_SUSPENDED_def
  TENANT_REACTIVATED_def
  IDENTITY_USER_CREATED_def
  IDENTITY_USER_LOGGED_IN_def
  IDENTITY_ROLE_CHANGED_def
  IDENTITY_SESSION_REVOKED_def
  CATALOG_PRODUCT_CREATED_def
  CATALOG_PRODUCT_UPDATED_def
  CATALOG_PRODUCT_DELETED_def
  CATALOG_PRODUCT_QR_GENERATED_def
  CATALOG_PRICE_CHANGED_def
  CART_CREATED_def
  CART_ITEM_ADDED_def
  CART_ITEM_REMOVED_def
  CART_CHECKED_OUT_def
  CART_ABANDONED_def
  INVENTORY_STOCK_ADJUSTED_def
  INVENTORY_STOCK_RESERVED_def
  INVENTORY_STOCK_RELEASED_def
  INVENTORY_STOCK_COMMITTED_def
  INVENTORY_LOW_STOCK_DETECTED_def
  INVENTORY_TRANSFER_REQUESTED_def
  INVENTORY_TRANSFER_APPROVED_def
  INVENTORY_TRANSFER_REJECTED_def
  INVENTORY_TRANSFER_FULFILLED_def
  INVENTORY_DISTRIBUTION_DISPATCHED_def
  INVENTORY_DISTRIBUTION_RECEIVED_def
  INVENTORY_DISTRIBUTION_CANCELLED_def
  SALE_CREATED_def
  SALE_CONFIRMED_def
  SALE_VOIDED_def
  SALE_RETURNED_def
  SALE_RECEIPT_CREATED_def
  PAYMENT_INTENT_CREATED_def
  PAYMENT_SUCCEEDED_def
  PAYMENT_FAILED_def
  PAYMENT_REVERSED_def
  PAYMENT_DISPUTE_CREATED_def
  TERMINAL_CREATE_REQUESTED_def
  TERMINAL_CREATED_def
  TERMINAL_CREATION_FAILED_def
  TERMINAL_DISABLED_def
  TERMINAL_DESTINATION_UPDATED_def
  ACCOUNTING_JOURNAL_POSTED_def
  ACCOUNTING_JOURNAL_FAILED_def
  NOTIFICATION_SENT_def
  NOTIFICATION_FAILED_def
  REPORTING_PROJECTION_UPDATED_def
  STORE_CREATED_def
  STORE_UPDATED_def
  DOCUMENT_CREATED_def
  DOCUMENT_STATUS_CHANGED_def
  DOCUMENT_CONVERTED_TO_SALE_def

lemma event_names_distinct: "distinct event_names"
  by (simp add: event_names_def event_name_defs)

section \<open>Envelope and outbox\<close>

record envelope =
  event_id :: uuid
  event_type :: string
  event_version :: int
  occurred_at :: timestamp
  ev_tenant_id :: "uuid option"
  actor_id :: "uuid option"
  correlation_id :: "string option"
  causation_id :: "uuid option"
  payload :: payload

definition routing_key :: "envelope \<Rightarrow> string" where
  "routing_key e = event_type e"

text \<open>The keyword arguments the domain constructors pass; the rest are the defaults.\<close>

definition mk_event ::
  "uuid \<Rightarrow> timestamp \<Rightarrow> string \<Rightarrow> uuid \<Rightarrow> uuid option \<Rightarrow> string option \<Rightarrow> payload \<Rightarrow> envelope" where
  "mk_event eid now ty tenant actor corr p =
     \<lparr>event_id = eid, event_type = ty, event_version = 1, occurred_at = now,
      ev_tenant_id = Some tenant, actor_id = actor, correlation_id = corr,
      causation_id = None, payload = p\<rparr>"

record outbox_write =
  ow_event :: envelope
  aggregate_type :: string
  aggregate_id :: string

text \<open>The \<open>headers\<close> column of an outbox row, a JSON object with fixed keys.\<close>

record headers =
  h_event_version :: int
  h_occurred_at :: timestamp
  h_actor_id :: "uuid option"
  h_correlation_id :: "string option"
  h_causation_id :: "uuid option"

record outbox_event =
  oe_id :: uuid
  oe_event_type :: string
  oe_aggregate_type :: string
  oe_aggregate_id :: string
  oe_tenant_id :: "uuid option"
  oe_payload :: payload
  oe_headers :: headers
  oe_status :: string
  oe_attempts :: nat
  oe_available_at :: timestamp
  oe_created_at :: timestamp
  oe_published_at :: "timestamp option"
  oe_last_error :: "string option"

text \<open>
  \<open>OutboxWrite.to_model\<close>. \<open>status\<close>, \<open>attempts\<close>, \<open>available_at\<close> and \<open>created_at\<close> take their column
  defaults when the row is flushed at \<open>now\<close>.
\<close>

definition to_model :: "timestamp \<Rightarrow> outbox_write \<Rightarrow> outbox_event" where
  "to_model now w = (let e = ow_event w in
     \<lparr>oe_id = event_id e, oe_event_type = event_type e,
      oe_aggregate_type = aggregate_type w, oe_aggregate_id = aggregate_id w,
      oe_tenant_id = ev_tenant_id e, oe_payload = payload e,
      oe_headers = \<lparr>h_event_version = event_version e, h_occurred_at = occurred_at e,
        h_actor_id = actor_id e, h_correlation_id = correlation_id e,
        h_causation_id = causation_id e\<rparr>,
      oe_status = ''pending'', oe_attempts = 0, oe_available_at = now, oe_created_at = now,
      oe_published_at = None, oe_last_error = None\<rparr>)"

section \<open>Inventory events\<close>

text \<open>\<open>app/inventory/events.py\<close>.\<close>

definition stock_adjusted_event ::
  "uuid \<Rightarrow> timestamp \<Rightarrow> uuid \<Rightarrow> uuid \<Rightarrow> uuid \<Rightarrow> string \<Rightarrow> num \<Rightarrow> num \<Rightarrow>
   string option \<Rightarrow> envelope" where
  "stock_adjusted_event
     eid now tenant_id product_id store_id reason qty_change new_balance corr =
   mk_event eid now INVENTORY_STOCK_ADJUSTED tenant_id None corr
     [(''product_id'', JStr product_id),
      (''store_id'', JStr store_id),
      (''reason'', JStr reason),
      (''qty_change'', JStrOf qty_change),
      (''new_balance'', JStrOf new_balance)]"

definition stock_reserved_event ::
  "uuid \<Rightarrow> timestamp \<Rightarrow> uuid \<Rightarrow> uuid \<Rightarrow> uuid \<Rightarrow> uuid \<Rightarrow> num \<Rightarrow> string option \<Rightarrow>
   envelope" where
  "stock_reserved_event
     eid now tenant_id reservation_id product_id sale_id qty corr =
   mk_event eid now INVENTORY_STOCK_RESERVED tenant_id None corr
     [(''reservation_id'', JStr reservation_id),
      (''product_id'', JStr product_id),
      (''sale_id'', JStr sale_id),
      (''qty'', JStrOf qty)]"

definition stock_released_event ::
  "uuid \<Rightarrow> timestamp \<Rightarrow> uuid \<Rightarrow> uuid \<Rightarrow> uuid \<Rightarrow> uuid \<Rightarrow> num \<Rightarrow> string option \<Rightarrow>
   envelope" where
  "stock_released_event
     eid now tenant_id reservation_id product_id sale_id qty corr =
   mk_event eid now INVENTORY_STOCK_RELEASED tenant_id None corr
     [(''reservation_id'', JStr reservation_id),
      (''product_id'', JStr product_id),
      (''sale_id'', JStr sale_id),
      (''qty'', JStrOf qty)]"

definition stock_committed_event ::
  "uuid \<Rightarrow> timestamp \<Rightarrow> uuid \<Rightarrow> uuid \<Rightarrow> uuid \<Rightarrow> uuid \<Rightarrow> num \<Rightarrow> string option \<Rightarrow>
   envelope" where
  "stock_committed_event
     eid now tenant_id product_id store_id sale_id qty corr =
   mk_event eid now INVENTORY_STOCK_COMMITTED tenant_id None corr
     [(''product_id'', JStr product_id),
      (''store_id'', JStr store_id),
      (''sale_id'', JStr sale_id),
      (''qty'', JStrOf qty)]"

definition low_stock_detected_event ::
  "uuid \<Rightarrow> timestamp \<Rightarrow> uuid \<Rightarrow> uuid \<Rightarrow> uuid \<Rightarrow> num \<Rightarrow> num \<Rightarrow> string option \<Rightarrow>
   envelope" where
  "low_stock_detected_event
     eid now tenant_id product_id store_id current_qty reorder_point corr =
   mk_event eid now INVENTORY_LOW_STOCK_DETECTED tenant_id None corr
     [(''product_id'', JStr product_id),
      (''store_id'', JStr store_id),
      (''current_qty'', JStrOf current_qty),
      (''reorder_point'', JStrOf reorder_point)]"

definition transfer_requested_event ::
  "uuid \<Rightarrow> timestamp \<Rightarrow> uuid \<Rightarrow> uuid \<Rightarrow> uuid \<Rightarrow> uuid \<Rightarrow> uuid \<Rightarrow> num \<Rightarrow>
   string option \<Rightarrow> envelope" where
  "transfer_requested_event
     eid now tenant_id request_id product_id requesting_store_id supplying_store_id requested_qty corr =
   mk_event eid now INVENTORY_TRANSFER_REQUESTED tenant_id None corr
     [(''request_id'', JStr request_id),
      (''product_id'', JStr product_id),
      (''requesting_store_id'', JStr requesting_store_id),
      (''supplying_store_id'', JStr supplying_store_id),
      (''requested_qty'', JStrOf requested_qty)]"

definition transfer_approved_event ::
  "uuid \<Rightarrow> timestamp \<Rightarrow> uuid \<Rightarrow> uuid \<Rightarrow> uuid \<Rightarrow> uuid \<Rightarrow> uuid \<Rightarrow> num \<Rightarrow> num \<Rightarrow>
   string option \<Rightarrow> envelope" where
  "transfer_approved_event
     eid now tenant_id request_id product_id requesting_store_id supplying_store_id requested_qty approved_qty corr =
   mk_event eid now INVENTORY_TRANSFER_APPROVED tenant_id None corr
     [(''request_id'', JStr request_id),
      (''product_id'', JStr product_id),
      (''requesting_store_id'', JStr requesting_store_id),
      (''supplying_store_id'', JStr supplying_store_id),
      (''requested_qty'', JStrOf requested_qty),
      (''approved_qty'', JStrOf approved_qty)]"

definition transfer_rejected_event ::
  "uuid \<Rightarrow> timestamp \<Rightarrow> uuid \<Rightarrow> uuid \<Rightarrow> uuid \<Rightarrow> uuid \<Rightarrow> uuid \<Rightarrow> string option \<Rightarrow>
   string option \<Rightarrow> envelope" where
  "transfer_rejected_event
     eid now tenant_id request_id product_id requesting_store_id supplying_store_id rejection_reason corr =
   mk_event eid now INVENTORY_TRANSFER_REJECTED tenant_id None corr
     [(''request_id'', JStr request_id),
      (''product_id'', JStr product_id),
      (''requesting_store_id'', JStr requesting_store_id),
      (''supplying_store_id'', JStr supplying_store_id),
      (''rejection_reason'', jopt rejection_reason)]"

definition transfer_fulfilled_event ::
  "uuid \<Rightarrow> timestamp \<Rightarrow> uuid \<Rightarrow> uuid \<Rightarrow> uuid \<Rightarrow> uuid \<Rightarrow> uuid \<Rightarrow> num \<Rightarrow> num \<Rightarrow> num \<Rightarrow>
   string option \<Rightarrow> envelope" where
  "transfer_fulfilled_event
     eid now tenant_id request_id product_id from_store_id to_store_id qty from_new_balance to_new_balance corr =
   mk_event eid now INVENTORY_TRANSFER_FULFILLED tenant_id None corr
     [(''request_id'', JStr request_id),
      (''product_id'', JStr product_id),
      (''from_store_id'', JStr from_store_id),
      (''to_store_id'', JStr to_store_id),
      (''qty'', JStrOf qty),
      (''from_new_balance'', JStrOf from_new_balance),
      (''to_new_balance'', JStrOf to_new_balance)]"

definition distribution_dispatched_event ::
  "uuid \<Rightarrow> timestamp \<Rightarrow> uuid \<Rightarrow> uuid \<Rightarrow> string \<Rightarrow> uuid \<Rightarrow> uuid \<Rightarrow> payload list \<Rightarrow>
   string option \<Rightarrow> envelope" where
  "distribution_dispatched_event
     eid now tenant_id distribution_id distribution_number from_store_id to_store_id lines corr =
   mk_event eid now INVENTORY_DISTRIBUTION_DISPATCHED tenant_id None corr
     [(''distribution_id'', JStr distribution_id),
      (''distribution_number'', JStr distribution_number),
      (''from_store_id'', JStr from_store_id),
      (''to_store_id'', JStr to_store_id),
      (''lines'', JList (map JObj lines))]"

definition distribution_received_event ::
  "uuid \<Rightarrow> timestamp \<Rightarrow> uuid \<Rightarrow> uuid \<Rightarrow> string \<Rightarrow> uuid \<Rightarrow> uuid \<Rightarrow> num \<Rightarrow> num \<Rightarrow>
   num \<Rightarrow> string option \<Rightarrow> envelope" where
  "distribution_received_event
     eid now tenant_id distribution_id distribution_number from_store_id to_store_id qty_received qty_damaged shortage corr =
   mk_event eid now INVENTORY_DISTRIBUTION_RECEIVED tenant_id None corr
     [(''distribution_id'', JStr distribution_id),
      (''distribution_number'', JStr distribution_number),
      (''from_store_id'', JStr from_store_id),
      (''to_store_id'', JStr to_store_id),
      (''qty_received'', JStrOf qty_received),
      (''qty_damaged'', JStrOf qty_damaged),
      (''shortage'', JStrOf shortage)]"

definition distribution_cancelled_event ::
  "uuid \<Rightarrow> timestamp \<Rightarrow> uuid \<Rightarrow> uuid \<Rightarrow> string \<Rightarrow> uuid \<Rightarrow> uuid \<Rightarrow> num \<Rightarrow>
   string option \<Rightarrow> envelope" where
  "distribution_cancelled_event
     eid now tenant_id distribution_id distribution_number from_store_id to_store_id qty_returned corr =
   mk_event eid now INVENTORY_DISTRIBUTION_CANCELLED tenant_id None corr
     [(''distribution_id'', JStr distribution_id),
      (''distribution_number'', JStr distribution_number),
      (''from_store_id'', JStr from_store_id),
      (''to_store_id'', JStr to_store_id),
      (''qty_returned'', JStrOf qty_returned)]"

section \<open>Cart events\<close>

text \<open>\<open>app/cart/events.py\<close>.\<close>

definition cart_created_event ::
  "uuid \<Rightarrow> timestamp \<Rightarrow> uuid \<Rightarrow> uuid \<Rightarrow> string \<Rightarrow> string option \<Rightarrow> string option \<Rightarrow>
   envelope" where
  "cart_created_event
     eid now tenant_id cart_id session_id actor corr =
   mk_event eid now CART_CREATED tenant_id actor corr
     [(''cart_id'', JStr cart_id),
      (''session_id'', JStr session_id)]"

definition cart_item_added_event ::
  "uuid \<Rightarrow> timestamp \<Rightarrow> uuid \<Rightarrow> uuid \<Rightarrow> uuid \<Rightarrow> uuid \<Rightarrow> num \<Rightarrow> string option \<Rightarrow>
   string option \<Rightarrow> envelope" where
  "cart_item_added_event
     eid now tenant_id cart_id item_id product_id qty actor corr =
   mk_event eid now CART_ITEM_ADDED tenant_id actor corr
     [(''cart_id'', JStr cart_id),
      (''item_id'', JStr item_id),
      (''product_id'', JStr product_id),
      (''qty'', JStrOf qty)]"

definition cart_abandoned_event ::
  "uuid \<Rightarrow> timestamp \<Rightarrow> uuid \<Rightarrow> uuid \<Rightarrow> string \<Rightarrow> string option \<Rightarrow> string option \<Rightarrow>
   envelope" where
  "cart_abandoned_event
     eid now tenant_id cart_id session_id actor corr =
   mk_event eid now CART_ABANDONED tenant_id actor corr
     [(''cart_id'', JStr cart_id),
      (''session_id'', JStr session_id)]"

text \<open>\<open>approved_by\<close> joins the payload when it is given and not empty.\<close>

definition cart_item_removed_event ::
  "uuid \<Rightarrow> timestamp \<Rightarrow> uuid \<Rightarrow> uuid \<Rightarrow> uuid \<Rightarrow> uuid \<Rightarrow> string option \<Rightarrow> string option \<Rightarrow>
   string option \<Rightarrow> envelope" where
  "cart_item_removed_event
     eid now tenant_id cart_id item_id product_id actor approved_by corr =
   mk_event eid now CART_ITEM_REMOVED tenant_id actor corr
     ([(''cart_id'', JStr cart_id), (''item_id'', JStr item_id), (''product_id'', JStr product_id)]
      @ (if str_truthy approved_by then [(''approved_by'', jopt approved_by)] else []))"

text \<open>\<open>items\<close> joins the payload when the list is given and not empty.\<close>

definition cart_checked_out_event ::
  "uuid \<Rightarrow> timestamp \<Rightarrow> uuid \<Rightarrow> uuid \<Rightarrow> string \<Rightarrow> int \<Rightarrow> num \<Rightarrow> payload list \<Rightarrow> string option \<Rightarrow>
   string option \<Rightarrow> envelope" where
  "cart_checked_out_event
     eid now tenant_id cart_id session_id item_count tot items actor corr =
   mk_event eid now CART_CHECKED_OUT tenant_id actor corr
     ([(''cart_id'', JStr cart_id), (''session_id'', JStr session_id),
       (''item_count'', jint item_count), (''total'', JStrOf tot)]
      @ (if items \<noteq> [] then [(''items'', JList (map JObj items))] else []))"

section \<open>Sales events\<close>

text \<open>\<open>app/sales/events.py\<close>.\<close>

definition sale_created_event ::
  "uuid \<Rightarrow> timestamp \<Rightarrow> uuid \<Rightarrow> uuid \<Rightarrow> string \<Rightarrow> num \<Rightarrow> uuid \<Rightarrow> int \<Rightarrow>
   string option \<Rightarrow> envelope" where
  "sale_created_event
     eid now tenant_id sale_id sale_number tot cashier_id item_count corr =
   mk_event eid now SALE_CREATED tenant_id (Some cashier_id) corr
     [(''sale_id'', JStr sale_id),
      (''sale_number'', JStr sale_number),
      (''total'', JStrOf tot),
      (''cashier_id'', JStr cashier_id),
      (''item_count'', jint item_count)]"

definition sale_confirmed_event ::
  "uuid \<Rightarrow> timestamp \<Rightarrow> uuid \<Rightarrow> uuid \<Rightarrow> string \<Rightarrow> num \<Rightarrow> string option \<Rightarrow>
   envelope" where
  "sale_confirmed_event
     eid now tenant_id sale_id sale_number tot corr =
   mk_event eid now SALE_CONFIRMED tenant_id None corr
     [(''sale_id'', JStr sale_id),
      (''sale_number'', JStr sale_number),
      (''total'', JStrOf tot),
      (''tenant_id'', JStr tenant_id)]"

definition sale_voided_event ::
  "uuid \<Rightarrow> timestamp \<Rightarrow> uuid \<Rightarrow> uuid \<Rightarrow> string \<Rightarrow> string \<Rightarrow> uuid \<Rightarrow> num \<Rightarrow>
   string option \<Rightarrow> envelope" where
  "sale_voided_event
     eid now tenant_id sale_id sale_number reason voided_by tot corr =
   mk_event eid now SALE_VOIDED tenant_id (Some voided_by) corr
     [(''sale_id'', JStr sale_id),
      (''sale_number'', JStr sale_number),
      (''reason'', JStr reason),
      (''total'', JNum (PFlt (py_float tot)))]"

definition sale_returned_event ::
  "uuid \<Rightarrow> timestamp \<Rightarrow> uuid \<Rightarrow> uuid \<Rightarrow> string \<Rightarrow> string \<Rightarrow> uuid \<Rightarrow> num \<Rightarrow>
   string option \<Rightarrow> envelope" where
  "sale_returned_event
     eid now tenant_id sale_id sale_number reason returned_by tot corr =
   mk_event eid now SALE_RETURNED tenant_id (Some returned_by) corr
     [(''sale_id'', JStr sale_id),
      (''sale_number'', JStr sale_number),
      (''reason'', JStr reason),
      (''total'', JNum (PFlt (py_float tot)))]"

definition sale_receipt_created_event ::
  "uuid \<Rightarrow> timestamp \<Rightarrow> uuid \<Rightarrow> uuid \<Rightarrow> uuid \<Rightarrow> string \<Rightarrow> num \<Rightarrow> string option \<Rightarrow>
   envelope" where
  "sale_receipt_created_event
     eid now tenant_id receipt_id sale_id receipt_number tot corr =
   mk_event eid now SALE_RECEIPT_CREATED tenant_id None corr
     [(''receipt_id'', JStr receipt_id),
      (''sale_id'', JStr sale_id),
      (''receipt_number'', JStr receipt_number),
      (''total'', JStrOf tot)]"

section \<open>Payments events\<close>

text \<open>\<open>app/payments/events.py\<close>.\<close>

definition payment_intent_created_event ::
  "uuid \<Rightarrow> timestamp \<Rightarrow> uuid \<Rightarrow> uuid \<Rightarrow> string \<Rightarrow> num \<Rightarrow> string \<Rightarrow> string \<Rightarrow>
   string option \<Rightarrow> envelope" where
  "payment_intent_created_event
     eid now tenant_id payment_id sale_id amount method reference corr =
   mk_event eid now PAYMENT_INTENT_CREATED tenant_id None corr
     [(''payment_id'', JStr payment_id),
      (''sale_id'', JStr sale_id),
      (''amount'', JStrOf amount),
      (''method'', JStr method),
      (''reference'', JStr reference)]"

definition payment_succeeded_event ::
  "uuid \<Rightarrow> timestamp \<Rightarrow> uuid \<Rightarrow> uuid \<Rightarrow> string \<Rightarrow> num \<Rightarrow> string \<Rightarrow> string option \<Rightarrow>
   string option \<Rightarrow> string option \<Rightarrow> envelope" where
  "payment_succeeded_event
     eid now tenant_id payment_id sale_id amount method reference gateway_reference corr =
   mk_event eid now PAYMENT_SUCCEEDED tenant_id None corr
     [(''payment_id'', JStr payment_id),
      (''sale_id'', JStr sale_id),
      (''amount'', JStrOf amount),
      (''method'', JStr method),
      (''reference'', jopt reference),
      (''gateway_reference'', jopt gateway_reference)]"

definition payment_failed_event ::
  "uuid \<Rightarrow> timestamp \<Rightarrow> uuid \<Rightarrow> uuid \<Rightarrow> string \<Rightarrow> string \<Rightarrow> string option \<Rightarrow>
   envelope" where
  "payment_failed_event
     eid now tenant_id payment_id sale_id reason corr =
   mk_event eid now PAYMENT_FAILED tenant_id None corr
     [(''payment_id'', JStr payment_id),
      (''sale_id'', JStr sale_id),
      (''reason'', JStr reason)]"

section \<open>Documents events\<close>

text \<open>\<open>app/documents/events.py\<close>.\<close>

definition document_created_event ::
  "uuid \<Rightarrow> timestamp \<Rightarrow> uuid \<Rightarrow> uuid \<Rightarrow> string \<Rightarrow> string \<Rightarrow> num \<Rightarrow> uuid \<Rightarrow> int \<Rightarrow>
   string option \<Rightarrow> envelope" where
  "document_created_event
     eid now tenant_id document_id doc_number doc_type tot created_by item_count corr =
   mk_event eid now DOCUMENT_CREATED tenant_id (Some created_by) corr
     [(''document_id'', JStr document_id),
      (''doc_number'', JStr doc_number),
      (''doc_type'', JStr doc_type),
      (''total'', JStrOf tot),
      (''item_count'', jint item_count)]"

definition document_status_changed_event ::
  "uuid \<Rightarrow> timestamp \<Rightarrow> uuid \<Rightarrow> uuid \<Rightarrow> string \<Rightarrow> string \<Rightarrow> string \<Rightarrow> string \<Rightarrow>
   uuid \<Rightarrow> num option \<Rightarrow> string option \<Rightarrow> uuid option \<Rightarrow> string option \<Rightarrow>
   string option \<Rightarrow> envelope" where
  "document_status_changed_event
     eid now tenant_id document_id doc_number doc_type old_status new_status actor tot customer_name customer_id due_date corr =
   mk_event eid now DOCUMENT_STATUS_CHANGED tenant_id (Some actor) corr
     [(''document_id'', JStr document_id),
      (''doc_number'', JStr doc_number),
      (''doc_type'', JStr doc_type),
      (''old_status'', JStr old_status),
      (''new_status'', JStr new_status),
      (''total'', (case tot of None \<Rightarrow> JNull | Some x \<Rightarrow> JStrOf x)),
      (''customer_name'', jopt customer_name),
      (''customer_id'', jopt customer_id),
      (''due_date'', jopt due_date)]"

definition document_converted_to_sale_event ::
  "uuid \<Rightarrow> timestamp \<Rightarrow> uuid \<Rightarrow> uuid \<Rightarrow> string \<Rightarrow> uuid \<Rightarrow> string \<Rightarrow> uuid \<Rightarrow>
   string option \<Rightarrow> envelope" where
  "document_converted_to_sale_event
     eid now tenant_id document_id doc_number sale_id sale_number actor corr =
   mk_event eid now DOCUMENT_CONVERTED_TO_SALE tenant_id (Some actor) corr
     [(''document_id'', JStr document_id),
      (''doc_number'', JStr doc_number),
      (''sale_id'', JStr sale_id),
      (''sale_number'', JStr sale_number)]"

section \<open>Accounting events\<close>

text \<open>\<open>app/accounting/events.py\<close>.\<close>

definition journal_posted_event ::
  "uuid \<Rightarrow> timestamp \<Rightarrow> uuid \<Rightarrow> uuid \<Rightarrow> string \<Rightarrow> string option \<Rightarrow> string option \<Rightarrow>
   uuid option \<Rightarrow> string option \<Rightarrow> envelope" where
  "journal_posted_event
     eid now tenant_id journal_id journal_number reference_type reference_id actor corr =
   mk_event eid now ACCOUNTING_JOURNAL_POSTED tenant_id actor corr
     [(''journal_id'', JStr journal_id),
      (''journal_number'', JStr journal_number),
      (''reference_type'', jopt reference_type),
      (''reference_id'', jopt reference_id)]"

definition journal_failed_event ::
  "uuid \<Rightarrow> timestamp \<Rightarrow> uuid \<Rightarrow> uuid \<Rightarrow> string \<Rightarrow> string \<Rightarrow> uuid option \<Rightarrow>
   string option \<Rightarrow> envelope" where
  "journal_failed_event
     eid now tenant_id journal_id journal_number error actor corr =
   mk_event eid now ACCOUNTING_JOURNAL_FAILED tenant_id actor corr
     [(''journal_id'', JStr journal_id),
      (''journal_number'', JStr journal_number),
      (''error'', JStr error)]"

section \<open>Identity events\<close>

text \<open>\<open>app/identity/events.py\<close>.\<close>

definition user_created_event ::
  "uuid \<Rightarrow> timestamp \<Rightarrow> uuid \<Rightarrow> uuid \<Rightarrow> string \<Rightarrow> string \<Rightarrow> string \<Rightarrow>
   string option \<Rightarrow> envelope" where
  "user_created_event
     eid now tenant_id user_id email full_name role corr =
   mk_event eid now IDENTITY_USER_CREATED tenant_id None corr
     [(''user_id'', JStr user_id),
      (''email'', JStr email),
      (''full_name'', JStr full_name),
      (''role'', JStr role)]"

definition role_changed_event ::
  "uuid \<Rightarrow> timestamp \<Rightarrow> uuid \<Rightarrow> uuid \<Rightarrow> string \<Rightarrow> string \<Rightarrow> uuid option \<Rightarrow>
   string option \<Rightarrow> envelope" where
  "role_changed_event
     eid now tenant_id user_id old_role new_role actor corr =
   mk_event eid now IDENTITY_ROLE_CHANGED tenant_id actor corr
     [(''user_id'', JStr user_id),
      (''old_role'', JStr old_role),
      (''new_role'', JStr new_role)]"

definition session_revoked_event ::
  "uuid \<Rightarrow> timestamp \<Rightarrow> uuid \<Rightarrow> uuid \<Rightarrow> string \<Rightarrow> string option \<Rightarrow> envelope" where
  "session_revoked_event
     eid now tenant_id user_id session_id corr =
   mk_event eid now IDENTITY_SESSION_REVOKED tenant_id None corr
     [(''user_id'', JStr user_id),
      (''session_id'', JStr session_id)]"

section \<open>Tenancy events\<close>

text \<open>\<open>app/tenancy/events.py\<close>.\<close>

definition tenant_created_event ::
  "uuid \<Rightarrow> timestamp \<Rightarrow> uuid \<Rightarrow> uuid option \<Rightarrow> string \<Rightarrow> string \<Rightarrow> string \<Rightarrow>
   string \<Rightarrow> string option \<Rightarrow> envelope" where
  "tenant_created_event
     eid now tenant_id actor slug business_name owner_email tier corr =
   mk_event eid now TENANT_CREATED tenant_id actor corr
     [(''tenant_id'', JStr tenant_id),
      (''slug'', JStr slug),
      (''business_name'', JStr business_name),
      (''owner_email'', JStr owner_email),
      (''tier'', JStr tier)]"

definition tier_changed_event ::
  "uuid \<Rightarrow> timestamp \<Rightarrow> uuid \<Rightarrow> uuid option \<Rightarrow> string \<Rightarrow> string \<Rightarrow> string option \<Rightarrow>
   envelope" where
  "tier_changed_event
     eid now tenant_id actor old_tier new_tier corr =
   mk_event eid now TENANT_TIER_CHANGED tenant_id actor corr
     [(''tenant_id'', JStr tenant_id),
      (''old_tier'', JStr old_tier),
      (''new_tier'', JStr new_tier)]"

section \<open>Stores events\<close>

text \<open>\<open>app/stores/events.py\<close>.\<close>

definition store_created_event ::
  "uuid \<Rightarrow> timestamp \<Rightarrow> uuid \<Rightarrow> uuid \<Rightarrow> string \<Rightarrow> bool \<Rightarrow> string option \<Rightarrow>
   envelope" where
  "store_created_event
     eid now tenant_id store_id name is_warehouse corr =
   mk_event eid now STORE_CREATED tenant_id None corr
     [(''store_id'', JStr store_id),
      (''name'', JStr name),
      (''is_warehouse'', JBool is_warehouse)]"

section \<open>Catalog events\<close>

text \<open>\<open>app/catalog/events.py\<close>.\<close>

definition product_created_event ::
  "uuid \<Rightarrow> timestamp \<Rightarrow> uuid \<Rightarrow> uuid option \<Rightarrow> uuid \<Rightarrow> string \<Rightarrow> string \<Rightarrow>
   string option \<Rightarrow> envelope" where
  "product_created_event
     eid now tenant_id actor product_id public_id name corr =
   mk_event eid now CATALOG_PRODUCT_CREATED tenant_id actor corr
     [(''product_id'', JStr product_id),
      (''public_id'', JStr public_id),
      (''name'', JStr name)]"

definition product_qr_generated_event ::
  "uuid \<Rightarrow> timestamp \<Rightarrow> uuid \<Rightarrow> uuid option \<Rightarrow> uuid \<Rightarrow> string \<Rightarrow> string \<Rightarrow>
   string option \<Rightarrow> string option \<Rightarrow> envelope" where
  "product_qr_generated_event
     eid now tenant_id actor product_id public_id qr_payload qr_asset_url corr =
   mk_event eid now CATALOG_PRODUCT_QR_GENERATED tenant_id actor corr
     [(''product_id'', JStr product_id),
      (''public_id'', JStr public_id),
      (''qr_payload'', JStr qr_payload),
      (''qr_asset_url'', jopt qr_asset_url)]"

section \<open>Reporting events\<close>

text \<open>\<open>app/reporting/events.py\<close>.\<close>

definition projection_updated_event ::
  "uuid \<Rightarrow> timestamp \<Rightarrow> uuid \<Rightarrow> string \<Rightarrow> uuid \<Rightarrow> string option \<Rightarrow> envelope" where
  "projection_updated_event
     eid now tenant_id projection_type projection_id corr =
   mk_event eid now REPORTING_PROJECTION_UPDATED tenant_id None corr
     [(''projection_type'', JStr projection_type),
      (''projection_id'', JStr projection_id)]"

section \<open>Notifications events\<close>

text \<open>\<open>app/notifications/events.py\<close>.\<close>

definition notification_sent_event ::
  "uuid \<Rightarrow> timestamp \<Rightarrow> uuid \<Rightarrow> uuid \<Rightarrow> string \<Rightarrow> string \<Rightarrow> string option \<Rightarrow>
   envelope" where
  "notification_sent_event
     eid now tenant_id notification_id channel recipient corr =
   mk_event eid now NOTIFICATION_SENT tenant_id None corr
     [(''notification_id'', JStr notification_id),
      (''channel'', JStr channel),
      (''recipient'', JStr recipient)]"

definition notification_failed_event ::
  "uuid \<Rightarrow> timestamp \<Rightarrow> uuid \<Rightarrow> uuid \<Rightarrow> string \<Rightarrow> string \<Rightarrow> string \<Rightarrow>
   string option \<Rightarrow> envelope" where
  "notification_failed_event
     eid now tenant_id notification_id channel recipient error corr =
   mk_event eid now NOTIFICATION_FAILED tenant_id None corr
     [(''notification_id'', JStr notification_id),
      (''channel'', JStr channel),
      (''recipient'', JStr recipient),
      (''error'', JStr error)]"

section \<open>Facts about the constructors\<close>

lemmas event_defs [event_simps] =
  stock_adjusted_event_def
  stock_reserved_event_def
  stock_released_event_def
  stock_committed_event_def
  low_stock_detected_event_def
  transfer_requested_event_def
  transfer_approved_event_def
  transfer_rejected_event_def
  transfer_fulfilled_event_def
  distribution_dispatched_event_def
  distribution_received_event_def
  distribution_cancelled_event_def
  cart_created_event_def
  cart_item_added_event_def
  cart_abandoned_event_def
  cart_item_removed_event_def
  cart_checked_out_event_def
  sale_created_event_def
  sale_confirmed_event_def
  sale_voided_event_def
  sale_returned_event_def
  sale_receipt_created_event_def
  payment_intent_created_event_def
  payment_succeeded_event_def
  payment_failed_event_def
  document_created_event_def
  document_status_changed_event_def
  document_converted_to_sale_event_def
  journal_posted_event_def
  journal_failed_event_def
  user_created_event_def
  role_changed_event_def
  session_revoked_event_def
  tenant_created_event_def
  tier_changed_event_def
  store_created_event_def
  product_created_event_def
  product_qr_generated_event_def
  projection_updated_event_def
  notification_sent_event_def
  notification_failed_event_def

lemma mk_event_simps [simp]:
  "event_id (mk_event eid now ty tn ac co p) = eid"
  "event_type (mk_event eid now ty tn ac co p) = ty"
  "ev_tenant_id (mk_event eid now ty tn ac co p) = Some tn"
  "actor_id (mk_event eid now ty tn ac co p) = ac"
  "correlation_id (mk_event eid now ty tn ac co p) = co"
  "causation_id (mk_event eid now ty tn ac co p) = None"
  "payload (mk_event eid now ty tn ac co p) = p"
  by (simp_all add: mk_event_def)

lemma to_model_simps [simp]:
  "oe_id (to_model now w) = event_id (ow_event w)"
  "oe_event_type (to_model now w) = event_type (ow_event w)"
  "oe_tenant_id (to_model now w) = ev_tenant_id (ow_event w)"
  "oe_payload (to_model now w) = payload (ow_event w)"
  "oe_status (to_model now w) = ''pending''"
  "oe_attempts (to_model now w) = 0"
  "oe_available_at (to_model now w) = now"
  "oe_created_at (to_model now w) = now"
  by (simp_all add: to_model_def Let_def)

end
