(* ===== verification/MessageBus.thy ===== *)
theory MessageBus
  imports Events
begin

text \<open>
  The transactional outbox on its way to the handlers: the relay that polls
  \<open>outbox_events\<close> (\<open>app/common/messagebus/outbox_relay.py\<close>), the consumer with its inbox
  (\<open>consumer.py\<close>), the queues of \<open>setup.py\<close> and the handlers that
  \<open>app/worker/handlers/__init__.py\<close> registers and \<open>app/worker/consumer_runner.py\<close> starts.

  RabbitMQ is a parameter: \<open>pub e\<close> is the error text \<open>publish\<close> fails with, if it fails.
\<close>

section \<open>The relay\<close>

definition SSE_EVENTS :: "(string \<times> string) list" where
  "SSE_EVENTS =
    [(PAYMENT_INTENT_CREATED, ''payment.pending''),
     (PAYMENT_SUCCEEDED, ''payment.updated''),
     (PAYMENT_FAILED, ''payment.updated'')]"

record sse_frame =
  fr_tenant :: string
  fr_event :: string
  fr_data :: payload

text \<open>\<open>str(payload.get(k, ""))\<close> for a string, a missing or a null entry.\<close>

definition jstr_get :: "payload \<Rightarrow> string \<Rightarrow> json" where
  "jstr_get p k = (case map_of p k of None \<Rightarrow> JStr [] | Some JNull \<Rightarrow> JStr ''None'' | Some v \<Rightarrow> v)"

text \<open>
  \<open>_notify_subscribers\<close>: the frame handed to the broker, if any. A failure of the broker is
  swallowed, so nothing of the caller depends on it.
\<close>

definition notify_subscribers :: "envelope \<Rightarrow> sse_frame list" where
  "notify_subscribers e =
    (case map_of SSE_EVENTS (event_type e) of
       None \<Rightarrow> []
     | Some ev \<Rightarrow>
         [\<lparr>fr_tenant = (case ev_tenant_id e of None \<Rightarrow> ''None'' | Some t \<Rightarrow> t), fr_event = ev,
           fr_data = [(''payment_id'', jstr_get (payload e) ''payment_id''),
                      (''sale_id'', jstr_get (payload e) ''sale_id'')]\<rparr>])"

text \<open>The envelope the relay rebuilds from a row; the other fields take their defaults.\<close>

definition relay_envelope :: "timestamp \<Rightarrow> outbox_event \<Rightarrow> envelope" where
  "relay_envelope now r =
     \<lparr>event_id = oe_id r, event_type = oe_event_type r, event_version = 1, occurred_at = now,
      ev_tenant_id = oe_tenant_id r, actor_id = None,
      correlation_id = h_correlation_id (oe_headers r),
      causation_id = h_causation_id (oe_headers r), payload = oe_payload r\<rparr>"

record relay_state =
  outbox :: "outbox_event list"
  bus :: "envelope list"
  frames :: "sse_frame list"

text \<open>\<open>UPDATE outbox_events SET ... WHERE id = i\<close>.\<close>

definition update_row ::
  "uuid \<Rightarrow> (outbox_event \<Rightarrow> outbox_event) \<Rightarrow> outbox_event list \<Rightarrow> outbox_event list" where
  "update_row i f rows = map (\<lambda>r. if oe_id r = i then f r else r) rows"

definition mark_published :: "timestamp \<Rightarrow> outbox_event \<Rightarrow> outbox_event" where
  "mark_published now r = r\<lparr>oe_status := ''published'', oe_published_at := Some now\<rparr>"

definition mark_failed :: "string \<Rightarrow> outbox_event \<Rightarrow> outbox_event" where
  "mark_failed err r = r\<lparr>oe_attempts := oe_attempts r + 1, oe_last_error := Some err\<rparr>"

text \<open>
  The rows one poll claims: pending, due, oldest first, at most \<open>batch\<close>, without those another
  transaction holds (\<open>FOR UPDATE SKIP LOCKED\<close>).
\<close>

definition due :: "timestamp \<Rightarrow> outbox_event \<Rightarrow> bool" where
  "due now r \<longleftrightarrow> oe_status r = ''pending'' \<and> oe_available_at r \<le> now"

definition claim ::
  "nat \<Rightarrow> (uuid \<Rightarrow> bool) \<Rightarrow> timestamp \<Rightarrow> outbox_event list \<Rightarrow> outbox_event list" where
  "claim batch locked now rows =
     take batch (sort_key oe_created_at (filter (\<lambda>r. due now r \<and> \<not> locked (oe_id r)) rows))"

definition relay_one ::
  "(envelope \<Rightarrow> string option) \<Rightarrow> timestamp \<Rightarrow> outbox_event \<Rightarrow> relay_state \<Rightarrow> relay_state" where
  "relay_one pub now r st =
    (let e = relay_envelope now r in
     case pub e of
       None \<Rightarrow> st\<lparr>outbox := update_row (oe_id r) (mark_published now) (outbox st),
                 bus := bus st @ [e], frames := frames st @ notify_subscribers e\<rparr>
     | Some err \<Rightarrow> st\<lparr>outbox := update_row (oe_id r) (mark_failed err) (outbox st)\<rparr>)"

definition poll ::
  "nat \<Rightarrow> (uuid \<Rightarrow> bool) \<Rightarrow> (envelope \<Rightarrow> string option) \<Rightarrow> timestamp \<Rightarrow> relay_state \<Rightarrow> relay_state" where
  "poll batch locked pub now st =
     fold (relay_one pub now) (claim batch locked now (outbox st)) st"

section \<open>What one poll does\<close>

lemma claim_subset: "set (claim b lk now rows) \<subseteq> set rows"
  by (auto simp: claim_def dest: in_set_takeD)

lemma claim_due: "r \<in> set (claim b lk now rows) \<Longrightarrow> due now r \<and> \<not> lk (oe_id r)"
  by (auto simp: claim_def dest: in_set_takeD)

lemma length_claim: "length (claim b lk now rows) \<le> b"
  by (simp add: claim_def)

lemma distinct_claim:
  assumes "distinct (map oe_id rows)"
  shows "distinct (map oe_id (claim b lk now rows))"
proof -
  let ?fs = "filter (\<lambda>r. due now r \<and> \<not> lk (oe_id r)) rows"
  have "distinct (map oe_id (sort_key oe_created_at ?fs))"
    using assms by (auto simp: distinct_map intro: inj_on_subset)
  then show ?thesis by (simp add: claim_def flip: take_map)
qed

lemma update_row_ids: "map oe_id (update_row i f rows) = map oe_id rows"
  if "\<And>r. oe_id (f r) = oe_id r"
  using that by (simp add: update_row_def comp_def)

lemma mark_ids [simp]:
  "oe_id (mark_published now r) = oe_id r" "oe_id (mark_failed err r) = oe_id r"
  "oe_status (mark_published now r) = ''published''" "oe_status (mark_failed err r) = oe_status r"
  "oe_available_at (mark_failed err r) = oe_available_at r"
  "oe_created_at (mark_failed err r) = oe_created_at r"
  "oe_attempts (mark_failed err r) = oe_attempts r + 1"
  by (simp_all add: mark_published_def mark_failed_def)

text \<open>The row a claimed row becomes.\<close>

definition relay_row ::
  "(envelope \<Rightarrow> string option) \<Rightarrow> timestamp \<Rightarrow> outbox_event \<Rightarrow> outbox_event" where
  "relay_row pub now r = (case pub (relay_envelope now r) of
     None \<Rightarrow> mark_published now r | Some err \<Rightarrow> mark_failed err r)"

lemma relay_one_eq:
  "outbox (relay_one pub now r st) = update_row (oe_id r)
     (case pub (relay_envelope now r) of None \<Rightarrow> mark_published now | Some err \<Rightarrow> mark_failed err) (outbox st)"
  "bus (relay_one pub now r st) = bus st @
     (if pub (relay_envelope now r) = None then [relay_envelope now r] else [])"
  by (auto simp: relay_one_def Let_def split: option.splits)

lemma fold_relay_bus:
  "bus (fold (relay_one pub now) rs st) =
     bus st @ filter (\<lambda>e. pub e = None) (map (relay_envelope now) rs)"
  by (induction rs arbitrary: st) (auto simp: relay_one_eq)

lemma update_row_other: "i \<notin> oe_id ` set rows \<Longrightarrow> update_row i f rows = rows"
  unfolding update_row_def by (rule map_idI) auto

lemma update_row_commute_map:
  assumes "i \<notin> S" "\<And>r. oe_id (g r) = oe_id r"
  shows "update_row i f (map (\<lambda>r. if oe_id r \<in> S then g r else r) rows) =
    map (\<lambda>r. if oe_id r = i then f r else if oe_id r \<in> S then g r else r) rows"
  using assms by (auto simp: update_row_def)

lemma fold_relay_outbox:
  assumes "distinct (map oe_id rs)" "set rs \<subseteq> set rows" "distinct (map oe_id rows)"
    and "outbox st = map (\<lambda>r. if oe_id r \<in> D then relay_row pub now r else r) rows"
    and "D \<inter> oe_id ` set rs = {}"
  shows "outbox (fold (relay_one pub now) rs st) =
    map (\<lambda>r. if oe_id r \<in> D \<union> oe_id ` set rs then relay_row pub now r else r) rows"
  using assms
proof (induction rs arbitrary: st D)
  case (Cons q rs)
  let ?f = "case pub (relay_envelope now q) of None \<Rightarrow> mark_published now | Some err \<Rightarrow> mark_failed err"
  have rid: "oe_id (relay_row pub now r) = oe_id r" for r
    by (simp add: relay_row_def split: option.split)
  have "q \<in> set rows" using Cons.prems(2) by simp
  then have same: "r = q" if "r \<in> set rows" "oe_id r = oe_id q" for r
    using that Cons.prems(3) by (auto simp: distinct_map inj_on_def)
  have "outbox (relay_one pub now q st) =
      map (\<lambda>r. if oe_id r = oe_id q then ?f r else if oe_id r \<in> D then relay_row pub now r else r) rows"
    unfolding relay_one_eq Cons.prems(4)
    by (rule update_row_commute_map) (use Cons.prems(5) rid in auto)
  also have "\<dots> = map (\<lambda>r. if oe_id r \<in> insert (oe_id q) D then relay_row pub now r else r) rows"
    by (intro map_cong refl) (auto dest: same simp: relay_row_def split: option.split)
  finally have "outbox (fold (relay_one pub now) rs (relay_one pub now q st)) =
      map (\<lambda>r. if oe_id r \<in> insert (oe_id q) D \<union> oe_id ` set rs then relay_row pub now r else r) rows"
    using Cons.prems by (intro Cons.IH) auto
  then show ?case by (simp add: insert_commute Un_insert_right Un_insert_left)
qed simp

lemma poll_outbox:
  assumes "distinct (map oe_id (outbox st))"
  shows "outbox (poll b lk pub now st) =
    map (\<lambda>r. if oe_id r \<in> oe_id ` set (claim b lk now (outbox st))
             then relay_row pub now r else r) (outbox st)"
  using fold_relay_outbox[OF distinct_claim[OF assms] claim_subset assms, where D = "{}"]
  by (simp add: poll_def)

lemma poll_bus:
  "bus (poll b lk pub now st) = bus st @
     filter (\<lambda>e. pub e = None) (map (relay_envelope now) (claim b lk now (outbox st)))"
  by (simp add: poll_def fold_relay_bus)

lemma oe_id_relay_row [simp]: "oe_id (relay_row pub now r) = oe_id r"
  by (simp add: relay_row_def split: option.split)

lemma poll_ids:
  "distinct (map oe_id (outbox st)) \<Longrightarrow>
    map oe_id (outbox (poll b lk pub now st)) = map oe_id (outbox st)"
  by (simp add: poll_outbox comp_def if_distrib cong: if_cong)

lemma claimed_iff:
  assumes "distinct (map oe_id rows)" "r \<in> set rows"
  shows "oe_id r \<in> oe_id ` set (claim b lk now rows) \<longleftrightarrow> r \<in> set (claim b lk now rows)"
  using assms claim_subset[of b lk now rows] by (auto simp: distinct_map inj_on_def)

section \<open>Runs of the relay\<close>

definition run_polls ::
  "nat \<Rightarrow> (envelope \<Rightarrow> string option) \<Rightarrow> timestamp list \<Rightarrow> relay_state \<Rightarrow> relay_state" where
  "run_polls batch pub ts st = fold (poll batch (\<lambda>_. False) pub) ts st"

text \<open>
  Rows the sender can never publish keep their place at the head of the queue: a failure
  writes \<open>attempts\<close> and \<open>last_error\<close> only. Up to these two columns a poll of failing rows
  changes nothing.
\<close>

definition row_core :: "outbox_event \<Rightarrow> outbox_event" where
  "row_core r = r\<lparr>oe_attempts := 0, oe_last_error := None\<rparr>"

lemma row_core_simps [simp]:
  "oe_id (row_core r) = oe_id r" "due now (row_core r) = due now r"
  "oe_created_at (row_core r) = oe_created_at r"
  "relay_envelope now (row_core r) = relay_envelope now r"
  "row_core (mark_failed err r) = row_core r"
  by (simp_all add: row_core_def due_def relay_envelope_def mark_failed_def)

lemma insort_key_map: "insort_key f (g x) (map g ys) = map g (insort_key (\<lambda>y. f (g y)) x ys)"
  by (induction ys) auto

lemma sort_key_map: "sort_key f (map g xs) = map g (sort_key (\<lambda>x. f (g x)) xs)"
  by (induction xs) (simp_all add: insort_key_map)

lemma claim_core: "claim b lk now (map row_core rows) = map row_core (claim b lk now rows)"
  by (simp add: claim_def filter_map comp_def sort_key_map take_map)

lemma poll_blocked:
  assumes "distinct (map oe_id (outbox st))"
    and "\<forall>r \<in> set (claim b (\<lambda>_. False) now (outbox st)). pub (relay_envelope now r) \<noteq> None"
  shows "bus (poll b (\<lambda>_. False) pub now st) = bus st"
    and "map row_core (outbox (poll b (\<lambda>_. False) pub now st)) = map row_core (outbox st)"
proof -
  show "bus (poll b (\<lambda>_. False) pub now st) = bus st"
    using assms(2) by (auto simp: poll_bus filter_empty_conv)
  have "row_core (relay_row pub now r) = row_core r"
    if "r \<in> set (claim b (\<lambda>_. False) now (outbox st))" for r
    using assms(2) that by (auto simp: relay_row_def)
  then show "map row_core (outbox (poll b (\<lambda>_. False) pub now st)) = map row_core (outbox st)"
    using assms(1) by (auto simp: poll_outbox claimed_iff)
qed

lemma claim_all_due:
  assumes "\<forall>r \<in> set rows. oe_available_at r \<le> t0" "t0 \<le> now"
  shows "claim b lk now rows = claim b lk t0 rows"
proof -
  have "filter (\<lambda>r. due now r \<and> \<not> lk (oe_id r)) rows = filter (\<lambda>r. due t0 r \<and> \<not> lk (oe_id r)) rows"
    using assms by (intro filter_cong refl) (force simp: due_def)
  then show ?thesis by (simp add: claim_def)
qed

lemma core_available: "oe_available_at (row_core r) = oe_available_at r"
  by (simp add: row_core_def)

lemma core_eq_available:
  assumes "map row_core rows = map row_core rows'" "\<forall>r \<in> set rows'. oe_available_at r \<le> t0"
  shows "\<forall>r \<in> set rows. oe_available_at r \<le> t0"
proof
  fix r assume "r \<in> set rows"
  then have "row_core r \<in> set (map row_core rows')" using assms(1) by (metis imageI list.set_map)
  then obtain r' where "r' \<in> set rows'" "row_core r = row_core r'" by auto
  then show "oe_available_at r \<le> t0" using assms(2) core_available by metis
qed

lemma core_eq_ids: "map row_core rows = map row_core rows' \<Longrightarrow> map oe_id rows = map oe_id rows'"
  by (drule arg_cong[where f = "map oe_id"]) (simp add: comp_def)

lemma relay_blocked_core:
  assumes "distinct (map oe_id rows)" "\<forall>r \<in> set rows. oe_available_at r \<le> t0"
    and "\<forall>t \<in> set ts. t0 \<le> t"
    and fail: "\<forall>r \<in> set (claim b (\<lambda>_. False) t0 rows). \<forall>t. pub (relay_envelope t r) \<noteq> None"
    and "map row_core (outbox st) = map row_core rows"
  shows "bus (run_polls b pub ts st) = bus st"
  using assms(3,5)
proof (induction ts arbitrary: st)
  case (Cons t ts)
  let ?st' = "poll b (\<lambda>_. False) pub t st"
  have av: "\<forall>r \<in> set (outbox st). oe_available_at r \<le> t0"
    using core_eq_available[OF Cons.prems(2) assms(2)] .
  have "claim b (\<lambda>_. False) t (outbox st) = claim b (\<lambda>_. False) t0 (outbox st)"
    by (rule claim_all_due[OF av]) (use Cons.prems(1) in simp)
  then have cl: "map row_core (claim b (\<lambda>_. False) t (outbox st)) = map row_core (claim b (\<lambda>_. False) t0 rows)"
    by (simp only: claim_core[symmetric] Cons.prems(2))
  have nofail: "\<forall>r \<in> set (claim b (\<lambda>_. False) t (outbox st)). pub (relay_envelope t r) \<noteq> None"
  proof
    fix r assume "r \<in> set (claim b (\<lambda>_. False) t (outbox st))"
    then have "row_core r \<in> set (map row_core (claim b (\<lambda>_. False) t (outbox st)))" by simp
    then obtain r' where r': "r' \<in> set (claim b (\<lambda>_. False) t0 rows)" "row_core r = row_core r'"
      unfolding cl by auto
    then have "relay_envelope t (row_core r) = relay_envelope t (row_core r')" by (simp only:)
    then show "pub (relay_envelope t r) \<noteq> None" using fail r'(1) by simp
  qed
  have d: "distinct (map oe_id (outbox st))"
    using assms(1) core_eq_ids[OF Cons.prems(2)] by (simp only:)
  have "map row_core (outbox ?st') = map row_core rows"
    using poll_blocked(2)[OF d nofail] Cons.prems(2) by (simp only:)
  then have "bus (run_polls b pub ts ?st') = bus ?st'"
    using Cons.prems(1) by (intro Cons.IH) simp_all
  also have "\<dots> = bus st" by (rule poll_blocked(1)[OF d nofail])
  finally show ?case by (simp add: run_polls_def)
qed (simp add: run_polls_def)

section \<open>A working bus drains the outbox\<close>

definition pending_rows :: "outbox_event list \<Rightarrow> outbox_event list" where
  "pending_rows rows = filter (\<lambda>r. oe_status r = ''pending'') rows"

lemma claim_length:
  assumes "\<forall>r \<in> set rows. oe_available_at r \<le> now"
  shows "length (claim b (\<lambda>_. False) now rows) = min b (length (pending_rows rows))"
proof -
  have "filter (\<lambda>r. due now r \<and> \<not> False) rows = pending_rows rows"
    using assms unfolding pending_rows_def by (intro filter_cong) (auto simp: due_def)
  then show ?thesis by (simp add: claim_def)
qed

lemma pending_after_poll:
  assumes d: "distinct (map oe_id (outbox st))"
    and av: "\<forall>r \<in> set (outbox st). oe_available_at r \<le> now"
    and ok: "\<forall>e. pub e = None"
  shows "length (pending_rows (outbox (poll b (\<lambda>_. False) pub now st))) =
    length (pending_rows (outbox st)) - b"
proof -
  let ?rows = "outbox st" and ?C = "set (claim b (\<lambda>_. False) now (outbox st))"
  have dr: "distinct ?rows" using d by (simp add: distinct_map)
  have out: "outbox (poll b (\<lambda>_. False) pub now st) =
      map (\<lambda>r. if r \<in> ?C then mark_published now r else r) ?rows"
    using ok by (simp add: poll_outbox[OF d] claimed_iff[OF d] relay_row_def cong: map_cong)
  have "pending_rows (map (\<lambda>r. if r \<in> ?C then mark_published now r else r) rs) =
      filter (\<lambda>r. oe_status r = ''pending'' \<and> r \<notin> ?C) rs" for rs
    by (induction rs) (auto simp: pending_rows_def)
  then have "length (pending_rows (outbox (poll b (\<lambda>_. False) pub now st))) =
      card (set (pending_rows ?rows) - ?C)"
    using dr by (simp add: out pending_rows_def set_diff_eq conj_commute conj_left_commute
        flip: distinct_card)
  also have "\<dots> = card (set (pending_rows ?rows)) - card ?C"
    using claim_due claim_subset[of b "\<lambda>_. False" now ?rows]
    by (intro card_Diff_subset) (auto simp: pending_rows_def due_def)
  also have "card (set (pending_rows ?rows)) = length (pending_rows ?rows)"
    using dr by (intro distinct_card) (simp add: pending_rows_def)
  also have "card ?C = min b (length (pending_rows ?rows))"
    using claim_length[OF av, of b] distinct_claim[OF d] by (simp add: distinct_map distinct_card)
  finally show ?thesis by simp
qed

lemma mark_published_available [simp]: "oe_available_at (mark_published now r) = oe_available_at r"
  by (simp add: mark_published_def)

lemma poll_available:
  assumes "distinct (map oe_id (outbox st))" "\<forall>r \<in> set (outbox st). oe_available_at r \<le> t0"
  shows "\<forall>r \<in> set (outbox (poll b lk pub now st)). oe_available_at r \<le> t0"
  using assms by (auto simp: poll_outbox relay_row_def split: option.split)

lemma run_polls_pending:
  assumes "distinct (map oe_id (outbox st))" "\<forall>r \<in> set (outbox st). oe_available_at r \<le> t0"
    and "\<forall>t \<in> set ts. t0 \<le> t" "\<forall>e. pub e = None"
  shows "length (pending_rows (outbox (run_polls b pub ts st))) =
    length (pending_rows (outbox st)) - length ts * b"
  using assms(1-3)
proof (induction ts arbitrary: st)
  case (Cons t ts)
  let ?st' = "poll b (\<lambda>_. False) pub t st"
  have "\<forall>r \<in> set (outbox st). oe_available_at r \<le> t" using Cons.prems(2,3) by force
  from pending_after_poll[OF Cons.prems(1) this assms(4), of b]
  have "length (pending_rows (outbox ?st')) = length (pending_rows (outbox st)) - b" .
  moreover have "length (pending_rows (outbox (run_polls b pub ts ?st'))) =
      length (pending_rows (outbox ?st')) - length ts * b"
    by (rule Cons.IH) (use Cons.prems poll_ids poll_available in auto)
  ultimately show ?case by (simp add: run_polls_def)
qed (simp add: run_polls_def)

section \<open>The consumer and its inbox\<close>

text \<open>
  \<open>EventConsumer._handle_message\<close>. A delivery that does not parse is \<open>None\<close>. The handler runs in
  one transaction with the inbox row: when it raises, the transaction rolls back and the
  exception goes on to the broker library. The transaction's settings
  \<open>app.business_id\<close>, \<open>app.user_id\<close> and \<open>app.role\<close> are the handler's first argument.
\<close>

record rls_context =
  rls_business_id :: string
  rls_user_id :: string
  rls_role :: string

record 's service_db =
  inbox :: "(uuid \<times> string) list"
  store :: 's

type_synonym 's handler = "rls_context \<Rightarrow> envelope \<Rightarrow> 's \<Rightarrow> string + 's"

datatype outcome = Unparsed | Duplicate | NoHandler | Handled | Raised string

definition consumer_context :: "envelope \<Rightarrow> rls_context" where
  "consumer_context e =
     \<lparr>rls_business_id = (case ev_tenant_id e of Some t \<Rightarrow> t
        | None \<Rightarrow> (case jget (payload e) ''tenant_id'' of JStr t \<Rightarrow> t | _ \<Rightarrow> [])),
      rls_user_id = (case actor_id e of None \<Rightarrow> [] | Some a \<Rightarrow> a),
      rls_role = ''system''\<rparr>"

definition in_inbox :: "uuid \<Rightarrow> 's service_db \<Rightarrow> bool" where
  "in_inbox i db \<longleftrightarrow> i \<in> fst ` set (inbox db)"

definition add_inbox :: "envelope \<Rightarrow> 's service_db \<Rightarrow> 's service_db" where
  "add_inbox e db = db\<lparr>inbox := inbox db @ [(event_id e, event_type e)]\<rparr>"

definition handle_message ::
  "(string \<rightharpoonup> 's handler) \<Rightarrow> envelope option \<Rightarrow> 's service_db \<Rightarrow> outcome \<times> 's service_db" where
  "handle_message hs m db = (case m of
     None \<Rightarrow> (Unparsed, db)
   | Some e \<Rightarrow>
       if in_inbox (event_id e) db then (Duplicate, db)
       else (case hs (event_type e) of
         None \<Rightarrow> (NoHandler, add_inbox e db)
       | Some h \<Rightarrow> (case h (consumer_context e) e (store db) of
           Inl err \<Rightarrow> (Raised err, db)
         | Inr s' \<Rightarrow> (Handled, add_inbox e (db\<lparr>store := s'\<rparr>)))))"

text \<open>A stream of deliveries, with the outcome of each.\<close>

fun consume ::
  "(envelope option \<Rightarrow> 'db \<Rightarrow> outcome \<times> 'db) \<Rightarrow> envelope option list \<Rightarrow> 'db \<Rightarrow>
   (envelope option \<times> outcome) list \<times> 'db" where
  "consume handle [] db = ([], db)"
| "consume handle (m # ms) db =
     (let (o1, db1) = handle m db; (os, db2) = consume handle ms db1
      in ((m, o1) # os, db2))"

text \<open>How often the handlers ran to the end for the event \<open>i\<close>.\<close>

definition handled_count :: "uuid \<Rightarrow> (envelope option \<times> outcome) list \<Rightarrow> nat" where
  "handled_count i os = length (filter (\<lambda>(m, r). r = Handled \<and> map_option event_id m = Some i) os)"

lemma handled_count_simps [simp]:
  "handled_count i [] = 0"
  "handled_count i ((m, r) # os) =
     (if r = Handled \<and> map_option event_id m = Some i then 1 else 0) + handled_count i os"
  by (simp_all add: handled_count_def)

text \<open>
  What a consumer owes its inbox: what it has recorded it keeps, and it runs a handler to
  the end only for an event it had not recorded and records it. Any such consumer handles
  an event at most once, however often the broker delivers it.
\<close>

locale inbox_consumer =
  fixes handle :: "envelope option \<Rightarrow> 'db \<Rightarrow> outcome \<times> 'db"
    and seen :: "uuid \<Rightarrow> 'db \<Rightarrow> bool"
  assumes keeps: "handle m db = (r, db') \<Longrightarrow> seen i db \<Longrightarrow> seen i db'"
    and fresh: "handle (Some e) db = (Handled, db') \<Longrightarrow>
      \<not> seen (event_id e) db \<and> seen (event_id e) db'"
begin

lemma consume_seen:
  "consume handle ms db = (os, db') \<Longrightarrow> seen i db \<Longrightarrow> handled_count i os = 0"
proof (induction ms arbitrary: db os)
  case (Cons m ms)
  obtain r1 db1 os1 where 1: "handle m db = (r1, db1)" "consume handle ms db1 = (os1, db')"
    "os = (m, r1) # os1"
    using Cons.prems(1) by (auto split: prod.splits)
  have "handled_count i os1 = 0" using Cons.IH[OF 1(2)] keeps[OF 1(1) Cons.prems(2)] by blast
  moreover have "\<not> (r1 = Handled \<and> map_option event_id m = Some i)"
    using fresh[of _ db db1] 1(1) Cons.prems(2) by auto
  ultimately show ?case by (simp add: 1(3))
qed simp

lemma consume_at_most_once: "consume handle ms db = (os, db') \<Longrightarrow> handled_count i os \<le> 1"
proof (induction ms arbitrary: db os)
  case (Cons m ms)
  obtain r1 db1 os1 where 1: "handle m db = (r1, db1)" "consume handle ms db1 = (os1, db')"
    "os = (m, r1) # os1"
    using Cons.prems(1) by (auto split: prod.splits)
  show ?case
  proof (cases "r1 = Handled \<and> map_option event_id m = Some i")
    case True
    then have "seen i db1" using fresh[of _ db db1] 1(1) by auto
    then show ?thesis using consume_seen[OF 1(2)] by (simp add: 1(3))
  next
    case False
    then show ?thesis using Cons.IH[OF 1(2)] by (auto simp: 1(3))
  qed
qed simp

end

lemma in_inbox_add [simp]:
  "in_inbox i (add_inbox e db) \<longleftrightarrow> i = event_id e \<or> in_inbox i db"
  "in_inbox i (db\<lparr>store := s\<rparr>) \<longleftrightarrow> in_inbox i db"
  by (auto simp: in_inbox_def add_inbox_def)

lemma handle_message_distinct:
  assumes "handle_message hs m db = (r, db')" "distinct (map fst (inbox db))"
  shows "distinct (map fst (inbox db'))"
  using assms
  by (auto simp: handle_message_def add_inbox_def in_inbox_def
      split: option.splits sum.splits if_splits)

lemma handle_message_duplicate:
  "in_inbox (event_id e) db \<Longrightarrow> handle_message hs (Some e) db = (Duplicate, db)"
  by (simp add: handle_message_def)

interpretation svc: inbox_consumer "handle_message hs" in_inbox for hs
  by unfold_locales
    (auto simp: handle_message_def split: option.splits sum.splits if_splits)

lemma consume_inbox_distinct:
  "consume (handle_message hs) ms db = (os, db') \<Longrightarrow> distinct (map fst (inbox db)) \<Longrightarrow>
    distinct (map fst (inbox db'))"
  by (induction ms arbitrary: db os) (auto split: prod.splits dest: handle_message_distinct)

section \<open>Queues, handlers and the consumer processes\<close>

text \<open>\<open>SERVICE_QUEUES\<close> of \<open>setup.py\<close>: the queues that exist and their routing keys.\<close>

definition SERVICE_QUEUES :: "(string \<times> string list) list" where
  "SERVICE_QUEUES =
    [(''tenancy'', [''tenancy.#'']),
     (''identity'', [''identity.#'']),
     (''catalog'', [''catalog.#'']),
     (''cart'', [''cart.#'']),
     (''sales'', [''sales.#'', ''cart.checked_out'', ''payment.succeeded'']),
     (''inventory'', [''inventory.#'', ''sales.sale_created'', ''sales.sale_voided'',
        ''catalog.product_created'']),
     (''payments'', [''payment.#'', ''sales.sale_created'']),
     (''terminals'', [''terminal.#'', ''tenancy.tier_changed'']),
     (''accounting'', [''accounting.#'', ''sales.sale_confirmed'', ''payment.succeeded'']),
     (''notifications'', [''notification.#'', ''tenancy.tenant_created'',
        ''identity.user_created'', ''inventory.low_stock_detected'', ''sales.sale_confirmed'',
        ''payment.succeeded'']),
     (''reporting'', [''reporting.#'', ''sales.#'', ''payment.#'', ''tenancy.tier_changed''])]"

text \<open>
  The registry of \<open>app/worker/handlers/__init__.py\<close>: \<open>register\<close> appends to a known service's
  list and ignores any other; a handler is its qualified name.
\<close>

definition register ::
  "string \<Rightarrow> string \<Rightarrow> string \<Rightarrow> (string \<times> (string \<times> string) list) list \<Rightarrow>
   (string \<times> (string \<times> string) list) list" where
  "register service ety h reg =
     map (\<lambda>(s, hs). if s = service then (s, hs @ [(ety, h)]) else (s, hs)) reg"

definition empty_registry :: "(string \<times> (string \<times> string) list) list" where
  "empty_registry = [(''sales'', []), (''inventory'', []), (''accounting'', []),
     (''notifications'', []), (''reporting'', []), (''documents'', [])]"

definition registrations :: "(string \<times> string \<times> string) list" where
  "registrations =
    [(''sales'', CART_CHECKED_OUT, ''sales.handle_cart_checked_out''),
     (''sales'', PAYMENT_SUCCEEDED, ''sales.handle_payment_succeeded''),
     (''inventory'', SALE_CREATED, ''inventory.handle_sale_created''),
     (''inventory'', SALE_VOIDED, ''inventory.handle_sale_voided''),
     (''inventory'', CATALOG_PRODUCT_CREATED, ''inventory.handle_product_created''),
     (''accounting'', SALE_CONFIRMED, ''accounting.handle_sale_confirmed''),
     (''accounting'', PAYMENT_SUCCEEDED, ''accounting.handle_payment_succeeded''),
     (''notifications'', TENANT_CREATED, ''notifications.handle_tenant_created''),
     (''notifications'', IDENTITY_USER_CREATED, ''notifications.handle_user_created''),
     (''notifications'', INVENTORY_LOW_STOCK_DETECTED, ''notifications.handle_low_stock_detected''),
     (''notifications'', SALE_CONFIRMED, ''notifications.handle_sale_confirmed''),
     (''notifications'', PAYMENT_SUCCEEDED, ''notifications.handle_payment_received''),
     (''reporting'', SALE_RECEIPT_CREATED, ''reporting.handle_sale_receipt_created''),
     (''reporting'', SALE_VOIDED, ''reporting.handle_sale_voided''),
     (''reporting'', SALE_RETURNED, ''reporting.handle_sale_voided''),
     (''reporting'', PAYMENT_SUCCEEDED, ''reporting.handle_payment_succeeded''),
     (''reporting'', TENANT_TIER_CHANGED, ''reporting.handle_tier_changed''),
     (''documents'', DOCUMENT_STATUS_CHANGED, ''documents.handle_document_status_changed'')]"

definition SERVICE_HANDLERS :: "(string \<times> (string \<times> string) list) list" where
  "SERVICE_HANDLERS = fold (\<lambda>(s, t, h). register s t h) registrations empty_registry"

text \<open>\<open>apply_service_handlers\<close>: a later registration of the same event type replaces an earlier one.\<close>

definition apply_service_handlers :: "string \<Rightarrow> (string \<rightharpoonup> string)" where
  "apply_service_handlers service =
     fold (\<lambda>(t, h) m. m(t \<mapsto> h))
       (case map_of SERVICE_HANDLERS service of None \<Rightarrow> [] | Some hs \<Rightarrow> hs) Map.empty"

text \<open>
  \<open>consumer_runner.main\<close> starts one consumer per entry of \<open>SERVICE_QUEUES\<close>, each with the handlers
  registered for that service. All of them work on one database, so they share one
  \<open>inbox_events\<close> table. \<open>impl\<close> gives the code of a handler by its name.
\<close>

definition service_handlers ::
  "(string \<Rightarrow> 's handler) \<Rightarrow> string \<Rightarrow> (string \<rightharpoonup> 's handler)" where
  "service_handlers impl service = (\<lambda>t. map_option impl (apply_service_handlers service t))"

definition consumer_services :: "string list" where
  "consumer_services = map fst SERVICE_QUEUES"

text \<open>One event, delivered to the queues of \<open>services\<close> in turn.\<close>

fun deliver ::
  "(string \<Rightarrow> 's handler) \<Rightarrow> string list \<Rightarrow> envelope \<Rightarrow> 's service_db \<Rightarrow>
   outcome list \<times> 's service_db" where
  "deliver impl [] e db = ([], db)"
| "deliver impl (s # ss) e db =
     (let (o1, db1) = handle_message (service_handlers impl s) (Some e) db;
          (os, db2) = deliver impl ss e db1
      in (o1 # os, db2))"

lemma deliver_duplicate:
  "in_inbox (event_id e) db \<Longrightarrow> deliver impl ss e db = (replicate (length ss) Duplicate, db)"
  by (induction ss) (simp_all add: handle_message_duplicate)

lemma SERVICE_HANDLERS_eq:
  "SERVICE_HANDLERS =
    [(''sales'', [(CART_CHECKED_OUT, ''sales.handle_cart_checked_out''),
        (PAYMENT_SUCCEEDED, ''sales.handle_payment_succeeded'')]),
     (''inventory'', [(SALE_CREATED, ''inventory.handle_sale_created''),
        (SALE_VOIDED, ''inventory.handle_sale_voided''),
        (CATALOG_PRODUCT_CREATED, ''inventory.handle_product_created'')]),
     (''accounting'', [(SALE_CONFIRMED, ''accounting.handle_sale_confirmed''),
        (PAYMENT_SUCCEEDED, ''accounting.handle_payment_succeeded'')]),
     (''notifications'', [(TENANT_CREATED, ''notifications.handle_tenant_created''),
        (IDENTITY_USER_CREATED, ''notifications.handle_user_created''),
        (INVENTORY_LOW_STOCK_DETECTED, ''notifications.handle_low_stock_detected''),
        (SALE_CONFIRMED, ''notifications.handle_sale_confirmed''),
        (PAYMENT_SUCCEEDED, ''notifications.handle_payment_received'')]),
     (''reporting'', [(SALE_RECEIPT_CREATED, ''reporting.handle_sale_receipt_created''),
        (SALE_VOIDED, ''reporting.handle_sale_voided''),
        (SALE_RETURNED, ''reporting.handle_sale_voided''),
        (PAYMENT_SUCCEEDED, ''reporting.handle_payment_succeeded''),
        (TENANT_TIER_CHANGED, ''reporting.handle_tier_changed'')]),
     (''documents'', [(DOCUMENT_STATUS_CHANGED, ''documents.handle_document_status_changed'')])]"
  by (simp add: SERVICE_HANDLERS_def registrations_def register_def empty_registry_def)

lemma no_handlers_of_payments: "apply_service_handlers ''payments'' t = None"
  by (simp add: apply_service_handlers_def SERVICE_HANDLERS_eq)

section \<open>Properties\<close>

text \<open>A small table for the witnesses.\<close>

definition sample_row :: "uuid \<Rightarrow> timestamp \<Rightarrow> outbox_event" where
  "sample_row i t =
     \<lparr>oe_id = i, oe_event_type = PAYMENT_SUCCEEDED, oe_aggregate_type = ''payment'',
      oe_aggregate_id = i, oe_tenant_id = Some ''t1'', oe_payload = [],
      oe_headers = \<lparr>h_event_version = 1, h_occurred_at = t, h_actor_id = Some ''u1'',
        h_correlation_id = None, h_causation_id = None\<rparr>,
      oe_status = ''pending'', oe_attempts = 0, oe_available_at = t, oe_created_at = t,
      oe_published_at = None, oe_last_error = None\<rparr>"

definition sample_state :: relay_state where
  "sample_state = \<lparr>outbox = [sample_row ''a'' 1, sample_row ''b'' 2], bus = [], frames = []\<rparr>"

lemma sample_state_simps [simp]:
  "outbox sample_state = [sample_row ''a'' 1, sample_row ''b'' 2]" "bus sample_state = []"
  "oe_id (sample_row i t) = i" "oe_available_at (sample_row i t) = t"
  "oe_created_at (sample_row i t) = t" "oe_status (sample_row i t) = ''pending''"
  by (simp_all add: sample_state_def sample_row_def)

lemma sample_row_inject [simp]: "sample_row i t = sample_row j u \<longleftrightarrow> i = j \<and> t = u"
  by (auto simp: sample_row_def)

text \<open>
  C8: One poll of the relay publishes, in the order of creation, the envelopes of the rows it
  claims whose publication succeeds; it marks exactly these rows published, counts an attempt
  and keeps the error on the claimed rows whose publication fails, leaves every other row as
  it was, and claims at most a batch.
\<close>

theorem relay_poll_effect:
  assumes "distinct (map oe_id (outbox st))"
  shows "outbox (poll b lk pub now st) =
      map (\<lambda>r. if r \<in> set (claim b lk now (outbox st))
               then (case pub (relay_envelope now r) of
                       None \<Rightarrow> mark_published now r | Some err \<Rightarrow> mark_failed err r)
               else r) (outbox st)
    \<and> bus (poll b lk pub now st) = bus st @
        filter (\<lambda>e. pub e = None) (map (relay_envelope now) (claim b lk now (outbox st)))
    \<and> sorted (map oe_created_at (claim b lk now (outbox st)))
    \<and> length (claim b lk now (outbox st)) \<le> b"
proof (intro conjI)
  show "outbox (poll b lk pub now st) =
      map (\<lambda>r. if r \<in> set (claim b lk now (outbox st))
               then (case pub (relay_envelope now r) of
                       None \<Rightarrow> mark_published now r | Some err \<Rightarrow> mark_failed err r)
               else r) (outbox st)"
    using assms by (simp add: poll_outbox claimed_iff relay_row_def cong: map_cong)
  show "sorted (map oe_created_at (claim b lk now (outbox st)))"
    by (simp add: claim_def sorted_wrt_take flip: take_map)
qed (simp_all add: poll_bus length_claim)

theorem relay_poll_effect_witness:
  "map oe_status (outbox (poll 1 (\<lambda>_. False) (\<lambda>_. None) 5 sample_state)) = [''published'', ''pending'']"
proof -
  have "distinct (map oe_id (outbox sample_state))" by simp
  from relay_poll_effect[OF this, of 1 "\<lambda>_. False" "\<lambda>_. None" 5] show ?thesis
    by (simp add: claim_def due_def)
qed

text \<open>
  C14: A relay whose broker accepts every message drains the outbox: each poll takes a batch
  off the pending rows, so after \<open>n\<close> polls with \<open>n * batch\<close> at least the number of pending
  rows none is left.
\<close>

theorem relay_drains:
  assumes "distinct (map oe_id (outbox st))" and "\<forall>r \<in> set (outbox st). oe_available_at r \<le> t0"
    and "\<forall>t \<in> set ts. t0 \<le> t" and "\<forall>e. pub e = None"
    and "length (pending_rows (outbox st)) \<le> length ts * b"
  shows "pending_rows (outbox (run_polls b pub ts st)) = []"
  using run_polls_pending[OF assms(1-4), of b] assms(5) by simp

theorem relay_drains_witness:
  "pending_rows (outbox (run_polls 1 (\<lambda>_. None) [5, 6] sample_state)) = []"
  by (rule relay_drains[where ?t0.0 = 2]) (simp_all add: pending_rows_def)

text \<open>Rows that can never be published block the queue. When every row of the batch at its
  head fails, no number of later polls publishes anything, whatever waits behind them: a
  failed row keeps its status, its \<open>available_at\<close> and its place.
\<close>

theorem relay_head_of_line_blocking:
  assumes "distinct (map oe_id (outbox st))" and "\<forall>r \<in> set (outbox st). oe_available_at r \<le> t0"
    and "\<forall>t \<in> set ts. t0 \<le> t"
    and "\<forall>r \<in> set (claim b (\<lambda>_. False) t0 (outbox st)). \<forall>t. pub (relay_envelope t r) \<noteq> None"
  shows "bus (run_polls b pub ts st) = bus st"
  by (rule relay_blocked_core[OF assms refl])

theorem relay_head_of_line_blocking_witness:
  "bus (run_polls 1 (\<lambda>e. if event_id e = ''a'' then Some ''refused'' else None) [5, 6, 7] sample_state) = []"
  using relay_head_of_line_blocking
    [of sample_state 2 "[5, 6, 7]" 1 "\<lambda>e. if event_id e = ''a'' then Some ''refused'' else None"]
  by (simp add: claim_def due_def relay_envelope_def)

text \<open>
  Of a staged event the relay restores the identifier, the type, the tenant, the payload,
  the correlation and the causation; the actor, though the row's headers hold it, is lost, so
  the consumer runs the handler with an empty \<open>app.user_id\<close>.
\<close>

theorem relay_round_trip:
  "let e = ow_event w; e' = relay_envelope now (to_model now0 w) in
    event_id e' = event_id e \<and> event_type e' = event_type e \<and> ev_tenant_id e' = ev_tenant_id e
    \<and> payload e' = payload e \<and> correlation_id e' = correlation_id e
    \<and> causation_id e' = causation_id e
    \<and> h_actor_id (oe_headers (to_model now0 w)) = actor_id e
    \<and> actor_id e' = None \<and> rls_user_id (consumer_context e') = []"
  by (simp add: relay_envelope_def to_model_def consumer_context_def Let_def)

text \<open>
  C6: A consumer runs the handlers to the end at most once for an event, however often and in
  whatever order the broker delivers it, failed attempts included.
\<close>

theorem consumer_handles_at_most_once:
  "handled_count i (fst (consume (handle_message hs) ms db)) \<le> 1"
  by (rule svc.consume_at_most_once[of hs ms db _ "snd (consume (handle_message hs) ms db)"]) simp



text \<open>
  The handler of document status changes, which books receivables, is registered for a
  service that has no queue, so no consumer process ever runs it; every other registered
  handler belongs to a service with a queue.
\<close>

theorem documents_handler_not_started:
  "apply_service_handlers ''documents'' DOCUMENT_STATUS_CHANGED =
     Some ''documents.handle_document_status_changed''
   \<and> filter (\<lambda>s. apply_service_handlers s DOCUMENT_STATUS_CHANGED \<noteq> None) consumer_services = []
   \<and> set (map fst SERVICE_HANDLERS) - set consumer_services = {''documents''}"
  by (auto simp: apply_service_handlers_def SERVICE_HANDLERS_eq consumer_services_def
      SERVICE_QUEUES_def event_name_defs)

end
