(* ===== verification/Kobo.thy ===== *)
theory Kobo
  imports PyNum
begin

text \<open>
  The abstract money: a whole number of kobo (1/100 naira). \<open>kob k\<close> is the float the
  program holds for \<open>k\<close> kobo. The lemmas say that the program's float arithmetic with its
  rounding to two places computes integer arithmetic on kobo, within bounds far above
  the columns' width; \<open>app/common/money.py\<close> is modelled at the end.
\<close>

section \<open>Two-decimal floats\<close>

definition kob :: "int \<Rightarrow> rat" where
  "kob k = fl (of_int k / 100)"

lemma kob_0 [simp]: "kob 0 = 0"
  by (simp add: kob_def)

lemma kob_minus: "kob (- k) = - kob k"
  by (simp add: kob_def flt.r_minus)

lemma kob_mono: "k \<le> l \<Longrightarrow> kob k \<le> kob l"
  by (simp add: kob_def flt.r_mono)

lemma kob_nonneg: "0 \<le> k \<Longrightarrow> 0 \<le> kob k"
  using kob_mono[of 0 k] by simp

lemma kob_err: "\<bar>kob k - of_int k / 100\<bar> \<le> eps * (of_int \<bar>k\<bar> / 100)"
  using flt.r_err[of "of_int k / 100"] by (simp add: kob_def)

lemma kob_err_le:
  assumes "\<bar>k\<bar> \<le> n"
  shows "\<bar>kob k - of_int k / 100\<bar> \<le> eps * (of_int n / 100)" "\<bar>kob k\<bar> \<le> of_int n / 50"
proof -
  have k: "\<bar>of_int k / 100 :: rat\<bar> \<le> of_int n / 100"
    using assms by (metis abs_divide abs_numeral divide_right_mono of_int_abs of_int_le_iff
        zero_le_numeral)
  show "\<bar>kob k - of_int k / 100\<bar> \<le> eps * (of_int n / 100)"
    unfolding kob_def by (rule flt.r_err_le[OF k])
  show "\<bar>kob k\<bar> \<le> of_int n / 50"
    using flt.r_abs_le2[OF k] by (simp add: kob_def)
qed

lemma kob_abs_le: "\<bar>kob k\<bar> \<le> of_int \<bar>k\<bar> / 50"
  using flt.r_abs_le2[of "of_int k / 100" "of_int \<bar>k\<bar> / 100"] by (simp add: kob_def)

lemma round2_near:
  assumes "\<bar>x - of_int k / 100\<bar> < 1 / 200"
  shows "round2 x = kob k"
proof -
  have "x * 100 - of_int k = (x - of_int k / 100) * 100" by simp
  then have "\<bar>x * 100 - of_int k\<bar> = \<bar>x - of_int k / 100\<bar> * 100" by (simp only: abs_mult)
  then have "rhe (x * 100) = k" using assms by (intro rhe_unique) simp
  then show ?thesis by (simp add: round2_def kob_def)
qed

lemma round2_is_kob: "round2 x = kob (rhe (x * 100))"
  by (simp add: round2_def kob_def)

lemma of_int_abs_bound: "\<bar>k\<bar> \<le> n \<Longrightarrow> \<bar>of_int k :: rat\<bar> \<le> of_int n"
  by (metis of_int_abs of_int_le_iff)

lemma round2_kob:
  assumes "\<bar>k\<bar> \<le> 10 ^ 15"
  shows "round2 (kob k) = kob k"
proof (rule round2_near)
  show "\<bar>kob k - of_int k / 100\<bar> < 1 / 200"
    using kob_err[of k] of_int_abs_bound[OF assms] by simp
qed

lemma kob_inject:
  assumes "\<bar>k\<bar> \<le> 10 ^ 15" "\<bar>l\<bar> \<le> 10 ^ 15" "kob k = kob l"
  shows "k = l"
proof -
  have "\<bar>kob k - of_int k / 100\<bar> < 1 / 200" "\<bar>kob k - of_int l / 100\<bar> < 1 / 200"
    using kob_err[of k] kob_err[of l] of_int_abs_bound[OF assms(1)]
      of_int_abs_bound[OF assms(2)] assms(3) by simp_all
  then have "\<bar>(of_int k :: rat) - of_int l\<bar> < 1" by linarith
  then have "\<bar>of_int (k - l) :: rat\<bar> < 1" by simp
  then show ?thesis by (metis abs_less_iff of_int_abs of_int_less_1_iff zero_less_abs_iff
      eq_iff_diff_eq_0 int_one_le_iff_zero_less not_le)
qed

lemma err_add:
  fixes x y z :: rat
  shows "\<bar>x - a\<bar> \<le> e \<Longrightarrow> \<bar>y - b\<bar> \<le> f \<Longrightarrow> \<bar>z - (x + y)\<bar> \<le> g \<Longrightarrow>
    \<bar>z - (a + b)\<bar> \<le> e + f + g"
  by linarith

lemma err_sub:
  fixes x y z :: rat
  shows "\<bar>x - a\<bar> \<le> e \<Longrightarrow> \<bar>y - b\<bar> \<le> f \<Longrightarrow> \<bar>z - (x - y)\<bar> \<le> g \<Longrightarrow>
    \<bar>z - (a - b)\<bar> \<le> e + f + g"
  by linarith

text \<open>Adding and subtracting two amounts and rounding to two places is exact.\<close>

lemma round2_fadd_kob:
  assumes "\<bar>a\<bar> \<le> 10 ^ 14" "\<bar>b\<bar> \<le> 10 ^ 14"
  shows "round2 (fadd (kob a) (kob b)) = kob (a + b)"
proof (rule round2_near)
  note a = kob_err_le[OF assms(1)] and b = kob_err_le[OF assms(2)]
  have "\<bar>kob a + kob b\<bar> \<le> 4000000000000" using a(2) b(2) by simp
  then have "\<bar>fadd (kob a) (kob b) - (kob a + kob b)\<bar> \<le> eps * 4000000000000"
    unfolding fadd_def by (rule flt.r_err_le)
  from err_add[OF a(1) b(1) this]
  show "\<bar>fadd (kob a) (kob b) - of_int (a + b) / 100\<bar> < 1 / 200"
    by (simp add: add_divide_distrib)
qed

lemma round2_fsub_kob:
  assumes "\<bar>a\<bar> \<le> 10 ^ 14" "\<bar>b\<bar> \<le> 10 ^ 14"
  shows "round2 (fsub (kob a) (kob b)) = kob (a - b)"
  using round2_fadd_kob[of a "- b"] assms by (simp add: fsub_def fadd_def kob_minus)

lemma fsub_kob_err:
  assumes "\<bar>a\<bar> \<le> 10 ^ 11" "\<bar>b\<bar> \<le> 10 ^ 11"
  shows "\<bar>fsub (kob a) (kob b) - of_int (a - b) / 100\<bar> \<le> 1 / 1000000"
proof -
  note a = kob_err_le[OF assms(1)] and b = kob_err_le[OF assms(2)]
  have "\<bar>kob a - kob b\<bar> \<le> 4000000000" using a(2) b(2) by simp
  then have "\<bar>fsub (kob a) (kob b) - (kob a - kob b)\<bar> \<le> eps * 4000000000"
    unfolding fsub_def by (rule flt.r_err_le)
  from err_sub[OF a(1) b(1) this] show ?thesis by (simp add: diff_divide_distrib)
qed

section \<open>The compensated sum\<close>

text \<open>
  The error of \<open>sum\<close> over \<open>n\<close> floats whose absolute values add up to at most \<open>B\<close>: the running
  sum is off by at most \<open>2 n \<epsilon> B\<close> and the compensation is at most \<open>24 n \<epsilon> B\<close>.
\<close>

definition csum_ok :: "rat \<Rightarrow> rat \<Rightarrow> rat \<times> rat \<Rightarrow> rat \<Rightarrow> bool" where
  "csum_ok B n s S \<longleftrightarrow> \<bar>fst s - S\<bar> \<le> 2 * eps * (n * B) \<and> \<bar>snd s\<bar> \<le> 24 * eps * (n * B)"

lemma csum_delta:
  assumes hi: "\<bar>hi\<bar> \<le> 2 * B" and x: "\<bar>x\<bar> \<le> B" and t: "\<bar>fl (hi + x) - (hi + x)\<bar> \<le> 2 * eps * B"
  shows "\<bar>if \<bar>x\<bar> \<le> \<bar>hi\<bar> then fadd (fsub hi (fl (hi + x))) x
          else fadd (fsub x (fl (hi + x))) hi\<bar> \<le> 12 * eps * B"
proof -
  let ?t = "fl (hi + x)"
  have B: "0 \<le> B" using x by linarith
  have "\<bar>fl (hi - ?t) - (hi - ?t)\<bar> \<le> eps * (2 * B)"
    by (rule flt.r_err_le) (use t x B in linarith)
  then have "\<bar>fl (hi - ?t) + x\<bar> \<le> 4 * eps * B" using t by linarith
  then have 1: "\<bar>fadd (fsub hi ?t) x\<bar> \<le> 2 * (4 * eps * B)"
    unfolding fadd_def fsub_def by (rule flt.r_abs_le2)
  have "\<bar>fl (x - ?t) - (x - ?t)\<bar> \<le> eps * (4 * B)"
    by (rule flt.r_err_le) (use t hi B in linarith)
  then have "\<bar>fl (x - ?t) + hi\<bar> \<le> 6 * eps * B" using t by linarith
  then have 2: "\<bar>fadd (fsub x ?t) hi\<bar> \<le> 2 * (6 * eps * B)"
    unfolding fadd_def fsub_def by (rule flt.r_abs_le2)
  from 1 2 B show ?thesis by (auto; linarith)
qed

lemma csum_step_ok:
  assumes ok: "csum_ok B n s S" and x: "\<bar>x\<bar> \<le> B" and S: "\<bar>S\<bar> \<le> B" "\<bar>S + x\<bar> \<le> B"
    and n: "0 \<le> n" "n \<le> 100000000000000"
  shows "csum_ok B (n + 1) (csum_step s x) (S + x)"
proof -
  obtain hi lo where s: "s = (hi, lo)" by (cases s)
  have B: "0 \<le> B" using x by linarith
  have nB: "0 \<le> n * B" "n * B \<le> 100000000000000 * B"
    using n B by (auto intro: mult_right_mono)
  have h: "\<bar>hi - S\<bar> \<le> 2 * eps * (n * B)" and l: "\<bar>lo\<bar> \<le> 24 * eps * (n * B)"
    using ok by (simp_all only: csum_ok_def s fst_conv snd_conv)
  have hx: "\<bar>hi + x\<bar> \<le> 2 * B" "\<bar>hi\<bar> \<le> 2 * B" using h S nB B by linarith+
  let ?t = "fl (hi + x)"
  define d where "d = (if \<bar>x\<bar> \<le> \<bar>hi\<bar> then fadd (fsub hi ?t) x else fadd (fsub x ?t) hi)"
  have t: "\<bar>?t - (hi + x)\<bar> \<le> 2 * eps * B" using flt.r_err_le[OF hx(1)] by simp
  have d: "\<bar>d\<bar> \<le> 12 * eps * B" unfolding d_def by (rule csum_delta[OF hx(2) x t])
  have "\<bar>fl (lo + d) - (lo + d)\<bar> \<le> eps * (B)"
    by (rule flt.r_err_le) (use l d nB B in linarith)
  then have "\<bar>fl (lo + d)\<bar> \<le> 24 * eps * (n * B) + 13 * eps * B" using l d by linarith
  then have "\<bar>fl (lo + d)\<bar> \<le> 24 * eps * (n * B + B)" using B by simp
  moreover have "\<bar>?t - (S + x)\<bar> \<le> 2 * eps * (n * B) + 2 * eps * B" using t h by linarith
  then have "\<bar>?t - (S + x)\<bar> \<le> 2 * eps * (n * B + B)" by simp
  moreover have "csum_step s x = (?t, fl (lo + d))"
    by (simp add: csum_step_def s fadd_def d_def Let_def)
  ultimately show ?thesis by (simp add: csum_ok_def distrib_right)
qed

lemma foldl_csum_ok:
  assumes "csum_ok B n s S" and "\<bar>S\<bar> + (\<Sum>x\<leftarrow>xs. \<bar>x\<bar>) \<le> B"
    and "0 \<le> n" and "n + of_nat (length xs) \<le> 100000000000000"
  shows "csum_ok B (n + of_nat (length xs)) (foldl csum_step s xs) (S + sum_list xs)"
  using assms
proof (induction xs arbitrary: s S n)
  case (Cons x xs)
  have nn: "0 \<le> (\<Sum>x\<leftarrow>xs. \<bar>x\<bar>)" by (rule sum_list_nonneg) auto
  have B: "\<bar>x\<bar> \<le> B" "\<bar>S\<bar> \<le> B" "\<bar>S + x\<bar> + (\<Sum>x\<leftarrow>xs. \<bar>x\<bar>) \<le> B" "\<bar>S + x\<bar> \<le> B"
    using Cons.prems(2) nn by auto
  have len: "0 \<le> (of_nat (length xs) :: rat)" by simp
  have "csum_ok B (n + 1) (csum_step s x) (S + x)"
    by (rule csum_step_ok[OF Cons.prems(1) B(1,2,4) Cons.prems(3)]) (use Cons.prems(4) len in simp)
  from Cons.IH[OF this B(3)] Cons.prems(3,4) show ?case by (simp add: add.assoc)
qed simp

lemma py_fsum_err:
  assumes "xs \<noteq> []" and "(\<Sum>x\<leftarrow>xs. \<bar>x\<bar>) \<le> B" and "of_nat (length xs) \<le> (100000000000000 :: rat)"
  shows "\<bar>py_fsum xs - sum_list xs\<bar> \<le> 40 * eps * (of_nat (length xs) * B)"
proof -
  obtain x ys where xs: "xs = x # ys" using assms(1) by (cases xs) auto
  define m :: rat where "m = of_nat (length ys)"
  obtain hi lo where s: "foldl csum_step (x, 0) ys = (hi, lo)" by fastforce
  have "\<bar>sum_list xs\<bar> \<le> B" using sum_list_abs[of xs] assms(2) by simp
  have "0 \<le> B" using \<open>\<bar>sum_list xs\<bar> \<le> B\<close> by linarith
  have "csum_ok B (0 + m) (foldl csum_step (x, 0) ys) (x + sum_list ys)"
    unfolding m_def
    by (rule foldl_csum_ok) (use assms xs \<open>0 \<le> B\<close> in \<open>auto simp: csum_ok_def\<close>)
  then have h: "\<bar>hi - sum_list xs\<bar> \<le> 2 * eps * (m * B)" and l: "\<bar>lo\<bar> \<le> 24 * eps * (m * B)"
    by (simp_all add: csum_ok_def s xs)
  have m: "0 \<le> m * B" "m * B \<le> 100000000000000 * B"
    using assms(3) \<open>0 \<le> B\<close> by (auto simp: m_def xs intro: mult_right_mono)
  have "\<bar>fl (hi + lo) - (hi + lo)\<bar> \<le> eps * (2 * B)"
    by (rule flt.r_err_le) (use h l m \<open>\<bar>sum_list xs\<bar> \<le> B\<close> \<open>0 \<le> B\<close> in linarith)
  then have 1: "\<bar>fl (hi + lo) - sum_list xs\<bar> \<le> 26 * eps * (m * B) + 2 * eps * B" using h l by linarith
  have "\<bar>py_fsum xs - sum_list xs\<bar> \<le> 26 * eps * (m * B) + 2 * eps * B"
  proof (cases "lo = 0")
    case True
    then have "py_fsum xs = hi" by (simp add: py_fsum_def xs s Let_def)
    then show ?thesis using h m \<open>0 \<le> B\<close> by linarith
  next
    case False
    then have "py_fsum xs = fl (hi + lo)" by (simp add: py_fsum_def xs s fadd_def Let_def)
    then show ?thesis using 1 by simp
  qed
  also have "\<dots> \<le> 40 * eps * (of_nat (length xs) * B)"
  proof -
    have "of_nat (length xs) * B = m * B + B" by (simp add: m_def xs distrib_right)
    then show ?thesis using m(1) \<open>0 \<le> B\<close> by linarith
  qed
  finally show ?thesis .
qed

text \<open>Lists of amounts whose sum is exact to the kobo.\<close>

definition kobo_range :: "int list \<Rightarrow> bool" where
  "kobo_range ks \<longleftrightarrow> int (length ks) * ((\<Sum>k\<leftarrow>ks. \<bar>k\<bar>) + 1) \<le> 10 ^ 13"

lemma kobo_range_Nil [simp]: "kobo_range []"
  by (simp add: kobo_range_def)

lemma sum_abs_nonneg: "0 \<le> (\<Sum>k\<leftarrow>ks. \<bar>k\<bar> :: int)"
  by (rule sum_list_nonneg) auto

lemma kob_sum_err:
  "\<bar>(\<Sum>k\<leftarrow>ks. kob k) - of_int (sum_list ks) / 100\<bar> \<le> eps * (of_int (\<Sum>k\<leftarrow>ks. \<bar>k\<bar>) / 100)"
proof (induction ks)
  case (Cons k ks)
  from err_add[OF kob_err[of k] Cons.IH, of "kob k + (\<Sum>k\<leftarrow>ks. kob k)" 0]
  show ?case by (simp add: add_divide_distrib distrib_left)
qed simp

theorem round2_fsum_kob:
  assumes "kobo_range ks"
  shows "round2 (py_fsum (map kob ks)) = kob (sum_list ks)"
proof (cases "ks = []")
  case True
  then show ?thesis by (simp add: py_fsum_def round2_def)
next
  case False
  let ?W = "\<Sum>k\<leftarrow>ks. \<bar>k\<bar>" and ?n = "int (length ks)"
  have "1 \<le> ?n" using False by (cases ks) auto
  moreover have W: "0 \<le> ?W" by (rule sum_abs_nonneg)
  ultimately have "?n \<le> ?n * (?W + 1)" "?W \<le> ?n * ?W" "?n * ?W \<le> ?n * (?W + 1)"
    by (simp_all add: mult_le_cancel_right1 mult_le_cancel_left1 distrib_left)
  with assms have bounds: "?n \<le> 10 ^ 13" "?W \<le> 10 ^ 13" "?n * ?W \<le> 10 ^ 13"
    unfolding kobo_range_def by linarith+
  have r: "of_nat (length ks) \<le> (10 ^ 13 :: rat)" "of_int ?W \<le> (10 ^ 13 :: rat)"
    "of_nat (length ks) * of_int ?W \<le> (10 ^ 13 :: rat)"
    using bounds[folded of_int_le_iff[where 'a = rat]] by simp_all
  have "(\<Sum>x\<leftarrow>map kob ks. \<bar>x\<bar>) \<le> (\<Sum>k\<leftarrow>ks. of_int \<bar>k\<bar> / 50)"
    by (simp add: comp_def) (intro sum_list_mono, use kob_abs_le in simp)
  also have "\<dots> = of_int ?W / 50" by (induction ks) (auto simp: add_divide_distrib)
  finally have "\<bar>py_fsum (map kob ks) - sum_list (map kob ks)\<bar>
      \<le> 40 * eps * (of_nat (length (map kob ks)) * (of_int ?W / 50))"
    using False r(1) by (intro py_fsum_err) auto
  also have "\<dots> \<le> 40 * eps * (10 ^ 13 / 50)" using r(3) by simp
  finally have 1: "\<bar>py_fsum (map kob ks) - sum_list (map kob ks)\<bar> \<le> 40 * eps * (10 ^ 13 / 50)" .
  have 2: "\<bar>sum_list (map kob ks) - of_int (sum_list ks) / 100\<bar> \<le> eps * (10 ^ 13 / 100)"
    using kob_sum_err[of ks] r(2) by simp
  have "\<bar>py_fsum (map kob ks) - of_int (sum_list ks) / 100\<bar>
      \<le> 40 * eps * (10 ^ 13 / 50) + eps * (10 ^ 13 / 100)"
    using 1 2 by linarith
  then show ?thesis by (intro round2_near) simp
qed

section \<open>Two-place columns\<close>

text \<open>
  What a \<open>Numeric(p, 2)\<close> column stores of an assigned number: the driver sends its decimal
  text and the database rounds that half away from zero.
\<close>

definition column_value :: "num \<Rightarrow> rat" where
  "column_value x = quant2_half_up (dec_of_str x)"

lemma flt_repr_err: "\<bar>flt_repr x - x\<bar> \<le> \<bar>x\<bar> / 10 ^ 15"
proof -
  have pick: "\<bar>c - x\<bar> \<le> \<bar>x\<bar> / 10 ^ 15" if "fl c = x" for c x
  proof -
    have "(1 - eps) * \<bar>c\<bar> \<le> \<bar>x\<bar>" "\<bar>x - c\<bar> \<le> eps * \<bar>c\<bar>"
      using flt.r_abs_ge[of c] flt.r_err[of c] that by simp_all
    then have "\<bar>c\<bar> - \<bar>c\<bar> / 9007199254740992 \<le> \<bar>x\<bar>"
      "\<bar>x - c\<bar> \<le> \<bar>c\<bar> / 9007199254740992" by (simp_all add: left_diff_distrib)
    then have "\<bar>c - x\<bar> \<le> \<bar>x\<bar> / 1000000000000000" by linarith
    then show ?thesis by simp
  qed
  have "\<bar>repr_from n x - x\<bar> \<le> \<bar>x\<bar> / 10 ^ 15" for n
  proof (induction n x rule: repr_from.induct)
    case (1 n x)
    show ?case
    proof (cases "17 \<le> n")
      case True
      have "\<bar>rnd 10 17 x - x\<bar> \<le> \<bar>x\<bar> / (2 * 10 ^ 16)"
        using rnd_rel_err[of 10 17 x] by (simp add: power_int_minus_divide)
      then show ?thesis using True
        by (simp add: repr_from.simps[of n]; linarith)
    next
      case False
      show ?thesis
      proof (cases "repr_pick n x")
        case None
        then show ?thesis using 1[OF False None] False by (simp add: repr_from.simps[of n])
      next
        case (Some c)
        then have "repr_from n x = c" using False by (simp add: repr_from.simps[of n])
        then show ?thesis using pick[OF repr_pick_SomeD(1)[OF Some]] by simp
      qed
    qed
  qed
  then show ?thesis by (simp add: flt_repr_def)
qed

lemma fadd_cents:
  assumes "\<bar>a\<bar> \<le> 10 ^ 12" "\<bar>b\<bar> \<le> 10 ^ 12"
  shows "\<bar>fadd (kob a) (kob b) - of_int (a + b) / 100\<bar> \<le> 1 / 10000"
proof -
  note a = kob_err_le[OF assms(1)] and b = kob_err_le[OF assms(2)]
  have "\<bar>kob a + kob b\<bar> \<le> 40000000000" using a(2) b(2) by simp
  then have "\<bar>fadd (kob a) (kob b) - (kob a + kob b)\<bar> \<le> eps * 40000000000"
    unfolding fadd_def by (rule flt.r_err_le)
  from err_add[OF a(1) b(1) this] show ?thesis by (simp add: add_divide_distrib)
qed

lemma column_value_near:
  assumes "\<bar>x - of_int k / 100\<bar> \<le> 1 / 10000" "\<bar>k\<bar> \<le> 2 * 10 ^ 12"
  shows "column_value (PFlt x) = of_int k / 100"
proof -
  have k: "\<bar>of_int k / 100 :: rat\<bar> \<le> 20000000000"
    using of_int_abs_bound[OF assms(2)] by simp
  then have "\<bar>x\<bar> \<le> 20000000001" using assms(1) by linarith
  then have "\<bar>flt_repr x - x\<bar> \<le> 1 / 10000" using flt_repr_err[of x] by simp
  then have "\<bar>flt_repr x * 100 - of_int k\<bar> < 1 / 2" using assms(1) by linarith
  then show ?thesis by (simp add: column_value_def quant2_half_up_def rhu_unique)
qed

lemma column_value_kob: "\<bar>k\<bar> \<le> 2 * 10 ^ 12 \<Longrightarrow> column_value (PFlt (kob k)) = of_int k / 100"
  using kob_err[of k] of_int_abs_bound[of k "2 * 10 ^ 12"] by (intro column_value_near) auto

lemma fsum_kob_err:
  assumes "int (length ks) * ((\<Sum>k\<leftarrow>ks. \<bar>k\<bar>) + 1) \<le> 10 ^ 12"
  shows "\<bar>py_fsum (map kob ks) - of_int (sum_list ks) / 100\<bar> \<le> 1 / 10000"
proof (cases "ks = []")
  case True
  then show ?thesis by (simp add: py_fsum_def)
next
  case False
  let ?W = "\<Sum>k\<leftarrow>ks. \<bar>k\<bar>" and ?n = "int (length ks)"
  have "1 \<le> ?n" using False by (cases ks) auto
  moreover have W: "0 \<le> ?W" by (rule sum_abs_nonneg)
  ultimately have "?n \<le> ?n * (?W + 1)" "?W \<le> ?n * ?W" "?n * ?W \<le> ?n * (?W + 1)"
    by (simp_all add: mult_le_cancel_right1 mult_le_cancel_left1 distrib_left)
  with assms have bounds: "?n \<le> 10 ^ 12" "?W \<le> 10 ^ 12" "?n * ?W \<le> 10 ^ 12" by linarith+
  have r: "of_nat (length ks) \<le> (10 ^ 13 :: rat)" "of_int ?W \<le> (10 ^ 12 :: rat)"
    "of_nat (length ks) * of_int ?W \<le> (10 ^ 12 :: rat)"
    using bounds[folded of_int_le_iff[where 'a = rat]] by simp_all
  have "(\<Sum>x\<leftarrow>map kob ks. \<bar>x\<bar>) \<le> (\<Sum>k\<leftarrow>ks. of_int \<bar>k\<bar> / 50)"
    by (simp add: comp_def) (intro sum_list_mono, use kob_abs_le in simp)
  also have "\<dots> = of_int ?W / 50" by (induction ks) (auto simp: add_divide_distrib)
  finally have "\<bar>py_fsum (map kob ks) - sum_list (map kob ks)\<bar>
      \<le> 40 * eps * (of_nat (length (map kob ks)) * (of_int ?W / 50))"
    using False r(1) by (intro py_fsum_err) auto
  also have "\<dots> \<le> 40 * eps * (10 ^ 12 / 50)" using r(3) by simp
  finally have 1: "\<bar>py_fsum (map kob ks) - sum_list (map kob ks)\<bar> \<le> 40 * eps * (10 ^ 12 / 50)" .
  have 2: "\<bar>sum_list (map kob ks) - of_int (sum_list ks) / 100\<bar> \<le> eps * (10 ^ 12 / 100)"
    using kob_sum_err[of ks] r(2) by simp
  have "\<bar>py_fsum (map kob ks) - of_int (sum_list ks) / 100\<bar>
      \<le> 40 * eps * (10 ^ 12 / 50) + eps * (10 ^ 12 / 100)"
    using 1 2 by linarith
  then show ?thesis by (rule order_trans) simp
qed

section \<open>\<open>app/common/money.py\<close>\<close>

definition quantize_naira :: "rat \<Rightarrow> rat" where
  "quantize_naira amount = quant2_half_up amount"

text \<open>\<open>int(x)\<close> truncates towards zero.\<close>

definition py_int :: "rat \<Rightarrow> int" where
  "py_int x = (if 0 \<le> x then \<lfloor>x\<rfloor> else \<lceil>x\<rceil>)"

definition naira_to_kobo :: "rat \<Rightarrow> int" where
  "naira_to_kobo amount = py_int (dmul (quantize_naira amount) 100)"

definition kobo_to_naira :: "int \<Rightarrow> rat" where
  "kobo_to_naira kobo = ddiv (of_int kobo) 100"

lemma py_int_of_int [simp]: "py_int (of_int k) = k"
  by (simp add: py_int_def)

lemma dctx_of_int: "\<bar>k\<bar> < 10 ^ 28 \<Longrightarrow> dctx (of_int k) = of_int k"
  unfolding dctx_def by (rule rnd_exact[where m = k and k = 0]) auto

lemma dec_of_str_kob: "\<bar>S\<bar> < 10 ^ 15 \<Longrightarrow> dec_of_str (PFlt (kob S)) = of_int S / 100"
  using flt_repr_cents[of S] by (simp add: kob_def)

text \<open>A percentage of a hundred at most leaves an amount within itself.\<close>

lemma percent_bounds:
  assumes "0 \<le> S" "S \<le> 10 ^ 14" "0 \<le> V" "V \<le> 10000"
  shows "0 \<le> ddiv (dmul (of_int S / 100) (of_int V / 100)) 100"
    "ddiv (dmul (of_int S / 100) (of_int V / 100)) 100 \<le> of_int S / 100"
proof -
  let ?s = "of_int S / 100 :: rat" and ?v = "of_int V / 100 :: rat"
  have s: "0 \<le> ?s" and v: "0 \<le> ?v" using assms(1,3) by simp_all
  show "0 \<le> ddiv (dmul ?s ?v) 100"
    unfolding ddiv_def dmul_def using s v by (intro dec.r_nonneg divide_nonneg_nonneg) auto
  have "(of_int V :: rat) \<le> of_int 10000" using assms(4) by (simp only: of_int_le_iff)
  then have "?v \<le> 100" by simp
  then have "?s * ?v \<le> ?s * 100" using s by (rule mult_left_mono)
  then have "?s * ?v \<le> of_int S" by simp
  then have "dctx (?s * ?v) \<le> dctx (of_int S)" by (rule dec.r_mono)
  moreover have S10: "\<bar>S\<bar> < 10 ^ 28" using assms by simp
  ultimately have "dctx (?s * ?v) \<le> of_int S" by (simp only: dctx_of_int)
  then have "dctx (dctx (?s * ?v) / 100) \<le> dctx (of_int S / 100)"
    by (intro dec.r_mono divide_right_mono) auto
  then show "ddiv (dmul ?s ?v) 100 \<le> of_int S / 100"
    by (simp only: ddiv_def dmul_def dctx_cents[OF S10])
qed

lemma quantize_naira_err: "\<bar>quantize_naira d - d\<bar> \<le> 1 / 200"
proof -
  have "quantize_naira d = of_int (rhu (d * 100)) / 100"
    by (simp add: quantize_naira_def quant2_half_up_def)
  then show ?thesis using rhu_err[of "d * 100"] by linarith
qed

lemma naira_to_kobo_eq:
  assumes "\<bar>d\<bar> \<le> 10 ^ 25"
  shows "naira_to_kobo d = rhu (d * 100)"
proof -
  have "\<bar>of_int (rhu (d * 100)) - d * 100\<bar> \<le> 1 / 2" by (rule rhu_err)
  moreover have "\<bar>d\<bar> \<le> 10000000000000000000000000" using assms by simp
  ultimately have "\<bar>of_int (rhu (d * 100)) :: rat\<bar> < 10000000000000000000000000000" by linarith
  then have "\<bar>of_int (rhu (d * 100)) :: rat\<bar> < of_int (10 ^ 28)" by simp
  then have "\<bar>rhu (d * 100)\<bar> < 10 ^ 28" by (metis of_int_abs of_int_less_iff)
  then show ?thesis
    by (simp add: naira_to_kobo_def quantize_naira_def quant2_half_up_def dmul_def dctx_of_int)
qed

lemma kobo_to_naira_eq: "\<bar>k\<bar> < 10 ^ 28 \<Longrightarrow> kobo_to_naira k = of_int k / 100"
  by (simp add: kobo_to_naira_def ddiv_def dctx_cents)

lemma naira_to_kobo_err:
  assumes "\<bar>d\<bar> \<le> 10 ^ 25"
  shows "\<bar>of_int (naira_to_kobo d) - d * 100\<bar> \<le> 1 / 2"
  using rhu_err[of "d * 100"] by (simp add: naira_to_kobo_eq[OF assms])

end
