(* ===== verification/Inventory.thy ===== *)
theory Inventory
  imports Events Kobo
begin

text \<open>
  \<open>app/inventory\<close>: the rows of \<open>models.py\<close>, the commands of \<open>schemas.py\<close> and the planning
  functions of \<open>service.py\<close>.

  A planning function mutates the row objects it is given and returns them. Rows live in a
  heap \<open>rows\<close> indexed by primary key (the identity map of the session: one object per key),
  and a \<open>StockBalance\<close> argument is a key, so two arguments that are the same object share
  their updates. Fresh identifiers are drawn in order from \<open>ids\<close>; column defaults, which
  the ORM fills in at flush, are filled in at construction, and the \<open>created_at\<close> columns are
  left out. A quantity column holds a \<open>num\<close>: a \<open>Decimal\<close> when the row was loaded, whatever
  was assigned last afterwards. When a function raises, the transaction is abandoned, so no
  heap is returned.
\<close>

section \<open>Rows\<close>

record stock_balance =
  sb_id :: uuid
  sb_tenant_id :: uuid
  sb_product_id :: uuid
  sb_store_id :: uuid
  sb_qty :: num
  sb_reserved_qty :: num
  sb_min_stock_level :: num
  sb_unit_cost :: "num option"

type_synonym rows = "uuid \<Rightarrow> stock_balance"

record stock_adjustment =
  sa_id :: uuid
  sa_tenant_id :: uuid
  sa_product_id :: uuid
  sa_store_id :: uuid
  sa_reason :: string
  sa_qty_change :: num
  sa_unit_cost :: "num option"
  sa_notes :: "pytext option"
  sa_created_by :: "uuid option"

record stock_movement =
  sm_id :: uuid
  sm_tenant_id :: uuid
  sm_product_id :: uuid
  sm_store_id :: uuid
  sm_movement_type :: string
  sm_qty_change :: num
  sm_balance_before :: num
  sm_balance_after :: num
  sm_reference_type :: "string option"
  sm_reference_id :: "uuid option"
  sm_reason :: "string option"
  sm_unit_cost :: "num option"
  sm_notes :: "pytext option"
  sm_created_by :: "uuid option"

record stock_damage =
  sd_id :: uuid
  sd_tenant_id :: uuid
  sd_distribution_id :: "uuid option"
  sd_distribution_item_id :: "uuid option"
  sd_store_id :: uuid
  sd_product_id :: uuid
  sd_qty :: num
  sd_condition :: "string option"
  sd_notes :: "string option"
  sd_recorded_by :: "uuid option"

record stock_reservation =
  sr_id :: uuid
  sr_tenant_id :: uuid
  sr_product_id :: uuid
  sr_store_id :: uuid
  sr_sale_id :: uuid
  sr_qty :: num
  sr_status :: string
  sr_released_at :: "timestamp option"

record transfer_request =
  tr_id :: uuid
  tr_tenant_id :: uuid
  tr_product_id :: uuid
  tr_requesting_store_id :: uuid
  tr_supplying_store_id :: uuid
  tr_requested_qty :: num
  tr_approved_qty :: "num option"
  tr_status :: string
  tr_notes :: "string option"
  tr_rejection_reason :: "string option"
  tr_created_by :: "uuid option"
  tr_approved_by :: "uuid option"
  tr_request_number :: "string option"
  tr_item_name :: "string option"
  tr_supplying_product_id :: "uuid option"
  tr_approved_at :: "timestamp option"
  tr_rejected_at :: "timestamp option"
  tr_fulfilled_by :: "uuid option"
  tr_fulfilled_at :: "timestamp option"
  tr_fulfilled_qty :: "num option"
  tr_pin_verified_by :: "uuid option"
  tr_decision_note :: "string option"

record distribution =
  ds_id :: uuid
  ds_tenant_id :: uuid
  ds_number :: string
  ds_from_store_id :: uuid
  ds_to_store_id :: uuid
  ds_status :: string
  ds_notes :: "string option"
  ds_dispatched_by :: "uuid option"
  ds_dispatched_at :: "timestamp option"
  ds_received_by :: "uuid option"
  ds_received_at :: "timestamp option"
  ds_cancelled_by :: "uuid option"
  ds_cancelled_at :: "timestamp option"
  ds_cancel_reason :: "string option"
  ds_pin_verified_by :: "uuid option"
  ds_created_by :: "uuid option"

record distribution_item =
  di_id :: uuid
  di_tenant_id :: uuid
  di_distribution_id :: uuid
  di_source_product_id :: uuid
  di_destination_product_id :: "uuid option"
  di_item_name :: string
  di_qty_dispatched :: num
  di_qty_received :: num
  di_qty_damaged :: num
  di_condition_dispatched :: "string option"
  di_condition_received :: "string option"
  di_receive_notes :: "string option"

section \<open>Commands\<close>

text \<open>The \<open>Decimal\<close> fields of a validated command are exact rationals.\<close>

record adjust_stock_command =
  ac_tenant_id :: uuid
  ac_product_id :: uuid
  ac_store_id :: uuid
  ac_reason :: string
  ac_qty_change :: rat
  ac_unit_cost :: "rat option"
  ac_notes :: "string option"
  ac_created_by :: "uuid option"
  ac_correlation_id :: "string option"

record transfer_stock_command =
  tc_tenant_id :: uuid
  tc_product_id :: uuid
  tc_from_store_id :: uuid
  tc_to_store_id :: uuid
  tc_qty :: rat
  tc_notes :: "string option"
  tc_created_by :: "uuid option"
  tc_correlation_id :: "string option"

record reserve_stock_command =
  rc_tenant_id :: uuid
  rc_product_id :: uuid
  rc_store_id :: uuid
  rc_sale_id :: uuid
  rc_qty :: rat
  rc_correlation_id :: "string option"

record transfer_request_create =
  trc_tenant_id :: uuid
  trc_product_id :: uuid
  trc_requesting_store_id :: uuid
  trc_supplying_store_id :: uuid
  trc_supplying_product_id :: uuid
  trc_item_name :: string
  trc_request_number :: string
  trc_requested_qty :: rat
  trc_notes :: "string option"
  trc_created_by :: "uuid option"
  trc_correlation_id :: "string option"

record transfer_request_approve =
  tra_tenant_id :: uuid
  tra_request_id :: uuid
  tra_approved_qty :: rat
  tra_approved_by :: "uuid option"
  tra_pin_verified_by :: "uuid option"
  tra_notes :: "string option"
  tra_correlation_id :: "string option"

record transfer_request_reject =
  trj_tenant_id :: uuid
  trj_request_id :: uuid
  trj_rejected_by :: "uuid option"
  trj_pin_verified_by :: "uuid option"
  trj_rejection_reason :: "string option"
  trj_notes :: "string option"
  trj_correlation_id :: "string option"

record distribution_line =
  dl_product_id :: uuid
  dl_item_name :: string
  dl_qty_dispatched :: rat
  dl_condition_dispatched :: "string option"

record receive_line =
  rl_item_id :: uuid
  rl_qty_received :: rat
  rl_qty_damaged :: rat
  rl_condition_received :: "string option"
  rl_receive_notes :: "string option"
  rl_destination_product_id :: uuid

section \<open>Adjusting a balance\<close>

definition dneg :: "rat \<Rightarrow> rat" where
  "dneg d = dctx (- d)"

definition cost_given :: "rat option \<Rightarrow> bool" where
  "cost_given c = (case c of None \<Rightarrow> False | Some x \<Rightarrow> x \<noteq> 0)"

definition float_cost :: "rat option \<Rightarrow> num option" where
  "float_cost c = (case c of None \<Rightarrow> None | Some x \<Rightarrow> if x = 0 then None else Some (PFlt (fl x)))"

definition plan_adjust_stock ::
  "(nat \<Rightarrow> uuid) \<Rightarrow> timestamp \<Rightarrow> adjust_stock_command \<Rightarrow> uuid option \<Rightarrow> rows \<Rightarrow>
   exn + (stock_adjustment \<times> uuid \<times> rows \<times> outbox_write list)" where
  "plan_adjust_stock ids now command current_balance h =
    (let adjustment =
       \<lparr>sa_id = ids 0, sa_tenant_id = ac_tenant_id command,
        sa_product_id = ac_product_id command, sa_store_id = ac_store_id command,
        sa_reason = ac_reason command, sa_qty_change = PFlt (fl (ac_qty_change command)),
        sa_unit_cost = float_cost (ac_unit_cost command),
        sa_notes = map_option (\<lambda>s. [Txt s]) (ac_notes command),
        sa_created_by = ac_created_by command\<rparr>;
       finish = (\<lambda>bal new_qty h'.
         (adjustment, bal, h',
          [\<lparr>ow_event = stock_adjusted_event (ids 2) now (ac_tenant_id command)
              (ac_product_id command) (ac_store_id command) (ac_reason command)
              (PDec (ac_qty_change command)) (PFlt new_qty) (ac_correlation_id command),
            aggregate_type = ''stock_balance'', aggregate_id = bal\<rparr>]))
     in case current_balance of
       Some b \<Rightarrow>
         (let new_qty = fadd (py_float (sb_qty (h b))) (fl (ac_qty_change command))
          in if new_qty < 0
             then Inl (ValueError
               [Txt ''Insufficient stock: current='', Num (PFlt (py_float (sb_qty (h b)))),
                Txt '', attempted change='', Num (PFlt (fl (ac_qty_change command)))])
             else
               (let row = (h b)\<lparr>sb_qty := PFlt new_qty\<rparr>;
                    row' = (if cost_given (ac_unit_cost command)
                            then row\<lparr>sb_unit_cost := float_cost (ac_unit_cost command)\<rparr> else row)
                in Inr (finish b new_qty (h(b := row')))))
     | None \<Rightarrow>
         (let new_qty = fl (ac_qty_change command);
              row = \<lparr>sb_id = ids 1, sb_tenant_id = ac_tenant_id command,
                sb_product_id = ac_product_id command, sb_store_id = ac_store_id command,
                sb_qty = PFlt new_qty, sb_reserved_qty = PInt 0,
                sb_min_stock_level = PInt 0,
                sb_unit_cost = float_cost (ac_unit_cost command)\<rparr>
          in Inr (finish (ids 1) new_qty (h(ids 1 := row)))))"

section \<open>Moving stock between two stores\<close>

definition transfer_adjustment ::
  "uuid \<Rightarrow> uuid \<Rightarrow> uuid \<Rightarrow> uuid \<Rightarrow> string \<Rightarrow> rat \<Rightarrow> pytext option \<Rightarrow> uuid option \<Rightarrow>
   stock_adjustment" where
  "transfer_adjustment aid tenant product_id store reason qty notes actor =
     \<lparr>sa_id = aid, sa_tenant_id = tenant, sa_product_id = product_id, sa_store_id = store,
      sa_reason = reason, sa_qty_change = PDec qty, sa_unit_cost = None, sa_notes = notes,
      sa_created_by = actor\<rparr>"

text \<open>
  The two balance updates \<open>plan_transfer_stock\<close> and \<open>plan_fulfill_transfer_request\<close> share:
  the source loses \<open>qty\<close>, then the destination, read after that update, gains it; a missing
  destination row is created with key \<open>bid\<close>.
\<close>

definition move_stock ::
  "uuid \<Rightarrow> uuid \<Rightarrow> uuid \<Rightarrow> uuid \<Rightarrow> rat \<Rightarrow> uuid \<Rightarrow> uuid option \<Rightarrow> rows \<Rightarrow> uuid \<times> rows" where
  "move_stock bid tenant to_product to_store qty from_balance to_balance h =
    (let h1 = h(from_balance := (h from_balance)\<lparr>sb_qty :=
                  PDec (dsub (dec_of_str (sb_qty (h from_balance))) qty)\<rparr>)
     in case to_balance of
       Some b \<Rightarrow>
         (b, h1(b := (h1 b)\<lparr>sb_qty := PDec (dadd (dec_of_str (sb_qty (h1 b))) qty)\<rparr>))
     | None \<Rightarrow>
         (bid, h1(bid := \<lparr>sb_id = bid, sb_tenant_id = tenant, sb_product_id = to_product,
            sb_store_id = to_store, sb_qty = PDec qty, sb_reserved_qty = PInt 0,
            sb_min_stock_level = PInt 0, sb_unit_cost = sb_unit_cost (h1 from_balance)\<rparr>)))"

definition plan_transfer_stock ::
  "(nat \<Rightarrow> uuid) \<Rightarrow> transfer_stock_command \<Rightarrow> uuid \<Rightarrow> uuid option \<Rightarrow> rows \<Rightarrow>
   stock_adjustment \<times> stock_adjustment \<times> uuid \<times> uuid \<times> rows \<times> outbox_write list" where
  "plan_transfer_stock ids command from_balance to_balance h =
    (let qty = tc_qty command;
         notes = map_option (\<lambda>s. [Txt s]) (tc_notes command);
         from_adjustment = transfer_adjustment (ids 0) (tc_tenant_id command)
           (tc_product_id command) (tc_from_store_id command) ''transfer_out'' (dneg qty)
           notes (tc_created_by command);
         to_adjustment = transfer_adjustment (ids 1) (tc_tenant_id command)
           (tc_product_id command) (tc_to_store_id command) ''transfer_in'' qty
           notes (tc_created_by command);
         (to_b, h') = move_stock (ids 2) (tc_tenant_id command) (tc_product_id command)
           (tc_to_store_id command) qty from_balance to_balance h
     in (from_adjustment, to_adjustment, from_balance, to_b, h', []))"

section \<open>Reservations\<close>

definition plan_reserve_stock ::
  "(nat \<Rightarrow> uuid) \<Rightarrow> timestamp \<Rightarrow> reserve_stock_command \<Rightarrow> uuid \<Rightarrow> rows \<Rightarrow>
   exn + (stock_reservation \<times> rows \<times> outbox_write list)" where
  "plan_reserve_stock ids now command balance h =
    (let qty = PFlt (fl (rc_qty command)) in
     res_bind (py_sub (sb_qty (h balance)) (sb_reserved_qty (h balance))) (\<lambda>available.
     if py_lt available qty
     then Inl (ValueError [Txt ''Insufficient stock: available '', Num available,
                           Txt '', requested '', Num qty])
     else
       (let reservation = \<lparr>sr_id = ids 0, sr_tenant_id = rc_tenant_id command,
              sr_product_id = rc_product_id command, sr_store_id = rc_store_id command,
              sr_sale_id = rc_sale_id command, sr_qty = qty, sr_status = ''active'',
              sr_released_at = None\<rparr>
        in res_bind (py_add (sb_reserved_qty (h balance)) qty) (\<lambda>reserved.
           Inr (reservation,
             h(balance := (h balance)\<lparr>sb_reserved_qty := reserved\<rparr>),
             [\<lparr>ow_event = stock_reserved_event (ids 1) now (rc_tenant_id command)
                 (sr_id reservation) (rc_product_id command) (rc_sale_id command) qty
                 (rc_correlation_id command),
               aggregate_type = ''stock_reservation'', aggregate_id = sr_id reservation\<rparr>])))))"

definition plan_release_reservation ::
  "(nat \<Rightarrow> uuid) \<Rightarrow> timestamp \<Rightarrow> stock_reservation \<Rightarrow> uuid \<Rightarrow> string option \<Rightarrow> rows \<Rightarrow>
   exn + (rows \<times> outbox_write list)" where
  "plan_release_reservation ids now reservation balance corr h =
     res_bind (py_sub (sb_reserved_qty (h balance)) (sr_qty reservation)) (\<lambda>reserved.
     Inr (h(balance := (h balance)\<lparr>sb_reserved_qty := reserved\<rparr>),
       [\<lparr>ow_event = stock_released_event (ids 0) now (sr_tenant_id reservation)
           (sr_id reservation) (sr_product_id reservation) (sr_sale_id reservation)
           (sr_qty reservation) corr,
         aggregate_type = ''stock_reservation'', aggregate_id = sr_id reservation\<rparr>]))"

definition plan_commit_stock ::
  "(nat \<Rightarrow> uuid) \<Rightarrow> timestamp \<Rightarrow> stock_reservation \<Rightarrow> uuid \<Rightarrow> string option \<Rightarrow> rows \<Rightarrow>
   exn + (rows \<times> outbox_write list)" where
  "plan_commit_stock ids now reservation balance corr h =
     res_bind (py_sub (sb_qty (h balance)) (sr_qty reservation)) (\<lambda>qty.
     res_bind (py_sub (sb_reserved_qty (h balance)) (sr_qty reservation)) (\<lambda>reserved.
     Inr (h(balance := (h balance)\<lparr>sb_qty := qty, sb_reserved_qty := reserved\<rparr>),
       [\<lparr>ow_event = stock_committed_event (ids 0) now (sr_tenant_id reservation)
           (sr_product_id reservation) (sr_store_id reservation) (sr_sale_id reservation)
           (sr_qty reservation) corr,
         aggregate_type = ''stock_reservation'', aggregate_id = sr_id reservation\<rparr>])))"

definition check_low_stock ::
  "(nat \<Rightarrow> uuid) \<Rightarrow> timestamp \<Rightarrow> stock_balance \<Rightarrow> num \<Rightarrow> string option \<Rightarrow>
   exn + outbox_write list option" where
  "check_low_stock ids now balance reorder_point corr =
     res_bind (py_sub (sb_qty balance) (sb_reserved_qty balance)) (\<lambda>available.
     (let threshold = py_max reorder_point (sb_min_stock_level balance)
      in if py_lt (PInt 0) available \<and> py_le threshold available then Inr None
         else Inr (Some [\<lparr>ow_event = low_stock_detected_event (ids 0) now
             (sb_tenant_id balance) (sb_product_id balance) (sb_store_id balance)
             available threshold corr,
           aggregate_type = ''stock_balance'', aggregate_id = sb_id balance\<rparr>])))"


section \<open>Transfer requests\<close>

definition plan_create_transfer_request ::
  "(nat \<Rightarrow> uuid) \<Rightarrow> timestamp \<Rightarrow> transfer_request_create \<Rightarrow>
   exn + (transfer_request \<times> outbox_write)" where
  "plan_create_transfer_request ids now command =
    (if trc_requesting_store_id command = trc_supplying_store_id command
     then Inl (ValueError [Txt ''same_store''])
     else Inr
      (\<lparr>tr_id = ids 0, tr_tenant_id = trc_tenant_id command,
        tr_product_id = trc_product_id command,
        tr_requesting_store_id = trc_requesting_store_id command,
        tr_supplying_store_id = trc_supplying_store_id command,
        tr_requested_qty = PDec (trc_requested_qty command), tr_approved_qty = None,
        tr_status = ''pending'', tr_notes = trc_notes command, tr_rejection_reason = None,
        tr_created_by = trc_created_by command, tr_approved_by = None,
        tr_request_number = Some (trc_request_number command),
        tr_item_name = Some (trc_item_name command),
        tr_supplying_product_id = Some (trc_supplying_product_id command),
        tr_approved_at = None, tr_rejected_at = None, tr_fulfilled_by = None,
        tr_fulfilled_at = None, tr_fulfilled_qty = None, tr_pin_verified_by = None,
        tr_decision_note = None\<rparr>,
       \<lparr>ow_event = transfer_requested_event (ids 1) now (trc_tenant_id command) (ids 0)
          (trc_product_id command) (trc_requesting_store_id command)
          (trc_supplying_store_id command) (PDec (trc_requested_qty command))
          (trc_correlation_id command),
        aggregate_type = ''transfer_request'', aggregate_id = ids 0\<rparr>))"

text \<open>\<open>command.notes or old\<close>: an empty note keeps the old value.\<close>

definition note_or :: "string option \<Rightarrow> string option \<Rightarrow> string option" where
  "note_or new_note old = (if str_truthy new_note then new_note else old)"

definition plan_approve_transfer_request ::
  "(nat \<Rightarrow> uuid) \<Rightarrow> timestamp \<Rightarrow> transfer_request_approve \<Rightarrow> transfer_request \<Rightarrow>
   stock_balance option \<Rightarrow> exn + (transfer_request \<times> outbox_write)" where
  "plan_approve_transfer_request ids now command request supplying_balance =
    (if tr_status request \<noteq> ''pending''
     then Inl (ValueError [Txt (''invalid_status:'' @ tr_status request)])
     else
       (let approved_qty = tra_approved_qty command;
            requested_qty = dec_of_str (tr_requested_qty request)
        in
        if approved_qty \<le> 0 then Inl (ValueError [Txt ''approved_qty_must_be_positive''])
        else if requested_qty < approved_qty
        then Inl (ValueError [Txt ''approved_qty_exceeds_requested''])
        else case supplying_balance of
          None \<Rightarrow> Inl (ValueError [Txt ''supplying_balance_not_found''])
        | Some b \<Rightarrow>
          (let available = dsub (dec_of_str (sb_qty b)) (dec_of_str (sb_reserved_qty b))
           in if available < approved_qty
              then Inl (ValueError [Txt ''insufficient_stock:available_'', Num (PDec available)])
              else Inr
                (request\<lparr>tr_approved_qty := Some (PDec approved_qty),
                   tr_status := ''approved'', tr_approved_by := tra_approved_by command,
                   tr_approved_at := Some now,
                   tr_pin_verified_by := tra_pin_verified_by command,
                   tr_decision_note := note_or (tra_notes command) (tr_decision_note request),
                   tr_notes := note_or (tra_notes command) (tr_notes request)\<rparr>,
                 \<lparr>ow_event = transfer_approved_event (ids 0) now (tra_tenant_id command)
                    (tra_request_id command) (tr_product_id request)
                    (tr_requesting_store_id request) (tr_supplying_store_id request)
                    (tr_requested_qty request) (PDec approved_qty)
                    (tra_correlation_id command),
                  aggregate_type = ''transfer_request'',
                  aggregate_id = tra_request_id command\<rparr>))))"

definition plan_reject_transfer_request ::
  "(nat \<Rightarrow> uuid) \<Rightarrow> timestamp \<Rightarrow> transfer_request_reject \<Rightarrow> transfer_request \<Rightarrow>
   exn + (transfer_request \<times> outbox_write)" where
  "plan_reject_transfer_request ids now command request =
    (if tr_status request \<noteq> ''pending''
     then Inl (ValueError [Txt (''invalid_status:'' @ tr_status request)])
     else Inr
      (request\<lparr>tr_status := ''rejected'',
         tr_rejection_reason := trj_rejection_reason command,
         tr_approved_by := trj_rejected_by command, tr_rejected_at := Some now,
         tr_pin_verified_by := trj_pin_verified_by command,
         tr_decision_note := note_or (trj_notes command) (tr_decision_note request),
         tr_notes := note_or (trj_notes command) (tr_notes request)\<rparr>,
       \<lparr>ow_event = transfer_rejected_event (ids 0) now (trj_tenant_id command)
          (trj_request_id command) (tr_product_id request)
          (tr_requesting_store_id request) (tr_supplying_store_id request)
          (trj_rejection_reason command) (trj_correlation_id command),
        aggregate_type = ''transfer_request'', aggregate_id = trj_request_id command\<rparr>))"

text \<open>
  \<open>_decimal(request.approved_qty)\<close> of a missing quantity is \<open>Decimal("None")\<close>, which raises
  \<open>decimal.InvalidOperation\<close>, kept here as a \<open>ValueError\<close>.
\<close>

definition plan_fulfill_transfer_request ::
  "(nat \<Rightarrow> uuid) \<Rightarrow> timestamp \<Rightarrow> transfer_request \<Rightarrow> uuid \<Rightarrow> uuid option \<Rightarrow> uuid \<Rightarrow>
   uuid option \<Rightarrow> string option \<Rightarrow> rows \<Rightarrow>
   exn + (stock_adjustment \<times> stock_adjustment \<times> uuid \<times> uuid \<times> rows \<times> transfer_request \<times>
     outbox_write list)" where
  "plan_fulfill_transfer_request ids now request from_balance to_balance tenant fulfilled_by corr h =
    (if tr_status request \<noteq> ''approved''
     then Inl (ValueError [Txt (''invalid_status:'' @ tr_status request)])
     else case tr_approved_qty request of
       None \<Rightarrow> Inl (ValueError [Txt ''InvalidOperation''])
     | Some approved \<Rightarrow>
       (let qty = dec_of_str approved;
            available = dsub (dec_of_str (sb_qty (h from_balance)))
              (dec_of_str (sb_reserved_qty (h from_balance)))
        in if available < qty
           then Inl (ValueError [Txt ''insufficient_stock:available_'', Num (PDec available)])
           else
            (let from_product = (case tr_supplying_product_id request of
                   Some p \<Rightarrow> p | None \<Rightarrow> tr_product_id request);
                 to_product = tr_product_id request;
                 reference = str_or (tr_request_number request) (tr_id request);
                 note = [Txt (''Transfer '' @ reference @ '': '' @
                   str_or (tr_item_name request) ''item'' @ '' x ''), Num (PDec qty)];
                 from_adjustment = transfer_adjustment (ids 0) tenant from_product
                   (tr_supplying_store_id request) ''transfer_out'' (dneg qty) (Some note)
                   fulfilled_by;
                 to_adjustment = transfer_adjustment (ids 1) tenant to_product
                   (tr_requesting_store_id request) ''transfer_in'' qty (Some note) fulfilled_by;
                 (to_b, h') = move_stock (ids 2) tenant to_product
                   (tr_requesting_store_id request) qty from_balance to_balance h
             in Inr (from_adjustment, to_adjustment, from_balance, to_b, h',
                  request\<lparr>tr_status := ''fulfilled'', tr_fulfilled_qty := Some (PDec qty),
                    tr_fulfilled_by := fulfilled_by, tr_fulfilled_at := Some now\<rparr>,
                  [\<lparr>ow_event = transfer_fulfilled_event (ids 3) now tenant (tr_id request)
                      (tr_product_id request) (tr_supplying_store_id request)
                      (tr_requesting_store_id request) (PDec qty)
                      (sb_qty (h' from_balance)) (sb_qty (h' to_b)) corr,
                    aggregate_type = ''transfer_request'', aggregate_id = tr_id request\<rparr>]))))"

section \<open>Dispatching a distribution\<close>

text \<open>
  The state of the loops over lines: the heap, what the loop has appended to its lists, and
  the number of identifiers drawn.
\<close>

record dispatch_acc =
  da_rows :: rows
  da_adjustments :: "stock_adjustment list"
  da_movements :: "stock_movement list"
  da_summaries :: "payload list"
  da_drawn :: nat

definition with_note :: "string option \<Rightarrow> pytext" where
  "with_note notes = (if str_truthy notes
     then [Txt ('' ('' @ (case notes of None \<Rightarrow> [] | Some s \<Rightarrow> s) @ '')'')] else [])"

definition dispatch_line ::
  "(nat \<Rightarrow> uuid) \<Rightarrow> string \<Rightarrow> uuid \<Rightarrow> uuid \<Rightarrow> uuid option \<Rightarrow> string option \<Rightarrow>
   distribution_line \<times> uuid \<Rightarrow> dispatch_acc \<Rightarrow> exn + dispatch_acc" where
  "dispatch_line ids number tenant from_store actor notes lb a =
    (case lb of (line, balance) \<Rightarrow>
     (let b = da_rows a balance in
      if sb_store_id b \<noteq> from_store \<or> sb_product_id b \<noteq> dl_product_id line
      then Inl (ValueError [Txt ''line_balance_mismatch''])
      else
       (let qty = dl_qty_dispatched line; before = dec_of_str (sb_qty b) in
        if before < qty
        then Inl (ValueError [Txt (''Insufficient stock for '' @ dl_item_name line)])
        else
         (let after = dsub before qty;
              adjustment = \<lparr>sa_id = ids (da_drawn a), sa_tenant_id = tenant,
                sa_product_id = dl_product_id line, sa_store_id = from_store,
                sa_reason = ''distribution_out'', sa_qty_change = PFlt (- fl qty),
                sa_unit_cost = None,
                sa_notes = Some ([Txt (number @ '': dispatch '' @ dl_item_name line @ '' x''),
                  Num (PDec qty)] @ with_note notes),
                sa_created_by = actor\<rparr>;
              movement = \<lparr>sm_id = ids (da_drawn a + 1), sm_tenant_id = tenant,
                sm_product_id = dl_product_id line, sm_store_id = from_store,
                sm_movement_type = ''distribution_out'', sm_qty_change = PFlt (- fl qty),
                sm_balance_before = PFlt (fl before), sm_balance_after = PFlt (fl after),
                sm_reference_type = Some ''distribution'',
                sm_reference_id = Some (sa_id adjustment),
                sm_reason = Some ''distribution_dispatched'', sm_unit_cost = None,
                sm_notes = Some [Txt (number @ '': '' @ dl_item_name line)],
                sm_created_by = actor\<rparr>
          in Inr (a\<lparr>da_rows := (da_rows a)(balance := b\<lparr>sb_qty := PFlt (fl after)\<rparr>),
               da_adjustments := da_adjustments a @ [adjustment],
               da_movements := da_movements a @ [movement],
               da_summaries := da_summaries a @
                 [[(''item_name'', JStr (dl_item_name line)), (''qty'', JStrOf (PDec qty)),
                   (''condition'', jopt (dl_condition_dispatched line))]],
               da_drawn := da_drawn a + 2\<rparr>)))))"

definition plan_dispatch_distribution ::
  "(nat \<Rightarrow> uuid) \<Rightarrow> timestamp \<Rightarrow> uuid \<Rightarrow> string \<Rightarrow> uuid \<Rightarrow> uuid \<Rightarrow> uuid \<Rightarrow>
   distribution_line list \<Rightarrow> uuid option \<Rightarrow> string option \<Rightarrow> string option \<Rightarrow> uuid list \<Rightarrow> rows \<Rightarrow>
   exn + (stock_adjustment list \<times> rows \<times> stock_movement list \<times> outbox_write list)" where
  "plan_dispatch_distribution ids now distribution_id number tenant from_store to_store lines
     actor notes corr warehouse_balances h =
    (if length lines \<noteq> length warehouse_balances
     then Inl (ValueError [Txt ''line_balance_mismatch''])
     else if from_store = to_store then Inl (ValueError [Txt ''cannot_distribute_to_self''])
     else
       res_bind (res_fold (dispatch_line ids number tenant from_store actor notes)
         (zip lines warehouse_balances)
         \<lparr>da_rows = h, da_adjustments = [], da_movements = [], da_summaries = [],
          da_drawn = 0\<rparr>) (\<lambda>a.
       Inr (da_adjustments a, da_rows a, da_movements a,
         [\<lparr>ow_event = distribution_dispatched_event (ids (da_drawn a)) now tenant
             distribution_id number from_store to_store (da_summaries a) corr,
           aggregate_type = ''distribution'', aggregate_id = distribution_id\<rparr>])))"

section \<open>Receiving a distribution\<close>

record receive_acc =
  ra_rows :: rows
  ra_items :: "distribution_item list"
  ra_balances :: "uuid list"
  ra_adjustments :: "stock_adjustment list"
  ra_movements :: "stock_movement list"
  ra_damages :: "stock_damage list"
  ra_received :: rat
  ra_damaged :: rat
  ra_dispatched :: rat
  ra_drawn :: nat

text \<open>The dictionary by identifier keeps the last of equal keys.\<close>

definition item_by_id :: "distribution_item list \<Rightarrow> uuid \<Rightarrow> distribution_item option" where
  "item_by_id items i = List.find (\<lambda>it. di_id it = i) (rev items)"

definition update_item ::
  "uuid \<Rightarrow> (distribution_item \<Rightarrow> distribution_item) \<Rightarrow> distribution_item list \<Rightarrow>
   distribution_item list" where
  "update_item i f items = map (\<lambda>it. if di_id it = i then f it else it) items"

text \<open>
  The destination row of a line: one already used, else one of the existing rows, else a new
  empty one. The result is the row's key, the list of used rows, the heap and the number of
  identifiers drawn.
\<close>

definition destination_balance ::
  "(nat \<Rightarrow> uuid) \<Rightarrow> uuid \<Rightarrow> uuid \<Rightarrow> uuid list \<Rightarrow> uuid \<Rightarrow> uuid list \<Rightarrow> rows \<Rightarrow> nat \<Rightarrow>
   uuid \<times> uuid list \<times> rows \<times> nat" where
  "destination_balance ids tenant to_store destination_balances product_id balances h n =
    (let hit = (\<lambda>b. sb_product_id (h b) = product_id \<and> sb_store_id (h b) = to_store) in
     case List.find hit balances of
       Some b \<Rightarrow> (b, balances, h, n)
     | None \<Rightarrow>
       (case List.find hit destination_balances of
          Some b \<Rightarrow> (b, balances @ [b], h, n)
        | None \<Rightarrow> (ids n, balances @ [ids n],
            h(ids n := \<lparr>sb_id = ids n, sb_tenant_id = tenant, sb_product_id = product_id,
              sb_store_id = to_store, sb_qty = PInt 0, sb_reserved_qty = PInt 0,
              sb_min_stock_level = PInt 0, sb_unit_cost = None\<rparr>), n + 1)))"

definition receive_one ::
  "(nat \<Rightarrow> uuid) \<Rightarrow> distribution \<Rightarrow> uuid option \<Rightarrow> uuid list \<Rightarrow> receive_line \<Rightarrow> receive_acc \<Rightarrow>
   exn + receive_acc" where
  "receive_one ids d actor destination_balances line a =
    (case item_by_id (ra_items a) (rl_item_id line) of
       None \<Rightarrow> Inl (ValueError [Txt ''distribution_item_not_found''])
     | Some item \<Rightarrow>
       if di_distribution_id item \<noteq> ds_id d
       then Inl (ValueError [Txt ''item_not_on_distribution''])
       else
        (let received = rl_qty_received line; damaged = rl_qty_damaged line;
             dispatched = dec_of_str (di_qty_dispatched item)
         in
         if dispatched < dadd received damaged
         then Inl (ValueError
           [Txt (''Receive exceeds dispatched for '' @ di_item_name item @ '': received ''),
            Num (PDec received), Txt '', damaged '', Num (PDec damaged),
            Txt '', dispatched '', Num (PDec dispatched)])
         else
          (case destination_balance ids (ds_tenant_id d) (ds_to_store_id d) destination_balances
              (rl_destination_product_id line) (ra_balances a) (ra_rows a) (ra_drawn a) of
            (b, balances, h, n) \<Rightarrow>
            (let before = dec_of_str (sb_qty (h b)); after = dadd before received;
                 adjustment = \<lparr>sa_id = ids n, sa_tenant_id = ds_tenant_id d,
                   sa_product_id = rl_destination_product_id line,
                   sa_store_id = ds_to_store_id d, sa_reason = ''distribution_in'',
                   sa_qty_change = PFlt (fl received), sa_unit_cost = None,
                   sa_notes = Some [Txt (ds_number d @ '': received ''), Num (PDec received),
                     Txt '' of '', Num (PDec dispatched), Txt '' ('', Num (PDec damaged),
                     Txt ('' damaged) '' @ di_item_name item)],
                   sa_created_by = actor\<rparr>;
                 movement = \<lparr>sm_id = ids (n + 1), sm_tenant_id = ds_tenant_id d,
                   sm_product_id = rl_destination_product_id line,
                   sm_store_id = ds_to_store_id d, sm_movement_type = ''distribution_in'',
                   sm_qty_change = PFlt (fl received), sm_balance_before = PFlt (fl before),
                   sm_balance_after = PFlt (fl after),
                   sm_reference_type = Some ''distribution'',
                   sm_reference_id = Some (sa_id adjustment),
                   sm_reason = Some ''distribution_received'', sm_unit_cost = None,
                   sm_notes = Some [Txt (ds_number d @ '': '' @ di_item_name item)],
                   sm_created_by = actor\<rparr>;
                 damage_rows = (if 0 < damaged
                   then [\<lparr>sd_id = ids (n + 2), sd_tenant_id = ds_tenant_id d,
                          sd_distribution_id = Some (ds_id d),
                          sd_distribution_item_id = Some (di_id item),
                          sd_store_id = ds_to_store_id d,
                          sd_product_id = rl_destination_product_id line,
                          sd_qty = PFlt (fl damaged),
                          sd_condition = rl_condition_received line,
                          sd_notes = rl_receive_notes line, sd_recorded_by = actor\<rparr>]
                   else [])
             in Inr (a\<lparr>ra_rows := h(b := (h b)\<lparr>sb_qty := PFlt (fl after)\<rparr>),
                  ra_items := update_item (di_id item)
                    (\<lambda>it. it\<lparr>di_qty_received := PFlt (fl received),
                       di_qty_damaged := PFlt (fl damaged),
                       di_condition_received := rl_condition_received line,
                       di_receive_notes := rl_receive_notes line,
                       di_destination_product_id := Some (rl_destination_product_id line)\<rparr>)
                    (ra_items a),
                  ra_balances := balances,
                  ra_adjustments := ra_adjustments a @ [adjustment],
                  ra_movements := ra_movements a @ [movement],
                  ra_damages := ra_damages a @ damage_rows,
                  ra_received := dadd (ra_received a) received,
                  ra_damaged := dadd (ra_damaged a) damaged,
                  ra_dispatched := dadd (ra_dispatched a) dispatched,
                  ra_drawn := n + 2 + length damage_rows\<rparr>)))))"

definition plan_receive_distribution ::
  "(nat \<Rightarrow> uuid) \<Rightarrow> timestamp \<Rightarrow> distribution \<Rightarrow> distribution_item list \<Rightarrow> receive_line list \<Rightarrow>
   uuid option \<Rightarrow> string option \<Rightarrow> uuid list \<Rightarrow> rows \<Rightarrow>
   exn + (distribution \<times> outbox_write list \<times> receive_acc)" where
  "plan_receive_distribution ids now d items receive_lines actor corr destination_balances h =
    (if ds_status d \<noteq> ''in_transit''
     then Inl (ValueError [Txt ''distribution_not_in_transit''])
     else
       res_bind (res_fold (receive_one ids d actor destination_balances) receive_lines
         \<lparr>ra_rows = h, ra_items = items, ra_balances = [], ra_adjustments = [],
          ra_movements = [], ra_damages = [], ra_received = 0, ra_damaged = 0,
          ra_dispatched = 0, ra_drawn = 0\<rparr>) (\<lambda>a.
       Inr (d\<lparr>ds_status := ''received'', ds_received_by := actor, ds_received_at := Some now\<rparr>,
         [\<lparr>ow_event = distribution_received_event (ids (ra_drawn a)) now (ds_tenant_id d)
             (ds_id d) (ds_number d) (ds_from_store_id d) (ds_to_store_id d)
             (PDec (ra_received a)) (PDec (ra_damaged a))
             (PDec (dsub (dsub (ra_dispatched a) (ra_received a)) (ra_damaged a))) corr,
           aggregate_type = ''distribution'', aggregate_id = ds_id d\<rparr>], a)))"

section \<open>Cancelling a distribution\<close>

record cancel_acc =
  ca_rows :: rows
  ca_adjustments :: "stock_adjustment list"
  ca_movements :: "stock_movement list"
  ca_returned :: rat
  ca_drawn :: nat

definition cancel_line ::
  "(nat \<Rightarrow> uuid) \<Rightarrow> distribution \<Rightarrow> uuid option \<Rightarrow> string option \<Rightarrow> distribution_item \<times> uuid \<Rightarrow>
   cancel_acc \<Rightarrow> exn + cancel_acc" where
  "cancel_line ids d actor cancel_reason ib a =
    (case ib of (item, balance) \<Rightarrow>
     (let b = ca_rows a balance in
      if sb_store_id b \<noteq> ds_from_store_id d \<or> sb_product_id b \<noteq> di_source_product_id item
      then Inl (ValueError [Txt ''line_balance_mismatch''])
      else
       (let qty = dec_of_str (di_qty_dispatched item); before = dec_of_str (sb_qty b);
            after = dadd before qty;
            adjustment = \<lparr>sa_id = ids (ca_drawn a), sa_tenant_id = ds_tenant_id d,
              sa_product_id = di_source_product_id item, sa_store_id = ds_from_store_id d,
              sa_reason = ''distribution_cancelled'', sa_qty_change = PFlt (fl qty),
              sa_unit_cost = None,
              sa_notes = Some ([Txt (ds_number d @ '': cancelled return '' @ di_item_name item @
                '' x''), Num (PDec qty)] @ with_note cancel_reason),
              sa_created_by = actor\<rparr>;
            movement = \<lparr>sm_id = ids (ca_drawn a + 1), sm_tenant_id = ds_tenant_id d,
              sm_product_id = di_source_product_id item, sm_store_id = ds_from_store_id d,
              sm_movement_type = ''distribution_cancelled'', sm_qty_change = PFlt (fl qty),
              sm_balance_before = PFlt (fl before), sm_balance_after = PFlt (fl after),
              sm_reference_type = Some ''distribution'',
              sm_reference_id = Some (sa_id adjustment),
              sm_reason = Some ''distribution_cancelled'', sm_unit_cost = None,
              sm_notes = Some [Txt (ds_number d @ '': '' @ di_item_name item)],
              sm_created_by = actor\<rparr>
        in Inr (a\<lparr>ca_rows := (ca_rows a)(balance := b\<lparr>sb_qty := PFlt (fl after)\<rparr>),
             ca_adjustments := ca_adjustments a @ [adjustment],
             ca_movements := ca_movements a @ [movement],
             ca_returned := dadd (ca_returned a) qty,
             ca_drawn := ca_drawn a + 2\<rparr>))))"

definition plan_cancel_distribution ::
  "(nat \<Rightarrow> uuid) \<Rightarrow> timestamp \<Rightarrow> distribution \<Rightarrow> distribution_item list \<Rightarrow> uuid list \<Rightarrow>
   uuid option \<Rightarrow> string option \<Rightarrow> string option \<Rightarrow> rows \<Rightarrow>
   exn + (stock_adjustment list \<times> rows \<times> stock_movement list \<times> distribution \<times>
     outbox_write list)" where
  "plan_cancel_distribution ids now d items warehouse_balances actor cancel_reason corr h =
    (if ds_status d \<noteq> ''in_transit''
     then Inl (ValueError [Txt ''distribution_not_in_transit''])
     else
       res_bind (res_fold (cancel_line ids d actor cancel_reason) (zip items warehouse_balances)
         \<lparr>ca_rows = h, ca_adjustments = [], ca_movements = [], ca_returned = 0,
          ca_drawn = 0\<rparr>) (\<lambda>a.
       Inr (ca_adjustments a, ca_rows a, ca_movements a,
         d\<lparr>ds_status := ''cancelled'', ds_cancelled_by := actor, ds_cancelled_at := Some now,
           ds_cancel_reason := cancel_reason\<rparr>,
         [\<lparr>ow_event = distribution_cancelled_event (ids (ca_drawn a)) now (ds_tenant_id d)
             (ds_id d) (ds_number d) (ds_from_store_id d) (ds_to_store_id d)
             (PDec (ca_returned a)) corr,
           aggregate_type = ''distribution'', aggregate_id = ds_id d\<rparr>])))"

section \<open>Movements by day\<close>

text \<open>
  A time is a number of microseconds in UTC, and \<open>created_at.date().isoformat()\<close> is kept as
  the number of the day, in which it is injective.
\<close>

record movement_row =
  mr_created_at :: timestamp
  mr_balance_before :: num
  mr_balance_after :: num
  mr_qty_change :: num

record day_point =
  dp_balance :: rat
  dp_balance_before :: rat
  dp_qty_change :: rat

definition day_of :: "timestamp \<Rightarrow> int" where
  "day_of t = t div 86400000000"

definition add_movement ::
  "movement_row \<Rightarrow> (int \<times> day_point) list \<Rightarrow> (int \<times> day_point) list" where
  "add_movement row points =
    (case map_of points (day_of (mr_created_at row)) of
       None \<Rightarrow> dict_set (day_of (mr_created_at row))
         \<lparr>dp_balance = py_float (mr_balance_after row),
          dp_balance_before = py_float (mr_balance_before row),
          dp_qty_change = round2 (py_float (mr_qty_change row))\<rparr> points
     | Some point \<Rightarrow> dict_set (day_of (mr_created_at row))
         (point\<lparr>dp_balance := py_float (mr_balance_after row),
            dp_qty_change :=
              round2 (fadd (dp_qty_change point) (py_float (mr_qty_change row)))\<rparr>) points)"

definition group_movements_by_day :: "movement_row list \<Rightarrow> (int \<times> day_point) list" where
  "group_movements_by_day rs = fold add_movement (sort_key mr_created_at rs) []"

end
