(* ===== verification/StockLedger.thy ===== *)
theory StockLedger
  imports Inventory
begin

text \<open>
  The contract of the stock operations: an integer ledger, in hundredths of a unit (the scale
  of the \<open>Numeric(12, 2)\<close> columns), that never goes below zero. The planning functions
  of \<open>Inventory\<close>, which go through floats and decimals, are shown to implement it.
\<close>

section \<open>The abstract ledger\<close>

text \<open>A posting adds to the level of a row; a posting that would overdraw it is refused.\<close>

fun ledger_run :: "('b \<times> int) list \<Rightarrow> ('b \<Rightarrow> int) \<Rightarrow> ('b \<Rightarrow> int) option" where
  "ledger_run [] s = Some s"
| "ledger_run ((b, q) # ms) s =
     (if s b + q < 0 then None else ledger_run ms (s(b := s b + q)))"

lemma ledger_run_append:
  "ledger_run (ms @ ns) s = (case ledger_run ms s of None \<Rightarrow> None | Some t \<Rightarrow> ledger_run ns t)"
  by (induction ms s rule: ledger_run.induct) (simp_all del: fun_upd_apply)

lemma ledger_run_level:
  "ledger_run ms s = Some t \<Longrightarrow> t b = s b + (\<Sum>(c, q)\<leftarrow>ms. if c = b then q else 0)"
  by (induction ms s rule: ledger_run.induct) (auto split: if_splits)

lemma ledger_run_deposits:
  assumes "\<forall>(b, q) \<in> set ms. 0 \<le> q" and "\<forall>b. 0 \<le> s b"
  shows "\<exists>t. ledger_run ms s = Some t"
  using assms by (induction ms s rule: ledger_run.induct) (auto simp: not_less add_nonneg_nonneg)

lemma ledger_run_undo:
  assumes "ledger_run ms s = Some t" "\<forall>(b, q) \<in> set ms. q \<le> 0" "\<forall>b. 0 \<le> t b"
  shows "ledger_run (map (\<lambda>(b, q). (b, - q)) ms) t = Some s"
proof -
  let ?undo = "map (\<lambda>(b, q). (b, - q)) ms"
  have "\<forall>(b, q) \<in> set ?undo. 0 \<le> q" using assms(2) by auto
  then obtain u where u: "ledger_run ?undo t = Some u"
    using ledger_run_deposits assms(3) by blast
  have neg: "(\<Sum>(c, q)\<leftarrow>?undo. if c = b then q else 0) = - (\<Sum>(c, q)\<leftarrow>ms. if c = b then q else 0)"
    for b by (induction ms) auto
  have "u b = s b" for b
    using ledger_run_level[OF u, of b] ledger_run_level[OF assms(1), of b] neg[of b] by simp
  with u show ?thesis by (simp add: fun_eq_iff)
qed

section \<open>The levels of a heap of rows\<close>

definition level :: "rows \<Rightarrow> uuid \<Rightarrow> rat" where
  "level h b = dec_of_str (sb_qty (h b))"

definition hundredths :: "rat \<Rightarrow> int" where
  "hundredths d = \<lfloor>d * 100\<rfloor>"

definition two_places :: "rat \<Rightarrow> bool" where
  "two_places d \<longleftrightarrow> d = of_int (hundredths d) / 100"

definition stock :: "rows \<Rightarrow> uuid \<Rightarrow> int" where
  "stock h b = hundredths (level h b)"

text \<open>Every quantity has two places, is not negative and stays below \<open>M\<close> hundredths.\<close>

definition fits :: "int \<Rightarrow> rows \<Rightarrow> bool" where
  "fits M h \<longleftrightarrow> (\<forall>b. two_places (level h b) \<and> 0 \<le> stock h b \<and> stock h b < M)"

lemma hundredths_cents [simp]: "hundredths (of_int k / 100) = k"
  by (simp add: hundredths_def)

lemma two_places_iff: "two_places d \<longleftrightarrow> (\<exists>k. d = of_int k / 100)"
  by (metis hundredths_cents two_places_def)

lemma two_places_cents [simp]: "two_places (of_int k / 100)"
  by (simp add: two_places_def)

lemma two_placesD: "two_places d \<Longrightarrow> d = of_int (hundredths d) / 100"
  by (simp add: two_places_def)

lemma two_places_sum:
  assumes "two_places c" "two_places d"
  shows "two_places (c + d)" "hundredths (c + d) = hundredths c + hundredths d"
proof -
  have "c + d = of_int (hundredths c + hundredths d) / 100"
    using assms[THEN two_placesD] by (simp add: add_divide_distrib)
  then show "two_places (c + d)" "hundredths (c + d) = hundredths c + hundredths d"
    by (metis two_places_cents, metis hundredths_cents)
qed

lemma two_places_diff:
  assumes "two_places c" "two_places d"
  shows "two_places (c - d)" "hundredths (c - d) = hundredths c - hundredths d"
proof -
  have "c - d = of_int (hundredths c - hundredths d) / 100"
    using assms[THEN two_placesD] by (simp add: diff_divide_distrib)
  then show "two_places (c - d)" "hundredths (c - d) = hundredths c - hundredths d"
    by (metis two_places_cents, metis hundredths_cents)
qed

lemma hundredths_less_iff:
  assumes "two_places c" "two_places d"
  shows "c < d \<longleftrightarrow> hundredths c < hundredths d"
proof -
  have "c < d \<longleftrightarrow> of_int (hundredths c) / 100 < (of_int (hundredths d) / 100 :: rat)"
    by (simp only: assms[THEN two_placesD, symmetric])
  also have "\<dots> \<longleftrightarrow> hundredths c < hundredths d" by simp
  finally show ?thesis .
qed

lemma hundredths_le_iff:
  "two_places c \<Longrightarrow> two_places d \<Longrightarrow> c \<le> d \<longleftrightarrow> hundredths c \<le> hundredths d"
  using hundredths_less_iff[of d c] by (simp add: not_less[symmetric])

lemma hundredths_0 [simp]: "hundredths 0 = 0" and two_places_0 [simp]: "two_places 0"
  by (simp_all add: hundredths_def two_places_def)

lemma dctx_two_places: "two_places d \<Longrightarrow> \<bar>hundredths d\<bar> < 10 ^ 28 \<Longrightarrow> dctx d = d"
  using dctx_cents[of "hundredths d"] by (simp only: two_placesD[symmetric])

lemma repr_fl_two_places: "two_places d \<Longrightarrow> \<bar>hundredths d\<bar> < 10 ^ 15 \<Longrightarrow> flt_repr (fl d) = d"
  using flt_repr_cents[of "hundredths d"] by (simp only: two_placesD[symmetric])

lemma fitsD:
  assumes "fits M h"
  shows "two_places (level h b)" "0 \<le> stock h b" "stock h b < M"
  using assms by (auto simp: fits_def)

section \<open>Storing a level, as an interface\<close>

text \<open>
  The code stores a new quantity either as a \<open>Decimal\<close> or as a \<open>float\<close>. What the operations
  need is the same: reading a level back gives what was stored, and other rows keep theirs.
\<close>

locale level_store =
  fixes put :: "uuid \<Rightarrow> rat \<Rightarrow> rows \<Rightarrow> rows"
  assumes level_put: "two_places d \<Longrightarrow> \<bar>hundredths d\<bar> < 10 ^ 15 \<Longrightarrow>
    level (put b d h) c = (if c = b then d else level h c)"
begin

lemma post_level:
  assumes h: "fits M h" and d: "two_places d" and ok: "0 \<le> stock h b + hundredths d"
    and small: "stock h b + hundredths d < N" "N \<le> 10 ^ 15" "M \<le> N"
  shows "stock (put b (level h b + d) h) = (stock h)(b := stock h b + hundredths d)"
    "fits N (put b (level h b + d) h)"
proof -
  have sum: "two_places (level h b + d)" "hundredths (level h b + d) = stock h b + hundredths d"
    using two_places_sum[OF fitsD(1)[OF h, of b] d] by (simp_all add: stock_def)
  have lv: "level (put b (level h b + d) h) c = (if c = b then level h b + d else level h c)" for c
    using sum ok small by (intro level_put) auto
  show st: "stock (put b (level h b + d) h) = (stock h)(b := stock h b + hundredths d)"
    by (auto simp: fun_eq_iff stock_def lv sum(2))
  show "fits N (put b (level h b + d) h)"
    unfolding fits_def st using sum(1) ok small fitsD[OF h]
    by (auto simp: lv intro: less_le_trans)
qed

end

definition put_float :: "uuid \<Rightarrow> rat \<Rightarrow> rows \<Rightarrow> rows" where
  "put_float b d h = h(b := (h b)\<lparr>sb_qty := PFlt (fl d)\<rparr>)"

definition put_decimal :: "uuid \<Rightarrow> rat \<Rightarrow> rows \<Rightarrow> rows" where
  "put_decimal b d h = h(b := (h b)\<lparr>sb_qty := PDec (dctx d)\<rparr>)"

interpretation float_level: level_store put_float
  by unfold_locales (simp add: level_def put_float_def repr_fl_two_places)

interpretation decimal_level: level_store put_decimal
  by unfold_locales (simp add: level_def put_decimal_def dctx_two_places)

section \<open>Dispatch\<close>

definition line_posting :: "distribution_line \<times> uuid \<Rightarrow> uuid \<times> int" where
  "line_posting lb = (snd lb, - hundredths (dl_qty_dispatched (fst lb)))"

definition line_ok :: "distribution_line \<Rightarrow> bool" where
  "line_ok l \<longleftrightarrow> 0 < dl_qty_dispatched l \<and> two_places (dl_qty_dispatched l)"

definition movement_balances :: "stock_movement \<Rightarrow> bool" where
  "movement_balances m \<longleftrightarrow>
     dec_of_str (sm_balance_before m) + dec_of_str (sm_qty_change m) = dec_of_str (sm_balance_after m)"

lemma dispatch_line_ledger:
  assumes h: "fits M (da_rows a)" and M: "M \<le> 10 ^ 14" and ok: "line_ok (fst lb)"
    and run: "dispatch_line ids number tenant store actor notes lb a = Inr a'"
  shows "ledger_run [line_posting lb] (stock (da_rows a)) = Some (stock (da_rows a'))"
    "fits M (da_rows a')"
    "\<exists>m. da_movements a' = da_movements a @ [m] \<and> movement_balances m"
proof -
  obtain line b where lb: "lb = (line, b)" by (cases lb)
  define q where "q = dl_qty_dispatched line"
  have q: "two_places q" "0 < hundredths q"
    using ok hundredths_less_iff[of 0 q] by (auto simp: lb line_ok_def q_def)
  from run have le: "\<not> level (da_rows a) b < q"
    and a': "da_rows a' = put_float b (dsub (level (da_rows a) b) q) (da_rows a)"
    by (auto simp: dispatch_line_def lb q_def level_def put_float_def Let_def split: if_splits)
  have st: "hundredths q \<le> stock (da_rows a) b"
    using le hundredths_less_iff[OF fitsD(1)[OF h, of b] q(1)] by (simp add: stock_def)
  have lt: "stock (da_rows a) b < M" using fitsD(3)[OF h] .
  have diff: "two_places (level (da_rows a) b - q)"
    "hundredths (level (da_rows a) b - q) = stock (da_rows a) b - hundredths q"
    using two_places_diff[OF fitsD(1)[OF h, of b] q(1)] by (simp_all add: stock_def)
  have sub: "dsub (level (da_rows a) b) q = level (da_rows a) b + - q"
    using dctx_two_places[OF diff(1)] diff(2) st lt M q(2) by (simp add: dsub_def)
  have mq: "two_places (- q)" "hundredths (- q) = - hundredths q"
    using two_places_diff[OF two_places_0 q(1)] by simp_all
  have post: "stock (da_rows a') = (stock (da_rows a))(b := stock (da_rows a) b - hundredths q)"
    "fits M (da_rows a')"
    unfolding a' sub
    using float_level.post_level[OF h mq(1), of b M] mq(2) st lt M q(2) by auto
  then show "ledger_run [line_posting lb] (stock (da_rows a)) = Some (stock (da_rows a'))"
    "fits M (da_rows a')"
    using st by (auto simp: lb line_posting_def q_def)
  have reprs: "flt_repr (fl (level (da_rows a) b)) = level (da_rows a) b"
    "flt_repr (fl (level (da_rows a) b - q)) = level (da_rows a) b - q"
    "flt_repr (- fl q) = - q"
    using repr_fl_two_places[OF fitsD(1)[OF h, of b]] repr_fl_two_places[OF diff(1)]
      repr_fl_two_places[OF mq(1)] st lt M q(2) diff(2) mq(2)
    by (simp_all add: stock_def flt.r_minus)
  show "\<exists>m. da_movements a' = da_movements a @ [m] \<and> movement_balances m"
    using run reprs sub
    by (auto simp: dispatch_line_def lb level_def movement_balances_def q_def Let_def
        split: if_splits)
qed

lemma dispatch_lines_ledger:
  assumes "fits M (da_rows a)" "M \<le> 10 ^ 14" "\<forall>l \<in> set (map fst ps). line_ok l"
    and "res_fold (dispatch_line ids number tenant store actor notes) ps a = Inr a'"
    and "\<forall>m \<in> set (da_movements a). movement_balances m"
  shows "ledger_run (map line_posting ps) (stock (da_rows a)) = Some (stock (da_rows a'))
    \<and> fits M (da_rows a') \<and> (\<forall>m \<in> set (da_movements a'). movement_balances m)
    \<and> length (da_movements a') = length (da_movements a) + length ps"
  using assms
proof (induction ps arbitrary: a)
  case (Cons p ps)
  from Cons.prems(4) obtain b where b: "dispatch_line ids number tenant store actor notes p a = Inr b"
    "res_fold (dispatch_line ids number tenant store actor notes) ps b = Inr a'"
    by (auto simp: res_bind_eq_Inr)
  note step = dispatch_line_ledger[OF Cons.prems(1,2) _ b(1)]
  have ok: "line_ok (fst p)" using Cons.prems(3) by simp
  obtain m where m: "da_movements b = da_movements a @ [m]" "movement_balances m"
    using step(3)[OF ok] by blast
  have "ledger_run (map line_posting ps) (stock (da_rows b)) = Some (stock (da_rows a'))
    \<and> fits M (da_rows a') \<and> (\<forall>m \<in> set (da_movements a'). movement_balances m)
    \<and> length (da_movements a') = length (da_movements b) + length ps"
    using step(2)[OF ok] Cons.prems m b(2) by (intro Cons.IH) auto
  then show ?case
    using step(1)[OF ok] ledger_run_append[of "[line_posting p]" "map line_posting ps"] m(1)
    by simp
qed simp

text \<open>The converse: a refused line is one the ledger refuses.\<close>

lemma dispatch_lines_refused:
  assumes "fits M (da_rows a)" "M \<le> 10 ^ 14" "\<forall>l \<in> set (map fst ps). line_ok l"
    and "res_fold (dispatch_line ids number tenant store actor notes) ps a = Inl e"
    and "\<forall>(l, b) \<in> set ps. sb_store_id (da_rows a b) = store \<and>
      sb_product_id (da_rows a b) = dl_product_id l"
  shows "ledger_run (map line_posting ps) (stock (da_rows a)) = None"
  using assms
proof (induction ps arbitrary: a)
  case (Cons p ps)
  obtain l b where p: "p = (l, b)" by (cases p)
  have ok: "line_ok (fst p)" using Cons.prems(3) by simp
  show ?case
  proof (cases "dispatch_line ids number tenant store actor notes p a")
    case (Inl e')
    then have "level (da_rows a) b < dl_qty_dispatched l"
      using Cons.prems(5) by (auto simp: dispatch_line_def p level_def Let_def split: if_splits)
    then have "stock (da_rows a) b < hundredths (dl_qty_dispatched l)"
      using ok hundredths_less_iff[OF fitsD(1)[OF Cons.prems(1), of b]]
      by (auto simp: p line_ok_def stock_def)
    then show ?thesis by (simp add: p line_posting_def)
  next
    case (Inr a2)
    note step = dispatch_line_ledger[OF Cons.prems(1,2) ok Inr]
    have same: "sb_store_id (da_rows a2 c) = sb_store_id (da_rows a c)"
      "sb_product_id (da_rows a2 c) = sb_product_id (da_rows a c)" for c
      using Inr by (auto simp: dispatch_line_def p Let_def split: if_splits)
    have "ledger_run (map line_posting ps) (stock (da_rows a2)) = None"
      using step(2) Cons.prems Inr same by (intro Cons.IH) auto
    then show ?thesis
      using step(1) ledger_run_append[of "[line_posting p]" "map line_posting ps"] by simp
  qed
qed simp


section \<open>Cancellation\<close>

definition item_posting :: "distribution_item \<times> uuid \<Rightarrow> uuid \<times> int" where
  "item_posting ib = (snd ib, hundredths (dec_of_str (di_qty_dispatched (fst ib))))"

definition item_ok :: "distribution_item \<Rightarrow> bool" where
  "item_ok it \<longleftrightarrow> 0 \<le> dec_of_str (di_qty_dispatched it) \<and>
     two_places (dec_of_str (di_qty_dispatched it))"

definition posted :: "uuid \<Rightarrow> (uuid \<times> int) list \<Rightarrow> int" where
  "posted b ms = (\<Sum>(c, q)\<leftarrow>ms. if c = b then q else 0)"

lemma posted_simps [simp]:
  "posted b [] = 0" "posted b ((c, q) # ms) = (if c = b then q else 0) + posted b ms"
  by (simp_all add: posted_def)

lemma posted_nonneg: "\<forall>(b, q) \<in> set ms. 0 \<le> q \<Longrightarrow> 0 \<le> posted b ms"
  by (induction ms) auto

lemma hundredths_nonneg: "0 \<le> d \<Longrightarrow> 0 \<le> hundredths d"
  by (simp add: hundredths_def)

lemma cancel_line_ledger:
  assumes h: "fits N (ca_rows a)" and N: "N \<le> 10 ^ 15" and ok: "item_ok (fst ib)"
    and lt: "stock (ca_rows a) (snd ib) + snd (item_posting ib) < N"
    and run: "cancel_line ids d actor reason ib a = Inr a'"
  shows "ledger_run [item_posting ib] (stock (ca_rows a)) = Some (stock (ca_rows a'))"
    "fits N (ca_rows a')"
    "\<exists>m. ca_movements a' = ca_movements a @ [m] \<and> movement_balances m"
proof -
  obtain it b where ib: "ib = (it, b)" by (cases ib)
  define q where "q = dec_of_str (di_qty_dispatched it)"
  have q: "two_places q" "0 \<le> hundredths q"
    using ok by (auto simp: ib item_ok_def q_def hundredths_nonneg)
  from run have a': "ca_rows a' = put_float b (dadd (level (ca_rows a) b) q) (ca_rows a)"
    by (auto simp: cancel_line_def ib q_def level_def put_float_def Let_def split: if_splits)
  have st: "0 \<le> stock (ca_rows a) b" "stock (ca_rows a) b + hundredths q < N"
    using fitsD(2)[OF h] lt by (simp_all add: ib item_posting_def q_def)
  have sum: "two_places (level (ca_rows a) b + q)"
    "hundredths (level (ca_rows a) b + q) = stock (ca_rows a) b + hundredths q"
    using two_places_sum[OF fitsD(1)[OF h, of b] q(1)] by (simp_all add: stock_def)
  have add: "dadd (level (ca_rows a) b) q = level (ca_rows a) b + q"
    using dctx_two_places[OF sum(1)] sum(2) st N q(2) by (simp add: dadd_def)
  have post: "stock (ca_rows a') = (stock (ca_rows a))(b := stock (ca_rows a) b + hundredths q)"
    "fits N (ca_rows a')"
    unfolding a' add
    using float_level.post_level[OF h q(1), of b N] st N q(2) by auto
  then show "ledger_run [item_posting ib] (stock (ca_rows a)) = Some (stock (ca_rows a'))"
    "fits N (ca_rows a')"
    using st q(2) by (auto simp: ib item_posting_def q_def)
  have reprs: "flt_repr (fl (level (ca_rows a) b)) = level (ca_rows a) b"
    "flt_repr (fl (level (ca_rows a) b + q)) = level (ca_rows a) b + q"
    "flt_repr (fl q) = q"
    using repr_fl_two_places[OF fitsD(1)[OF h, of b]] repr_fl_two_places[OF sum(1)]
      repr_fl_two_places[OF q(1)] st N q(2) sum(2) by (simp_all add: stock_def)
  show "\<exists>m. ca_movements a' = ca_movements a @ [m] \<and> movement_balances m"
    using run reprs add
    by (auto simp: cancel_line_def ib level_def movement_balances_def q_def Let_def
        split: if_splits)
qed

lemma cancel_lines_ledger:
  assumes "fits N (ca_rows a)" "N \<le> 10 ^ 15" "\<forall>it \<in> set (map fst ps). item_ok it"
    and "\<forall>b. stock (ca_rows a) b + posted b (map item_posting ps) < N"
    and "res_fold (cancel_line ids d actor reason) ps a = Inr a'"
    and "\<forall>m \<in> set (ca_movements a). movement_balances m"
  shows "ledger_run (map item_posting ps) (stock (ca_rows a)) = Some (stock (ca_rows a'))
    \<and> fits N (ca_rows a') \<and> (\<forall>m \<in> set (ca_movements a'). movement_balances m)
    \<and> length (ca_movements a') = length (ca_movements a) + length ps"
  using assms
proof (induction ps arbitrary: a)
  case (Cons p ps)
  from Cons.prems(5) obtain b where b: "cancel_line ids d actor reason p a = Inr b"
    "res_fold (cancel_line ids d actor reason) ps b = Inr a'"
    by (auto simp: res_bind_eq_Inr)
  obtain c q where pq: "item_posting p = (c, q)" by (cases "item_posting p")
  have ok: "item_ok (fst p)" using Cons.prems(3) by simp
  have "0 \<le> posted c (map item_posting ps)"
    using Cons.prems(3) by (intro posted_nonneg) (auto simp: item_posting_def item_ok_def hundredths_nonneg)
  then have lt: "stock (ca_rows a) (snd p) + snd (item_posting p) < N"
    using Cons.prems(4)[rule_format, of c] pq by (simp add: item_posting_def)
  note step = cancel_line_ledger[OF Cons.prems(1,2) ok lt b(1)]
  obtain m where m: "ca_movements b = ca_movements a @ [m]" "movement_balances m"
    using step(3) by blast
  have st: "stock (ca_rows b) = (stock (ca_rows a))(c := stock (ca_rows a) c + q)"
    using step(1) pq by (simp split: if_splits)
  have "stock (ca_rows b) e + posted e (map item_posting ps) < N" for e
    using Cons.prems(4)[rule_format, of e] pq st by (auto split: if_splits)
  then have "ledger_run (map item_posting ps) (stock (ca_rows b)) = Some (stock (ca_rows a'))
    \<and> fits N (ca_rows a') \<and> (\<forall>m \<in> set (ca_movements a'). movement_balances m)
    \<and> length (ca_movements a') = length (ca_movements b) + length ps"
    using step(2) Cons.prems m b(2) by (intro Cons.IH) auto
  then show ?case
    using step(1) ledger_run_append[of "[item_posting p]" "map item_posting ps"] m(1) by simp
qed simp

lemma cancel_lines_ok:
  assumes "\<forall>(it, b) \<in> set ps. sb_store_id (ca_rows a b) = ds_from_store_id d \<and>
      sb_product_id (ca_rows a b) = di_source_product_id it"
  shows "\<exists>a'. res_fold (cancel_line ids d actor reason) ps a = Inr a'"
  using assms
proof (induction ps arbitrary: a)
  case (Cons p ps)
  obtain it b where p: "p = (it, b)" by (cases p)
  obtain a2 where a2: "cancel_line ids d actor reason p a = Inr a2"
    using Cons.prems by (auto simp: p cancel_line_def Let_def)
  have "sb_store_id (ca_rows a2 c) = sb_store_id (ca_rows a c)"
    "sb_product_id (ca_rows a2 c) = sb_product_id (ca_rows a c)" for c
    using a2 by (auto simp: cancel_line_def p Let_def split: if_splits)
  then show ?case using Cons.IH[of a2] Cons.prems a2 by auto
qed simp

section \<open>Receiving\<close>

definition recv_posting :: "uuid \<Rightarrow> receive_line \<Rightarrow> uuid \<times> int" where
  "recv_posting b l = (b, hundredths (rl_qty_received l))"

definition recv_line_ok :: "receive_line \<Rightarrow> bool" where
  "recv_line_ok l \<longleftrightarrow> 0 \<le> rl_qty_received l \<and> two_places (rl_qty_received l) \<and>
     0 \<le> rl_qty_damaged l \<and> two_places (rl_qty_damaged l) \<and>
     hundredths (rl_qty_received l) < 10 ^ 12 \<and> hundredths (rl_qty_damaged l) < 10 ^ 12"


text \<open>
  Inside one call the identifiers drawn are distinct, are not keys of the given rows, and
  point at no stock before they are used.
\<close>

definition recv_inv :: "(nat \<Rightarrow> uuid) \<Rightarrow> uuid list \<Rightarrow> receive_acc \<Rightarrow> bool" where
  "recv_inv ids bals a \<longleftrightarrow>
     fits (10 ^ 12 * (1 + int (length (ra_adjustments a)))) (ra_rows a)
     \<and> (\<forall>n \<ge> ra_drawn a. stock (ra_rows a) (ids n) = 0)
     \<and> set (ra_balances a) \<subseteq> set bals \<union> ids ` {..<ra_drawn a}"

lemma destination_balance_cases:
  assumes "destination_balance ids tenant to_store bals p used h n = (b, used', h', n')"
    and inj: "inj ids" and fresh: "\<forall>n. ids n \<notin> set bals"
    and used: "set used \<subseteq> set bals \<union> ids ` {..<n}"
    and h: "fits N h" and empty: "\<forall>m \<ge> n. stock h (ids m) = 0"
  shows "stock h' = stock h" "fits N h'" "b \<in> set used'" "set used \<subseteq> set used'"
    "set used' \<subseteq> set bals \<union> ids ` {..<n'}" "n \<le> n'"
    "sb_product_id (h' b) = p" "sb_store_id (h' b) = to_store"
    "\<forall>c \<in> set used. h' c = h c"
proof -
  let ?row = "\<lparr>sb_id = ids n, sb_tenant_id = tenant, sb_product_id = p, sb_store_id = to_store,
    sb_qty = PInt 0, sb_reserved_qty = PInt 0, sb_min_stock_level = PInt 0, sb_unit_cost = None\<rparr>"
  let ?new = "b = ids n \<and> used' = used @ [ids n] \<and> h' = h(ids n := ?row) \<and> n' = n + 1"
  let ?old = "h' = h \<and> n' = n \<and> b \<in> set used' \<and> set used \<subseteq> set used' \<and>
    set used' \<subseteq> set used \<union> set bals \<and> sb_product_id (h b) = p \<and> sb_store_id (h b) = to_store"
  have "?old \<or> ?new"
    using assms(1)
    by (auto simp: destination_balance_def Let_def split: option.splits dest!: find_Some_set)
  moreover have lv: "level (h(ids n := ?row)) = (level h)(ids n := 0)"
    by (simp add: level_def fun_eq_iff)
  moreover have zero: "level h (ids n) = 0"
    using empty[rule_format, of n] two_placesD[OF fitsD(1)[OF h, of "ids n"]]
    by (simp add: stock_def)
  moreover have notin: "ids n \<notin> set used" using used fresh inj by (auto simp: inj_eq)
  ultimately have cases: "?old \<or> ?new" "level h' = level h"
    by (auto simp: fun_upd_idem)
  then show "stock h' = stock h" "fits N h'"
    using h by (simp_all add: stock_def fits_def fun_eq_iff)
  show "b \<in> set used'" "set used \<subseteq> set used'" "set used' \<subseteq> set bals \<union> ids ` {..<n'}" "n \<le> n'"
    "sb_product_id (h' b) = p" "sb_store_id (h' b) = to_store" "\<forall>c \<in> set used. h' c = h c"
    using cases(1) used notin by (auto simp: lessThan_Suc)
qed

definition recv_totals :: "receive_acc \<Rightarrow> bool" where
  "recv_totals a \<longleftrightarrow> two_places (ra_received a) \<and> two_places (ra_damaged a) \<and>
     two_places (ra_dispatched a) \<and> 0 \<le> hundredths (ra_received a) \<and>
     0 \<le> hundredths (ra_damaged a) \<and>
     hundredths (ra_received a) + hundredths (ra_damaged a) \<le> hundredths (ra_dispatched a) \<and>
     hundredths (ra_dispatched a) \<le> 10 ^ 12 * int (length (ra_adjustments a))"

definition recv_items_ok :: "distribution_item list \<Rightarrow> bool" where
  "recv_items_ok items \<longleftrightarrow>
     (\<forall>it \<in> set items. item_ok it \<and> hundredths (dec_of_str (di_qty_dispatched it)) < 10 ^ 12)"

lemma recv_items_ok_same:
  assumes "map di_qty_dispatched items = map di_qty_dispatched items'"
  shows "recv_items_ok items \<longleftrightarrow> recv_items_ok items'"
proof -
  have "di_qty_dispatched ` set items = di_qty_dispatched ` set items'"
    using assms by (metis list.set_map)
  moreover have "recv_items_ok its \<longleftrightarrow> (\<forall>x \<in> di_qty_dispatched ` set its. 0 \<le> dec_of_str x
    \<and> two_places (dec_of_str x) \<and> hundredths (dec_of_str x) < 10 ^ 12)" for its
    by (auto simp: recv_items_ok_def item_ok_def)
  ultimately show ?thesis by (simp only:)
qed

lemma dadd_two_places:
  assumes "two_places c" "two_places d" "\<bar>hundredths c + hundredths d\<bar> < 10 ^ 28"
  shows "dadd c d = c + d"
  using two_places_sum[OF assms(1,2)] assms(3) by (simp add: dadd_def dctx_two_places)

lemma dsub_two_places:
  assumes "two_places c" "two_places d" "\<bar>hundredths c - hundredths d\<bar> < 10 ^ 28"
  shows "dsub c d = c - d"
  using two_places_diff[OF assms(1,2)] assms(3) by (simp add: dsub_def dctx_two_places)

lemma receive_one_cases:
  assumes "receive_one ids d actor bals l a = Inr a'"
  obtains item b used h n where
    "item \<in> set (ra_items a)" "di_distribution_id item = ds_id d"
    "\<not> dec_of_str (di_qty_dispatched item) < dadd (rl_qty_received l) (rl_qty_damaged l)"
    "destination_balance ids (ds_tenant_id d) (ds_to_store_id d) bals
       (rl_destination_product_id l) (ra_balances a) (ra_rows a) (ra_drawn a) = (b, used, h, n)"
    "ra_rows a' = put_float b (dadd (level h b) (rl_qty_received l)) h"
    "ra_balances a' = used" "n < ra_drawn a'"
    "length (ra_adjustments a') = Suc (length (ra_adjustments a))"
    "ra_received a' = dadd (ra_received a) (rl_qty_received l)"
    "ra_damaged a' = dadd (ra_damaged a) (rl_qty_damaged l)"
    "ra_dispatched a' = dadd (ra_dispatched a) (dec_of_str (di_qty_dispatched item))"
    "map di_qty_dispatched (ra_items a') = map di_qty_dispatched (ra_items a)"
proof -
  obtain item where item: "item_by_id (ra_items a) (rl_item_id l) = Some item"
    using assms by (auto simp: receive_one_def split: option.splits)
  obtain b used h n where db: "destination_balance ids (ds_tenant_id d) (ds_to_store_id d) bals
       (rl_destination_product_id l) (ra_balances a) (ra_rows a) (ra_drawn a) = (b, used, h, n)"
    by (metis prod_cases4)
  have inset: "item \<in> set (ra_items a)"
    using item by (auto simp: item_by_id_def dest!: find_Some_set)
  note run = assms[unfolded receive_one_def item db option.case prod.case Let_def]
  have c1: "\<not> di_distribution_id item \<noteq> ds_id d" using run by (simp split: if_splits)
  note run1 = run[unfolded if_not_P[OF c1]]
  have c2: "\<not> dec_of_str (di_qty_dispatched item) < dadd (rl_qty_received l) (rl_qty_damaged l)"
  proof
    assume "dec_of_str (di_qty_dispatched item) < dadd (rl_qty_received l) (rl_qty_damaged l)"
    from run1[unfolded if_P[OF this]] show False by simp
  qed
  note a' = run1[unfolded if_not_P[OF c2], THEN sum.inject(2)[THEN iffD1], symmetric]
  show thesis
  proof (rule that[OF inset _ c2 db])
    show "di_distribution_id item = ds_id d" using c1 by simp
    show "ra_rows a' = put_float b (dadd (level h b) (rl_qty_received l)) h"
      unfolding a' by (simp add: put_float_def level_def)
    show "map di_qty_dispatched (ra_items a') = map di_qty_dispatched (ra_items a)"
      unfolding a' by (simp add: update_item_def)
  qed (unfold a', simp_all)
qed

lemma receive_one_step:
  assumes inv: "recv_inv ids bals a" "recv_totals a" "recv_items_ok (ra_items a)"
    and len: "length (ra_adjustments a) < 900" and ok: "recv_line_ok l"
    and ids: "inj ids" "\<forall>n. ids n \<notin> set bals"
    and run: "receive_one ids d actor bals l a = Inr a'"
  shows "recv_inv ids bals a'" "recv_totals a'" "recv_items_ok (ra_items a')"
    "length (ra_adjustments a') = Suc (length (ra_adjustments a))"
    "\<exists>b \<in> set (ra_balances a'). ledger_run [recv_posting b l] (stock (ra_rows a)) =
        Some (stock (ra_rows a'))
      \<and> sb_product_id (ra_rows a' b) = rl_destination_product_id l
      \<and> sb_store_id (ra_rows a' b) = ds_to_store_id d"
    "set (ra_balances a) \<subseteq> set (ra_balances a')"
    "\<forall>c \<in> set (ra_balances a). sb_product_id (ra_rows a' c) = sb_product_id (ra_rows a c)
      \<and> sb_store_id (ra_rows a' c) = sb_store_id (ra_rows a c)"
    "ra_received a' = ra_received a + rl_qty_received l"
    "ra_damaged a' = ra_damaged a + rl_qty_damaged l"
proof -
  obtain item b used h n where r:
    "item \<in> set (ra_items a)" "di_distribution_id item = ds_id d"
    "\<not> dec_of_str (di_qty_dispatched item) < dadd (rl_qty_received l) (rl_qty_damaged l)"
    "destination_balance ids (ds_tenant_id d) (ds_to_store_id d) bals
       (rl_destination_product_id l) (ra_balances a) (ra_rows a) (ra_drawn a) = (b, used, h, n)"
    "ra_rows a' = put_float b (dadd (level h b) (rl_qty_received l)) h"
    "ra_balances a' = used" "n < ra_drawn a'"
    "length (ra_adjustments a') = Suc (length (ra_adjustments a))"
    "ra_received a' = dadd (ra_received a) (rl_qty_received l)"
    "ra_damaged a' = dadd (ra_damaged a) (rl_qty_damaged l)"
    "ra_dispatched a' = dadd (ra_dispatched a) (dec_of_str (di_qty_dispatched item))"
    "map di_qty_dispatched (ra_items a') = map di_qty_dispatched (ra_items a)"
    by (rule receive_one_cases[OF run]) blast
  define N where "N = 10 ^ 12 * (1 + int (length (ra_adjustments a)))"
  have N: "N \<le> 900 * 10 ^ 12" using len by (simp add: N_def)
  have a: "fits N (ra_rows a)" "\<forall>m \<ge> ra_drawn a. stock (ra_rows a) (ids m) = 0"
    "set (ra_balances a) \<subseteq> set bals \<union> ids ` {..<ra_drawn a}"
    using inv(1) by (simp_all add: recv_inv_def N_def)
  note db = destination_balance_cases[OF r(4) ids a(3,1,2)]
  let ?q = "rl_qty_received l" and ?g = "rl_qty_damaged l"
  let ?d = "dec_of_str (di_qty_dispatched item)"
  have q: "two_places ?q" "0 \<le> hundredths ?q" "two_places ?g" "0 \<le> hundredths ?g"
    "hundredths ?q < 10 ^ 12" "hundredths ?g < 10 ^ 12"
    using ok by (auto simp: recv_line_ok_def hundredths_nonneg)
  have dd: "two_places ?d" "0 \<le> hundredths ?d" "hundredths ?d < 10 ^ 12"
    using inv(3) r(1) by (auto simp: recv_items_ok_def item_ok_def hundredths_nonneg)
  have qg: "dadd ?q ?g = ?q + ?g" using q by (intro dadd_two_places) auto
  have small: "hundredths ?q + hundredths ?g \<le> hundredths ?d"
    using r(3) qg hundredths_less_iff[OF dd(1) two_places_sum(1)[OF q(1,3)]]
      two_places_sum(2)[OF q(1,3)] by simp
  have bound: "0 \<le> stock h b" "stock h b + hundredths ?q < N + 10 ^ 12"
    using fitsD(2,3)[OF db(2)] small q dd by (auto intro: add_strict_mono)
  have sum: "two_places (level h b + ?q)" "hundredths (level h b + ?q) = stock h b + hundredths ?q"
    using two_places_sum[OF fitsD(1)[OF db(2), of b] q(1)] by (simp_all add: stock_def)
  have add: "dadd (level h b) ?q = level h b + ?q"
    using dctx_two_places[OF sum(1)] sum(2) bound N q(2) by (simp add: dadd_def)
  have post: "stock (ra_rows a') = (stock h)(b := stock h b + hundredths ?q)"
    "fits (N + 10 ^ 12) (ra_rows a')"
    unfolding r(5) add
    by (rule float_level.post_level[OF db(2) q(1), where N = "N + 10 ^ 12"];
        use bound N q(2) in simp)+
  have prod: "sb_product_id (ra_rows a' c) = sb_product_id (h c)"
    "sb_store_id (ra_rows a' c) = sb_store_id (h c)" for c
    by (simp_all add: r(5) put_float_def)
  have b_new: "b \<noteq> ids m" if "ra_drawn a' \<le> m" for m
    using db(3,5) ids r(7) that by (auto simp: inj_eq)
  show "recv_inv ids bals a'"
    unfolding recv_inv_def
  proof (intro conjI allI impI)
    show "fits (10 ^ 12 * (1 + int (length (ra_adjustments a')))) (ra_rows a')"
      using post(2) by (simp add: N_def r(8) algebra_simps)
    show "stock (ra_rows a') (ids m) = 0" if "ra_drawn a' \<le> m" for m
      using b_new[OF that] a(2)[rule_format, of m] db(6) r(7) that by (simp add: post(1) db(1))
    show "set (ra_balances a') \<subseteq> set bals \<union> ids ` {..<ra_drawn a'}"
      using db(5) r(7) by (auto simp: r(6))
  qed
  have tot: "two_places (ra_received a)" "two_places (ra_damaged a)" "two_places (ra_dispatched a)"
    "0 \<le> hundredths (ra_received a)" "0 \<le> hundredths (ra_damaged a)"
    "hundredths (ra_received a) + hundredths (ra_damaged a) \<le> hundredths (ra_dispatched a)"
    "hundredths (ra_dispatched a) \<le> 10 ^ 12 * int (length (ra_adjustments a))"
    using inv(2) by (simp_all add: recv_totals_def)
  have len': "10 ^ 12 * int (length (ra_adjustments a)) \<le> (10 :: int) ^ 15"
    using len by simp
  show rec: "ra_received a' = ra_received a + ?q" and dam: "ra_damaged a' = ra_damaged a + ?g"
    unfolding r(9,10)
    by (rule dadd_two_places; use tot q dd small len' in simp)+
  have dis: "ra_dispatched a' = ra_dispatched a + ?d"
    unfolding r(11) by (rule dadd_two_places; use tot dd len' in simp)
  show "recv_totals a'"
    using tot q dd small two_places_sum[OF tot(1) q(1)] two_places_sum[OF tot(2) q(3)]
      two_places_sum[OF tot(3) dd(1)]
    by (simp add: recv_totals_def rec dam dis r(8) algebra_simps)
  show "recv_items_ok (ra_items a')"
    using inv(3) recv_items_ok_same[OF r(12)] by simp
  show "length (ra_adjustments a') = Suc (length (ra_adjustments a))" by (rule r(8))
  show "\<exists>b \<in> set (ra_balances a'). ledger_run [recv_posting b l] (stock (ra_rows a)) =
        Some (stock (ra_rows a'))
      \<and> sb_product_id (ra_rows a' b) = rl_destination_product_id l
      \<and> sb_store_id (ra_rows a' b) = ds_to_store_id d"
    using bound q(2) db(3,7,8)
    by (intro bexI[of _ b]) (simp_all add: r(6) recv_posting_def post(1) db(1)[symmetric] prod)
  show "set (ra_balances a) \<subseteq> set (ra_balances a')" using db(4) r(6) by simp
  show "\<forall>c \<in> set (ra_balances a). sb_product_id (ra_rows a' c) = sb_product_id (ra_rows a c)
      \<and> sb_store_id (ra_rows a' c) = sb_store_id (ra_rows a c)"
    using db(9) prod by simp
qed

lemma receive_lines_ledger:
  assumes "recv_inv ids bals a" "recv_totals a" "recv_items_ok (ra_items a)"
    and "length (ra_adjustments a) + length ls \<le> 900" "\<forall>l \<in> set ls. recv_line_ok l"
    and ids: "inj ids" "\<forall>n. ids n \<notin> set bals"
    and "res_fold (receive_one ids d actor bals) ls a = Inr a'"
  shows "(\<exists>bs. length bs = length ls \<and>
        ledger_run (map2 recv_posting bs ls) (stock (ra_rows a)) = Some (stock (ra_rows a')) \<and>
        (\<forall>(b, l) \<in> set (zip bs ls). sb_product_id (ra_rows a' b) = rl_destination_product_id l \<and>
           sb_store_id (ra_rows a' b) = ds_to_store_id d))
    \<and> (\<forall>c \<in> set (ra_balances a). sb_product_id (ra_rows a' c) = sb_product_id (ra_rows a c)
        \<and> sb_store_id (ra_rows a' c) = sb_store_id (ra_rows a c))
    \<and> recv_totals a'
    \<and> ra_received a' = ra_received a + (\<Sum>l\<leftarrow>ls. rl_qty_received l)
    \<and> ra_damaged a' = ra_damaged a + (\<Sum>l\<leftarrow>ls. rl_qty_damaged l)
    \<and> length (ra_adjustments a') = length (ra_adjustments a) + length ls"
  using assms
proof (induction ls arbitrary: a)
  case (Cons l ls)
  from Cons.prems(8) obtain a2 where a2: "receive_one ids d actor bals l a = Inr a2"
    "res_fold (receive_one ids d actor bals) ls a2 = Inr a'"
    by (auto simp: res_bind_eq_Inr)
  have "length (ra_adjustments a) < 900" "recv_line_ok l" using Cons.prems(4,5) by auto
  note st = receive_one_step[OF Cons.prems(1-3) this ids a2(1)]
  have "length (ra_adjustments a2) + length ls \<le> 900" "\<forall>l \<in> set ls. recv_line_ok l"
    using Cons.prems(4,5) st(4) by auto
  note IH = Cons.IH[OF st(1-3) this ids a2(2)]
  from IH obtain bs where bs: "length bs = length ls"
    "ledger_run (map2 recv_posting bs ls) (stock (ra_rows a2)) = Some (stock (ra_rows a'))"
    "\<forall>(b, l) \<in> set (zip bs ls). sb_product_id (ra_rows a' b) = rl_destination_product_id l \<and>
       sb_store_id (ra_rows a' b) = ds_to_store_id d"
    by blast
  from st(5) obtain b where b: "b \<in> set (ra_balances a2)"
    "ledger_run [recv_posting b l] (stock (ra_rows a)) = Some (stock (ra_rows a2))"
    "sb_product_id (ra_rows a2 b) = rl_destination_product_id l"
    "sb_store_id (ra_rows a2 b) = ds_to_store_id d"
    by blast
  have keep: "\<forall>c \<in> set (ra_balances a2). sb_product_id (ra_rows a' c) = sb_product_id (ra_rows a2 c)
        \<and> sb_store_id (ra_rows a' c) = sb_store_id (ra_rows a2 c)"
    using IH by blast
  have "ledger_run (map2 recv_posting (b # bs) (l # ls)) (stock (ra_rows a)) =
      Some (stock (ra_rows a'))"
    using ledger_run_append[of "[recv_posting b l]" "map2 recv_posting bs ls"] b(2) bs(2) by simp
  moreover have "\<forall>(b, l) \<in> set (zip (b # bs) (l # ls)).
      sb_product_id (ra_rows a' b) = rl_destination_product_id l \<and>
      sb_store_id (ra_rows a' b) = ds_to_store_id d"
    using bs(3) b keep by simp
  ultimately have "\<exists>bs. length bs = length (l # ls) \<and>
      ledger_run (map2 recv_posting bs (l # ls)) (stock (ra_rows a)) = Some (stock (ra_rows a')) \<and>
      (\<forall>(b, l) \<in> set (zip bs (l # ls)).
        sb_product_id (ra_rows a' b) = rl_destination_product_id l \<and>
        sb_store_id (ra_rows a' b) = ds_to_store_id d)"
    using bs(1) by (intro exI[of _ "b # bs"]) simp
  moreover have "\<forall>c \<in> set (ra_balances a).
      sb_product_id (ra_rows a' c) = sb_product_id (ra_rows a c)
      \<and> sb_store_id (ra_rows a' c) = sb_store_id (ra_rows a c)"
    using st(6,7) keep by fastforce
  ultimately show ?case using IH st(4,8,9) by (simp add: add.assoc)
qed simp

section \<open>Moving stock between two rows\<close>

lemma move_stock_ledger:
  assumes h: "fits M h" and M: "M \<le> 10 ^ 14" and q: "two_places q" "0 \<le> q"
    and le: "q \<le> level h f"
    and mv: "move_stock bid tenant p st q f to h = (t, h')"
    and fresh: "to = None \<Longrightarrow> bid \<noteq> f \<and> stock h bid = 0"
  shows "ledger_run [(f, - hundredths q), (t, hundredths q)] (stock h) = Some (stock h')"
    "t = (case to of Some b \<Rightarrow> b | None \<Rightarrow> bid)"
    "sb_reserved_qty (h' f) = sb_reserved_qty (h f)"
proof -
  let ?k = "hundredths q"
  have k: "0 \<le> ?k" "?k \<le> stock h f" "stock h f < M"
    using hundredths_nonneg[OF q(2)] le hundredths_le_iff[OF q(1) fitsD(1)[OF h]] fitsD(3)[OF h]
    by (simp_all add: stock_def)
  have diff: "two_places (level h f - q)" "hundredths (level h f - q) = stock h f - ?k"
    using two_places_diff[OF fitsD(1)[OF h, of f] q(1)] by (simp_all add: stock_def)
  have sub: "dsub (level h f) q = level h f - q"
    using k M diff fitsD(1)[OF h] q(1) by (intro dsub_two_places) (auto simp: stock_def)
  define h1 where "h1 = put_decimal f (level h f + - q) h"
  have mq: "two_places (- q)" "hundredths (- q) = - ?k"
    using two_places_diff[OF two_places_0 q(1)] by simp_all
  have h1: "stock h1 = (stock h)(f := stock h f - ?k)" "fits M h1"
    unfolding h1_def using decimal_level.post_level[OF h mq(1), of f M] mq(2) k M by auto
  have h1_eq: "h(f := (h f)\<lparr>sb_qty := PDec (dsub (dec_of_str (sb_qty (h f))) q)\<rparr>) = h1"
    using sub diff k M dctx_two_places[OF diff(1)]
    by (simp add: h1_def put_decimal_def level_def[symmetric])
  have res: "stock h' = (stock h1)(t := stock h1 t + ?k) \<and>
      t = (case to of Some b \<Rightarrow> b | None \<Rightarrow> bid) \<and> sb_reserved_qty (h' f) = sb_reserved_qty (h f)"
  proof (cases to)
    case (Some b)
    then have t: "t = b"
      and h': "h' = h1(b := (h1 b)\<lparr>sb_qty := PDec (dadd (dec_of_str (sb_qty (h1 b))) q)\<rparr>)"
      using mv h1_eq by (auto simp: move_stock_def Let_def)
    have lt: "stock h1 b + ?k < 2 * 10 ^ 14" using fitsD(3)[OF h1(2), of b] k M by simp
    have sum: "two_places (level h1 b + q)" "hundredths (level h1 b + q) = stock h1 b + ?k"
      using two_places_sum[OF fitsD(1)[OF h1(2), of b] q(1)] by (simp_all add: stock_def)
    have "dadd (level h1 b) q = dctx (level h1 b + q)" by (simp add: dadd_def)
    then have "h' = put_decimal b (level h1 b + q) h1"
      by (simp add: h' put_decimal_def level_def)
    then have "stock h' = (stock h1)(b := stock h1 b + ?k)"
      using decimal_level.post_level(1)[OF h1(2) q(1), of b "2 * 10 ^ 14"] lt k(1) M
        fitsD(2)[OF h1(2), of b] by simp
    then show ?thesis using Some t h' by (auto simp: h1_def put_decimal_def)
  next
    case None
    then have t: "t = bid" "bid \<noteq> f" "stock h bid = 0" using mv fresh by (auto simp: move_stock_def Let_def)
    have h': "h' = h1(bid := \<lparr>sb_id = bid, sb_tenant_id = tenant, sb_product_id = p,
            sb_store_id = st, sb_qty = PDec q, sb_reserved_qty = PInt 0,
            sb_min_stock_level = PInt 0, sb_unit_cost = sb_unit_cost (h1 f)\<rparr>)"
      using mv None h1_eq by (auto simp: move_stock_def Let_def)
    have "stock h' = (stock h1)(bid := stock h1 bid + ?k)"
      using t(2,3) h1(1) by (auto simp: h' stock_def level_def fun_eq_iff)
    then show ?thesis using None t h' by (auto simp: h1_def put_decimal_def)
  qed
  then show "t = (case to of Some b \<Rightarrow> b | None \<Rightarrow> bid)"
    "sb_reserved_qty (h' f) = sb_reserved_qty (h f)" by simp_all
  have "0 \<le> stock h1 t" using fitsD(2)[OF h1(2)] .
  then show "ledger_run [(f, - ?k), (t, ?k)] (stock h) = Some (stock h')"
    using k h1(1) res by (auto split: if_splits)
qed

end
