(* ===== verification/StockFlows.thy ===== *)
theory StockFlows
  imports StockLedger
begin

text \<open>
  The properties of the stock operations of \<open>Inventory\<close>: distributions, transfer requests,
  adjustments, reservations and the daily movement series.
\<close>

section \<open>Properties of the distributions\<close>

text \<open>C4: Dispatching a distribution implements the stock ledger. For lines with positive
  two-decimal quantities and matching warehouse rows, the planning function succeeds exactly
  when withdrawing the lines one after the other never overdraws a row (two lines may name the
  same row); then the rows hold the ledger's levels and there is one movement per line, each
  with \<open>balance_before + qty_change = balance_after\<close>.\<close>

theorem dispatch_refines_ledger:
  assumes "fits (10 ^ 12) h" and "length lines = length bals" and "from_store \<noteq> to_store"
    and "\<forall>l \<in> set lines. line_ok l"
    and "\<forall>(l, b) \<in> set (zip lines bals). sb_store_id (h b) = from_store \<and>
      sb_product_id (h b) = dl_product_id l"
  shows "case plan_dispatch_distribution ids now did number tenant from_store to_store lines
      actor notes corr bals h of
      Inl e \<Rightarrow> ledger_run (map line_posting (zip lines bals)) (stock h) = None
    | Inr (adjs, h', ms, out) \<Rightarrow>
        ledger_run (map line_posting (zip lines bals)) (stock h) = Some (stock h')
        \<and> fits (10 ^ 12) h' \<and> length ms = length lines \<and> (\<forall>m \<in> set ms. movement_balances m)"
proof -
  let ?a = "\<lparr>da_rows = h, da_adjustments = [], da_movements = [], da_summaries = [], da_drawn = 0\<rparr>"
  have ok: "\<forall>l \<in> set (map fst (zip lines bals)). line_ok l" using assms(2,4) by simp
  show ?thesis
  proof (cases "res_fold (dispatch_line ids number tenant from_store actor notes) (zip lines bals) ?a")
    case (Inl e)
    then show ?thesis
      using dispatch_lines_refused[of "10 ^ 12" ?a, OF _ _ ok Inl] assms
      by (simp add: plan_dispatch_distribution_def)
  next
    case (Inr a')
    then show ?thesis
      using dispatch_lines_ledger[of "10 ^ 12" ?a, OF _ _ ok Inr] assms
      by (simp add: plan_dispatch_distribution_def)
  qed
qed

definition sample_rows :: rows where
  "sample_rows b = \<lparr>sb_id = b, sb_tenant_id = ''t'', sb_product_id = ''p'', sb_store_id = ''w'',
     sb_qty = (if b = ''b'' then PDec 10 else PDec 0), sb_reserved_qty = PDec 0,
     sb_min_stock_level = PDec 0, sb_unit_cost = None\<rparr>"

definition sample_line :: "rat \<Rightarrow> distribution_line" where
  "sample_line q = \<lparr>dl_product_id = ''p'', dl_item_name = ''Rice'', dl_qty_dispatched = q,
     dl_condition_dispatched = None\<rparr>"

lemma sample_stock: "stock sample_rows = (\<lambda>b. if b = ''b'' then 1000 else 0)"
  by (simp add: fun_eq_iff stock_def level_def sample_rows_def hundredths_def)

lemma sample_fits: "fits (10 ^ 12) sample_rows"
  by (simp add: fits_def sample_stock level_def sample_rows_def two_places_def hundredths_def)

lemma sample_line_ok: "0 < k \<Longrightarrow> line_ok (sample_line (of_int k))"
  by (simp add: line_ok_def sample_line_def two_places_def hundredths_def)

text \<open>Dispatching 3 and 4 from one row of 10 leaves 3; dispatching 6 and 5 from it is refused.\<close>

theorem dispatch_refines_ledger_witness:
  "(\<exists>adjs h' ms out. plan_dispatch_distribution (\<lambda>n. ''x'') 0 ''d'' ''D1'' ''t'' ''w'' ''s''
       [sample_line 3, sample_line 4] None None None [''b'', ''b''] sample_rows =
       Inr (adjs, h', ms, out) \<and> stock h' ''b'' = 300 \<and> length ms = 2)
   \<and> \<not> is_ok (plan_dispatch_distribution (\<lambda>n. ''x'') 0 ''d'' ''D1'' ''t'' ''w'' ''s''
       [sample_line 6, sample_line 5] None None None [''b'', ''b''] sample_rows)"
proof -
  have run: "ledger_run (map line_posting (zip [sample_line 3, sample_line 4] [''b'', ''b'']))
      (stock sample_rows) = Some ((stock sample_rows)(''b'' := 300))"
    "ledger_run (map line_posting (zip [sample_line 6, sample_line 5] [''b'', ''b'']))
      (stock sample_rows) = None"
    by (simp_all add: sample_stock line_posting_def sample_line_def hundredths_def fun_eq_iff)
  have ok: "\<forall>l \<in> set [sample_line 3, sample_line 4]. line_ok l"
    "\<forall>l \<in> set [sample_line 6, sample_line 5]. line_ok l"
    using sample_line_ok[of 3] sample_line_ok[of 4] sample_line_ok[of 5] sample_line_ok[of 6]
    by simp_all
  have rows: "sb_store_id (sample_rows ''b'') = ''w'' \<and> sb_product_id (sample_rows ''b'') =
      dl_product_id (sample_line q)" for q by (simp add: sample_rows_def sample_line_def)
  let ?plan = "\<lambda>ls. plan_dispatch_distribution (\<lambda>n. ''x'') 0 ''d'' ''D1'' ''t'' ''w'' ''s''
    ls None None None [''b'', ''b''] sample_rows"
  have "is_ok (?plan [sample_line 3, sample_line 4])"
    using dispatch_refines_ledger[OF sample_fits _ _ ok(1), of "[''b'', ''b'']" "''w''" "''s''"
      "\<lambda>n. ''x''" 0 "''d''" "''D1''" "''t''" None None None] run(1) rows
    by (cases "?plan [sample_line 3, sample_line 4]") auto
  moreover have "\<not> is_ok (?plan [sample_line 6, sample_line 5])"
    using dispatch_refines_ledger[OF sample_fits _ _ ok(2), of "[''b'', ''b'']" "''w''" "''s''"
      "\<lambda>n. ''x''" 0 "''d''" "''D1''" "''t''" None None None] run(2) rows
    by (cases "?plan [sample_line 6, sample_line 5]") auto
  ultimately show ?thesis
    using dispatch_refines_ledger[OF sample_fits _ _ ok(1), of "[''b'', ''b'']" "''w''" "''s''"
      "\<lambda>n. ''x''" 0 "''d''" "''D1''" "''t''" None None None] run(1) rows
    by (cases "?plan [sample_line 3, sample_line 4]") (auto dest!: fun_cong[where x = "''b''"])
qed

text \<open>C10: Cancelling undoes a dispatch. If a dispatch succeeds and the distribution, still in
  transit, is cancelled over the same rows with the items the dispatch recorded, the
  cancellation succeeds, every row is back at its level before the dispatch and every movement
  of the cancellation balances.\<close>

theorem dispatch_cancel_round_trip:
  assumes "fits (10 ^ 12) h" and "\<forall>l \<in> set lines. line_ok l"
    and "\<forall>(l, b) \<in> set (zip lines bals). sb_store_id (h b) = ds_from_store_id d \<and>
      sb_product_id (h b) = dl_product_id l"
    and "plan_dispatch_distribution ids now did number tenant (ds_from_store_id d) to_store lines
      actor notes corr bals h = Inr (adjs, h', ms, out)"
    and "ds_status d = ''in_transit''"
    and "list_all2 (\<lambda>l it. di_source_product_id it = dl_product_id l \<and>
      dec_of_str (di_qty_dispatched it) = dl_qty_dispatched l) lines items"
  shows "\<exists>adjs2 h'' ms2 d' out2.
    plan_cancel_distribution ids2 now2 d items bals actor2 reason corr2 h' =
      Inr (adjs2, h'', ms2, d', out2)
    \<and> stock h'' = stock h \<and> ds_status d' = ''cancelled'' \<and> (\<forall>m \<in> set ms2. movement_balances m)"
proof -
  let ?a = "\<lparr>da_rows = h, da_adjustments = [], da_movements = [], da_summaries = [], da_drawn = 0\<rparr>"
  let ?ps = "zip lines bals" and ?qs = "zip items bals"
  from assms(4) have len: "length lines = length bals"
    by (auto simp: plan_dispatch_distribution_def split: if_splits)
  then have ok: "\<forall>l \<in> set (map fst ?ps). line_ok l" using assms(2) by simp
  have leni: "length items = length lines" using assms(6) by (simp add: list_all2_lengthD)
  have "ds_from_store_id d \<noteq> to_store"
    using assms(4) by (auto simp: plan_dispatch_distribution_def split: if_splits)
  then obtain a' where a': "res_fold (dispatch_line ids number tenant (ds_from_store_id d) actor notes)
      ?ps ?a = Inr a'" "h' = da_rows a'"
    using assms(4) by (auto simp: plan_dispatch_distribution_def res_bind_eq_Inr split: if_splits)
  have led: "ledger_run (map line_posting ?ps) (stock h) = Some (stock h')" "fits (10 ^ 12) h'"
    using dispatch_lines_ledger[OF _ _ ok a'(1), of "10 ^ 12"] assms(1) a'(2) by simp_all
  have match: "(it, b) \<in> set ?qs \<Longrightarrow> \<exists>l. (l, b) \<in> set ?ps \<and>
      di_source_product_id it = dl_product_id l \<and>
      dec_of_str (di_qty_dispatched it) = dl_qty_dispatched l" for it b
    using assms(6) len leni by (force simp: in_set_zip list_all2_conv_all_nth)
  have same: "sb_store_id (h' b) = sb_store_id (h b) \<and> sb_product_id (h' b) = sb_product_id (h b)" for b
  proof -
    have "sb_store_id (da_rows a' b) = sb_store_id (h b) \<and>
        sb_product_id (da_rows a' b) = sb_product_id (h b)"
      by (rule res_fold_invariant[OF a'(1)])
        (auto simp: dispatch_line_def Let_def split: if_splits prod.splits)
    then show ?thesis by (simp add: a'(2))
  qed
  let ?c = "\<lparr>ca_rows = h', ca_adjustments = [], ca_movements = [], ca_returned = 0, ca_drawn = 0\<rparr>"
  have "\<forall>(it, b) \<in> set ?qs. sb_store_id (h' b) = ds_from_store_id d \<and>
      sb_product_id (h' b) = di_source_product_id it"
    using match assms(3) same by fastforce
  then obtain c where c: "res_fold (cancel_line ids2 d actor2 reason) ?qs ?c = Inr c"
    using cancel_lines_ok[where ps = ?qs and a = ?c and d = d and ids = ids2 and actor = actor2
      and reason = reason] by auto
  have posts: "map item_posting ?qs = map (\<lambda>(b, q). (b, - q)) (map line_posting ?ps)"
    using assms(6) len leni
    by (intro nth_equalityI) (auto simp: item_posting_def line_posting_def list_all2_conv_all_nth)
  have undo: "ledger_run (map item_posting ?qs) (stock h') = Some (stock h)"
    unfolding posts using ok fitsD(2)[OF led(2)]
    by (intro ledger_run_undo[OF led(1)]) (auto simp: line_posting_def line_ok_def hundredths_nonneg)
  have "stock h' b + posted b (map item_posting ?qs) < 10 ^ 12" for b
    using ledger_run_level[OF undo, of b] fitsD(3)[OF assms(1), of b] by (simp add: posted_def)
  moreover have "\<forall>it \<in> set (map fst ?qs). item_ok it"
    using match ok by (force simp: item_ok_def line_ok_def)
  ultimately have "ledger_run (map item_posting ?qs) (stock h') = Some (stock (ca_rows c))
      \<and> (\<forall>m \<in> set (ca_movements c). movement_balances m)"
    using cancel_lines_ledger[of "10 ^ 12" ?c ?qs, OF _ _ _ _ c] led(2) by simp
  then show ?thesis
    using undo c assms(5) by (auto simp: plan_cancel_distribution_def)
qed

definition sample_distribution :: distribution where
  "sample_distribution = \<lparr>ds_id = ''d'', ds_tenant_id = ''t'', ds_number = ''D1'',
     ds_from_store_id = ''w'', ds_to_store_id = ''s'', ds_status = ''in_transit'',
     ds_notes = None, ds_dispatched_by = None, ds_dispatched_at = None, ds_received_by = None,
     ds_received_at = None, ds_cancelled_by = None, ds_cancelled_at = None,
     ds_cancel_reason = None, ds_pin_verified_by = None, ds_created_by = None\<rparr>"

definition sample_item :: "num \<Rightarrow> distribution_item" where
  "sample_item q = \<lparr>di_id = ''i'', di_tenant_id = ''t'', di_distribution_id = ''d'',
     di_source_product_id = ''p'', di_destination_product_id = None, di_item_name = ''Rice'',
     di_qty_dispatched = q, di_qty_received = PInt 0, di_qty_damaged = PInt 0,
     di_condition_dispatched = None, di_condition_received = None, di_receive_notes = None\<rparr>"

theorem dispatch_cancel_round_trip_witness:
  "\<exists>adjs h' ms out adjs2 h'' ms2 d' out2.
    plan_dispatch_distribution (\<lambda>n. ''x'') 0 ''d'' ''D1'' ''t'' ''w'' ''s'' [sample_line 3]
      None None None [''b''] sample_rows = Inr (adjs, h', ms, out)
    \<and> plan_cancel_distribution (\<lambda>n. ''x'') 1 sample_distribution [sample_item (PDec 3)] [''b'']
      None None None h' = Inr (adjs2, h'', ms2, d', out2)
    \<and> stock h'' = stock sample_rows"
proof -
  have d: "ds_from_store_id sample_distribution = ''w''" by (simp add: sample_distribution_def)
  obtain adjs h' ms out where r: "plan_dispatch_distribution (\<lambda>n. ''x'') 0 ''d'' ''D1'' ''t''
      (ds_from_store_id sample_distribution) ''s'' [sample_line 3]
      None None None [''b''] sample_rows = Inr (adjs, h', ms, out)"
    by (simp add: plan_dispatch_distribution_def dispatch_line_def sample_rows_def sample_line_def
        sample_distribution_def Let_def)
  have "\<forall>l \<in> set [sample_line 3]. line_ok l" using sample_line_ok[of 3] by simp
  from dispatch_cancel_round_trip[OF sample_fits this _ r, of "[sample_item (PDec 3)]"
      "\<lambda>n. ''x''" 1 None None None] r[unfolded d]
  show ?thesis
    by (fastforce simp: sample_distribution_def sample_rows_def sample_line_def sample_item_def)
qed


definition sample_receive :: receive_line where
  "sample_receive = \<lparr>rl_item_id = ''i'', rl_qty_received = 2, rl_qty_damaged = 1,
     rl_condition_received = None, rl_receive_notes = None, rl_destination_product_id = ''q''\<rparr>"

definition sample_ids :: "nat \<Rightarrow> uuid" where
  "sample_ids n = replicate n CHR ''z'' @ ''y''"

lemma sample_ids: "inj sample_ids" "sample_ids n \<noteq> ''b''"
  by (auto simp: inj_def sample_ids_def append_eq_Cons_conv Cons_eq_append_conv)


text \<open>The attempts to settle a distribution, in the order they reach the database.\<close>

datatype settle_attempt =
    Receive "distribution_item list" "receive_line list" "uuid list"
  | Cancel "distribution_item list" "uuid list"

fun settle :: "(nat \<Rightarrow> uuid) \<Rightarrow> timestamp \<Rightarrow> settle_attempt \<Rightarrow> distribution \<times> rows \<Rightarrow>
    exn + distribution \<times> rows" where
  "settle ids now (Receive items ls bals) (d, h) =
     res_bind (plan_receive_distribution ids now d items ls None None bals h)
       (\<lambda>(d', out, a). Inr (d', ra_rows a))"
| "settle ids now (Cancel items bals) (d, h) =
     res_bind (plan_cancel_distribution ids now d items bals None None None h)
       (\<lambda>(adjs, h', ms, d', out). Inr (d', h'))"

text \<open>A failed attempt rolls back; the count is the number of attempts that succeeded.\<close>

fun settle_all :: "(nat \<Rightarrow> uuid) \<Rightarrow> timestamp \<Rightarrow> settle_attempt list \<Rightarrow> distribution \<times> rows \<Rightarrow>
    nat \<times> distribution \<times> rows" where
  "settle_all ids now [] s = (0, s)"
| "settle_all ids now (x # xs) s =
     (case settle ids now x s of
        Inl e \<Rightarrow> settle_all ids now xs s
      | Inr s' \<Rightarrow> (case settle_all ids now xs s' of (n, s'') \<Rightarrow> (n + 1, s'')))"

lemma settle_Inr:
  assumes "settle ids now x (d, h) = Inr (d', h')"
  shows "ds_status d = ''in_transit''" "ds_status d' \<in> {''received'', ''cancelled''}"
  using assms
  by (cases x; auto simp: res_bind_eq_Inr plan_receive_distribution_def
      plan_cancel_distribution_def split: if_splits)+

lemma settle_all_settled:
  assumes "ds_status (fst s) \<noteq> ''in_transit''"
  shows "settle_all ids now xs s = (0, s)"
  using assms
proof (induction xs)
  case (Cons x xs)
  obtain d h where s: "s = (d, h)" by (cases s)
  have "\<exists>e. settle ids now x s = Inl e"
    using settle_Inr(1)[of ids now x d h] Cons.prems s
    by (cases "settle ids now x (d, h)") auto
  then show ?case using Cons by auto
qed simp

text \<open>A distribution settles at most once. However many times receiving and cancelling are
  attempted, in any order, at most one attempt changes stock, and only if the distribution was
  in transit; after a success every later attempt raises and changes nothing.\<close>

theorem distribution_settles_once:
  "case settle_all ids now xs (d, h) of (n, d', h') \<Rightarrow>
     n \<le> 1 \<and> (n = 0 \<longrightarrow> d' = d \<and> h' = h) \<and>
     (n = 1 \<longrightarrow> ds_status d = ''in_transit'' \<and> ds_status d' \<in> {''received'', ''cancelled''})"
proof (induction xs arbitrary: d h)
  case (Cons x xs)
  show ?case
  proof (cases "settle ids now x (d, h)")
    case (Inl e)
    then show ?thesis using Cons.IH[of d h] by simp
  next
    case (Inr s')
    obtain d' h' where s': "s' = (d', h')" by (cases s')
    note st = settle_Inr[OF Inr[unfolded s']]
    have "settle_all ids now xs (d', h') = (0, d', h')"
      using st(2) by (intro settle_all_settled) auto
    then show ?thesis using Inr s' st by simp
  qed
qed simp

theorem distribution_settles_once_witness:
  "fst (settle_all (\<lambda>n. ''x'') 0 [Cancel [] [], Cancel [] []] (sample_distribution, sample_rows)) \<le> 1
   \<and> fst (settle_all (\<lambda>n. ''x'') 0 [Cancel [] [], Cancel [] []] (sample_distribution, sample_rows)) = 1"
proof
  let ?n = "settle_all (\<lambda>n. ''x'') 0 [Cancel [] [], Cancel [] []] (sample_distribution, sample_rows)"
  show "fst ?n \<le> 1"
    using distribution_settles_once[where ids = "\<lambda>n. ''x''" and now = 0 and
        xs = "[Cancel [] [], Cancel [] []]" and d = sample_distribution and h = sample_rows]
    by (cases ?n) (simp del: settle_all.simps)
  show "fst ?n = 1"
    by (simp add: plan_cancel_distribution_def sample_distribution_def)
qed

section \<open>Properties of the transfers\<close>

text \<open>Fulfilling a transfer request moves exactly the approved quantity. If it succeeds on
  an approved request, the supplying row loses the approved quantity and the requesting row
  (created when missing) gains it, the supplying row keeps what is reserved on it, the total is
  unchanged and the request ends fulfilled with that quantity.\<close>

theorem fulfil_moves_approved_qty:
  assumes "fits (10 ^ 12) h" and "tr_approved_qty r = Some (PDec q)" "two_places q" "0 \<le> q"
    and "two_places (dec_of_str (sb_reserved_qty (h f)))" "0 \<le> dec_of_str (sb_reserved_qty (h f))"
    and "hundredths (dec_of_str (sb_reserved_qty (h f))) < 10 ^ 12"
    and "to = None \<Longrightarrow> ids 2 \<noteq> f \<and> stock h (ids 2) = 0"
    and "plan_fulfill_transfer_request ids now r f to tenant actor corr h =
      Inr (adj1, adj2, f', t, h', r', out)"
  shows "tr_status r = ''approved'' \<and> f' = f \<and> t = (case to of Some b \<Rightarrow> b | None \<Rightarrow> ids 2)
    \<and> ledger_run [(f, - hundredths q), (t, hundredths q)] (stock h) = Some (stock h')
    \<and> (f \<noteq> t \<longrightarrow> hundredths (dec_of_str (sb_reserved_qty (h f))) \<le> stock h' f)
    \<and> stock h' f + stock h' t = stock h f + stock h t
    \<and> tr_status r' = ''fulfilled'' \<and> tr_fulfilled_qty r' = Some (PDec q)"
proof -
  let ?res = "dec_of_str (sb_reserved_qty (h f))"
  have lv: "two_places (level h f)" "0 \<le> hundredths (level h f)" "hundredths (level h f) < 10 ^ 12"
    using fitsD[OF assms(1), of f] by (simp_all add: stock_def)
  have avail: "dsub (level h f) ?res = level h f - ?res"
    using lv assms(5,7) hundredths_nonneg[OF assms(6)] by (intro dsub_two_places) auto
  obtain t' h2 where mv: "move_stock (ids 2) tenant (tr_product_id r) (tr_requesting_store_id r) q f to h
      = (t', h2)" by (metis surj_pair)
  have r: "tr_status r = ''approved''" "q \<le> level h f - ?res" "f' = f" "t' = t" "h2 = h'"
    "tr_status r' = ''fulfilled''" "tr_fulfilled_qty r' = Some (PDec q)"
    using assms(9) mv avail
    by (auto simp: plan_fulfill_transfer_request_def assms(2) Let_def level_def split: if_splits)
  have le: "q \<le> level h f" using r(2) assms(6) by linarith
  note mv = mv[unfolded r(4,5)]
  note led = move_stock_ledger[OF assms(1) _ assms(3,4) le mv assms(8)]
  have run: "ledger_run [(f, - hundredths q), (t, hundredths q)] (stock h) = Some (stock h')"
    using led(1) by simp
  have "hundredths q \<le> stock h f - hundredths ?res"
    using r(2) two_places_diff[OF lv(1) assms(5)]
      hundredths_le_iff[OF assms(3) two_places_diff(1)[OF lv(1) assms(5)]] by (simp add: stock_def)
  then show ?thesis
    using r run ledger_run_level[OF run, of f] ledger_run_level[OF run, of t] led(2)
    by auto
qed

definition sample_request :: "string \<Rightarrow> transfer_request" where
  "sample_request st = \<lparr>tr_id = ''r'', tr_tenant_id = ''t'', tr_product_id = ''p'',
     tr_requesting_store_id = ''s'', tr_supplying_store_id = ''w'', tr_requested_qty = PDec 5,
     tr_approved_qty = Some (PDec 4), tr_status = st, tr_notes = None,
     tr_rejection_reason = None, tr_created_by = None, tr_approved_by = None,
     tr_request_number = None, tr_item_name = None, tr_supplying_product_id = None,
     tr_approved_at = None, tr_rejected_at = None, tr_fulfilled_by = None,
     tr_fulfilled_at = None, tr_fulfilled_qty = None, tr_pin_verified_by = None,
     tr_decision_note = None\<rparr>"

theorem fulfil_moves_approved_qty_witness:
  "\<exists>adj1 adj2 f t h' r' out. plan_fulfill_transfer_request (\<lambda>n. ''x'') 0 (sample_request ''approved'')
      ''b'' (Some ''c'') ''t'' None None sample_rows = Inr (adj1, adj2, f, t, h', r', out)
    \<and> stock h' ''b'' + stock h' ''c'' = 1000 \<and> tr_status r' = ''fulfilled''"
proof -
  have d: "dsub 10 0 = 10"
    using dsub_two_places[of 10 0] by (simp add: two_places_def hundredths_def)
  have "is_ok (plan_fulfill_transfer_request (\<lambda>n. ''x'') 0 (sample_request ''approved'')
      ''b'' (Some ''c'') ''t'' None None sample_rows)"
    by (simp add: plan_fulfill_transfer_request_def sample_request_def sample_rows_def d Let_def
        split: prod.splits)
  then obtain x where "plan_fulfill_transfer_request (\<lambda>n. ''x'') 0 (sample_request ''approved'')
      ''b'' (Some ''c'') ''t'' None None sample_rows = Inr x" by (rule is_okE)
  moreover obtain adj1 adj2 f t h' r' out where "x = (adj1, adj2, f, t, h', r', out)" by (cases x)
  ultimately have r: "plan_fulfill_transfer_request (\<lambda>n. ''x'') 0 (sample_request ''approved'')
      ''b'' (Some ''c'') ''t'' None None sample_rows = Inr (adj1, adj2, f, t, h', r', out)" by simp
  have "tr_approved_qty (sample_request ''approved'') = Some (PDec 4)" "two_places 4" "(0 :: rat) \<le> 4"
    "two_places (dec_of_str (sb_reserved_qty (sample_rows ''b'')))"
    "0 \<le> dec_of_str (sb_reserved_qty (sample_rows ''b''))"
    "hundredths (dec_of_str (sb_reserved_qty (sample_rows ''b''))) < 10 ^ 12"
    by (simp_all add: sample_request_def sample_rows_def two_places_def hundredths_def)
  from fulfil_moves_approved_qty[OF sample_fits this _ r]
  show ?thesis using r by (auto simp: sample_stock)
qed

section \<open>The life cycle of a transfer request\<close>

inductive tr_step :: "transfer_request \<Rightarrow> transfer_request \<Rightarrow> bool" where
  approve: "plan_approve_transfer_request ids now c r bal = Inr (r', w) \<Longrightarrow> tr_step r r'"
| reject: "plan_reject_transfer_request ids now c r = Inr (r', w) \<Longrightarrow> tr_step r r'"
| fulfil: "plan_fulfill_transfer_request ids now r f to tenant actor corr h =
    Inr (a1, a2, f', t', h', r', out) \<Longrightarrow> tr_step r r'"

inductive tr_reachable :: "transfer_request \<Rightarrow> bool" where
  created: "plan_create_transfer_request ids now c = Inr (r, w) \<Longrightarrow> tr_reachable r"
| step: "tr_reachable r \<Longrightarrow> tr_step r r' \<Longrightarrow> tr_reachable r'"

lemma tr_step_cases:
  assumes "tr_step r r'"
  obtains (approved) q where "tr_status r = ''pending''" "tr_status r' = ''approved''"
      "tr_approved_qty r' = Some (PDec q)" "0 < q" "q \<le> dec_of_str (tr_requested_qty r)"
      "tr_requested_qty r' = tr_requested_qty r" "tr_fulfilled_qty r' = tr_fulfilled_qty r"
      "tr_requesting_store_id r' = tr_requesting_store_id r"
      "tr_supplying_store_id r' = tr_supplying_store_id r" "tr_approved_at r' \<noteq> None"
    | (rejected) "tr_status r = ''pending''" "tr_status r' = ''rejected''"
      "tr_approved_qty r' = tr_approved_qty r" "tr_fulfilled_qty r' = tr_fulfilled_qty r"
      "tr_requesting_store_id r' = tr_requesting_store_id r"
      "tr_supplying_store_id r' = tr_supplying_store_id r"
    | (fulfilled) q where "tr_status r = ''approved''" "tr_status r' = ''fulfilled''"
      "tr_approved_qty r = Some q" "tr_approved_qty r' = Some q"
      "tr_requested_qty r' = tr_requested_qty r"
      "tr_fulfilled_qty r' = Some (PDec (dec_of_str q))"
      "tr_requesting_store_id r' = tr_requesting_store_id r"
      "tr_supplying_store_id r' = tr_supplying_store_id r"
  using assms
proof (cases rule: tr_step.cases)
  case (approve ids now c bal w)
  then show ?thesis
    by (intro approved[of "tra_approved_qty c"])
      (auto simp: plan_approve_transfer_request_def Let_def split: if_splits option.splits)
next
  case (reject ids now c w)
  then show ?thesis
    by (intro rejected) (auto simp: plan_reject_transfer_request_def split: if_splits)
next
  case (fulfil ids now f to tenant actor corr h a1 a2 f' t' h' out)
  then obtain q where q: "tr_approved_qty r = Some q" "tr_status r = ''approved''"
    by (auto simp: plan_fulfill_transfer_request_def split: if_splits option.splits)
  then have "r' = r\<lparr>tr_status := ''fulfilled'', tr_fulfilled_qty := Some (PDec (dec_of_str q)),
      tr_fulfilled_by := actor, tr_fulfilled_at := Some now\<rparr>"
    using fulfil by (auto simp: plan_fulfill_transfer_request_def Let_def split: if_splits prod.splits)
  then show ?thesis using q by (intro fulfilled[of q]) auto
qed

text \<open>The life cycle of a transfer request. Whatever sequence of approvals, rejections and
  fulfilments the service plans after creation, a request is pending, approved, rejected or
  fulfilled; its two stores differ; an approved or fulfilled one has a positive approved quantity
  of at most the requested one; it has a fulfilled quantity exactly when fulfilled, and that is
  the approved quantity; rejected and fulfilled requests accept no further step.\<close>

theorem transfer_request_life_cycle:
  "tr_reachable r \<Longrightarrow>
     tr_requesting_store_id r \<noteq> tr_supplying_store_id r
     \<and> tr_status r \<in> {''pending'', ''approved'', ''rejected'', ''fulfilled''}
     \<and> (tr_status r \<in> {''approved'', ''fulfilled''} \<longrightarrow>
          (\<exists>q. tr_approved_qty r = Some (PDec q) \<and> 0 < q \<and> q \<le> dec_of_str (tr_requested_qty r)))
     \<and> (tr_status r = ''fulfilled'' \<longrightarrow> tr_fulfilled_qty r = tr_approved_qty r)
     \<and> (tr_status r \<noteq> ''fulfilled'' \<longrightarrow> tr_fulfilled_qty r = None)
     \<and> (tr_status r \<in> {''rejected'', ''fulfilled''} \<longrightarrow> (\<forall>r'. \<not> tr_step r r'))"
proof (induction rule: tr_reachable.induct)
  case (created ids now c r w)
  then show ?case by (auto simp: plan_create_transfer_request_def split: if_splits)
next
  case (step r r')
  have stuck: "\<not> tr_step r' r''" if "tr_status r' \<in> {''rejected'', ''fulfilled''}" for r''
    using that by (auto elim: tr_step_cases)
  from step.hyps(2) show ?case
    by (cases rule: tr_step_cases) (use step.IH stuck in auto)
qed

definition sample_create :: transfer_request_create where
  "sample_create = \<lparr>trc_tenant_id = ''t'', trc_product_id = ''p'',
     trc_requesting_store_id = ''s'', trc_supplying_store_id = ''w'',
     trc_supplying_product_id = ''p'', trc_item_name = ''Rice'', trc_request_number = ''TR1'',
     trc_requested_qty = 5, trc_notes = None, trc_created_by = None, trc_correlation_id = None\<rparr>"

definition sample_reject :: transfer_request_reject where
  "sample_reject = \<lparr>trj_tenant_id = ''t'', trj_request_id = ''x'', trj_rejected_by = None,
     trj_pin_verified_by = None, trj_rejection_reason = Some ''none left'', trj_notes = None,
     trj_correlation_id = None\<rparr>"

theorem transfer_request_life_cycle_witness:
  "\<exists>r. tr_reachable r \<and> tr_status r = ''rejected'' \<and> (\<forall>r'. \<not> tr_step r r')"
proof -
  obtain r0 w0 where r0: "plan_create_transfer_request (\<lambda>n. ''x'') 0 sample_create = Inr (r0, w0)"
    "tr_status r0 = ''pending''"
    by (simp add: plan_create_transfer_request_def sample_create_def)
  then obtain r1 w1 where r1: "plan_reject_transfer_request (\<lambda>n. ''x'') 1 sample_reject r0 = Inr (r1, w1)"
    "tr_status r1 = ''rejected''"
    by (simp add: plan_reject_transfer_request_def)
  have "tr_reachable r1"
    using r0(1) r1(1) by (auto intro: tr_reachable.intros tr_step.intros)
  from transfer_request_life_cycle[OF this] this r1(2) show ?thesis by blast
qed

section \<open>Properties of adjustments and reservations\<close>

text \<open>Adjusting stock is exact in the column although it adds floats. On a row loaded
  with \<open>k\<close> hundredths and a two-decimal change of \<open>q\<close> hundredths, the function raises
  exactly when \<open>k + q\<close> is negative; otherwise the column ends with \<open>k + q\<close> hundredths (whatever
  binary noise the float sum carries is rounded away), and no other row is touched.\<close>

theorem adjust_stock_exact:
  assumes "sb_qty (h b) = PDec (of_int k / 100)" "ac_qty_change c = of_int q / 100"
    and "\<bar>k\<bar> \<le> 10 ^ 12" "\<bar>q\<bar> \<le> 10 ^ 12"
  shows "case plan_adjust_stock ids now c (Some b) h of
      Inl e \<Rightarrow> k + q < 0
    | Inr (adj, b', h', out) \<Rightarrow> 0 \<le> k + q \<and> b' = b \<and>
        column_value (sb_qty (h' b)) = of_int (k + q) / 100 \<and>
        sb_reserved_qty (h' b) = sb_reserved_qty (h b) \<and> (\<forall>x. x \<noteq> b \<longrightarrow> h' x = h x)"
proof -
  let ?n = "fadd (kob k) (kob q)"
  have n: "\<bar>?n - of_int (k + q) / 100\<bar> \<le> 1 / 10000" by (rule fadd_cents[OF assms(3,4)])
  have sgn: "z \<le> - 1 \<Longrightarrow> \<bar>y - z / 100\<bar> \<le> 1 / 10000 \<Longrightarrow> y < 0"
    "1 \<le> z \<Longrightarrow> \<bar>y - z / 100\<bar> \<le> 1 / 10000 \<Longrightarrow> 0 < y" for y z :: rat
    by linarith+
  have neg: "?n < 0 \<longleftrightarrow> k + q < 0"
  proof (cases "k + q = 0")
    case True
    then have "q = - k" by simp
    then show ?thesis by (simp add: fadd_def kob_minus)
  next
    case False
    then consider "k + q \<le> - 1" | "1 \<le> k + q" by linarith
    then show ?thesis
    proof cases
      case 1
      then have "of_int (k + q) \<le> (- 1 :: rat)" by (metis of_int_le_iff of_int_minus of_int_1)
      then have "?n < 0" using n by (rule sgn(1))
      then show ?thesis using 1 by simp
    next
      case 2
      then have "(1 :: rat) \<le> of_int (k + q)" by (metis of_int_le_iff of_int_1)
      then have "0 < ?n" using n by (rule sgn(2))
      then show ?thesis using 2 by simp
    qed
  qed
  have "\<bar>k + q\<bar> \<le> 2 * 10 ^ 12" using assms(3,4) by simp
  then have col: "column_value (PFlt ?n) = of_int (k + q) / 100" by (rule column_value_near[OF n])
  have eq: "fadd (py_float (sb_qty (h b))) (fl (ac_qty_change c)) = ?n"
    by (simp add: assms(1,2) kob_def)
  show ?thesis
    unfolding plan_adjust_stock_def Let_def option.case eq
    using neg col by simp
qed

definition sample_adjust :: "rat \<Rightarrow> adjust_stock_command" where
  "sample_adjust q = \<lparr>ac_tenant_id = ''t'', ac_product_id = ''p'', ac_store_id = ''w'',
     ac_reason = ''count'', ac_qty_change = q, ac_unit_cost = None, ac_notes = None,
     ac_created_by = None, ac_correlation_id = None\<rparr>"

theorem adjust_stock_exact_witness:
  "(case plan_adjust_stock (\<lambda>n. ''x'') 0 (sample_adjust (1 / 10)) (Some ''b'') sample_rows of
      Inl e \<Rightarrow> False
    | Inr (adj, b', h', out) \<Rightarrow> column_value (sb_qty (h' ''b'')) = 1010 / 100)
   \<and> \<not> is_ok (plan_adjust_stock (\<lambda>n. ''x'') 0 (sample_adjust (- 11)) (Some ''b'') sample_rows)"
proof -
  have b: "sb_qty (sample_rows ''b'') = PDec (of_int 1000 / 100)" by (simp add: sample_rows_def)
  have c: "ac_qty_change (sample_adjust (1 / 10)) = of_int 10 / 100"
    "ac_qty_change (sample_adjust (- 11)) = of_int (- 1100) / 100" by (simp_all add: sample_adjust_def)
  have 1: "\<bar>1000 :: int\<bar> \<le> 10 ^ 12" "\<bar>10 :: int\<bar> \<le> 10 ^ 12" "\<bar>- 1100 :: int\<bar> \<le> 10 ^ 12" by simp_all
  show ?thesis
    using adjust_stock_exact[where h = sample_rows and b = "''b''" and k = 1000 and q = 10 and ids = "\<lambda>n. ''x''" and now = 0,
        OF b c(1) 1(1,2)]
      adjust_stock_exact[where h = sample_rows and b = "''b''" and k = 1000 and q = "- 1100" and ids = "\<lambda>n. ''x''" and now = 0,
        OF b c(2) 1(1,3)]
    by (auto split: sum.splits prod.splits)
qed

text \<open>No reservation can be planned against a row loaded from the database: its quantities
  are \<open>Decimal\<close>, the command's is turned into a \<open>float\<close>, and \<open>reserved_qty += qty\<close> raises
  \<open>TypeError\<close> whenever the stock check passes. On a row whose quantities are floats it
  succeeds exactly when enough is available.\<close>

theorem reserve_needs_float_row:
  "(sb_qty (h b) = PDec x \<and> sb_reserved_qty (h b) = PDec y \<longrightarrow>
      (if dsub x y < fl (rc_qty c) then \<exists>m. plan_reserve_stock ids now c b h = Inl (ValueError m)
       else plan_reserve_stock ids now c b h = Inl TypeError))
   \<and> (sb_qty (h b) = PFlt x \<and> sb_reserved_qty (h b) = PFlt y \<longrightarrow>
      (is_ok (plan_reserve_stock ids now c b h) \<longleftrightarrow> fl (rc_qty c) \<le> fsub x y))"
  by (auto simp: plan_reserve_stock_def Let_def num_simps not_less)

definition sample_reserve :: reserve_stock_command where
  "sample_reserve = \<lparr>rc_tenant_id = ''t'', rc_product_id = ''p'', rc_store_id = ''w'',
     rc_sale_id = ''v'', rc_qty = 1, rc_correlation_id = None\<rparr>"

theorem reserve_needs_float_row_witness:
  "plan_reserve_stock (\<lambda>n. ''x'') 0 sample_reserve ''b'' sample_rows = Inl TypeError"
proof -
  have "dsub 10 0 = 10" "fl (rc_qty sample_reserve) = 1"
    using dsub_two_places[of 10 0] fl_of_int[of 1]
    by (simp_all add: two_places_def hundredths_def sample_reserve_def)
  then show ?thesis
    using reserve_needs_float_row[of sample_rows "''b''" 10 0 sample_reserve "\<lambda>n. ''x''" 0]
    by (simp add: sample_rows_def)
qed

section \<open>Properties of the daily series\<close>

definition movement_cents :: "movement_row \<Rightarrow> int" where
  "movement_cents r = hundredths (dec_of_str (mr_qty_change r))"

definition rows_of_day :: "int \<Rightarrow> movement_row list \<Rightarrow> movement_row list" where
  "rows_of_day d rs = filter (\<lambda>r. day_of (mr_created_at r) = d) rs"

definition day_summary :: "movement_row list \<Rightarrow> day_point" where
  "day_summary rs = \<lparr>dp_balance = py_float (mr_balance_after (last rs)),
     dp_balance_before = py_float (mr_balance_before (hd rs)),
     dp_qty_change = kob (\<Sum>r\<leftarrow>rs. movement_cents r)\<rparr>"

lemma sum_le_sum_abs: "\<bar>\<Sum>r\<leftarrow>rs. f r\<bar> \<le> (\<Sum>r\<leftarrow>rs. \<bar>f r :: int\<bar>)"
  by (induction rs) auto

lemma sum_abs_filter: "(\<Sum>r\<leftarrow>filter P rs. \<bar>f r :: int\<bar>) \<le> (\<Sum>r\<leftarrow>rs. \<bar>f r\<bar>)"
  by (induction rs) auto

lemma add_movement_day:
  "map_of (add_movement row points) d =
     (if d = day_of (mr_created_at row) then
        Some (case map_of points d of
          None \<Rightarrow> \<lparr>dp_balance = py_float (mr_balance_after row),
            dp_balance_before = py_float (mr_balance_before row),
            dp_qty_change = round2 (py_float (mr_qty_change row))\<rparr>
        | Some point \<Rightarrow> point\<lparr>dp_balance := py_float (mr_balance_after row),
            dp_qty_change :=
              round2 (fadd (dp_qty_change point) (py_float (mr_qty_change row)))\<rparr>)
      else map_of points d)"
  by (auto simp: add_movement_def split: option.splits)

lemma fold_add_movement:
  assumes "\<forall>r \<in> set rs. mr_qty_change r = PDec (of_int (movement_cents r) / 100)"
    and "(\<Sum>r\<leftarrow>rs. \<bar>movement_cents r\<bar>) \<le> 10 ^ 14"
  shows "map_of (fold add_movement rs []) d =
    (if rows_of_day d rs = [] then None else Some (day_summary (rows_of_day d rs)))"
  using assms
proof (induction rs rule: rev_induct)
  case Nil
  then show ?case by (simp add: rows_of_day_def)
next
  case (snoc r rs)
  have IH: "map_of (fold add_movement rs []) d =
    (if rows_of_day d rs = [] then None else Some (day_summary (rows_of_day d rs)))"
    using snoc.prems by (intro snoc.IH) auto
  have q: "py_float (mr_qty_change r) = kob (movement_cents r)"
    using snoc.prems(1) by (simp add: kob_def)
  have b: "\<bar>movement_cents r\<bar> \<le> 10 ^ 14"
    "\<bar>\<Sum>x\<leftarrow>rows_of_day d rs. movement_cents x\<bar> \<le> 10 ^ 14"
    using snoc.prems(2) sum_abs_nonneg[of "map movement_cents rs"]
      sum_le_sum_abs[of movement_cents "rows_of_day d rs"]
      sum_abs_filter[of movement_cents "\<lambda>r. day_of (mr_created_at r) = d" rs]
    by (simp_all add: rows_of_day_def comp_def)
  show ?case
  proof (cases "d = day_of (mr_created_at r)")
    case True
    then have rd: "rows_of_day d (rs @ [r]) = rows_of_day d rs @ [r]" by (simp add: rows_of_day_def)
    show ?thesis
    proof (cases "rows_of_day d rs = []")
      case True
      then show ?thesis using IH \<open>d = _\<close> rd q b(1)
        by (simp add: add_movement_day day_summary_def round2_kob)
    next
      case False
      then show ?thesis using IH \<open>d = _\<close> rd q round2_fadd_kob[OF b(2,1)]
        by (simp add: add_movement_day day_summary_def)
    qed
  next
    case False
    then have "rows_of_day d (rs @ [r]) = rows_of_day d rs" by (simp add: rows_of_day_def)
    then show ?thesis using IH False by (simp add: add_movement_day)
  qed
qed

lemma map_fst_add_movement:
  "map fst (add_movement r m) = (if day_of (mr_created_at r) \<in> fst ` set m then map fst m
     else map fst m @ [day_of (mr_created_at r)])"
  using map_of_eq_None_iff[of m "day_of (mr_created_at r)"]
  by (auto simp: add_movement_def dict_set_snoc map_fst_dict_set split: option.splits)

lemma fold_add_movement_keys:
  assumes "sorted (map mr_created_at rs)"
  shows "sorted_wrt (<) (map fst (fold add_movement rs []))
    \<and> set (map fst (fold add_movement rs [])) = (\<lambda>r. day_of (mr_created_at r)) ` set rs"
  using assms
proof (induction rs rule: rev_induct)
  case (snoc r rs)
  let ?m = "fold add_movement rs []" and ?d = "day_of (mr_created_at r)"
  have IH: "sorted_wrt (<) (map fst ?m)" "set (map fst ?m) = (\<lambda>r. day_of (mr_created_at r)) ` set rs"
    using snoc by (simp_all add: sorted_append)
  have "x \<le> ?d" if "x \<in> set (map fst ?m)" for x
    using that snoc.prems unfolding IH(2)
    by (auto simp: sorted_append day_of_def intro: zdiv_mono1)
  then have "?d \<notin> set (map fst ?m) \<Longrightarrow> x \<in> set (map fst ?m) \<Longrightarrow> x < ?d" for x
    by (metis order_le_less)
  then show ?case
    using IH by (auto simp: map_fst_add_movement sorted_wrt_append)
qed simp

text \<open>The daily series of a product's stock is faithful. The points are in strictly
  increasing order of days, there is one for exactly the days with a movement, and each shows the
  balance before the day's first movement, the balance after its last, and as quantity the exact
  sum of the day's two-decimal changes, although the code rounds a float sum after every row.\<close>

theorem daily_series_exact:
  assumes "\<forall>r \<in> set rs. mr_qty_change r = PDec (of_int (movement_cents r) / 100)"
    and "(\<Sum>r\<leftarrow>rs. \<bar>movement_cents r\<bar>) \<le> 10 ^ 14"
  shows "sorted_wrt (<) (map fst (group_movements_by_day rs))
    \<and> fst ` set (group_movements_by_day rs) = (\<lambda>r. day_of (mr_created_at r)) ` set rs
    \<and> (\<forall>(d, point) \<in> set (group_movements_by_day rs).
         point = day_summary (rows_of_day d (sort_key mr_created_at rs)))"
proof -
  let ?s = "sort_key mr_created_at rs" and ?m = "group_movements_by_day rs"
  have k: "sorted_wrt (<) (map fst ?m)" "fst ` set ?m = (\<lambda>r. day_of (mr_created_at r)) ` set rs"
    using fold_add_movement_keys[of ?s] by (simp_all add: group_movements_by_day_def)
  have "(\<Sum>r\<leftarrow>?s. \<bar>movement_cents r\<bar>) = (\<Sum>r\<leftarrow>rs. \<bar>movement_cents r\<bar>)"
    by (rule sum_list_sort_key)
  then have *: "map_of ?m d = (if rows_of_day d ?s = [] then None
      else Some (day_summary (rows_of_day d ?s)))" for d
    using fold_add_movement[of ?s d] assms by (simp add: group_movements_by_day_def)
  have "distinct (map fst ?m)" using k(1) by (simp add: strict_sorted_iff)
  then have "(d, point) \<in> set ?m \<Longrightarrow> point = day_summary (rows_of_day d ?s)" for d point
    using *[of d] by (auto split: if_splits)
  then show ?thesis using k by auto
qed

definition sample_movement :: "timestamp \<Rightarrow> rat \<Rightarrow> rat \<Rightarrow> rat \<Rightarrow> movement_row" where
  "sample_movement t before after q = \<lparr>mr_created_at = t, mr_balance_before = PDec before,
     mr_balance_after = PDec after, mr_qty_change = PDec q\<rparr>"

theorem daily_series_exact_witness:
  "group_movements_by_day [sample_movement 2 13 12 (-1), sample_movement 1 10 13 3]
    = [(0, \<lparr>dp_balance = fl 12, dp_balance_before = fl 10, dp_qty_change = kob 200\<rparr>)]"
proof -
  let ?rs = "[sample_movement 2 13 12 (-1), sample_movement 1 10 13 3]"
  have "\<forall>r \<in> set ?rs. mr_qty_change r = PDec (of_int (movement_cents r) / 100)"
    "(\<Sum>r\<leftarrow>?rs. \<bar>movement_cents r\<bar>) \<le> 10 ^ 14"
    by (simp_all add: sample_movement_def movement_cents_def hundredths_def)
  note * = daily_series_exact[OF this]
  have "length (group_movements_by_day ?rs) = 1"
    by (simp add: group_movements_by_day_def add_movement_def day_of_def sample_movement_def)
  then obtain d p where m: "group_movements_by_day ?rs = [(d, p)]"
    by (auto simp: length_Suc_conv)
  have "d = 0" using *[unfolded m] by (simp add: day_of_def sample_movement_def)
  moreover have "p = day_summary (rows_of_day d (sort_key mr_created_at ?rs))"
    using *[unfolded m] by simp
  ultimately show ?thesis
    unfolding m by (simp add: rows_of_day_def day_of_def day_summary_def sample_movement_def
        movement_cents_def hundredths_def)
qed

end
