(* ===== verification/Taxes.thy ===== *)
theory Taxes
  imports Kobo "HOL-Library.Sublist"
begin

text \<open>
  \<open>app/taxes\<close>: the tax arithmetic of \<open>calc.py\<close>, the resolution of a product's or a line's
  taxes in \<open>resolve.py\<close> and the creation of a tax in \<open>service.py\<close>. A tax entry is a Python
  dictionary; \<open>tax_dict\<close> has an optional field for each key the code reads, \<open>None\<close> standing
  for an absent key and for an explicit \<open>None\<close>. Names are ASCII.
\<close>

section \<open>Tax entries\<close>

record tax_dict =
  td_id :: "string option"
  td_name :: "string option"
  td_rate :: "num option"
  td_amount :: "num option"
  td_account_code :: "string option"

definition DEFAULT_TAX_ACCOUNT :: string where
  "DEFAULT_TAX_ACCOUNT = ''2400''"

definition VAT_PAYABLE :: string where
  "VAT_PAYABLE = ''2300''"

definition VAT_NAMES :: "string set" where
  "VAT_NAMES = {''vat'', ''valueaddedtax'', ''vatpayable''}"

definition is_alpha :: "char \<Rightarrow> bool" where
  "is_alpha c = (let n = of_char c :: nat in (65 \<le> n \<and> n \<le> 90) \<or> (97 \<le> n \<and> n \<le> 122))"

definition default_account_for :: "string option \<Rightarrow> string" where
  "default_account_for name =
    (let normalized = filter is_alpha (map lower_char (str_or name []))
     in if normalized \<in> VAT_NAMES then VAT_PAYABLE else DEFAULT_TAX_ACCOUNT)"

definition account_for :: "tax_dict \<Rightarrow> string" where
  "account_for tax = str_or (td_account_code tax) DEFAULT_TAX_ACCOUNT"

section \<open>Lines and results\<close>

record tax_line =
  tl_qty :: num
  tl_unit_price :: num
  tl_discount_pct :: num
  tl_taxes :: "tax_dict list"

record tax_computation =
  tx_subtotal :: rat
  tx_discount :: rat
  tx_taxable :: rat
  tx_total_tax :: rat
  tx_breakdown :: "tax_dict list"
  tx_line_taxes :: "tax_dict list list"
  tx_line_tax_totals :: "rat list"
  tx_line_rates :: "rat list"
  tx_line_bases :: "rat list"

definition tax_round :: "rat \<Rightarrow> rat" where
  "tax_round x = round2 (fadd x 0)"

definition float_of :: "num option \<Rightarrow> rat" where
  "float_of x = py_float (num_or_zero x)"

section \<open>Grouping snapshots\<close>

type_synonym tax_key = "string \<times> rat \<times> string"

definition tax_key :: "tax_dict \<Rightarrow> tax_key" where
  "tax_key tax = (str_or (td_name tax) ''Tax'', tax_round (float_of (td_rate tax)),
     str_or (td_account_code tax) [])"

definition group_entry :: "tax_dict \<Rightarrow> tax_dict" where
  "group_entry tax =
     \<lparr>td_id = td_id tax, td_name = Some (str_or (td_name tax) ''Tax''),
      td_rate = Some (PFlt (tax_round (float_of (td_rate tax)))),
      td_amount = Some (PFlt (tax_round (float_of (td_amount tax)))),
      td_account_code = Some (str_or (td_account_code tax) [])\<rparr>"

definition group_one :: "tax_dict \<Rightarrow> (tax_key \<times> tax_dict) list \<Rightarrow> (tax_key \<times> tax_dict) list" where
  "group_one tax grouped =
    (case map_of grouped (tax_key tax) of
       None \<Rightarrow> dict_set (tax_key tax) (group_entry tax) grouped
     | Some entry \<Rightarrow> dict_set (tax_key tax)
         (entry\<lparr>td_amount := Some (PFlt (tax_round
            (fadd (float_of (td_amount entry)) (float_of (td_amount tax)))))\<rparr>) grouped)"

definition group_tax_lines :: "tax_dict list \<Rightarrow> tax_dict list" where
  "group_tax_lines entries = map snd (fold group_one entries [])"

section \<open>Spreading the cart discount\<close>

fun cart_shares :: "rat \<Rightarrow> rat \<Rightarrow> rat \<Rightarrow> rat list \<Rightarrow> rat list" where
  "cart_shares cart_discount subtotal remaining [] = []"
| "cart_shares cart_discount subtotal remaining (gross # grosses) =
    (let share =
       (if grosses = [] then remaining
        else if 0 < subtotal then fmul cart_discount (fdiv gross subtotal) else 0);
       taken = min share remaining
     in taken # cart_shares cart_discount subtotal (round_n 10 (fsub remaining taken)) grosses)"

section \<open>Taxing one line\<close>

definition dedup_key :: "tax_dict \<Rightarrow> string" where
  "dedup_key tax = str_or (td_id tax) (str_or (td_name tax) [])"

definition price_tax :: "rat \<Rightarrow> tax_dict \<Rightarrow> tax_dict" where
  "price_tax base tax =
    (let rate = float_of (td_rate tax) in
     \<lparr>td_id = td_id tax, td_name = Some (str_or (td_name tax) ''Tax''),
      td_rate = Some (PFlt (tax_round rate)),
      td_amount = Some (PFlt (tax_round (fdiv (fmul base rate) 100))),
      td_account_code = Some (account_for tax)\<rparr>)"

definition apply_tax :: "rat \<Rightarrow> tax_dict \<Rightarrow> tax_dict list \<times> string set \<Rightarrow> tax_dict list \<times> string set" where
  "apply_tax base tax st =
    (case st of (applied, seen) \<Rightarrow>
     if dedup_key tax \<noteq> [] \<and> dedup_key tax \<in> seen then (applied, seen)
     else (applied @ [price_tax base tax], insert (dedup_key tax) seen))"

definition apply_taxes :: "rat \<Rightarrow> tax_dict list \<Rightarrow> tax_dict list" where
  "apply_taxes base taxes = fst (fold (apply_tax base) taxes ([], {}))"

section \<open>\<open>compute_taxes\<close>\<close>

definition line_gross :: "tax_line \<Rightarrow> rat" where
  "line_gross l = fmul (py_float (tl_qty l)) (py_float (tl_unit_price l))"

definition line_discount :: "tax_line \<Rightarrow> rat" where
  "line_discount l = fmul (line_gross l) (fdiv (max (py_float (tl_discount_pct l)) 0) 100)"

definition line_base :: "tax_line \<Rightarrow> rat \<Rightarrow> rat" where
  "line_base l share = max (fsub (fsub (line_gross l) (line_discount l)) share) 0"

definition amount_of :: "tax_dict \<Rightarrow> rat" where
  "amount_of t = float_of (td_amount t)"

definition rate_of :: "tax_dict \<Rightarrow> rat" where
  "rate_of t = float_of (td_rate t)"

definition compute_taxes :: "tax_line list \<Rightarrow> num \<Rightarrow> tax_computation" where
  "compute_taxes lines cart_discount0 =
    (let cart_discount = max (py_float cart_discount0) 0;
         grosses = map line_gross lines;
         subtotal = py_fsum grosses;
         line_discounts = map line_discount lines;
         shares = cart_shares cart_discount subtotal cart_discount grosses;
         bases = map2 line_base lines shares;
         line_taxes = map2 (\<lambda>base l. apply_taxes base (tl_taxes l)) bases lines;
         line_tax_totals = map (\<lambda>applied. tax_round (py_fsum (map amount_of applied))) line_taxes;
         line_rates = map (\<lambda>applied. tax_round (py_fsum (map rate_of applied))) line_taxes
     in \<lparr>tx_subtotal = tax_round subtotal,
         tx_discount = tax_round (fadd (py_fsum line_discounts) cart_discount),
         tx_taxable = tax_round (py_fsum bases),
         tx_total_tax = tax_round (py_fsum line_tax_totals),
         tx_breakdown = group_tax_lines (concat line_taxes),
         tx_line_taxes = line_taxes,
         tx_line_tax_totals = line_tax_totals,
         tx_line_rates = line_rates,
         tx_line_bases = map tax_round bases\<rparr>)"

section \<open>Resolving taxes\<close>

text \<open>The rows of the \<open>taxes\<close> and \<open>products\<close> tables, as the queries see them.\<close>

record tax_row =
  tax_id :: uuid
  tax_tenant_id :: uuid
  tax_name :: string
  tax_rate :: num
  tax_account_code :: "string option"
  tax_is_active :: bool

record product_tax_row =
  pt_id :: uuid
  pt_tenant_id :: uuid
  pt_tax_ids :: "uuid list option"

definition tax_entry :: "tax_row \<Rightarrow> tax_dict" where
  "tax_entry tax = \<lparr>td_id = Some (tax_id tax), td_name = Some (tax_name tax),
     td_rate = Some (PFlt (py_float (tax_rate tax))), td_amount = None,
     td_account_code = Some (str_or (tax_account_code tax) ''2400'')\<rparr>"

definition active_taxes :: "tax_row list \<Rightarrow> uuid \<Rightarrow> uuid list \<Rightarrow> (uuid \<times> tax_row) list" where
  "active_taxes table tenant ids =
     map (\<lambda>t. (tax_id t, t))
       (filter (\<lambda>t. tax_tenant_id t = tenant \<and> tax_id t \<in> set ids \<and> tax_is_active t) table)"

definition lookup_taxes :: "(uuid \<times> tax_row) list \<Rightarrow> uuid list \<Rightarrow> tax_dict list" where
  "lookup_taxes active ids = map tax_entry (List.map_filter (map_of active) ids)"

definition product_tax_map ::
  "tax_row list \<Rightarrow> product_tax_row list \<Rightarrow> uuid \<Rightarrow> uuid option list \<Rightarrow>
   (uuid \<times> tax_dict list) list" where
  "product_tax_map taxes products tenant product_ids =
    (let unique = List.map_filter id product_ids in
     if unique = [] then []
     else
      (let rs = filter (\<lambda>p. pt_tenant_id p = tenant \<and> pt_id p \<in> set unique) products;
           ids_of = (\<lambda>p. case pt_tax_ids p of None \<Rightarrow> [] | Some ids \<Rightarrow> ids);
           active = active_taxes taxes tenant (concat (map ids_of rs))
       in map (\<lambda>p. (pt_id p, lookup_taxes active (ids_of p))) rs))"

definition taxes_for_ids :: "tax_row list \<Rightarrow> uuid \<Rightarrow> uuid option list \<Rightarrow> tax_dict list" where
  "taxes_for_ids table tenant tax_ids =
    (let ids = List.map_filter id tax_ids in
     if ids = [] then [] else lookup_taxes (active_taxes table tenant ids) ids)"

section \<open>Creating a tax\<close>

record tax_create_command =
  txc_tenant_id :: uuid
  txc_name :: string
  txc_rate :: num
  txc_account_code :: "string option"

definition plan_create_tax :: "uuid \<Rightarrow> tax_create_command \<Rightarrow> tax_row" where
  "plan_create_tax tid command =
     \<lparr>tax_id = tid, tax_tenant_id = txc_tenant_id command, tax_name = txc_name command,
      tax_rate = txc_rate command,
      tax_account_code = Some (str_or (txc_account_code command)
        (default_account_for (Some (txc_name command)))),
      tax_is_active = True\<rparr>"

section \<open>The tax table\<close>

text \<open>\<open>repository.py\<close> and \<open>seed.py\<close>. The collation \<open>list_taxes\<close> sorts by is the
  database's and is the parameter \<open>by_name\<close>.\<close>

definition get_tax_by_id :: "tax_row list \<Rightarrow> uuid \<Rightarrow> tax_row option" where
  "get_tax_by_id table tid = List.find (\<lambda>t. tax_id t = tid) table"

definition list_taxes ::
  "(tax_row list \<Rightarrow> tax_row list) \<Rightarrow> tax_row list \<Rightarrow> uuid \<Rightarrow> bool \<Rightarrow> tax_row list" where
  "list_taxes by_name table tenant include_inactive =
     by_name (filter (\<lambda>t. tax_tenant_id t = tenant \<and> (include_inactive \<or> tax_is_active t)) table)"

record tax_update_command =
  txu_name :: "string option"
  txu_rate :: "num option"
  txu_is_active :: "bool option"
  txu_account_code :: "string option"

definition set_if :: "'v option \<Rightarrow> 'v \<Rightarrow> 'v" where
  "set_if new_value old = (case new_value of None \<Rightarrow> old | Some v \<Rightarrow> v)"

definition update_tax_row :: "tax_update_command \<Rightarrow> tax_row \<Rightarrow> tax_row" where
  "update_tax_row c t = t\<lparr>tax_name := set_if (txu_name c) (tax_name t),
     tax_rate := set_if (txu_rate c) (tax_rate t),
     tax_is_active := set_if (txu_is_active c) (tax_is_active t),
     tax_account_code :=
       (case txu_account_code c of None \<Rightarrow> tax_account_code t | Some a \<Rightarrow> Some a)\<rparr>"

definition update_tax ::
  "tax_row list \<Rightarrow> uuid \<Rightarrow> uuid \<Rightarrow> tax_update_command \<Rightarrow> tax_row list \<times> tax_row option" where
  "update_tax table tid tenant c =
    (let hit = (\<lambda>t. tax_id t = tid \<and> tax_tenant_id t = tenant) in
     (map (\<lambda>t. if hit t then update_tax_row c t else t) table,
      map_option (update_tax_row c) (List.find hit table)))"

definition delete_tax :: "tax_row list \<Rightarrow> uuid \<Rightarrow> uuid \<Rightarrow> tax_row list \<times> bool" where
  "delete_tax table tid tenant =
    (let hit = (\<lambda>t. tax_id t = tid \<and> tax_tenant_id t = tenant) in
     (map (\<lambda>t. if hit t then t\<lparr>tax_is_active := False\<rparr> else t) table,
      List.find hit table \<noteq> None))"

definition seed_default_taxes ::
  "(tax_row list \<Rightarrow> tax_row list) \<Rightarrow> uuid \<Rightarrow> uuid \<Rightarrow> tax_row list \<Rightarrow> tax_row list" where
  "seed_default_taxes by_name tid tenant table =
    (if list_taxes by_name table tenant True \<noteq> [] then table
     else table @ [\<lparr>tax_id = tid, tax_tenant_id = tenant, tax_name = ''VAT'',
       tax_rate = PFlt (15 / 2), tax_account_code = None, tax_is_active = True\<rparr>])"

section \<open>Amounts as whole kobo\<close>

definition kobo_of :: "rat \<Rightarrow> int" where
  "kobo_of x = rhe (x * 100)"

lemma kobo_of_kob [simp]: "\<bar>k\<bar> \<le> 10 ^ 15 \<Longrightarrow> kobo_of (kob k) = k"
proof -
  assume k: "\<bar>k\<bar> \<le> 10 ^ 15"
  have "\<bar>kob k - of_int k / 100\<bar> < 1 / 200"
    using kob_err[of k] of_int_abs_bound[OF k] by simp
  then have "\<bar>kob k * 100 - of_int k\<bar> < 1 / 2" by linarith
  then show ?thesis unfolding kobo_of_def by (rule rhe_unique)
qed

lemma fl_kob [simp]: "fl (kob k) = kob k"
  by (simp add: kob_def flt.r_idem)

lemma tax_round_kob: "\<bar>k\<bar> \<le> 10 ^ 15 \<Longrightarrow> tax_round (kob k) = kob k"
  by (simp add: tax_round_def fadd_def round2_kob)

lemma tax_round_is_kob: "\<exists>k. tax_round x = kob k"
  by (auto simp: tax_round_def round2_is_kob)

lemma float_of_PFlt [simp]: "float_of (Some (PFlt x)) = x"
  by (simp add: float_of_def num_or_zero_def num_truthy_def)

lemma tax_round_fadd_kob:
  assumes "\<bar>a\<bar> \<le> 10 ^ 14" "\<bar>b\<bar> \<le> 10 ^ 14"
  shows "tax_round (fadd (kob a) (kob b)) = kob (a + b)"
  using round2_fadd_kob[OF assms] by (simp add: tax_round_def fadd_def flt.r_idem)

lemma py_fsum_is_fl: "\<lbrakk>xs \<noteq> []; \<forall>x \<in> set xs. fl x = x\<rbrakk> \<Longrightarrow> fl (py_fsum xs) = py_fsum xs"
proof -
  assume xs: "xs \<noteq> []" "\<forall>x \<in> set xs. fl x = x"
  then obtain y ys where ys: "xs = y # ys" by (cases xs) auto
  have "fl (fst s) = fst s \<Longrightarrow> fl (fst (foldl csum_step s zs)) = fst (foldl csum_step s zs)" for s zs
    by (induction zs arbitrary: s) (auto simp: csum_step_def Let_def fadd_def flt.r_idem)
  from this[of "(y, 0)" ys] xs show ?thesis
    by (auto simp: py_fsum_def ys Let_def fadd_def flt.r_idem)
qed

lemma tax_round_fsum_kob:
  assumes "kobo_range ks"
  shows "tax_round (py_fsum (map kob ks)) = kob (sum_list ks)"
proof (cases "ks = []")
  case True
  then show ?thesis by (simp add: py_fsum_def tax_round_def fadd_def round2_def)
next
  case False
  then have "fl (py_fsum (map kob ks)) = py_fsum (map kob ks)"
    by (intro py_fsum_is_fl) auto
  then show ?thesis using round2_fsum_kob[OF assms] by (simp add: tax_round_def fadd_def)
qed

text \<open>An entry whose amount is a whole number of kobo within \<open>W\<close>.\<close>

definition kobo_entry :: "int \<Rightarrow> tax_dict \<Rightarrow> bool" where
  "kobo_entry W t \<longleftrightarrow> amount_of t = kob (kobo_of (amount_of t)) \<and> \<bar>kobo_of (amount_of t)\<bar> \<le> W"

lemma group_one_amounts:
  assumes t: "kobo_entry W t" and g: "\<forall>e \<in> snd ` set g. kobo_entry V e"
    and W: "0 \<le> V" "V + W \<le> 10 ^ 14" "0 \<le> W"
  shows "\<forall>e \<in> snd ` set (group_one t g). kobo_entry (V + W) e"
    "(\<Sum>e\<leftarrow>group_one t g. kobo_of (amount_of (snd e))) =
       (\<Sum>e\<leftarrow>g. kobo_of (amount_of (snd e))) + kobo_of (amount_of t)"
proof -
  let ?k = "tax_key t"
  define K where "K = kobo_of (amount_of t)"
  have tk: "float_of (td_amount t) = kob K" "\<bar>K\<bar> \<le> W"
    using t by (simp_all add: kobo_entry_def amount_of_def K_def)
  have up: "kobo_entry V e \<Longrightarrow> kobo_entry (V + W) e" for e
    using W by (auto simp: kobo_entry_def)
  have snd_set: "snd ` set (dict_set k v m) \<subseteq> insert v (snd ` set m)" for k :: tax_key and v :: tax_dict and m
    by (induction k v m rule: dict_set.induct) auto
  have "(\<forall>e \<in> snd ` set (group_one t g). kobo_entry (V + W) e) \<and>
    (\<Sum>e\<leftarrow>group_one t g. kobo_of (amount_of (snd e))) =
       (\<Sum>e\<leftarrow>g. kobo_of (amount_of (snd e))) + kobo_of (amount_of t)"
  proof (cases "map_of g ?k")
    case None
    define v where "v = group_entry t"
    have a: "amount_of v = kob K"
      using tk W by (simp add: v_def group_entry_def amount_of_def tax_round_kob)
    then have "kobo_entry (V + W) v" "kobo_of (amount_of v) = K"
      using tk W by (auto simp: kobo_entry_def)
    moreover have "group_one t g = dict_set ?k v g" using None by (simp add: group_one_def v_def)
    moreover have "\<forall>e \<in> snd ` set (dict_set ?k v g). kobo_entry (V + W) e"
      using snd_set[of ?k v g] g up calculation(1) by blast
    ultimately show ?thesis
      using sum_dict_set_new[OF None, of "\<lambda>e. kobo_of (amount_of e)" v]
      by (simp add: K_def)
  next
    case (Some e)
    then have e: "kobo_entry V e" using g by (metis image_eqI map_of_SomeD snd_conv)
    define v where "v = e\<lparr>td_amount := Some (PFlt (tax_round
            (fadd (float_of (td_amount e)) (float_of (td_amount t)))))\<rparr>"
    define E where "E = kobo_of (amount_of e)"
    have ek: "float_of (td_amount e) = kob E" "\<bar>E\<bar> \<le> V"
      using e by (simp_all add: kobo_entry_def amount_of_def E_def)
    have a: "amount_of v = kob (E + K)"
      using tk ek W tax_round_fadd_kob[of E K] by (simp add: v_def amount_of_def)
    then have "kobo_entry (V + W) v" "kobo_of (amount_of v) = E + K"
      using tk ek W by (auto simp: kobo_entry_def)
    moreover have "group_one t g = dict_set ?k v g" using Some by (simp add: group_one_def v_def)
    moreover have "\<forall>e \<in> snd ` set (dict_set ?k v g). kobo_entry (V + W) e"
      using snd_set[of ?k v g] g up calculation(1) by blast
    ultimately show ?thesis
      using sum_dict_set_old[OF Some, of "\<lambda>e. kobo_of (amount_of e)" v]
      by (simp add: K_def E_def)
  qed
  then show "\<forall>e \<in> snd ` set (group_one t g). kobo_entry (V + W) e"
    "(\<Sum>e\<leftarrow>group_one t g. kobo_of (amount_of (snd e))) =
       (\<Sum>e\<leftarrow>g. kobo_of (amount_of (snd e))) + kobo_of (amount_of t)" by auto
qed

lemma fold_group_amounts:
  assumes "\<forall>t \<in> set ts. amount_of t = kob (kobo_of (amount_of t))"
    and "\<forall>e \<in> snd ` set g. kobo_entry V e" "0 \<le> V"
    and "V + (\<Sum>t\<leftarrow>ts. \<bar>kobo_of (amount_of t)\<bar>) \<le> 10 ^ 14"
  shows "(\<forall>e \<in> snd ` set (fold group_one ts g). kobo_entry (10 ^ 14) e) \<and>
    (\<Sum>e\<leftarrow>fold group_one ts g. kobo_of (amount_of (snd e))) =
       (\<Sum>e\<leftarrow>g. kobo_of (amount_of (snd e))) + (\<Sum>t\<leftarrow>ts. kobo_of (amount_of t))"
  using assms
proof (induction ts arbitrary: g V)
  case Nil
  then show ?case by (auto simp: kobo_entry_def)
next
  case (Cons t ts)
  let ?W = "\<bar>kobo_of (amount_of t)\<bar>"
  have t: "kobo_entry ?W t" using Cons.prems(1) by (simp add: kobo_entry_def)
  have W: "V + ?W \<le> 10 ^ 14"
    using Cons.prems(4) sum_abs_nonneg[of "map (\<lambda>t. kobo_of (amount_of t)) ts"]
    by (simp add: comp_def)
  note st = group_one_amounts[OF t Cons.prems(2,3) W]
  have "(\<forall>e \<in> snd ` set (fold group_one ts (group_one t g)). kobo_entry (10 ^ 14) e) \<and>
    (\<Sum>e\<leftarrow>fold group_one ts (group_one t g). kobo_of (amount_of (snd e))) =
       (\<Sum>e\<leftarrow>group_one t g. kobo_of (amount_of (snd e))) + (\<Sum>t\<leftarrow>ts. kobo_of (amount_of t))"
    using Cons.prems st(1) by (intro Cons.IH[where V = "V + ?W"]) auto
  then show ?case using st(2) by simp
qed

lemma kob_small:
  assumes "\<bar>kobo_of (kob k)\<bar> \<le> 10 ^ 13"
  shows "kobo_of (kob k) = k"
proof -
  have a: "\<bar>of_int (kobo_of (kob k)) :: rat\<bar> \<le> of_int (10 ^ 13)"
    by (rule of_int_abs_bound[OF assms])
  have "\<bar>of_int (kobo_of (kob k)) - kob k * 100\<bar> \<le> 1 / 2"
    unfolding kobo_of_def by (rule rhe_err)
  moreover have "\<bar>of_int (kobo_of (kob k)) :: rat\<bar> \<le> 10000000000000" using a by simp
  ultimately have "\<bar>kob k\<bar> \<le> 100000000001" by linarith
  moreover have "(1 - eps) * \<bar>of_int k / 100\<bar> \<le> \<bar>kob k\<bar>"
    unfolding kob_def by (rule flt.r_abs_ge)
  ultimately have "\<bar>of_int k :: rat\<bar> \<le> 1000000000000000" by simp
  then have "(of_int \<bar>k\<bar> :: rat) \<le> of_int 1000000000000000" by simp
  then have "\<bar>k\<bar> \<le> 1000000000000000" by (simp only: of_int_le_iff)
  then show ?thesis by simp
qed

lemma amount_apply_taxes:
  "t \<in> set (apply_taxes base taxes) \<Longrightarrow> \<exists>k. amount_of t = kob k"
proof -
  have "\<forall>t \<in> set (fst (fold (apply_tax base) taxes st)). \<exists>k. amount_of t = kob k"
    if "\<forall>t \<in> set (fst st). \<exists>k. amount_of t = kob k" for st
    using that
  proof (induction taxes arbitrary: st)
    case (Cons x xs)
    have "\<forall>t \<in> set (fst (apply_tax base x st)). \<exists>k. amount_of t = kob k"
      using Cons.prems tax_round_is_kob
      by (auto simp: apply_tax_def price_tax_def Let_def amount_of_def split: prod.splits)
    then show ?case using Cons.IH by simp
  qed simp
  from this[of "([], {})"] show "t \<in> set (apply_taxes base taxes) \<Longrightarrow> \<exists>k. amount_of t = kob k"
    by (simp add: apply_taxes_def)
qed

lemma abs_le_sum_abs: "x \<in> set xs \<Longrightarrow> \<bar>f x\<bar> \<le> (\<Sum>x\<leftarrow>xs. \<bar>f x :: int\<bar>)"
proof (induction xs)
  case (Cons a xs)
  have "0 \<le> (\<Sum>x\<leftarrow>xs. \<bar>f x\<bar>)" by (rule sum_list_nonneg) auto
  with Cons show ?case by auto
qed simp

lemma sum_abs_concat:
  "(\<Sum>xs\<leftarrow>xss. \<bar>\<Sum>x\<leftarrow>xs. f x :: int\<bar>) \<le> (\<Sum>x\<leftarrow>concat xss. \<bar>f x\<bar>)"
  "xs \<in> set xss \<Longrightarrow> (\<Sum>x\<leftarrow>xs. \<bar>f x\<bar>) \<le> (\<Sum>x\<leftarrow>concat xss. \<bar>f x\<bar>)"
proof -
  have abs: "\<bar>\<Sum>x\<leftarrow>xs. f x\<bar> \<le> (\<Sum>x\<leftarrow>xs. \<bar>f x\<bar>)" for xs by (induction xs) auto
  show "(\<Sum>xs\<leftarrow>xss. \<bar>\<Sum>x\<leftarrow>xs. f x\<bar>) \<le> (\<Sum>x\<leftarrow>concat xss. \<bar>f x\<bar>)"
    using abs by (induction xss) (auto intro: add_mono)
  have pos: "0 \<le> (\<Sum>x\<leftarrow>ys. \<bar>f x\<bar>)" for ys by (rule sum_list_nonneg) auto
  show "xs \<in> set xss \<Longrightarrow> (\<Sum>x\<leftarrow>xs. \<bar>f x\<bar>) \<le> (\<Sum>x\<leftarrow>concat xss. \<bar>f x\<bar>)"
  proof (induction xss)
    case (Cons a xss)
    then show ?case using pos[of a] pos[of "concat xss"] by auto
  qed simp
qed

lemma sum_list_map_concat:
  "(\<Sum>xs\<leftarrow>xss. \<Sum>x\<leftarrow>xs. f x :: int) = (\<Sum>x\<leftarrow>concat xss. f x)"
  by (induction xss) auto

lemma length_member_concat: "xs \<in> set xss \<Longrightarrow> length xs \<le> length (concat xss)"
  by (induction xss) auto

lemma kobo_range_le:
  assumes "int n * (W + 1) \<le> 10 ^ 13" "length ks \<le> n" "(\<Sum>k\<leftarrow>ks. \<bar>k\<bar>) \<le> W"
  shows "kobo_range ks"
proof -
  have "int (length ks) * ((\<Sum>k\<leftarrow>ks. \<bar>k\<bar>) + 1) \<le> int n * (W + 1)"
    using assms(2,3) sum_abs_nonneg[of ks] by (intro mult_mono) auto
  then show ?thesis using assms(1) by (simp add: kobo_range_def)
qed

section \<open>Properties of the tax arithmetic\<close>

lemma taxes_reconcile:
  fixes ls :: "tax_line list" and cd :: num
  defines "r \<equiv> compute_taxes ls cd"
  assumes "int (length ls + length (concat (tx_line_taxes r))) *
    ((\<Sum>t\<leftarrow>concat (tx_line_taxes r). \<bar>kobo_of (amount_of t)\<bar>) + 1) \<le> 10 ^ 13"
  shows "tx_total_tax r = kob (\<Sum>t\<leftarrow>concat (tx_line_taxes r). kobo_of (amount_of t))
    \<and> (\<Sum>t\<leftarrow>tx_breakdown r. kobo_of (amount_of t)) =
        (\<Sum>t\<leftarrow>concat (tx_line_taxes r). kobo_of (amount_of t))
    \<and> (\<forall>t \<in> set (tx_breakdown r). amount_of t = kob (kobo_of (amount_of t)))
    \<and> tx_line_tax_totals r = map (\<lambda>ts. kob (\<Sum>t\<leftarrow>ts. kobo_of (amount_of t))) (tx_line_taxes r)"
proof -
  let ?es = "concat (tx_line_taxes r)" and ?f = "\<lambda>t. kobo_of (amount_of t)"
  let ?n = "length ls + length ?es" and ?W = "\<Sum>t\<leftarrow>?es. \<bar>?f t\<bar>"
  have lt: "\<exists>bases. tx_line_taxes r = map2 (\<lambda>base l. apply_taxes base (tl_taxes l)) bases ls"
    by (simp add: r_def compute_taxes_def Let_def) blast
  then have len: "length (tx_line_taxes r) \<le> length ls" by auto
  have am: "\<exists>k. amount_of t = kob k" if "t \<in> set ?es" for t
    using lt that amount_apply_taxes by (force dest: set_zip_rightD)
  have W: "0 \<le> ?W" "?W \<le> 10 ^ 13" if "?es \<noteq> []"
  proof -
    show "0 \<le> ?W" by (rule sum_list_nonneg) auto
    moreover have "1 \<le> int ?n" using that by (cases ?es) auto
    ultimately have "1 * (?W + 1) \<le> int ?n * (?W + 1)" by (intro mult_right_mono) auto
    then have "?W + 1 \<le> 10 ^ 13" unfolding mult_1 using assms(2) by (rule order_trans)
    then show "?W \<le> 10 ^ 13" by linarith
  qed
  have kt: "amount_of t = kob (?f t)" if t: "t \<in> set ?es" for t
  proof -
    obtain k where k: "amount_of t = kob k" using am[OF t] by blast
    have "\<bar>?f t\<bar> \<le> ?W" using t by (rule abs_le_sum_abs)
    then have "\<bar>kobo_of (kob k)\<bar> \<le> 10 ^ 13" using W(2) t k by (cases "?es = []") auto
    then show ?thesis using kob_small k by metis
  qed
  have tot: "tax_round (py_fsum (map amount_of ts)) = kob (\<Sum>t\<leftarrow>ts. ?f t)"
    if ts: "ts \<in> set (tx_line_taxes r)" for ts
  proof -
    have "map amount_of ts = map kob (map ?f ts)" using kt ts by auto
    moreover have "kobo_range (map ?f ts)"
      using assms(2) length_member_concat[OF ts] sum_abs_concat(2)[OF ts, of ?f]
      by (intro kobo_range_le[of ?n ?W]) (simp_all add: comp_def)
    ultimately show ?thesis using tax_round_fsum_kob by metis
  qed
  have totals: "tx_line_tax_totals r = map (\<lambda>ts. kob (\<Sum>t\<leftarrow>ts. ?f t)) (tx_line_taxes r)"
  proof -
    have "tx_line_tax_totals r = map (\<lambda>ts. tax_round (py_fsum (map amount_of ts))) (tx_line_taxes r)"
      by (simp add: r_def compute_taxes_def Let_def)
    then show ?thesis using tot by simp
  qed
  have "tx_total_tax r = tax_round (py_fsum (tx_line_tax_totals r))"
    by (simp add: r_def compute_taxes_def Let_def)
  also have "tx_line_tax_totals r = map kob (map (\<lambda>ts. \<Sum>t\<leftarrow>ts. ?f t) (tx_line_taxes r))"
    by (simp add: totals)
  also have "tax_round (py_fsum \<dots>) = kob (sum_list (map (\<lambda>ts. \<Sum>t\<leftarrow>ts. ?f t) (tx_line_taxes r)))"
    using assms(2) len sum_abs_concat(1)[of ?f "tx_line_taxes r"]
    by (intro tax_round_fsum_kob kobo_range_le[of ?n ?W]) (simp_all add: comp_def)
  also have "sum_list (map (\<lambda>ts. \<Sum>t\<leftarrow>ts. ?f t) (tx_line_taxes r)) = (\<Sum>t\<leftarrow>?es. ?f t)"
    by (rule sum_list_map_concat)
  finally have total: "tx_total_tax r = kob (\<Sum>t\<leftarrow>?es. ?f t)" .
  have grp: "(\<forall>e \<in> snd ` set (fold group_one ?es []). kobo_entry (10 ^ 14) e) \<and>
    (\<Sum>e\<leftarrow>fold group_one ?es []. ?f (snd e)) = (\<Sum>t\<leftarrow>?es. ?f t)"
  proof (cases "?es = []")
    case True
    then show ?thesis unfolding True by simp
  next
    case False
    then show ?thesis using fold_group_amounts[of ?es "[]" 0] kt W by simp
  qed
  have "tx_breakdown r = map snd (fold group_one ?es [])"
    by (simp add: r_def compute_taxes_def Let_def group_tax_lines_def)
  then have "(\<Sum>t\<leftarrow>tx_breakdown r. ?f t) = (\<Sum>t\<leftarrow>?es. ?f t)"
    "\<forall>t \<in> set (tx_breakdown r). amount_of t = kob (?f t)"
    using grp by (simp_all add: comp_def kobo_entry_def)
  then show ?thesis using total totals by simp
qed

text \<open>C5: The totals of a tax computation reconcile to the kobo. Whatever floats the
  computation adds and rounds on the way, every line's tax total is the exact sum of the line's
  entries, the breakdown by tax adds up to the same amount as the entries it groups, and the
  total tax is exactly that sum.\<close>

theorem compute_taxes_reconciles:
  fixes ls :: "tax_line list" and cd :: num
  defines "r \<equiv> compute_taxes ls cd"
  assumes "int (length ls + length (concat (tx_line_taxes r))) *
    ((\<Sum>t\<leftarrow>concat (tx_line_taxes r). \<bar>kobo_of (amount_of t)\<bar>) + 1) \<le> 10 ^ 13"
  shows "tx_total_tax r = kob (\<Sum>t\<leftarrow>concat (tx_line_taxes r). kobo_of (amount_of t))
    \<and> (\<Sum>t\<leftarrow>tx_breakdown r. kobo_of (amount_of t)) =
        (\<Sum>t\<leftarrow>concat (tx_line_taxes r). kobo_of (amount_of t))
    \<and> (\<forall>t \<in> set (tx_breakdown r). amount_of t = kob (kobo_of (amount_of t)))
    \<and> tx_line_tax_totals r = map (\<lambda>ts. kob (\<Sum>t\<leftarrow>ts. kobo_of (amount_of t))) (tx_line_taxes r)"
  unfolding r_def by (rule taxes_reconcile) (use assms in \<open>simp add: r_def\<close>)

definition sample_tax :: tax_dict where
  "sample_tax = \<lparr>td_id = Some ''v'', td_name = Some ''VAT'', td_rate = Some (PFlt (15 / 2)),
     td_amount = None, td_account_code = Some ''2300''\<rparr>"

theorem compute_taxes_reconciles_witness:
  "tx_total_tax (compute_taxes [\<lparr>tl_qty = PInt 0, tl_unit_price = PInt 1, tl_discount_pct = PInt 0,
     tl_taxes = [sample_tax]\<rparr>] (PInt 0)) = kob 0"
proof -
  let ?l = "\<lparr>tl_qty = PInt 0, tl_unit_price = PInt 1, tl_discount_pct = PInt 0,
     tl_taxes = [sample_tax]\<rparr>"
  have r: "tx_line_taxes (compute_taxes [?l] (PInt 0)) =
      [[\<lparr>td_id = Some ''v'', td_name = Some ''VAT'', td_rate = Some (PFlt (tax_round (15 / 2))),
         td_amount = Some (PFlt (tax_round 0)), td_account_code = Some ''2300''\<rparr>]]"
    by (simp add: compute_taxes_def Let_def line_gross_def line_discount_def line_base_def
        apply_taxes_def apply_tax_def price_tax_def sample_tax_def account_for_def num_simps py_fsum_def
        dedup_key_def)
  have 0: "kobo_of (amount_of \<lparr>td_id = Some ''v'', td_name = Some ''VAT'',
      td_rate = Some (PFlt (tax_round (15 / 2))), td_amount = Some (PFlt (tax_round 0)),
      td_account_code = Some ''2300''\<rparr>) = 0"
    using tax_round_kob[of 0] kobo_of_kob[of 0] by (simp add: amount_of_def)
  show ?thesis
    using compute_taxes_reconciles[of "[?l]" "PInt 0"] unfolding r by (simp add: 0)
qed

lemma fold_apply_tax:
  assumes "\<forall>t \<in> set taxes. dedup_key t \<noteq> []"
  shows "\<exists>ts seen'. fold (apply_tax base) taxes (applied, seen) = (applied @ map (price_tax base) ts, seen')
    \<and> subseq ts taxes \<and> distinct (map dedup_key ts) \<and> dedup_key ` set ts \<inter> seen = {}
    \<and> dedup_key ` set taxes \<subseteq> dedup_key ` set ts \<union> seen"
  using assms
proof (induction taxes arbitrary: applied seen)
  case (Cons t taxes)
  show ?case
  proof (cases "dedup_key t \<in> seen")
    case True
    then have "apply_tax base t (applied, seen) = (applied, seen)"
      using Cons.prems by (simp add: apply_tax_def)
    moreover obtain ts seen' where "fold (apply_tax base) taxes (applied, seen) =
        (applied @ map (price_tax base) ts, seen')" "subseq ts taxes" "distinct (map dedup_key ts)"
      "dedup_key ` set ts \<inter> seen = {}" "dedup_key ` set taxes \<subseteq> dedup_key ` set ts \<union> seen"
      using Cons.IH[of applied seen] Cons.prems by auto
    ultimately show ?thesis using True by (intro exI[of _ ts] exI[of _ seen']) auto
  next
    case False
    then have "apply_tax base t (applied, seen) =
        (applied @ [price_tax base t], insert (dedup_key t) seen)"
      by (simp add: apply_tax_def)
    moreover obtain ts seen' where "fold (apply_tax base) taxes
          (applied @ [price_tax base t], insert (dedup_key t) seen) =
        ((applied @ [price_tax base t]) @ map (price_tax base) ts, seen')"
      "subseq ts taxes" "distinct (map dedup_key ts)"
      "dedup_key ` set ts \<inter> insert (dedup_key t) seen = {}"
      "dedup_key ` set taxes \<subseteq> dedup_key ` set ts \<union> insert (dedup_key t) seen"
      using Cons.IH[of "applied @ [price_tax base t]" "insert (dedup_key t) seen"] Cons.prems
      by (metis list.set_intros(2))
    ultimately show ?thesis using False by (intro exI[of _ "t # ts"] exI[of _ seen']) auto
  qed
qed simp

text \<open>The same tax assigned twice to a line charges once. When every assigned tax has an
  identity (its identifier, else its name), the entries of a line are priced from taxes assigned
  to it, in their order, with no identity twice and no assigned identity left out.\<close>

theorem no_tax_charged_twice:
  assumes "\<forall>t \<in> set taxes. dedup_key t \<noteq> []"
  shows "\<exists>ts. apply_taxes base taxes = map (price_tax base) ts \<and> subseq ts taxes
    \<and> distinct (map dedup_key ts) \<and> dedup_key ` set ts = dedup_key ` set taxes"
proof -
  obtain ts seen' where "fold (apply_tax base) taxes ([], {}) = ([] @ map (price_tax base) ts, seen')"
    and ts: "subseq ts taxes" "distinct (map dedup_key ts)"
      "dedup_key ` set taxes \<subseteq> dedup_key ` set ts \<union> {}"
    using fold_apply_tax[OF assms, of base "[]" "{}"] by blast
  then have "apply_taxes base taxes = map (price_tax base) ts" by (simp add: apply_taxes_def)
  moreover have "set ts \<subseteq> set taxes" using ts(1) by (blast elim: list_emb_set)
  ultimately show ?thesis using ts by blast
qed

theorem no_tax_charged_twice_witness:
  "length (apply_taxes 1000 [sample_tax, sample_tax]) = 1"
proof -
  have "\<forall>t \<in> set [sample_tax, sample_tax]. dedup_key t \<noteq> []"
    by (simp add: sample_tax_def dedup_key_def)
  from no_tax_charged_twice[OF this, of 1000] obtain ts where
    ts: "apply_taxes 1000 [sample_tax, sample_tax] = map (price_tax 1000) ts"
      "distinct (map dedup_key ts)" "dedup_key ` set ts = {dedup_key sample_tax}" by auto
  have "length ts = card (set (map dedup_key ts))" using distinct_card[OF ts(2)] by simp
  also have "set (map dedup_key ts) = {dedup_key sample_tax}" using ts(3) by simp
  finally show ?thesis by (simp add: ts(1))
qed

section \<open>Grouping is stable\<close>

lemma tax_round_idem:
  assumes "\<bar>x\<bar> \<le> 10 ^ 12"
  shows "tax_round (tax_round x) = tax_round x"
proof -
  have x: "\<bar>x\<bar> \<le> 1000000000000" using assms by simp
  have "\<bar>fl x\<bar> \<le> 2000000000000" using flt.r_abs_le2[OF x] by simp
  moreover have "\<bar>of_int (rhe (fl x * 100)) - fl x * 100\<bar> \<le> 1 / 2" by (rule rhe_err)
  ultimately have "\<bar>of_int (rhe (fl x * 100)) :: rat\<bar> \<le> 1000000000000000" by linarith
  then have "(of_int \<bar>rhe (fl x * 100)\<bar> :: rat) \<le> of_int 1000000000000000" by simp
  then have "\<bar>rhe (fl x * 100)\<bar> \<le> 1000000000000000" by (simp only: of_int_le_iff)
  then have "tax_round (kob (rhe (fl x * 100))) = kob (rhe (fl x * 100))"
    by (intro tax_round_kob) simp
  then show ?thesis by (simp add: tax_round_def round2_is_kob fadd_def)
qed

text \<open>An entry in the form grouping gives it, whatever its amount.\<close>

definition shaped :: "tax_dict \<Rightarrow> bool" where
  "shaped e \<longleftrightarrow> (\<exists>i n r a c. n \<noteq> [] \<and> tax_round r = r \<and>
     e = \<lparr>td_id = i, td_name = Some n, td_rate = Some (PFlt r),
          td_amount = Some (PFlt a), td_account_code = Some c\<rparr>)"

lemma str_or_Some_or [simp]: "str_or (Some (str_or s d)) d = str_or s d"
  by (simp add: str_or_def split: option.splits)

lemma shaped_group_entry: "\<bar>float_of (td_rate t)\<bar> \<le> 10 ^ 12 \<Longrightarrow>
    shaped (group_entry t) \<and> tax_key (group_entry t) = tax_key t"
  by (auto simp: shaped_def group_entry_def tax_key_def tax_round_idem str_or_def
      split: option.splits)

lemma shaped_fixed:
  assumes "shaped e" "kobo_entry (10 ^ 14) e"
  shows "group_entry e = e"
proof -
  obtain i n r a c where e: "n \<noteq> []" "tax_round r = r"
    "e = \<lparr>td_id = i, td_name = Some n, td_rate = Some (PFlt r),
          td_amount = Some (PFlt a), td_account_code = Some c\<rparr>"
    using assms(1) by (auto simp: shaped_def)
  then have "amount_of e = a" by (metis amount_of_def float_of_PFlt tax_dict.select_convs(4))
  then have "tax_round a = a"
    using assms(2) tax_round_kob[of "kobo_of a"] by (simp add: kobo_entry_def)
  then show ?thesis using e(1,2) by (simp add: e(3) group_entry_def str_or_def)
qed

lemma group_one_shaped:
  assumes "\<forall>(k, e) \<in> set g. shaped e \<and> tax_key e = k" "\<bar>float_of (td_rate t)\<bar> \<le> 10 ^ 12"
  shows "\<forall>(k, e) \<in> set (group_one t g). shaped e \<and> tax_key e = k"
proof -
  have upd: "\<forall>(k, e) \<in> set (dict_set k' v m). shaped e \<and> tax_key e = k"
    if "\<forall>(k, e) \<in> set m. shaped e \<and> tax_key e = k" "shaped v" "tax_key v = k'" for k' v m
    using that by (induction k' v m rule: dict_set.induct) auto
  show ?thesis
  proof (cases "map_of g (tax_key t)")
    case None
    then show ?thesis
      using upd[OF assms(1), of "group_entry t" "tax_key t"] shaped_group_entry[OF assms(2)]
      by (simp add: group_one_def)
  next
    case (Some e)
    then have e: "shaped e" "tax_key e = tax_key t" using assms(1) map_of_SomeD[OF Some] by auto
    have "shaped (e\<lparr>td_amount := Some (PFlt x)\<rparr>) \<and> tax_key (e\<lparr>td_amount := Some (PFlt x)\<rparr>) = tax_key t" for x
    proof -
      obtain i n r a c where "n \<noteq> []" "tax_round r = r"
        "e = \<lparr>td_id = i, td_name = Some n, td_rate = Some (PFlt r),
          td_amount = Some (PFlt a), td_account_code = Some c\<rparr>"
        using e(1) by (auto simp: shaped_def)
      then show ?thesis using e(2)
        by (auto simp: shaped_def tax_key_def)
    qed
    then show ?thesis using Some
      upd[OF assms(1), of "e\<lparr>td_amount := Some (PFlt (tax_round
            (fadd (float_of (td_amount e)) (float_of (td_amount t)))))\<rparr>" "tax_key t"]
      by (simp add: group_one_def)
  qed
qed

lemma fold_group_fixed:
  assumes "\<forall>e \<in> set es. group_entry e = e" "distinct (map fst g @ map tax_key es)"
  shows "fold group_one es g = g @ map (\<lambda>e. (tax_key e, e)) es"
  using assms
proof (induction es arbitrary: g)
  case (Cons e es)
  have "map_of g (tax_key e) = None" using Cons.prems(2) by (auto simp: map_of_eq_None_iff)
  then have "group_one e g = g @ [(tax_key e, e)]"
    using Cons.prems by (auto simp: group_one_def dict_set_snoc)
  then show ?case using Cons by auto
qed simp

lemma distinct_group_one: "distinct (map fst g) \<Longrightarrow> distinct (map fst (group_one t g))"
  by (auto simp: group_one_def distinct_dict_set split: option.splits)

text \<open>A stored breakdown groups the same way a fresh cart does: grouping an already grouped
  breakdown changes nothing, for entries whose amounts are whole kobo and whose rates are in
  range.\<close>

theorem grouping_is_idempotent:
  assumes "\<forall>t \<in> set ts. amount_of t = kob (kobo_of (amount_of t)) \<and> \<bar>rate_of t\<bar> \<le> 10 ^ 12"
    and "(\<Sum>t\<leftarrow>ts. \<bar>kobo_of (amount_of t)\<bar>) \<le> 10 ^ 14"
  shows "group_tax_lines (group_tax_lines ts) = group_tax_lines ts"
proof -
  let ?g = "fold group_one ts []"
  have shape: "(\<forall>(k, e) \<in> set (fold group_one us g). shaped e \<and> tax_key e = k)
      \<and> distinct (map fst (fold group_one us g))"
    if "\<forall>(k, e) \<in> set g. shaped e \<and> tax_key e = k" "distinct (map fst g)"
      "\<forall>t \<in> set us. \<bar>float_of (td_rate t)\<bar> \<le> 10 ^ 12" for g us
    using that
  proof (induction us arbitrary: g)
    case (Cons u us)
    then show ?case
      using group_one_shaped[of g u] distinct_group_one[of g u] by simp
  qed simp
  have g: "\<forall>(k, e) \<in> set ?g. shaped e \<and> tax_key e = k" "distinct (map fst ?g)"
    using shape[of "[]" ts] assms(1) by (simp_all add: rate_of_def)
  have am: "\<forall>e \<in> snd ` set ?g. kobo_entry (10 ^ 14) e"
    using fold_group_amounts[of ts "[]" 0] assms by simp
  have fixed: "\<forall>e \<in> set (map snd ?g). group_entry e = e"
    using g(1) am by (auto intro!: shaped_fixed)
  have keys: "map tax_key (map snd ?g) = map fst ?g" using g(1) by auto
  have "fold group_one (map snd ?g) [] = [] @ map (\<lambda>e. (tax_key e, e)) (map snd ?g)"
    by (rule fold_group_fixed[OF fixed]) (unfold keys, use g(2) in simp)
  then show ?thesis by (simp add: group_tax_lines_def comp_def)
qed


theorem grouping_is_idempotent_witness:
  "group_tax_lines (group_tax_lines [sample_tax, sample_tax]) = group_tax_lines [sample_tax, sample_tax]"
proof -
  have "amount_of sample_tax = 0" by (simp add: amount_of_def sample_tax_def float_of_def num_or_zero_def)
  then show ?thesis
    using kobo_of_kob[of 0]
    by (intro grouping_is_idempotent) (simp_all add: rate_of_def sample_tax_def)
qed

section \<open>Properties of the discount spread and the line bases\<close>

lemma spread_err:
  assumes "0 \<le> r" "r \<le> 1000000000" "0 \<le> s" "s \<le> r"
  shows "\<bar>round_n 10 (fsub r s) - (r - s)\<bar> \<le> 1 / 1000000" "0 \<le> round_n 10 (fsub r s)"
proof -
  let ?x = "fsub r s"
  have r: "r \<le> 1000000000" using assms(2) by simp
  have "\<bar>r - s\<bar> \<le> 1000000000" using assms r by linarith
  then have 1: "\<bar>?x - (r - s)\<bar> \<le> eps * 1000000000" unfolding fsub_def by (rule flt.r_err_le)
  have x0: "0 \<le> ?x" unfolding fsub_def using assms by (intro flt.r_nonneg) simp
  have "\<bar>?x - (r - s)\<bar> \<le> 1" using 1 by simp
  then have xb: "\<bar>?x\<bar> \<le> 1000000001" using assms r by linarith
  let ?y = "of_int (rhe (?x * 10 ^ 10)) / 10 ^ 10 :: rat"
  have "\<bar>of_int (rhe (?x * 10 ^ 10)) - ?x * 10 ^ 10\<bar> \<le> 1 / 2" by (rule rhe_err)
  then have 2: "\<bar>?y - ?x\<bar> \<le> 1 / 20000000000" by (simp add: field_simps)
  then have "\<bar>?y - ?x\<bar> \<le> 1" by (rule order_trans) simp
  then have "\<bar>?y\<bar> \<le> 1000000002" using xb by linarith
  then have "\<bar>fl ?y - ?y\<bar> \<le> eps * 1000000002" by (rule flt.r_err_le)
  then show "\<bar>round_n 10 ?x - (r - s)\<bar> \<le> 1 / 1000000"
  proof -
    have chain: "\<bar>z - y\<bar> \<le> a \<Longrightarrow> \<bar>y - x\<bar> \<le> b \<Longrightarrow> \<bar>x - w\<bar> \<le> c \<Longrightarrow> \<bar>z - w\<bar> \<le> a + b + c"
      for a b c w x y z :: rat by linarith
    assume "\<bar>fl ?y - ?y\<bar> \<le> eps * 1000000002"
    from chain[OF this 2 1] show ?thesis
      unfolding round_n_def by (rule order_trans) simp
  qed
  have "0 \<le> rhe (?x * 10 ^ 10)" using x0 by (intro rhe_ge_of_int) simp
  then show "0 \<le> round_n 10 ?x" unfolding round_n_def by (intro flt.r_nonneg) simp
qed

lemma cart_shares_sum:
  assumes "0 \<le> cd" "0 \<le> sub" "\<forall>g \<in> set gs. 0 \<le> g" "gs \<noteq> []" "0 \<le> r"
    and "r + of_nat (length gs) / 1000000 \<le> 1000000000"
  shows "(\<forall>s \<in> set (cart_shares cd sub r gs). 0 \<le> s) \<and> length (cart_shares cd sub r gs) = length gs
    \<and> \<bar>sum_list (cart_shares cd sub r gs) - r\<bar> \<le> of_nat (length gs) / 1000000"
  using assms
proof (induction gs arbitrary: r)
  case (Cons g gs)
  show ?case
  proof (cases "gs = []")
    case True
    then show ?thesis using Cons.prems by simp
  next
    case False
    define sh where "sh = (if 0 < sub then fmul cd (fdiv g sub) else 0)"
    define t where "t = min sh r"
    define r' where "r' = round_n 10 (fsub r t)"
    have "0 \<le> sh" using Cons.prems
      by (auto simp: sh_def fmul_def fdiv_def intro!: flt.r_nonneg mult_nonneg_nonneg divide_nonneg_nonneg)
    then have t: "0 \<le> t" "t \<le> r" using Cons.prems by (auto simp: t_def)
    have len: "of_nat (length (g # gs)) / 1000000 = 1 / 1000000 + of_nat (length gs) / (1000000 :: rat)"
      by (simp add: add_divide_distrib)
    have "(0 :: rat) \<le> of_nat (length gs) / 1000000" by simp
    then have "r \<le> 1000000000" using Cons.prems(6) len by linarith
    note e = spread_err[OF Cons.prems(5) this t, folded r'_def]
    have "r' + of_nat (length gs) / 1000000 \<le> 1000000000" using e(1) t Cons.prems(6) len by linarith
    then have IH: "(\<forall>s \<in> set (cart_shares cd sub r' gs). 0 \<le> s) \<and>
        length (cart_shares cd sub r' gs) = length gs \<and>
        \<bar>sum_list (cart_shares cd sub r' gs) - r'\<bar> \<le> of_nat (length gs) / 1000000"
      using Cons.prems False e(2) by (intro Cons.IH) auto
    have eq: "cart_shares cd sub r (g # gs) = t # cart_shares cd sub r' gs"
      using False by (simp add: sh_def t_def r'_def Let_def)
    have "\<bar>t + sum_list (cart_shares cd sub r' gs) - r\<bar> \<le> 1 / 1000000 + of_nat (length gs) / 1000000"
      using IH e(1) by linarith
    then show ?thesis unfolding eq len using IH t(1) by simp
  qed
qed simp


definition sample_tax_line :: "int \<Rightarrow> tax_line" where
  "sample_tax_line p = \<lparr>tl_qty = PInt 1, tl_unit_price = PInt p, tl_discount_pct = PInt 0, tl_taxes = []\<rparr>"


section \<open>Properties of the tax table\<close>

lemma active_taxes_map_of:
  "map_of (active_taxes table tenant ids) t = Some row \<Longrightarrow>
    row \<in> set table \<and> tax_id row = t \<and> tax_tenant_id row = tenant \<and> tax_is_active row"
  by (auto simp: active_taxes_def dest!: map_of_SomeD)

text \<open>A client cannot price its own tax. Every entry resolved for chosen identifiers is the
  entry of an active row of the tenant itself with one of those identifiers, its rate and
  account read from the row; for distinct row identifiers the entries follow the chosen order and
  are exactly the chosen active ones.\<close>

theorem resolved_taxes_are_the_tenants:
  assumes "distinct (map tax_id table)"
  shows "\<exists>rs. taxes_for_ids table tenant ids = map tax_entry rs
    \<and> (\<forall>r \<in> set rs. r \<in> set table \<and> tax_tenant_id r = tenant \<and> tax_is_active r)
    \<and> map tax_id rs = filter (\<lambda>t. \<exists>r \<in> set table. tax_id r = t \<and> tax_tenant_id r = tenant
        \<and> tax_is_active r) (List.map_filter (\<lambda>x. x) ids)"
proof -
  let ?ids = "List.map_filter (\<lambda>x. x) ids"
  define act where "act = active_taxes table tenant ?ids"
  let ?rs = "List.map_filter (map_of act) ?ids"
  let ?ok = "\<lambda>t r. r \<in> set table \<and> tax_id r = t \<and> tax_tenant_id r = tenant \<and> tax_is_active r"
  have eq: "taxes_for_ids table tenant ids = map tax_entry ?rs"
    by (simp add: taxes_for_ids_def lookup_taxes_def Let_def act_def List.map_filter_simps id_def)
  have ok: "\<forall>r \<in> set ?rs. r \<in> set table \<and> tax_tenant_id r = tenant \<and> tax_is_active r"
    using active_taxes_map_of by (auto simp: map_filter_def act_def)
  have dist: "distinct (map fst act)"
    using assms by (simp add: act_def active_taxes_def comp_def distinct_map_filter)
  have some: "(map_of act t \<noteq> None) \<longleftrightarrow> (\<exists>r \<in> set table. tax_id r = t \<and>
      tax_tenant_id r = tenant \<and> tax_is_active r)" if "t \<in> set ?ids" for t
    using that by (force simp: act_def active_taxes_def map_of_eq_None_iff)
  have "map tax_id (List.map_filter (map_of act) ts) = filter (\<lambda>t. \<exists>r \<in> set table. tax_id r = t \<and>
      tax_tenant_id r = tenant \<and> tax_is_active r) ts" if "set ts \<subseteq> set ?ids" for ts
    using that
  proof (induction ts)
    case (Cons t ts)
    then show ?case
      using some[of t] active_taxes_map_of[of table tenant ?ids t, folded act_def]
      by (cases "map_of act t") (auto simp: List.map_filter_simps)
  qed (simp add: List.map_filter_simps)
  then show ?thesis using eq ok by (intro exI[of _ ?rs]) auto
qed

definition sample_tax_row :: "string \<Rightarrow> bool \<Rightarrow> tax_row" where
  "sample_tax_row i act = \<lparr>tax_id = i, tax_tenant_id = ''t'', tax_name = ''VAT'', tax_rate = PInt 7,
     tax_account_code = None, tax_is_active = act\<rparr>"

theorem resolved_taxes_are_the_tenants_witness:
  "\<exists>rs. taxes_for_ids [sample_tax_row ''a'' True, sample_tax_row ''b'' False] ''t''
      [Some ''b'', Some ''a''] = map tax_entry rs \<and> map tax_id rs = [''a'']"
proof -
  have "distinct (map tax_id [sample_tax_row ''a'' True, sample_tax_row ''b'' False])"
    by (simp add: sample_tax_row_def)
  from resolved_taxes_are_the_tenants[OF this, of "''t''" "[Some ''b'', Some ''a'']"]
  show ?thesis by (fastforce simp: sample_tax_row_def map_filter_def)
qed

lemma vat_default_account: "default_account_for (Some ''VAT'') = VAT_PAYABLE"
  by code_simp

text \<open>The VAT a new tenant is seeded with is not booked to the VAT account. The seeded row
  has no account, so every entry resolved from it carries account 2400, while a tax named VAT that
  is created through the service carries 2300.\<close>

theorem seeded_vat_misses_vat_account:
  "(\<forall>r. seed_default_taxes (\<lambda>x. x) tid tenant [] = [r] \<longrightarrow>
      tax_name r = ''VAT'' \<and> td_account_code (tax_entry r) = Some DEFAULT_TAX_ACCOUNT)
   \<and> td_account_code (tax_entry (plan_create_tax tid \<lparr>txc_tenant_id = tenant, txc_name = ''VAT'',
        txc_rate = PFlt (15 / 2), txc_account_code = None\<rparr>)) = Some VAT_PAYABLE"
  by (simp add: seed_default_taxes_def list_taxes_def tax_entry_def DEFAULT_TAX_ACCOUNT_def
      plan_create_tax_def vat_default_account str_or_def VAT_PAYABLE_def)

theorem seeded_vat_misses_vat_account_witness:
  "\<exists>r. seed_default_taxes (\<lambda>x. x) ''v'' ''t'' [] = [r]
     \<and> td_account_code (tax_entry r) = Some DEFAULT_TAX_ACCOUNT"
proof -
  obtain r where "seed_default_taxes (\<lambda>x. x) ''v'' ''t'' [] = [r]"
    by (simp add: seed_default_taxes_def list_taxes_def)
  then show ?thesis using seeded_vat_misses_vat_account[of "''v''" "''t''"] by blast
qed

end
