(* ===== verification/Sales.thy ===== *)
theory Sales
  imports Taxes Events "HOL-Library.List_Lexorder"
begin

text \<open>
  \<open>app/sales\<close>: the rows of \<open>models.py\<close>, the commands of \<open>schemas.py\<close> with the checks pydantic
  makes when one is built, the planning functions of \<open>service.py\<close>, the queries and updates of
  \<open>repository.py\<close>, and the two handlers of \<open>app/worker/handlers/sales.py\<close>.

  A new row carries the floats its plan computed; a row loaded again carries what the two-place
  columns hold, as \<open>Decimal\<close>s. \<open>ids\<close> gives the identifiers a plan draws, in order; \<open>day\<close> is the
  \<open>YYYYMMDD\<close> text of the clock. Pydantic's \<open>ValidationError\<close>, and the database's
  \<open>IntegrityError\<close> and \<open>NoResultFound\<close>, are \<open>ValueError\<close>s with that text.
\<close>

section \<open>Rows\<close>

record sale =
  so_id :: uuid
  so_tenant_id :: uuid
  so_number :: string
  so_status :: string
  so_customer_name :: "string option"
  so_customer_phone :: "string option"
  so_store_id :: uuid
  so_cashier_id :: "uuid option"
  so_subtotal :: num
  so_discount :: num
  so_tax :: num
  so_tax_breakdown :: "tax_dict list option"
  so_total :: num
  so_amount_paid :: num
  so_payment_methods :: "(string \<times> json) list option"
  so_notes :: "string option"
  so_void_reason :: "string option"
  so_voided_by :: "uuid option"
  so_voided_at :: "timestamp option"
  so_created_at :: timestamp

record sale_item =
  si_id :: uuid
  si_sale_id :: uuid
  si_product_id :: uuid
  si_product_name :: string
  si_qty :: num
  si_unit_price :: num
  si_discount_pct :: num
  si_tax_id :: "uuid option"
  si_tax_rate :: "num option"
  si_tax_breakdown :: "tax_dict list option"
  si_line_total :: num

record receipt =
  rc_id :: uuid
  rc_tenant_id :: uuid
  rc_sale_id :: uuid
  rc_number :: string
  rc_sent_via :: "string option"

section \<open>Commands\<close>

text \<open>Quantities, prices and percentages of a command are \<open>Decimal\<close>s.\<close>

record sale_item_line =
  sl_product_id :: uuid
  sl_product_name :: string
  sl_qty :: rat
  sl_unit_price :: rat
  sl_discount_pct :: rat
  sl_tax_id :: "uuid option"
  sl_tax_rate :: "rat option"
  sl_taxes :: "tax_dict list"

record sale_create_command =
  sc_tenant_id :: uuid
  sc_cashier_id :: uuid
  sc_store_id :: uuid
  sc_customer_name :: "string option"
  sc_customer_phone :: "string option"
  sc_items :: "sale_item_line list"
  sc_discount :: rat
  sc_notes :: "string option"
  sc_correlation_id :: "string option"

record sale_result =
  ss_id :: uuid
  ss_tenant_id :: uuid
  ss_number :: string
  ss_status :: string
  ss_subtotal :: rat
  ss_discount :: rat
  ss_tax :: rat
  ss_total :: rat
  ss_amount_paid :: rat
  ss_item_count :: nat

record void_sale_command =
  vs_sale_id :: uuid
  vs_tenant_id :: uuid
  vs_voided_by :: uuid
  vs_reason :: string
  vs_correlation_id :: "string option"

record confirm_sale_command =
  cs_sale_id :: uuid
  cs_tenant_id :: uuid
  cs_correlation_id :: "string option"

record receipt_create_command =
  rcc_tenant_id :: uuid
  rcc_sale_id :: uuid
  rcc_number :: string
  rcc_sent_via :: "string option"
  rcc_correlation_id :: "string option"

definition valid_sale_line :: "sale_item_line \<Rightarrow> bool" where
  "valid_sale_line l \<longleftrightarrow> 1 \<le> length (sl_product_name l) \<and> length (sl_product_name l) \<le> 200 \<and>
     0 < sl_qty l \<and> 0 \<le> sl_unit_price l"

definition valid_sale_command :: "sale_create_command \<Rightarrow> bool" where
  "valid_sale_command c \<longleftrightarrow> 1 \<le> length (sc_items c)"

definition valid_receipt_command :: "receipt_create_command \<Rightarrow> bool" where
  "valid_receipt_command c \<longleftrightarrow> 1 \<le> length (rcc_number c) \<and> length (rcc_number c) \<le> 30"

section \<open>\<open>service.py\<close>\<close>

definition hex_tag :: "uuid \<Rightarrow> string" where
  "hex_tag u = map upper_char (take 8 (filter (\<lambda>c. c \<noteq> CHR ''-'') u))"

definition new_sale_number :: "string \<Rightarrow> uuid \<Rightarrow> string" where
  "new_sale_number day u = ''SL-'' @ day @ ''-'' @ hex_tag u"

definition sale_tax_line :: "sale_item_line \<Rightarrow> tax_line" where
  "sale_tax_line l = \<lparr>tl_qty = PFlt (py_float (PDec (sl_qty l))),
     tl_unit_price = PFlt (py_float (PDec (sl_unit_price l))),
     tl_discount_pct = PFlt (py_float (PDec (sl_discount_pct l))), tl_taxes = sl_taxes l\<rparr>"

definition sale_taxes :: "sale_create_command \<Rightarrow> tax_computation" where
  "sale_taxes c = compute_taxes (map sale_tax_line (sc_items c))
     (PFlt (py_float (PDec (sc_discount c))))"

text \<open>\<open>xs or None\<close> for a list.\<close>

definition list_or_None :: "'a list \<Rightarrow> 'a list option" where
  "list_or_None xs = (if xs = [] then None else Some xs)"

definition sale_item_of ::
  "uuid \<Rightarrow> uuid \<Rightarrow> sale_item_line \<Rightarrow> tax_dict list \<Rightarrow> rat \<Rightarrow> rat \<Rightarrow> sale_item" where
  "sale_item_of iid sale_id line line_taxes trate line_total =
     \<lparr>si_id = iid, si_sale_id = sale_id, si_product_id = sl_product_id line,
      si_product_name = sl_product_name line, si_qty = PFlt (py_float (PDec (sl_qty line))),
      si_unit_price = PFlt (py_float (PDec (sl_unit_price line))),
      si_discount_pct = PFlt (py_float (PDec (sl_discount_pct line))),
      si_tax_id = sl_tax_id line,
      si_tax_rate = (if line_taxes \<noteq> [] then Some (PFlt trate) else None),
      si_tax_breakdown = list_or_None line_taxes, si_line_total = PFlt line_total\<rparr>"

definition sale_items_of ::
  "(nat \<Rightarrow> uuid) \<Rightarrow> uuid \<Rightarrow> sale_item_line list \<Rightarrow> tax_computation \<Rightarrow> sale_item list" where
  "sale_items_of ids sale_id lines calc =
     map (\<lambda>(n, line, line_taxes, trate, line_total).
         sale_item_of (ids (2 + n)) sale_id line line_taxes trate line_total)
       (zip [0..<length lines]
         (zip lines (zip (tx_line_taxes calc) (zip (tx_line_rates calc) (tx_line_bases calc)))))"

definition plan_sale_creation ::
  "(nat \<Rightarrow> uuid) \<Rightarrow> uuid \<Rightarrow> timestamp \<Rightarrow> string \<Rightarrow> sale_create_command \<Rightarrow>
   sale_result \<times> sale \<times> sale_item list \<times> outbox_write list" where
  "plan_sale_creation ids eid now day c =
    (let sale_id = ids 0;
         number = new_sale_number day (ids 1);
         calc = sale_taxes c;
         tot = round2 (fadd (tx_taxable calc) (tx_total_tax calc));
         s = \<lparr>so_id = sale_id, so_tenant_id = sc_tenant_id c, so_number = number,
           so_status = ''pending'', so_customer_name = sc_customer_name c,
           so_customer_phone = sc_customer_phone c, so_store_id = sc_store_id c,
           so_cashier_id = Some (sc_cashier_id c), so_subtotal = PFlt (tx_subtotal calc),
           so_discount = PFlt (tx_discount calc), so_tax = PFlt (tx_total_tax calc),
           so_tax_breakdown = list_or_None (tx_breakdown calc), so_total = PFlt tot,
           so_amount_paid = PInt 0, so_payment_methods = None, so_notes = sc_notes c,
           so_void_reason = None, so_voided_by = None, so_voided_at = None,
           so_created_at = now\<rparr>;
         items = sale_items_of ids sale_id (sc_items c) calc;
         event = sale_created_event eid now (sc_tenant_id c) sale_id number (PFlt tot)
           (sc_cashier_id c) (int (length items)) (sc_correlation_id c)
     in (\<lparr>ss_id = sale_id, ss_tenant_id = sc_tenant_id c, ss_number = number,
           ss_status = ''pending'', ss_subtotal = tx_subtotal calc,
           ss_discount = tx_discount calc, ss_tax = tx_total_tax calc, ss_total = tot,
           ss_amount_paid = 0, ss_item_count = length items\<rparr>, s, items,
         [\<lparr>ow_event = event, aggregate_type = ''sale'', aggregate_id = sale_id\<rparr>]))"

definition plan_confirm_sale ::
  "uuid \<Rightarrow> timestamp \<Rightarrow> confirm_sale_command \<Rightarrow> sale \<Rightarrow> outbox_write list" where
  "plan_confirm_sale eid now c s =
     [\<lparr>ow_event = sale_confirmed_event eid now (cs_tenant_id c) (cs_sale_id c) (so_number s)
         (so_total s) (cs_correlation_id c),
       aggregate_type = ''sale'', aggregate_id = cs_sale_id c\<rparr>]"

definition plan_void_sale ::
  "uuid \<Rightarrow> timestamp \<Rightarrow> void_sale_command \<Rightarrow> sale \<Rightarrow> outbox_write list" where
  "plan_void_sale eid now c s =
     [\<lparr>ow_event = sale_voided_event eid now (vs_tenant_id c) (vs_sale_id c) (so_number s)
         (vs_reason c) (vs_voided_by c) (PFlt (py_float (so_total s))) (vs_correlation_id c),
       aggregate_type = ''sale'', aggregate_id = vs_sale_id c\<rparr>]"

definition plan_create_receipt ::
  "uuid \<Rightarrow> uuid \<Rightarrow> timestamp \<Rightarrow> receipt_create_command \<Rightarrow> sale \<Rightarrow>
   receipt \<times> outbox_write list" where
  "plan_create_receipt rid eid now c s =
    (\<lparr>rc_id = rid, rc_tenant_id = rcc_tenant_id c, rc_sale_id = rcc_sale_id c,
      rc_number = rcc_number c, rc_sent_via = rcc_sent_via c\<rparr>,
     [\<lparr>ow_event = sale_receipt_created_event eid now (rcc_tenant_id c) rid (rcc_sale_id c)
         (rcc_number c) (so_total s) (rcc_correlation_id c),
       aggregate_type = ''receipt'', aggregate_id = rid\<rparr>])"

section \<open>The sales tables\<close>

record sales_db =
  db_sales :: "sale list"
  db_items :: "sale_item list"
  db_receipts :: "receipt list"

definition no_sales :: sales_db where
  "no_sales = \<lparr>db_sales = [], db_items = [], db_receipts = []\<rparr>"

definition column_num :: "num \<Rightarrow> num" where
  "column_num x = PDec (column_value x)"

definition stored_sale :: "sale \<Rightarrow> sale" where
  "stored_sale s = s\<lparr>so_subtotal := column_num (so_subtotal s),
     so_discount := column_num (so_discount s), so_tax := column_num (so_tax s),
     so_total := column_num (so_total s), so_amount_paid := column_num (so_amount_paid s)\<rparr>"

definition stored_item :: "sale_item \<Rightarrow> sale_item" where
  "stored_item i = i\<lparr>si_qty := column_num (si_qty i),
     si_unit_price := column_num (si_unit_price i),
     si_discount_pct := column_num (si_discount_pct i),
     si_tax_rate := map_option column_num (si_tax_rate i),
     si_line_total := column_num (si_line_total i)\<rparr>"

definition get_sale_by_id :: "sales_db \<Rightarrow> uuid \<Rightarrow> sale option" where
  "get_sale_by_id db sale_id = List.find (\<lambda>s. so_id s = sale_id) (db_sales db)"

definition get_sale_by_number :: "sales_db \<Rightarrow> string \<Rightarrow> sale option" where
  "get_sale_by_number db number = List.find (\<lambda>s. so_number s = number) (db_sales db)"

text \<open>Sale numbers are unique.\<close>

definition create_sale :: "sale \<Rightarrow> sales_db \<Rightarrow> exn + sales_db" where
  "create_sale s db =
    (if get_sale_by_id db (so_id s) \<noteq> None \<or> get_sale_by_number db (so_number s) \<noteq> None
     then Inl (ValueError [Txt ''IntegrityError''])
     else Inr (db\<lparr>db_sales := db_sales db @ [stored_sale s]\<rparr>))"

definition create_sale_items :: "sale_item list \<Rightarrow> sales_db \<Rightarrow> sales_db" where
  "create_sale_items items db = db\<lparr>db_items := db_items db @ map stored_item items\<rparr>"

definition change_sale :: "uuid \<Rightarrow> (sale \<Rightarrow> sale) \<Rightarrow> sales_db \<Rightarrow> exn + sales_db" where
  "change_sale sale_id f db =
    (if get_sale_by_id db sale_id = None then Inl (ValueError [Txt ''NoResultFound''])
     else Inr (db\<lparr>db_sales := map (\<lambda>s. if so_id s = sale_id then f s else s) (db_sales db)\<rparr>))"

definition update_sale_status :: "uuid \<Rightarrow> string \<Rightarrow> sales_db \<Rightarrow> exn + sales_db" where
  "update_sale_status sale_id st = change_sale sale_id (\<lambda>s. s\<lparr>so_status := st\<rparr>)"

definition void_sale ::
  "timestamp \<Rightarrow> uuid \<Rightarrow> uuid \<Rightarrow> string \<Rightarrow> sales_db \<Rightarrow> exn + sales_db" where
  "void_sale now sale_id voided_by reason = change_sale sale_id (\<lambda>s. s\<lparr>so_status := ''voided'',
     so_voided_by := Some voided_by, so_voided_at := Some now, so_void_reason := Some reason\<rparr>)"

text \<open>Newest first; sales of the same moment in the order the table keeps them.\<close>

definition list_sales_by_tenant ::
  "sales_db \<Rightarrow> uuid \<Rightarrow> string option \<Rightarrow> uuid option \<Rightarrow> nat \<Rightarrow> nat \<Rightarrow> sale list" where
  "list_sales_by_tenant db tenant st cashier limit off =
    (let q = filter (\<lambda>s. so_tenant_id s = tenant) (db_sales db);
         q = (if str_truthy st then filter (\<lambda>s. Some (so_status s) = st) q else q);
         q = (if cashier \<noteq> None then filter (\<lambda>s. so_cashier_id s = cashier) q else q)
     in take limit (drop off (sort_key (\<lambda>s. - so_created_at s) q)))"

text \<open>A UUID column sorts as its canonical text does.\<close>

definition get_sale_items :: "sales_db \<Rightarrow> uuid \<Rightarrow> sale_item list" where
  "get_sale_items db sale_id =
     sort_key (\<lambda>i. map (of_char :: char \<Rightarrow> nat) (si_id i))
       (filter (\<lambda>i. si_sale_id i = sale_id) (db_items db))"

definition get_receipt_by_sale :: "sales_db \<Rightarrow> uuid \<Rightarrow> receipt option" where
  "get_receipt_by_sale db sale_id = List.find (\<lambda>r. rc_sale_id r = sale_id) (db_receipts db)"

text \<open>A sale has at most one receipt, and receipt numbers are unique.\<close>

definition create_receipt :: "receipt \<Rightarrow> sales_db \<Rightarrow> exn + sales_db" where
  "create_receipt r db =
    (if get_receipt_by_sale db (rc_sale_id r) \<noteq> None \<or>
        (\<exists>x \<in> set (db_receipts db). rc_number x = rc_number r)
     then Inl (ValueError [Txt ''IntegrityError''])
     else Inr (db\<lparr>db_receipts := db_receipts db @ [r]\<rparr>))"

section \<open>The sales handlers\<close>

text \<open>
  \<open>handle_payment_succeeded\<close> confirms a pending sale and writes its receipt once. \<open>ids\<close> are the
  identifier in the receipt's number, the receipt's own and the event's.
\<close>

definition payload_str :: "envelope \<Rightarrow> string \<Rightarrow> string option" where
  "payload_str env k = (case jget (payload env) k of
     JStr s \<Rightarrow> if s = [] then None else Some s | _ \<Rightarrow> None)"

definition receipt_number :: "string \<Rightarrow> uuid \<Rightarrow> string" where
  "receipt_number day u = ''RCP-'' @ day @ ''-'' @ hex_tag u"

definition sales_handle_payment_succeeded ::
  "(nat \<Rightarrow> uuid) \<Rightarrow> timestamp \<Rightarrow> string \<Rightarrow> envelope \<Rightarrow> sales_db \<Rightarrow>
   exn + sales_db \<times> outbox_write list" where
  "sales_handle_payment_succeeded ids now day env db =
    (case payload_str env ''sale_id'' of
       None \<Rightarrow> Inr (db, [])
     | Some sale_id \<Rightarrow>
      (case get_sale_by_id db sale_id of
         None \<Rightarrow> Inr (db, [])
       | Some s \<Rightarrow>
          res_bind (if so_status s = ''pending'' then update_sale_status (so_id s) ''confirmed'' db
                    else Inr db) (\<lambda>db1.
          if get_receipt_by_sale db1 (so_id s) \<noteq> None then Inr (db1, [])
          else
           (let c = \<lparr>rcc_tenant_id = so_tenant_id s, rcc_sale_id = so_id s,
                  rcc_number = receipt_number day (ids 0), rcc_sent_via = None,
                  rcc_correlation_id = None\<rparr>
            in case plan_create_receipt (ids 1) (ids 2) now c s of (r, outbox) \<Rightarrow>
               res_bind (create_receipt r db1) (\<lambda>db2. Inr (db2, outbox))))))"

text \<open>
  \<open>handle_cart_checked_out\<close> builds a \<open>SaleCreateCommand\<close> without its required \<open>store_id\<close>: past
  the guard some exception ends every run, the construction of the command at the latest; which
  one comes first is not kept.
\<close>

definition handle_cart_checked_out :: "envelope \<Rightarrow> sales_db \<Rightarrow> exn + sales_db" where
  "handle_cart_checked_out env db =
    (if \<not> json_truthy (jget (payload env) ''tenant_id'') \<or>
        \<not> json_truthy (jget (payload env) ''cart_id'') \<or>
        \<not> json_truthy (jget (payload env) ''items'')
     then Inr db else Inl (ValueError [Txt ''ValidationError'']))"

section \<open>Properties of a planned sale\<close>

text \<open>The taxes stored with an item.\<close>

definition item_taxes :: "sale_item \<Rightarrow> tax_dict list" where
  "item_taxes i = (case si_tax_breakdown i of None \<Rightarrow> [] | Some ts \<Rightarrow> ts)"

lemma length_cart_shares [simp]: "length (cart_shares cd sub r gs) = length gs"
  by (induction gs arbitrary: r) (auto simp: Let_def)

lemma compute_taxes_lengths [simp]:
  "length (tx_line_taxes (compute_taxes ls cd)) = length ls"
  "length (tx_line_rates (compute_taxes ls cd)) = length ls"
  "length (tx_line_bases (compute_taxes ls cd)) = length ls"
  by (simp_all add: compute_taxes_def Let_def)

lemma item_of_simps [simp]:
  "item_taxes (sale_item_of i s l ts r t) = ts"
  "si_line_total (sale_item_of i s l ts r t) = PFlt t"
  "si_product_id (sale_item_of i s l ts r t) = sl_product_id l"
  "si_sale_id (sale_item_of i s l ts r t) = s"
  by (simp_all add: sale_item_of_def item_taxes_def list_or_None_def)

lemma sale_items_of_maps:
  fixes c :: sale_create_command and ids :: "nat \<Rightarrow> uuid" and sid :: uuid
  defines "calc \<equiv> sale_taxes c"
  defines "items \<equiv> sale_items_of ids sid (sc_items c) calc"
  shows "length items = length (sc_items c)" "map item_taxes items = tx_line_taxes calc"
    "map si_line_total items = map PFlt (tx_line_bases calc)"
    "map si_product_id items = map sl_product_id (sc_items c)"
    "list_all (\<lambda>i. si_sale_id i = sid) items"
proof -
  let ?n = "length (sc_items c)"
  have len: "length (tx_line_taxes calc) = ?n" "length (tx_line_rates calc) = ?n"
    "length (tx_line_bases calc) = ?n" by (simp_all add: calc_def sale_taxes_def)
  then show "length items = ?n" by (simp add: items_def sale_items_of_def)
  then show "map item_taxes items = tx_line_taxes calc"
    "map si_line_total items = map PFlt (tx_line_bases calc)"
    "map si_product_id items = map sl_product_id (sc_items c)"
    using len by (auto simp: items_def sale_items_of_def intro!: nth_equalityI)
  show "list_all (\<lambda>i. si_sale_id i = sid) items"
    by (auto simp: items_def sale_items_of_def list_all_iff)
qed

lemma taxable_is_kob: "\<exists>k. tx_taxable (compute_taxes ls cd) = kob k"
  using tax_round_is_kob by (simp add: compute_taxes_def Let_def)

text \<open>A planned sale adds up. When the tax amounts of the lines and the taxable value stay
  within range, the sale's tax is exactly the sum of the taxes stored with its items, its total is
  exactly the taxable value plus that tax, the result and the published event carry the same
  total, and the items are the lines of the command in order, each with its own taxed base.\<close>

theorem planned_sale_adds_up:
  assumes "plan_sale_creation ids eid now day c = (r, s, items, out)"
    and "int (length (sc_items c) + length (concat (tx_line_taxes (sale_taxes c)))) *
      ((\<Sum>t\<leftarrow>concat (tx_line_taxes (sale_taxes c)). \<bar>kobo_of (amount_of t)\<bar>) + 1) \<le> 10 ^ 13"
    and "\<bar>kobo_of (tx_taxable (sale_taxes c))\<bar> \<le> 10 ^ 13"
  shows "let X = (\<Sum>t\<leftarrow>concat (map item_taxes items). kobo_of (amount_of t));
             T = kobo_of (tx_taxable (sale_taxes c))
    in so_tax s = PFlt (kob X) \<and> so_total s = PFlt (kob (T + X)) \<and> ss_total r = kob (T + X)
      \<and> map (\<lambda>w. jget (payload (ow_event w)) ''total'') out = [JStrOf (PFlt (kob (T + X)))]
      \<and> map (\<lambda>i. (si_product_id i, si_line_total i)) items =
          zip (map sl_product_id (sc_items c)) (map PFlt (tx_line_bases (sale_taxes c)))
      \<and> list_all (\<lambda>i. si_sale_id i = so_id s) items"
proof -
  let ?calc = "sale_taxes c"
  define es where "es = concat (tx_line_taxes ?calc)"
  define X where "X = (\<Sum>t\<leftarrow>es. kobo_of (amount_of t))"
  define T where "T = kobo_of (tx_taxable ?calc)"
  let ?W = "\<Sum>t\<leftarrow>es. \<bar>kobo_of (amount_of t)\<bar>"
  have "tx_total_tax ?calc = kob X"
    using taxes_reconcile[of "map sale_tax_line (sc_items c)" "PFlt (py_float (PDec (sc_discount c)))"]
      assms(2) by (simp add: sale_taxes_def X_def es_def)
  have W: "\<bar>X\<bar> \<le> 10 ^ 13"
  proof (cases "es = []")
    case False
    have "\<bar>X\<bar> \<le> ?W" unfolding X_def by (induction es) auto
    moreover have "0 \<le> ?W" by (rule sum_list_nonneg) auto
    moreover have "1 \<le> int (length (sc_items c) + length es)" using False by (cases es) auto
    then have "1 * (?W + 1) \<le> int (length (sc_items c) + length es) * (?W + 1)"
      using \<open>0 \<le> ?W\<close> by (intro mult_right_mono) auto
    ultimately show ?thesis using assms(2) unfolding es_def[symmetric] mult_1 by linarith
  qed (simp add: X_def)
  obtain k where k: "tx_taxable ?calc = kob k" using taxable_is_kob by (auto simp: sale_taxes_def)
  then have "T = k" using assms(3) kob_small[of k] by (simp add: T_def)
  then have tot: "round2 (fadd (tx_taxable ?calc) (tx_total_tax ?calc)) = kob (T + X)"
    using round2_fadd_kob[of T X] W assms(3) \<open>tx_total_tax ?calc = kob X\<close> k by (simp add: T_def)
  note maps = sale_items_of_maps[where c = c and ids = ids and sid = "ids 0"]
  have items: "items = sale_items_of ids (ids 0) (sc_items c) ?calc" and s: "so_id s = ids 0"
    "so_tax s = PFlt (tx_total_tax ?calc)"
    "so_total s = PFlt (round2 (fadd (tx_taxable ?calc) (tx_total_tax ?calc)))"
    "ss_total r = round2 (fadd (tx_taxable ?calc) (tx_total_tax ?calc))"
    "map (\<lambda>w. jget (payload (ow_event w)) ''total'') out =
      [JStrOf (PFlt (round2 (fadd (tx_taxable ?calc) (tx_total_tax ?calc))))]"
    using assms(1) by (auto simp: plan_sale_creation_def Let_def sale_created_event_def mk_event_def)
  have "map (\<lambda>i. (si_product_id i, si_line_total i)) items =
      zip (map si_product_id items) (map si_line_total items)" by (simp add: zip_map_map zip_same_conv_map)
  then show ?thesis
    using s tot \<open>tx_total_tax ?calc = kob X\<close> maps unfolding items Let_def T_def[symmetric] X_def es_def
    by simp
qed


definition sample_sale_line :: sale_item_line where
  "sample_sale_line = \<lparr>sl_product_id = ''p'', sl_product_name = ''Rice'', sl_qty = 1,
     sl_unit_price = 100, sl_discount_pct = 0, sl_tax_id = None, sl_tax_rate = None, sl_taxes = []\<rparr>"

definition sample_sale_command :: sale_create_command where
  "sample_sale_command = \<lparr>sc_tenant_id = ''t'', sc_cashier_id = ''u'', sc_store_id = ''s'',
     sc_customer_name = None, sc_customer_phone = None, sc_items = [sample_sale_line],
     sc_discount = 0, sc_notes = None, sc_correlation_id = None\<rparr>"

lemma sample_sale_taxes:
  "tx_line_taxes (sale_taxes sample_sale_command) = [[]]"
  "tx_taxable (sale_taxes sample_sale_command) = kob 10000"
proof -
  have n: "fl 1 = 1" "fl 100 = 100" using fl_of_int[of 1] fl_of_int[of 100] by simp_all
  have k: "kob 10000 = 100" by (simp add: kob_def n)
  have "line_gross (sale_tax_line sample_sale_line) = 100" "line_discount (sale_tax_line sample_sale_line) = 0"
    by (simp_all add: line_gross_def line_discount_def sale_tax_line_def sample_sale_line_def
        fmul_def fdiv_def n)
  then show "tx_line_taxes (sale_taxes sample_sale_command) = [[]]"
    "tx_taxable (sale_taxes sample_sale_command) = kob 10000"
    using tax_round_kob[of 10000] unfolding k
    by (simp_all add: sale_taxes_def compute_taxes_def sample_sale_command_def Let_def py_fsum_def
        line_base_def fsub_def n sale_tax_line_def sample_sale_line_def apply_taxes_def)
qed

theorem planned_sale_adds_up_witness:
  "ss_total (fst (plan_sale_creation (\<lambda>n. ''i'') ''e'' 1 ''20250101'' sample_sale_command)) = kob 10000"
proof -
  obtain r s items out where plan:
    "plan_sale_creation (\<lambda>n. ''i'') ''e'' 1 ''20250101'' sample_sale_command = (r, s, items, out)"
    by (metis surj_pair)
  have "items = sale_items_of (\<lambda>n. ''i'') ''i'' (sc_items sample_sale_command) (sale_taxes sample_sale_command)"
    using plan by (simp add: plan_sale_creation_def Let_def)
  then have 0: "concat (map item_taxes items) = []"
    using sale_items_of_maps(2)[where c = sample_sale_command] by (simp add: sample_sale_taxes(1))
  have "length (sc_items sample_sale_command) = 1" by (simp add: sample_sale_command_def)
  then have "ss_total r = kob (kobo_of (kob 10000) +
      (\<Sum>t\<leftarrow>concat (map item_taxes items). kobo_of (amount_of t)))"
    using planned_sale_adds_up[OF plan] kobo_of_kob[of 10000]
    by (simp add: Let_def sample_sale_taxes)
  then show ?thesis unfolding 0 using kobo_of_kob[of 10000] by (simp add: plan)
qed

section \<open>Properties of the payment handler\<close>

lemma find_map_update:
  assumes "\<And>s. key (f s) = key s"
  shows "List.find (\<lambda>s. key s = k) (map (\<lambda>s. if key s = k then f s else s) xs) =
     map_option f (List.find (\<lambda>s. key s = k) xs)"
  using assms by (induction xs) auto

lemma get_sale_change:
  assumes "change_sale sid f db = Inr db'" "\<And>s. so_id (f s) = so_id s"
  shows "get_sale_by_id db' sid = map_option f (get_sale_by_id db sid)" "db_receipts db' = db_receipts db"
  using assms by (auto simp: change_sale_def get_sale_by_id_def find_map_update split: if_splits)

text \<open>C16: A payment event confirms a sale once. When the sales handler of a successful payment has
  run, running it again on the same event, whatever identifiers and time it draws, changes nothing
  and publishes nothing; and a sale that was not waiting (already completed, voided or partly
  paid) keeps its status, while a waiting one is confirmed.\<close>

theorem payment_confirms_once:
  assumes "sales_handle_payment_succeeded ids now day env db = Inr (db', out)"
  shows "sales_handle_payment_succeeded ids' now' day' env db' = Inr (db', [])
    \<and> (case payload_str env ''sale_id'' of None \<Rightarrow> db' = db
       | Some sid \<Rightarrow> map_option so_status (get_sale_by_id db' sid) =
           map_option (\<lambda>s. if so_status s = ''pending'' then ''confirmed'' else so_status s)
             (get_sale_by_id db sid)
         \<and> (get_sale_by_id db sid = None \<or> get_receipt_by_sale db' sid \<noteq> None))"
proof (cases "payload_str env ''sale_id''")
  case None
  then show ?thesis using assms by (auto simp: sales_handle_payment_succeeded_def)
next
  case (Some sid)
  show ?thesis
  proof (cases "get_sale_by_id db sid")
    case None
    then show ?thesis using assms Some by (auto simp: sales_handle_payment_succeeded_def)
  next
    case sale: (Some s)
    then have sid: "so_id s = sid" by (auto simp: get_sale_by_id_def dest: find_Some_set)
    obtain db1 where db1: "(if so_status s = ''pending'' then update_sale_status (so_id s) ''confirmed'' db
        else Inr db) = Inr db1"
      using assms Some sale by (auto simp: sales_handle_payment_succeeded_def res_bind_eq_Inr)
    note db1 = db1[unfolded sid]
    let ?s = "if so_status s = ''pending'' then s\<lparr>so_status := ''confirmed''\<rparr> else s"
    have s1: "get_sale_by_id db1 sid = Some ?s" "db_receipts db1 = db_receipts db"
      using db1 sale get_sale_change[of sid "\<lambda>s. s\<lparr>so_status := ''confirmed''\<rparr>" db db1]
      by (auto simp: update_sale_status_def split: if_splits)
    have "db_sales db' = db_sales db1 \<and> get_receipt_by_sale db' sid \<noteq> None"
      using assms Some sale db1
      by (auto simp: sales_handle_payment_succeeded_def sid res_bind_eq_Inr plan_create_receipt_def
          create_receipt_def get_receipt_by_sale_def find_None_iff Let_def split: if_splits)
    then have fin: "get_sale_by_id db' sid = Some ?s" "get_receipt_by_sale db' sid \<noteq> None"
      using s1(1) by (simp_all add: get_sale_by_id_def)
    have "so_status ?s \<noteq> ''pending''" by simp
    then have "sales_handle_payment_succeeded ids' now' day' env db' = Inr (db', [])"
      using Some fin sid by (auto simp: sales_handle_payment_succeeded_def)
    then show ?thesis using Some sale fin by simp
  qed
qed


definition sample_sales :: sales_db where
  "sample_sales = no_sales\<lparr>db_sales :=
     [fst (snd (plan_sale_creation (\<lambda>n. ''i'') ''e'' 1 ''20250101'' sample_sale_command))]\<rparr>"

definition sample_paid :: envelope where
  "sample_paid = payment_succeeded_event ''e2'' 2 ''t'' ''pay'' ''i'' (PInt 5) ''cash'' None None None"

theorem payment_confirms_once_witness:
  "\<exists>db' out. sales_handle_payment_succeeded (\<lambda>n. ''r'') 3 ''20250101'' sample_paid sample_sales = Inr (db', out)
     \<and> sales_handle_payment_succeeded (\<lambda>n. ''q'') 4 ''20250102'' sample_paid db' = Inr (db', [])
     \<and> map_option so_status (get_sale_by_id db' ''i'') = Some ''confirmed''"
proof -
  have sid: "payload_str sample_paid ''sale_id'' = Some ''i''"
    by (simp add: payload_str_def sample_paid_def payment_succeeded_event_def mk_event_def)
  have sale: "map_option so_status (get_sale_by_id sample_sales ''i'') = Some ''pending''"
    by (simp add: sample_sales_def get_sale_by_id_def plan_sale_creation_def Let_def)
  obtain db' out where run: "sales_handle_payment_succeeded (\<lambda>n. ''r'') 3 ''20250101'' sample_paid sample_sales
      = Inr (db', out)"
    using sid by (simp add: sales_handle_payment_succeeded_def sample_sales_def get_sale_by_id_def
        plan_sale_creation_def Let_def update_sale_status_def change_sale_def no_sales_def
        get_receipt_by_sale_def create_receipt_def plan_create_receipt_def)
  show ?thesis
    using payment_confirms_once[OF run] run sid sale by (auto simp: option.map_comp)
qed

end
