(* ===== verification/Fees.thy ===== *)
theory Fees
  imports Sales "HOL-Library.Product_Lexorder"
begin

text \<open>
  \<open>app/platform/fee_calculator.py\<close> with the rows of \<open>app/platform/models.py\<close> it reads and
  writes: the commission rules, the fee of a sale, the shares of a batch that mixes payment
  methods, the pending balance that blocks new sales, and the flat fee of a document. Rule and
  ledger columns are \<open>Decimal\<close>s of two places; the results are floats. A query with \<open>LIMIT 1\<close> and
  no order takes the first row of the table.
\<close>

section \<open>Rows\<close>

record commission_rule =
  cr_id :: uuid
  cr_label :: string
  cr_fee_type :: string
  cr_amount :: rat
  cr_cash_amount :: "rat option"
  cr_min_threshold :: rat
  cr_max_pending_balance :: rat
  cr_document_fee :: "rat option"
  cr_created_at :: timestamp

record fee_entry =
  fe_id :: uuid
  fe_tenant_id :: uuid
  fe_sale_id :: "uuid option"
  fe_document_id :: "uuid option"
  fe_category :: string
  fe_amount :: rat
  fe_fee_type :: string
  fe_rate :: rat
  fe_method :: string
  fe_status :: string
  fe_settled_at :: "timestamp option"

record fee_db =
  fd_rules :: "commission_rule list"
  fd_ledger :: "fee_entry list"

section \<open>The fee of a sale\<close>

definition fee_round :: "rat \<Rightarrow> rat" where
  "fee_round d = fl (quant2_half_up d)"

definition sale_fee_base :: "sale \<Rightarrow> rat" where
  "sale_fee_base s =
    (let subtotal = py_float (so_subtotal s); discount = py_float (so_discount s);
         tax = py_float (so_tax s); tot = py_float (so_total s);
         base = fsub subtotal discount;
         base = (if base \<le> 0 \<and> 0 < tot then fsub tot tax else base)
     in max base 0)"

definition NO_PROCESSOR_METHODS :: "string set" where
  "NO_PROCESSOR_METHODS = {''cash'', ''document''}"

definition rate_for_rule :: "commission_rule \<Rightarrow> string option \<Rightarrow> rat" where
  "rate_for_rule r method =
    (case (method, cr_cash_amount r) of
       (Some m, Some a) \<Rightarrow> if m \<in> NO_PROCESSOR_METHODS then a else cr_amount r
     | _ \<Rightarrow> cr_amount r)"

record fee_result =
  fr_rule_id :: "uuid option"
  fr_label :: string
  fr_fee_type :: string
  fr_rate :: rat
  fr_min_threshold :: rat
  fr_sale_total :: rat
  fr_platform_fee :: rat
  fr_settlement_amount :: rat

definition rule_fee :: "commission_rule \<Rightarrow> string option \<Rightarrow> rat \<Rightarrow> rat" where
  "rule_fee r method tot =
    (if cr_fee_type r = ''flat'' then rate_for_rule r method
     else quant2_half_up (ddiv (dmul tot (rate_for_rule r method)) 100))"

definition ordered_rules :: "fee_db \<Rightarrow> commission_rule list" where
  "ordered_rules db = sort_key (\<lambda>r. - cr_min_threshold r) (fd_rules db)"

definition calculate_platform_fee :: "fee_db \<Rightarrow> num \<Rightarrow> string option \<Rightarrow> fee_result" where
  "calculate_platform_fee db sale_total method =
    (let tot = dec_of_str sale_total in
     case List.find (\<lambda>r. cr_min_threshold r \<le> tot) (ordered_rules db) of
       Some r \<Rightarrow>
         \<lparr>fr_rule_id = Some (cr_id r), fr_label = cr_label r, fr_fee_type = cr_fee_type r,
          fr_rate = fee_round (rate_for_rule r method),
          fr_min_threshold = fee_round (cr_min_threshold r), fr_sale_total = fee_round tot,
          fr_platform_fee = fee_round (rule_fee r method tot),
          fr_settlement_amount = fee_round (dsub tot (rule_fee r method tot))\<rparr>
     | None \<Rightarrow>
         \<lparr>fr_rule_id = None, fr_label = ''no_rule'', fr_fee_type = ''flat'', fr_rate = 0,
          fr_min_threshold = 0, fr_sale_total = fee_round tot, fr_platform_fee = 0,
          fr_settlement_amount = fee_round tot\<rparr>)"

section \<open>Mixed batches\<close>

text \<open>
  \<open>sum\<close> of run-time numbers: floats are summed with compensation, anything else with \<open>+\<close> from
  the integer 0, where a float next to a \<open>Decimal\<close> is a \<open>TypeError\<close>. A dictionary of amounts by
  method is an association list.
\<close>

fun is_flt :: "num \<Rightarrow> bool" where
  "is_flt (PFlt x) = True"
| "is_flt _ = False"

definition py_sum :: "num list \<Rightarrow> exn + num" where
  "py_sum xs =
    (if xs \<noteq> [] \<and> list_all is_flt xs then Inr (PFlt (py_fsum (map nval xs)))
     else res_fold (\<lambda>x acc. py_add acc x) xs (PInt 0))"

record fee_share =
  fs_method :: string
  fs_amount :: rat
  fs_rate :: rat
  fs_fee_type :: string

record fee_shares =
  fs_rule_id :: "uuid option"
  fs_total_fee :: rat
  fs_shares :: "fee_share list"

text \<open>The share of one method: its own fee on the whole base, scaled by what it collected.\<close>

definition method_share :: "fee_db \<Rightarrow> num \<Rightarrow> rat \<Rightarrow> string \<Rightarrow> num \<Rightarrow> rat" where
  "method_share db fee_base collected method amount =
    (let fee = fr_platform_fee (calculate_platform_fee db fee_base (Some method));
         fraction = (if 0 < collected then ddiv (dec_of_str amount) collected else 0)
     in quant2_half_up (dmul (dec_of_str (PFlt fee)) fraction))"

definition add_share ::
  "fee_db \<Rightarrow> num \<Rightarrow> rat \<Rightarrow> string \<times> num \<Rightarrow> uuid option \<times> rat \<times> fee_share list \<Rightarrow>
   uuid option \<times> rat \<times> fee_share list" where
  "add_share db fee_base collected ma st =
    (case (ma, st) of ((method, amount), (rule_id, tot, shares)) \<Rightarrow>
     if dec_of_str amount \<le> 0 then st
     else
      (let res = calculate_platform_fee db fee_base (Some method);
           share = method_share db fee_base collected method amount
       in (fr_rule_id res, dadd tot share,
           shares @ [\<lparr>fs_method = method, fs_amount = fee_round share, fs_rate = fr_rate res,
             fs_fee_type = fr_fee_type res\<rparr>])))"

definition calculate_fee_shares ::
  "fee_db \<Rightarrow> num \<Rightarrow> (string \<times> num) list \<Rightarrow> exn + fee_shares" where
  "calculate_fee_shares db fee_base method_amounts =
     res_bind (py_sum (map snd method_amounts)) (\<lambda>collected.
     case fold (add_share db fee_base (dec_of_str collected)) method_amounts (None, 0, []) of
       (rule_id, tot, shares) \<Rightarrow>
         Inr \<lparr>fs_rule_id = rule_id, fs_total_fee = fee_round tot, fs_shares = shares\<rparr>)"

section \<open>The pending balance\<close>

definition get_pending_fee_balance :: "fee_db \<Rightarrow> uuid \<Rightarrow> rat" where
  "get_pending_fee_balance db tenant =
     fl (\<Sum>e\<leftarrow>filter (\<lambda>e. fe_tenant_id e = tenant \<and> fe_status e = ''pending'') (fd_ledger db).
       fe_amount e)"

definition get_max_pending_balance :: "fee_db \<Rightarrow> rat" where
  "get_max_pending_balance db =
    (case fd_rules db of [] \<Rightarrow> 1000
     | r # rs \<Rightarrow> if cr_max_pending_balance r \<noteq> 0 then fl (cr_max_pending_balance r) else 1000)"

definition assert_fee_headroom :: "fee_db \<Rightarrow> uuid \<Rightarrow> exn + unit" where
  "assert_fee_headroom db tenant =
    (if get_max_pending_balance db \<le> get_pending_fee_balance db tenant
     then Inl (ValueError [Txt ''fee_balance_exceeded'']) else Inr ())"

section \<open>The fee of a document\<close>

definition newest_rule :: "commission_rule list \<Rightarrow> commission_rule option" where
  "newest_rule rules =
    (if rules = [] then None
     else Some (last (sort_key (\<lambda>r. (cr_created_at r, map (of_char :: char \<Rightarrow> nat) (cr_id r))) rules)))"

definition get_document_fee :: "fee_db \<Rightarrow> rat" where
  "get_document_fee db =
    (case newest_rule (fd_rules db) of None \<Rightarrow> 0
     | Some r \<Rightarrow> (case cr_document_fee r of None \<Rightarrow> 0 | Some v \<Rightarrow> fl v))"

definition add_fee_entry :: "fee_entry \<Rightarrow> fee_db \<Rightarrow> fee_db" where
  "add_fee_entry e db = db\<lparr>fd_ledger := fd_ledger db @ [e\<lparr>fe_amount := column_value (PFlt (fe_amount e)),
     fe_rate := column_value (PFlt (fe_rate e))\<rparr>]\<rparr>"

definition book_document_fee ::
  "uuid \<Rightarrow> uuid \<Rightarrow> uuid \<Rightarrow> rat option \<Rightarrow> fee_db \<Rightarrow> fee_result option \<times> fee_db" where
  "book_document_fee fid tenant document_id fee_amount db =
    (let fee = (case fee_amount of Some f \<Rightarrow> f | None \<Rightarrow> get_document_fee db) in
     if fee \<le> 0 then (None, db)
     else (Some \<lparr>fr_rule_id = None, fr_label = ''document_fee'', fr_fee_type = ''flat'',
             fr_rate = fee, fr_min_threshold = 0, fr_sale_total = 0, fr_platform_fee = fee,
             fr_settlement_amount = 0\<rparr>,
           add_fee_entry \<lparr>fe_id = fid, fe_tenant_id = tenant, fe_sale_id = None,
             fe_document_id = Some document_id, fe_category = ''document'',
             fe_amount = fl (quant2_half_even (dec_of_str (PFlt fee))), fe_fee_type = ''flat'',
             fe_rate = fl (quant2_half_even (dec_of_str (PFlt fee))), fe_method = ''document'',
             fe_status = ''pending'', fe_settled_at = None\<rparr> db))"

section \<open>Properties of fees\<close>

lemma quant2_cents [simp]: "quant2_half_up (of_int k / 100) = of_int k / 100"
  by (simp add: quant2_half_up_def)

lemma fee_round_cents: "fee_round (of_int k / 100) = kob k"
  by (simp add: fee_round_def kob_def)

text \<open>A rule whose rates are whole kobo (or hundredths of a percent) within range.\<close>

definition rate_ok :: "string \<Rightarrow> rat \<Rightarrow> bool" where
  "rate_ok kind x \<longleftrightarrow> (\<exists>V. x = of_int V / 100 \<and> 0 \<le> V \<and> V \<le> (if kind = ''flat'' then 10 ^ 14 else 10000))"

definition rule_ok :: "commission_rule \<Rightarrow> bool" where
  "rule_ok r \<longleftrightarrow> rate_ok (cr_fee_type r) (cr_amount r) \<and>
     (case cr_cash_amount r of None \<Rightarrow> True | Some a \<Rightarrow> rate_ok (cr_fee_type r) a)"

lemma rate_for_rule_ok: "rule_ok r \<Longrightarrow> rate_ok (cr_fee_type r) (rate_for_rule r m)"
  by (auto simp: rule_ok_def rate_for_rule_def split: option.splits)

lemma rule_fee_cents:
  assumes "rule_ok r" "0 \<le> S" "S \<le> 10 ^ 14"
  shows "\<exists>F. rule_fee r m (of_int S / 100) = of_int F / 100 \<and> 0 \<le> F \<and> F \<le> 10 ^ 14 \<and>
    (cr_fee_type r = ''flat'' \<or> F \<le> S)"
proof -
  obtain V where V: "rate_for_rule r m = of_int V / 100" "0 \<le> V"
    "V \<le> (if cr_fee_type r = ''flat'' then 10 ^ 14 else 10000)"
    using rate_for_rule_ok[OF assms(1), of m] by (auto simp: rate_ok_def)
  show ?thesis
  proof (cases "cr_fee_type r = ''flat''")
    case True
    then show ?thesis unfolding rule_fee_def V(1) using V(2,3) by auto
  next
    case False
    let ?x = "ddiv (dmul (of_int S / 100) (of_int V / 100)) 100"
    have x: "0 \<le> ?x" "?x \<le> of_int S / 100"
      using percent_bounds[OF assms(2,3) V(2)] V(3) False by simp_all
    have "rhu (?x * 100) \<le> rhu (of_int S)" using x by (intro rhu_mono) simp
    moreover have "0 \<le> rhu (?x * 100)" using x by (intro rhu_nonneg) simp
    ultimately show ?thesis unfolding rule_fee_def V(1) quant2_half_up_def using False assms(3)
      by (intro exI[of _ "rhu (?x * 100)"]) simp
  qed
qed

lemma fee_dec: "0 \<le> S \<Longrightarrow> S \<le> 10 ^ 14 \<Longrightarrow> dec_of_str (PFlt (kob S)) = of_int S / 100"
  by (rule dec_of_str_kob) simp

lemma set_ordered_rules [simp]: "set (ordered_rules db) = set (fd_rules db)"
  by (simp add: ordered_rules_def)

text \<open>C18: The platform's fee and what is left for the tenant add up to the base to the kobo. For a
  base of a whole number of kobo and rules with whole rates, percentages at most a hundred, the
  fee and the settlement are whole kobo that sum to the base, the fee is not negative, and a
  percentage never takes more than the base.\<close>

theorem fee_splits_base:
  assumes "\<forall>r \<in> set (fd_rules db). rule_ok r" "0 \<le> S" "S \<le> 10 ^ 14"
  shows "\<exists>F. fr_platform_fee (calculate_platform_fee db (PFlt (kob S)) m) = kob F
    \<and> fr_settlement_amount (calculate_platform_fee db (PFlt (kob S)) m) = kob (S - F)
    \<and> fr_sale_total (calculate_platform_fee db (PFlt (kob S)) m) = kob S
    \<and> 0 \<le> F \<and> (fr_fee_type (calculate_platform_fee db (PFlt (kob S)) m) = ''flat'' \<or> F \<le> S)"
proof (cases "List.find (\<lambda>r. cr_min_threshold r \<le> of_int S / 100) (ordered_rules db)")
  case None
  then show ?thesis
    unfolding calculate_platform_fee_def fee_dec[OF assms(2,3)] Let_def using assms(2,3)
    by (intro exI[of _ 0]) (simp only: option.case fee_result.simps fee_round_cents, simp)
next
  case (Some r)
  then have "rule_ok r" using assms(1) by (auto dest: find_Some_set)
  then obtain F where F: "rule_fee r m (of_int S / 100) = of_int F / 100" "0 \<le> F" "F \<le> 10 ^ 14"
    "cr_fee_type r = ''flat'' \<or> F \<le> S" using rule_fee_cents assms(2,3) by blast
  have "\<bar>S - F\<bar> < 10 ^ 28" using F assms by simp
  then have "dsub (of_int S / 100) (of_int F / 100) = of_int (S - F) / 100"
    using dctx_cents[of "S - F"] by (simp add: dsub_def diff_divide_distrib)
  then show ?thesis
    unfolding calculate_platform_fee_def fee_dec[OF assms(2,3)] Let_def Some option.case fee_result.simps F(1)
      \<open>dsub _ _ = _\<close> fee_round_cents
    using F(2,4) by blast
qed

definition sample_rule :: "string \<Rightarrow> rat \<Rightarrow> rat \<Rightarrow> commission_rule" where
  "sample_rule kind amount threshold = \<lparr>cr_id = kind, cr_label = kind, cr_fee_type = kind,
     cr_amount = amount, cr_cash_amount = None, cr_min_threshold = threshold,
     cr_max_pending_balance = 1000, cr_document_fee = None, cr_created_at = 0\<rparr>"

definition sample_fees :: fee_db where
  "sample_fees = \<lparr>fd_rules = [sample_rule ''flat'' 100 0, sample_rule ''percentage'' 2 5000],
     fd_ledger = []\<rparr>"

lemma sample_fees_ok: "\<forall>r \<in> set (fd_rules sample_fees). rule_ok r"
  by (auto simp: sample_fees_def rule_ok_def rate_ok_def sample_rule_def
      intro: exI[of _ 10000] exI[of _ 200])

theorem fee_splits_base_witness:
  "\<exists>F. fr_platform_fee (calculate_platform_fee sample_fees (PFlt (kob 700000)) None) = kob F \<and> 0 \<le> F"
  using fee_splits_base[OF sample_fees_ok, of 700000 None] by auto

lemma find_sorted_desc:
  assumes "sorted (map (\<lambda>x. - f x) xs)" "List.find (\<lambda>x. f x \<le> t) xs = Some r"
  shows "list_all (\<lambda>x. f x \<le> (f r :: rat)) (filter (\<lambda>x. f x \<le> t) xs)"
  using assms by (induction xs) (auto simp: list_all_iff split: if_splits)

text \<open>The highest reached tier sets the fee. When a rule is applied it is one of the table whose
  threshold the base reaches, and no reached rule has a higher threshold; when none is applied no
  rule of the table is reached, and the fee is nothing.\<close>

theorem highest_tier_applies:
  "case fr_rule_id (calculate_platform_fee db base m) of
     None \<Rightarrow> filter (\<lambda>r. cr_min_threshold r \<le> dec_of_str base) (fd_rules db) = []
       \<and> fr_platform_fee (calculate_platform_fee db base m) = 0
   | Some i \<Rightarrow> (\<exists>r \<in> set (fd_rules db). cr_id r = i \<and> cr_min_threshold r \<le> dec_of_str base
       \<and> fr_platform_fee (calculate_platform_fee db base m) = fee_round (rule_fee r m (dec_of_str base))
       \<and> list_all (\<lambda>x. cr_min_threshold x \<le> cr_min_threshold r)
           (filter (\<lambda>x. cr_min_threshold x \<le> dec_of_str base) (fd_rules db)))"
proof (cases "List.find (\<lambda>r. cr_min_threshold r \<le> dec_of_str base) (ordered_rules db)")
  case None
  then have "filter (\<lambda>r. cr_min_threshold r \<le> dec_of_str base) (fd_rules db) = []"
    by (auto simp: find_None_iff filter_empty_conv)
  then show ?thesis using None by (simp add: calculate_platform_fee_def Let_def)
next
  case (Some r)
  have "list_all (\<lambda>x. cr_min_threshold x \<le> cr_min_threshold r)
      (filter (\<lambda>x. cr_min_threshold x \<le> dec_of_str base) (ordered_rules db))"
    by (rule find_sorted_desc[OF _ Some]) (simp add: ordered_rules_def)
  then have "list_all (\<lambda>x. cr_min_threshold x \<le> cr_min_threshold r)
      (filter (\<lambda>x. cr_min_threshold x \<le> dec_of_str base) (fd_rules db))"
    by (simp add: list_all_iff)
  then show ?thesis using Some find_Some_set[OF Some]
    by (auto simp: calculate_platform_fee_def Let_def)
qed

section \<open>Properties of mixed batches\<close>

text \<open>The shares of the methods that collected something, in kobo.\<close>

definition collecting :: "(string \<times> num) list \<Rightarrow> (string \<times> num) list" where
  "collecting mas = filter (\<lambda>ma. \<not> dec_of_str (snd ma) \<le> 0) mas"

definition share_cents :: "fee_db \<Rightarrow> num \<Rightarrow> rat \<Rightarrow> string \<times> num \<Rightarrow> int" where
  "share_cents db base collected ma = rhu (method_share db base collected (fst ma) (snd ma) * 100)"

lemma method_share_cents:
  "method_share db base collected m a = of_int (share_cents db base collected (m, a)) / 100"
  by (simp add: share_cents_def method_share_def quant2_half_up_def Let_def)

lemma fold_add_share:
  assumes "\<bar>T\<bar> + (\<Sum>ma\<leftarrow>collecting mas. \<bar>share_cents db base collected ma\<bar>) \<le> 10 ^ 20"
  shows "\<exists>rid' new. fold (add_share db base collected) mas (rid, of_int T / 100, shares) =
      (rid', of_int (T + (\<Sum>ma\<leftarrow>collecting mas. share_cents db base collected ma)) / 100, shares @ new)
    \<and> map (\<lambda>s. (fs_method s, fs_amount s)) new =
        map (\<lambda>ma. (fst ma, kob (share_cents db base collected ma))) (collecting mas)"
  using assms
proof (induction mas arbitrary: rid T shares)
  case (Cons ma mas)
  let ?k = "share_cents db base collected ma"
  show ?case
  proof (cases "dec_of_str (snd ma) \<le> 0")
    case True
    then have "add_share db base collected ma (rid, of_int T / 100, shares) = (rid, of_int T / 100, shares)"
      by (cases ma) (simp add: add_share_def)
    then show ?thesis using Cons.IH[of T rid shares] Cons.prems True by (simp add: collecting_def)
  next
    case False
    have b: "\<bar>T + ?k\<bar> + (\<Sum>ma\<leftarrow>collecting mas. \<bar>share_cents db base collected ma\<bar>) \<le> 10 ^ 20"
      using Cons.prems False by (simp add: collecting_def)
    moreover have "0 \<le> (\<Sum>ma\<leftarrow>collecting mas. \<bar>share_cents db base collected ma\<bar>)"
      by (rule sum_list_nonneg) auto
    ultimately have "\<bar>T + ?k\<bar> < 10 ^ 28" by simp
    then have add: "dadd (of_int T / 100) (of_int ?k / 100) = of_int (T + ?k) / 100"
      using dctx_cents[of "T + ?k"] by (simp add: dadd_def add_divide_distrib)
    define res where "res = calculate_platform_fee db base (Some (fst ma))"
    define s where "s = \<lparr>fs_method = fst ma, fs_amount = kob ?k, fs_rate = fr_rate res,
      fs_fee_type = fr_fee_type res\<rparr>"
    have "add_share db base collected ma (rid, of_int T / 100, shares) =
        (fr_rule_id res, of_int (T + ?k) / 100, shares @ [s])"
    proof -
      obtain m a where ma: "ma = (m, a)" by (cases ma)
      show ?thesis using False add unfolding ma
        by (simp only: add_share_def Let_def prod.case method_share_cents fee_round_cents s_def
            res_def ma fst_conv snd_conv if_False)
    qed
    moreover have "fs_method s = fst ma" "fs_amount s = kob ?k" by (simp_all add: s_def)
    moreover have "collecting (ma # mas) = ma # collecting mas" using False by (simp add: collecting_def)
    moreover obtain rid' new where "fold (add_share db base collected) mas
        (fr_rule_id res, of_int (T + ?k) / 100, shares @ [s]) =
        (rid', of_int (T + ?k + (\<Sum>ma\<leftarrow>collecting mas. share_cents db base collected ma)) / 100,
         (shares @ [s]) @ new)"
      "map (\<lambda>s. (fs_method s, fs_amount s)) new =
        map (\<lambda>ma. (fst ma, kob (share_cents db base collected ma))) (collecting mas)"
      using Cons.IH[OF b] by blast
    ultimately show ?thesis
      by (intro exI[of _ rid'] exI[of _ "s # new"]) (simp add: add.assoc del: of_int_add)
  qed
qed (simp add: collecting_def)

text \<open>The shares of a batch that mixes payment methods add up. When the shares stay within
  range, the total fee of the batch is to the kobo the sum of the shares written to the ledger,
  one for each method that collected something, in the order the methods were given.\<close>

theorem batch_fee_is_sum_of_shares:
  assumes "calculate_fee_shares db base mas = Inr res"
    and "py_sum (map snd mas) = Inr collected"
    and "(\<Sum>ma\<leftarrow>collecting mas. \<bar>share_cents db base (dec_of_str collected) ma\<bar>) \<le> 10 ^ 20"
  shows "fs_total_fee res = kob (\<Sum>ma\<leftarrow>collecting mas. share_cents db base (dec_of_str collected) ma)
    \<and> map (\<lambda>s. (fs_method s, fs_amount s)) (fs_shares res) =
        map (\<lambda>ma. (fst ma, kob (share_cents db base (dec_of_str collected) ma))) (collecting mas)"
proof -
  obtain rid new where "fold (add_share db base (dec_of_str collected)) mas (None, of_int 0 / 100, []) =
      (rid, of_int (0 + (\<Sum>ma\<leftarrow>collecting mas. share_cents db base (dec_of_str collected) ma)) / 100, [] @ new)"
    "map (\<lambda>s. (fs_method s, fs_amount s)) new =
        map (\<lambda>ma. (fst ma, kob (share_cents db base (dec_of_str collected) ma))) (collecting mas)"
    using fold_add_share[where T = 0 and mas = mas and db = db and base = base
        and collected = "dec_of_str collected" and rid = None and shares = "[]"] assms(3) by auto
  then show ?thesis using assms(1,2)
    by (auto simp: calculate_fee_shares_def fee_round_cents)
qed

theorem batch_fee_is_sum_of_shares_witness:
  "\<exists>res. calculate_fee_shares sample_fees (PFlt (kob 0)) [(''cash'', PInt 0)] = Inr res
     \<and> fs_total_fee res = kob 0"
proof -
  have sum: "py_sum (map snd [(''cash'', PInt 0)]) = Inr (PInt 0)"
    by (simp add: py_sum_def py_add_def)
  obtain res where res: "calculate_fee_shares sample_fees (PFlt (kob 0)) [(''cash'', PInt 0)] = Inr res"
    unfolding calculate_fee_shares_def sum res_bind.simps by (cases "fold (add_share sample_fees
      (PFlt (kob 0)) (dec_of_str (PInt 0))) [(''cash'', PInt 0)] (None, 0, [])") simp
  show ?thesis using batch_fee_is_sum_of_shares[OF res sum] res by (simp add: collecting_def)
qed

end
