(* ===== verification/Accounting.thy ===== *)
theory Accounting
  imports Taxes Events
begin

text \<open>
  \<open>app/accounting/service.py\<close> with the rows of \<open>models.py\<close>: the chart of accounts, journals and
  their entries, commissions, receivables, payables and expenses. Amounts are floats. The
  clock's date enters journal and expense numbers through \<open>day\<close>, its \<open>YYYYMMDD\<close> text; a
  planning function draws its identifiers in order from \<open>ids\<close>. The results returned next to
  the rows repeat their fields and are not kept, except where they differ from the row.
\<close>

section \<open>Rows\<close>

record chart_account =
  coa_id :: uuid
  coa_tenant_id :: uuid
  coa_code :: string
  coa_name :: string
  coa_account_type :: string
  coa_parent_id :: "uuid option"
  coa_status :: string

record journal =
  jn_id :: uuid
  jn_tenant_id :: uuid
  jn_number :: string
  jn_description :: pytext
  jn_reference_id :: "uuid option"
  jn_reference_type :: "string option"
  jn_status :: string
  jn_posted_by :: "uuid option"
  jn_posted_at :: "timestamp option"
  jn_store_id :: "uuid option"

record journal_entry =
  je_id :: uuid
  je_journal_id :: uuid
  je_tenant_id :: uuid
  je_account_id :: uuid
  je_account_code :: string
  je_debit :: rat
  je_credit :: rat
  je_description :: "string option"
  je_type :: string
  je_status :: string
  je_posted_at :: "timestamp option"
  je_amount :: rat

record commission =
  cm_id :: uuid
  cm_tenant_id :: uuid
  cm_sale_id :: uuid
  cm_user_id :: uuid
  cm_amount :: rat
  cm_rate_pct :: rat
  cm_status :: string
  cm_paid_at :: "timestamp option"

record receivable =
  ar_id :: uuid
  ar_tenant_id :: uuid
  ar_invoice_id :: "uuid option"
  ar_customer_id :: "uuid option"
  ar_customer_name :: string
  ar_invoice_number :: string
  ar_amount :: num
  ar_amount_paid :: num
  ar_balance :: num
  ar_due_date :: timestamp
  ar_status :: string
  ar_store_id :: "uuid option"

record payable =
  ap_id :: uuid
  ap_tenant_id :: uuid
  ap_bill_number :: string
  ap_vendor_name :: string
  ap_description :: "string option"
  ap_amount :: num
  ap_amount_paid :: num
  ap_balance :: num
  ap_due_date :: timestamp
  ap_status :: string
  ap_store_id :: "uuid option"

record expense =
  ex_id :: uuid
  ex_tenant_id :: uuid
  ex_number :: string
  ex_category :: string
  ex_description :: string
  ex_amount :: rat
  ex_vendor :: "string option"
  ex_receipt_url :: "string option"
  ex_date :: timestamp
  ex_account_id :: "uuid option"
  ex_journal_id :: "uuid option"
  ex_store_id :: "uuid option"
  ex_created_by :: uuid

section \<open>Commands\<close>

record account_command =
  cac_tenant_id :: uuid
  cac_code :: string
  cac_name :: string
  cac_account_type :: string
  cac_parent_id :: "uuid option"

record journal_command =
  jc_tenant_id :: uuid
  jc_description :: string
  jc_reference_id :: "uuid option"
  jc_reference_type :: "string option"
  jc_store_id :: "uuid option"

record journal_line =
  jl_account_id :: uuid
  jl_account_code :: string
  jl_debit :: rat
  jl_credit :: rat
  jl_description :: "string option"

record journal_post_command =
  jp_journal_id :: uuid
  jp_actor_id :: "uuid option"
  jp_correlation_id :: "string option"

record commission_command =
  cc_tenant_id :: uuid
  cc_sale_id :: uuid
  cc_user_id :: uuid
  cc_amount :: rat
  cc_rate_pct :: rat

record receivable_command =
  arc_tenant_id :: uuid
  arc_invoice_id :: "uuid option"
  arc_customer_id :: uuid
  arc_customer_name :: string
  arc_invoice_number :: string
  arc_amount :: rat
  arc_due_date :: timestamp
  arc_store_id :: "uuid option"

record payable_command =
  apc_tenant_id :: uuid
  apc_bill_number :: string
  apc_vendor_name :: string
  apc_description :: "string option"
  apc_amount :: rat
  apc_due_date :: timestamp
  apc_store_id :: "uuid option"

record expense_command =
  exc_tenant_id :: uuid
  exc_category :: string
  exc_description :: string
  exc_amount :: rat
  exc_date :: timestamp
  exc_account_id :: "uuid option"
  exc_created_by :: uuid
  exc_vendor :: "string option"
  exc_receipt_url :: "string option"
  exc_store_id :: "uuid option"

section \<open>Numbers and types\<close>

definition journal_number :: "string \<Rightarrow> uuid \<Rightarrow> string" where
  "journal_number day jid = ''JRN-'' @ day @ ''-'' @ map upper_char (take 8 jid)"

definition expense_number :: "string \<Rightarrow> uuid \<Rightarrow> string" where
  "expense_number day eid = ''EXP-'' @ day @ ''-'' @ map upper_char (take 8 eid)"

definition determine_entry_type :: "string \<Rightarrow> string" where
  "determine_entry_type account_code =
    (case account_code of [] \<Rightarrow> ''asset''
     | c # cs \<Rightarrow>
        if c = CHR ''1'' then ''asset''
        else if c = CHR ''2'' then ''liability''
        else if c = CHR ''3'' then ''equity''
        else if c = CHR ''4'' then ''revenue''
        else if c = CHR ''5'' then ''expense''
        else ''asset'')"

section \<open>Chart of accounts\<close>

definition plan_create_account :: "uuid \<Rightarrow> account_command \<Rightarrow> chart_account" where
  "plan_create_account aid command =
     \<lparr>coa_id = aid, coa_tenant_id = cac_tenant_id command, coa_code = cac_code command,
      coa_name = cac_name command, coa_account_type = cac_account_type command,
      coa_parent_id = cac_parent_id command, coa_status = ''active''\<rparr>"

section \<open>Journals\<close>

definition draft_entry ::
  "uuid \<Rightarrow> uuid \<Rightarrow> uuid \<Rightarrow> uuid \<Rightarrow> string \<Rightarrow> rat \<Rightarrow> rat \<Rightarrow> string \<Rightarrow> string \<Rightarrow> rat \<Rightarrow>
   journal_entry" where
  "draft_entry eid jid tenant account code debit credit descr kind amount =
     \<lparr>je_id = eid, je_journal_id = jid, je_tenant_id = tenant, je_account_id = account,
      je_account_code = code, je_debit = debit, je_credit = credit, je_description = Some descr,
      je_type = kind, je_status = ''draft'', je_posted_at = None, je_amount = amount\<rparr>"

definition line_entry ::
  "uuid \<Rightarrow> uuid \<Rightarrow> uuid \<Rightarrow> journal_line \<Rightarrow> journal_entry" where
  "line_entry eid jid tenant line =
     \<lparr>je_id = eid, je_journal_id = jid, je_tenant_id = tenant,
      je_account_id = jl_account_id line, je_account_code = jl_account_code line,
      je_debit = jl_debit line, je_credit = jl_credit line,
      je_description = jl_description line, je_type = determine_entry_type (jl_account_code line),
      je_status = ''draft'', je_posted_at = None,
      je_amount = (if 0 < jl_debit line then fsub (jl_debit line) (jl_credit line)
                   else fsub (jl_credit line) (jl_debit line))\<rparr>"

definition plan_create_journal ::
  "(nat \<Rightarrow> uuid) \<Rightarrow> string \<Rightarrow> journal_command \<Rightarrow> journal_line list \<Rightarrow>
   exn + (journal \<times> journal_entry list \<times> outbox_write list)" where
  "plan_create_journal ids day command lines =
    (let jid = ids 0;
         jn = \<lparr>jn_id = jid, jn_tenant_id = jc_tenant_id command,
           jn_number = journal_number day jid, jn_description = [Txt (jc_description command)],
           jn_reference_id = jc_reference_id command,
           jn_reference_type = jc_reference_type command, jn_status = ''draft'',
           jn_posted_by = None, jn_posted_at = None, jn_store_id = jc_store_id command\<rparr>;
         entries = map2 (\<lambda>n line. line_entry (ids (Suc n)) jid (jc_tenant_id command) line)
           [0..<length lines] lines;
         total_debit = py_fsum (map je_debit entries);
         total_credit = py_fsum (map je_credit entries)
     in if fl (1 / 1000) < \<bar>fsub total_debit total_credit\<bar>
        then Inl (ValueError [Txt ''Journal entries must balance: debits ('',
          Num (PFlt total_debit), Txt '') != credits ('', Num (PFlt total_credit), Txt '')''])
        else Inr (jn, entries, []))"

definition plan_post_journal ::
  "uuid \<Rightarrow> timestamp \<Rightarrow> journal_post_command \<Rightarrow> string \<Rightarrow> uuid \<Rightarrow> string option \<Rightarrow>
   string option \<Rightarrow> outbox_write list \<times> journal" where
  "plan_post_journal eid now command number tenant reference_type reference_id =
    ([\<lparr>ow_event = journal_posted_event eid now tenant (jp_journal_id command) number
         reference_type reference_id (jp_actor_id command) (jp_correlation_id command),
       aggregate_type = ''journal'', aggregate_id = jp_journal_id command\<rparr>],
     \<lparr>jn_id = jp_journal_id command, jn_tenant_id = tenant, jn_number = number,
      jn_description = [], jn_reference_id = None, jn_reference_type = None,
      jn_status = ''posted'', jn_posted_by = jp_actor_id command, jn_posted_at = Some now,
      jn_store_id = None\<rparr>)"

section \<open>Commissions, receivables and payables\<close>

definition plan_record_commission :: "uuid \<Rightarrow> commission_command \<Rightarrow> commission" where
  "plan_record_commission cid command =
     \<lparr>cm_id = cid, cm_tenant_id = cc_tenant_id command, cm_sale_id = cc_sale_id command,
      cm_user_id = cc_user_id command, cm_amount = cc_amount command,
      cm_rate_pct = cc_rate_pct command, cm_status = ''pending'', cm_paid_at = None\<rparr>"

definition plan_create_accounts_receivable :: "uuid \<Rightarrow> receivable_command \<Rightarrow> receivable" where
  "plan_create_accounts_receivable aid command =
     \<lparr>ar_id = aid, ar_tenant_id = arc_tenant_id command,
      ar_invoice_id = arc_invoice_id command, ar_customer_id = Some (arc_customer_id command),
      ar_customer_name = arc_customer_name command,
      ar_invoice_number = arc_invoice_number command, ar_amount = PFlt (arc_amount command),
      ar_amount_paid = PInt 0, ar_balance = PFlt (arc_amount command),
      ar_due_date = arc_due_date command, ar_status = ''pending'',
      ar_store_id = arc_store_id command\<rparr>"

definition plan_create_accounts_payable :: "uuid \<Rightarrow> payable_command \<Rightarrow> payable" where
  "plan_create_accounts_payable aid command =
     \<lparr>ap_id = aid, ap_tenant_id = apc_tenant_id command,
      ap_bill_number = apc_bill_number command, ap_vendor_name = apc_vendor_name command,
      ap_description = apc_description command, ap_amount = PFlt (apc_amount command),
      ap_amount_paid = PInt 0, ap_balance = PFlt (apc_amount command),
      ap_due_date = apc_due_date command, ap_status = ''pending'',
      ap_store_id = apc_store_id command\<rparr>"

definition draft_journal ::
  "uuid \<Rightarrow> uuid \<Rightarrow> string \<Rightarrow> pytext \<Rightarrow> uuid \<Rightarrow> string \<Rightarrow> uuid option \<Rightarrow> journal" where
  "draft_journal jid tenant day descr reference_id reference_type store =
     \<lparr>jn_id = jid, jn_tenant_id = tenant, jn_number = journal_number day jid,
      jn_description = descr, jn_reference_id = Some reference_id,
      jn_reference_type = Some reference_type, jn_status = ''draft'', jn_posted_by = None,
      jn_posted_at = None, jn_store_id = store\<rparr>"

definition plan_record_ar_payment ::
  "(nat \<Rightarrow> uuid) \<Rightarrow> string \<Rightarrow> rat \<Rightarrow> uuid \<Rightarrow> uuid \<Rightarrow>
   journal \<times> journal_entry list \<times> outbox_write list" where
  "plan_record_ar_payment ids day amount arid tenant =
    (draft_journal (ids 0) tenant day [Txt ''AR Payment - '', Num (PFlt amount), Txt '' NGN'']
       arid ''ar_payment'' None,
     [draft_entry (ids 1) (ids 0) tenant (ids 2) ''1000'' amount 0
        ''Cash received - AR payment'' ''asset'' amount,
      draft_entry (ids 3) (ids 0) tenant (ids 4) ''1100'' 0 amount
        ''AR reduction - customer payment'' ''asset'' amount],
     [])"

definition plan_record_ap_payment ::
  "(nat \<Rightarrow> uuid) \<Rightarrow> string \<Rightarrow> rat \<Rightarrow> uuid \<Rightarrow> uuid \<Rightarrow>
   journal \<times> journal_entry list \<times> outbox_write list" where
  "plan_record_ap_payment ids day amount apid tenant =
    (draft_journal (ids 0) tenant day [Txt ''AP Payment - '', Num (PFlt amount), Txt '' NGN'']
       apid ''ap_payment'' None,
     [draft_entry (ids 1) (ids 0) tenant (ids 2) ''2000'' amount 0
        ''AP reduction - vendor payment'' ''liability'' amount,
      draft_entry (ids 3) (ids 0) tenant (ids 4) ''1000'' 0 amount
        ''Cash paid - vendor payment'' ''asset'' amount],
     [])"

section \<open>Expenses\<close>

text \<open>
  \<open>account_id\<close> of the expense line may be absent in the command; the ORM then refuses the
  flush (the column is not nullable), which is outside this function: the line keeps the empty
  identifier.
\<close>

definition plan_create_expense ::
  "(nat \<Rightarrow> uuid) \<Rightarrow> string \<Rightarrow> expense_command \<Rightarrow>
   expense \<times> journal \<times> journal_entry list \<times> outbox_write list" where
  "plan_create_expense ids day command =
    (let eid = ids 0; jid = ids 1; tenant = exc_tenant_id command; amount = exc_amount command in
     (\<lparr>ex_id = eid, ex_tenant_id = tenant, ex_number = expense_number day eid,
       ex_category = exc_category command, ex_description = exc_description command,
       ex_amount = amount, ex_vendor = exc_vendor command,
       ex_receipt_url = exc_receipt_url command, ex_date = exc_date command,
       ex_account_id = exc_account_id command, ex_journal_id = Some jid,
       ex_store_id = exc_store_id command, ex_created_by = exc_created_by command\<rparr>,
      draft_journal jid tenant day [Txt (''Expense: '' @ exc_description command)] eid ''expense''
        (exc_store_id command),
      [draft_entry (ids 2) jid tenant
         (case exc_account_id command of None \<Rightarrow> [] | Some a \<Rightarrow> a) [] amount 0
         (''Expense: '' @ exc_description command) ''expense'' amount,
       draft_entry (ids 3) jid tenant (ids 4) ''1000'' 0 amount
         (''Cash paid: '' @ exc_description command) ''asset'' amount],
      []))"

section \<open>The journal of a sale\<close>

record sale_item_cost =
  sic_cost_price :: "num option"
  sic_qty :: "num option"

record tax_bucket =
  tb_amount :: rat
  tb_names :: "string list"

definition add_tax_bucket ::
  "tax_dict \<Rightarrow> (string \<times> tax_bucket) list \<Rightarrow> (string \<times> tax_bucket) list" where
  "add_tax_bucket line grouped =
    (let code = str_or (td_account_code line) DEFAULT_TAX_ACCOUNT;
         bucket = (case map_of grouped code of
           None \<Rightarrow> \<lparr>tb_amount = 0, tb_names = []\<rparr> | Some b \<Rightarrow> b);
         name = str_or (td_name line) ''Tax''
     in dict_set code
          \<lparr>tb_amount = round2 (fadd (tb_amount bucket) (float_of (td_amount line))),
           tb_names = (if name \<in> set (tb_names bucket) then tb_names bucket
             else tb_names bucket @ [name])\<rparr> grouped)"

fun join_names :: "string \<Rightarrow> string list \<Rightarrow> string" where
  "join_names sep [] = []"
| "join_names sep [n] = n"
| "join_names sep (n # m # ns) = n @ sep @ join_names sep (m # ns)"

definition tax_entries ::
  "(nat \<Rightarrow> uuid) \<Rightarrow> nat \<Rightarrow> uuid \<Rightarrow> string \<Rightarrow> tax_dict list \<Rightarrow> rat \<Rightarrow> journal_entry list" where
  "tax_entries ids n tenant sale_number tax_lines tax_amount =
    (if \<not> 0 < tax_amount then []
     else if tax_lines \<noteq> [] then
       map2 (\<lambda>i (code, bucket). draft_entry (ids (n + 2 * i)) (ids 0) tenant (ids (n + 2 * i + 1))
           code 0 (tb_amount bucket)
           (join_names '' + '' (tb_names bucket) @ '' collected: '' @ sale_number)
           ''liability'' (tb_amount bucket))
         [0..<length (fold add_tax_bucket tax_lines [])] (fold add_tax_bucket tax_lines [])
     else
       [draft_entry (ids n) (ids 0) tenant (ids (n + 1)) ''2300'' 0 tax_amount
          (''VAT collected: '' @ sale_number) ''liability'' tax_amount])"

definition item_cost :: "sale_item_cost \<Rightarrow> rat" where
  "item_cost item = fmul (float_of (sic_cost_price item)) (float_of (sic_qty item))"

definition total_cost :: "sale_item_cost list \<Rightarrow> rat" where
  "total_cost items = py_fsum (map item_cost
     (filter (\<lambda>i. case sic_cost_price i of None \<Rightarrow> False | Some c \<Rightarrow> num_truthy c) items))"

definition sale_tax_amount :: "rat \<Rightarrow> tax_dict list \<Rightarrow> rat" where
  "sale_tax_amount tax_amount tax_lines =
    (if tax_lines \<noteq> [] then round2 (py_fsum (map amount_of tax_lines)) else tax_amount)"

definition sale_debit_account :: "string \<Rightarrow> bool \<Rightarrow> string \<times> string" where
  "sale_debit_account payment_method settled =
    (if settled then
       (if payment_method = ''card'' \<or> payment_method = ''transfer''
        then (''1010'', ''Bank transfer'') else (''1000'', ''Cash''))
     else (''1100'', ''Receivable''))"

text \<open>An absent or empty breakdown is the empty list.\<close>

definition plan_sale_journal ::
  "(nat \<Rightarrow> uuid) \<Rightarrow> string \<Rightarrow> uuid \<Rightarrow> uuid \<Rightarrow> string \<Rightarrow> sale_item_cost list \<Rightarrow> rat \<Rightarrow> rat \<Rightarrow>
   tax_dict list \<Rightarrow> string \<Rightarrow> uuid option \<Rightarrow> bool \<Rightarrow> journal \<times> journal_entry list" where
  "plan_sale_journal ids day tenant sale_id sale_number sale_items tot tax_amount0 tax_lines
     payment_method store settled =
    (let jid = ids 0;
         tax_amount = sale_tax_amount tax_amount0 tax_lines;
         revenue = fsub tot tax_amount;
         (cash_code, cash_label) = sale_debit_account payment_method settled;
         head = [draft_entry (ids 1) jid tenant (ids 2) cash_code tot 0
                   (cash_label @ '' received: '' @ sale_number) ''asset'' tot,
                 draft_entry (ids 3) jid tenant (ids 4) ''4000'' 0 revenue
                   (''Revenue: '' @ sale_number) ''revenue'' revenue];
         taxes = tax_entries ids 5 tenant sale_number tax_lines tax_amount;
         n = 5 + 2 * length taxes;
         cost = total_cost sale_items;
         cogs = (if 0 < cost
           then [draft_entry (ids n) jid tenant (ids (n + 1)) ''5000'' cost 0
                   (''COGS: '' @ sale_number) ''expense'' cost,
                 draft_entry (ids (n + 2)) jid tenant (ids (n + 3)) ''1200'' 0 cost
                   (''Inventory reduction: '' @ sale_number) ''asset'' cost]
           else [])
     in (draft_journal jid tenant day [Txt (''Sale: '' @ sale_number)] sale_id ''sale'' store,
         head @ taxes @ cogs))"

end
