(* ===== verification/Ledger.thy ===== *)
theory Ledger
  imports Accounting "HOL-Library.List_Lexorder"
begin

text \<open>
  The books as stored, and the operations on them: \<open>app/accounting/repository.py\<close>,
  \<open>app/accounting/seed.py\<close>, the accounting flows of \<open>app/common/bridge.py\<close> and the handlers
  of \<open>app/worker/handlers/accounting.py\<close>.

  An operation runs in one transaction: it returns the new books, or an exception and
  nothing changes. A stored amount is what its two-place column holds (\<open>column_value\<close>), and a
  row loaded again carries it as a \<open>Decimal\<close>. Account codes are unique per tenant in practice
  though no constraint says so; a lookup by code takes the first match, a dictionary built from
  the rows the last.
\<close>

record books =
  bk_accounts :: "chart_account list"
  bk_journals :: "journal list"
  bk_entries :: "journal_entry list"
  bk_receivables :: "receivable list"
  bk_payables :: "payable list"
  bk_expenses :: "expense list"
  bk_commissions :: "commission list"

definition no_books :: books where
  "no_books = \<lparr>bk_accounts = [], bk_journals = [], bk_entries = [], bk_receivables = [],
     bk_payables = [], bk_expenses = [], bk_commissions = []\<rparr>"

section \<open>Storing rows\<close>

definition stored_amount :: "rat \<Rightarrow> rat" where
  "stored_amount x = column_value (PFlt x)"

definition stored_entry :: "journal_entry \<Rightarrow> journal_entry" where
  "stored_entry e = e\<lparr>je_debit := stored_amount (je_debit e),
     je_credit := stored_amount (je_credit e), je_amount := stored_amount (je_amount e)\<rparr>"

definition stored_num :: "num \<Rightarrow> num" where
  "stored_num x = PDec (column_value x)"

definition stored_receivable :: "receivable \<Rightarrow> receivable" where
  "stored_receivable r = r\<lparr>ar_amount := stored_num (ar_amount r),
     ar_amount_paid := stored_num (ar_amount_paid r), ar_balance := stored_num (ar_balance r)\<rparr>"

definition stored_payable :: "payable \<Rightarrow> payable" where
  "stored_payable r = r\<lparr>ap_amount := stored_num (ap_amount r),
     ap_amount_paid := stored_num (ap_amount_paid r), ap_balance := stored_num (ap_balance r)\<rparr>"

section \<open>Accounts\<close>

definition get_account_by_code :: "books \<Rightarrow> uuid \<Rightarrow> string \<Rightarrow> chart_account option" where
  "get_account_by_code bk tenant code =
     List.find (\<lambda>a. coa_tenant_id a = tenant \<and> coa_code a = code) (bk_accounts bk)"

definition get_account_by_id :: "books \<Rightarrow> uuid \<Rightarrow> chart_account option" where
  "get_account_by_id bk aid = List.find (\<lambda>a. coa_id a = aid) (bk_accounts bk)"

definition list_accounts :: "books \<Rightarrow> uuid \<Rightarrow> chart_account list" where
  "list_accounts bk tenant =
     sort_key (\<lambda>a. map (of_char :: char \<Rightarrow> nat) (coa_code a))
       (filter (\<lambda>a. coa_tenant_id a = tenant) (bk_accounts bk))"

definition create_account :: "chart_account \<Rightarrow> books \<Rightarrow> books" where
  "create_account a bk = bk\<lparr>bk_accounts := bk_accounts bk @ [a]\<rparr>"

definition update_account ::
  "uuid \<Rightarrow> uuid \<Rightarrow> string \<Rightarrow> books \<Rightarrow> chart_account option \<times> books" where
  "update_account aid tenant name bk =
    (let hit = (\<lambda>a. coa_id a = aid \<and> coa_tenant_id a = tenant) in
     (map_option (\<lambda>a. a\<lparr>coa_name := name\<rparr>) (List.find hit (bk_accounts bk)),
      bk\<lparr>bk_accounts := map (\<lambda>a. if hit a then a\<lparr>coa_name := name\<rparr> else a) (bk_accounts bk)\<rparr>))"

definition toggle_account_status ::
  "uuid \<Rightarrow> uuid \<Rightarrow> string \<Rightarrow> books \<Rightarrow> chart_account option \<times> books" where
  "toggle_account_status aid tenant st bk =
    (let hit = (\<lambda>a. coa_id a = aid \<and> coa_tenant_id a = tenant) in
     (map_option (\<lambda>a. a\<lparr>coa_status := st\<rparr>) (List.find hit (bk_accounts bk)),
      bk\<lparr>bk_accounts := map (\<lambda>a. if hit a then a\<lparr>coa_status := st\<rparr> else a) (bk_accounts bk)\<rparr>))"

definition delete_account :: "uuid \<Rightarrow> uuid \<Rightarrow> books \<Rightarrow> (bool \<times> string) \<times> books" where
  "delete_account aid tenant bk =
    (let hit = (\<lambda>a. coa_id a = aid \<and> coa_tenant_id a = tenant) in
     if List.find hit (bk_accounts bk) = None then ((False, ''Account not found''), bk)
     else if \<exists>e \<in> set (bk_entries bk). je_account_id e = aid
     then ((False, ''Cannot delete account with journal entries''), bk)
     else ((True, []), bk\<lparr>bk_accounts := filter (\<lambda>a. \<not> hit a) (bk_accounts bk)\<rparr>))"

section \<open>The default chart\<close>

text \<open>\<open>app/accounting/seed.py\<close>: code, name and type of every default account.\<close>

definition DEFAULT_ACCOUNTS :: "(string \<times> string \<times> string) list" where
  "DEFAULT_ACCOUNTS =
   [(''1000'', ''Cash'', ''asset''),
    (''1010'', ''Bank Account'', ''asset''),
    (''1100'', ''Accounts Receivable'', ''asset''),
    (''1200'', ''Inventory'', ''asset''),
    (''1300'', ''Prepaid Expenses'', ''asset''),
    (''1500'', ''Equipment'', ''asset''),
    (''2000'', ''Accounts Payable'', ''liability''),
    (''2100'', ''Loans Payable'', ''liability''),
    (''2200'', ''Unearned Revenue'', ''liability''),
    (''2300'', ''VAT Payable'', ''liability''),
    (''2400'', ''Other Taxes Payable'', ''liability''),
    (''3000'', ''Owner's Capital'', ''equity''),
    (''3100'', ''Retained Earnings'', ''equity''),
    (''4000'', ''Sales Revenue'', ''revenue''),
    (''4100'', ''Service Revenue'', ''revenue''),
    (''4200'', ''Other Income'', ''revenue''),
    (''5000'', ''Cost of Goods Sold'', ''expense''),
    (''5100'', ''Rent'', ''expense''),
    (''5200'', ''Utilities'', ''expense''),
    (''5300'', ''Salaries'', ''expense''),
    (''5400'', ''Supplies'', ''expense''),
    (''5500'', ''Transportation'', ''expense''),
    (''5600'', ''Marketing'', ''expense''),
    (''5700'', ''Bank Charges'', ''expense''),
    (''5800'', ''Phone & Internet'', ''expense''),
    (''5900'', ''Miscellaneous'', ''expense'')]"

text \<open>
  The category map opens with a string literal meant as its documentation. Python joins adjacent
  literals, so it is part of the first key.
\<close>

definition doc_key :: string where
  "doc_key = (let nl = [CHR 0x0A] in
     ''Maps expense categories to their corresponding account codes.'' @ nl @
     nl @
     ''    When an expense is recorded with a specific category, this mapping determines'' @ nl @
     ''    which expense account in the Chart of Accounts should be debited.'' @ nl @
     nl @
     ''    Example:'' @ nl @
     ''        If expense category is \"rent\", account code \"5100\" (Rent) is debited.'' @ nl @
     ''        If expense category is \"utilities\", account code \"5200\" (Utilities) is debited.'' @ nl @
     ''    rent'')"

definition EXPENSE_CATEGORY_ACCOUNT_MAP :: "(string \<times> string) list" where
  "EXPENSE_CATEGORY_ACCOUNT_MAP =
   [(doc_key, ''5100''),
    (''utilities'', ''5200''),
    (''salaries'', ''5300''),
    (''supplies'', ''5400''),
    (''transport'', ''5500''),
    (''marketing'', ''5600''),
    (''bank_charges'', ''5700''),
    (''phone_internet'', ''5800''),
    (''maintenance'', ''5900''),
    (''insurance'', ''5900''),
    (''taxes'', ''5900''),
    (''other'', ''5900'')]"

definition seed_chart_of_accounts ::
  "(nat \<Rightarrow> uuid) \<Rightarrow> uuid \<Rightarrow> books \<Rightarrow> books \<times> (string \<times> string \<times> string) list" where
  "seed_chart_of_accounts ids tenant bk =
    (let existing = map coa_code (filter (\<lambda>a. coa_tenant_id a = tenant) (bk_accounts bk));
         missing = filter (\<lambda>d. fst d \<notin> set existing) DEFAULT_ACCOUNTS;
         new_rows = map2 (\<lambda>n (code, name, kind). plan_create_account (ids n)
             \<lparr>cac_tenant_id = tenant, cac_code = code, cac_name = name,
              cac_account_type = kind, cac_parent_id = None\<rparr>)
           [0..<length missing] missing
     in (bk\<lparr>bk_accounts := bk_accounts bk @ new_rows\<rparr>, missing))"

section \<open>Journals\<close>

definition create_journal :: "journal \<Rightarrow> books \<Rightarrow> books" where
  "create_journal j bk = bk\<lparr>bk_journals := bk_journals bk @ [j]\<rparr>"

definition create_journal_entry :: "journal_entry \<Rightarrow> books \<Rightarrow> books" where
  "create_journal_entry e bk = bk\<lparr>bk_entries := bk_entries bk @ [stored_entry e]\<rparr>"

definition get_journal_entries :: "books \<Rightarrow> uuid \<Rightarrow> journal_entry list" where
  "get_journal_entries bk jid = filter (\<lambda>e. je_journal_id e = jid) (bk_entries bk)"

text \<open>\<open>scalar_one\<close> of a missing journal raises \<open>NoResultFound\<close>.\<close>

definition post_journal :: "timestamp \<Rightarrow> uuid \<Rightarrow> uuid option \<Rightarrow> books \<Rightarrow> exn + books" where
  "post_journal now jid posted_by bk =
    (if \<forall>j \<in> set (bk_journals bk). jn_id j \<noteq> jid then Inl (ValueError [Txt ''NoResultFound''])
     else Inr (bk\<lparr>bk_journals := map (\<lambda>j. if jn_id j = jid
       then j\<lparr>jn_status := ''posted'', jn_posted_by := posted_by, jn_posted_at := Some now\<rparr>
       else j) (bk_journals bk)\<rparr>))"

text \<open>
  The bridge's loop: every entry is marked posted with a given time and stored, after the
  journal and before the journal is posted.
\<close>

definition write_posted ::
  "timestamp \<Rightarrow> timestamp option \<Rightarrow> uuid option \<Rightarrow> journal \<Rightarrow> journal_entry list \<Rightarrow> books \<Rightarrow>
   exn + books" where
  "write_posted now posted_at posted_by j es bk =
     post_journal now (jn_id j) posted_by
       (fold (\<lambda>e. create_journal_entry (e\<lparr>je_status := ''posted'', je_posted_at := posted_at\<rparr>)) es
         (create_journal j bk))"

definition mark_commission_paid :: "timestamp \<Rightarrow> uuid \<Rightarrow> books \<Rightarrow> exn + books" where
  "mark_commission_paid now cid bk =
    (if \<forall>c \<in> set (bk_commissions bk). cm_id c \<noteq> cid then Inl (ValueError [Txt ''NoResultFound''])
     else Inr (bk\<lparr>bk_commissions := map (\<lambda>c. if cm_id c = cid
       then c\<lparr>cm_status := ''paid'', cm_paid_at := Some now\<rparr> else c) (bk_commissions bk)\<rparr>))"

section \<open>Payments against receivables and payables\<close>

text \<open>The amounts a payment leaves on a row, or the refusal; shared by the two tables.\<close>

definition apply_payment :: "num \<Rightarrow> num \<Rightarrow> num \<Rightarrow> rat \<Rightarrow> exn + num \<times> num \<times> string" where
  "apply_payment amount paid balance payment =
    (if py_lt balance (PFlt payment)
     then Inl (ValueError [Txt ''Payment amount ('', Num (PFlt payment),
       Txt '') exceeds outstanding balance ('', Num balance, Txt '')''])
     else
      (let paid' = fadd (py_float paid) payment;
           balance' = fsub (py_float amount) paid'
       in Inr (PFlt paid', PFlt balance', if balance' \<le> 0 then ''paid'' else ''partial'')))"

definition update_ar_payment :: "uuid \<Rightarrow> rat \<Rightarrow> books \<Rightarrow> exn + books" where
  "update_ar_payment arid payment bk =
    (case List.find (\<lambda>r. ar_id r = arid) (bk_receivables bk) of
       None \<Rightarrow> Inl (ValueError [Txt ''NoResultFound''])
     | Some r \<Rightarrow>
       res_bind (apply_payment (ar_amount r) (ar_amount_paid r) (ar_balance r) payment)
         (\<lambda>(paid, balance, st).
         Inr (bk\<lparr>bk_receivables := map (\<lambda>x. if ar_id x = arid
           then stored_receivable (r\<lparr>ar_amount_paid := paid, ar_balance := balance,
             ar_status := st\<rparr>) else x) (bk_receivables bk)\<rparr>)))"

definition update_ap_payment :: "uuid \<Rightarrow> rat \<Rightarrow> books \<Rightarrow> exn + books" where
  "update_ap_payment apid payment bk =
    (case List.find (\<lambda>r. ap_id r = apid) (bk_payables bk) of
       None \<Rightarrow> Inl (ValueError [Txt ''NoResultFound''])
     | Some r \<Rightarrow>
       res_bind (apply_payment (ap_amount r) (ap_amount_paid r) (ap_balance r) payment)
         (\<lambda>(paid, balance, st).
         Inr (bk\<lparr>bk_payables := map (\<lambda>x. if ap_id x = apid
           then stored_payable (r\<lparr>ap_amount_paid := paid, ap_balance := balance,
             ap_status := st\<rparr>) else x) (bk_payables bk)\<rparr>)))"

definition resolve_to :: "string \<Rightarrow> uuid \<Rightarrow> journal_entry \<Rightarrow> journal_entry" where
  "resolve_to code account e =
     (if je_account_code e = code then e\<lparr>je_account_id := account\<rparr> else e)"

text \<open>
  \<open>record_ar_payment\<close> and \<open>record_ap_payment\<close> of the bridge. The entries take the journal's
  posting time before the journal is posted, when it has none.
\<close>

definition record_ar_payment ::
  "(nat \<Rightarrow> uuid) \<Rightarrow> timestamp \<Rightarrow> string \<Rightarrow> uuid \<Rightarrow> uuid \<Rightarrow> rat \<Rightarrow> books \<Rightarrow> exn + books" where
  "record_ar_payment ids now day tenant arid amount bk =
    (if \<forall>r \<in> set (bk_receivables bk). ar_id r \<noteq> arid
     then Inl (ValueError [Txt (''Accounts Receivable record not found: '' @ arid)])
     else
       res_bind (update_ar_payment arid amount bk) (\<lambda>bk1.
       case plan_record_ar_payment ids day amount arid tenant of (j, es, _) \<Rightarrow>
       (case (get_account_by_code bk1 tenant ''1000'', get_account_by_code bk1 tenant ''1100'') of
          (Some cash, Some ar) \<Rightarrow>
            write_posted now (jn_posted_at j) None j
              (map (\<lambda>e. resolve_to ''1100'' (coa_id ar) (resolve_to ''1000'' (coa_id cash) e)) es) bk1
        | _ \<Rightarrow> Inr bk1)))"

definition record_ap_payment ::
  "(nat \<Rightarrow> uuid) \<Rightarrow> timestamp \<Rightarrow> string \<Rightarrow> uuid \<Rightarrow> uuid \<Rightarrow> rat \<Rightarrow> books \<Rightarrow> exn + books" where
  "record_ap_payment ids now day tenant apid amount bk =
    (if \<forall>r \<in> set (bk_payables bk). ap_id r \<noteq> apid
     then Inl (ValueError [Txt (''Accounts Payable record not found: '' @ apid)])
     else
       res_bind (update_ap_payment apid amount bk) (\<lambda>bk1.
       case plan_record_ap_payment ids day amount apid tenant of (j, es, _) \<Rightarrow>
       (case (get_account_by_code bk1 tenant ''1000'', get_account_by_code bk1 tenant ''2000'') of
          (Some cash, Some ap) \<Rightarrow>
            write_posted now (jn_posted_at j) None j
              (map (\<lambda>e. resolve_to ''2000'' (coa_id ap) (resolve_to ''1000'' (coa_id cash) e)) es) bk1
        | _ \<Rightarrow> Inr bk1)))"

section \<open>Recording an expense\<close>

record expense_request =
  er_category :: string
  er_description :: string
  er_amount :: rat
  er_date :: timestamp
  er_created_by :: uuid
  er_vendor :: "string option"
  er_receipt_url :: "string option"
  er_store_id :: "uuid option"

definition create_expense ::
  "(nat \<Rightarrow> uuid) \<Rightarrow> timestamp \<Rightarrow> string \<Rightarrow> uuid \<Rightarrow> expense_request \<Rightarrow> books \<Rightarrow> exn + books" where
  "create_expense ids now day tenant r bk =
    (case map_of EXPENSE_CATEGORY_ACCOUNT_MAP (er_category r) of
       None \<Rightarrow> Inl (ValueError [Txt (''Invalid expense category: '' @ [CHR 0x27] @ er_category r @
         [CHR 0x27] @ ''. Valid categories: '' @
         join_names '', '' (map fst EXPENSE_CATEGORY_ACCOUNT_MAP))])
     | Some account_code \<Rightarrow>
       (case get_account_by_code bk tenant account_code of
          None \<Rightarrow> Inl (ValueError [Txt (''Expense account '' @ [CHR 0x27] @ account_code @
            [CHR 0x27] @ '' not found for tenant. Please seed the Chart of Accounts first.'')])
        | Some account \<Rightarrow>
          (case plan_create_expense ids day
              \<lparr>exc_tenant_id = tenant, exc_category = er_category r,
               exc_description = er_description r, exc_amount = er_amount r,
               exc_date = er_date r, exc_account_id = Some (coa_id account),
               exc_created_by = er_created_by r, exc_vendor = er_vendor r,
               exc_receipt_url = er_receipt_url r, exc_store_id = er_store_id r\<rparr> of
            (ex, j, es, _) \<Rightarrow>
            (let es' = (case get_account_by_code bk tenant ''1000'' of
                   None \<Rightarrow> es
                 | Some cash \<Rightarrow> map (\<lambda>e. let e' = resolve_to ''1000'' (coa_id cash) e
                     in if je_account_code e' = [] then e'\<lparr>je_account_code := coa_code account\<rparr>
                        else e') es)
             in res_bind (write_posted now (jn_posted_at j) (Some (er_created_by r)) j es' bk)
                  (\<lambda>bk'. Inr (bk'\<lparr>bk_expenses := bk_expenses bk' @ [ex]\<rparr>))))))"

section \<open>Posting the journal of a sale\<close>

text \<open>
  \<open>_post_sale_journal\<close>: the accounts are fetched by the codes of the entries, and an entry
  without one falls back to Cash where the code says so.
\<close>

definition resolve_entry ::
  "string \<Rightarrow> (string \<times> chart_account) list \<Rightarrow> journal_entry \<Rightarrow> exn + journal_entry" where
  "resolve_entry sale_number code_to_account e =
    (let code = je_account_code e in
     case map_of code_to_account code of
       Some a \<Rightarrow> Inr (e\<lparr>je_account_id := coa_id a\<rparr>)
     | None \<Rightarrow>
       (case (if code = ''1010'' \<or> code = ''1100'' then map_of code_to_account ''1000'' else None) of
          Some a \<Rightarrow> Inr (e\<lparr>je_account_code := ''1000'', je_account_id := coa_id a\<rparr>)
        | None \<Rightarrow> Inl (ValueError [Txt (''Cannot book '' @ sale_number @ '': account '' @ code @
            '' is missing from the chart of accounts'')])))"

definition code_to_account ::
  "books \<Rightarrow> uuid \<Rightarrow> string list \<Rightarrow> (string \<times> chart_account) list" where
  "code_to_account bk tenant wanted =
     rev (map (\<lambda>a. (coa_code a, a))
       (filter (\<lambda>a. coa_tenant_id a = tenant \<and> coa_code a \<in> set wanted) (bk_accounts bk)))"

definition resolve_entries ::
  "books \<Rightarrow> uuid \<Rightarrow> string \<Rightarrow> journal_entry list \<Rightarrow> exn + journal_entry list" where
  "resolve_entries bk tenant sale_number es =
     res_bind (res_fold (\<lambda>e done. res_bind
         (resolve_entry sale_number (code_to_account bk tenant (map je_account_code es)) e)
         (\<lambda>e'. Inr (done @ [e']))) es []) Inr"

text \<open>The customer's name comes from the sale row, read in the same session.\<close>

definition post_sale_journal ::
  "(nat \<Rightarrow> uuid) \<Rightarrow> timestamp \<Rightarrow> string \<Rightarrow> uuid \<Rightarrow> uuid \<Rightarrow> string \<Rightarrow> sale_item_cost list \<Rightarrow>
   rat \<Rightarrow> rat \<Rightarrow> tax_dict list \<Rightarrow> uuid option \<Rightarrow> string \<Rightarrow> uuid option \<Rightarrow> bool \<Rightarrow>
   string option \<Rightarrow> uuid \<Rightarrow> books \<Rightarrow> exn + books" where
  "post_sale_journal ids now day tenant sale_id sale_number sale_items tot tax_amount tax_lines
     cashier payment_method store settled customer_name arid bk =
    (case plan_sale_journal ids day tenant sale_id sale_number sale_items tot tax_amount tax_lines
        payment_method store settled of (j, es) \<Rightarrow>
     res_bind (resolve_entries bk tenant sale_number es) (\<lambda>es'.
     res_bind (write_posted now (Some now) cashier j es' bk) (\<lambda>bk'.
     if \<not> settled \<and> (\<exists>e \<in> set es'. je_account_code e = ''1100'')
     then Inr (bk'\<lparr>bk_receivables := bk_receivables bk' @
       [stored_receivable \<lparr>ar_id = arid, ar_tenant_id = tenant, ar_invoice_id = Some sale_id,
          ar_customer_id = None, ar_customer_name = str_or customer_name ''Walk-in'',
          ar_invoice_number = sale_number, ar_amount = PFlt tot, ar_amount_paid = PInt 0,
          ar_balance = PFlt tot, ar_due_date = now, ar_status = ''pending'',
          ar_store_id = store\<rparr>]\<rparr>)
     else Inr bk')))"

section \<open>Balances\<close>

text \<open>
  SQL sums are exact on the stored two-place values; \<open>float()\<close> rounds them. \<open>in_scope\<close> is the
  filter on the journal's store, absent for the whole business.
\<close>

definition in_scope :: "books \<Rightarrow> uuid option \<Rightarrow> journal_entry \<Rightarrow> bool" where
  "in_scope bk store e = (case store of None \<Rightarrow> True
     | Some s \<Rightarrow> (\<exists>j \<in> set (bk_journals bk). jn_id j = je_journal_id e \<and> jn_store_id j = Some s))"

definition counted :: "books \<Rightarrow> uuid \<Rightarrow> timestamp \<Rightarrow> uuid option \<Rightarrow> journal_entry list" where
  "counted bk account as_at store = filter (\<lambda>e. je_account_id e = account \<and>
     je_status e = ''posted'' \<and>
     (case je_posted_at e of None \<Rightarrow> True | Some t \<Rightarrow> t \<le> as_at) \<and> in_scope bk store e)
     (bk_entries bk)"

definition get_account_balance ::
  "books \<Rightarrow> uuid \<Rightarrow> string \<Rightarrow> timestamp \<Rightarrow> uuid option \<Rightarrow> rat" where
  "get_account_balance bk account kind as_at store =
    (let es = counted bk account as_at store;
         total_debit = fl (\<Sum>e\<leftarrow>es. je_debit e);
         total_credit = fl (\<Sum>e\<leftarrow>es. je_credit e)
     in if kind = ''asset'' \<or> kind = ''expense'' then fsub total_debit total_credit
        else fsub total_credit total_debit)"

definition control_account_balance ::
  "books \<Rightarrow> uuid \<Rightarrow> string \<Rightarrow> timestamp \<Rightarrow> uuid option \<Rightarrow> rat" where
  "control_account_balance bk tenant code as_at store =
    (case get_account_by_code bk tenant code of
       None \<Rightarrow> 0
     | Some a \<Rightarrow> round2 (get_account_balance bk (coa_id a) (coa_account_type a) as_at store))"

definition store_matches :: "uuid option \<Rightarrow> uuid option \<Rightarrow> bool" where
  "store_matches store s = (case store of None \<Rightarrow> True | Some x \<Rightarrow> s = Some x)"

definition sum_ar_balances :: "books \<Rightarrow> uuid \<Rightarrow> uuid option \<Rightarrow> rat" where
  "sum_ar_balances bk tenant store = round2 (fl (\<Sum>r\<leftarrow>filter (\<lambda>r. ar_tenant_id r = tenant \<and>
     store_matches store (ar_store_id r)) (bk_receivables bk). nval (ar_balance r)))"

definition sum_ap_balances :: "books \<Rightarrow> uuid \<Rightarrow> uuid option \<Rightarrow> rat" where
  "sum_ap_balances bk tenant store = round2 (fl (\<Sum>r\<leftarrow>filter (\<lambda>r. ap_tenant_id r = tenant \<and>
     store_matches store (ap_store_id r)) (bk_payables bk). nval (ap_balance r)))"

record balance_sheet =
  bs_assets :: rat
  bs_liabilities :: rat
  bs_equity :: rat
  bs_capital :: rat
  bs_current_earnings :: rat
  bs_revenue :: rat
  bs_expenses :: rat
  bs_balance_check :: rat
  bs_receivable_subledger :: rat
  bs_receivable_control :: rat
  bs_receivable_difference :: rat
  bs_payable_subledger :: rat
  bs_payable_control :: rat
  bs_payable_difference :: rat
  bs_details :: "(string \<times> string \<times> rat) list"

definition ACCOUNT_TYPES :: "string list" where
  "ACCOUNT_TYPES = [''asset'', ''liability'', ''equity'', ''revenue'', ''expense'']"

text \<open>
  The running totals of the sheet, one per account type. The per-account details of the
  assets, liabilities and equity are kept in one list with the account's type.
\<close>

definition sheet_total ::
  "books \<Rightarrow> uuid \<Rightarrow> timestamp \<Rightarrow> uuid option \<Rightarrow> string \<Rightarrow> rat" where
  "sheet_total bk tenant as_at store kind =
     fold (\<lambda>a tot. let b = get_account_balance bk (coa_id a) kind as_at store
         in if b = 0 then tot else fadd tot b)
       (filter (\<lambda>a. coa_account_type a = kind) (list_accounts bk tenant)) 0"

definition sheet_details ::
  "books \<Rightarrow> uuid \<Rightarrow> timestamp \<Rightarrow> uuid option \<Rightarrow> (string \<times> string \<times> rat) list" where
  "sheet_details bk tenant as_at store =
     List.map_filter (\<lambda>a. let b = get_account_balance bk (coa_id a) (coa_account_type a) as_at store
         in if b = 0 then None else Some (coa_account_type a, coa_code a, round2 b))
       (filter (\<lambda>a. coa_account_type a \<in> {''asset'', ''liability'', ''equity''})
         (list_accounts bk tenant))"

definition get_balance_sheet ::
  "books \<Rightarrow> uuid \<Rightarrow> timestamp \<Rightarrow> uuid option \<Rightarrow> balance_sheet" where
  "get_balance_sheet bk tenant as_at store =
    (let total_of = sheet_total bk tenant as_at store;
         capital = round2 (total_of ''equity'');
         current_earnings = round2 (fsub (total_of ''revenue'') (total_of ''expense''));
         equity_total = round2 (fadd capital current_earnings);
         asset_total = round2 (total_of ''asset'');
         liability_total = round2 (total_of ''liability'');
         ar_sub = sum_ar_balances bk tenant store;
         ap_sub = sum_ap_balances bk tenant store;
         ar_control = control_account_balance bk tenant ''1100'' as_at store;
         ap_control = control_account_balance bk tenant ''2000'' as_at store
     in \<lparr>bs_assets = asset_total, bs_liabilities = liability_total, bs_equity = equity_total,
         bs_capital = capital, bs_current_earnings = current_earnings,
         bs_revenue = round2 (total_of ''revenue''), bs_expenses = round2 (total_of ''expense''),
         bs_balance_check = round2 (fsub (fsub asset_total liability_total) equity_total),
         bs_receivable_subledger = ar_sub, bs_receivable_control = ar_control,
         bs_receivable_difference = round2 (fsub ar_sub ar_control),
         bs_payable_subledger = ap_sub, bs_payable_control = ap_control,
         bs_payable_difference = round2 (fsub ap_sub ap_control),
         bs_details = sheet_details bk tenant as_at store\<rparr>)"

section \<open>The worker's accounting handlers\<close>

text \<open>
  \<open>float(x)\<close> of a payload value. A number's text parses back to the nearest double; the text of
  other strings is not parsed here and raises.
\<close>

fun json_float :: "json \<Rightarrow> exn + rat" where
  "json_float (JStrOf x) = Inr (fl (dec_of_str x))"
| "json_float (JNum x) = Inr (py_float x)"
| "json_float (JBool b) = Inr (if b then 1 else 0)"
| "json_float (JStr s) = Inl (ValueError [Txt ''could not convert string to float''])"
| "json_float _ = Inl TypeError"

definition json_str :: "json \<Rightarrow> string option" where
  "json_str v = (case v of JStr s \<Rightarrow> if s = [] then None else Some s | _ \<Rightarrow> None)"

definition payload_tenant :: "envelope \<Rightarrow> string option" where
  "payload_tenant env = opt_or (json_str (jget (payload env) ''tenant_id'')) (ev_tenant_id env)"

definition sale_journals :: "books \<Rightarrow> uuid \<Rightarrow> uuid \<Rightarrow> journal list" where
  "sale_journals bk tenant sale_id = filter (\<lambda>j. jn_tenant_id j = tenant \<and>
     jn_reference_type j = Some ''sale'' \<and> jn_reference_id j = Some sale_id \<and>
     jn_status j = ''posted'') (bk_journals bk)"

definition posted_entry ::
  "timestamp \<Rightarrow> uuid \<Rightarrow> uuid \<Rightarrow> uuid \<Rightarrow> chart_account \<Rightarrow> rat \<Rightarrow> rat \<Rightarrow> string \<Rightarrow> string \<Rightarrow>
   rat \<Rightarrow> journal_entry" where
  "posted_entry now eid jid tenant a debit credit descr kind amount =
     \<lparr>je_id = eid, je_journal_id = jid, je_tenant_id = tenant, je_account_id = coa_id a,
      je_account_code = coa_code a, je_debit = debit, je_credit = credit,
      je_description = Some descr, je_type = kind, je_status = ''posted'',
      je_posted_at = Some now, je_amount = amount\<rparr>"

definition add_posted ::
  "timestamp \<Rightarrow> string \<Rightarrow> uuid \<Rightarrow> uuid \<Rightarrow> string \<Rightarrow> uuid \<Rightarrow> string \<Rightarrow> uuid option \<Rightarrow>
   journal_entry list \<Rightarrow> books \<Rightarrow> books" where
  "add_posted now day jid tenant descr ref_id ref_type store es bk =
     fold create_journal_entry es
       (create_journal \<lparr>jn_id = jid, jn_tenant_id = tenant, jn_number = journal_number day jid,
          jn_description = [Txt descr], jn_reference_id = Some ref_id,
          jn_reference_type = Some ref_type, jn_status = ''posted'', jn_posted_by = None,
          jn_posted_at = Some now, jn_store_id = store\<rparr> bk)"

definition acc_handle_sale_confirmed ::
  "(nat \<Rightarrow> uuid) \<Rightarrow> timestamp \<Rightarrow> string \<Rightarrow> (uuid \<Rightarrow> uuid \<Rightarrow> uuid option) \<Rightarrow> envelope \<Rightarrow> books \<Rightarrow>
   exn + books" where
  "acc_handle_sale_confirmed ids now day sale_store env bk =
    (case (json_str (jget (payload env) ''sale_id''), payload_tenant env) of
       (Some sale_id, Some tenant) \<Rightarrow>
         (if \<not> json_truthy (jget (payload env) ''total'') then Inr bk
          else if sale_journals bk tenant sale_id \<noteq> [] then Inr bk
          else case (get_account_by_code bk tenant ''1000'', get_account_by_code bk tenant ''4000'') of
            (Some cash, Some revenue) \<Rightarrow>
              res_bind (json_float (jget (payload env) ''total'')) (\<lambda>tot.
              Inr (add_posted now day (ids 0) tenant (''Sale '' @ sale_id) sale_id ''sale''
                (sale_store tenant sale_id)
                [posted_entry now (ids 1) (ids 0) tenant cash tot 0
                   (''Sale '' @ sale_id @ '' - cash'') ''asset'' tot,
                 posted_entry now (ids 2) (ids 0) tenant revenue 0 tot
                   (''Sale '' @ sale_id @ '' - revenue'') ''revenue'' tot] bk))
          | _ \<Rightarrow> Inr bk)
     | _ \<Rightarrow> Inr bk)"

definition payment_booked :: "books \<Rightarrow> uuid \<Rightarrow> uuid \<Rightarrow> bool" where
  "payment_booked bk tenant payment_id \<longleftrightarrow> (\<exists>j \<in> set (bk_journals bk). jn_tenant_id j = tenant \<and>
     jn_reference_type j = Some ''payment'' \<and> jn_reference_id j = Some payment_id)"

definition debits_receivable :: "books \<Rightarrow> uuid \<Rightarrow> uuid \<Rightarrow> bool" where
  "debits_receivable bk tenant jid \<longleftrightarrow> (\<exists>e \<in> set (bk_entries bk). je_tenant_id e = tenant \<and>
     je_journal_id e = jid \<and> je_account_code e = ''1100'' \<and> 0 < je_debit e)"

text \<open>
  What the payment's sale journal asks for: nothing was booked for the sale; it was booked and
  paid at once; or it debited receivables and waits for this payment.
\<close>

datatype settlement = NotBooked | AlreadyPaid | SettlesReceivable

definition settlement_of :: "books \<Rightarrow> uuid \<Rightarrow> string option \<Rightarrow> settlement" where
  "settlement_of bk tenant sale_id =
    (case sale_id of None \<Rightarrow> NotBooked
     | Some s \<Rightarrow> (case sale_journals bk tenant s of
         [] \<Rightarrow> NotBooked
       | j # js \<Rightarrow> if debits_receivable bk tenant (jn_id j) then SettlesReceivable
                   else AlreadyPaid))"

definition acc_handle_payment_succeeded ::
  "(nat \<Rightarrow> uuid) \<Rightarrow> timestamp \<Rightarrow> string \<Rightarrow> (uuid \<Rightarrow> uuid \<Rightarrow> uuid option) \<Rightarrow> envelope \<Rightarrow> books \<Rightarrow>
   exn + books" where
  "acc_handle_payment_succeeded ids now day sale_store env bk =
    (case (json_str (jget (payload env) ''payment_id''), payload_tenant env) of
       (Some payment_id, Some tenant) \<Rightarrow>
         (if \<not> json_truthy (jget (payload env) ''amount'') then Inr bk
          else if payment_booked bk tenant payment_id then Inr bk
          else
           (let sale_id = json_str (jget (payload env) ''sale_id'');
                st = settlement_of bk tenant sale_id;
                store = (case sale_id of None \<Rightarrow> None | Some s \<Rightarrow> sale_store tenant s)
            in if st = AlreadyPaid then Inr bk
               else case (get_account_by_code bk tenant ''1100'',
                          get_account_by_code bk tenant ''4000'') of
                 (Some receivable, Some revenue) \<Rightarrow>
                   (if st = SettlesReceivable then
                     (case get_account_by_code bk tenant ''1000'' of
                        None \<Rightarrow> Inr bk
                      | Some cash \<Rightarrow>
                          res_bind (json_float (jget (payload env) ''amount'')) (\<lambda>amount.
                          Inr (add_posted now day (ids 0) tenant (''Payment '' @ payment_id)
                            payment_id ''payment'' store
                            [posted_entry now (ids 1) (ids 0) tenant cash amount 0
                               (''Payment '' @ payment_id @ '' - cash received'') ''asset'' amount,
                             posted_entry now (ids 2) (ids 0) tenant receivable 0 amount
                               (''Payment '' @ payment_id @ '' - settles receivable'') ''asset''
                               amount] bk)))
                    else
                      res_bind (json_float (jget (payload env) ''amount'')) (\<lambda>amount.
                      Inr (add_posted now day (ids 0) tenant (''Payment '' @ payment_id)
                        payment_id ''payment'' store
                        [posted_entry now (ids 1) (ids 0) tenant receivable amount 0
                           (''Payment '' @ payment_id @ '' - receivable'') ''asset'' amount,
                         posted_entry now (ids 2) (ids 0) tenant revenue 0 amount
                           (''Payment '' @ payment_id @ '' - revenue'') ''revenue'' amount] bk)))
               | _ \<Rightarrow> Inr bk))
     | _ \<Rightarrow> Inr bk)"

end
