(* ===== verification/Cart.thy ===== *)
theory Cart
  imports Fees Inventory
begin

text \<open>
  \<open>app/cart\<close>: the rows of \<open>models.py\<close>, the planning functions of \<open>service.py\<close>, the queries of
  \<open>repository.py\<close>, and the cart operations of \<open>app/common/bridge.py\<close>.

  An operation commits the cart's session before it writes the audit trail in another one, so
  it returns the state it leaves together with what the call answers: an exception after the
  commit leaves the committed change. Stock is read through \<open>stock\<close>, the product table through
  \<open>catalog\<close>. Supervisors' PINs are hashed with bcrypt, third-party code: \<open>verify_pin\<close> is a
  parameter. \<open>permitted u p\<close> says that a role of user \<open>u\<close> carries the permission \<open>p\<close>.
\<close>

section \<open>Rows\<close>

text \<open>A cart's name is a required column; \<open>None\<close> is a row built without one.\<close>

record cart =
  ct_id :: uuid
  ct_name :: "string option"
  ct_tenant_id :: uuid
  ct_store_id :: uuid
  ct_session_id :: string
  ct_status :: string
  ct_customer_name :: "string option"
  ct_customer_phone :: "string option"
  ct_created_by :: "uuid option"
  ct_expires_at :: timestamp
  ct_created_at :: timestamp

record cart_item =
  ci_id :: uuid
  ci_cart_id :: uuid
  ci_store_id :: uuid
  ci_product_id :: uuid
  ci_product_public_id :: string
  ci_name :: string
  ci_unit_price :: num
  ci_qty :: num
  ci_created_by :: "uuid option"
  ci_created_at :: timestamp

record audit_row =
  au_user_id :: uuid
  au_tenant_id :: uuid
  au_action :: string
  au_details :: "(string \<times> json) list"

text \<open>A product of the catalog, as far as carts and checkouts read it.\<close>

record product =
  pd_id :: uuid
  pd_tenant_id :: uuid
  pd_public_id :: string
  pd_name :: string
  pd_selling_price :: rat
  pd_block_sale_after_expiry :: bool
  pd_expiry_date :: "int option"

record cart_db =
  cd_carts :: "cart list"
  cd_items :: "cart_item list"
  cd_outbox :: "outbox_write list"
  cd_audit :: "audit_row list"

section \<open>\<open>service.py\<close>\<close>

record cart_create_command =
  ccc_store_id :: uuid
  ccc_customer_name :: "string option"
  ccc_customer_phone :: "string option"

record cart_result =
  cres_id :: uuid
  cres_tenant_id :: uuid
  cres_session_id :: string
  cres_status :: string
  cres_customer_name :: "string option"
  cres_customer_phone :: "string option"
  cres_created_by :: "string option"
  cres_item_count :: nat
  cres_total :: rat

record add_item_command =
  aic_cart_id :: uuid
  aic_tenant_id :: uuid
  aic_store_id :: uuid
  aic_product_id :: uuid
  aic_product_public_id :: string
  aic_name :: string
  aic_unit_price :: rat
  aic_qty :: rat
  aic_created_by :: "uuid option"
  aic_correlation_id :: "string option"

record remove_item_command =
  ric_cart_id :: uuid
  ric_tenant_id :: uuid
  ric_item_id :: uuid
  ric_created_by :: "uuid option"
  ric_approved_by :: "uuid option"
  ric_correlation_id :: "string option"

record checkout_item =
  xi_product_public_id :: string
  xi_qty :: rat

record checkout_command =
  xc_cart_id :: uuid
  xc_tenant_id :: uuid
  xc_items :: "checkout_item list option"
  xc_customer_name :: "string option"
  xc_customer_phone :: "string option"
  xc_created_by :: "uuid option"
  xc_correlation_id :: "string option"

definition plan_cart_creation ::
  "(nat \<Rightarrow> uuid) \<Rightarrow> timestamp \<Rightarrow> cart_create_command \<Rightarrow> uuid \<Rightarrow> uuid option \<Rightarrow> string option \<Rightarrow>
   int \<Rightarrow> cart_result \<times> cart \<times> outbox_write list" where
  "plan_cart_creation ids now c tenant actor corr expires_minutes =
    (let cid = ids 0;
         session_id = ''sess_'' @ take 16 (filter (\<lambda>ch. ch \<noteq> CHR ''-'') (ids 1))
     in (\<lparr>cres_id = cid, cres_tenant_id = tenant, cres_session_id = session_id,
          cres_status = ''active'', cres_customer_name = ccc_customer_name c,
          cres_customer_phone = ccc_customer_phone c, cres_created_by = actor,
          cres_item_count = 0, cres_total = 0\<rparr>,
         \<lparr>ct_id = cid, ct_name = None, ct_tenant_id = tenant, ct_store_id = ccc_store_id c,
          ct_session_id = session_id, ct_status = ''active'',
          ct_customer_name = ccc_customer_name c, ct_customer_phone = ccc_customer_phone c,
          ct_created_by = actor, ct_expires_at = now + 60 * expires_minutes, ct_created_at = now\<rparr>,
         [\<lparr>ow_event = cart_created_event (ids 2) now tenant cid session_id actor corr,
           aggregate_type = ''cart'', aggregate_id = cid\<rparr>]))"

text \<open>The total the code also computes here is not used.\<close>

definition plan_add_item ::
  "uuid \<Rightarrow> uuid \<Rightarrow> timestamp \<Rightarrow> add_item_command \<Rightarrow> cart_item \<times> outbox_write list" where
  "plan_add_item iid eid now c =
    (\<lparr>ci_id = iid, ci_cart_id = aic_cart_id c, ci_store_id = aic_store_id c,
      ci_product_id = aic_product_id c, ci_product_public_id = aic_product_public_id c,
      ci_name = aic_name c, ci_unit_price = PFlt (fl (aic_unit_price c)),
      ci_qty = PFlt (fl (aic_qty c)), ci_created_by = aic_created_by c, ci_created_at = now\<rparr>,
     [\<lparr>ow_event = cart_item_added_event eid now (aic_tenant_id c) (aic_cart_id c) iid
         (aic_product_id c) (PDec (aic_qty c)) (aic_created_by c) (aic_correlation_id c),
       aggregate_type = ''cart_item'', aggregate_id = iid\<rparr>])"

text \<open>A resolved product: its identifier, public identifier, name, price, quantity and store.\<close>

type_synonym resolved_product = "uuid \<times> string \<times> string \<times> rat \<times> rat \<times> uuid"

definition bulk_item ::
  "timestamp \<Rightarrow> checkout_command \<Rightarrow> uuid \<Rightarrow> uuid \<Rightarrow> resolved_product \<Rightarrow> cart_item \<times> outbox_write" where
  "bulk_item now c iid eid p =
    (case p of (product_id, public_id, nm, unit_price, qty, store_id) \<Rightarrow>
     (\<lparr>ci_id = iid, ci_cart_id = xc_cart_id c, ci_store_id = store_id, ci_product_id = product_id,
       ci_product_public_id = public_id, ci_name = nm, ci_unit_price = PFlt (fl unit_price),
       ci_qty = PFlt (fl qty), ci_created_by = xc_created_by c, ci_created_at = now\<rparr>,
      \<lparr>ow_event = cart_item_added_event eid now (xc_tenant_id c) (xc_cart_id c) iid product_id
         (PDec qty) (xc_created_by c) (xc_correlation_id c),
       aggregate_type = ''cart_item'', aggregate_id = iid\<rparr>))"

definition plan_bulk_add_items ::
  "(nat \<Rightarrow> uuid) \<Rightarrow> timestamp \<Rightarrow> checkout_command \<Rightarrow> resolved_product list \<Rightarrow>
   cart_item list \<times> outbox_write list" where
  "plan_bulk_add_items ids now c resolved =
    (let both = map2 (\<lambda>n p. bulk_item now c (ids (2 * n)) (ids (2 * n + 1)) p)
           [0..<length resolved] resolved
     in (map fst both, map snd both))"

definition plan_remove_item ::
  "uuid \<Rightarrow> timestamp \<Rightarrow> remove_item_command \<Rightarrow> cart_item \<Rightarrow> outbox_write list" where
  "plan_remove_item eid now c item =
     [\<lparr>ow_event = cart_item_removed_event eid now (ric_tenant_id c) (ric_cart_id c) (ric_item_id c)
         (ci_product_id item) (ric_created_by c) (ric_approved_by c) (ric_correlation_id c),
       aggregate_type = ''cart_item'', aggregate_id = ric_item_id c\<rparr>]"

text \<open>Lines multiply and add as the runtime types say: a float next to a \<open>Decimal\<close> raises.\<close>

definition items_total :: "cart_item list \<Rightarrow> exn + num" where
  "items_total items =
     res_bind (res_fold (\<lambda>i acc. res_bind (py_mul (ci_unit_price i) (ci_qty i))
       (\<lambda>x. Inr (acc @ [x]))) items []) py_sum"

definition item_data :: "cart_item \<Rightarrow> payload" where
  "item_data i = [(''product_id'', JStr (ci_product_id i)), (''product_name'', JStr (ci_name i)),
     (''qty'', JStrOf (ci_qty i)), (''unit_price'', JStrOf (ci_unit_price i))]"

definition plan_checkout ::
  "uuid \<Rightarrow> timestamp \<Rightarrow> checkout_command \<Rightarrow> cart \<Rightarrow> cart_item list \<Rightarrow> exn + outbox_write list" where
  "plan_checkout eid now c ct items =
     res_bind (if items \<noteq> [] then items_total items else Inr (PInt 0)) (\<lambda>tot.
     Inr [\<lparr>ow_event = cart_checked_out_event eid now (xc_tenant_id c) (xc_cart_id c)
            (ct_session_id ct) (int (length items)) tot (map item_data items) (xc_created_by c)
            (xc_correlation_id c),
          aggregate_type = ''cart'', aggregate_id = xc_cart_id c\<rparr>])"

definition plan_abandon :: "uuid \<Rightarrow> timestamp \<Rightarrow> cart \<Rightarrow> string option \<Rightarrow> outbox_write list" where
  "plan_abandon eid now ct corr =
     [\<lparr>ow_event = cart_abandoned_event eid now (ct_tenant_id ct) (ct_id ct) (ct_session_id ct)
         None corr, aggregate_type = ''cart'', aggregate_id = ct_id ct\<rparr>]"

section \<open>\<open>repository.py\<close>\<close>

definition get_cart_by_session :: "cart_db \<Rightarrow> string \<Rightarrow> cart option" where
  "get_cart_by_session db s = List.find (\<lambda>c. ct_session_id c = s) (cd_carts db)"

definition get_cart_by_id :: "cart_db \<Rightarrow> uuid \<Rightarrow> cart option" where
  "get_cart_by_id db cid = List.find (\<lambda>c. ct_id c = cid) (cd_carts db)"

text \<open>Names are required and unique, and so are session identifiers.\<close>

definition create_cart :: "cart \<Rightarrow> cart_db \<Rightarrow> exn + cart_db" where
  "create_cart c db =
    (if ct_name c = None \<or> (\<exists>x \<in> set (cd_carts db). ct_name x = ct_name c) \<or>
        get_cart_by_session db (ct_session_id c) \<noteq> None
     then Inl (ValueError [Txt ''IntegrityError''])
     else Inr (db\<lparr>cd_carts := cd_carts db @ [c]\<rparr>))"

definition update_cart_status :: "uuid \<Rightarrow> string \<Rightarrow> cart_db \<Rightarrow> exn + cart_db" where
  "update_cart_status cid st db =
    (if get_cart_by_id db cid = None then Inl (ValueError [Txt ''NoResultFound''])
     else Inr (db\<lparr>cd_carts := map (\<lambda>c. if ct_id c = cid then c\<lparr>ct_status := st\<rparr> else c)
       (cd_carts db)\<rparr>))"

definition get_cart_items :: "cart_db \<Rightarrow> uuid \<Rightarrow> cart_item list" where
  "get_cart_items db cid = sort_key ci_created_at (filter (\<lambda>i. ci_cart_id i = cid) (cd_items db))"

definition get_cart_item :: "cart_db \<Rightarrow> uuid \<Rightarrow> cart_item option" where
  "get_cart_item db iid = List.find (\<lambda>i. ci_id i = iid) (cd_items db)"

text \<open>\<open>scalar_one_or_none\<close> raises when a cart has two lines of the product.\<close>

definition get_cart_item_by_product :: "cart_db \<Rightarrow> uuid \<Rightarrow> uuid \<Rightarrow> exn + cart_item option" where
  "get_cart_item_by_product db cid product_id =
    (case filter (\<lambda>i. ci_cart_id i = cid \<and> ci_product_id i = product_id) (cd_items db) of
       [] \<Rightarrow> Inr None | [i] \<Rightarrow> Inr (Some i) | _ \<Rightarrow> Inl (ValueError [Txt ''MultipleResultsFound'']))"

definition stored_cart_item :: "cart_item \<Rightarrow> cart_item" where
  "stored_cart_item i = i\<lparr>ci_unit_price := column_num (ci_unit_price i),
     ci_qty := column_num (ci_qty i)\<rparr>"

definition add_cart_item :: "cart_item \<Rightarrow> cart_db \<Rightarrow> cart_db" where
  "add_cart_item i db = db\<lparr>cd_items := cd_items db @ [stored_cart_item i]\<rparr>"

definition bulk_add_cart_items :: "cart_item list \<Rightarrow> cart_db \<Rightarrow> cart_db" where
  "bulk_add_cart_items items db = db\<lparr>cd_items := cd_items db @ map stored_cart_item items\<rparr>"

definition delete_cart_item :: "uuid \<Rightarrow> cart_db \<Rightarrow> exn + cart_db" where
  "delete_cart_item iid db =
    (if get_cart_item db iid = None then Inl (ValueError [Txt ''NoResultFound''])
     else Inr (db\<lparr>cd_items := filter (\<lambda>i. ci_id i \<noteq> iid) (cd_items db)\<rparr>))"

definition get_active_carts_by_tenant :: "cart_db \<Rightarrow> uuid \<Rightarrow> cart list" where
  "get_active_carts_by_tenant db tenant = sort_key (\<lambda>c. - ct_created_at c)
     (filter (\<lambda>c. ct_tenant_id c = tenant \<and> ct_status c = ''active'') (cd_carts db))"

section \<open>Opening a cart\<close>

definition add_writes :: "outbox_write list \<Rightarrow> cart_db \<Rightarrow> cart_db" where
  "add_writes ws db = db\<lparr>cd_outbox := cd_outbox db @ ws\<rparr>"

text \<open>\<open>create_cart\<close> of the bridge, through the planning function.\<close>

definition open_cart ::
  "(nat \<Rightarrow> uuid) \<Rightarrow> timestamp \<Rightarrow> uuid \<Rightarrow> cart_create_command \<Rightarrow> string option \<Rightarrow> cart_db \<Rightarrow>
   exn + cart_result \<times> cart_db" where
  "open_cart ids now tenant c corr db =
    (case plan_cart_creation ids now c tenant None corr 360 of (res, ct, outbox) \<Rightarrow>
     res_bind (create_cart ct db) (\<lambda>db'. Inr (res, add_writes outbox db')))"

text \<open>The answer is the cart and whether it was resumed. \<open>tag\<close> is the random text of its name.\<close>

definition get_or_create_cart ::
  "uuid \<Rightarrow> string \<Rightarrow> timestamp \<Rightarrow> uuid \<Rightarrow> string \<Rightarrow> uuid \<Rightarrow> string option \<Rightarrow> string option \<Rightarrow>
   uuid option \<Rightarrow> cart_db \<Rightarrow> exn + (cart \<times> bool) \<times> cart_db" where
  "get_or_create_cart cid tag now tenant session_id store_id cust phone created_by db =
    (let fresh = \<lparr>ct_id = cid, ct_name = Some (''CART-'' @ tag), ct_tenant_id = tenant, ct_store_id = store_id,
           ct_session_id = session_id, ct_status = ''active'', ct_customer_name = cust,
           ct_customer_phone = phone, ct_created_by = created_by,
           ct_expires_at = now + 60 * 360, ct_created_at = now\<rparr>;
         create = res_bind (create_cart fresh db) (\<lambda>db'. Inr ((fresh, False), db'))
     in case get_cart_by_session db session_id of
          None \<Rightarrow> create
        | Some c \<Rightarrow>
            if ct_status c = ''active'' \<and> now < ct_expires_at c then Inr ((c, True), db)
            else create)"

definition create_or_resume_cart ::
  "uuid \<Rightarrow> string \<Rightarrow> timestamp \<Rightarrow> fee_db \<Rightarrow> uuid \<Rightarrow> string \<Rightarrow> uuid \<Rightarrow> string option \<Rightarrow> string option \<Rightarrow>
   uuid option \<Rightarrow> cart_db \<Rightarrow> exn + (cart \<times> bool) \<times> cart_db" where
  "create_or_resume_cart cid tag now fees tenant session_id store_id cust phone actor db =
     res_bind (assert_fee_headroom fees tenant) (\<lambda>_.
     get_or_create_cart cid tag now tenant session_id store_id cust phone actor db)"

section \<open>Adding to a cart\<close>

text \<open>\<open>today\<close> counts days like \<open>expiry_date\<close>.\<close>

definition sale_blocked_by_expiry :: "int \<Rightarrow> product \<Rightarrow> bool" where
  "sale_blocked_by_expiry today p =
    (if \<not> pd_block_sale_after_expiry p then False
     else case pd_expiry_date p of None \<Rightarrow> False | Some e \<Rightarrow> e < today)"

definition add_to_cart ::
  "uuid \<Rightarrow> timestamp \<Rightarrow> int \<Rightarrow> (uuid \<Rightarrow> product option) \<Rightarrow> (uuid \<Rightarrow> uuid \<Rightarrow> stock_balance option) \<Rightarrow>
   uuid \<Rightarrow> uuid \<Rightarrow> uuid \<Rightarrow> rat option \<Rightarrow> uuid option \<Rightarrow> cart_db \<Rightarrow> exn + cart_item \<times> cart_db" where
  "add_to_cart iid now today catalog stock tenant cid product_id qty actor db =
    (case get_cart_by_id db cid of
       None \<Rightarrow> Inl (ValueError [Txt ''cart_not_found''])
     | Some ct \<Rightarrow>
       if ct_tenant_id ct \<noteq> tenant then Inl (ValueError [Txt ''cart_not_found''])
       else if ct_status ct \<noteq> ''active'' then Inl (ValueError [Txt ''cart_not_active''])
       else
       (case catalog product_id of
          None \<Rightarrow> Inl (ValueError [Txt ''product_not_found''])
        | Some p \<Rightarrow>
          if pd_tenant_id p \<noteq> tenant then Inl (ValueError [Txt ''product_not_found''])
          else if sale_blocked_by_expiry today p then Inl (ValueError [Txt ''product_expired''])
          else
          res_bind (get_cart_item_by_product db cid product_id) (\<lambda>existing.
          let current = (case existing of Some i \<Rightarrow> py_float (ci_qty i) | None \<Rightarrow> 0);
              new_qty = (case qty of Some q \<Rightarrow> q | None \<Rightarrow> fadd current 1);
              available = (case stock product_id (ct_store_id ct) of
                  Some b \<Rightarrow> py_float (sb_qty b) | None \<Rightarrow> 0)
          in if available < new_qty then Inl (ValueError [Txt ''insufficient_stock''])
             else
             (case existing of
                Some i \<Rightarrow>
                  (let q = (case qty of Some q \<Rightarrow> dec_of_str (PFlt q)
                            | None \<Rightarrow> dadd (dec_of_str (ci_qty i)) 1);
                       i' = i\<lparr>ci_qty := PDec q\<rparr>
                   in Inr (i', db\<lparr>cd_items := map (\<lambda>x. if ci_id x = ci_id i
                        then stored_cart_item i' else x) (cd_items db)\<rparr>))
              | None \<Rightarrow>
                  (let i = \<lparr>ci_id = iid, ci_cart_id = cid, ci_store_id = ct_store_id ct,
                         ci_product_id = product_id, ci_product_public_id = pd_public_id p,
                         ci_name = pd_name p, ci_unit_price = PDec (pd_selling_price p),
                         ci_qty = PDec (case qty of
                             Some q \<Rightarrow> if q = 0 then 1 else dec_of_str (PFlt q) | None \<Rightarrow> 1),
                         ci_created_by = actor, ci_created_at = now\<rparr>
                   in Inr (i, add_cart_item i db))))))"

section \<open>Removing from a cart\<close>

text \<open>
  The details of an audit row are a \<open>Text\<close> column. \<open>remove_cart_item\<close> gives it a dictionary,
  which the driver refuses: the removal is committed by then.
\<close>

definition remove_cart_item ::
  "uuid \<Rightarrow> timestamp \<Rightarrow> uuid \<Rightarrow> uuid \<Rightarrow> uuid option \<Rightarrow> cart_db \<Rightarrow> (exn + unit) \<times> cart_db" where
  "remove_cart_item eid now tenant iid actor db =
    (case get_cart_item db iid of
       None \<Rightarrow> (Inl (ValueError [Txt ''cart_item_not_found'']), db)
     | Some item \<Rightarrow>
        (let c = \<lparr>ric_cart_id = ci_cart_id item, ric_tenant_id = tenant, ric_item_id = iid,
               ric_created_by = actor, ric_approved_by = None, ric_correlation_id = None\<rparr>
         in case delete_cart_item iid db of
              Inl e \<Rightarrow> (Inl e, db)
            | Inr db1 \<Rightarrow>
               (if actor = None then Inr () else Inl (ValueError [Txt ''DataError'']),
                add_writes (plan_remove_item eid now c item) db1)))"

text \<open>A PIN row: the user it belongs to, its hash and its expiry; a user: tenant and status.\<close>

record pin_row =
  pin_user_id :: uuid
  pin_hash :: string
  pin_expires_at :: timestamp

definition valid_pins :: "timestamp \<Rightarrow> (uuid \<Rightarrow> (uuid \<times> string) option) \<Rightarrow> uuid \<Rightarrow> pin_row list \<Rightarrow> pin_row list" where
  "valid_pins now users tenant pins =
     filter (\<lambda>p. now < pin_expires_at p \<and> users (pin_user_id p) = Some (tenant, ''active'')) pins"

definition find_supervisor ::
  "(string \<Rightarrow> string \<Rightarrow> bool) \<Rightarrow> (uuid \<Rightarrow> string \<Rightarrow> bool) \<Rightarrow> timestamp \<Rightarrow>
   (uuid \<Rightarrow> (uuid \<times> string) option) \<Rightarrow> uuid \<Rightarrow> pin_row list \<Rightarrow> string \<Rightarrow> uuid option" where
  "find_supervisor verify_pin permitted now users tenant pins pin =
     map_option pin_user_id (List.find
       (\<lambda>p. verify_pin pin (pin_hash p) \<and> permitted (pin_user_id p) ''cart:delete'')
       (valid_pins now users tenant pins))"

definition void_details :: "cart_item \<Rightarrow> uuid \<Rightarrow> rat \<Rightarrow> rat \<Rightarrow> (string \<times> json) list" where
  "void_details item supervisor voided remaining =
     [(''item_id'', JStr (ci_id item)), (''cart_id'', JStr (ci_cart_id item)),
      (''product_id'', JStr (ci_product_id item)), (''product_name'', JStr (ci_name item)),
      (''qty_voided'', JNum (PFlt voided)), (''qty_remaining'', JNum (PFlt remaining)),
      (''unit_price'', JStrOf (ci_unit_price item)), (''supervisor_id'', JStr supervisor)]"

definition void_cart_item ::
  "uuid \<Rightarrow> timestamp \<Rightarrow> (string \<Rightarrow> uuid option) \<Rightarrow> uuid \<Rightarrow> uuid \<Rightarrow> uuid \<Rightarrow> string \<Rightarrow> rat option \<Rightarrow>
   cart_db \<Rightarrow> exn + cart_db" where
  "void_cart_item eid now supervisor_of tenant iid actor pin qty db =
    (case supervisor_of pin of
       None \<Rightarrow> Inl (ValueError [Txt ''invalid_supervisor_pin''])
     | Some supervisor \<Rightarrow>
      (case get_cart_item db iid of
         None \<Rightarrow> Inl (ValueError [Txt ''cart_item_not_found''])
       | Some item \<Rightarrow>
          (let item_qty = py_float (ci_qty item);
               void_qty = min (case qty of Some q \<Rightarrow> q | None \<Rightarrow> item_qty) item_qty;
               c = \<lparr>ric_cart_id = ci_cart_id item, ric_tenant_id = tenant, ric_item_id = iid,
                 ric_created_by = Some actor, ric_approved_by = Some supervisor,
                 ric_correlation_id = None\<rparr>;
               left = dec_of_str (PFlt (fsub item_qty void_qty));
               audit = \<lparr>au_user_id = actor, au_tenant_id = tenant,
                 au_action = ''cart_void_approved'',
                 au_details = void_details item supervisor void_qty (max 0 (fsub item_qty void_qty))\<rparr>
           in res_bind
                (if item_qty \<le> void_qty
                 then res_bind (delete_cart_item iid db)
                   (\<lambda>db1. Inr (add_writes (plan_remove_item eid now c item) db1))
                 else Inr (db\<lparr>cd_items := map (\<lambda>x. if ci_id x = iid
                   then stored_cart_item (item\<lparr>ci_qty := PDec left\<rparr>) else x) (cd_items db)\<rparr>))
                (\<lambda>db2. Inr (db2\<lparr>cd_audit := cd_audit db2 @ [audit]\<rparr>)))))"

definition clear_details :: "cart_item \<Rightarrow> uuid \<Rightarrow> (string \<times> json) list" where
  "clear_details item supervisor =
     [(''item_id'', JStr (ci_id item)), (''cart_id'', JStr (ci_cart_id item)),
      (''product_id'', JStr (ci_product_id item)), (''product_name'', JStr (ci_name item)),
      (''qty'', JStrOf (ci_qty item)), (''unit_price'', JStrOf (ci_unit_price item)),
      (''supervisor_id'', JStr supervisor)]"

definition clear_cart ::
  "(nat \<Rightarrow> uuid) \<Rightarrow> timestamp \<Rightarrow> (string \<Rightarrow> uuid option) \<Rightarrow> uuid \<Rightarrow> uuid \<Rightarrow> uuid \<Rightarrow> string \<Rightarrow>
   cart_db \<Rightarrow> exn + nat \<times> cart_db" where
  "clear_cart ids now supervisor_of tenant cid actor pin db =
    (case supervisor_of pin of
       None \<Rightarrow> Inl (ValueError [Txt ''invalid_supervisor_pin''])
     | Some supervisor \<Rightarrow>
      (case get_cart_by_id db cid of
         None \<Rightarrow> Inl (ValueError [Txt ''cart_not_found''])
       | Some ct \<Rightarrow>
         if ct_tenant_id ct \<noteq> tenant then Inl (ValueError [Txt ''cart_not_found''])
         else if ct_status ct \<noteq> ''active'' then Inl (ValueError [Txt ''cart_not_active''])
         else
          (let items = get_cart_items db cid;
               command = (\<lambda>i. \<lparr>ric_cart_id = ci_cart_id i, ric_tenant_id = tenant,
                 ric_item_id = ci_id i, ric_created_by = Some actor,
                 ric_approved_by = Some supervisor, ric_correlation_id = None\<rparr>);
               audit = map (\<lambda>i. \<lparr>au_user_id = actor, au_tenant_id = tenant,
                   au_action = ''cart_void_approved'', au_details = clear_details i supervisor\<rparr>) items
                 @ [\<lparr>au_user_id = actor, au_tenant_id = tenant, au_action = ''cart_cleared'',
                   au_details = [(''cart_id'', JStr cid),
                     (''items_cleared'', jint (int (length items))),
                     (''supervisor_id'', JStr supervisor)]\<rparr>]
           in res_bind
                (res_fold (\<lambda>(n, i) d. res_bind (delete_cart_item (ci_id i) d)
                     (\<lambda>d'. Inr (add_writes (plan_remove_item (ids n) now (command i) i) d')))
                   (zip [0..<length items] items) db)
                (\<lambda>db'. Inr (length items, db'\<lparr>cd_audit := cd_audit db' @ audit\<rparr>)))))"

section \<open>Reading carts\<close>

definition get_cart :: "cart_db \<Rightarrow> uuid \<Rightarrow> exn + cart \<times> cart_item list" where
  "get_cart db cid =
    (case get_cart_by_id db cid of
       None \<Rightarrow> Inl (ValueError [Txt ''cart_not_found''])
     | Some ct \<Rightarrow> Inr (ct, get_cart_items db cid))"

text \<open>An active cart with the number of its items and their total, which the database adds up.\<close>

definition list_carts :: "cart_db \<Rightarrow> uuid \<Rightarrow> (cart \<times> nat \<times> rat) list" where
  "list_carts db tenant =
     map (\<lambda>c. let items = filter (\<lambda>i. ci_cart_id i = ct_id c) (cd_items db)
          in (c, length items, fl (\<Sum>i\<leftarrow>items. nval (ci_unit_price i) * nval (ci_qty i))))
       (get_active_carts_by_tenant db tenant)"

end
