(* ===== verification/Payments.thy ===== *)
theory Payments
  imports Fees Ledger Cart
begin

text \<open>
  \<open>app/payments\<close>: the rows of \<open>models.py\<close>, the planning functions of \<open>service.py\<close>, the queries of
  \<open>repository.py\<close>, and the payment operations of \<open>app/common/bridge.py\<close> that take or settle money.

  One database serves every session, so an operation is a function on \<open>till\<close>, the tables it
  reads and writes; it returns the new state, or an exception and nothing is committed. Row
  objects keep the values the code gives them. The gateway's answers (a payment link, a virtual
  account) come from a third party and are arguments.
\<close>

section \<open>Rows\<close>

record payment =
  py_id :: uuid
  py_tenant_id :: uuid
  py_sale_id :: uuid
  py_method :: string
  py_amount :: num
  py_currency :: string
  py_status :: string
  py_reference :: "string option"
  py_gateway_reference :: "string option"
  py_created_at :: timestamp

text \<open>The snapshot of a cart and the metadata of a settlement are JSON texts with fixed keys.\<close>

record snapshot_item =
  sn_product_public_id :: string
  sn_qty :: rat
  sn_unit_price :: rat

record cart_snapshot =
  snap_items :: "snapshot_item list"
  snap_store_id :: "uuid option"
  snap_actor_id :: "uuid option"
  snap_total :: rat
  snap_discount :: rat
  snap_final_total :: rat

datatype intent_metadata =
    NoMetadata
  | OtherMetadata
  | Settlement "uuid list" "uuid option"

record payment_intent =
  pi_id :: uuid
  pi_tenant_id :: uuid
  pi_sale_id :: "uuid option"
  pi_cart_id :: "uuid option"
  pi_method :: string
  pi_amount :: num
  pi_currency :: string
  pi_status :: string
  pi_gateway_reference :: "string option"
  pi_authorization_url :: "string option"
  pi_dva_account_number :: "string option"
  pi_bank_name :: "string option"
  pi_customer_name :: "string option"
  pi_customer_phone :: "string option"
  pi_coupon_code :: "string option"
  pi_cart_snapshot :: "cart_snapshot option"
  pi_expires_at :: "timestamp option"
  pi_metadata :: intent_metadata
  pi_created_at :: timestamp

record subaccount =
  su_id :: uuid
  su_tenant_id :: uuid
  su_code :: string
  su_account_number :: string
  su_bank_code :: string
  su_bank_name :: "string option"
  su_business_name :: string
  su_percentage_charge :: rat
  su_is_active :: bool
  su_created_at :: timestamp

record virtual_account =
  va_id :: uuid
  va_tenant_id :: uuid
  va_customer_email :: string
  va_customer_name :: "string option"
  va_customer_code :: string
  va_account_number :: string
  va_account_name :: "string option"
  va_bank_name :: "string option"
  va_bank_code :: "string option"
  va_dva_id :: "string option"
  va_is_active :: bool

record till =
  tb_sales :: sales_db
  tb_fees :: fee_db
  tb_payments :: "payment list"
  tb_intents :: "payment_intent list"
  tb_subaccounts :: "subaccount list"
  tb_dvas :: "virtual_account list"
  tb_books :: books
  tb_outbox :: "outbox_write list"

section \<open>\<open>service.py\<close>\<close>

record payment_intent_command =
  pic_tenant_id :: uuid
  pic_sale_id :: uuid
  pic_method :: string
  pic_amount :: rat
  pic_currency :: string
  pic_correlation_id :: "string option"

record payment_intent_result =
  pir_payment_id :: uuid
  pir_reference :: string
  pir_amount :: rat
  pir_expires_at :: timestamp

definition new_intent ::
  "uuid \<Rightarrow> timestamp \<Rightarrow> uuid \<Rightarrow> uuid option \<Rightarrow> string \<Rightarrow> rat \<Rightarrow> string \<Rightarrow> payment_intent" where
  "new_intent iid now tenant sale_id method amount reference =
     \<lparr>pi_id = iid, pi_tenant_id = tenant, pi_sale_id = sale_id, pi_cart_id = None,
      pi_method = method, pi_amount = PFlt (fl amount), pi_currency = ''NGN'',
      pi_status = ''pending'', pi_gateway_reference = Some reference,
      pi_authorization_url = None, pi_dva_account_number = None, pi_bank_name = None,
      pi_customer_name = None, pi_customer_phone = None, pi_coupon_code = None,
      pi_cart_snapshot = None, pi_expires_at = None, pi_metadata = NoMetadata,
      pi_created_at = now\<rparr>"

definition tx_hex :: "nat \<Rightarrow> uuid \<Rightarrow> string" where
  "tx_hex n u = map upper_char (take n (filter (\<lambda>c. c \<noteq> CHR ''-'') u))"

definition plan_payment_intent ::
  "(nat \<Rightarrow> uuid) \<Rightarrow> timestamp \<Rightarrow> payment_intent_command \<Rightarrow>
   payment_intent_result \<times> payment_intent \<times> outbox_write list" where
  "plan_payment_intent ids now c =
    (let pid = ids 0; reference = ''SF-'' @ tx_hex 16 (ids 1); expires = now + 60 * 30
     in (\<lparr>pir_payment_id = pid, pir_reference = reference, pir_amount = pic_amount c,
          pir_expires_at = expires\<rparr>,
         (new_intent pid now (pic_tenant_id c) (Some (pic_sale_id c)) (pic_method c)
            (pic_amount c) reference)\<lparr>pi_currency := pic_currency c, pi_expires_at := Some expires,
            pi_metadata := OtherMetadata\<rparr>,
         [\<lparr>ow_event = payment_intent_created_event (ids 2) now (pic_tenant_id c) pid
             (pic_sale_id c) (PDec (pic_amount c)) (pic_method c) reference
             (pic_correlation_id c),
           aggregate_type = ''payment_intent'', aggregate_id = pid\<rparr>]))"

definition plan_payment_success ::
  "uuid \<Rightarrow> timestamp \<Rightarrow> uuid \<Rightarrow> uuid \<Rightarrow> uuid \<Rightarrow> num \<Rightarrow> string \<Rightarrow> string option \<Rightarrow>
   string option \<Rightarrow> string option \<Rightarrow> outbox_write list" where
  "plan_payment_success eid now tenant payment_id sale_id amount method reference
     gateway_reference corr =
     [\<lparr>ow_event = payment_succeeded_event eid now tenant payment_id sale_id amount method
         reference gateway_reference corr,
       aggregate_type = ''payment'', aggregate_id = payment_id\<rparr>]"

definition plan_payment_failure ::
  "uuid \<Rightarrow> timestamp \<Rightarrow> uuid \<Rightarrow> uuid \<Rightarrow> uuid \<Rightarrow> string \<Rightarrow> string option \<Rightarrow> outbox_write list" where
  "plan_payment_failure eid now tenant payment_id sale_id reason corr =
     [\<lparr>ow_event = payment_failed_event eid now tenant payment_id sale_id reason corr,
       aggregate_type = ''payment'', aggregate_id = payment_id\<rparr>]"

section \<open>\<open>repository.py\<close>\<close>

definition get_intent_by_reference :: "till \<Rightarrow> string \<Rightarrow> payment_intent option" where
  "get_intent_by_reference t r =
     List.find (\<lambda>i. pi_gateway_reference i = Some r) (tb_intents t)"

definition get_intent_by_id :: "till \<Rightarrow> uuid \<Rightarrow> payment_intent option" where
  "get_intent_by_id t iid = List.find (\<lambda>i. pi_id i = iid) (tb_intents t)"

definition create_intent :: "payment_intent \<Rightarrow> till \<Rightarrow> till" where
  "create_intent i t = t\<lparr>tb_intents := tb_intents t @ [i\<lparr>pi_amount := column_num (pi_amount i)\<rparr>]\<rparr>"

definition change_intents :: "(payment_intent \<Rightarrow> bool) \<Rightarrow> (payment_intent \<Rightarrow> payment_intent) \<Rightarrow> till \<Rightarrow> till" where
  "change_intents P f t = t\<lparr>tb_intents := map (\<lambda>i. if P i then f i else i) (tb_intents t)\<rparr>"

definition update_intent_status :: "uuid \<Rightarrow> string \<Rightarrow> till \<Rightarrow> exn + till" where
  "update_intent_status iid st t =
    (if get_intent_by_id t iid = None then Inl (ValueError [Txt ''NoResultFound''])
     else Inr (change_intents (\<lambda>i. pi_id i = iid) (\<lambda>i. i\<lparr>pi_status := st\<rparr>) t))"

definition cancel_pending_intents_by_sale :: "uuid \<Rightarrow> till \<Rightarrow> nat \<times> till" where
  "cancel_pending_intents_by_sale sale_id t =
    (let P = (\<lambda>i. pi_sale_id i = Some sale_id \<and> pi_status i = ''pending'')
     in (length (filter P (tb_intents t)), change_intents P (\<lambda>i. i\<lparr>pi_status := ''cancelled''\<rparr>) t))"

definition cancel_intent :: "uuid \<Rightarrow> till \<Rightarrow> bool \<times> till" where
  "cancel_intent iid t =
    (let P = (\<lambda>i. pi_id i = iid \<and> pi_status i = ''pending'')
     in (List.find P (tb_intents t) \<noteq> None, change_intents P (\<lambda>i. i\<lparr>pi_status := ''cancelled''\<rparr>) t))"

definition starts_with :: "string \<Rightarrow> string \<Rightarrow> bool" where
  "starts_with pre s = (take (length pre) s = pre)"

definition is_settlement_ref :: "payment_intent \<Rightarrow> bool" where
  "is_settlement_ref i = starts_with ''SF-SETTLE-''
     (case pi_gateway_reference i of None \<Rightarrow> [] | Some r \<Rightarrow> r)"

definition get_pending_intents_by_tenant :: "till \<Rightarrow> uuid \<Rightarrow> payment_intent list" where
  "get_pending_intents_by_tenant t tenant = sort_key (\<lambda>i. - pi_created_at i)
     (filter (\<lambda>i. pi_tenant_id i = tenant \<and> pi_status i = ''pending'' \<and> \<not> is_settlement_ref i)
       (tb_intents t))"

definition create_payment :: "payment \<Rightarrow> till \<Rightarrow> till" where
  "create_payment p t = t\<lparr>tb_payments := tb_payments t @ [p\<lparr>py_amount := column_num (py_amount p)\<rparr>]\<rparr>"

definition get_payments_by_sale :: "till \<Rightarrow> uuid \<Rightarrow> payment list" where
  "get_payments_by_sale t sale_id =
     sort_key (\<lambda>p. - py_created_at p) (filter (\<lambda>p. py_sale_id p = sale_id) (tb_payments t))"

definition get_subaccount_by_tenant :: "till \<Rightarrow> uuid \<Rightarrow> exn + subaccount option" where
  "get_subaccount_by_tenant t tenant =
    (case filter (\<lambda>s. su_tenant_id s = tenant \<and> su_is_active s) (tb_subaccounts t) of
       [] \<Rightarrow> Inr None | [s] \<Rightarrow> Inr (Some s) | _ \<Rightarrow> Inl (ValueError [Txt ''MultipleResultsFound'']))"

definition get_subaccount_by_code :: "till \<Rightarrow> string \<Rightarrow> subaccount option" where
  "get_subaccount_by_code t code = List.find (\<lambda>s. su_code s = code) (tb_subaccounts t)"

definition list_subaccounts :: "till \<Rightarrow> subaccount list" where
  "list_subaccounts t =
     sort_key (\<lambda>s. - su_created_at s) (filter su_is_active (tb_subaccounts t))"

definition upsert_subaccount :: "subaccount \<Rightarrow> till \<Rightarrow> exn + subaccount \<times> till" where
  "upsert_subaccount s t =
     res_bind (get_subaccount_by_tenant t (su_tenant_id s)) (\<lambda>existing.
     case existing of
       None \<Rightarrow> Inr (s, t\<lparr>tb_subaccounts := tb_subaccounts t @ [s]\<rparr>)
     | Some e \<Rightarrow>
        (let e' = e\<lparr>su_code := su_code s, su_account_number := su_account_number s,
               su_bank_code := su_bank_code s, su_bank_name := su_bank_name s,
               su_business_name := su_business_name s,
               su_percentage_charge := su_percentage_charge s\<rparr>
         in Inr (e', t\<lparr>tb_subaccounts := map (\<lambda>x. if su_id x = su_id e then e' else x)
              (tb_subaccounts t)\<rparr>)))"


definition get_dva_by_tenant :: "till \<Rightarrow> uuid \<Rightarrow> exn + virtual_account option" where
  "get_dva_by_tenant t tenant =
    (case filter (\<lambda>d. va_tenant_id d = tenant \<and> va_is_active d) (tb_dvas t) of
       [] \<Rightarrow> Inr None | [d] \<Rightarrow> Inr (Some d) | _ \<Rightarrow> Inl (ValueError [Txt ''MultipleResultsFound'']))"

definition upsert_dva :: "virtual_account \<Rightarrow> till \<Rightarrow> exn + virtual_account \<times> till" where
  "upsert_dva d t =
     res_bind (get_dva_by_tenant t (va_tenant_id d)) (\<lambda>existing.
     case existing of
       None \<Rightarrow> Inr (d, t\<lparr>tb_dvas := tb_dvas t @ [d]\<rparr>)
     | Some e \<Rightarrow>
        (let e' = e\<lparr>va_account_number := va_account_number d, va_account_name := va_account_name d,
               va_bank_name := va_bank_name d, va_bank_code := va_bank_code d,
               va_customer_code := va_customer_code d, va_customer_email := va_customer_email d,
               va_customer_name := va_customer_name d, va_dva_id := va_dva_id d\<rparr>
         in Inr (e', t\<lparr>tb_dvas := map (\<lambda>x. if va_id x = va_id e then e' else x) (tb_dvas t)\<rparr>)))"

section \<open>Recording a payment\<close>

text \<open>
  The receivable of an unpaid sale. Past the guards the code calls \<open>get_account_by_code\<close>, a name
  its module does not define and the function does not import: \<open>NameError\<close>. What follows in the
  function is never reached and has no model.
\<close>

definition open_receivable :: "books \<Rightarrow> uuid \<Rightarrow> sale \<Rightarrow> receivable option" where
  "open_receivable bk tenant s = List.find (\<lambda>r. ar_tenant_id r = tenant \<and>
     (ar_invoice_id r = Some (so_id s) \<or> ar_invoice_number r = so_number s) \<and>
     ar_status r \<noteq> ''paid'') (bk_receivables bk)"

definition settle_sale_receivable :: "uuid \<Rightarrow> sale \<Rightarrow> rat \<Rightarrow> till \<Rightarrow> exn + till" where
  "settle_sale_receivable tenant s amount t =
    (case open_receivable (tb_books t) tenant s of
       None \<Rightarrow> Inr t
     | Some ar \<Rightarrow>
        if min amount (dec_of_str (ar_balance ar)) \<le> 0 then Inr t
        else Inl (NameError ''get_account_by_code''))"

definition new_payment ::
  "uuid \<Rightarrow> timestamp \<Rightarrow> uuid \<Rightarrow> uuid \<Rightarrow> string \<Rightarrow> rat \<Rightarrow> string option \<Rightarrow> payment" where
  "new_payment pid now tenant sale_id method amount reference =
     \<lparr>py_id = pid, py_tenant_id = tenant, py_sale_id = sale_id, py_method = method,
      py_amount = PFlt amount, py_currency = ''NGN'', py_status = ''completed'',
      py_reference = reference, py_gateway_reference = reference, py_created_at = now\<rparr>"

definition put_sale :: "sale \<Rightarrow> till \<Rightarrow> till" where
  "put_sale s t = t\<lparr>tb_sales := (tb_sales t)\<lparr>db_sales := map (\<lambda>x. if so_id x = so_id s
     then stored_sale s else x) (db_sales (tb_sales t))\<rparr>\<rparr>"

definition emit :: "outbox_write list \<Rightarrow> till \<Rightarrow> till" where
  "emit ws t = t\<lparr>tb_outbox := tb_outbox t @ ws\<rparr>"

definition book_fee :: "fee_entry \<Rightarrow> till \<Rightarrow> till" where
  "book_fee e t = t\<lparr>tb_fees := add_fee_entry e (tb_fees t)\<rparr>"

text \<open>What a paid amount makes of the sale's status.\<close>

definition paid_status :: "num \<Rightarrow> rat \<Rightarrow> string \<Rightarrow> string" where
  "paid_status amount_paid tot old =
    (if tot \<le> nval amount_paid then ''completed''
     else if 0 < nval amount_paid then ''partial'' else old)"

definition methods_of :: "sale \<Rightarrow> (string \<times> json) list" where
  "methods_of s = (case so_payment_methods s of None \<Rightarrow> [] | Some m \<Rightarrow> m)"

definition pay_sale :: "rat \<Rightarrow> sale \<Rightarrow> sale" where
  "pay_sale amount s =
    (let paid = fadd (py_float (so_amount_paid s)) amount
     in s\<lparr>so_amount_paid := PFlt paid,
          so_payment_methods := Some (dict_set ''compare_total'' (JNum (PFlt paid)) (methods_of s)),
          so_status := paid_status (PFlt paid) (py_float (so_total s)) (so_status s)\<rparr>)"

definition note_fee :: "rat \<Rightarrow> rat \<Rightarrow> uuid option \<Rightarrow> sale \<Rightarrow> sale" where
  "note_fee fee settlement_amount rule_id s = s\<lparr>so_payment_methods :=
     Some (dict_set ''fee_rule_id'' (jopt rule_id)
       (dict_set ''settlement_amount'' (JNum (PFlt settlement_amount))
         (dict_set ''platform_fee'' (JNum (PFlt fee)) (methods_of s))))\<rparr>"

definition gateway_status :: "string \<Rightarrow> string" where
  "gateway_status method =
    (if method = ''card'' \<or> method = ''transfer'' then ''deducted'' else ''pending'')"

definition fee_share_of :: "rat \<Rightarrow> rat \<Rightarrow> rat \<Rightarrow> rat" where
  "fee_share_of total_fee pay_amount sale_total =
    (if 0 < sale_total then dmul total_fee (ddiv pay_amount sale_total) else total_fee)"

definition sale_fee_entry ::
  "uuid \<Rightarrow> uuid \<Rightarrow> uuid \<Rightarrow> rat \<Rightarrow> string \<Rightarrow> rat \<Rightarrow> string \<Rightarrow> fee_entry" where
  "sale_fee_entry fid tenant sale_id amount fee_type rate method =
     \<lparr>fe_id = fid, fe_tenant_id = tenant, fe_sale_id = Some sale_id, fe_document_id = None,
      fe_category = ''commission'', fe_amount = amount, fe_fee_type = fee_type, fe_rate = rate,
      fe_method = method, fe_status = gateway_status method, fe_settled_at = None\<rparr>"

definition confirmed_write :: "uuid \<Rightarrow> timestamp \<Rightarrow> uuid \<Rightarrow> sale \<Rightarrow> outbox_write" where
  "confirmed_write eid now tenant s =
     \<lparr>ow_event = sale_confirmed_event eid now tenant (so_id s) (so_number s) (so_total s) None,
      aggregate_type = ''sale'', aggregate_id = so_id s\<rparr>"

record pay_answer =
  pa_payment_id :: uuid
  pa_sale_status :: string
  pa_total :: rat
  pa_amount_paid :: rat
  pa_balance :: rat

definition record_payment ::
  "(nat \<Rightarrow> uuid) \<Rightarrow> timestamp \<Rightarrow> uuid \<Rightarrow> uuid \<Rightarrow> string \<Rightarrow> rat \<Rightarrow> string option \<Rightarrow> till \<Rightarrow>
   exn + pay_answer \<times> till" where
  "record_payment ids now tenant sale_id method amount reference t =
    (let t1 = create_payment (new_payment (ids 0) now tenant sale_id method (fl amount) reference) t;
         success = plan_payment_success (ids 1) now tenant (ids 0) sale_id (PDec amount) method
           reference reference None
     in case get_sale_by_id (tb_sales t1) sale_id of
          None \<Rightarrow> Inr (\<lparr>pa_payment_id = ids 0, pa_sale_status = ''unknown'', pa_total = 0,
            pa_amount_paid = fl amount, pa_balance = fl amount\<rparr>, emit success t1)
        | Some s \<Rightarrow>
           (let s1 = pay_sale (fl amount) s;
                completed = (so_status s1 = ''completed'');
                fee = calculate_platform_fee (tb_fees t1) (PFlt (sale_fee_base s1)) (Some method);
                s2 = (if completed then note_fee (fr_platform_fee fee) (fr_settlement_amount fee)
                        (fr_rule_id fee) s1 else s1);
                confirmed = (if completed \<and> so_status s \<noteq> ''completed''
                  then [confirmed_write (ids 2) now tenant s2] else []);
                t2 = emit (success @ confirmed) (put_sale s2 t1);
                share = fl (quant2_half_even (fee_share_of (dec_of_str (PFlt (fr_platform_fee fee)))
                  amount (dec_of_str (so_total s2))));
                t3 = (if completed \<and> 0 < fr_platform_fee fee
                  then book_fee (sale_fee_entry (ids 3) tenant sale_id share (fr_fee_type fee)
                    (fr_rate fee) method) t2
                  else t2)
            in res_bind (settle_sale_receivable tenant s2 amount t3) (\<lambda>t4.
               Inr (\<lparr>pa_payment_id = ids 0, pa_sale_status = so_status s2,
                      pa_total = py_float (so_total s2), pa_amount_paid = py_float (so_amount_paid s2),
                      pa_balance = fsub (py_float (so_total s2)) (py_float (so_amount_paid s2))\<rparr>,
                    t4))))"


section \<open>Several payments at once\<close>

text \<open>A payment of a batch: its method, amount and reference.\<close>

type_synonym batch_payment = "string \<times> num \<times> string option"

definition dec_sum :: "rat list \<Rightarrow> rat" where
  "dec_sum ds = foldl dadd 0 ds"

text \<open>The fees of a batch, written to the sale and the ledger.\<close>

definition book_shares ::
  "(nat \<Rightarrow> uuid) \<Rightarrow> uuid \<Rightarrow> uuid \<Rightarrow> fee_shares \<Rightarrow> till \<Rightarrow> till" where
  "book_shares ids tenant sale_id shares t =
    (if 0 < fs_total_fee shares
     then fold (\<lambda>(n, s). book_fee (sale_fee_entry (ids n) tenant sale_id (fs_amount s)
            (fs_fee_type s) (fs_rate s) (fs_method s)))
          (zip [0..<length (fs_shares shares)] (fs_shares shares)) t
     else t)"

definition batch_settlement :: "rat \<Rightarrow> rat \<Rightarrow> rat" where
  "batch_settlement fee_base total_fee =
     fl (quant2_half_even (dsub (dec_of_str (PFlt fee_base)) (dec_of_str (PFlt total_fee))))"

definition by_method :: "batch_payment list \<Rightarrow> (string \<times> num) list" where
  "by_method ps = fold (\<lambda>(m, a, _) d. dict_set m a d) ps []"

definition record_split_payment ::
  "(nat \<Rightarrow> uuid) \<Rightarrow> (nat \<Rightarrow> uuid) \<Rightarrow> uuid \<Rightarrow> timestamp \<Rightarrow> uuid \<Rightarrow> uuid \<Rightarrow> batch_payment list \<Rightarrow>
   till \<Rightarrow> exn + pay_answer \<times> till" where
  "record_split_payment ids fids eid now tenant sale_id ps t =
    (case get_sale_by_id (tb_sales t) sale_id of
       None \<Rightarrow> Inl (ValueError [Txt ''sale_not_found''])
     | Some s \<Rightarrow>
        (let total_batch = dec_sum (map (\<lambda>(m, a, r). dec_of_str a) ps);
             t1 = fold (\<lambda>(n, m, a, r). create_payment
                    (new_payment (ids n) now tenant sale_id m (py_float a) r))
                  (zip [0..<length ps] ps) t;
             s1 = pay_sale (fl total_batch) s;
             base = sale_fee_base s1
         in res_bind
              (if so_status s1 \<noteq> ''completed'' then Inr (s1, put_sale s1 t1)
               else res_bind (calculate_fee_shares (tb_fees t1) (PFlt base) (by_method ps)) (\<lambda>shares.
                 let s2 = note_fee (fs_total_fee shares) (batch_settlement base (fs_total_fee shares))
                       (fs_rule_id shares) s1;
                     t2 = book_shares fids tenant sale_id shares (put_sale s2 t1)
                 in Inr (s2, if so_status s = ''completed'' then t2
                             else emit [confirmed_write eid now tenant s2] t2)))
              (\<lambda>(s2, t2).
            res_bind (settle_sale_receivable tenant s2 total_batch t2) (\<lambda>t3.
            Inr (\<lparr>pa_payment_id = ids 0, pa_sale_status = so_status s2,
                   pa_total = py_float (so_total s2), pa_amount_paid = py_float (so_amount_paid s2),
                   pa_balance = fsub (py_float (so_total s2)) (py_float (so_amount_paid s2))\<rparr>,
                 t3)))))"

definition even_part :: "rat \<Rightarrow> rat" where
  "even_part tot = round2 (fdiv tot 3)"

definition suggest_even_split :: "till \<Rightarrow> uuid \<Rightarrow> exn + rat \<times> (string \<times> rat) list" where
  "suggest_even_split t sale_id =
    (case get_sale_by_id (tb_sales t) sale_id of
       None \<Rightarrow> Inl (ValueError [Txt ''sale_not_found''])
     | Some s \<Rightarrow>
        (let tot = py_float (so_total s); each = even_part tot
         in Inr (tot, [(''card'', each), (''transfer'', each), (''cash'', each)])))"

section \<open>Payments through the gateway\<close>

text \<open>The split a payment request asks of the gateway: subaccount, kind and charge.\<close>

definition build_subaccounts_for_payment ::
  "till \<Rightarrow> uuid \<Rightarrow> rat \<Rightarrow> rat option \<Rightarrow> exn + (string \<times> string \<times> rat) list option" where
  "build_subaccounts_for_payment t tenant paid_amount fee_base0 =
     res_bind (get_subaccount_by_tenant t tenant) (\<lambda>sub.
     case sub of
       None \<Rightarrow> Inr None
     | Some s \<Rightarrow>
        (let fee_base = (case fee_base0 of None \<Rightarrow> paid_amount | Some b \<Rightarrow> b);
             res = calculate_platform_fee (tb_fees t) (PFlt fee_base) None;
             fee = fr_platform_fee res
         in if fee \<le> 0 then Inr None
            else if fr_fee_type res = ''flat'' then Inr (Some [(su_code s, ''flat'', fee)])
            else Inr (Some [(su_code s, ''percentage'',
              if 0 < paid_amount then fdiv fee paid_amount else 0)])))"

definition initiate_card_payment ::
  "(nat \<Rightarrow> uuid) \<Rightarrow> timestamp \<Rightarrow> ((string \<times> string \<times> rat) list option \<Rightarrow> string) \<Rightarrow> uuid \<Rightarrow>
   uuid \<Rightarrow> rat \<Rightarrow> till \<Rightarrow> exn + payment_intent \<times> till" where
  "initiate_card_payment ids now link tenant sale_id amount t =
    (case get_sale_by_id (tb_sales t) sale_id of
       None \<Rightarrow> Inl (ValueError [Txt ''sale_not_found''])
     | Some s \<Rightarrow>
        res_bind (build_subaccounts_for_payment t tenant (py_float (so_total s)) (Some (sale_fee_base s)))
          (\<lambda>subs.
          let i = (new_intent (ids 1) now tenant (Some sale_id) ''card'' amount
                (''SF-'' @ tx_hex 16 (ids 0)))\<lparr>pi_authorization_url := Some (link subs)\<rparr>
          in Inr (i, create_intent i t)))"

definition initiate_transfer_payment ::
  "(nat \<Rightarrow> uuid) \<Rightarrow> timestamp \<Rightarrow> string \<times> string \<Rightarrow> uuid \<Rightarrow> uuid \<Rightarrow> rat \<Rightarrow> till \<Rightarrow>
   exn + payment_intent \<times> till" where
  "initiate_transfer_payment ids now account tenant sale_id amount t =
    (if get_sale_by_id (tb_sales t) sale_id = None then Inl (ValueError [Txt ''sale_not_found''])
     else
      (let i = (new_intent (ids 1) now tenant (Some sale_id) ''transfer'' amount
            (''SF-TRF-'' @ tx_hex 12 (ids 0)))\<lparr>pi_dva_account_number := Some (fst account),
            pi_bank_name := Some (snd account), pi_metadata := OtherMetadata\<rparr>
       in Inr (i, create_intent i t)))"

section \<open>Split payments\<close>

text \<open>The books hold a split sale on one account; this moves the cash part to Cash.\<close>

definition reclassify_split_cash_leg ::
  "(nat \<Rightarrow> uuid) \<Rightarrow> timestamp \<Rightarrow> string \<Rightarrow> uuid \<Rightarrow> uuid \<Rightarrow> rat \<Rightarrow> books \<Rightarrow> books" where
  "reclassify_split_cash_leg ids now day tenant sale_id cash_amount bk =
    (if \<exists>j \<in> set (bk_journals bk). jn_tenant_id j = tenant \<and>
        jn_reference_type j = Some ''split_adjustment'' \<and> jn_reference_id j = Some sale_id
     then bk
     else case sale_journals bk tenant sale_id of
       [] \<Rightarrow> bk
     | sale_journal # _ \<Rightarrow>
      (case List.find (\<lambda>e. je_journal_id e = jn_id sale_journal \<and>
          (je_account_code e = ''1000'' \<or> je_account_code e = ''1010'') \<and> 0 < je_debit e)
          (bk_entries bk) of
         None \<Rightarrow> bk
       | Some booked \<Rightarrow>
          (let cash_booked = (if je_account_code booked = ''1000'' then je_debit booked else 0);
               shift = quant2_half_even (dsub (dec_of_str (PFlt cash_amount)) cash_booked)
           in if shift = 0 then bk
              else case (map_of (code_to_account bk tenant [''1000'', ''1010'']) ''1000'',
                         map_of (code_to_account bk tenant [''1000'', ''1010'']) ''1010'') of
                (Some cash, Some bank) \<Rightarrow>
                  (let amount = \<bar>shift\<bar>;
                       (debit, credit) = (if 0 < shift then (cash, bank) else (bank, cash));
                       descr = ''Split cash reclassification: '' @ sale_id
                   in add_posted now day (ids 0) tenant (''Split reclassification sale '' @ sale_id)
                        sale_id ''split_adjustment'' (jn_store_id sale_journal)
                        [posted_entry now (ids 1) (ids 0) tenant debit amount 0 descr ''asset'' amount,
                         posted_entry now (ids 2) (ids 0) tenant credit 0 amount descr ''asset'' amount]
                        bk)
              | _ \<Rightarrow> bk)))"

text \<open>The parts of a split, as the caller names them; a missing part is 0.\<close>

record split_parts =
  sp_cash :: num
  sp_card :: num
  sp_transfer :: num

definition split_sum :: "split_parts \<Rightarrow> rat" where
  "split_sum p = fl (dadd (dadd (dec_of_str (sp_cash p)) (dec_of_str (sp_card p)))
     (dec_of_str (sp_transfer p)))"

definition split_fields :: "split_parts \<Rightarrow> rat \<Rightarrow> sale \<Rightarrow> (string \<times> json) list" where
  "split_fields p tot s =
     dict_set ''compare_total'' (JNum (PFlt (py_float (so_amount_paid s))))
      (dict_set ''total'' (JNum (PFlt tot))
        (dict_set ''split'' (JObj [(''cash'', JNum (PFlt (fl (dec_of_str (sp_cash p))))),
            (''card'', JNum (PFlt (fl (dec_of_str (sp_card p))))),
            (''transfer'', JNum (PFlt (fl (dec_of_str (sp_transfer p)))))]) (methods_of s)))"

definition split_fees ::
  "(nat \<Rightarrow> uuid) \<Rightarrow> uuid \<Rightarrow> split_parts \<Rightarrow> sale \<Rightarrow> till \<Rightarrow> exn + sale \<times> till" where
  "split_fees ids tenant p s t =
    (let base = sale_fee_base s in
     res_bind (calculate_fee_shares (tb_fees t) (PFlt base)
        [(''cash'', PFlt (fl (dec_of_str (sp_cash p)))),
         (''card'', PFlt (fl (dec_of_str (sp_card p)))),
         (''transfer'', PFlt (fl (dec_of_str (sp_transfer p))))]) (\<lambda>shares.
     Inr (note_fee (fs_total_fee shares) (batch_settlement base (fs_total_fee shares))
            (fs_rule_id shares) s,
          book_shares ids tenant (so_id s) shares t)))"

definition process_split_payment ::
  "(nat \<Rightarrow> uuid) \<Rightarrow> (nat \<Rightarrow> uuid) \<Rightarrow> (nat \<Rightarrow> uuid) \<Rightarrow> timestamp \<Rightarrow> string \<Rightarrow>
   ((string \<times> string \<times> rat) list option \<Rightarrow> string) \<Rightarrow> string \<times> string \<Rightarrow> uuid \<Rightarrow> uuid \<Rightarrow>
   split_parts \<Rightarrow> till \<Rightarrow> exn + sale \<times> till" where
  "process_split_payment ids fids jids now day link account tenant sale_id p t =
    (case get_sale_by_id (tb_sales t) sale_id of
       None \<Rightarrow> Inl (ValueError [Txt ''sale_not_found''])
     | Some s \<Rightarrow>
        (let tot = py_float (so_total s); cash = dec_of_str (sp_cash p);
             card = dec_of_str (sp_card p); transfer = dec_of_str (sp_transfer p)
         in if fl (1 / 100) < \<bar>fsub (split_sum p) tot\<bar>
            then Inl (ValueError [Txt ''Splits sum '', Num (PFlt (split_sum p)),
              Txt '' does not equal total '', Num (PFlt tot)])
            else
             (let (s1, t1) = (if 0 < cash
                  then (s\<lparr>so_amount_paid := PFlt (fadd (py_float (so_amount_paid s)) (fl cash))\<rparr>,
                        create_payment (new_payment (ids 0) now tenant sale_id ''cash'' (fl cash) None) t)
                  else (s, t))
              in res_bind (if 0 < card
                   then res_bind (build_subaccounts_for_payment t1 tenant tot (Some (sale_fee_base s1)))
                     (\<lambda>subs. Inr (create_intent ((new_intent (ids 2) now tenant (Some sale_id) ''card'' card
                        (''SF-'' @ tx_hex 16 (ids 1)))\<lparr>pi_authorization_url := Some (link subs),
                        pi_expires_at := Some (now + 60 * 30)\<rparr>) t1))
                   else Inr t1) (\<lambda>t2.
                 let t3 = (if 0 < transfer
                       then create_intent ((new_intent (ids 4) now tenant (Some sale_id) ''transfer''
                         transfer (''SF-TRF-'' @ tx_hex 12 (ids 3)))\<lparr>
                         pi_dva_account_number := Some (fst account),
                         pi_bank_name := Some (snd account), pi_metadata := OtherMetadata\<rparr>) t2
                       else t2);
                     s2 = s1\<lparr>so_payment_methods := Some (split_fields p tot s1),
                       so_status := paid_status (so_amount_paid s1) tot (so_status s1)\<rparr>
                 in res_bind (if so_status s2 = ''completed'' then split_fees fids tenant p s2 t3
                              else Inr (s2, t3)) (\<lambda>(s3, t4).
                    let t5 = put_sale s3 t4
                    in Inr (s3, t5\<lparr>tb_books := reclassify_split_cash_leg jids now day tenant sale_id
                         (fl cash) (tb_books t5)\<rparr>))))))"

text \<open>
  A gateway confirms a part of a split: the intent is completed, the payment recorded, and every
  pending fee of the sale becomes deducted. The two confirmations differ in the method recorded.
\<close>

definition deduct_fees :: "timestamp \<Rightarrow> (fee_entry \<Rightarrow> bool) \<Rightarrow> fee_db \<Rightarrow> fee_db" where
  "deduct_fees now P db = db\<lparr>fd_ledger := map (\<lambda>e. if P e \<and> fe_status e = ''pending''
     then e\<lparr>fe_status := ''deducted'', fe_settled_at := Some now\<rparr> else e) (fd_ledger db)\<rparr>"

definition confirm_split_part ::
  "(nat \<Rightarrow> uuid) \<Rightarrow> timestamp \<Rightarrow> string option \<Rightarrow> uuid \<Rightarrow> uuid \<Rightarrow> string \<Rightarrow> num option \<Rightarrow> till \<Rightarrow>
   exn + pay_answer \<times> till" where
  "confirm_split_part ids now method tenant sale_id tx_ref paid t =
    (case get_intent_by_reference t tx_ref of
       None \<Rightarrow> Inl (ValueError [Txt ''intent_not_found''])
     | Some i \<Rightarrow>
        (let amount = dec_of_str (case paid of Some a \<Rightarrow> a | None \<Rightarrow> pi_amount i) in
         res_bind (update_intent_status (pi_id i) ''completed'' t) (\<lambda>t1.
         res_bind (record_payment ids now tenant sale_id
             (case method of Some m \<Rightarrow> m | None \<Rightarrow> pi_method i) amount (Some tx_ref)
             (change_intents (\<lambda>x. pi_id x = pi_id i) (\<lambda>x. x\<lparr>pi_sale_id := Some sale_id\<rparr>) t1))
           (\<lambda>(ans, t2).
         Inr (ans, t2\<lparr>tb_fees := deduct_fees now (\<lambda>e. fe_sale_id e = Some sale_id) (tb_fees t2)\<rparr>)))))"

definition confirm_split_card_payment where
  "confirm_split_card_payment ids now = confirm_split_part ids now None"

definition confirm_split_transfer_payment where
  "confirm_split_transfer_payment ids now = confirm_split_part ids now (Some ''transfer'')"


section \<open>Settling the platform's fees\<close>

text \<open>The base of a reference, and the attempt when it ends in \<open>-R\<close> and digits.\<close>

definition retry_of :: "string \<Rightarrow> string \<times> nat option" where
  "retry_of ref =
    (let ds = rev (takeWhile is_digit (rev ref)); rest = dropWhile is_digit (rev ref)
     in if ds \<noteq> [] \<and> take 2 rest = ''R-'' then (rev (drop 2 rest), Some (digits_value ds))
        else (ref, None))"

definition next_reference :: "string \<Rightarrow> string" where
  "next_reference ref = (case retry_of ref of (base, n) \<Rightarrow>
     base @ ''-R'' @ nat_str (case n of None \<Rightarrow> 1 | Some k \<Rightarrow> k + 1))"

definition pending_fees :: "fee_db \<Rightarrow> uuid \<Rightarrow> fee_entry list" where
  "pending_fees db tenant =
     filter (\<lambda>e. fe_tenant_id e = tenant \<and> fe_status e = ''pending'') (fd_ledger db)"

definition open_settlement :: "till \<Rightarrow> uuid \<Rightarrow> payment_intent option" where
  "open_settlement t tenant =
    (case sort_key (\<lambda>i. - pi_created_at i) (filter (\<lambda>i. pi_tenant_id i = tenant \<and>
        pi_status i = ''pending'' \<and> is_settlement_ref i) (tb_intents t)) of
       [] \<Rightarrow> None | i # _ \<Rightarrow> Some i)"

text \<open>Who created a settlement is kept when its link is made again.\<close>

definition refreeze :: "uuid list \<Rightarrow> intent_metadata \<Rightarrow> intent_metadata" where
  "refreeze ledger_ids m = Settlement ledger_ids (case m of Settlement _ who \<Rightarrow> who | _ \<Rightarrow> None)"

definition create_settlement_payment ::
  "(nat \<Rightarrow> uuid) \<Rightarrow> timestamp \<Rightarrow> (rat \<Rightarrow> string \<Rightarrow> string) \<Rightarrow> uuid \<Rightarrow> uuid \<Rightarrow> till \<Rightarrow>
   exn + payment_intent \<times> till" where
  "create_settlement_payment ids now link tenant actor t =
    (let es = pending_fees (tb_fees t) tenant; tot = dec_sum (map fe_amount es) in
     if es = [] \<or> tot \<le> 0 then Inl (ValueError [Txt ''nothing_pending''])
     else case open_settlement t tenant of
       Some i \<Rightarrow>
        (let ref = next_reference (case pi_gateway_reference i of None \<Rightarrow> [] | Some r \<Rightarrow> r);
             f = (\<lambda>x. x\<lparr>pi_amount := column_num (PFlt (fl tot)), pi_gateway_reference := Some ref,
               pi_metadata := refreeze (map fe_id es) (pi_metadata x),
               pi_authorization_url := Some (link tot ref)\<rparr>)
         in Inr (f i, change_intents (\<lambda>x. pi_id x = pi_id i) f t))
     | None \<Rightarrow>
        (let ref = ''SF-SETTLE-'' @ tx_hex 10 (ids 0);
             i = (new_intent (ids 1) now tenant None ''card'' tot ref)\<lparr>
               pi_metadata := Settlement (map fe_id es) (Some actor),
               pi_authorization_url := Some (link tot ref)\<rparr>
         in Inr (i, create_intent i t)))"

definition confirm_settlement_payment ::
  "timestamp \<Rightarrow> uuid \<Rightarrow> uuid \<Rightarrow> till \<Rightarrow> exn + nat \<times> till" where
  "confirm_settlement_payment now tenant intent_id t =
    (case get_intent_by_id t intent_id of
       None \<Rightarrow> Inl (ValueError [Txt ''intent_not_found''])
     | Some i \<Rightarrow>
      (case pi_metadata i of
         Settlement ledger_ids _ \<Rightarrow>
          (let P = (\<lambda>e. fe_tenant_id e = tenant \<and> fe_id e \<in> set ledger_ids) in
           res_bind (update_intent_status (pi_id i) ''completed'' t) (\<lambda>t1.
           Inr (length (filter (\<lambda>e. P e \<and> fe_status e = ''pending'') (fd_ledger (tb_fees t))),
                t1\<lparr>tb_fees := deduct_fees now P (tb_fees t1)\<rparr>)))
       | _ \<Rightarrow> Inl (ValueError [Txt ''not_settlement''])))"

end
