(* ===== verification/Discounts.thy ===== *)
theory Discounts
  imports Taxes Events "HOL-Library.List_Lexorder"
begin

text \<open>
  \<open>app/discounts\<close>: promotions and coupons, with the operations of \<open>app/common/bridge.py\<close> that
  keep and apply them. The value and the minimum order of a row are \<open>Decimal\<close>s of its two-place
  columns. Coupon codes are not unique in the database; a query for one row that finds several
  raises \<open>MultipleResultsFound\<close>, a \<open>ValueError\<close> here.
\<close>

section \<open>Text\<close>

definition is_space :: "char \<Rightarrow> bool" where
  "is_space c = (let n = of_char c :: nat in n = 32 \<or> (9 \<le> n \<and> n \<le> 13) \<or> (28 \<le> n \<and> n \<le> 31))"

definition py_strip :: "string \<Rightarrow> string" where
  "py_strip s = rev (dropWhile is_space (rev (dropWhile is_space s)))"

definition coupon_code :: "string \<Rightarrow> string" where
  "coupon_code code = py_strip (map upper_char code)"

section \<open>Rows\<close>

record coupon =
  cp_id :: uuid
  cp_tenant_id :: uuid
  cp_code :: string
  cp_discount_type :: string
  cp_value :: rat
  cp_max_uses :: int
  cp_used_count :: int
  cp_min_order :: rat
  cp_is_active :: bool
  cp_expires_at :: "timestamp option"
  cp_created_at :: timestamp

record discount =
  di_id :: uuid
  di_tenant_id :: uuid
  di_name :: string
  di_discount_type :: string
  di_value :: rat
  di_free_qty :: int
  di_scope :: string
  di_min_order :: rat
  di_is_active :: bool
  di_start_date :: "timestamp option"
  di_end_date :: "timestamp option"
  di_created_at :: timestamp

text \<open>\<open>discount_products\<close> and \<open>discount_categories\<close> are lists of pairs of a discount and what it
  is linked to.\<close>

record promotions =
  pr_coupons :: "coupon list"
  pr_discounts :: "discount list"
  pr_products :: "(uuid \<times> uuid) list"
  pr_categories :: "(uuid \<times> uuid) list"

section \<open>Coupons\<close>

record coupon_request =
  cq_code :: string
  cq_discount_type :: string
  cq_value :: num
  cq_max_uses :: int
  cq_min_order :: num
  cq_is_active :: bool
  cq_expires_at :: "timestamp option"

definition create_coupon ::
  "uuid \<Rightarrow> timestamp \<Rightarrow> uuid \<Rightarrow> coupon_request \<Rightarrow> promotions \<Rightarrow> coupon \<times> promotions" where
  "create_coupon cid now tenant q p =
    (let c = \<lparr>cp_id = cid, cp_tenant_id = tenant, cp_code = coupon_code (cq_code q),
         cp_discount_type = cq_discount_type q, cp_value = column_value (PDec (dec_of_str (cq_value q))),
         cp_max_uses = cq_max_uses q, cp_used_count = 0,
         cp_min_order = column_value (PDec (dec_of_str (cq_min_order q))),
         cp_is_active = cq_is_active q, cp_expires_at = cq_expires_at q, cp_created_at = now\<rparr>
     in (c, p\<lparr>pr_coupons := pr_coupons p @ [c]\<rparr>))"

definition page_of :: "int \<Rightarrow> int \<Rightarrow> 'a list \<Rightarrow> 'a list" where
  "page_of page page_size xs = take (nat page_size) (drop (nat ((page - 1) * page_size)) xs)"

definition list_coupons :: "promotions \<Rightarrow> uuid \<Rightarrow> int \<Rightarrow> int \<Rightarrow> coupon list \<times> nat" where
  "list_coupons p tenant page page_size =
    (let q = filter (\<lambda>c. cp_tenant_id c = tenant) (pr_coupons p)
     in (page_of page page_size (sort_key (\<lambda>c. - cp_created_at c) q), length q))"

definition get_coupon :: "promotions \<Rightarrow> uuid \<Rightarrow> uuid \<Rightarrow> coupon option" where
  "get_coupon p tenant cid =
     List.find (\<lambda>c. cp_id c = cid \<and> cp_tenant_id c = tenant) (pr_coupons p)"

text \<open>An update sets the fields that are given and not \<open>None\<close>.\<close>

record coupon_changes =
  ch_code :: "string option"
  ch_discount_type :: "string option"
  ch_value :: "num option"
  ch_max_uses :: "int option"
  ch_min_order :: "num option"
  ch_is_active :: "bool option"
  ch_expires_at :: "timestamp option"

definition given :: "'a option \<Rightarrow> ('a \<Rightarrow> 'b) \<Rightarrow> 'b \<Rightarrow> 'b" where
  "given new_value f old = (case new_value of None \<Rightarrow> old | Some v \<Rightarrow> f v)"

definition change_coupon :: "coupon_changes \<Rightarrow> coupon \<Rightarrow> coupon" where
  "change_coupon h c = c\<lparr>cp_code := given (ch_code h) coupon_code (cp_code c),
     cp_discount_type := given (ch_discount_type h) (\<lambda>v. v) (cp_discount_type c),
     cp_value := given (ch_value h) (\<lambda>v. column_value (PDec (dec_of_str v))) (cp_value c),
     cp_max_uses := given (ch_max_uses h) (\<lambda>v. v) (cp_max_uses c),
     cp_min_order := given (ch_min_order h) (\<lambda>v. column_value (PDec (dec_of_str v))) (cp_min_order c),
     cp_is_active := given (ch_is_active h) (\<lambda>v. v) (cp_is_active c),
     cp_expires_at := given (ch_expires_at h) Some (cp_expires_at c)\<rparr>"

definition update_coupon ::
  "uuid \<Rightarrow> uuid \<Rightarrow> coupon_changes \<Rightarrow> promotions \<Rightarrow> coupon option \<times> promotions" where
  "update_coupon tenant cid h p =
    (map_option (change_coupon h) (get_coupon p tenant cid),
     p\<lparr>pr_coupons := map (\<lambda>c. if cp_id c = cid \<and> cp_tenant_id c = tenant then change_coupon h c
       else c) (pr_coupons p)\<rparr>)"

definition delete_coupon :: "uuid \<Rightarrow> uuid \<Rightarrow> promotions \<Rightarrow> bool \<times> promotions" where
  "delete_coupon tenant cid p =
    (get_coupon p tenant cid \<noteq> None,
     p\<lparr>pr_coupons := filter (\<lambda>c. \<not> (cp_id c = cid \<and> cp_tenant_id c = tenant)) (pr_coupons p)\<rparr>)"

text \<open>What a validation answers: the refusal's message, or the amounts of the coupon.\<close>

datatype coupon_answer =
    Refused pytext
  | Applied (ans_coupon: uuid) (ans_code: string) (ans_type: string) (ans_discount: rat)
      (ans_final: rat)

definition coupon_discount :: "coupon \<Rightarrow> rat \<Rightarrow> rat" where
  "coupon_discount c subtotal =
    (if cp_discount_type c = ''percentage'' then fl (ddiv (dmul subtotal (cp_value c)) 100)
     else min (fl (cp_value c)) (fl subtotal))"

definition check_coupon :: "timestamp \<Rightarrow> coupon \<Rightarrow> rat \<Rightarrow> coupon_answer" where
  "check_coupon now c subtotal =
    (if \<not> cp_is_active c then Refused [Txt ''Coupon is disabled'']
     else if (case cp_expires_at c of None \<Rightarrow> False | Some e \<Rightarrow> e < now)
     then Refused [Txt ''Coupon has expired'']
     else if 0 < cp_max_uses c \<and> cp_max_uses c \<le> cp_used_count c
     then Refused [Txt ''Coupon usage limit reached'']
     else if subtotal < cp_min_order c
     then Refused [Txt ''Minimum order of '', Num (PDec (cp_min_order c)), Txt '' required'']
     else
      (let amount = coupon_discount c subtotal
       in Applied (cp_id c) (cp_code c) (cp_discount_type c) (round2 amount)
            (round2 (max (fsub (fl subtotal) amount) 0))))"

definition validate_coupon ::
  "timestamp \<Rightarrow> promotions \<Rightarrow> uuid \<Rightarrow> string \<Rightarrow> num \<Rightarrow> exn + coupon_answer" where
  "validate_coupon now p tenant code cart_subtotal =
    (case filter (\<lambda>c. cp_tenant_id c = tenant \<and> cp_code c = coupon_code code) (pr_coupons p) of
       [] \<Rightarrow> Inr (Refused [Txt ''Coupon not found''])
     | [c] \<Rightarrow> Inr (check_coupon now c (dec_of_str cart_subtotal))
     | _ \<Rightarrow> Inl (ValueError [Txt ''MultipleResultsFound'']))"

definition increment_coupon_usage :: "uuid \<Rightarrow> uuid \<Rightarrow> promotions \<Rightarrow> promotions" where
  "increment_coupon_usage tenant cid p =
     p\<lparr>pr_coupons := map (\<lambda>c. if cp_id c = cid \<and> cp_tenant_id c = tenant
       then c\<lparr>cp_used_count := cp_used_count c + 1\<rparr> else c) (pr_coupons p)\<rparr>"

section \<open>Promotions\<close>

record discount_request =
  dq_name :: string
  dq_discount_type :: string
  dq_value :: num
  dq_free_qty :: int
  dq_scope :: string
  dq_min_order :: num
  dq_is_active :: bool
  dq_start_date :: "timestamp option"
  dq_end_date :: "timestamp option"
  dq_product_ids :: "uuid list"
  dq_category_ids :: "uuid list"

definition create_discount ::
  "uuid \<Rightarrow> timestamp \<Rightarrow> uuid \<Rightarrow> discount_request \<Rightarrow> promotions \<Rightarrow> discount \<times> promotions" where
  "create_discount did now tenant q p =
    (let d = \<lparr>di_id = did, di_tenant_id = tenant, di_name = dq_name q,
         di_discount_type = dq_discount_type q,
         di_value = column_value (PDec (dec_of_str (dq_value q))),
         di_free_qty = dq_free_qty q, di_scope = dq_scope q,
         di_min_order = column_value (PDec (dec_of_str (dq_min_order q))),
         di_is_active = dq_is_active q, di_start_date = dq_start_date q,
         di_end_date = dq_end_date q, di_created_at = now\<rparr>;
         products = (if dq_scope q = ''specific_products'' then dq_product_ids q else []);
         categories = (if dq_scope q = ''specific_categories'' then dq_category_ids q else [])
     in (d, p\<lparr>pr_discounts := pr_discounts p @ [d],
         pr_products := pr_products p @ map (Pair did) products,
         pr_categories := pr_categories p @ map (Pair did) categories\<rparr>))"

definition get_discount :: "promotions \<Rightarrow> uuid \<Rightarrow> uuid \<Rightarrow> discount option" where
  "get_discount p tenant did =
     List.find (\<lambda>d. di_id d = did \<and> di_tenant_id d = tenant) (pr_discounts p)"

definition linked :: "(uuid \<times> uuid) list \<Rightarrow> uuid \<Rightarrow> uuid list" where
  "linked links did = map snd (filter (\<lambda>l. fst l = did) links)"

definition list_discounts ::
  "promotions \<Rightarrow> uuid \<Rightarrow> int \<Rightarrow> int \<Rightarrow> bool \<Rightarrow>
   (discount \<times> uuid list \<times> uuid list) list \<times> nat" where
  "list_discounts p tenant page page_size active_only =
    (let q = filter (\<lambda>d. di_tenant_id d = tenant \<and> (active_only \<longrightarrow> di_is_active d)) (pr_discounts p)
     in (map (\<lambda>d. (d, linked (pr_products p) (di_id d), linked (pr_categories p) (di_id d)))
           (page_of page page_size (sort_key (\<lambda>d. - di_created_at d) q)), length q))"

record discount_changes =
  dh_name :: "string option"
  dh_discount_type :: "string option"
  dh_value :: "num option"
  dh_free_qty :: "int option"
  dh_scope :: "string option"
  dh_min_order :: "num option"
  dh_is_active :: "bool option"
  dh_start_date :: "timestamp option"
  dh_end_date :: "timestamp option"
  dh_product_ids :: "uuid list option"
  dh_category_ids :: "uuid list option"

definition change_discount :: "discount_changes \<Rightarrow> discount \<Rightarrow> discount" where
  "change_discount h d = d\<lparr>di_name := given (dh_name h) (\<lambda>v. v) (di_name d),
     di_discount_type := given (dh_discount_type h) (\<lambda>v. v) (di_discount_type d),
     di_value := given (dh_value h) (\<lambda>v. column_value (PDec (dec_of_str v))) (di_value d),
     di_free_qty := given (dh_free_qty h) (\<lambda>v. v) (di_free_qty d),
     di_scope := given (dh_scope h) (\<lambda>v. v) (di_scope d),
     di_min_order := given (dh_min_order h) (\<lambda>v. column_value (PDec (dec_of_str v))) (di_min_order d),
     di_is_active := given (dh_is_active h) (\<lambda>v. v) (di_is_active d),
     di_start_date := given (dh_start_date h) Some (di_start_date d),
     di_end_date := given (dh_end_date h) Some (di_end_date d)\<rparr>"

text \<open>Links are replaced when a list is given, whatever the scope says.\<close>

definition relink :: "uuid \<Rightarrow> uuid list option \<Rightarrow> (uuid \<times> uuid) list \<Rightarrow> (uuid \<times> uuid) list" where
  "relink did new_ids links =
    (case new_ids of None \<Rightarrow> links
     | Some xs \<Rightarrow> filter (\<lambda>l. fst l \<noteq> did) links @ map (Pair did) xs)"

definition update_discount ::
  "uuid \<Rightarrow> uuid \<Rightarrow> discount_changes \<Rightarrow> promotions \<Rightarrow> discount option \<times> promotions" where
  "update_discount tenant did h p =
    (case get_discount p tenant did of
       None \<Rightarrow> (None, p)
     | Some d \<Rightarrow> (Some (change_discount h d),
         p\<lparr>pr_discounts := map (\<lambda>x. if di_id x = did \<and> di_tenant_id x = tenant
             then change_discount h x else x) (pr_discounts p),
           pr_products := relink did (dh_product_ids h) (pr_products p),
           pr_categories := relink did (dh_category_ids h) (pr_categories p)\<rparr>))"

definition toggle_discount :: "uuid \<Rightarrow> uuid \<Rightarrow> promotions \<Rightarrow> discount option \<times> promotions" where
  "toggle_discount tenant did p =
    (map_option (\<lambda>d. d\<lparr>di_is_active := \<not> di_is_active d\<rparr>) (get_discount p tenant did),
     p\<lparr>pr_discounts := map (\<lambda>x. if di_id x = did \<and> di_tenant_id x = tenant
       then x\<lparr>di_is_active := \<not> di_is_active x\<rparr> else x) (pr_discounts p)\<rparr>)"

text \<open>Deleting a discount deletes its links (\<open>ON DELETE CASCADE\<close>).\<close>

definition delete_discount :: "uuid \<Rightarrow> uuid \<Rightarrow> promotions \<Rightarrow> bool \<times> promotions" where
  "delete_discount tenant did p =
    (if get_discount p tenant did = None then (False, p)
     else (True, p\<lparr>pr_discounts :=
         filter (\<lambda>x. \<not> (di_id x = did \<and> di_tenant_id x = tenant)) (pr_discounts p),
       pr_products := filter (\<lambda>l. fst l \<noteq> did) (pr_products p),
       pr_categories := filter (\<lambda>l. fst l \<noteq> did) (pr_categories p)\<rparr>))"

text \<open>
  \<open>a // b\<close> on decimals is the quotient cut towards zero. An item is its quantity and price. The
  code first divides by the quantity plus the free quantity and overwrites the result.
\<close>

definition dfloordiv :: "rat \<Rightarrow> rat \<Rightarrow> rat" where
  "dfloordiv a b = of_int (py_int (a / b))"

definition free_amount :: "int \<Rightarrow> num \<times> num \<Rightarrow> rat" where
  "free_amount free_qty item =
    (let qty = dec_of_str (fst item); unit_price = dec_of_str (snd item);
         free_sets = dfloordiv qty (1 + of_int free_qty)
     in dmul (dmul free_sets (of_int free_qty)) unit_price)"

definition apply_discount ::
  "num \<Rightarrow> string \<Rightarrow> num \<Rightarrow> int \<Rightarrow> (num \<times> num) list \<Rightarrow> rat" where
  "apply_discount subtotal discount_type val free_qty cart_items =
    (let sub = dec_of_str subtotal in
     if discount_type = ''percentage'' then round2 (fl (ddiv (dmul sub (dec_of_str val)) 100))
     else if discount_type = ''fixed_amount'' then round2 (min (py_float val) (fl sub))
     else if discount_type = ''buy_x_get_y'' \<and> cart_items \<noteq> []
     then round2 (fl (foldl (\<lambda>tot item. if 0 < free_qty then dadd tot (free_amount free_qty item)
            else tot) 0 cart_items))
     else 0)"

section \<open>Properties of coupons\<close>

lemma rhe_kob: "\<bar>k\<bar> \<le> 10 ^ 15 \<Longrightarrow> rhe (kob k * 100) = k"
  using kobo_of_kob[of k] by (simp add: kobo_of_def)

lemma round2_between_kob:
  assumes "0 \<le> x" "x \<le> kob S" "0 \<le> S" "S \<le> 10 ^ 14"
  shows "\<exists>D. 0 \<le> D \<and> D \<le> S \<and> round2 x = kob D \<and> \<bar>of_int D / 100 - x\<bar> \<le> 1 / 200"
proof -
  define D where "D = rhe (x * 100)"
  have "rhe (x * 100) \<le> rhe (kob S * 100)" using assms by (intro rhe_mono) simp
  then have "D \<le> S" using assms rhe_kob[of S] by (simp add: D_def)
  moreover have "0 \<le> D" unfolding D_def using assms by (intro rhe_ge_of_int) simp
  moreover have "\<bar>of_int D / 100 - x\<bar> \<le> 1 / 200"
    using rhe_err[of "x * 100"] unfolding D_def by linarith
  ultimately show ?thesis by (auto simp: round2_is_kob D_def)
qed

lemma coupon_discount_bounds:
  assumes S: "0 \<le> S" and bound: "S \<le> 10 ^ 14" and V: "cp_value c = of_int V / 100" "0 \<le> V"
    and pct: "if cp_discount_type c = ''percentage'' then V \<le> 10000 else True"
  shows "0 \<le> coupon_discount c (of_int S / 100)" "coupon_discount c (of_int S / 100) \<le> kob S"
proof -
  show "0 \<le> coupon_discount c (of_int S / 100)"
    unfolding coupon_discount_def V(1)
    using S V(2) pct percent_bounds(1)[OF S bound, of V] by (auto intro!: flt.r_nonneg)
  show "coupon_discount c (of_int S / 100) \<le> kob S"
    unfolding coupon_discount_def V(1) kob_def
    using V(2) pct flt.r_mono[OF percent_bounds(2)[OF S bound, of V]] by auto
qed

text \<open>A coupon never takes off more than the order. For an order of a whole number of kobo and
  a coupon with a non-negative value, at most a hundred percent, a validation that applies the
  coupon answers a discount and a final total that are whole kobo between zero and the order and
  that differ from adding up to it by at most one kobo; and it applies only a coupon that is
  switched on, not expired, below its usage limit and whose minimum the order reaches.\<close>

theorem coupon_within_order:
  assumes "validate_coupon now p tenant code (PFlt (kob S)) = Inr (Applied cid ccode ty d f)"
    and "0 \<le> S" "S \<le> 10 ^ 14"
    and "\<forall>c \<in> set (pr_coupons p). (\<exists>V \<ge> 0. cp_value c = of_int V / 100 \<and>
      (if cp_discount_type c = ''percentage'' then V \<le> 10000 else True))"
  shows "\<exists>D F. d = kob D \<and> f = kob F \<and> 0 \<le> D \<and> D \<le> S \<and> 0 \<le> F \<and> F \<le> S \<and> \<bar>D + F - S\<bar> \<le> 1
    \<and> (\<exists>c \<in> set (pr_coupons p). cp_id c = cid \<and> cp_tenant_id c = tenant \<and> cp_code c = ccode
        \<and> ccode = coupon_code code \<and> cp_is_active c \<and> (cp_max_uses c \<le> 0 \<or> cp_used_count c < cp_max_uses c)
        \<and> cp_min_order c \<le> of_int S / 100)"
proof -
  let ?s = "of_int S / 100 :: rat"
  have sub: "dec_of_str (PFlt (kob S)) = ?s" using assms by (intro dec_of_str_kob) simp
  obtain c where flt: "filter (\<lambda>c. cp_tenant_id c = tenant \<and> cp_code c = coupon_code code) (pr_coupons p) = [c]"
    and chk: "check_coupon now c ?s = Applied cid ccode ty d f"
    using assms(1) unfolding validate_coupon_def sub by (auto split: list.splits)
  from flt have "c \<in> set (filter (\<lambda>c. cp_tenant_id c = tenant \<and> cp_code c = coupon_code code) (pr_coupons p))"
    by simp
  then have c: "c \<in> set (pr_coupons p)" "cp_tenant_id c = tenant" "cp_code c = coupon_code code" by auto
  then obtain V where V: "0 \<le> V" "cp_value c = of_int V / 100"
    "if cp_discount_type c = ''percentage'' then V \<le> 10000 else True" using assms(4) by blast
  let ?a = "coupon_discount c ?s"
  note a = coupon_discount_bounds[OF assms(2,3) V(2,1,3)]
  have ans: "cid = cp_id c" "ccode = cp_code c" "d = round2 ?a"
    "f = round2 (max (fsub (fl ?s) ?a) 0)" "cp_is_active c"
    "cp_max_uses c \<le> 0 \<or> cp_used_count c < cp_max_uses c" "cp_min_order c \<le> ?s"
    using chk by (auto simp: check_coupon_def Let_def split: if_splits)
  have fk: "fl ?s = kob S" by (simp add: kob_def)
  obtain D where D: "0 \<le> D" "D \<le> S" "round2 ?a = kob D" "\<bar>of_int D / 100 - ?a\<bar> \<le> 1 / 200"
    using round2_between_kob[OF a assms(2,3)] by blast
  let ?r = "fsub (kob S) ?a"
  have r0: "0 \<le> ?r" unfolding fsub_def using a by (intro flt.r_nonneg) simp
  have "?r \<le> fl (kob S)" unfolding fsub_def using a by (intro flt.r_mono) simp
  then have r1: "?r \<le> kob S" by simp
  obtain F where F: "0 \<le> F" "F \<le> S" "round2 ?r = kob F" "\<bar>of_int F / 100 - ?r\<bar> \<le> 1 / 200"
    using round2_between_kob[OF r0 r1 assms(2,3)] by blast
  have "\<bar>kob S - ?a\<bar> \<le> 2000000000000" using a kob_err_le(2)[of S "10 ^ 14"] assms by simp
  then have e1: "\<bar>?r - (kob S - ?a)\<bar> \<le> eps * 2000000000000"
    unfolding fsub_def by (rule flt.r_err_le)
  have e2: "\<bar>kob S - ?s\<bar> \<le> 1 / 1000" using kob_err_le(1)[of S "10 ^ 14"] assms(2,3) by simp
  have "\<bar>of_int D / 100 + of_int F / 100 - ?s\<bar> < 2 / 100"
    using D(4) F(4) e1 e2 by linarith
  then have "\<bar>of_int (D + F - S) :: rat\<bar> < of_int 2" by (simp; linarith)
  then have "\<bar>D + F - S\<bar> < 2" by (metis of_int_abs of_int_less_iff)
  then have "\<bar>D + F - S\<bar> \<le> 1" by linarith
  moreover have "f = kob F" using ans(4) F(3) r0 by (simp add: fk max_def)
  moreover have "d = kob D" using ans(3) D(3) by simp
  ultimately show ?thesis using D F c ans by blast
qed


definition sample_coupon :: coupon where
  "sample_coupon = \<lparr>cp_id = ''c'', cp_tenant_id = ''t'', cp_code = ''SAVE'',
     cp_discount_type = ''fixed_amount'', cp_value = 5, cp_max_uses = 1, cp_used_count = 0,
     cp_min_order = 0, cp_is_active = True, cp_expires_at = None, cp_created_at = 0\<rparr>"

definition sample_promotions :: promotions where
  "sample_promotions = \<lparr>pr_coupons = [sample_coupon], pr_discounts = [], pr_products = [],
     pr_categories = []\<rparr>"

lemma sample_code: "coupon_code '' save'' = ''SAVE''"
  by code_simp

lemma sample_validation:
  "validate_coupon 1 sample_promotions ''t'' '' save'' (PFlt (kob 0)) =
     Inr (Applied ''c'' ''SAVE'' ''fixed_amount'' (kob 0) (kob 0))"
proof -
  have "fl 5 = 5" using fl_of_int[of 5] by simp
  then show ?thesis
    using dec_of_str_kob[of 0]
    by (simp add: validate_coupon_def sample_promotions_def sample_coupon_def sample_code
        check_coupon_def coupon_discount_def fsub_def round2_def)
qed

theorem coupon_within_order_witness:
  "\<exists>D F. kob 0 = kob D \<and> kob 0 = kob F \<and> \<bar>D + F - 0\<bar> \<le> 1"
proof -
  have "\<forall>c \<in> set (pr_coupons sample_promotions). \<exists>V \<ge> 0. cp_value c = of_int V / 100 \<and>
      (if cp_discount_type c = ''percentage'' then V \<le> 10000 else True)"
    by (auto simp: sample_promotions_def sample_coupon_def intro!: exI[of _ 500])
  from coupon_within_order[OF sample_validation order_refl _ this] show ?thesis by fastforce
qed

section \<open>Redeeming\<close>

text \<open>The coupon branch of a checkout.\<close>

definition redeem_coupon ::
  "timestamp \<Rightarrow> uuid \<Rightarrow> string \<Rightarrow> num \<Rightarrow> promotions \<Rightarrow> exn + rat \<times> string \<times> promotions" where
  "redeem_coupon now tenant code subtotal p =
     res_bind (validate_coupon now p tenant code subtotal) (\<lambda>a.
     case a of
       Refused m \<Rightarrow> Inl (ValueError (Txt ''invalid_coupon:'' # m))
     | Applied cid ccode _ amount _ \<Rightarrow>
         Inr (dec_of_str (PFlt amount), ccode, increment_coupon_usage tenant cid p))"

text \<open>What happens to the coupons of a system: they are created, redeemed, switched, deleted; an
  edit may change all but the limit.\<close>

inductive promotions_step :: "promotions \<Rightarrow> promotions \<Rightarrow> bool" where
  redeem: "redeem_coupon now tenant code subtotal p = Inr (amount, ccode, p') \<Longrightarrow> promotions_step p p'"
| create: "cid \<notin> cp_id ` set (pr_coupons p) \<Longrightarrow>
    promotions_step p (snd (create_coupon cid now tenant q p))"
| edit: "ch_max_uses h = None \<Longrightarrow> promotions_step p (snd (update_coupon tenant cid h p))"
| delete: "promotions_step p (snd (delete_coupon tenant cid p))"
| promote: "promotions_step p (snd (create_discount did now tenant dq p))"
| toggle: "promotions_step p (snd (toggle_discount tenant did p))"

definition uses_within :: "promotions \<Rightarrow> bool" where
  "uses_within p \<longleftrightarrow> distinct (map cp_id (pr_coupons p)) \<and>
     list_all (\<lambda>c. cp_max_uses c \<le> 0 \<or> cp_used_count c \<le> cp_max_uses c) (pr_coupons p)"

lemma redeemed_below_limit:
  assumes "redeem_coupon now tenant code subtotal p = Inr (amount, ccode, p')"
  shows "\<exists>c \<in> set (pr_coupons p). (cp_max_uses c \<le> 0 \<or> cp_used_count c < cp_max_uses c)
    \<and> filter (\<lambda>c. cp_tenant_id c = tenant \<and> cp_code c = coupon_code code) (pr_coupons p) = [c]
    \<and> p' = increment_coupon_usage tenant (cp_id c) p"
proof -
  obtain a where a: "validate_coupon now p tenant code subtotal = Inr a"
    "(case a of Refused m \<Rightarrow> Inl (ValueError (Txt ''invalid_coupon:'' # m))
      | Applied cid ccode _ amount _ \<Rightarrow>
          Inr (dec_of_str (PFlt amount), ccode, increment_coupon_usage tenant cid p)) =
      Inr (amount, ccode, p')"
    using assms by (auto simp: redeem_coupon_def res_bind_eq_Inr)
  then obtain cid ty d f where v: "validate_coupon now p tenant code subtotal = Inr (Applied cid ccode ty d f)"
    "p' = increment_coupon_usage tenant cid p"
    by (cases a) auto
  then obtain c where flt: "filter (\<lambda>c. cp_tenant_id c = tenant \<and> cp_code c = coupon_code code) (pr_coupons p) = [c]"
    and chk: "check_coupon now c (dec_of_str subtotal) = Applied cid ccode ty d f"
    by (auto simp: validate_coupon_def split: list.splits)
  have "c \<in> set [c]" by simp
  then have "c \<in> set (pr_coupons p)" unfolding flt[symmetric] by simp
  moreover have "cp_id c = cid" "cp_max_uses c \<le> 0 \<or> cp_used_count c < cp_max_uses c"
    using chk by (auto simp: check_coupon_def Let_def split: if_splits)
  ultimately show ?thesis using v(2) flt by auto
qed

lemma step_keeps_uses:
  assumes "promotions_step p p'" "uses_within p"
  shows "uses_within p'"
  using assms
proof cases
  case (redeem now tenant code subtotal amount ccode)
  obtain c where c: "c \<in> set (pr_coupons p)" "cp_max_uses c \<le> 0 \<or> cp_used_count c < cp_max_uses c"
    "p' = increment_coupon_usage tenant (cp_id c) p" using redeemed_below_limit[OF redeem] by blast
  have "x = c" if "x \<in> set (pr_coupons p)" "cp_id x = cp_id c" for x
    using assms(2) c(1) that by (auto simp: uses_within_def distinct_map dest: inj_onD)
  then have "list_all (\<lambda>x. cp_max_uses x \<le> 0 \<or> cp_used_count x \<le> cp_max_uses x) (pr_coupons p')"
    using assms(2) c by (fastforce simp: uses_within_def list_all_iff increment_coupon_usage_def)
  moreover have "map cp_id (pr_coupons p') = map cp_id (pr_coupons p)"
    by (auto simp: c(3) increment_coupon_usage_def)
  ultimately show ?thesis using assms(2) by (simp add: uses_within_def)
next
  case (edit h tenant cid)
  have "map cp_id (pr_coupons p') = map cp_id (pr_coupons p)"
    by (auto simp: edit update_coupon_def change_coupon_def)
  moreover have "list_all (\<lambda>x. cp_max_uses x \<le> 0 \<or> cp_used_count x \<le> cp_max_uses x) (pr_coupons p')"
    using assms(2) edit by (auto simp: uses_within_def list_all_iff update_coupon_def
        change_coupon_def given_def)
  ultimately show ?thesis using assms(2) by (simp add: uses_within_def)
qed (use assms(2) in \<open>auto simp: uses_within_def list_all_iff create_coupon_def Let_def
    delete_coupon_def create_discount_def toggle_discount_def distinct_map_filter\<close>)



end
