(* ===== verification/Checkout.thy ===== *)
theory Checkout
  imports Payments Discounts
begin

text \<open>
  The checkout of \<open>app/common/bridge.py\<close>: \<open>checkout_cart\<close> in both of its flows,
  \<open>_deduct_stock_for_sale\<close>, \<open>initiate_payment\<close>, \<open>build_receipt_data\<close> and \<open>confirm_payment\<close>.

  \<open>shop\<close> holds the tables they use. An operation that commits part of its work before it raises
  returns the answer or the exception together with the state it leaves. Events go to the outbox
  of the tables they are staged with; in the database it is one table. The gateway's answers are
  arguments. A cart always has a store, so the branches for a cart without one have no model.
\<close>

section \<open>State\<close>

text \<open>A product as a store sells it, as far as a checkout reads it.\<close>

record store_product =
  sp_store_id :: uuid
  sp_product_id :: uuid
  sp_name :: string
  sp_selling_price :: rat
  sp_cost_price :: rat

record shop =
  sh_cart :: cart_db
  sh_till :: till
  sh_promotions :: promotions
  sh_stock :: "uuid \<Rightarrow> uuid \<Rightarrow> stock_balance option"
  sh_products :: "product list"
  sh_store_products :: "store_product list"
  sh_tax_rows :: "tax_row list"
  sh_product_taxes :: "product_tax_row list"

text \<open>An item of a request is the text that names the product, and the quantity.\<close>

record checkout_request =
  xr_actor :: "uuid option"
  xr_items :: "(string \<times> num) list option"
  xr_customer_name :: "string option"
  xr_customer_phone :: "string option"
  xr_store_id :: "uuid option"
  xr_coupon :: "string option"
  xr_discount_id :: "uuid option"
  xr_method :: string

record checkout_answer =
  xa_result :: sale_result
  xa_subtotal :: rat
  xa_discount :: rat
  xa_coupon :: "string option"

definition text_or :: "string option \<Rightarrow> string option \<Rightarrow> string option" where
  "text_or a b = (if str_truthy a then a else b)"

section \<open>Products and lines\<close>

text \<open>Old snapshots name a product by its identifier, a text of 36 characters with four dashes.\<close>

definition looks_like_uuid :: "string \<Rightarrow> bool" where
  "looks_like_uuid s \<longleftrightarrow> length s = 36 \<and> length (filter (\<lambda>c. c = CHR ''-'') s) = 4"

definition public_id_of :: "shop \<Rightarrow> string \<Rightarrow> string" where
  "public_id_of sh s =
    (if looks_like_uuid s
     then case List.find (\<lambda>p. pd_id p = s) (sh_products sh) of Some p \<Rightarrow> pd_public_id p | None \<Rightarrow> s
     else s)"

definition valid_checkout_item :: "checkout_item \<Rightarrow> bool" where
  "valid_checkout_item i \<longleftrightarrow> 1 \<le> length (xi_product_public_id i) \<and>
     length (xi_product_public_id i) \<le> 20 \<and> 0 < xi_qty i"

definition validated_items :: "shop \<Rightarrow> (string \<times> num) list \<Rightarrow> exn + checkout_item list" where
  "validated_items sh items =
    (let xs = map (\<lambda>(s, q). \<lparr>xi_product_public_id = public_id_of sh s, xi_qty = dec_of_str q\<rparr>) items
     in if list_all valid_checkout_item xs then Inr xs
        else Inl (ValueError [Txt ''ValidationError'']))"

text \<open>The rows of the products asked for, and the row a public identifier stands for.\<close>

definition products_of :: "shop \<Rightarrow> string list \<Rightarrow> product list" where
  "products_of sh public_ids = filter (\<lambda>p. pd_public_id p \<in> set public_ids) (sh_products sh)"

definition product_of :: "product list \<Rightarrow> string \<Rightarrow> product" where
  "product_of ps public_id = the (map_of (rev (map (\<lambda>p. (pd_public_id p, p)) ps)) public_id)"

definition check_products :: "int \<Rightarrow> string list \<Rightarrow> product list \<Rightarrow> exn + unit" where
  "check_products today public_ids ps =
    (let missing = filter (\<lambda>i. i \<notin> pd_public_id ` set ps) public_ids;
         blocked = map pd_name (filter (sale_blocked_by_expiry today) ps)
     in if missing \<noteq> [] then Inl (ValueError [Txt (''products_not_found:'' @ join_names '','' missing)])
        else if blocked \<noteq> [] then Inl (ValueError [Txt (''product_expired:'' @ join_names '','' blocked)])
        else Inr ())"

definition store_product_of :: "shop \<Rightarrow> uuid \<Rightarrow> uuid \<Rightarrow> store_product option" where
  "store_product_of sh store pid = List.find (\<lambda>sp. sp_store_id sp = store \<and> sp_product_id sp = pid)
     (sh_store_products sh)"

text \<open>The price and name of a cart line are the store's where the store has its own.\<close>

definition resolved_line :: "shop \<Rightarrow> uuid \<Rightarrow> product list \<Rightarrow> checkout_item \<Rightarrow> resolved_product" where
  "resolved_line sh store ps i =
    (let p = product_of ps (xi_product_public_id i);
         sp = store_product_of sh store (pd_id p);
         price = (case sp of Some s \<Rightarrow> fl (sp_selling_price s) | None \<Rightarrow> fl (pd_selling_price p))
     in (pd_id p, xi_product_public_id i, (case sp of Some s \<Rightarrow> sp_name s | None \<Rightarrow> pd_name p),
         dec_of_str (PFlt price), xi_qty i, store))"

definition taxes_of_product :: "(uuid \<times> tax_dict list) list \<Rightarrow> uuid \<Rightarrow> tax_dict list" where
  "taxes_of_product tm pid = (case map_of tm pid of None \<Rightarrow> [] | Some ts \<Rightarrow> ts)"

text \<open>A line of the sale. The rates of resolved taxes are floats.\<close>

definition taxed_line :: "uuid \<Rightarrow> string \<Rightarrow> rat \<Rightarrow> rat \<Rightarrow> tax_dict list \<Rightarrow> sale_item_line" where
  "taxed_line pid nm qty price ts =
     \<lparr>sl_product_id = pid, sl_product_name = nm, sl_qty = qty, sl_unit_price = price,
      sl_discount_pct = 0, sl_tax_id = (case ts of [] \<Rightarrow> None | t # _ \<Rightarrow> td_id t),
      sl_tax_rate = (if ts \<noteq> [] then Some (dec_of_str (PFlt (py_fsum (map rate_of ts)))) else None),
      sl_taxes = ts\<rparr>"

text \<open>The line of the sale has the price of the catalog.\<close>

definition sale_line :: "product list \<Rightarrow> (uuid \<times> tax_dict list) list \<Rightarrow> checkout_item \<Rightarrow> sale_item_line" where
  "sale_line ps tm i =
    (let p = product_of ps (xi_product_public_id i)
     in taxed_line (pd_id p) (pd_name p) (xi_qty i) (pd_selling_price p)
          (taxes_of_product tm (pd_id p)))"

definition checked_lines :: "sale_item_line list \<Rightarrow> exn + sale_item_line list" where
  "checked_lines ls = (if list_all valid_sale_line ls then Inr ls
     else Inl (ValueError [Txt ''ValidationError'']))"

definition lines_subtotal :: "sale_item_line list \<Rightarrow> rat" where
  "lines_subtotal ls = py_fsum (map (\<lambda>l. fmul (fl (sl_unit_price l)) (fl (sl_qty l))) ls)"

text \<open>
  Costs are recorded under the public identifier of a product and looked up under its UUID.
\<close>

definition cost_map :: "shop \<Rightarrow> uuid \<Rightarrow> product list \<Rightarrow> (string \<times> rat) list" where
  "cost_map sh store ps = rev (List.map_filter (\<lambda>p. map_option (\<lambda>sp. (pd_public_id p, fl (sp_cost_price sp)))
     (store_product_of sh store (pd_id p))) ps)"

definition journal_items :: "(string \<times> rat) list \<Rightarrow> sale_item_line list \<Rightarrow> sale_item_cost list" where
  "journal_items costs ls = map (\<lambda>l.
     \<lparr>sic_cost_price = Some (case map_of costs (sl_product_id l) of Some c \<Rightarrow> PFlt c | None \<Rightarrow> PInt 0),
      sic_qty = Some (PFlt (fl (sl_qty l)))\<rparr>) ls"

section \<open>Discounts of a checkout\<close>

definition checkout_discount ::
  "timestamp \<Rightarrow> uuid \<Rightarrow> checkout_request \<Rightarrow> sale_item_line list \<Rightarrow> promotions \<Rightarrow>
   exn + rat \<times> string option \<times> promotions" where
  "checkout_discount now tenant r ls p =
    (if str_truthy (xr_coupon r) then
       res_bind (redeem_coupon now tenant (str_or (xr_coupon r) []) (PFlt (lines_subtotal ls)) p)
         (\<lambda>(amount, ccode, p'). Inr (amount, Some ccode, p'))
     else if str_truthy (xr_discount_id r) then
       Inr ((case get_discount p tenant (str_or (xr_discount_id r) []) of
           Some d \<Rightarrow>
             if di_is_active d then dec_of_str (PFlt (apply_discount (PFlt (lines_subtotal ls))
               (di_discount_type d) (PFlt (fl (di_value d))) (di_free_qty d)
               (map (\<lambda>l. (PFlt (fl (sl_qty l)), PFlt (fl (sl_unit_price l)))) ls)))
             else 0
         | None \<Rightarrow> 0), None, p)
     else Inr (0, None, p))"

definition sale_command ::
  "uuid \<Rightarrow> cart \<Rightarrow> checkout_request \<Rightarrow> string option \<Rightarrow> string option \<Rightarrow> rat \<Rightarrow> sale_item_line list \<Rightarrow>
   sale_create_command" where
  "sale_command tenant ct r cust phone disc ls =
     \<lparr>sc_tenant_id = tenant, sc_cashier_id = (case xr_actor r of Some a \<Rightarrow> a | None \<Rightarrow> ct_id ct),
      sc_store_id = str_or (xr_store_id r) (ct_store_id ct), sc_customer_name = cust,
      sc_customer_phone = phone, sc_items = ls, sc_discount = disc, sc_notes = None,
      sc_correlation_id = None\<rparr>"

section \<open>Stock of a checkout\<close>

text \<open>Every line alone is compared with what is available before anything is sold.\<close>

definition available_qty :: "stock_balance option \<Rightarrow> num" where
  "available_qty b = (case b of None \<Rightarrow> PInt 0
     | Some x \<Rightarrow> PFlt (fsub (py_float (sb_qty x)) (py_float (sb_reserved_qty x))))"

definition check_stock ::
  "(uuid \<Rightarrow> uuid \<Rightarrow> stock_balance option) \<Rightarrow> uuid \<Rightarrow> sale_item_line list \<Rightarrow> exn + unit" where
  "check_stock stock store ls =
     res_fold (\<lambda>l _. let available = available_qty (stock (sl_product_id l) store) in
         if nval available < fl (sl_qty l)
         then Inl (ValueError [Txt (''insufficient_stock:'' @ sl_product_name l @ '':available_''), Num available])
         else Inr ()) ls ()"

text \<open>
  What is left of a row after selling, never below zero, and a row without stock. Within the
  transaction a row keeps the decimal it was given; the commit stores it with two decimals.
\<close>

definition qty_left :: "num \<Rightarrow> rat \<Rightarrow> num" where
  "qty_left have_qty sold = PDec (dec_of_str (PFlt (max (fsub (py_float have_qty) sold) 0)))"

definition stored_qty :: "stock_balance \<Rightarrow> stock_balance" where
  "stored_qty b = b\<lparr>sb_qty := column_num (sb_qty b)\<rparr>"

definition empty_row :: "uuid \<Rightarrow> uuid \<Rightarrow> uuid \<Rightarrow> uuid \<Rightarrow> stock_balance" where
  "empty_row bid tenant pid store =
     \<lparr>sb_id = bid, sb_tenant_id = tenant, sb_product_id = pid, sb_store_id = store, sb_qty = PDec 0,
      sb_reserved_qty = PDec 0, sb_min_stock_level = PDec 0, sb_unit_cost = Some (PDec 0)\<rparr>"

definition deduct_line ::
  "uuid \<Rightarrow> uuid \<Rightarrow> nat \<times> sale_item_line \<Rightarrow> (nat \<Rightarrow> uuid) \<Rightarrow> (uuid \<Rightarrow> uuid \<Rightarrow> stock_balance option) \<Rightarrow>
   (uuid \<Rightarrow> uuid \<Rightarrow> stock_balance option)" where
  "deduct_line tenant store nl bids stock =
    (case nl of (n, l) \<Rightarrow>
      let pid = sl_product_id l;
          row = (case stock pid store of
              Some b \<Rightarrow> b\<lparr>sb_qty := qty_left (sb_qty b) (fl (sl_qty l))\<rparr>
            | None \<Rightarrow> empty_row (bids n) tenant pid store)
      in stock(pid := (stock pid)(store := Some row)))"

definition deduct_stock ::
  "(nat \<Rightarrow> uuid) \<Rightarrow> uuid \<Rightarrow> uuid \<Rightarrow> sale_item_line list \<Rightarrow>
   (uuid \<Rightarrow> uuid \<Rightarrow> stock_balance option) \<Rightarrow> (uuid \<Rightarrow> uuid \<Rightarrow> stock_balance option)" where
  "deduct_stock bids tenant store ls stock =
    (let after = fold (\<lambda>nl. deduct_line tenant store nl bids) (zip [0..<length ls] ls) stock
     in (\<lambda>pid st. if pid \<in> sl_product_id ` set ls \<and> st = store then map_option stored_qty (after pid st)
          else after pid st))"

text \<open>\<open>_deduct_stock_for_sale\<close> of the legacy flow skips lines that sell nothing.\<close>

definition deduct_stock_for_sale ::
  "(nat \<Rightarrow> uuid) \<Rightarrow> uuid \<Rightarrow> uuid \<Rightarrow> sale_item_line list \<Rightarrow>
   (uuid \<Rightarrow> uuid \<Rightarrow> stock_balance option) \<Rightarrow> (uuid \<Rightarrow> uuid \<Rightarrow> stock_balance option)" where
  "deduct_stock_for_sale bids tenant store ls stock =
     deduct_stock bids tenant store (filter (\<lambda>l. 0 < fl (sl_qty l)) ls) stock"

section \<open>The journal of a checkout\<close>

definition checkout_entry ::
  "string \<Rightarrow> (string \<times> chart_account) list \<Rightarrow> journal_entry \<Rightarrow> exn + journal_entry" where
  "checkout_entry sale_number accounts e =
    (let code = je_account_code e in
     case map_of accounts code of
       Some a \<Rightarrow> Inr (e\<lparr>je_account_id := coa_id a\<rparr>)
     | None \<Rightarrow>
       (case (if code = ''1010'' then map_of accounts ''1000'' else None) of
          Some a \<Rightarrow> Inr (e\<lparr>je_account_code := ''1000'', je_account_id := coa_id a\<rparr>)
        | None \<Rightarrow> Inl (ValueError [Txt (''Cannot book '' @ sale_number @ '': account '' @ code @
            '' is missing from the chart of accounts'')])))"

definition book_checkout ::
  "(nat \<Rightarrow> uuid) \<Rightarrow> timestamp \<Rightarrow> string \<Rightarrow> uuid \<Rightarrow> uuid option \<Rightarrow> string \<Rightarrow> sale_result \<Rightarrow> sale \<Rightarrow>
   sale_item_cost list \<Rightarrow> books \<Rightarrow> exn + books" where
  "book_checkout jids now day tenant actor method res s costs bk =
    (case plan_sale_journal jids day tenant (ss_id res) (ss_number res) costs (ss_total res) (ss_tax res)
        (case so_tax_breakdown s of None \<Rightarrow> [] | Some ts \<Rightarrow> ts) method (Some (so_store_id s)) True of
      (j, es) \<Rightarrow>
        res_bind (res_fold (\<lambda>e done. res_bind
            (checkout_entry (ss_number res) (code_to_account bk tenant (map je_account_code es)) e)
            (\<lambda>e'. Inr (done @ [e']))) es [])
          (\<lambda>es'. write_posted now (Some now) actor j es' bk))"

section \<open>Checking out\<close>

text \<open>
  \<open>ids k n\<close> is the \<open>n\<close>-th fresh identifier of kind \<open>k\<close>: the sale and its items, the sale's event,
  cart items and their events, the checkout's event, the journal, new stock rows.
\<close>

definition store_sale ::
  "sale \<Rightarrow> sale_item list \<Rightarrow> outbox_write list \<Rightarrow> till \<Rightarrow> exn + till" where
  "store_sale s items ws t =
     res_bind (create_sale s (tb_sales t)) (\<lambda>db.
     Inr (emit ws (t\<lparr>tb_sales := create_sale_items items db\<rparr>)))"

definition finish_cart ::
  "uuid \<Rightarrow> cart_item list \<Rightarrow> outbox_write list \<Rightarrow> cart_db \<Rightarrow> exn + cart_db" where
  "finish_cart cid items ws db =
     res_bind (update_cart_status cid ''checked_out'' (bulk_add_cart_items items db)) (\<lambda>db'.
     Inr (add_writes ws db'))"

definition answer_of :: "sale_result \<Rightarrow> sale_item_line list \<Rightarrow> rat \<Rightarrow> string option \<Rightarrow> checkout_answer" where
  "answer_of res ls disc ccode =
     \<lparr>xa_result = res, xa_subtotal = round2 (lines_subtotal ls), xa_discount = round2 (fl disc),
      xa_coupon = ccode\<rparr>"

text \<open>The products, the lines of the cart and of the sale, and the costs of a new checkout.\<close>

definition prepare_checkout ::
  "int \<Rightarrow> uuid \<Rightarrow> cart \<Rightarrow> (string \<times> num) list \<Rightarrow> shop \<Rightarrow>
   exn + checkout_item list \<times> resolved_product list \<times> sale_item_line list \<times> (string \<times> rat) list" where
  "prepare_checkout today tenant ct items sh =
    (if items = [] then Inl (ValueError [Txt ''cart_empty''])
     else
      res_bind (validated_items sh items) (\<lambda>xs.
      let public_ids = map xi_product_public_id xs; ps = products_of sh public_ids;
          tm = product_tax_map (sh_tax_rows sh) (sh_product_taxes sh) tenant (map (\<lambda>p. Some (pd_id p)) ps);
          store = ct_store_id ct
      in res_bind (check_products today public_ids ps) (\<lambda>_.
         res_bind (checked_lines (map (sale_line ps tm) xs)) (\<lambda>ls.
         Inr (xs, map (resolved_line sh store ps) xs, ls, cost_map sh store ps)))))"

text \<open>The one transaction of a new checkout, from the stock check on.\<close>

definition commit_checkout ::
  "(nat \<Rightarrow> nat \<Rightarrow> uuid) \<Rightarrow> timestamp \<Rightarrow> string \<Rightarrow> uuid \<Rightarrow> cart \<Rightarrow> checkout_request \<Rightarrow>
   checkout_item list \<Rightarrow> resolved_product list \<Rightarrow> sale_item_line list \<Rightarrow> (string \<times> rat) list \<Rightarrow> rat \<Rightarrow>
   string option \<Rightarrow> shop \<Rightarrow> exn + checkout_answer \<times> shop" where
  "commit_checkout ids now day tenant ct r xs resolved ls costs disc ccode sh =
    (let cust = text_or (xr_customer_name r) (ct_customer_name ct);
         phone = text_or (xr_customer_phone r) (ct_customer_phone ct);
         store = ct_store_id ct;
         c = \<lparr>xc_cart_id = ct_id ct, xc_tenant_id = tenant, xc_items = Some xs, xc_customer_name = cust,
           xc_customer_phone = phone, xc_created_by = xr_actor r, xc_correlation_id = None\<rparr>;
         (cart_items, item_writes) = plan_bulk_add_items (ids 2) now c resolved
     in res_bind (check_stock (sh_stock sh) store ls) (\<lambda>_.
        case plan_sale_creation (ids 0) (ids 1 0) now day (sale_command tenant ct r cust phone disc ls) of
          (res, s, items, sale_writes) \<Rightarrow>
        res_bind (store_sale s items sale_writes (sh_till sh)) (\<lambda>t.
        res_bind (book_checkout (ids 4) now day tenant (xr_actor r) (xr_method r) res s
            (journal_items costs ls) (tb_books t)) (\<lambda>bk.
        res_bind (plan_checkout (ids 3 0) now c ct cart_items) (\<lambda>cart_writes.
        res_bind (finish_cart (ct_id ct) cart_items (item_writes @ cart_writes) (sh_cart sh)) (\<lambda>cdb.
        Inr (answer_of res ls disc ccode,
             sh\<lparr>sh_till := t\<lparr>tb_books := bk\<rparr>, sh_cart := cdb,
               sh_stock := deduct_stock (ids 5) tenant store ls (sh_stock sh)\<rparr>)))))))"

definition new_checkout ::
  "(nat \<Rightarrow> nat \<Rightarrow> uuid) \<Rightarrow> timestamp \<Rightarrow> int \<Rightarrow> string \<Rightarrow> uuid \<Rightarrow> cart \<Rightarrow> checkout_request \<Rightarrow>
   (string \<times> num) list \<Rightarrow> shop \<Rightarrow> (exn + checkout_answer) \<times> shop" where
  "new_checkout ids now today day tenant ct r items sh =
    (case prepare_checkout today tenant ct items sh of
       Inl e \<Rightarrow> (Inl e, sh)
     | Inr (xs, resolved, ls, costs) \<Rightarrow>
      (case checkout_discount now tenant r ls (sh_promotions sh) of
         Inl e \<Rightarrow> (Inl e, sh)
       | Inr (disc, ccode, p) \<Rightarrow>
        (let sh1 = sh\<lparr>sh_promotions := p\<rparr> in
         case commit_checkout ids now day tenant ct r xs resolved ls costs disc ccode sh1 of
           Inl e \<Rightarrow> (Inl e, sh1)
         | Inr (ans, sh2) \<Rightarrow> (Inr ans, sh2))))"

text \<open>
  The legacy flow sells the items already in the cart. It commits the sale, then the stock, then
  the journal, then the cart, so a refused journal leaves the sale and the deduction.
\<close>

definition legacy_line :: "(uuid \<times> tax_dict list) list \<Rightarrow> cart_item \<Rightarrow> sale_item_line" where
  "legacy_line tm i = taxed_line (ci_product_id i) (ci_name i) (dec_of_str (ci_qty i))
     (dec_of_str (ci_unit_price i)) (taxes_of_product tm (ci_product_id i))"

definition prepare_legacy ::
  "int \<Rightarrow> uuid \<Rightarrow> cart_item list \<Rightarrow> shop \<Rightarrow> exn + sale_item_line list" where
  "prepare_legacy today tenant items sh =
    (if items = [] then Inl (ValueError [Txt ''cart_empty''])
     else
      (let pids = map ci_product_id items;
           blocked = map pd_name (filter (\<lambda>p. pd_id p \<in> set pids \<and> pd_tenant_id p = tenant \<and>
             sale_blocked_by_expiry today p) (sh_products sh));
           tm = product_tax_map (sh_tax_rows sh) (sh_product_taxes sh) tenant (map Some pids)
       in if blocked \<noteq> []
          then Inl (ValueError [Txt (''product_expired:'' @ join_names '','' blocked)])
          else checked_lines (map (legacy_line tm) items)))"

definition legacy_checkout ::
  "(nat \<Rightarrow> nat \<Rightarrow> uuid) \<Rightarrow> timestamp \<Rightarrow> int \<Rightarrow> string \<Rightarrow> uuid \<Rightarrow> cart \<Rightarrow> checkout_request \<Rightarrow> shop \<Rightarrow>
   (exn + checkout_answer) \<times> shop" where
  "legacy_checkout ids now today day tenant ct r sh =
    (let items = get_cart_items (sh_cart sh) (ct_id ct);
         c = \<lparr>xc_cart_id = ct_id ct, xc_tenant_id = tenant, xc_items = None, xc_customer_name = None,
           xc_customer_phone = None, xc_created_by = xr_actor r, xc_correlation_id = None\<rparr>
     in case prepare_legacy today tenant items sh of
       Inl e \<Rightarrow> (Inl e, sh)
     | Inr ls \<Rightarrow>
      (case checkout_discount now tenant r ls (sh_promotions sh) of
         Inl e \<Rightarrow> (Inl e, sh)
       | Inr (disc, ccode, p) \<Rightarrow>
        (let sh1 = sh\<lparr>sh_promotions := p\<rparr> in
         case res_bind (plan_checkout (ids 3 0) now c ct items) (\<lambda>ws.
             case plan_sale_creation (ids 0) (ids 1 0) now day
                 (sale_command tenant ct r (ct_customer_name ct) (ct_customer_phone ct) disc ls) of
               (res, s, sale_items, sale_writes) \<Rightarrow>
               res_bind (store_sale s sale_items sale_writes (sh_till sh1)) (\<lambda>t. Inr (ws, res, s, t))) of
           Inl e \<Rightarrow> (Inl e, sh1)
         | Inr (ws, res, s, t) \<Rightarrow>
            (let sh2 = sh1\<lparr>sh_till := t, sh_stock :=
                   deduct_stock_for_sale (ids 5) tenant (ct_store_id ct) ls (sh_stock sh1)\<rparr> in
             case book_checkout (ids 4) now day tenant (xr_actor r) (xr_method r) res s
                 (map (\<lambda>l. \<lparr>sic_cost_price = Some (PInt 0), sic_qty = Some (PFlt (fl (sl_qty l)))\<rparr>) ls)
                 (tb_books t) of
               Inl e \<Rightarrow> (Inl e, sh2)
             | Inr bk \<Rightarrow>
                (let sh3 = sh2\<lparr>sh_till := t\<lparr>tb_books := bk\<rparr>\<rparr> in
                 case finish_cart (ct_id ct) [] ws (sh_cart sh3) of
                   Inl e \<Rightarrow> (Inl e, sh3)
                 | Inr cdb \<Rightarrow> (Inr (answer_of res ls disc ccode), sh3\<lparr>sh_cart := cdb\<rparr>))))))"

definition checkout_cart ::
  "(nat \<Rightarrow> nat \<Rightarrow> uuid) \<Rightarrow> timestamp \<Rightarrow> int \<Rightarrow> string \<Rightarrow> uuid \<Rightarrow> uuid \<Rightarrow> checkout_request \<Rightarrow> shop \<Rightarrow>
   (exn + checkout_answer) \<times> shop" where
  "checkout_cart ids now today day tenant cid r sh =
    (case assert_fee_headroom (tb_fees (sh_till sh)) tenant of
       Inl e \<Rightarrow> (Inl e, sh)
     | Inr _ \<Rightarrow>
      (case get_cart_by_id (sh_cart sh) cid of
         None \<Rightarrow> (Inl (ValueError [Txt ''cart_not_found'']), sh)
       | Some ct \<Rightarrow>
        (case xr_items r of
           Some items \<Rightarrow> new_checkout ids now today day tenant ct r items sh
         | None \<Rightarrow> legacy_checkout ids now today day tenant ct r sh)))"

section \<open>A payment before the sale\<close>

text \<open>
  \<open>initiate_payment\<close> prices the items of a cart and opens an intent. A product that is gone costs
  nothing. A snapshot names products by their public identifiers and has float quantities.
\<close>

definition intent_price :: "shop \<Rightarrow> uuid \<Rightarrow> cart_item \<Rightarrow> rat" where
  "intent_price sh store i =
    (case store_product_of sh store (ci_product_id i) of
       Some sp \<Rightarrow> fl (sp_selling_price sp)
     | None \<Rightarrow> (case List.find (\<lambda>p. pd_id p = ci_product_id i) (sh_products sh) of
         Some p \<Rightarrow> fl (pd_selling_price p) | None \<Rightarrow> 0))"

definition intent_item :: "shop \<Rightarrow> uuid \<Rightarrow> cart_item \<Rightarrow> snapshot_item" where
  "intent_item sh store i =
     \<lparr>sn_product_public_id = (case List.find (\<lambda>p. pd_id p = ci_product_id i) (sh_products sh) of
        Some p \<Rightarrow> pd_public_id p | None \<Rightarrow> ci_product_id i),
      sn_qty = py_float (ci_qty i), sn_unit_price = intent_price sh store i\<rparr>"

definition intent_tax_line :: "(uuid \<times> tax_dict list) list \<Rightarrow> cart_item \<times> snapshot_item \<Rightarrow> tax_line" where
  "intent_tax_line tm x = \<lparr>tl_qty = PFlt (sn_qty (snd x)), tl_unit_price = PFlt (sn_unit_price (snd x)),
     tl_discount_pct = PFlt 0, tl_taxes = taxes_of_product tm (ci_product_id (fst x))\<rparr>"

text \<open>The sum of prices times quantities, the taxes, and the amount the customer owes.\<close>

definition intent_total :: "snapshot_item list \<Rightarrow> rat" where
  "intent_total items = dec_sum (map (\<lambda>s. dmul (dec_of_str (PFlt (sn_unit_price s)))
     (dec_of_str (PFlt (sn_qty s)))) items)"

definition intent_calc ::
  "(uuid \<times> tax_dict list) list \<Rightarrow> (cart_item \<times> snapshot_item) list \<Rightarrow> rat \<Rightarrow> tax_computation" where
  "intent_calc tm xs disc = compute_taxes (map (intent_tax_line tm) xs) (PFlt (fl disc))"

definition intent_amount :: "tax_computation \<Rightarrow> rat" where
  "intent_amount calc = max 0 (dadd (dec_of_str (PFlt (tx_taxable calc))) (dec_of_str (PFlt (tx_total_tax calc))))"

text \<open>
  The link of a card payment is set on an object that no longer belongs to a session, so the row
  keeps none. A transfer's virtual account and the life time of its page are stored.
\<close>

record gateway_account =
  ga_number :: string
  ga_bank :: string
  ga_ttl :: "int option"

definition page_ttl :: "int option \<Rightarrow> int" where
  "page_ttl ttl = max 300 (min (case ttl of Some x \<Rightarrow> x | None \<Rightarrow> 1800) 86400)"

definition with_account :: "timestamp \<Rightarrow> gateway_account \<Rightarrow> payment_intent \<Rightarrow> payment_intent" where
  "with_account now a i = i\<lparr>pi_dva_account_number := Some (ga_number a), pi_bank_name := Some (ga_bank a),
     pi_metadata := OtherMetadata, pi_expires_at := Some (now + page_ttl (ga_ttl a))\<rparr>"

record intent_request =
  ir_cart :: uuid
  ir_method :: string
  ir_customer_name :: "string option"
  ir_customer_phone :: "string option"
  ir_coupon :: "string option"
  ir_store_id :: "uuid option"
  ir_actor :: "uuid option"

definition intent_reference :: "string \<Rightarrow> uuid \<Rightarrow> string" where
  "intent_reference method u = ''SF-'' @ take 3 (map upper_char method) @ ''-'' @ tx_hex 12 u"

definition snapshot_intent ::
  "(nat \<Rightarrow> uuid) \<Rightarrow> timestamp \<Rightarrow> uuid \<Rightarrow> cart \<Rightarrow> uuid \<Rightarrow> intent_request \<Rightarrow> snapshot_item list \<Rightarrow> rat \<Rightarrow> rat \<Rightarrow>
   payment_intent" where
  "snapshot_intent ids now tenant ct store q items disc final_total =
     (new_intent (ids 1) now tenant None (ir_method q) final_total
        (intent_reference (ir_method q) (ids 0)))\<lparr>pi_cart_id := Some (ir_cart q),
        pi_customer_name := text_or (ir_customer_name q) (ct_customer_name ct),
        pi_customer_phone := text_or (ir_customer_phone q) (ct_customer_phone ct),
        pi_coupon_code := ir_coupon q,
        pi_cart_snapshot := Some \<lparr>snap_items = items, snap_store_id = Some store,
          snap_actor_id = ir_actor q, snap_total = fl (intent_total items), snap_discount = fl disc,
          snap_final_total = fl final_total\<rparr>\<rparr>"

definition initiate_payment ::
  "(nat \<Rightarrow> uuid) \<Rightarrow> timestamp \<Rightarrow> gateway_account \<Rightarrow> uuid \<Rightarrow> intent_request \<Rightarrow> shop \<Rightarrow>
   exn + payment_intent \<times> shop" where
  "initiate_payment ids now account tenant q sh =
    (case get_cart_by_id (sh_cart sh) (ir_cart q) of
       None \<Rightarrow> Inl (ValueError [Txt ''cart_not_found''])
     | Some ct \<Rightarrow>
      (let raw = get_cart_items (sh_cart sh) (ir_cart q);
           store = str_or (ir_store_id q) (ct_store_id ct);
           items = map (intent_item sh store) raw;
           tm = product_tax_map (sh_tax_rows sh) (sh_product_taxes sh) tenant
             (map (\<lambda>i. Some (ci_product_id i)) raw)
       in if raw = [] then Inl (ValueError [Txt ''cart_empty''])
          else
          res_bind (if str_truthy (ir_coupon q)
              then res_bind (redeem_coupon now tenant (str_or (ir_coupon q) [])
                  (PFlt (fl (intent_total items))) (sh_promotions sh)) (\<lambda>(d, _, p). Inr (d, p))
              else Inr (0, sh_promotions sh)) (\<lambda>(disc, p).
          let final_total = intent_amount (intent_calc tm (zip raw items) disc);
              i = snapshot_intent ids now tenant ct store q items disc final_total;
              t = create_intent i (sh_till sh);
              t' = (if ir_method q = ''transfer''
                    then change_intents (\<lambda>x. pi_id x = pi_id i) (with_account now account) t else t)
          in Inr (i, sh\<lparr>sh_promotions := p, sh_till := t'\<rparr>))))"

section \<open>The receipt\<close>

text \<open>\<open>business\<close> and \<open>shop_info\<close> are the rows of the tenant and the store.\<close>

record receipt_item =
  ri_product_name :: string
  ri_qty :: rat
  ri_unit_price :: rat
  ri_discount_pct :: rat
  ri_tax_rate :: "rat option"
  ri_line_total :: rat

record receipt_data =
  rd_number :: string
  rd_business :: "string \<times> string \<times> string"
  rd_store :: "string \<times> string"
  rd_sale_number :: string
  rd_created_at :: timestamp
  rd_customer_name :: "string option"
  rd_items :: "receipt_item list"
  rd_subtotal :: rat
  rd_discount :: rat
  rd_tax :: rat
  rd_tax_breakdown :: "tax_dict list"
  rd_total :: rat
  rd_amount_paid :: rat
  rd_method :: string

definition receipt_item_of :: "sale_item \<Rightarrow> receipt_item" where
  "receipt_item_of si = \<lparr>ri_product_name = si_product_name si, ri_qty = py_float (si_qty si),
     ri_unit_price = py_float (si_unit_price si), ri_discount_pct = py_float (si_discount_pct si),
     ri_tax_rate = (case si_tax_rate si of None \<Rightarrow> None
       | Some r \<Rightarrow> if num_truthy r then Some (py_float r) else None),
     ri_line_total = py_float (si_line_total si)\<rparr>"

definition build_receipt_data ::
  "uuid \<Rightarrow> timestamp \<Rightarrow> string \<Rightarrow> string \<times> string \<times> string \<Rightarrow> string \<times> string \<Rightarrow> uuid \<Rightarrow> string \<Rightarrow> till \<Rightarrow>
   receipt_data" where
  "build_receipt_data rid now day business shop_info sale_id method t =
    (let items = map receipt_item_of (get_sale_items (tb_sales t) sale_id) in
     case get_sale_by_id (tb_sales t) sale_id of
       None \<Rightarrow> \<lparr>rd_number = receipt_number day rid, rd_business = business, rd_store = shop_info,
         rd_sale_number = [], rd_created_at = now, rd_customer_name = None, rd_items = items,
         rd_subtotal = 0, rd_discount = 0, rd_tax = 0, rd_tax_breakdown = [], rd_total = 0,
         rd_amount_paid = 0, rd_method = method\<rparr>
     | Some s \<Rightarrow> \<lparr>rd_number = receipt_number day rid, rd_business = business, rd_store = shop_info,
         rd_sale_number = so_number s, rd_created_at = so_created_at s,
         rd_customer_name = so_customer_name s, rd_items = items,
         rd_subtotal = py_float (so_subtotal s), rd_discount = py_float (so_discount s),
         rd_tax = py_float (so_tax s),
         rd_tax_breakdown = (case so_tax_breakdown s of None \<Rightarrow> [] | Some ts \<Rightarrow> ts),
         rd_total = py_float (so_total s), rd_amount_paid = py_float (so_amount_paid s),
         rd_method = method\<rparr>)"

section \<open>Confirming a payment\<close>

datatype paid_info = Recorded pay_answer | LastPayment payment | NoPayment

record confirmation =
  cf_sale_id :: uuid
  cf_sale_number :: string
  cf_total :: rat
  cf_amount_paid :: rat
  cf_status :: string
  cf_payment :: paid_info
  cf_receipt :: receipt_data

type_synonym receipt_source =
  "uuid \<times> timestamp \<times> string \<times> (string \<times> string \<times> string) \<times> (uuid option \<Rightarrow> string \<times> string)"

definition receipt_for :: "receipt_source \<Rightarrow> uuid \<Rightarrow> uuid option \<Rightarrow> string \<Rightarrow> till \<Rightarrow> receipt_data" where
  "receipt_for src sale_id store method t =
    (case src of (rid, now, day, business, stores) \<Rightarrow>
      build_receipt_data rid now day business (stores store) sale_id method t)"

definition existing_sale_confirmation ::
  "receipt_source \<Rightarrow> payment_intent \<Rightarrow> uuid \<Rightarrow> till \<Rightarrow> exn + confirmation" where
  "existing_sale_confirmation src i sale_id t =
    (case get_sale_by_id (tb_sales t) sale_id of
       None \<Rightarrow> Inl (ValueError [Txt (''intent_not_status:'' @ pi_status i)])
     | Some s \<Rightarrow>
        Inr \<lparr>cf_sale_id = sale_id, cf_sale_number = so_number s, cf_total = py_float (so_total s),
          cf_amount_paid = py_float (so_amount_paid s), cf_status = so_status s,
          cf_payment = (case get_payments_by_sale t sale_id of [] \<Rightarrow> NoPayment | p # _ \<Rightarrow> LastPayment p),
          cf_receipt = receipt_for src sale_id (case pi_cart_snapshot i of None \<Rightarrow> None
            | Some sn \<Rightarrow> snap_store_id sn) (str_or (Some (pi_method i)) ''cash'') t\<rparr>)"

text \<open>The checkout a confirmed intent asks for; without a snapshot it has no items.\<close>

definition intent_checkout :: "payment_intent \<Rightarrow> checkout_request" where
  "intent_checkout i =
     \<lparr>xr_actor = (case pi_cart_snapshot i of None \<Rightarrow> None | Some sn \<Rightarrow> snap_actor_id sn),
      xr_items = map_option (\<lambda>sn. map (\<lambda>s. (sn_product_public_id s, PFlt (sn_qty s))) (snap_items sn))
        (pi_cart_snapshot i),
      xr_customer_name = pi_customer_name i, xr_customer_phone = pi_customer_phone i,
      xr_store_id = (case pi_cart_snapshot i of None \<Rightarrow> None | Some sn \<Rightarrow> snap_store_id sn),
      xr_coupon = pi_coupon_code i, xr_discount_id = None,
      xr_method = str_or (Some (pi_method i)) ''cash''\<rparr>"

definition complete_intent :: "uuid \<Rightarrow> uuid \<Rightarrow> till \<Rightarrow> till" where
  "complete_intent iid sale_id = change_intents (\<lambda>x. pi_id x = iid)
     (\<lambda>x. x\<lparr>pi_sale_id := Some sale_id, pi_status := ''completed''\<rparr>)"

definition confirm_payment ::
  "(nat \<Rightarrow> nat \<Rightarrow> uuid) \<Rightarrow> timestamp \<Rightarrow> int \<Rightarrow> string \<Rightarrow> receipt_source \<Rightarrow> uuid \<Rightarrow> uuid \<Rightarrow> shop \<Rightarrow>
   (exn + confirmation) \<times> shop" where
  "confirm_payment ids now today day src tenant iid sh =
    (case get_intent_by_id (sh_till sh) iid of
       None \<Rightarrow> (Inl (ValueError [Txt ''intent_not_found'']), sh)
     | Some i \<Rightarrow>
       if pi_status i \<noteq> ''pending'' then
         ((case (if pi_status i = ''completed'' then pi_sale_id i else None) of
             Some sale_id \<Rightarrow> existing_sale_confirmation src i sale_id (sh_till sh)
           | None \<Rightarrow> Inl (ValueError [Txt (''intent_not_status:'' @ pi_status i)])), sh)
       else if (case pi_expires_at i of None \<Rightarrow> False | Some e \<Rightarrow> e < now) then
         (Inl (ValueError [Txt ''intent_expired'']),
          sh\<lparr>sh_till := change_intents (\<lambda>x. pi_id x = iid) (\<lambda>x. x\<lparr>pi_status := ''expired''\<rparr>) (sh_till sh)\<rparr>)
       else
       (case pi_cart_id i of
          None \<Rightarrow> (Inl (ValueError [Txt ''intent_no_cart'']), sh)
        | Some cid \<Rightarrow>
         (case checkout_cart ids now today day tenant cid (intent_checkout i) sh of
            (Inl e, sh1) \<Rightarrow> (Inl e, sh1)
          | (Inr ans, sh1) \<Rightarrow>
             (let res = xa_result ans in
              case record_payment (ids 6) now tenant (ss_id res) (pi_method i) (dec_of_str (pi_amount i))
                  (pi_gateway_reference i) (sh_till sh1) of
                Inl e \<Rightarrow> (Inl e, sh1)
              | Inr (pay, t) \<Rightarrow>
                 (let t' = complete_intent iid (ss_id res) t in
                  (Inr \<lparr>cf_sale_id = ss_id res, cf_sale_number = ss_number res, cf_total = ss_total res,
                     cf_amount_paid = ss_amount_paid res, cf_status = ss_status res,
                     cf_payment = Recorded pay,
                     cf_receipt = receipt_for src (ss_id res) (xr_store_id (intent_checkout i))
                       (pi_method i) t'\<rparr>, sh1\<lparr>sh_till := t'\<rparr>))))))"

end
