(* ===== verification/Returns.thy ===== *)
theory Returns
  imports Checkout
begin

text \<open>
  Voids and returns of sales and the reads of the sales screens: \<open>void_sale\<close>, \<open>return_sale\<close> and
  \<open>sales_status_summary\<close> of \<open>common/services.py\<close>. A void and a return run in one transaction; what the
  two functions have in common is one group of definitions here. The invalidation of caches at
  their end has no model.
\<close>

section \<open>State\<close>

record back_office =
  bf_shop :: shop
  bf_movements :: "stock_movement list"
  bf_audit :: "audit_row list"

section \<open>What a void and a return share\<close>

definition owned_sale :: "sales_db \<Rightarrow> uuid \<Rightarrow> uuid \<Rightarrow> sale option" where
  "owned_sale db tenant sale_id = (case get_sale_by_id db sale_id of
     Some s \<Rightarrow> if so_tenant_id s = tenant then Some s else None | None \<Rightarrow> None)"

definition items_of_sale :: "sales_db \<Rightarrow> uuid \<Rightarrow> sale_item list" where
  "items_of_sale db sale_id = filter (\<lambda>i. si_sale_id i = sale_id) (db_items db)"

text \<open>The row of the sale with its audit columns; a return reuses those of a void.\<close>

definition close_sale :: "string \<Rightarrow> string \<Rightarrow> uuid \<Rightarrow> timestamp \<Rightarrow> sale \<Rightarrow> sale" where
  "close_sale st reason user now s = s\<lparr>so_status := st, so_void_reason := Some reason,
     so_voided_by := Some user, so_voided_at := Some now\<rparr>"

text \<open>
  One line goes back to the row of the sale's store. A product without a row there is skipped.
  Within the transaction a row keeps the decimal it was given.
\<close>

type_synonym stock_table = "uuid \<Rightarrow> uuid \<Rightarrow> stock_balance option"

definition restock_item ::
  "string \<Rightarrow> string \<Rightarrow> uuid \<Rightarrow> uuid \<Rightarrow> sale \<Rightarrow> (nat \<Rightarrow> uuid) \<Rightarrow> nat \<times> sale_item \<Rightarrow>
   stock_table \<times> stock_movement list \<Rightarrow> stock_table \<times> stock_movement list" where
  "restock_item kind reason tenant user s ids ni st =
    (case (ni, st) of ((n, i), (stock, movements)) \<Rightarrow>
     case stock (si_product_id i) (so_store_id s) of
       None \<Rightarrow> st
     | Some b \<Rightarrow>
        if sb_tenant_id b \<noteq> tenant then st
        else
         (let qty = dec_of_str (si_qty i);
              before = dec_of_str (sb_qty b);
              after = dadd before qty
          in (stock(si_product_id i := (stock (si_product_id i))(so_store_id s := Some (b\<lparr>sb_qty := PDec after\<rparr>))),
              movements @ [\<lparr>sm_id = ids n, sm_tenant_id = tenant, sm_product_id = si_product_id i,
                sm_store_id = so_store_id s, sm_movement_type = kind, sm_qty_change = PDec qty,
                sm_balance_before = PDec before, sm_balance_after = PDec after,
                sm_reference_type = Some ''sale'', sm_reference_id = Some (so_id s),
                sm_reason = Some (take 100 reason), sm_unit_cost = None, sm_notes = None,
                sm_created_by = Some user\<rparr>])))"

definition restock ::
  "string \<Rightarrow> string \<Rightarrow> uuid \<Rightarrow> uuid \<Rightarrow> sale \<Rightarrow> (nat \<Rightarrow> uuid) \<Rightarrow> sale_item list \<Rightarrow>
   stock_table \<times> stock_movement list \<Rightarrow> stock_table \<times> stock_movement list" where
  "restock kind reason tenant user s ids items st =
    (case fold (restock_item kind reason tenant user s ids) (zip [0..<length items] items) st of
       (stock, movements) \<Rightarrow>
      ((\<lambda>pid store. if pid \<in> si_product_id ` set items \<and> store = so_store_id s
          then map_option stored_qty (stock pid store) else stock pid store), movements))"

text \<open>The first posted journal of the sale is mirrored, line by line.\<close>

definition reversed_entry ::
  "timestamp \<Rightarrow> uuid \<Rightarrow> uuid \<Rightarrow> string \<Rightarrow> uuid \<Rightarrow> journal_entry \<Rightarrow> journal_entry" where
  "reversed_entry now jid tenant label eid e =
    (let reversed_debit = fl (je_credit e); reversed_credit = fl (je_debit e)
     in \<lparr>je_id = eid, je_journal_id = jid, je_tenant_id = tenant, je_account_id = je_account_id e,
         je_account_code = je_account_code e, je_debit = reversed_debit, je_credit = reversed_credit,
         je_description = Some (take 255 (label @ '': '' @ str_or (je_description e) [])),
         je_type = je_type e, je_status = ''posted'', je_posted_at = Some now,
         je_amount = fadd reversed_debit reversed_credit\<rparr>)"

definition reverse_sale_journal ::
  "(nat \<Rightarrow> uuid) \<Rightarrow> timestamp \<Rightarrow> string \<Rightarrow> string \<Rightarrow> string \<Rightarrow> string \<Rightarrow> uuid \<Rightarrow> sale \<Rightarrow> books \<Rightarrow> books" where
  "reverse_sale_journal ids now day word kind reason tenant s bk =
    (case sale_journals bk tenant (so_id s) of
       [] \<Rightarrow> bk
     | original # _ \<Rightarrow>
        (let es = get_journal_entries bk (jn_id original)
         in add_posted now day (ids 0) tenant (word @ '' sale '' @ so_number s @ '': '' @ reason) (so_id s) kind
              (Some (so_store_id s))
              (map (\<lambda>(n, e). reversed_entry now (ids 0) tenant (word @ '' '' @ so_number s) (ids (Suc n)) e)
                (zip [0..<length es] es)) bk))"

section \<open>Voiding and returning\<close>

text \<open>\<open>ids k\<close>: kind 0 the journal and its entries, 1 the movements, 2 the event.\<close>

definition undo_sale ::
  "(nat \<Rightarrow> nat \<Rightarrow> uuid) \<Rightarrow> timestamp \<Rightarrow> string \<Rightarrow> string \<Rightarrow> string \<Rightarrow> string \<Rightarrow> string \<Rightarrow> uuid \<Rightarrow> uuid \<Rightarrow> string \<Rightarrow>
   sale \<Rightarrow> outbox_write list \<Rightarrow> audit_row \<Rightarrow> back_office \<Rightarrow> exn + back_office" where
  "undo_sale ids now day st movement_kind word journal_kind tenant user reason s ws audit bf =
    (let t = sh_till (bf_shop bf);
         (stock, movements) = restock movement_kind reason tenant user s (ids 1)
           (items_of_sale (tb_sales t) (so_id s)) (sh_stock (bf_shop bf), bf_movements bf);
         bk = reverse_sale_journal (ids 0) now day word journal_kind reason tenant s (tb_books t)
     in res_bind (change_sale (so_id s) (close_sale st reason user now) (tb_sales t)) (\<lambda>db.
        Inr (bf\<lparr>bf_shop := (bf_shop bf)\<lparr>sh_stock := stock,
               sh_till := emit ws (t\<lparr>tb_sales := db, tb_books := bk\<rparr>)\<rparr>,
             bf_movements := movements, bf_audit := bf_audit bf @ [audit]\<rparr>)))"

definition service_void_sale ::
  "(nat \<Rightarrow> nat \<Rightarrow> uuid) \<Rightarrow> timestamp \<Rightarrow> string \<Rightarrow> uuid \<Rightarrow> uuid \<Rightarrow> uuid \<Rightarrow> string \<Rightarrow> back_office \<Rightarrow>
   exn + back_office" where
  "service_void_sale ids now day tenant user sale_id reason bf =
    (case owned_sale (tb_sales (sh_till (bf_shop bf))) tenant sale_id of
       None \<Rightarrow> Inl (ValueError [Txt ''sale_not_found''])
     | Some s \<Rightarrow>
        if so_status s = ''voided'' then Inl (ValueError [Txt ''sale_already_voided''])
        else undo_sale ids now day ''voided'' ''void_return'' ''Void'' ''sale_void'' tenant user reason s
          [\<lparr>ow_event = sale_voided_event (ids 2 0) now tenant (so_id s) (so_number s) reason user
              (PFlt (py_float (so_total s))) None,
            aggregate_type = ''sale'', aggregate_id = so_id s\<rparr>]
          \<lparr>au_user_id = user, au_tenant_id = tenant, au_action = ''sale_voided'',
           au_details = [(''sale_number'', JStr (so_number s)),
             (''total'', JNum (PFlt (py_float (so_total s)))), (''reason'', JStr reason),
             (''store_id'', JStr (so_store_id s))]\<rparr> bf)"

definition service_return_sale ::
  "(nat \<Rightarrow> nat \<Rightarrow> uuid) \<Rightarrow> timestamp \<Rightarrow> string \<Rightarrow> uuid \<Rightarrow> uuid \<Rightarrow> uuid \<Rightarrow> string \<Rightarrow> back_office \<Rightarrow>
   exn + rat \<times> back_office" where
  "service_return_sale ids now day tenant user sale_id reason bf =
    (case owned_sale (tb_sales (sh_till (bf_shop bf))) tenant sale_id of
       None \<Rightarrow> Inl (ValueError [Txt ''sale_not_found''])
     | Some s \<Rightarrow>
        if so_status s = ''returned'' then Inl (ValueError [Txt ''sale_already_returned''])
        else if so_status s = ''voided'' then Inl (ValueError [Txt ''sale_not_returnable''])
        else res_bind (undo_sale ids now day ''returned'' ''sale_return'' ''Return'' ''sale_return'' tenant user reason s
          [\<lparr>ow_event = sale_returned_event (ids 2 0) now tenant (so_id s) (so_number s) reason user
              (PFlt (py_float (so_total s))) None,
            aggregate_type = ''sale'', aggregate_id = so_id s\<rparr>]
          \<lparr>au_user_id = user, au_tenant_id = tenant, au_action = ''sale_returned'',
           au_details = [(''sale_number'', JStr (so_number s)),
             (''total'', JNum (PFlt (py_float (so_total s)))),
             (''refund_amount'', JNum (PFlt (py_float (so_amount_paid s)))), (''reason'', JStr reason),
             (''store_id'', JStr (so_store_id s))]\<rparr> bf)
          (\<lambda>bf'. Inr (py_float (so_amount_paid s), bf')))"

section \<open>Reading sales\<close>

text \<open>The header cards: one group per status, summed exactly and read as floats.\<close>

definition sale_matches ::
  "uuid \<Rightarrow> uuid option \<Rightarrow> timestamp option \<Rightarrow> timestamp option \<Rightarrow> sale \<Rightarrow> bool" where
  "sale_matches tenant store from_date to_date s \<longleftrightarrow> so_tenant_id s = tenant
     \<and> (str_truthy store \<longrightarrow> store = Some (so_store_id s))
     \<and> (case from_date of None \<Rightarrow> True | Some t \<Rightarrow> t \<le> so_created_at s)
     \<and> (case to_date of None \<Rightarrow> True | Some t \<Rightarrow> so_created_at s \<le> t)"

record status_summary =
  su_total_revenue :: rat
  su_completed :: nat
  su_pending :: nat
  su_pending_amount :: rat
  su_voided :: nat
  su_all :: nat

definition status_group :: "sale list \<Rightarrow> string \<Rightarrow> nat \<times> rat" where
  "status_group ss st = (let g = filter (\<lambda>s. so_status s = st) ss
     in (length g, fl (\<Sum>s\<leftarrow>g. nval (so_total s))))"

definition by_status :: "sale list \<Rightarrow> (string \<times> nat \<times> rat) list" where
  "by_status ss = fold (\<lambda>st d. dict_set (if st = [] then ''pending'' else st) (status_group ss st) d)
     (remdups (map so_status ss)) []"

definition tally :: "(string \<times> nat \<times> rat) list \<Rightarrow> string list \<Rightarrow> nat \<times> rat" where
  "tally d statuses = (\<Sum>st\<leftarrow>statuses. case map_of d st of None \<Rightarrow> 0 | Some (n, _) \<Rightarrow> n,
     py_fsum (map (\<lambda>st. case map_of d st of None \<Rightarrow> 0 | Some (_, a) \<Rightarrow> a) statuses))"

definition sales_status_summary ::
  "sales_db \<Rightarrow> uuid \<Rightarrow> uuid option \<Rightarrow> timestamp option \<Rightarrow> timestamp option \<Rightarrow> status_summary" where
  "sales_status_summary db tenant store from_date to_date =
    (let d = by_status (filter (sale_matches tenant store from_date to_date) (db_sales db));
         (done_count, done_amount) = tally d [''completed''];
         (due_count, due_amount) = tally d [''pending'', ''partial''];
         (dead_count, dead_amount) = tally d [''voided'', ''returned'']
     in \<lparr>su_total_revenue = round2 done_amount, su_completed = done_count, su_pending = due_count,
         su_pending_amount = round2 due_amount, su_voided = dead_count,
         su_all = (\<Sum>(_, n, _)\<leftarrow>d. n)\<rparr>)"

end
