(* ===== verification/Documents.thy ===== *)
theory Documents
  imports Checkout
begin

text \<open>
  Quotes, invoices, receipts and purchase orders: \<open>documents/service.py\<close>, \<open>documents/repository.py\<close>,
  the document operations of \<open>common/bridge.py\<close> with \<open>create_sale_via_service\<close>, and the handler of
  \<open>worker/handlers/documents.py\<close>.

  A due date is its ISO text, which is all the code does with it; the handler's parser is an
  argument. A conversion commits the sale before its journal and before the document, so the
  operation returns the answer or the exception with the state it leaves.
\<close>

section \<open>Rows and commands\<close>

record document =
  dc_id :: uuid
  dc_tenant_id :: uuid
  dc_number :: string
  dc_type :: string
  dc_status :: string
  dc_customer_id :: "uuid option"
  dc_customer_name :: "string option"
  dc_customer_email :: "string option"
  dc_customer_phone :: "string option"
  dc_customer_address :: "string option"
  dc_subtotal :: num
  dc_discount :: num
  dc_tax :: num
  dc_total :: num
  dc_due_date :: "string option"
  dc_notes :: "string option"
  dc_terms :: "string option"
  dc_linked_sale_id :: "uuid option"
  dc_store_id :: "uuid option"
  dc_created_by :: "uuid option"
  dc_created_at :: timestamp

record document_item =
  dt_id :: uuid
  dt_document_id :: uuid
  dt_product_id :: "uuid option"
  dt_description :: string
  dt_qty :: num
  dt_unit_price :: num
  dt_discount_pct :: num
  dt_tax_rate :: "num option"
  dt_tax_breakdown :: "tax_dict list option"
  dt_line_total :: num

record document_item_line =
  dl_product_id :: "uuid option"
  dl_description :: string
  dl_qty :: rat
  dl_unit_price :: rat
  dl_discount_pct :: rat
  dl_tax_rate :: "rat option"
  dl_taxes :: "tax_dict list"

record document_create_command =
  dcc_tenant_id :: uuid
  dcc_actor_id :: uuid
  dcc_doc_type :: string
  dcc_customer_id :: "uuid option"
  dcc_customer_name :: "string option"
  dcc_customer_email :: "string option"
  dcc_customer_phone :: "string option"
  dcc_customer_address :: "string option"
  dcc_due_date :: "string option"
  dcc_notes :: "string option"
  dcc_terms :: "string option"
  dcc_items :: "document_item_line list"
  dcc_linked_sale_id :: "uuid option"
  dcc_store_id :: "uuid option"
  dcc_correlation_id :: "string option"

record document_status_command =
  dsc_document_id :: uuid
  dsc_tenant_id :: uuid
  dsc_actor_id :: uuid
  dsc_new_status :: string
  dsc_correlation_id :: "string option"

record document_result =
  dr_id :: uuid
  dr_tenant_id :: uuid
  dr_number :: string
  dr_type :: string
  dr_status :: string
  dr_subtotal :: rat
  dr_discount :: rat
  dr_tax :: rat
  dr_total :: rat
  dr_item_count :: nat
  dr_due_date :: "string option"
  dr_linked_sale_id :: "uuid option"

definition doc_types :: "string list" where
  "doc_types = [''quote'', ''invoice'', ''receipt'', ''purchase_order'']"

definition valid_document_line :: "document_item_line \<Rightarrow> bool" where
  "valid_document_line l \<longleftrightarrow> 1 \<le> length (dl_description l) \<and> length (dl_description l) \<le> 300 \<and>
     0 < dl_qty l \<and> 0 \<le> dl_unit_price l"

definition valid_document_command :: "document_create_command \<Rightarrow> bool" where
  "valid_document_command c \<longleftrightarrow> dcc_doc_type c \<in> set doc_types \<and> 1 \<le> length (dcc_items c) \<and>
     list_all valid_document_line (dcc_items c)"

section \<open>\<open>service.py\<close>\<close>

definition VALID_TRANSITIONS :: "(string \<times> string list) list" where
  "VALID_TRANSITIONS =
   [(''quote'', [''draft'', ''sent'', ''accepted'', ''expired'', ''void'']),
    (''invoice'', [''draft'', ''sent'', ''paid'', ''overdue'', ''void'']),
    (''receipt'', [''draft'', ''issued'', ''void'']),
    (''purchase_order'', [''draft'', ''sent'', ''confirmed'', ''received'', ''cancelled''])]"

definition allowed_statuses :: "string \<Rightarrow> string list" where
  "allowed_statuses doc_type = (case map_of VALID_TRANSITIONS doc_type of None \<Rightarrow> [] | Some ss \<Rightarrow> ss)"

definition new_doc_number :: "string \<Rightarrow> string \<Rightarrow> uuid \<Rightarrow> string" where
  "new_doc_number day doc_type u =
    (let prefix = [(''quote'', ''QT''), (''invoice'', ''INV''), (''receipt'', ''RCP''),
           (''purchase_order'', ''PO'')];
         p = (case map_of prefix doc_type of None \<Rightarrow> ''DOC'' | Some x \<Rightarrow> x)
     in p @ ''-'' @ day @ ''-'' @ hex_tag u)"

text \<open>A bare rate becomes a tax without a name of its own.\<close>

definition line_taxes :: "document_item_line \<Rightarrow> tax_dict list" where
  "line_taxes line =
    (if dl_taxes line \<noteq> [] then dl_taxes line
     else
      (let rate = (case dl_tax_rate line of None \<Rightarrow> 0 | Some r \<Rightarrow> fl r)
       in if rate = 0 then []
          else [\<lparr>td_id = None, td_name = Some ''Tax'', td_rate = Some (PFlt rate), td_amount = None,
            td_account_code = Some DEFAULT_TAX_ACCOUNT\<rparr>]))"

definition doc_tax_line :: "document_item_line \<Rightarrow> tax_line" where
  "doc_tax_line l = \<lparr>tl_qty = PFlt (fl (dl_qty l)), tl_unit_price = PFlt (fl (dl_unit_price l)),
     tl_discount_pct = PFlt (fl (dl_discount_pct l)), tl_taxes = line_taxes l\<rparr>"

definition doc_calc :: "document_create_command \<Rightarrow> tax_computation" where
  "doc_calc c = compute_taxes (map doc_tax_line (dcc_items c)) (PInt 0)"

definition doc_items_of ::
  "(nat \<Rightarrow> uuid) \<Rightarrow> uuid \<Rightarrow> document_item_line list \<Rightarrow> tax_computation \<Rightarrow> document_item list" where
  "doc_items_of ids did lines calc =
     map (\<lambda>(n, l, ts, trate, line_total).
         \<lparr>dt_id = ids (2 + n), dt_document_id = did, dt_product_id = dl_product_id l,
          dt_description = dl_description l, dt_qty = PFlt (fl (dl_qty l)),
          dt_unit_price = PFlt (fl (dl_unit_price l)), dt_discount_pct = PFlt (fl (dl_discount_pct l)),
          dt_tax_rate = (if ts \<noteq> [] then Some (PFlt trate) else None),
          dt_tax_breakdown = list_or_None ts, dt_line_total = PFlt line_total\<rparr>)
       (zip [0..<length lines]
         (zip lines (zip (tx_line_taxes calc) (zip (tx_line_rates calc) (tx_line_bases calc)))))"

text \<open>A receipt that is linked to a sale starts as issued.\<close>

definition plan_document_creation ::
  "(nat \<Rightarrow> uuid) \<Rightarrow> uuid \<Rightarrow> timestamp \<Rightarrow> string \<Rightarrow> document_create_command \<Rightarrow>
   document_result \<times> document \<times> document_item list \<times> outbox_write list" where
  "plan_document_creation ids eid now day c =
    (let did = ids 0;
         number = new_doc_number day (dcc_doc_type c) (ids 1);
         calc = doc_calc c;
         tot = round2 (fadd (tx_taxable calc) (tx_total_tax calc));
         st = (if dcc_doc_type c = ''receipt'' \<and> dcc_linked_sale_id c \<noteq> None then ''issued'' else ''draft'');
         doc = \<lparr>dc_id = did, dc_tenant_id = dcc_tenant_id c, dc_number = number,
           dc_type = dcc_doc_type c, dc_status = st, dc_customer_id = dcc_customer_id c,
           dc_customer_name = dcc_customer_name c, dc_customer_email = dcc_customer_email c,
           dc_customer_phone = dcc_customer_phone c, dc_customer_address = dcc_customer_address c,
           dc_subtotal = PFlt (tx_subtotal calc), dc_discount = PFlt (tx_discount calc),
           dc_tax = PFlt (tx_total_tax calc), dc_total = PFlt tot, dc_due_date = dcc_due_date c,
           dc_notes = dcc_notes c, dc_terms = dcc_terms c, dc_linked_sale_id = dcc_linked_sale_id c,
           dc_store_id = dcc_store_id c, dc_created_by = Some (dcc_actor_id c), dc_created_at = now\<rparr>;
         items = doc_items_of ids did (dcc_items c) calc;
         event = document_created_event eid now (dcc_tenant_id c) did number (dcc_doc_type c)
           (PFlt tot) (dcc_actor_id c) (int (length items)) (dcc_correlation_id c)
     in (\<lparr>dr_id = did, dr_tenant_id = dcc_tenant_id c, dr_number = number, dr_type = dcc_doc_type c,
           dr_status = st, dr_subtotal = tx_subtotal calc, dr_discount = tx_discount calc,
           dr_tax = tx_total_tax calc, dr_total = tot, dr_item_count = length items,
           dr_due_date = dcc_due_date c, dr_linked_sale_id = dcc_linked_sale_id c\<rparr>,
         doc, items,
         [\<lparr>ow_event = event, aggregate_type = ''document'', aggregate_id = did\<rparr>]))"

definition status_event ::
  "uuid \<Rightarrow> timestamp \<Rightarrow> uuid \<Rightarrow> uuid \<Rightarrow> document \<Rightarrow> string \<Rightarrow> uuid \<Rightarrow> string option \<Rightarrow> envelope" where
  "status_event eid now tenant did doc new_status actor corr =
     document_status_changed_event eid now tenant did (dc_number doc) (dc_type doc) (dc_status doc)
       new_status actor (if num_truthy (dc_total doc) then Some (dc_total doc) else None)
       (dc_customer_name doc) (dc_customer_id doc) (dc_due_date doc) corr"

definition plan_status_change ::
  "uuid \<Rightarrow> timestamp \<Rightarrow> document_status_command \<Rightarrow> document \<Rightarrow> exn + document \<times> outbox_write list" where
  "plan_status_change eid now c doc =
    (if dsc_new_status c \<notin> set (allowed_statuses (dc_type doc))
     then Inl (ValueError [Txt (''Invalid status '' @ dsc_new_status c @ '' for '' @ dc_type doc)])
     else Inr (doc\<lparr>dc_status := dsc_new_status c\<rparr>,
       [\<lparr>ow_event = status_event eid now (dsc_tenant_id c) (dsc_document_id c) doc (dsc_new_status c)
            (dsc_actor_id c) (dsc_correlation_id c),
          aggregate_type = ''document'', aggregate_id = dsc_document_id c\<rparr>]))"

definition plan_accept_quote ::
  "uuid \<Rightarrow> timestamp \<Rightarrow> document \<Rightarrow> exn + document \<times> outbox_write list" where
  "plan_accept_quote eid now doc =
    (if dc_type doc \<noteq> ''quote'' then Inl (ValueError [Txt ''Only quotes can be accepted for conversion''])
     else if dc_status doc \<notin> {''sent'', ''accepted''}
     then Inl (ValueError [Txt (''Quote must be 'sent' or 'accepted', currently '' @ dc_status doc)])
     else
      (let event = status_event eid now (dc_tenant_id doc) (dc_id doc) doc ''accepted'' [] None
       in Inr (doc\<lparr>dc_status := ''accepted''\<rparr>,
         [\<lparr>ow_event = event\<lparr>actor_id := dc_created_by doc\<rparr>,
            aggregate_type = ''document'', aggregate_id = dc_id doc\<rparr>])))"

section \<open>\<open>repository.py\<close>\<close>

text \<open>
  A desk holds the tables documents are written to and converted with. \<open>dk_users\<close> gives the store
  of a user.
\<close>

record desk =
  dk_documents :: "document list"
  dk_items :: "document_item list"
  dk_outbox :: "outbox_write list"
  dk_till :: till
  dk_tax_rows :: "tax_row list"
  dk_product_taxes :: "product_tax_row list"
  dk_users :: "(uuid \<times> uuid option) list"

definition stored_document :: "document \<Rightarrow> document" where
  "stored_document d = d\<lparr>dc_subtotal := column_num (dc_subtotal d), dc_discount := column_num (dc_discount d),
     dc_tax := column_num (dc_tax d), dc_total := column_num (dc_total d)\<rparr>"

definition stored_document_item :: "document_item \<Rightarrow> document_item" where
  "stored_document_item i = i\<lparr>dt_qty := column_num (dt_qty i), dt_unit_price := column_num (dt_unit_price i),
     dt_discount_pct := column_num (dt_discount_pct i), dt_tax_rate := map_option column_num (dt_tax_rate i),
     dt_line_total := column_num (dt_line_total i)\<rparr>"

definition find_document :: "desk \<Rightarrow> uuid \<Rightarrow> document option" where
  "find_document k did = List.find (\<lambda>d. dc_id d = did) (dk_documents k)"

definition get_document_by_number :: "desk \<Rightarrow> string \<Rightarrow> document option" where
  "get_document_by_number k number = List.find (\<lambda>d. dc_number d = number) (dk_documents k)"

text \<open>Numbers are unique.\<close>

definition insert_document :: "document \<Rightarrow> desk \<Rightarrow> exn + desk" where
  "insert_document d k =
    (if find_document k (dc_id d) \<noteq> None \<or> get_document_by_number k (dc_number d) \<noteq> None
     then Inl (ValueError [Txt ''IntegrityError''])
     else Inr (k\<lparr>dk_documents := dk_documents k @ [stored_document d]\<rparr>))"

definition create_document_items :: "document_item list \<Rightarrow> desk \<Rightarrow> desk" where
  "create_document_items items k = k\<lparr>dk_items := dk_items k @ map stored_document_item items\<rparr>"

definition get_document_items :: "desk \<Rightarrow> uuid \<Rightarrow> document_item list" where
  "get_document_items k did = sort_key (\<lambda>i. map (of_char :: char \<Rightarrow> nat) (dt_id i))
     (filter (\<lambda>i. dt_document_id i = did) (dk_items k))"

definition list_documents_by_tenant ::
  "desk \<Rightarrow> uuid \<Rightarrow> string option \<Rightarrow> string option \<Rightarrow> uuid option \<Rightarrow> nat \<Rightarrow> nat \<Rightarrow> document list" where
  "list_documents_by_tenant k tenant doc_type st customer limit offset =
     take limit (drop offset (sort_key (\<lambda>d. - dc_created_at d)
       (filter (\<lambda>d. dc_tenant_id d = tenant
          \<and> (str_truthy doc_type \<longrightarrow> doc_type = Some (dc_type d))
          \<and> (str_truthy st \<longrightarrow> st = Some (dc_status d))
          \<and> (customer \<noteq> None \<longrightarrow> dc_customer_id d = customer)) (dk_documents k))))"

definition count_items_by_documents :: "desk \<Rightarrow> uuid list \<Rightarrow> (uuid \<times> nat) list" where
  "count_items_by_documents k dids =
    (let hit = filter (\<lambda>i. dt_document_id i \<in> set dids) (dk_items k)
     in map (\<lambda>did. (did, length (filter (\<lambda>i. dt_document_id i = did) hit)))
          (remdups (map dt_document_id hit)))"

definition change_document :: "uuid \<Rightarrow> (document \<Rightarrow> document) \<Rightarrow> desk \<Rightarrow> exn + desk" where
  "change_document did f k =
    (if find_document k did = None then Inl (ValueError [Txt ''NoResultFound''])
     else Inr (k\<lparr>dk_documents := map (\<lambda>d. if dc_id d = did then f d else d) (dk_documents k)\<rparr>))"

definition set_document_status :: "uuid \<Rightarrow> string \<Rightarrow> desk \<Rightarrow> exn + desk" where
  "set_document_status did st = change_document did (\<lambda>d. d\<lparr>dc_status := st\<rparr>)"

definition link_document_to_sale :: "uuid \<Rightarrow> uuid \<Rightarrow> desk \<Rightarrow> exn + desk" where
  "link_document_to_sale did sale_id = change_document did (\<lambda>d. d\<lparr>dc_linked_sale_id := Some sale_id\<rparr>)"

section \<open>Creating a document\<close>

text \<open>A request names a product or chosen taxes for every line.\<close>

record document_item_request =
  dq_product_id :: "uuid option"
  dq_tax_ids :: "uuid list"
  dq_description :: string
  dq_qty :: num
  dq_unit_price :: num
  dq_discount_pct :: num
  dq_tax_rate :: "num option"

definition chosen_taxes :: "desk \<Rightarrow> uuid \<Rightarrow> document_item_request list \<Rightarrow> (string \<times> tax_dict) list" where
  "chosen_taxes k tenant rs =
    (let chosen = concat (map dq_tax_ids (filter (\<lambda>r. dq_product_id r = None) rs))
     in rev (map (\<lambda>t. (str_or (td_id t) [], t))
          (taxes_for_ids (dk_tax_rows k) tenant (map Some (remdups chosen)))))"

definition requested_line ::
  "(uuid \<times> tax_dict list) list \<Rightarrow> (string \<times> tax_dict) list \<Rightarrow> document_item_request \<Rightarrow> document_item_line" where
  "requested_line product_taxes chosen r =
     \<lparr>dl_product_id = dq_product_id r, dl_description = dq_description r,
      dl_qty = dec_of_str (dq_qty r), dl_unit_price = dec_of_str (dq_unit_price r),
      dl_discount_pct = dec_of_str (dq_discount_pct r),
      dl_tax_rate = (case dq_tax_rate r of None \<Rightarrow> None
        | Some x \<Rightarrow> if num_truthy x then Some (dec_of_str x) else None),
      dl_taxes = (case dq_product_id r of
          Some pid \<Rightarrow> taxes_of_product product_taxes pid
        | None \<Rightarrow> List.map_filter (map_of chosen) (dq_tax_ids r))\<rparr>"

definition with_lines ::
  "document_create_command \<Rightarrow> document_item_line list \<Rightarrow> document_create_command" where
  "with_lines c ls = c\<lparr>dcc_items := ls\<rparr>"

text \<open>The header of the request is a command without lines. The fee is booked at creation.\<close>

definition create_document ::
  "(nat \<Rightarrow> uuid) \<Rightarrow> uuid \<Rightarrow> uuid \<Rightarrow> timestamp \<Rightarrow> string \<Rightarrow> document_create_command \<Rightarrow>
   document_item_request list \<Rightarrow> desk \<Rightarrow> exn + document_result \<times> desk" where
  "create_document ids eid fid now day header rs k =
     res_bind (assert_fee_headroom (tb_fees (dk_till k)) (dcc_tenant_id header)) (\<lambda>_.
     let tenant = dcc_tenant_id header;
         tm = product_tax_map (dk_tax_rows k) (dk_product_taxes k) tenant (map dq_product_id rs);
         c = with_lines header (map (requested_line tm (chosen_taxes k tenant rs)) rs)
     in if \<not> valid_document_command c then Inl (ValueError [Txt ''ValidationError''])
        else
         (case plan_document_creation ids eid now day c of (res, doc, items, ws) \<Rightarrow>
          res_bind (insert_document doc k) (\<lambda>k1.
          let k2 = create_document_items items k1;
              (_, fees) = book_document_fee fid tenant (dc_id doc) None (tb_fees (dk_till k2))
          in Inr (res, k2\<lparr>dk_outbox := dk_outbox k2 @ ws, dk_till := (dk_till k2)\<lparr>tb_fees := fees\<rparr>\<rparr>))))"

section \<open>Reading and changing documents\<close>

record document_row =
  dw_document :: document
  dw_total :: rat
  dw_item_count :: nat

definition list_documents ::
  "desk \<Rightarrow> uuid \<Rightarrow> string option \<Rightarrow> string option \<Rightarrow> uuid option \<Rightarrow> nat \<Rightarrow> nat \<Rightarrow> document_row list" where
  "list_documents k tenant doc_type st customer page page_size =
    (let docs = list_documents_by_tenant k tenant doc_type st customer page_size ((page - 1) * page_size);
         counts = count_items_by_documents k (map dc_id docs)
     in map (\<lambda>d. \<lparr>dw_document = d, dw_total = py_float (dc_total d),
          dw_item_count = (case map_of counts (dc_id d) of None \<Rightarrow> 0 | Some n \<Rightarrow> n)\<rparr>) docs)"

definition owned_document :: "desk \<Rightarrow> uuid \<Rightarrow> uuid \<Rightarrow> document option" where
  "owned_document k tenant did = (case find_document k did of
     Some d \<Rightarrow> if dc_tenant_id d = tenant then Some d else None | None \<Rightarrow> None)"

text \<open>The header shows the tax lines of the items grouped by tax; quantities are cut to integers.\<close>

record document_detail =
  dd_document :: document
  dd_tax_breakdown :: "tax_dict list"
  dd_items :: "(document_item \<times> int) list"

definition get_document_by_id :: "desk \<Rightarrow> uuid \<Rightarrow> uuid \<Rightarrow> document_detail option" where
  "get_document_by_id k tenant did =
     map_option (\<lambda>d. let items = get_document_items k did in
       \<lparr>dd_document = d,
        dd_tax_breakdown = group_tax_lines (concat (map (\<lambda>i.
          case dt_tax_breakdown i of None \<Rightarrow> [] | Some ts \<Rightarrow> ts) items)),
        dd_items = map (\<lambda>i. (i, py_int (nval (dt_qty i)))) items\<rparr>) (owned_document k tenant did)"

definition update_document_status ::
  "uuid \<Rightarrow> timestamp \<Rightarrow> uuid \<Rightarrow> uuid \<Rightarrow> uuid \<Rightarrow> string \<Rightarrow> desk \<Rightarrow>
   exn + (uuid \<times> string \<times> string) \<times> desk" where
  "update_document_status eid now tenant did actor new_status k =
    (case owned_document k tenant did of
       None \<Rightarrow> Inl (ValueError [Txt ''document_not_found''])
     | Some d \<Rightarrow>
        res_bind (plan_status_change eid now \<lparr>dsc_document_id = did, dsc_tenant_id = tenant,
            dsc_actor_id = actor, dsc_new_status = new_status, dsc_correlation_id = None\<rparr> d)
          (\<lambda>(d', ws).
        res_bind (set_document_status did new_status k) (\<lambda>k'.
        Inr ((did, dc_number d, new_status), k'\<lparr>dk_outbox := dk_outbox k' @ ws\<rparr>))))"

section \<open>Converting a document\<close>

text \<open>
  \<open>create_sale_via_service\<close>: lines without taxes get those their product has today. The sale is
  committed, then its journal is posted as unpaid in a session of its own.
\<close>

record sale_request_line =
  srl_product_id :: uuid
  srl_name :: string
  srl_qty :: num
  srl_unit_price :: num
  srl_discount_pct :: num
  srl_taxes :: "tax_dict list"

definition service_line :: "(uuid \<times> tax_dict list) list \<Rightarrow> sale_request_line \<Rightarrow> sale_item_line" where
  "service_line tm r =
     \<lparr>sl_product_id = srl_product_id r, sl_product_name = srl_name r, sl_qty = dec_of_str (srl_qty r),
      sl_unit_price = dec_of_str (srl_unit_price r), sl_discount_pct = dec_of_str (srl_discount_pct r),
      sl_tax_id = None, sl_tax_rate = None,
      sl_taxes = (if srl_taxes r \<noteq> [] then srl_taxes r else taxes_of_product tm (srl_product_id r))\<rparr>"

record service_sale =
  sv_tenant_id :: uuid
  sv_cashier_id :: uuid
  sv_items :: "sale_request_line list"
  sv_discount :: rat
  sv_customer_name :: "string option"
  sv_customer_phone :: "string option"
  sv_store_id :: "uuid option"
  sv_notes :: "string option"
  sv_correlation_id :: "string option"

definition service_command ::
  "(uuid \<times> tax_dict list) list \<Rightarrow> service_sale \<Rightarrow> uuid \<Rightarrow> sale_create_command" where
  "service_command tm r store =
     \<lparr>sc_tenant_id = sv_tenant_id r, sc_cashier_id = sv_cashier_id r, sc_store_id = store,
      sc_customer_name = sv_customer_name r, sc_customer_phone = sv_customer_phone r,
      sc_items = map (service_line tm) (sv_items r), sc_discount = sv_discount r,
      sc_notes = sv_notes r, sc_correlation_id = sv_correlation_id r\<rparr>"

text \<open>\<open>ids k n\<close>: kind 0 the sale and its items, 1 its event, 2 the journal, 3 the receivable.\<close>

definition create_sale_via_service ::
  "(nat \<Rightarrow> nat \<Rightarrow> uuid) \<Rightarrow> timestamp \<Rightarrow> string \<Rightarrow> service_sale \<Rightarrow> desk \<Rightarrow>
   (exn + sale_result) \<times> desk" where
  "create_sale_via_service ids now day r k =
    (if \<not> str_truthy (sv_store_id r)
     then (Inl (ValueError [Txt ''A sale must be attributed to a store'']), k)
     else
      (let store = str_or (sv_store_id r) [];
           tm = product_tax_map (dk_tax_rows k) (dk_product_taxes k) (sv_tenant_id r)
             (map (\<lambda>i. Some (srl_product_id i)) (sv_items r));
           c = service_command tm r store
       in if \<not> (list_all valid_sale_line (sc_items c) \<and> valid_sale_command c)
          then (Inl (ValueError [Txt ''ValidationError'']), k)
          else
           (case plan_sale_creation (ids 0) (ids 1 0) now day c of (res, s, items, ws) \<Rightarrow>
             (case store_sale s items ws (dk_till k) of
                Inl e \<Rightarrow> (Inl e, k)
              | Inr t \<Rightarrow>
                 (case post_sale_journal (ids 2) now day (sv_tenant_id r) (ss_id res) (ss_number res)
                     (map (\<lambda>i. \<lparr>sic_cost_price = Some (PInt 0), sic_qty = Some (PFlt (py_float (si_qty i)))\<rparr>)
                       items)
                     (ss_total res) (ss_tax res)
                     (case so_tax_breakdown s of None \<Rightarrow> [] | Some ts \<Rightarrow> ts) (Some (sv_cashier_id r))
                     ''cash'' (Some store) False (so_customer_name s) (ids 3 0) (tb_books t) of
                    Inl e \<Rightarrow> (Inl e, k\<lparr>dk_till := t\<rparr>)
                  | Inr bk \<Rightarrow> (Inr res, k\<lparr>dk_till := t\<lparr>tb_books := bk\<rparr>\<rparr>))))))"

text \<open>A custom line gets a fresh product identifier, of kind 4.\<close>

definition converted_line :: "(nat \<Rightarrow> uuid) \<Rightarrow> nat \<times> document_item \<Rightarrow> sale_request_line" where
  "converted_line fresh x =
    (case x of (n, i) \<Rightarrow>
     \<lparr>srl_product_id = (case dt_product_id i of Some p \<Rightarrow> p | None \<Rightarrow> fresh n),
      srl_name = dt_description i, srl_qty = dt_qty i, srl_unit_price = dt_unit_price i,
      srl_discount_pct = dt_discount_pct i,
      srl_taxes = (case dt_tax_breakdown i of None \<Rightarrow> [] | Some ts \<Rightarrow> ts)\<rparr>)"

definition conversion_request ::
  "(nat \<Rightarrow> uuid) \<Rightarrow> uuid \<Rightarrow> uuid \<Rightarrow> uuid option \<Rightarrow> string option \<Rightarrow> document \<Rightarrow> document_item list \<Rightarrow> service_sale" where
  "conversion_request fresh tenant cashier store corr d items =
     \<lparr>sv_tenant_id = tenant, sv_cashier_id = cashier,
      sv_items = map (converted_line fresh) (zip [0..<length items] items), sv_discount = 0,
      sv_customer_name = dc_customer_name d, sv_customer_phone = dc_customer_phone d,
      sv_store_id = store, sv_notes = Some (''Converted from '' @ dc_type d @ '' '' @ dc_number d),
      sv_correlation_id = corr\<rparr>"

text \<open>The store of the sale: the document's, or the store of the cashier.\<close>

definition conversion_store :: "desk \<Rightarrow> uuid \<Rightarrow> document \<Rightarrow> uuid option" where
  "conversion_store k cashier d = opt_or (dc_store_id d)
     (case map_of (dk_users k) cashier of Some s \<Rightarrow> s | None \<Rightarrow> None)"

definition convert_document_to_sale ::
  "(nat \<Rightarrow> nat \<Rightarrow> uuid) \<Rightarrow> timestamp \<Rightarrow> string \<Rightarrow> uuid \<Rightarrow> uuid \<Rightarrow> uuid \<Rightarrow> string option \<Rightarrow> desk \<Rightarrow>
   (exn + sale_result) \<times> desk" where
  "convert_document_to_sale ids now day tenant did cashier corr k =
    (case owned_document k tenant did of
       None \<Rightarrow> (Inl (ValueError [Txt ''document_not_found'']), k)
     | Some d \<Rightarrow>
       if dc_type d \<notin> {''quote'', ''invoice''}
       then (Inl (ValueError [Txt ''Only quotes and invoices can be converted to sales'']), k)
       else if dc_status d \<notin> {''sent'', ''accepted''}
       then (Inl (ValueError [Txt (''Document must be 'sent' or 'accepted', currently '' @ dc_status d)]), k)
       else if dc_linked_sale_id d \<noteq> None
       then (Inl (ValueError [Txt ''This document has already been converted to a sale'']), k)
       else
        (let store = conversion_store k cashier d
         in if store = None
            then (Inl (ValueError [Txt ''This document has no store, so it cannot be converted to a sale.'']), k)
            else
             (case create_sale_via_service ids now day
                 (conversion_request (ids 4) tenant cashier store corr d (get_document_items k did)) k of
                (Inl e, k1) \<Rightarrow> (Inl e, k1)
              | (Inr res, k1) \<Rightarrow>
                 (case res_bind (set_document_status did ''accepted'' k1)
                     (link_document_to_sale did (ss_id res)) of
                    Inl e \<Rightarrow> (Inl e, k1)
                  | Inr k2 \<Rightarrow> (Inr res, k2)))))"

section \<open>The handler of status changes\<close>

definition event_string :: "envelope \<Rightarrow> string \<Rightarrow> string option" where
  "event_string env key = json_str (jget (payload env) key)"

text \<open>A missing name has a default, an explicit null does not and is refused by the column.\<close>

definition event_customer :: "envelope \<Rightarrow> exn + string" where
  "event_customer env = (case map_of (payload env) ''customer_name'' of
     None \<Rightarrow> Inr ''Unknown Customer'' | Some (JStr s) \<Rightarrow> Inr s
   | Some _ \<Rightarrow> Inl (ValueError [Txt ''IntegrityError'']))"

definition invoice_receivables :: "books \<Rightarrow> uuid \<Rightarrow> uuid \<Rightarrow> receivable list" where
  "invoice_receivables bk tenant did = filter (\<lambda>r. ar_invoice_id r = Some did \<and> ar_tenant_id r = tenant)
     (bk_receivables bk)"

definition invoice_journals :: "books \<Rightarrow> uuid \<Rightarrow> uuid \<Rightarrow> string \<Rightarrow> journal list" where
  "invoice_journals bk tenant did kind = filter (\<lambda>j. jn_tenant_id j = tenant \<and>
     jn_reference_id j = Some did \<and> jn_reference_type j = Some kind \<and> jn_status j = ''posted'') (bk_journals bk)"

definition due_of :: "(string \<Rightarrow> timestamp option) \<Rightarrow> timestamp \<Rightarrow> envelope \<Rightarrow> timestamp" where
  "due_of parse_iso now env =
    (case event_string env ''due_date'' of None \<Rightarrow> now + 30 * 86400
     | Some s \<Rightarrow> (case parse_iso s of Some t \<Rightarrow> t | None \<Rightarrow> now + 30 * 86400))"

text \<open>The checks of a sent invoice, up to the accounts it is booked to; \<open>None\<close> ends the handler.\<close>

definition invoice_to_send ::
  "envelope \<Rightarrow> uuid \<Rightarrow> uuid \<Rightarrow> books \<Rightarrow>
   exn + (uuid \<times> string \<times> chart_account \<times> chart_account) option" where
  "invoice_to_send env tenant did bk =
    (case (event_string env ''customer_id'', event_string env ''doc_number'') of
       (Some customer, Some number) \<Rightarrow>
         (if \<not> json_truthy (jget (payload env) ''total'') then Inr None
          else
          res_bind (at_most_one (invoice_receivables bk tenant did)) (\<lambda>sent.
          if sent \<noteq> None then Inr None
          else res_bind (at_most_one (invoice_journals bk tenant did ''invoice_sent'')) (\<lambda>booked.
          if booked \<noteq> None then Inr None
          else case (get_account_by_code bk tenant ''1100'', get_account_by_code bk tenant ''4000'') of
            (Some receivable, Some revenue) \<Rightarrow> Inr (Some (customer, number, receivable, revenue))
          | _ \<Rightarrow> Inr None)))
     | _ \<Rightarrow> Inr None)"

definition book_invoice_sent ::
  "(nat \<Rightarrow> uuid) \<Rightarrow> timestamp \<Rightarrow> string \<Rightarrow> (string \<Rightarrow> timestamp option) \<Rightarrow> (uuid \<Rightarrow> uuid option) \<Rightarrow>
   envelope \<Rightarrow> uuid \<Rightarrow> uuid \<Rightarrow> books \<Rightarrow> exn + books" where
  "book_invoice_sent ids now day parse_iso doc_store env tenant did bk =
     res_bind (invoice_to_send env tenant did bk) (\<lambda>due.
     case due of
       None \<Rightarrow> Inr bk
     | Some (customer, number, receivable, revenue) \<Rightarrow>
         res_bind (json_float (jget (payload env) ''total'')) (\<lambda>amount.
         res_bind (event_customer env) (\<lambda>nm.
         let ar = \<lparr>ar_id = ids 0, ar_tenant_id = tenant, ar_invoice_id = Some did,
               ar_customer_id = Some customer, ar_customer_name = nm, ar_invoice_number = number,
               ar_amount = PFlt amount, ar_amount_paid = PInt 0, ar_balance = PFlt amount,
               ar_due_date = due_of parse_iso now env, ar_status = ''pending'',
               ar_store_id = doc_store did\<rparr>
         in Inr (add_posted now day (ids 1) tenant (''Invoice '' @ number @ '' sent'') did ''invoice_sent''
              None
              [posted_entry now (ids 2) (ids 1) tenant receivable amount 0
                 (''Invoice '' @ number @ '' - receivable'') ''asset'' amount,
               posted_entry now (ids 3) (ids 1) tenant revenue 0 amount
                 (''Invoice '' @ number @ '' - revenue'') ''revenue'' amount]
              (bk\<lparr>bk_receivables := bk_receivables bk @ [stored_receivable ar]\<rparr>)))))"

text \<open>A paid invoice collects what is outstanding, at most its total.\<close>

definition invoice_to_pay ::
  "envelope \<Rightarrow> uuid \<Rightarrow> uuid \<Rightarrow> books \<Rightarrow>
   exn + (chart_account \<times> chart_account \<times> receivable \<times> rat) option" where
  "invoice_to_pay env tenant did bk =
    (if \<not> json_truthy (jget (payload env) ''total'') then Inr None
     else case (get_account_by_code bk tenant ''1000'', get_account_by_code bk tenant ''1100'') of
       (Some cash, Some receivable) \<Rightarrow>
         res_bind (at_most_one (invoice_journals bk tenant did ''invoice_paid'')) (\<lambda>paid.
         if paid \<noteq> None then Inr None
         else res_bind (at_most_one (invoice_receivables bk tenant did)) (\<lambda>found.
         case found of
           None \<Rightarrow> Inr None
         | Some ar \<Rightarrow>
            res_bind (json_float (jget (payload env) ''total'')) (\<lambda>tot.
            let to_apply = min tot (py_float (ar_balance ar))
            in if to_apply \<le> 0 then Inr None else Inr (Some (cash, receivable, ar, to_apply)))))
     | _ \<Rightarrow> Inr None)"

definition book_invoice_paid ::
  "(nat \<Rightarrow> uuid) \<Rightarrow> timestamp \<Rightarrow> string \<Rightarrow> envelope \<Rightarrow> uuid \<Rightarrow> uuid \<Rightarrow> books \<Rightarrow> exn + books" where
  "book_invoice_paid ids now day env tenant did bk =
     res_bind (invoice_to_pay env tenant did bk) (\<lambda>due.
     case due of
       None \<Rightarrow> Inr bk
     | Some (cash, receivable, ar, to_apply) \<Rightarrow>
        (let label = ''Invoice '' @ str_or (event_string env ''doc_number'') did
         in res_bind (update_ar_payment (ar_id ar) to_apply bk) (\<lambda>bk'.
            Inr (add_posted now day (ids 1) tenant (label @ '' paid'') did ''invoice_paid'' None
              [posted_entry now (ids 2) (ids 1) tenant cash to_apply 0 (label @ '' paid - cash'')
                 ''asset'' to_apply,
               posted_entry now (ids 3) (ids 1) tenant receivable 0 to_apply
                 (label @ '' paid - receivable'') ''asset'' to_apply] bk'))))"

definition handle_document_status_changed ::
  "(nat \<Rightarrow> uuid) \<Rightarrow> timestamp \<Rightarrow> string \<Rightarrow> (string \<Rightarrow> timestamp option) \<Rightarrow> (uuid \<Rightarrow> uuid option) \<Rightarrow>
   envelope \<Rightarrow> books \<Rightarrow> exn + books" where
  "handle_document_status_changed ids now day parse_iso doc_store env bk =
    (case (event_string env ''doc_type'', event_string env ''new_status'',
           event_string env ''document_id'', event_string env ''tenant_id'') of
       (Some doc_type, Some new_status, Some did, Some tenant) \<Rightarrow>
         (if doc_type \<noteq> ''invoice'' then Inr bk
          else if new_status = ''sent''
          then book_invoice_sent ids now day parse_iso doc_store env tenant did bk
          else if new_status = ''paid'' then book_invoice_paid ids now day env tenant did bk
          else Inr bk)
     | _ \<Rightarrow> Inr bk)"

end
