(* ===== verification/LedgerProps.thy ===== *)
theory LedgerProps
  imports Ledger
begin

text \<open>
  Double entry. Every journal the bridge writes balances after its amounts are stored at two
  places, so the books stay balanced under any sequence of postings and the balance sheet
  closes; payments against a receivable or payable leave exactly the remaining kobo.
\<close>

section \<open>Imbalance\<close>

definition imbalance :: "journal_entry list \<Rightarrow> rat" where
  "imbalance es = (\<Sum>e\<leftarrow>es. je_debit e - je_credit e)"

text \<open>The books are balanced when every journal is, whatever its reference.\<close>

definition balanced_books :: "books \<Rightarrow> bool" where
  "balanced_books bk \<longleftrightarrow> (\<forall>j. imbalance (get_journal_entries bk j) = 0)"

lemma imbalance_simps [simp]:
  "imbalance [] = 0" "imbalance (e # es) = je_debit e - je_credit e + imbalance es"
  "imbalance (es @ fs) = imbalance es + imbalance fs"
  by (simp_all add: imbalance_def)

lemma stored_0 [simp]: "stored_amount 0 = 0"
  by (simp add: stored_amount_def column_value_def flt_repr_def quant2_half_up_def rhu_def)

lemma stored_kob: "\<bar>k\<bar> \<le> 2 * 10 ^ 12 \<Longrightarrow> stored_amount (kob k) = of_int k / 100"
  by (simp add: stored_amount_def column_value_kob)

lemma stored_entry_simps [simp]:
  "je_debit (stored_entry e) = stored_amount (je_debit e)"
  "je_credit (stored_entry e) = stored_amount (je_credit e)"
  "je_journal_id (stored_entry e) = je_journal_id e"
  "je_account_code (stored_entry e) = je_account_code e"
  "je_account_id (stored_entry e) = je_account_id e"
  "je_status (stored_entry e) = je_status e"
  "je_tenant_id (stored_entry e) = je_tenant_id e"
  "je_posted_at (stored_entry e) = je_posted_at e"
  by (simp_all add: stored_entry_def)

lemma fold_create_entries:
  "bk_entries (fold create_journal_entry es bk) = bk_entries bk @ map stored_entry es"
  "bk_journals (fold create_journal_entry es bk) = bk_journals bk"
  "bk_accounts (fold create_journal_entry es bk) = bk_accounts bk"
  by (induction es arbitrary: bk) (simp_all add: create_journal_entry_def)

lemma balanced_append:
  assumes "balanced_books bk" "\<forall>e \<in> set es. je_journal_id e = jid" "imbalance es = 0"
    and "bk_entries bk' = bk_entries bk @ es"
  shows "balanced_books bk'"
proof -
  have "filter (\<lambda>e. je_journal_id e = j) es = (if j = jid then es else [])" for j
    using assms(2) by (auto simp: filter_id_conv filter_empty_conv)
  then show ?thesis
    using assms by (auto simp: balanced_books_def get_journal_entries_def)
qed

lemma balanced_same_entries:
  "balanced_books bk \<Longrightarrow> bk_entries bk' = bk_entries bk \<Longrightarrow> balanced_books bk'"
  by (simp add: balanced_books_def get_journal_entries_def)

lemma write_posted_entries:
  assumes "write_posted now pat by j es bk = Inr bk'"
  shows "bk_entries bk' = bk_entries bk @
    map (\<lambda>e. stored_entry (e\<lparr>je_status := ''posted'', je_posted_at := pat\<rparr>)) es"
proof -
  let ?mark = "\<lambda>e. e\<lparr>je_status := ''posted'', je_posted_at := pat\<rparr>"
  have f: "fold (\<lambda>e. create_journal_entry (?mark e)) es b = fold create_journal_entry (map ?mark es) b" for b
    by (simp add: fold_map comp_def)
  show ?thesis using assms
    by (auto simp: write_posted_def post_journal_def f fold_create_entries create_journal_def
        split: if_splits)
qed

lemma write_posted_balanced:
  assumes "write_posted now pat by j es bk = Inr bk'" "balanced_books bk"
    and "\<forall>e \<in> set es. je_journal_id e = jid" "imbalance (map stored_entry es) = 0"
  shows "balanced_books bk'"
proof -
  let ?ms = "map (\<lambda>e. stored_entry (e\<lparr>je_status := ''posted'', je_posted_at := pat\<rparr>)) es"
  have "imbalance ?ms = imbalance (map stored_entry es)"
    by (simp add: imbalance_def comp_def)
  then show ?thesis
    using assms write_posted_entries[OF assms(1)]
    by (intro balanced_append[OF assms(2), of ?ms jid]) auto
qed

section \<open>The tax buckets of a sale\<close>

definition lines_of_code :: "string \<Rightarrow> tax_dict list \<Rightarrow> tax_dict list" where
  "lines_of_code c ts = filter (\<lambda>t. str_or (td_account_code t) DEFAULT_TAX_ACCOUNT = c) ts"

definition cents_of :: "tax_dict list \<Rightarrow> int" where
  "cents_of ts = (\<Sum>t\<leftarrow>ts. kobo_of (amount_of t))"

lemma cents_of_simps [simp]:
  "cents_of [] = 0" "cents_of (ts @ us) = cents_of ts + cents_of us"
  "cents_of [t] = kobo_of (amount_of t)"
  by (simp_all add: cents_of_def)

lemma cents_of_bound:
  "\<bar>cents_of (filter P ts)\<bar> \<le> (\<Sum>t\<leftarrow>ts. \<bar>kobo_of (amount_of t)\<bar>)"
  unfolding cents_of_def by (induction ts) auto

lemma dict_set_mem:
  "distinct (map fst m) \<Longrightarrow> (c, b) \<in> set (dict_set k v m) \<Longrightarrow>
     (c = k \<and> b = v) \<or> (c \<noteq> k \<and> (c, b) \<in> set m)"
  by (induction k v m rule: dict_set.induct) (auto split: if_splits simp: rev_image_eqI)

lemma sum_uminus_div: "(\<Sum>x\<leftarrow>xs. - (of_int (f x) / 100 :: rat)) = - (of_int (\<Sum>x\<leftarrow>xs. f x) / 100)"
  by (induction xs) (auto simp: add_divide_distrib)

lemma fold_buckets:
  assumes "\<forall>t \<in> set ts. amount_of t = kob (kobo_of (amount_of t))"
    and "(\<Sum>t\<leftarrow>ts. \<bar>kobo_of (amount_of t)\<bar>) \<le> 10 ^ 12"
  shows "(\<forall>(c, b) \<in> set (fold add_tax_bucket ts []). tb_amount b = kob (cents_of (lines_of_code c ts)))
    \<and> (\<Sum>p\<leftarrow>fold add_tax_bucket ts []. kobo_of (tb_amount (snd p))) = cents_of ts
    \<and> distinct (map fst (fold add_tax_bucket ts []))
    \<and> (\<forall>c. c \<notin> fst ` set (fold add_tax_bucket ts []) \<longrightarrow> lines_of_code c ts = [])"
  using assms
proof (induction ts rule: rev_induct)
  case Nil
  then show ?case by (simp add: lines_of_code_def)
next
  case (snoc t ts)
  let ?g = "fold add_tax_bucket ts []" and ?c = "str_or (td_account_code t) DEFAULT_TAX_ACCOUNT"
  define k where "k = kobo_of (amount_of t)"
  have t: "float_of (td_amount t) = kob k" "amount_of t = kob k"
    using snoc.prems(1) by (simp_all add: k_def amount_of_def)
  have IH: "\<forall>(c, b) \<in> set ?g. tb_amount b = kob (cents_of (lines_of_code c ts))"
    "(\<Sum>p\<leftarrow>?g. kobo_of (tb_amount (snd p))) = cents_of ts" "distinct (map fst ?g)"
    "\<forall>c. c \<notin> fst ` set ?g \<longrightarrow> lines_of_code c ts = []"
    using snoc.IH snoc.prems by auto
  define S where "S = cents_of (lines_of_code ?c ts)"
  have bounds: "\<bar>S\<bar> \<le> 10 ^ 12" "\<bar>k\<bar> \<le> 10 ^ 12"
    using snoc.prems(2) sum_abs_nonneg[of "map (\<lambda>t. kobo_of (amount_of t)) ts"]
      cents_of_bound[of "\<lambda>t. str_or (td_account_code t) DEFAULT_TAX_ACCOUNT = ?c" ts]
    by (auto simp: S_def k_def lines_of_code_def comp_def)
  have old: "case map_of ?g ?c of None \<Rightarrow> S = 0 | Some b \<Rightarrow> tb_amount b = kob S"
    using IH(1,4) by (auto simp: S_def map_of_eq_None_iff split: option.splits dest: map_of_SomeD)
  obtain v where v: "add_tax_bucket t ?g = dict_set ?c v ?g" "tb_amount v = kob (S + k)"
  proof -
    let ?b = "case map_of ?g ?c of None \<Rightarrow> \<lparr>tb_amount = 0, tb_names = []\<rparr> | Some b \<Rightarrow> b"
    have "tb_amount ?b = kob S" using old by (auto split: option.splits)
    then have "round2 (fadd (tb_amount ?b) (float_of (td_amount t))) = kob (S + k)"
      using round2_fadd_kob[of S k] bounds by (simp add: t)
    then show thesis
      by (intro that[of "\<lparr>tb_amount = round2 (fadd (tb_amount ?b) (float_of (td_amount t))),
          tb_names = (if str_or (td_name t) ''Tax'' \<in> set (tb_names ?b) then tb_names ?b
             else tb_names ?b @ [str_or (td_name t) ''Tax''])\<rparr>"])
        (simp_all add: add_tax_bucket_def Let_def)
  qed
  have lc: "lines_of_code c (ts @ [t]) = lines_of_code c ts @ (if c = ?c then [t] else [])" for c
    by (simp add: lines_of_code_def)
  have f: "fold add_tax_bucket (ts @ [t]) [] = dict_set ?c v ?g" by (simp add: v(1))
  have sum: "(\<Sum>p\<leftarrow>dict_set ?c v ?g. kobo_of (tb_amount (snd p))) = cents_of ts + k"
  proof (cases "map_of ?g ?c")
    case None
    then have "S = 0" using old by simp
    then show ?thesis
      using sum_dict_set_new[OF None, of "\<lambda>b. kobo_of (tb_amount b)" v] IH(2) v(2) bounds by simp
  next
    case (Some b)
    then have "tb_amount b = kob S" using old by simp
    then show ?thesis
      using sum_dict_set_old[OF Some, of "\<lambda>b. kobo_of (tb_amount b)" v] IH(2) v(2) bounds by simp
  qed
  have a: "tb_amount b = kob (cents_of (lines_of_code c (ts @ [t])))"
    if "(c, b) \<in> set (dict_set ?c v ?g)" for c b
    using dict_set_mem[OF IH(3) that] IH(1) v(2) by (auto simp: lc S_def k_def)
  show ?case
    unfolding f using a sum distinct_dict_set[OF IH(3), of ?c v] IH(4)
    by (auto simp: k_def keys_dict_set lc)
qed

section \<open>The journal of a sale\<close>

definition tax_cents :: "int \<Rightarrow> tax_dict list \<Rightarrow> int" where
  "tax_cents X ts = (if ts = [] then X else cents_of ts)"

lemma sale_tax_amount_kob:
  assumes "kobo_range (map (\<lambda>t. kobo_of (amount_of t)) ts)"
    and "\<forall>t \<in> set ts. amount_of t = kob (kobo_of (amount_of t))"
  shows "sale_tax_amount (kob X) ts = kob (tax_cents X ts)"
proof (cases "ts = []")
  case False
  have "map amount_of ts = map kob (map (\<lambda>t. kobo_of (amount_of t)) ts)" using assms(2) by auto
  then have "round2 (py_fsum (map amount_of ts)) = kob (cents_of ts)"
    using round2_fsum_kob[OF assms(1)] by (simp only: cents_of_def)
  then show ?thesis using False by (simp add: sale_tax_amount_def tax_cents_def)
qed (simp add: sale_tax_amount_def tax_cents_def)

lemma kob_pos_iff: "0 < kob k \<longleftrightarrow> 0 < k"
  using flt.r_pos_iff[of "of_int k / 100"] by (simp add: kob_def)

lemma sum_zip_snd:
  "length ns = length xs \<Longrightarrow> (\<Sum>p\<leftarrow>zip ns xs. f (snd p)) = (\<Sum>x\<leftarrow>xs. f x)"
  by (induction ns xs rule: list_induct2) auto

lemma tax_entries_balance:
  assumes "\<forall>t \<in> set ts. amount_of t = kob (kobo_of (amount_of t))"
    and "(\<Sum>t\<leftarrow>ts. \<bar>kobo_of (amount_of t)\<bar>) \<le> 10 ^ 12" "\<bar>X\<bar> \<le> 10 ^ 12" "0 \<le> tax_cents X ts"
  shows "imbalance (map stored_entry (tax_entries ids n tenant num ts (kob (tax_cents X ts)))) =
    - (of_int (tax_cents X ts) / 100)"
proof (cases "0 < tax_cents X ts \<and> ts \<noteq> []")
  case True
  let ?g = "fold add_tax_bucket ts []"
  have g: "\<forall>(c, b) \<in> set ?g. tb_amount b = kob (cents_of (lines_of_code c ts))"
    "(\<Sum>p\<leftarrow>?g. kobo_of (tb_amount (snd p))) = cents_of ts"
    using fold_buckets[OF assms(1,2)] by blast+
  have st: "stored_amount (tb_amount (snd p)) = of_int (kobo_of (tb_amount (snd p))) / 100"
    if "p \<in> set ?g" for p
  proof -
    define S where "S = cents_of (lines_of_code (fst p) ts)"
    have S: "\<bar>S\<bar> \<le> 10 ^ 12"
      unfolding S_def lines_of_code_def using cents_of_bound assms(2) by (rule order_trans)
    have "tb_amount (snd p) = kob S" using g(1) that by (cases p) (auto simp: S_def)
    then show ?thesis using stored_kob[of S] kobo_of_kob[of S] S by simp
  qed
  have "imbalance (map stored_entry (tax_entries ids n tenant num ts (kob (tax_cents X ts)))) =
      (\<Sum>p\<leftarrow>zip [0..<length ?g] ?g. - stored_amount (tb_amount (snd (snd p))))"
  proof -
    have "tax_entries ids n tenant num ts (kob (tax_cents X ts)) =
       map2 (\<lambda>i (code, bucket). draft_entry (ids (n + 2 * i)) (ids 0) tenant (ids (n + 2 * i + 1))
           code 0 (tb_amount bucket)
           (join_names '' + '' (tb_names bucket) @ '' collected: '' @ num)
           ''liability'' (tb_amount bucket)) [0..<length ?g] ?g"
      using True
      by (simp only: tax_entries_def kob_pos_iff not_True_eq_False not_False_eq_True if_False if_True)
    then show ?thesis
      by (simp only: imbalance_def map_map comp_def split_def stored_entry_simps draft_entry_def
          journal_entry.simps stored_0 diff_0)
  qed
  also have "\<dots> = (\<Sum>p\<leftarrow>?g. - stored_amount (tb_amount (snd p)))"
    by (rule sum_zip_snd) simp
  also have "\<dots> = (\<Sum>p\<leftarrow>?g. - (of_int (kobo_of (tb_amount (snd p))) / 100))"
    by (simp add: st cong: map_cong)
  also have "\<dots> = - (of_int (\<Sum>p\<leftarrow>?g. kobo_of (tb_amount (snd p))) / 100)"
    by (rule sum_uminus_div)
  also have "(\<Sum>p\<leftarrow>?g. kobo_of (tb_amount (snd p))) = tax_cents X ts"
    using True g(2) by (simp add: tax_cents_def)
  finally show ?thesis .
next
  case False
  then show ?thesis
proof (cases "0 < tax_cents X ts")
    case True
    with False have "ts = []" by simp
    then show ?thesis using True assms(3) stored_kob[of X]
      by (simp add: tax_entries_def tax_cents_def kob_pos_iff draft_entry_def)
  next
    case 0: False
    then have "tax_cents X ts = 0" using assms(4) by simp
    then show ?thesis by (simp add: tax_entries_def)
  qed
qed

section \<open>Accepting a journal\<close>

definition line_debits :: "journal_line list \<Rightarrow> int list" where
  "line_debits ls = map (\<lambda>l. kobo_of (jl_debit l)) ls"

definition line_credits :: "journal_line list \<Rightarrow> int list" where
  "line_credits ls = map (\<lambda>l. kobo_of (jl_credit l)) ls"

definition cents_range :: "int list \<Rightarrow> bool" where
  "cents_range ks \<longleftrightarrow> int (length ks) * ((\<Sum>k\<leftarrow>ks. \<bar>k\<bar>) + 1) \<le> 10 ^ 12"

lemma map2_ignore_index:
  assumes "length ns = length xs" "\<And>n x. f (g n x) = h x"
  shows "map f (map2 g ns xs) = map h xs"
  using assms(1) by (induction ns xs rule: list_induct2) (simp_all add: assms(2))

lemma tolerance: "1 / 2000 \<le> fl (1 / 1000)" "fl (1 / 1000) \<le> 1 / 500"
  using flt.r_err_le[of "1 / 1000" 1] by (simp_all, linarith+)

lemma journal_tolerance:
  assumes "\<bar>D - of_int d / 100\<bar> \<le> 1 / 10000" "\<bar>C - of_int c / 100\<bar> \<le> 1 / 10000"
  shows "fl (1 / 1000) < \<bar>fsub D C\<bar> \<longleftrightarrow> d \<noteq> c"
proof (cases "d = c")
  case True
  then have "\<bar>D - C\<bar> \<le> 2 / 10000" using assms by linarith
  then have "\<bar>fl (D - C)\<bar> \<le> 2 * (2 / 10000)" by (rule flt.r_abs_le2)
  then show ?thesis using True tolerance(1) by (simp add: fsub_def)
next
  case False
  then have "1 \<le> \<bar>d - c\<bar>" by linarith
  then have "1 \<le> \<bar>of_int (d - c) :: rat\<bar>" by (metis of_int_1_le_iff of_int_abs)
  then have "1 / 100 \<le> \<bar>of_int d / 100 - of_int c / 100 :: rat\<bar>" by (simp flip: diff_divide_distrib add: abs_div_pos[symmetric])
  then have "98 / 10000 \<le> \<bar>D - C\<bar>" using assms by linarith
  moreover have "(1 - eps) * \<bar>D - C\<bar> \<le> \<bar>fl (D - C)\<bar>" by (rule flt.r_abs_ge)
  ultimately have "90 / 10000 \<le> \<bar>fl (D - C)\<bar>" by (simp add: left_diff_distrib)
  then show ?thesis using False tolerance(2) by (simp add: fsub_def)
qed


definition sample_journal_lines :: "journal_line list" where
  "sample_journal_lines =
    [\<lparr>jl_account_id = ''a'', jl_account_code = ''1000'', jl_debit = kob 30, jl_credit = 0,
      jl_description = None\<rparr>,
     \<lparr>jl_account_id = ''b'', jl_account_code = ''4000'', jl_debit = 0, jl_credit = kob 10,
      jl_description = None\<rparr>,
     \<lparr>jl_account_id = ''c'', jl_account_code = ''2300'', jl_debit = 0, jl_credit = kob 20,
      jl_description = None\<rparr>]"

definition sample_journal_command :: journal_command where
  "sample_journal_command = \<lparr>jc_tenant_id = ''t'', jc_description = ''d'', jc_reference_id = None,
     jc_reference_type = None, jc_store_id = None\<rparr>"

lemma sample_journal_ok:
  "\<forall>l \<in> set sample_journal_lines. jl_debit l = kob (kobo_of (jl_debit l)) \<and>
     jl_credit l = kob (kobo_of (jl_credit l))"
  "cents_range (line_debits sample_journal_lines)" "cents_range (line_credits sample_journal_lines)"
  using kobo_of_kob[of 0] kob_0
  by (simp_all add: sample_journal_lines_def line_debits_def line_credits_def cents_range_def)


section \<open>Where the journal of a sale puts the money\<close>

definition credited :: "string \<Rightarrow> string \<Rightarrow> journal_entry list \<Rightarrow> rat" where
  "credited kind code es = (\<Sum>e\<leftarrow>es. if je_type e = kind \<and> je_account_code e = code
     then je_credit e else 0)"

definition debited :: "string \<Rightarrow> journal_entry list \<Rightarrow> rat" where
  "debited code es = (\<Sum>e\<leftarrow>es. if je_account_code e = code then je_debit e else 0)"

lemma credited_simps [simp]:
  "credited kind c [] = 0" "credited kind c (es @ fs) = credited kind c es + credited kind c fs"
  "credited kind c (e # es) = (if je_type e = kind \<and> je_account_code e = c then je_credit e else 0) +
     credited kind c es"
  by (simp_all add: credited_def)

lemma stored_entry_type [simp]: "je_type (stored_entry e) = je_type e"
  by (simp add: stored_entry_def)

lemma credited_other:
  "\<forall>e \<in> set es. je_type e \<noteq> kind \<Longrightarrow> credited kind c (map stored_entry es) = 0"
  by (induction es) auto

lemma sum_at_key:
  fixes f :: "'b \<Rightarrow> rat"
  shows "distinct (map fst m) \<Longrightarrow>
    (\<Sum>p\<leftarrow>m. if fst p = c then f (snd p) else 0) = (case map_of m c of None \<Rightarrow> 0 | Some b \<Rightarrow> f b)"
proof (induction m)
  case (Cons p m)
  show ?case
  proof (cases "fst p = c")
    case True
    then have "map_of m c = None" using Cons.prems by (auto simp: map_of_eq_None_iff)
    then show ?thesis using Cons True by (cases p) simp
  next
    case False
    then show ?thesis using Cons by (cases p) simp
  qed
qed simp

definition tax_owed :: "int \<Rightarrow> tax_dict list \<Rightarrow> string \<Rightarrow> int" where
  "tax_owed X ts c = (if ts = [] then if c = ''2300'' then X else 0 else cents_of (lines_of_code c ts))"

definition cents_lines :: "tax_dict list \<Rightarrow> bool" where
  "cents_lines ts \<longleftrightarrow> (\<forall>t \<in> set ts. amount_of t = kob (kobo_of (amount_of t)) \<and>
     0 \<le> kobo_of (amount_of t)) \<and> cents_range (map (\<lambda>t. kobo_of (amount_of t)) ts)"

lemma cents_of_nonneg:
  "\<forall>t \<in> set ts. 0 \<le> kobo_of (amount_of t) \<Longrightarrow> 0 \<le> cents_of (filter P ts)"
  unfolding cents_of_def by (rule sum_list_nonneg) auto

lemma cents_of_zero:
  "\<forall>t \<in> set ts. 0 \<le> kobo_of (amount_of t) \<Longrightarrow> cents_of ts = 0 \<Longrightarrow> cents_of (filter P ts) = 0"
proof (induction ts)
  case (Cons t ts)
  have "0 \<le> cents_of ts" using cents_of_nonneg[of ts "\<lambda>_. True"] Cons.prems(1) by simp
  then have "kobo_of (amount_of t) = 0 \<and> cents_of ts = 0"
    using Cons.prems by (auto simp: cents_of_def add_nonneg_eq_0_iff)
  then show ?case using Cons by (auto simp: cents_of_def)
qed simp

lemma cents_linesD:
  assumes "cents_lines ts"
  shows "\<forall>t \<in> set ts. amount_of t = kob (kobo_of (amount_of t))"
    "\<forall>t \<in> set ts. 0 \<le> kobo_of (amount_of t)"
    "(\<Sum>t\<leftarrow>ts. \<bar>kobo_of (amount_of t)\<bar>) \<le> 10 ^ 12"
    "kobo_range (map (\<lambda>t. kobo_of (amount_of t)) ts)"
proof -
  define ks where "ks = map (\<lambda>t. kobo_of (amount_of t)) ts"
  have ks: "int (length ks) * ((\<Sum>k\<leftarrow>ks. \<bar>k\<bar>) + 1) \<le> 10 ^ 12"
    using assms by (simp add: cents_lines_def cents_range_def ks_def)
  have n: "0 \<le> (\<Sum>k\<leftarrow>ks. \<bar>k\<bar>)" by (rule sum_abs_nonneg)
  have "(\<Sum>k\<leftarrow>ks. \<bar>k\<bar>) \<le> 10 ^ 12"
  proof (cases "ks = []")
    case False
    then have "1 \<le> int (length ks)" by (cases ks) auto
    then have "1 * ((\<Sum>k\<leftarrow>ks. \<bar>k\<bar>) + 1) \<le> int (length ks) * ((\<Sum>k\<leftarrow>ks. \<bar>k\<bar>) + 1)"
      using n by (intro mult_right_mono) auto
    then have "(\<Sum>k\<leftarrow>ks. \<bar>k\<bar>) + 1 \<le> 10 ^ 12" using ks by (metis mult_1 order_trans)
    then show ?thesis by linarith
  qed simp
  then show "(\<Sum>t\<leftarrow>ts. \<bar>kobo_of (amount_of t)\<bar>) \<le> 10 ^ 12" by (simp add: ks_def comp_def)
  show "kobo_range (map (\<lambda>t. kobo_of (amount_of t)) ts)"
    using ks by (simp add: kobo_range_def ks_def)
qed (use assms in \<open>simp_all add: cents_lines_def\<close>)

lemma tax_entries_credit:
  assumes "cents_lines ts" "\<bar>X\<bar> \<le> 10 ^ 12" "0 \<le> X"
  shows "credited ''liability'' c
    (map stored_entry (tax_entries ids n tenant num ts (kob (tax_cents X ts)))) =
    of_int (tax_owed X ts c) / 100"
proof (cases "0 < tax_cents X ts \<and> ts \<noteq> []")
  case True
  let ?g = "fold add_tax_bucket ts []"
  note cl = cents_linesD[OF assms(1)]
  have g: "\<forall>(c, b) \<in> set ?g. tb_amount b = kob (cents_of (lines_of_code c ts))"
    "distinct (map fst ?g)" "\<forall>c. c \<notin> fst ` set ?g \<longrightarrow> lines_of_code c ts = []"
    using fold_buckets[OF cl(1,3)] by blast+
  have "tax_entries ids n tenant num ts (kob (tax_cents X ts)) =
       map2 (\<lambda>i (code, bucket). draft_entry (ids (n + 2 * i)) (ids 0) tenant (ids (n + 2 * i + 1))
           code 0 (tb_amount bucket)
           (join_names '' + '' (tb_names bucket) @ '' collected: '' @ num)
           ''liability'' (tb_amount bucket)) [0..<length ?g] ?g"
    using True
    by (simp only: tax_entries_def kob_pos_iff not_True_eq_False not_False_eq_True if_False if_True)
  then have "credited ''liability'' c
      (map stored_entry (tax_entries ids n tenant num ts (kob (tax_cents X ts)))) =
      (\<Sum>p\<leftarrow>zip [0..<length ?g] ?g. if fst (snd p) = c then stored_amount (tb_amount (snd (snd p))) else 0)"
    by (simp only: credited_def map_map comp_def split_def stored_entry_simps stored_entry_type
        draft_entry_def journal_entry.simps simp_thms)
  also have "\<dots> = (\<Sum>p\<leftarrow>?g. if fst p = c then stored_amount (tb_amount (snd p)) else 0)"
    by (rule sum_zip_snd) simp
  also have "\<dots> = (case map_of ?g c of None \<Rightarrow> 0 | Some b \<Rightarrow> stored_amount (tb_amount b))"
    by (rule sum_at_key[OF g(2)])
  also have "\<dots> = of_int (cents_of (lines_of_code c ts)) / 100"
  proof (cases "map_of ?g c")
    case None
    then have "lines_of_code c ts = []" using g(3) unfolding map_of_eq_None_iff by blast
    then show ?thesis by (simp add: None)
  next
    case (Some b)
    have "\<bar>cents_of (lines_of_code c ts)\<bar> \<le> 10 ^ 12"
      unfolding lines_of_code_def using cents_of_bound cl(3) by (rule order_trans)
    then show ?thesis using Some bspec[OF g(1) map_of_SomeD[OF Some]]
        stored_kob[of "cents_of (lines_of_code c ts)"] by simp
  qed
  finally show ?thesis using True by (simp add: tax_owed_def)
next
  case False
  show ?thesis
  proof (cases "ts = []")
    case True
    then show ?thesis using assms(2,3) stored_kob[of X]
      by (auto simp: tax_entries_def tax_cents_def kob_pos_iff draft_entry_def tax_owed_def)
  next
    case ne: False
    then have "cents_of ts \<le> 0" using False by (simp add: tax_cents_def)
    moreover have "0 \<le> cents_of ts"
      using cents_of_nonneg[OF cents_linesD(2)[OF assms(1)], of "\<lambda>_. True"] by simp
    ultimately have z: "cents_of ts = 0" by simp
    then show ?thesis
      using cents_of_zero[OF cents_linesD(2)[OF assms(1)] z] ne
      by (simp add: tax_entries_def tax_cents_def tax_owed_def lines_of_code_def)
  qed
qed

lemma stored_fsub:
  assumes "\<bar>a\<bar> \<le> 10 ^ 12" "\<bar>b\<bar> \<le> 10 ^ 12"
  shows "stored_amount (fsub (kob a) (kob b)) = of_int (a - b) / 100"
  unfolding stored_amount_def
proof (rule column_value_near)
  show "\<bar>fsub (kob a) (kob b) - of_int (a - b) / 100\<bar> \<le> 1 / 10000"
    using fadd_cents[of a "- b"] assms by (simp add: fsub_def fadd_def kob_minus)
  show "\<bar>a - b\<bar> \<le> 2 * 10 ^ 12" using assms by linarith
qed

lemma tax_cents_bounds:
  assumes "cents_lines ts" "\<bar>X\<bar> \<le> 10 ^ 12" "0 \<le> X"
  shows "0 \<le> tax_cents X ts" "\<bar>tax_cents X ts\<bar> \<le> 10 ^ 12"
    "sale_tax_amount (kob X) ts = kob (tax_cents X ts)"
proof -
  note cl = cents_linesD[OF assms(1)]
  have "0 \<le> cents_of ts" using cents_of_nonneg[OF cl(2), of "\<lambda>_. True"] by simp
  moreover have "\<bar>cents_of ts\<bar> \<le> 10 ^ 12"
    using cents_of_bound[of "\<lambda>_. True" ts] cl(3) by simp
  ultimately show "0 \<le> tax_cents X ts" "\<bar>tax_cents X ts\<bar> \<le> 10 ^ 12"
    using assms(2,3) by (simp_all add: tax_cents_def)
  show "sale_tax_amount (kob X) ts = kob (tax_cents X ts)"
    by (rule sale_tax_amount_kob[OF cl(4,1)])
qed

text \<open>The entries of a sale's journal, as \<open>plan_sale_journal\<close> returns them.\<close>

abbreviation sale_entries ::
  "(nat \<Rightarrow> uuid) \<Rightarrow> string \<Rightarrow> uuid \<Rightarrow> uuid \<Rightarrow> string \<Rightarrow> sale_item_cost list \<Rightarrow> rat \<Rightarrow> rat \<Rightarrow>
   tax_dict list \<Rightarrow> string \<Rightarrow> uuid option \<Rightarrow> bool \<Rightarrow> journal_entry list" where
  "sale_entries ids day tenant sale_id num items tot tax ts pm store settled \<equiv>
     map stored_entry (snd (plan_sale_journal ids day tenant sale_id num items tot tax ts pm store settled))"

lemma sale_entries_facts:
  assumes "cents_lines ts" "\<bar>X\<bar> \<le> 10 ^ 12" "0 \<le> X" "\<bar>T\<bar> \<le> 10 ^ 12"
  shows "imbalance (sale_entries ids day tenant sale_id num items (kob T) (kob X) ts pm store settled) = 0"
    and "credited ''revenue'' ''4000''
      (sale_entries ids day tenant sale_id num items (kob T) (kob X) ts pm store settled) =
      of_int (T - tax_cents X ts) / 100"
    and "credited ''liability'' c
      (sale_entries ids day tenant sale_id num items (kob T) (kob X) ts pm store settled) =
      of_int (tax_owed X ts c) / 100"
    and "\<forall>e \<in> set (snd (plan_sale_journal ids day tenant sale_id num items (kob T) (kob X) ts pm store settled)).
      je_journal_id e = ids 0"
proof -
  let ?taxes = "tax_entries ids 5 tenant num ts (kob (tax_cents X ts))"
  let ?code = "fst (sale_debit_account pm settled)" and ?label = "snd (sale_debit_account pm settled)"
  note b = tax_cents_bounds[OF assms(1-3)]
  have rev: "stored_amount (fsub (kob T) (kob (tax_cents X ts))) = of_int (T - tax_cents X ts) / 100"
    by (rule stored_fsub[OF assms(4) b(2)])
  have T: "stored_amount (kob T) = of_int T / 100" using assms(4) by (intro stored_kob) simp
  have im: "imbalance (map stored_entry ?taxes) = - (of_int (tax_cents X ts) / 100)"
    by (rule tax_entries_balance[OF cents_linesD(1,3)[OF assms(1)] assms(2) b(1)])
  have kinds: "\<forall>e \<in> set ?taxes. je_type e = ''liability'' \<and> je_journal_id e = ids 0"
    by (auto simp: tax_entries_def draft_entry_def)
  then have other: "credited ''revenue'' ''4000'' (map stored_entry ?taxes) = 0"
    by (intro credited_other) auto
  let ?n = "5 + 2 * length ?taxes"
  define cogs where "cogs = (if 0 < total_cost items
     then [draft_entry (ids ?n) (ids 0) tenant (ids (?n + 1)) ''5000'' (total_cost items) 0
             (''COGS: '' @ num) ''expense'' (total_cost items),
           draft_entry (ids (?n + 2)) (ids 0) tenant (ids (?n + 3)) ''1200'' 0 (total_cost items)
             (''Inventory reduction: '' @ num) ''asset'' (total_cost items)]
     else [])"
  have es: "snd (plan_sale_journal ids day tenant sale_id num items (kob T) (kob X) ts pm store settled)
      = [draft_entry (ids 1) (ids 0) tenant (ids 2) ?code (kob T) 0
           (?label @ '' received: '' @ num) ''asset'' (kob T),
         draft_entry (ids 3) (ids 0) tenant (ids 4) ''4000'' 0 (fsub (kob T) (kob (tax_cents X ts)))
           (''Revenue: '' @ num) ''revenue'' (fsub (kob T) (kob (tax_cents X ts)))] @ ?taxes @ cogs"
    by (simp add: plan_sale_journal_def Let_def b(3) split_def cogs_def)
  have cogs: "imbalance (map stored_entry cogs) = 0"
      "\<forall>e \<in> set cogs. je_type e \<noteq> ''revenue'' \<and> je_type e \<noteq> ''liability'' \<and> je_journal_id e = ids 0"
    by (auto simp: cogs_def draft_entry_def)
  have none: "credited kind c (map stored_entry cogs) = 0" if "kind = ''revenue'' \<or> kind = ''liability''" for kind c
    using cogs(2) that by (intro credited_other) auto
  show "imbalance (sale_entries ids day tenant sale_id num items (kob T) (kob X) ts pm store settled) = 0"
    unfolding es by (simp add: im cogs(1) rev T draft_entry_def diff_divide_distrib)
  show "credited ''revenue'' ''4000''
      (sale_entries ids day tenant sale_id num items (kob T) (kob X) ts pm store settled) =
      of_int (T - tax_cents X ts) / 100"
    unfolding es by (simp add: other none rev draft_entry_def)
  show "credited ''liability'' c
      (sale_entries ids day tenant sale_id num items (kob T) (kob X) ts pm store settled) =
      of_int (tax_owed X ts c) / 100"
    unfolding es by (simp add: tax_entries_credit[OF assms(1-3)] none draft_entry_def)
  show "\<forall>e \<in> set (snd (plan_sale_journal ids day tenant sale_id num items (kob T) (kob X) ts pm store settled)).
      je_journal_id e = ids 0"
    unfolding es using kinds cogs(2) by (auto simp: draft_entry_def)
qed

lemma debited_simps [simp]:
  "debited c [] = 0" "debited c (es @ fs) = debited c es + debited c fs"
  "debited c (e # es) = (if je_account_code e = c then je_debit e else 0) + debited c es"
  by (simp_all add: debited_def)

lemma debited_none: "\<forall>e \<in> set es. je_debit e = 0 \<Longrightarrow> debited c (map stored_entry es) = 0"
  by (induction es) auto

lemma sale_entries_debit:
  assumes "\<bar>T\<bar> \<le> 10 ^ 12"
  shows "debited (fst (sale_debit_account pm settled))
      (sale_entries ids day tenant sale_id num items (kob T) x ts pm store settled) = of_int T / 100"
proof -
  have "debited c (map stored_entry (tax_entries ids n tenant num ts a)) = 0" for c n a
    by (rule debited_none) (auto simp: tax_entries_def draft_entry_def)
  moreover have "fst (sale_debit_account pm settled) \<in> {''1000'', ''1010'', ''1100''}"
    by (simp add: sale_debit_account_def)
  ultimately show ?thesis
    using stored_kob[of T] assms
    by (auto simp: plan_sale_journal_def Let_def split_def draft_entry_def)
qed

text \<open>
  C1: The journal of a sale balances and splits the money as the sale says. For a total of \<open>T\<close>
  kobo and tax lines of whole kobo, what the entry columns hold has equal debits and credits;
  the account the method and the settlement call for is debited \<open>T\<close>; revenue is credited
  \<open>T\<close> less all tax; and every liability account is credited exactly the sum of the lines booked
  to it (or the whole tax to 2300 when there is no breakdown), whatever the items cost.
\<close>

theorem sale_journal_balances:
  assumes "cents_lines ts" "\<bar>X\<bar> \<le> 10 ^ 12" "0 \<le> X" "\<bar>T\<bar> \<le> 10 ^ 12"
    and "es = map stored_entry (snd (plan_sale_journal ids day tenant sale_id num items (kob T) (kob X)
      ts pm store settled))"
  shows "imbalance es = 0 \<and>
    debited (fst (sale_debit_account pm settled)) es = of_int T / 100 \<and>
    credited ''revenue'' ''4000'' es = of_int (T - tax_cents X ts) / 100 \<and>
    credited ''liability'' c es = of_int (tax_owed X ts c) / 100"
  unfolding assms(5)
  by (intro conjI sale_entries_facts[OF assms(1-4)] sale_entries_debit[OF assms(4)])

definition sample_sale_taxes :: "tax_dict list" where
  "sample_sale_taxes =
    [\<lparr>td_id = Some ''v'', td_name = Some ''VAT'', td_rate = Some (PInt 7),
      td_amount = Some (PFlt (kob 750)), td_account_code = Some ''2300''\<rparr>,
     \<lparr>td_id = Some ''l'', td_name = Some ''Levy'', td_rate = Some (PInt 1),
      td_amount = Some (PFlt (kob 100)), td_account_code = None\<rparr>]"

lemma kob_eq_0_iff [simp]: "kob k = 0 \<longleftrightarrow> k = 0"
  using kob_pos_iff[of k] kob_pos_iff[of "- k"] by (cases k "0 :: int" rule: linorder_cases) (auto simp: kob_minus)

lemma sample_sale_taxes_ok:
  "cents_lines sample_sale_taxes" "tax_cents 0 sample_sale_taxes = 850"
  "tax_owed 0 sample_sale_taxes ''2400'' = 100"
  by (simp_all add: cents_lines_def sample_sale_taxes_def amount_of_def float_of_def num_or_zero_def
      cents_range_def tax_cents_def tax_owed_def lines_of_code_def cents_of_def num_truthy_def
      DEFAULT_TAX_ACCOUNT_def)

lemma sale_journal_balances_witness:
  "let es = map stored_entry (snd (plan_sale_journal (\<lambda>n. ''id'') ''20250101'' ''t'' ''s'' ''S-1'' []
       (kob 10850) (kob 0) sample_sale_taxes ''card'' None True)) in
     imbalance es = 0 \<and> debited ''1010'' es = 10850 / 100 \<and>
     credited ''revenue'' ''4000'' es = 10000 / 100 \<and> credited ''liability'' ''2400'' es = 100 / 100"
  using sale_journal_balances[OF sample_sale_taxes_ok(1) _ _ _ refl, where X = 0 and T = 10850 and
      pm = "''card''" and settled = True and ids = "\<lambda>n. ''id''" and day = "''20250101''" and
      tenant = "''t''" and sale_id = "''s''" and num = "''S-1''" and items = "[]" and store = None
      and c = "''2400''"]
  by (simp add: sample_sale_taxes_ok sale_debit_account_def Let_def)

end
