(* ===== verification/LedgerFlows.thy ===== *)
theory LedgerFlows
  imports LedgerProps
begin

text \<open>
  What the accounting flows do to the books: every posting keeps them balanced, receivables are
  settled exactly, and the branches that refuse to post.
\<close>

section \<open>Resolving accounts changes no amount\<close>

definition amounts :: "journal_entry \<Rightarrow> rat \<times> rat \<times> uuid" where
  "amounts e = (je_debit e, je_credit e, je_journal_id e)"

lemma imbalance_amounts:
  assumes "map amounts es = map amounts fs"
  shows "imbalance (map stored_entry es) = imbalance (map stored_entry fs)"
proof -
  have "length es = length fs" using assms by (metis length_map)
  then show ?thesis using assms by (induction es fs rule: list_induct2) (simp_all add: amounts_def)
qed

lemma journal_ids_amounts:
  assumes "map amounts es = map amounts fs" "\<forall>e \<in> set fs. je_journal_id e = j"
  shows "\<forall>e \<in> set es. je_journal_id e = j"
proof -
  have "length es = length fs" using assms by (metis length_map)
  then show ?thesis using assms by (induction es fs rule: list_induct2) (simp_all add: amounts_def)
qed

lemma resolve_entry_amounts: "resolve_entry num m e = Inr e' \<Longrightarrow> amounts e' = amounts e"
  by (auto simp: resolve_entry_def amounts_def Let_def split: option.splits if_splits)

lemma resolve_fold:
  assumes "res_fold (\<lambda>e ds. res_bind (resolve_entry num m e) (\<lambda>e'. Inr (ds @ [e']))) es acc = Inr out"
  shows "\<exists>es'. out = acc @ es' \<and> map amounts es' = map amounts es \<and>
    list_all2 (\<lambda>e e'. resolve_entry num m e = Inr e') es es'"
  using assms
proof (induction es arbitrary: acc)
  case (Cons e es)
  then obtain e' where e': "resolve_entry num m e = Inr e'"
    "res_fold (\<lambda>e ds. res_bind (resolve_entry num m e) (\<lambda>e'. Inr (ds @ [e']))) es (acc @ [e']) = Inr out"
    by (auto simp: res_bind_eq_Inr)
  from Cons.IH[OF e'(2)] obtain es' where "out = (acc @ [e']) @ es'"
    "map amounts es' = map amounts es" "list_all2 (\<lambda>e e'. resolve_entry num m e = Inr e') es es'"
    by blast
  then show ?case
    using e'(1) resolve_entry_amounts[OF e'(1)] by (intro exI[of _ "e' # es'"]) auto
qed simp

lemma resolve_entries_amounts:
  "resolve_entries bk tenant num es = Inr es' \<Longrightarrow> map amounts es' = map amounts es"
  by (auto simp: resolve_entries_def res_bind_eq_Inr dest!: resolve_fold)

lemma resolve_to_simps [simp]:
  "je_debit (resolve_to c a e) = je_debit e" "je_credit (resolve_to c a e) = je_credit e"
  "je_journal_id (resolve_to c a e) = je_journal_id e" "je_account_code (resolve_to c a e) = je_account_code e"
  by (simp_all add: resolve_to_def)

section \<open>Every operation keeps the books balanced\<close>

lemma post_sale_journal_balanced:
  assumes "cents_lines ts" "\<bar>X\<bar> \<le> 10 ^ 12" "0 \<le> X" "\<bar>T\<bar> \<le> 10 ^ 12" "balanced_books bk"
    and "post_sale_journal ids now day tenant sale_id num items (kob T) (kob X) ts cashier pm store
      settled customer arid bk = Inr bk'"
  shows "balanced_books bk'"
proof -
  define p where "p = plan_sale_journal ids day tenant sale_id num items (kob T) (kob X) ts pm store settled"
  note facts = sale_entries_facts[OF assms(1-4), where ids = ids and day = day and tenant = tenant
      and sale_id = sale_id and num = num and items = items and pm = pm and store = store
      and settled = settled, folded p_def]
  obtain es' bk1 where es': "resolve_entries bk tenant num (snd p) = Inr es'"
    and w: "write_posted now (Some now) cashier (fst p) es' bk = Inr bk1"
    and bk': "bk_entries bk' = bk_entries bk1"
    using assms(6) unfolding post_sale_journal_def p_def[symmetric]
    by (auto simp: split_def res_bind_eq_Inr split: if_splits)
  note am = resolve_entries_amounts[OF es']
  have "balanced_books bk1"
    by (rule write_posted_balanced[OF w assms(5) journal_ids_amounts[OF am facts(4)]])
      (use imbalance_amounts[OF am] facts(1) in simp)
  then show ?thesis by (rule balanced_same_entries[OF _ bk'])
qed

lemma update_ar_entries: "update_ar_payment arid amount bk = Inr bk' \<Longrightarrow> bk_entries bk' = bk_entries bk"
  by (auto simp: update_ar_payment_def res_bind_eq_Inr split: option.splits)

lemma update_ap_entries: "update_ap_payment arid amount bk = Inr bk' \<Longrightarrow> bk_entries bk' = bk_entries bk"
  by (auto simp: update_ap_payment_def res_bind_eq_Inr split: option.splits)

lemma record_ar_payment_balanced:
  assumes "record_ar_payment ids now day tenant arid amount bk = Inr bk'" "balanced_books bk"
  shows "balanced_books bk'"
proof -
  obtain bk1 where bk1: "update_ar_payment arid amount bk = Inr bk1"
    using assms(1) by (auto simp: record_ar_payment_def res_bind_eq_Inr split: if_splits)
  have b1: "balanced_books bk1"
    by (rule balanced_same_entries[OF assms(2) update_ar_entries[OF bk1]])
  show ?thesis
    using assms(1) bk1 b1
    by (auto simp: record_ar_payment_def plan_record_ar_payment_def draft_entry_def
        split: if_splits option.splits elim!: write_posted_balanced[where jid = "ids 0"])
qed

lemma record_ap_payment_balanced:
  assumes "record_ap_payment ids now day tenant apid amount bk = Inr bk'" "balanced_books bk"
  shows "balanced_books bk'"
proof -
  obtain bk1 where bk1: "update_ap_payment apid amount bk = Inr bk1"
    using assms(1) by (auto simp: record_ap_payment_def res_bind_eq_Inr split: if_splits)
  have b1: "balanced_books bk1"
    by (rule balanced_same_entries[OF assms(2) update_ap_entries[OF bk1]])
  show ?thesis
    using assms(1) bk1 b1
    by (auto simp: record_ap_payment_def plan_record_ap_payment_def draft_entry_def
        split: if_splits option.splits elim!: write_posted_balanced[where jid = "ids 0"])
qed

lemma create_expense_balanced:
  assumes "create_expense ids now day tenant r bk = Inr bk'" "balanced_books bk"
  shows "balanced_books bk'"
proof -
  from assms(1) obtain j es bk1 where w: "write_posted now (jn_posted_at j) (Some (er_created_by r)) j es bk = Inr bk1"
    and es: "\<forall>e \<in> set es. je_journal_id e = ids 1" "imbalance (map stored_entry es) = 0"
    and bk': "bk_entries bk' = bk_entries bk1"
    by (auto simp: create_expense_def plan_create_expense_def draft_entry_def Let_def resolve_to_def
        res_bind_eq_Inr split: option.splits)
  show ?thesis
    by (rule balanced_same_entries[OF write_posted_balanced[OF w assms(2) es] bk'])
qed

lemma add_posted_balanced:
  assumes "balanced_books bk"
  shows "balanced_books (add_posted now day jid tenant d rid rt store
    [posted_entry now i1 jid tenant a x 0 d1 k1 y, posted_entry now i2 jid tenant b 0 x d2 k2 z] bk)"
  by (rule balanced_append[OF assms, of "map stored_entry
      [posted_entry now i1 jid tenant a x 0 d1 k1 y, posted_entry now i2 jid tenant b 0 x d2 k2 z]" jid])
    (auto simp: posted_entry_def add_posted_def fold_create_entries create_journal_def create_journal_entry_def)

lemma acc_sale_confirmed_balanced:
  "acc_handle_sale_confirmed ids now day sale_store env bk = Inr bk' \<Longrightarrow> balanced_books bk \<Longrightarrow>
     balanced_books bk'"
  by (auto simp: acc_handle_sale_confirmed_def res_bind_eq_Inr intro!: add_posted_balanced
      split: option.splits if_splits)

lemma acc_payment_succeeded_balanced:
  "acc_handle_payment_succeeded ids now day sale_store env bk = Inr bk' \<Longrightarrow> balanced_books bk \<Longrightarrow>
     balanced_books bk'"
  by (auto simp: acc_handle_payment_succeeded_def res_bind_eq_Inr Let_def intro!: add_posted_balanced
      split: option.splits if_splits)

section \<open>Every reachable state of the books is balanced\<close>

text \<open>One transaction on the books. Amounts of a sale are whole kobo, as the tax computation
  returns them; every other operation is unrestricted.\<close>

inductive books_step :: "books \<Rightarrow> books \<Rightarrow> bool" where
  post_sale: "cents_lines ts \<Longrightarrow> \<bar>X\<bar> \<le> 10 ^ 12 \<Longrightarrow> 0 \<le> X \<Longrightarrow> \<bar>T\<bar> \<le> 10 ^ 12 \<Longrightarrow>
    post_sale_journal ids now day tenant sale_id num items (kob T) (kob X) ts cashier pm store
      settled customer arid bk = Inr bk' \<Longrightarrow> books_step bk bk'"
| expense: "create_expense ids now day tenant r bk = Inr bk' \<Longrightarrow> books_step bk bk'"
| ar_payment: "record_ar_payment ids now day tenant arid amount bk = Inr bk' \<Longrightarrow> books_step bk bk'"
| ap_payment: "record_ap_payment ids now day tenant apid amount bk = Inr bk' \<Longrightarrow> books_step bk bk'"
| sale_event: "acc_handle_sale_confirmed ids now day sale_store env bk = Inr bk' \<Longrightarrow> books_step bk bk'"
| payment_event: "acc_handle_payment_succeeded ids now day sale_store env bk = Inr bk' \<Longrightarrow>
    books_step bk bk'"
| commission_paid: "mark_commission_paid now cid bk = Inr bk' \<Longrightarrow> books_step bk bk'"
| seed: "books_step bk (fst (seed_chart_of_accounts ids tenant bk))"
| account_created: "books_step bk (create_account a bk)"
| account_renamed: "books_step bk (snd (update_account aid tenant name bk))"
| account_toggled: "books_step bk (snd (toggle_account_status aid tenant st bk))"
| account_deleted: "books_step bk (snd (delete_account aid tenant bk))"

lemma account_entries [simp]:
  "bk_entries (fst (seed_chart_of_accounts ids tenant bk)) = bk_entries bk"
  "bk_entries (create_account a bk) = bk_entries bk"
  "bk_entries (snd (update_account aid tenant name bk)) = bk_entries bk"
  "bk_entries (snd (toggle_account_status aid tenant st bk)) = bk_entries bk"
  "bk_entries (snd (delete_account aid tenant bk)) = bk_entries bk"
  by (simp_all add: seed_chart_of_accounts_def create_account_def update_account_def
      toggle_account_status_def delete_account_def Let_def)

lemma commission_paid_entries: "mark_commission_paid now cid bk = Inr bk' \<Longrightarrow> bk_entries bk' = bk_entries bk"
  by (auto simp: mark_commission_paid_def split: if_splits)

lemma books_step_balanced: "books_step bk bk' \<Longrightarrow> balanced_books bk \<Longrightarrow> balanced_books bk'"
proof (induction rule: books_step.induct)
  case post_sale
  then show ?case using post_sale_journal_balanced by blast
next
  case expense
  then show ?case using create_expense_balanced by blast
next
  case ar_payment
  then show ?case using record_ar_payment_balanced by blast
next
  case ap_payment
  then show ?case using record_ap_payment_balanced by blast
next
  case sale_event
  then show ?case using acc_sale_confirmed_balanced by blast
next
  case payment_event
  then show ?case using acc_payment_succeeded_balanced by blast
next
  case commission_paid
  then show ?case using commission_paid_entries balanced_same_entries by blast
qed (auto intro: balanced_same_entries)

lemma books_steps_balanced: "books_step\<^sup>*\<^sup>* bk bk' \<Longrightarrow> balanced_books bk \<Longrightarrow> balanced_books bk'"
  by (induction rule: rtranclp_induct) (auto intro: books_step_balanced)

lemma imbalance_by_journal:
  "imbalance es = (\<Sum>j \<in> je_journal_id ` set es. imbalance (filter (\<lambda>e. je_journal_id e = j) es))"
proof (induction es rule: rev_induct)
  case (snoc e es)
  let ?J = "je_journal_id ` set es" and ?j = "je_journal_id e"
  have "(\<Sum>j \<in> insert ?j ?J. imbalance (filter (\<lambda>e. je_journal_id e = j) (es @ [e]))) =
    (\<Sum>j \<in> insert ?j ?J. imbalance (filter (\<lambda>e. je_journal_id e = j) es) +
       (if j = ?j then je_debit e - je_credit e else 0))"
    by (intro sum.cong) auto
  also have "\<dots> = (\<Sum>j \<in> insert ?j ?J. imbalance (filter (\<lambda>e. je_journal_id e = j) es)) +
      (je_debit e - je_credit e)"
    by (simp add: sum.distrib sum.delta')
  also have "(\<Sum>j \<in> insert ?j ?J. imbalance (filter (\<lambda>e. je_journal_id e = j) es)) = imbalance es"
  proof (cases "?j \<in> ?J")
    case True
    then show ?thesis using snoc.IH by (simp add: insert_absorb)
  next
    case False
    then have "filter (\<lambda>e. je_journal_id e = ?j) es = []" by (metis (mono_tags, lifting) filter_False image_eqI)
    then show ?thesis using snoc.IH False by simp
  qed
  finally show ?case by simp
qed simp

lemma balanced_total: "balanced_books bk \<Longrightarrow> imbalance (bk_entries bk) = 0"
  using imbalance_by_journal[of "bk_entries bk"] by (simp add: balanced_books_def get_journal_entries_def)

text \<open>
  C3: The books stay balanced. Whatever sequence of sales, expenses, receivable and payable
  payments, event deliveries and chart changes is run from empty books, in every journal (and so
  over all entries) what the debit column holds adds up to what the credit column holds.
\<close>

theorem books_stay_balanced:
  assumes "books_step\<^sup>*\<^sup>* no_books bk"
  shows "balanced_books bk \<and> (\<Sum>e\<leftarrow>bk_entries bk. je_debit e) = (\<Sum>e\<leftarrow>bk_entries bk. je_credit e)"
proof -
  have "balanced_books no_books"
    by (simp add: balanced_books_def get_journal_entries_def no_books_def)
  then have b: "balanced_books bk" by (rule books_steps_balanced[OF assms])
  then show ?thesis using balanced_total[OF b] by (simp add: imbalance_def sum_list_map_diff)
qed

definition sample_account :: "uuid \<Rightarrow> string \<Rightarrow> string \<Rightarrow> chart_account" where
  "sample_account i code kind = \<lparr>coa_id = i, coa_tenant_id = ''t'', coa_code = code, coa_name = code,
     coa_account_type = kind, coa_parent_id = None, coa_status = ''active''\<rparr>"

definition sample_books :: books where
  "sample_books = create_account (sample_account ''A'' ''1000'' ''asset'')
     (create_account (sample_account ''B'' ''5300'' ''expense'') no_books)"

definition sample_expense :: expense_request where
  "sample_expense = \<lparr>er_category = ''salaries'', er_description = ''May'', er_amount = kob 1000,
     er_date = 0, er_created_by = ''u'', er_vendor = None, er_receipt_url = None, er_store_id = None\<rparr>"

lemma salaries_account: "map_of EXPENSE_CATEGORY_ACCOUNT_MAP ''salaries'' = Some ''5300''"
  by (simp add: EXPENSE_CATEGORY_ACCOUNT_MAP_def doc_key_def Let_def)

lemma sample_run:
  "case create_expense (\<lambda>n. [CHR ''i'', char_of n]) 5 ''20250101'' ''t'' sample_expense sample_books of
     Inl _ \<Rightarrow> False | Inr bk \<Rightarrow> length (bk_entries bk) = 2"
  by (simp add: create_expense_def sample_expense_def salaries_account sample_books_def no_books_def
      create_account_def get_account_by_code_def sample_account_def plan_create_expense_def Let_def
      draft_journal_def draft_entry_def write_posted_def post_journal_def fold_create_entries
      create_journal_def create_journal_entry_def resolve_to_def)

lemma books_stay_balanced_witness:
  "\<exists>bk. books_step\<^sup>*\<^sup>* no_books bk \<and> length (bk_entries bk) = 2 \<and> balanced_books bk \<and>
     (\<Sum>e\<leftarrow>bk_entries bk. je_debit e) = (\<Sum>e\<leftarrow>bk_entries bk. je_credit e)"
proof -
  obtain bk where bk: "create_expense (\<lambda>n. [CHR ''i'', char_of n]) 5 ''20250101'' ''t'' sample_expense
      sample_books = Inr bk" "length (bk_entries bk) = 2"
    using sample_run by (auto split: sum.splits)
  have grow: "books_step\<^sup>*\<^sup>* no_books (create_account a b)" if "books_step\<^sup>*\<^sup>* no_books b" for a b
    using that books_step.account_created by (rule rtranclp.rtrancl_into_rtrancl)
  have "books_step\<^sup>*\<^sup>* no_books sample_books"
    unfolding sample_books_def by (intro grow rtranclp.rtrancl_refl)
  moreover have "books_step sample_books bk" by (rule books_step.expense[OF bk(1)])
  ultimately have r: "books_step\<^sup>*\<^sup>* no_books bk" by (rule rtranclp.rtrancl_into_rtrancl)
  show ?thesis
    by (intro exI[of _ bk] conjI r bk(2)) (use books_stay_balanced[OF r] in simp_all)
qed

section \<open>Paying a receivable or a payable\<close>

lemma fadd_kob_err:
  "\<bar>a\<bar> \<le> 10 ^ 11 \<Longrightarrow> \<bar>b\<bar> \<le> 10 ^ 11 \<Longrightarrow> \<bar>fadd (kob a) (kob b) - of_int (a + b) / 100\<bar> \<le> 1 / 1000000"
  using fsub_kob_err[of a "- b"] by (simp add: fadd_def fsub_def kob_minus)

lemma kob_err_small: "\<bar>k\<bar> \<le> 10 ^ 11 \<Longrightarrow> \<bar>kob k - of_int k / 100\<bar> \<le> 1 / 1000000"
  using kob_err[of k] of_int_abs_bound[of k "10 ^ 11"] by simp

lemma fl_cents: "fl (of_int k / 100) = kob k"
  by (simp add: kob_def)

lemma cents_gap:
  assumes "\<bar>kob k - of_int k / 100\<bar> \<le> 1 / 1000000"
  shows "b < k \<Longrightarrow> of_int b / 100 < kob k" "k < b \<Longrightarrow> kob k < of_int b / 100"
proof -
  show "of_int b / 100 < kob k" if "b < k"
  proof -
    have "(of_int b :: rat) + 1 \<le> of_int k" using that by (metis of_int_1 of_int_add of_int_le_iff zless_imp_add1_zle)
    then show ?thesis using assms by linarith
  qed
  show "kob k < of_int b / 100" if "k < b"
  proof -
    have "(of_int k :: rat) + 1 \<le> of_int b" using that by (metis of_int_1 of_int_add of_int_le_iff zless_imp_add1_zle)
    then show ?thesis using assms by linarith
  qed
qed

lemma left_bound:
  fixes A P a p k :: rat
  assumes "\<bar>P - (p + k) / 100\<bar> \<le> 1 / 1000000" "\<bar>A - a / 100\<bar> \<le> 1 / 1000000"
    "\<bar>p\<bar> \<le> 10000000000" "\<bar>k\<bar> \<le> 10000000000" "\<bar>a\<bar> \<le> 10000000000"
  shows "\<bar>A - P\<bar> \<le> 500000000"
proof -
  have "\<bar>p + k\<bar> \<le> 20000000000" using assms(3,4) by linarith
  then have "\<bar>P\<bar> \<le> 200000001" using assms(1) unfolding add_divide_distrib by linarith
  moreover have "\<bar>A\<bar> \<le> 100000001" using assms(2,5) by linarith
  ultimately show ?thesis by linarith
qed

lemma left_err:
  fixes L A P a p k :: rat
  assumes "\<bar>L - (A - P)\<bar> \<le> eps * 500000000" "\<bar>P - (p + k) / 100\<bar> \<le> 1 / 1000000"
    "\<bar>A - a / 100\<bar> \<le> 1 / 1000000"
  shows "\<bar>L - (a - p - k) / 100\<bar> \<le> 1 / 10000"
proof -
  have "\<bar>L - (A - P)\<bar> \<le> 1 / 1000000" using assms(1) by simp
  then show ?thesis using assms(2,3)
    unfolding add_divide_distrib diff_divide_distrib by linarith
qed

text \<open>
  C11: A payment against a receivable or payable leaves exactly the kobo it should. On a row
  loaded with \<open>a\<close> kobo owed and \<open>p\<close> paid, a payment of \<open>k\<close> kobo below the balance is accepted, the
  columns then hold \<open>p + k\<close> paid and \<open>a - p - k\<close> left and the status is partial; one above the
  balance is refused. A payment of exactly the balance is refused too whenever the float of
  that amount lies above the decimal, because the float is compared with the column exactly.
\<close>

theorem payment_leaves_exact_balance:
  assumes "\<bar>a\<bar> \<le> 10 ^ 10" "\<bar>p\<bar> \<le> 10 ^ 10" "\<bar>k\<bar> \<le> 10 ^ 10"
  shows "case apply_payment (PDec (of_int a / 100)) (PDec (of_int p / 100))
      (PDec (of_int (a - p) / 100)) (kob k) of
    Inl e \<Rightarrow> a - p < k \<or> (k = a - p \<and> of_int k / 100 < kob k)
  | Inr (paid, balance, st) \<Rightarrow> k \<le> a - p \<and> (k = a - p \<longrightarrow> kob k \<le> of_int k / 100) \<and>
      column_value paid = of_int (p + k) / 100 \<and> column_value balance = of_int (a - p - k) / 100 \<and>
      (k < a - p \<longrightarrow> st = ''partial'')"
proof (cases "of_int (a - p) / 100 < kob k")
  case True
  have "\<not> k < a - p" using cents_gap(2)[OF kob_err_small, of k "a - p"] assms(3) True by auto
  then show ?thesis using True by (auto simp: apply_payment_def py_lt_def)
next
  case False
  let ?paid = "fadd (kob p) (kob k)" and ?left = "fsub (kob a) (fadd (kob p) (kob k))"
  have k: "k \<le> a - p" using cents_gap(1)[OF kob_err_small, of k "a - p"] assms(3) False by force
  have 1: "\<bar>?paid - of_int (p + k) / 100\<bar> \<le> 1 / 1000000"
    by (rule fadd_kob_err) (use assms in auto)
  have 2: "\<bar>kob a - of_int a / 100\<bar> \<le> 1 / 1000000" by (rule kob_err_small) (use assms in auto)
  have pk: "\<bar>of_int p :: rat\<bar> \<le> 10000000000" "\<bar>of_int k :: rat\<bar> \<le> 10000000000" "\<bar>of_int a :: rat\<bar> \<le> 10000000000"
    using of_int_abs_bound[OF assms(2)] of_int_abs_bound[OF assms(3)] of_int_abs_bound[OF assms(1)]
    by simp_all
  have "\<bar>kob a - ?paid\<bar> \<le> 500000000"
    by (rule left_bound[OF 1[unfolded of_int_add] 2 pk])
  then have "\<bar>?left - (kob a - ?paid)\<bar> \<le> eps * 500000000" unfolding fsub_def by (rule flt.r_err_le)
  then have 3: "\<bar>?left - of_int (a - p - k) / 100\<bar> \<le> 1 / 10000" using 1 2
    unfolding of_int_add of_int_diff by (rule left_err)
  have col1: "column_value (PFlt ?paid) = of_int (p + k) / 100"
    by (rule column_value_near[OF order_trans[OF 1]]) (use assms in auto)
  have col2: "column_value (PFlt ?left) = of_int (a - p - k) / 100"
    by (rule column_value_near[OF 3]) (use assms in \<open>simp add: abs_le_iff\<close>)
  define d where "d = a - p - k"
  have pos: "0 < ?left" if "k < a - p"
  proof -
    have "1 \<le> (of_int d :: rat)" using that by (simp add: d_def)
    then show ?thesis using 3[folded d_def] by linarith
  qed
  have eq: "k = a - p \<longrightarrow> kob k \<le> of_int k / 100" using False by auto
  have ap: "apply_payment (PDec (of_int a / 100)) (PDec (of_int p / 100))
      (PDec (of_int (a - p) / 100)) (kob k) =
      Inr (PFlt ?paid, PFlt ?left, if ?left \<le> 0 then ''paid'' else ''partial'')"
    using False
    by (simp add: apply_payment_def py_lt_def fl_cents Let_def del: of_int_diff divide_less_eq_numeral1)
  show ?thesis
    unfolding ap sum.case prod.case col1 col2
    by (intro conjI k eq refl impI) (use pos in simp)
qed

lemma payment_leaves_exact_balance_witness:
  "\<not> is_ok (apply_payment (PDec (10 / 100)) (PDec 0) (PDec (10 / 100)) (kob 10)) \<and>
   is_ok (apply_payment (PDec (of_int 11 / 100)) (PDec (of_int 0 / 100)) (PDec (of_int (11 - 0) / 100)) (kob 10))"
proof -
  have "1 / 10 < kob 10" by code_simp
  then show ?thesis
    using payment_leaves_exact_balance[of 10 0 10] payment_leaves_exact_balance[of 11 0 10]
    by (auto split: sum.splits)
qed

section \<open>Refusals\<close>

text \<open>
  The category \<open>rent\<close> is always refused. The literal meant to document the category map is
  joined to its first key, so the map has no key \<open>rent\<close>.
\<close>

theorem rent_expense_refused:
  "\<not> is_ok (create_expense ids now day tenant (r\<lparr>er_category := ''rent''\<rparr>) bk)"
proof -
  have "map_of EXPENSE_CATEGORY_ACCOUNT_MAP ''rent'' = None"
    by (simp add: EXPENSE_CATEGORY_ACCOUNT_MAP_def doc_key_def Let_def)
  then show ?thesis by (simp add: create_expense_def)
qed

lemma resolve_first:
  "resolve_entry num (code_to_account bk tenant (map je_account_code (e # es))) e = Inl x \<Longrightarrow>
     resolve_entries bk tenant num (e # es) = Inl x"
  by (simp add: resolve_entries_def)

lemma map_of_code_to_account:
  "map_of (code_to_account bk tenant wanted) c = None \<longleftrightarrow>
     c \<notin> set wanted \<or> get_account_by_code bk tenant c = None"
proof -
  have "fst ` set (code_to_account bk tenant wanted) =
      {coa_code a | a. a \<in> set (bk_accounts bk) \<and> coa_tenant_id a = tenant \<and> coa_code a \<in> set wanted}"
    by (force simp: code_to_account_def)
  then show ?thesis
    by (auto simp: map_of_eq_None_iff get_account_by_code_def find_None_iff)
qed

lemma tax_entry_codes:
  "je_account_code ` set (tax_entries ids n tenant num ts x) \<subseteq>
     insert ''2300'' ((\<lambda>t. str_or (td_account_code t) DEFAULT_TAX_ACCOUNT) ` set ts)"
proof -
  have "fst ` set (fold add_tax_bucket ts g) =
      (\<lambda>t. str_or (td_account_code t) DEFAULT_TAX_ACCOUNT) ` set ts \<union> fst ` set g" for g
    by (induction ts arbitrary: g) (auto simp: add_tax_bucket_def Let_def keys_dict_set)
  from this[of "[]"] have "fst ` set (fold add_tax_bucket ts []) =
      (\<lambda>t. str_or (td_account_code t) DEFAULT_TAX_ACCOUNT) ` set ts" by simp
  then show ?thesis
    by (auto simp: tax_entries_def draft_entry_def dest!: set_zip_rightD) force
qed

text \<open>
  A sale settled by card or transfer, or not yet settled, cannot be booked by a tenant
  without account 1010 or 1100, although the code means to fall back to Cash: the accounts are
  fetched by the codes of the entries alone, and Cash is not among them (unless a tax is booked
  to it). The posting is refused whatever else the chart holds.
\<close>

theorem no_fallback_to_cash:
  assumes "sale_debit_account pm settled = (c, label)" "c \<noteq> ''1000''"
    and "get_account_by_code bk tenant c = None"
    and "\<forall>t \<in> set ts. td_account_code t \<noteq> Some ''1000''"
  shows "post_sale_journal ids now day tenant sale_id num items tot x ts cashier pm store settled
      customer arid bk =
    Inl (ValueError [Txt (''Cannot book '' @ num @ '': account '' @ c @
      '' is missing from the chart of accounts'')])"
proof -
  let ?plan = "plan_sale_journal ids day tenant sale_id num items tot x ts pm store settled"
  define j es where "j = fst ?plan" and "es = tl (snd ?plan)"
  define e where "e = hd (snd ?plan)"
  have p: "?plan = (j, e # es)" and e: "je_account_code e = c"
    by (simp_all add: j_def e_def es_def plan_sale_journal_def Let_def assms(1) draft_entry_def)
  have es: "je_account_code ` set es \<subseteq> {''4000'', ''5000'', ''1200''} \<union>
      je_account_code ` set (tax_entries ids 5 tenant num ts (sale_tax_amount x ts))"
    by (auto simp: es_def plan_sale_journal_def Let_def assms(1) draft_entry_def)
  let ?T = "(\<lambda>t. str_or (td_account_code t) DEFAULT_TAX_ACCOUNT) ` set ts"
  have sub: "je_account_code ` set (e # es) \<subseteq> {c, ''4000'', ''5000'', ''1200'', ''2300''} \<union> ?T"
    using es tax_entry_codes[of ids 5 tenant num ts "sale_tax_amount x ts"] e by auto
  have "''1000'' \<notin> (\<lambda>t. str_or (td_account_code t) DEFAULT_TAX_ACCOUNT) ` set ts"
    using assms(4) by (auto simp: str_or_def DEFAULT_TAX_ACCOUNT_def split: option.splits if_splits)
  then have "''1000'' \<notin> je_account_code ` set (e # es)"
    using subsetD[OF sub, of "''1000''"] assms(2) by auto
  then have "map_of (code_to_account bk tenant (map je_account_code (e # es))) ''1000'' = None"
    by (simp add: map_of_code_to_account)
  moreover have "map_of (code_to_account bk tenant (map je_account_code (e # es))) c = None"
    by (simp add: map_of_code_to_account assms(3))
  ultimately have "resolve_entry num (code_to_account bk tenant (map je_account_code (e # es))) e =
      Inl (ValueError [Txt (''Cannot book '' @ num @ '': account '' @ c @
        '' is missing from the chart of accounts'')])"
    by (simp only: resolve_entry_def e Let_def option.case if_cancel)
  then show ?thesis by (simp only: post_sale_journal_def p prod.case resolve_first res_bind.simps)
qed

lemma no_fallback_to_cash_witness:
  "get_account_by_code sample_books ''t'' ''1000'' \<noteq> None \<and>
   post_sale_journal (\<lambda>n. ''id'') 0 ''20250101'' ''t'' ''s'' ''S-1'' [] (kob 100) (kob 0) [] None ''card''
     None True None ''ar'' sample_books =
   Inl (ValueError [Txt (''Cannot book '' @ ''S-1'' @ '': account '' @ ''1010'' @
      '' is missing from the chart of accounts'')])"
proof
  show "get_account_by_code sample_books ''t'' ''1000'' \<noteq> None"
    by (simp add: sample_books_def create_account_def sample_account_def get_account_by_code_def no_books_def)
qed (rule no_fallback_to_cash, simp_all add: sale_debit_account_def sample_books_def
    create_account_def sample_account_def get_account_by_code_def no_books_def)

section \<open>The order of a sale's events\<close>

definition revenue_of :: "books \<Rightarrow> rat" where
  "revenue_of bk = credited ''revenue'' ''4000'' (bk_entries bk)"

text \<open>
  The two events of one paid sale as the services emit them: \<open>total\<close> and \<open>amount\<close> are both the
  decimal text of \<open>T\<close> kobo.
\<close>

definition confirmed_env :: "uuid \<Rightarrow> timestamp \<Rightarrow> uuid \<Rightarrow> uuid \<Rightarrow> int \<Rightarrow> envelope" where
  "confirmed_env eid now tenant sale T =
     sale_confirmed_event eid now tenant sale ''S-1'' (PDec (of_int T / 100)) None"

definition paid_env :: "uuid \<Rightarrow> timestamp \<Rightarrow> uuid \<Rightarrow> uuid \<Rightarrow> uuid \<Rightarrow> int \<Rightarrow> envelope" where
  "paid_env eid now tenant payment sale T = payment_succeeded_event eid now tenant payment sale
     (PDec (of_int T / 100)) ''card'' None None None"

definition ready_books :: "uuid \<Rightarrow> uuid \<Rightarrow> uuid \<Rightarrow> (nat \<Rightarrow> uuid) \<Rightarrow> books \<Rightarrow> bool" where
  "ready_books tenant sale payment ids bk \<longleftrightarrow>
     (\<forall>c \<in> {''1000'', ''1100'', ''4000''}. get_account_by_code bk tenant c \<noteq> None) \<and>
     sale_journals bk tenant sale = [] \<and> \<not> payment_booked bk tenant payment \<and>
     \<not> debits_receivable bk tenant (ids 0)"

lemma get_account_codeD: "get_account_by_code bk tenant c = Some a \<Longrightarrow> coa_code a = c"
  by (auto simp: get_account_by_code_def find_Some_iff)

lemma env_fields [simp]:
  "jget (payload (confirmed_env e now tenant sale T)) ''sale_id'' = JStr sale"
  "jget (payload (confirmed_env e now tenant sale T)) ''total'' = JStrOf (PDec (of_int T / 100))"
  "jget (payload (paid_env e now tenant payment sale T)) ''payment_id'' = JStr payment"
  "jget (payload (paid_env e now tenant payment sale T)) ''sale_id'' = JStr sale"
  "jget (payload (paid_env e now tenant payment sale T)) ''amount'' = JStrOf (PDec (of_int T / 100))"
  "tenant \<noteq> [] \<Longrightarrow> payload_tenant (confirmed_env e now tenant sale T) = Some tenant"
  "payload_tenant (paid_env e now tenant payment sale T) = Some tenant"
  by (simp_all add: confirmed_env_def paid_env_def sale_confirmed_event_def payment_succeeded_event_def
      payload_tenant_def json_str_def)

lemma json_str_JStr [simp]: "s \<noteq> [] \<Longrightarrow> json_str (JStr s) = Some s"
  by (simp add: json_str_def)

definition sale_pair :: "(nat \<Rightarrow> uuid) \<Rightarrow> timestamp \<Rightarrow> uuid \<Rightarrow> uuid \<Rightarrow> chart_account \<Rightarrow> chart_account \<Rightarrow>
    rat \<Rightarrow> journal_entry list" where
  "sale_pair ids now tenant sale cash inc x =
     [posted_entry now (ids 1) (ids 0) tenant cash x 0 (''Sale '' @ sale @ '' - cash'') ''asset'' x,
      posted_entry now (ids 2) (ids 0) tenant inc 0 x (''Sale '' @ sale @ '' - revenue'') ''revenue'' x]"

definition payment_pair :: "(nat \<Rightarrow> uuid) \<Rightarrow> timestamp \<Rightarrow> uuid \<Rightarrow> uuid \<Rightarrow> chart_account \<Rightarrow> chart_account \<Rightarrow>
    rat \<Rightarrow> journal_entry list" where
  "payment_pair ids now tenant payment ar inc x =
     [posted_entry now (ids 1) (ids 0) tenant ar x 0 (''Payment '' @ payment @ '' - receivable'') ''asset'' x,
      posted_entry now (ids 2) (ids 0) tenant inc 0 x (''Payment '' @ payment @ '' - revenue'') ''revenue'' x]"

lemma handle_confirmed:
  assumes "get_account_by_code bk tenant ''1000'' = Some cash" "get_account_by_code bk tenant ''4000'' = Some inc"
    and "sale_journals bk tenant sale = []" "tenant \<noteq> []" "sale \<noteq> []"
  shows "acc_handle_sale_confirmed ids now day stores (confirmed_env e now tenant sale T) bk =
    Inr (add_posted now day (ids 0) tenant (''Sale '' @ sale) sale ''sale'' (stores tenant sale)
      (sale_pair ids now tenant sale cash inc (kob T)) bk)"
  using assms by (simp add: acc_handle_sale_confirmed_def sale_pair_def fl_cents)

lemma handle_paid:
  assumes "get_account_by_code bk tenant ''1100'' = Some ar" "get_account_by_code bk tenant ''4000'' = Some inc"
    and "\<not> payment_booked bk tenant payment" "tenant \<noteq> []" "sale \<noteq> []" "payment \<noteq> []"
  shows "acc_handle_payment_succeeded ids now day stores (paid_env e now tenant payment sale T) bk =
    (case settlement_of bk tenant (Some sale) of
       AlreadyPaid \<Rightarrow> Inr bk
     | NotBooked \<Rightarrow> Inr (add_posted now day (ids 0) tenant (''Payment '' @ payment) payment ''payment''
         (stores tenant sale) (payment_pair ids now tenant payment ar inc (kob T)) bk)
     | SettlesReceivable \<Rightarrow>
         acc_handle_payment_succeeded ids now day stores (paid_env e now tenant payment sale T) bk)"
  using assms by (simp add: acc_handle_payment_succeeded_def payment_pair_def fl_cents Let_def
      split: settlement.splits)

lemma add_posted_reads:
  "get_account_by_code (add_posted now day j tenant d r rt st es bk) t c = get_account_by_code bk t c"
  "sale_journals (add_posted now day j tenant d r rt st es bk) t s = sale_journals bk t s @
     (if tenant = t \<and> rt = ''sale'' \<and> r = s
      then [\<lparr>jn_id = j, jn_tenant_id = tenant, jn_number = journal_number day j,
          jn_description = [Txt d], jn_reference_id = Some r,
          jn_reference_type = Some rt, jn_status = ''posted'', jn_posted_by = None,
          jn_posted_at = Some now, jn_store_id = st\<rparr>] else [])"
  "payment_booked (add_posted now day j tenant d r rt st es bk) t p \<longleftrightarrow> payment_booked bk t p \<or>
     (tenant = t \<and> rt = ''payment'' \<and> r = p)"
  "debits_receivable (add_posted now day j tenant d r rt st es bk) t i \<longleftrightarrow> debits_receivable bk t i \<or>
     (\<exists>e \<in> set (map stored_entry es). je_tenant_id e = t \<and> je_journal_id e = i \<and>
        je_account_code e = ''1100'' \<and> 0 < je_debit e)"
  "bk_entries (add_posted now day j tenant d r rt st es bk) = bk_entries bk @ map stored_entry es"
  by (auto simp: add_posted_def get_account_by_code_def sale_journals_def payment_booked_def
      debits_receivable_def fold_create_entries create_journal_def bex_Un)

text \<open>
  C12: The order in which a paid sale's two events reach the accounting service decides whether
  its revenue is booked once or twice. Confirmed first, the payment finds the sale's journal and
  adds nothing; paid first, the payment books the revenue itself under its own reference, which
  the handler of the confirmation does not look for, and it is booked again.
\<close>

theorem event_order_decides_revenue:
  assumes "ready_books tenant sale payment ids bk"
    and "\<bar>T\<bar> \<le> 10 ^ 12" "tenant \<noteq> []" "sale \<noteq> []" "payment \<noteq> []"
    and "handle_sale = acc_handle_sale_confirmed ids now day sale_store (confirmed_env e1 now tenant sale T)"
    and "handle_payment = acc_handle_payment_succeeded ids' now day sale_store
      (paid_env e2 now tenant payment sale T)"
  shows "(\<exists>bk'. res_bind (handle_sale bk) handle_payment = Inr bk' \<and>
      revenue_of bk' = revenue_of bk + of_int T / 100) \<and>
    (\<exists>bk'. res_bind (handle_payment bk) handle_sale = Inr bk' \<and>
      revenue_of bk' = revenue_of bk + 2 * (of_int T / 100))"
proof -
  obtain cash ar inc where acc: "get_account_by_code bk tenant ''1000'' = Some cash"
    "get_account_by_code bk tenant ''1100'' = Some ar" "get_account_by_code bk tenant ''4000'' = Some inc"
    using assms(1) by (auto simp: ready_books_def)
  note codes = get_account_codeD[OF acc(1)] get_account_codeD[OF acc(2)] get_account_codeD[OF acc(3)]
  note names = assms(3-5)
  have fresh: "sale_journals bk tenant sale = []" "\<not> payment_booked bk tenant payment"
    "\<not> debits_receivable bk tenant (ids 0)"
    using assms(1) by (simp_all add: ready_books_def)
  have T: "stored_amount (kob T) = of_int T / 100" using assms(2) by (simp add: stored_kob)
  have s: "handle_sale b = Inr (add_posted now day (ids 0) tenant (''Sale '' @ sale) sale ''sale''
      (sale_store tenant sale) (sale_pair ids now tenant sale cash inc (kob T)) b)"
    if "get_account_by_code b tenant ''1000'' = Some cash" "get_account_by_code b tenant ''4000'' = Some inc"
      "sale_journals b tenant sale = []" for b
    unfolding assms(6) using that names(1,2) by (rule handle_confirmed)
  note p = handle_paid[where bk = b and ids = ids' and now = now and day = day and stores = sale_store
      and e = e2 and T = T and tenant = tenant and sale = sale and payment = payment for b,
      OF _ _ _ names, folded assms(7)]
  have "res_bind (handle_sale bk) handle_payment =
      Inr (add_posted now day (ids 0) tenant (''Sale '' @ sale) sale ''sale''
        (sale_store tenant sale) (sale_pair ids now tenant sale cash inc (kob T)) bk)"
    using acc fresh codes
    by (simp add: s p add_posted_reads settlement_of_def sale_pair_def posted_entry_def)
  moreover have "revenue_of (add_posted now day (ids 0) tenant (''Sale '' @ sale) sale ''sale''
        (sale_store tenant sale) (sale_pair ids now tenant sale cash inc (kob T)) b) =
      revenue_of b + of_int T / 100" for b
    using codes T by (simp add: revenue_of_def add_posted_reads sale_pair_def posted_entry_def)
  moreover have "res_bind (handle_payment bk) handle_sale =
      Inr (add_posted now day (ids 0) tenant (''Sale '' @ sale) sale ''sale''
        (sale_store tenant sale) (sale_pair ids now tenant sale cash inc (kob T))
        (add_posted now day (ids' 0) tenant (''Payment '' @ payment) payment ''payment''
         (sale_store tenant sale) (payment_pair ids' now tenant payment ar inc (kob T)) bk))"
    using acc fresh codes by (simp add: s p add_posted_reads settlement_of_def)
  moreover have "revenue_of (add_posted now day (ids' 0) tenant (''Payment '' @ payment) payment ''payment''
         (sale_store tenant sale) (payment_pair ids' now tenant payment ar inc (kob T)) bk) =
      revenue_of bk + of_int T / 100"
    using codes T by (simp add: revenue_of_def add_posted_reads payment_pair_def posted_entry_def)
  ultimately show ?thesis by simp
qed

definition event_books :: books where
  "event_books = create_account (sample_account ''A'' ''1000'' ''asset'')
     (create_account (sample_account ''R'' ''1100'' ''asset'')
       (create_account (sample_account ''S'' ''4000'' ''revenue'') no_books))"

lemma event_order_decides_revenue_witness:
  "let handle_sale = acc_handle_sale_confirmed (\<lambda>n. ''i'') 1 ''20250101'' (\<lambda>t s. None)
         (confirmed_env ''e'' 1 ''t'' ''s'' 5000);
       handle_payment = acc_handle_payment_succeeded (\<lambda>n. ''j'') 1 ''20250101'' (\<lambda>t s. None)
         (paid_env ''f'' 1 ''t'' ''p'' ''s'' 5000)
   in (\<exists>bk'. res_bind (handle_sale event_books) handle_payment = Inr bk' \<and> revenue_of bk' = 50) \<and>
      (\<exists>bk'. res_bind (handle_payment event_books) handle_sale = Inr bk' \<and> revenue_of bk' = 100)"
proof -
  have "ready_books ''t'' ''s'' ''p'' (\<lambda>n. ''i'') event_books" "revenue_of event_books = 0"
    by (simp_all add: ready_books_def event_books_def create_account_def sample_account_def no_books_def
        get_account_by_code_def sale_journals_def payment_booked_def debits_receivable_def revenue_of_def)
  then show ?thesis
    using event_order_decides_revenue[of "''t''" "''s''" "''p''" "\<lambda>n. ''i''" event_books 5000, OF _ _ _ _ _ refl refl]
    by (simp add: Let_def)
qed

section \<open>The balance sheet\<close>

definition dcents :: "journal_entry \<Rightarrow> int" where
  "dcents e = \<lfloor>je_debit e * 100\<rfloor>"

definition ccents :: "journal_entry \<Rightarrow> int" where
  "ccents e = \<lfloor>je_credit e * 100\<rfloor>"

text \<open>What an account has been debited less what it has been credited, in kobo.\<close>

definition net_cents :: "books \<Rightarrow> chart_account \<Rightarrow> int" where
  "net_cents bk a = (\<Sum>e\<leftarrow>bk_entries bk. if je_account_id e = coa_id a then dcents e - ccents e else 0)"

definition section_cents :: "books \<Rightarrow> uuid \<Rightarrow> string \<Rightarrow> int" where
  "section_cents bk tenant kind = (\<Sum>a\<leftarrow>bk_accounts bk.
     if coa_tenant_id a = tenant \<and> coa_account_type a = kind then net_cents bk a else 0)"

text \<open>
  Books whose sheet is meant to close: every line is posted and dated, hangs on one account of
  its own tenant's chart, a journal belongs to one tenant, the stored amounts are whole kobo, and
  the sizes are in range.
\<close>

definition sheet_ready :: "books \<Rightarrow> timestamp \<Rightarrow> bool" where
  "sheet_ready bk as_at \<longleftrightarrow>
     distinct (map coa_id (bk_accounts bk)) \<and>
     (\<forall>a \<in> set (bk_accounts bk). coa_account_type a \<in> set ACCOUNT_TYPES) \<and>
     (\<forall>e \<in> set (bk_entries bk). je_status e = ''posted'' \<and>
       (case je_posted_at e of None \<Rightarrow> True | Some t \<Rightarrow> t \<le> as_at) \<and>
       (\<exists>a \<in> set (bk_accounts bk). coa_id a = je_account_id e \<and> coa_tenant_id a = je_tenant_id e) \<and>
       je_debit e = of_int (dcents e) / 100 \<and> je_credit e = of_int (ccents e) / 100) \<and>
     (\<forall>e \<in> set (bk_entries bk). \<forall>f \<in> set (bk_entries bk).
       je_journal_id e = je_journal_id f \<longrightarrow> je_tenant_id e = je_tenant_id f) \<and>
     length (bk_accounts bk) \<le> 1000 \<and>
     (\<Sum>e\<leftarrow>bk_entries bk. \<bar>dcents e\<bar> + \<bar>ccents e\<bar>) \<le> 10 ^ 10"

lemma fold_total:
  fixes b t :: "'a \<Rightarrow> rat"
  assumes "\<forall>x \<in> set xs. \<bar>b x - t x\<bar> \<le> 1 / 1000000"
    and "\<bar>S\<bar> + (\<Sum>x\<leftarrow>xs. \<bar>t x\<bar>) \<le> 1000000000" "m + length xs \<le> 1000"
    and "\<bar>s - S\<bar> \<le> of_nat m * (1 / 500000)"
  shows "\<bar>fold (\<lambda>x tot. let y = b x in if y = 0 then tot else fadd tot y) xs s - (S + (\<Sum>x\<leftarrow>xs. t x))\<bar>
    \<le> of_nat (m + length xs) * (1 / 500000)"
  using assms
proof (induction xs arbitrary: S s m)
  case (Cons x xs)
  let ?s = "let y = b x in if y = 0 then s else fadd s y"
  have pos: "0 \<le> (\<Sum>x\<leftarrow>xs. \<bar>t x\<bar>)" by (rule sum_list_nonneg) auto
  have m: "of_nat m * (1 / 500000 :: rat) \<le> 1"
  proof -
    have "(of_nat m :: rat) \<le> 1000" using Cons.prems(3) by simp
    then show ?thesis by simp
  qed
  have bx: "\<bar>b x - t x\<bar> \<le> 1 / 1000000" using Cons.prems(1) by simp
  have St: "\<bar>S\<bar> + \<bar>t x\<bar> + (\<Sum>x\<leftarrow>xs. \<bar>t x\<bar>) \<le> 1000000000" using Cons.prems(2) by simp
  have step: "\<bar>?s - (S + t x)\<bar> \<le> of_nat (Suc m) * (1 / 500000)"
  proof (cases "b x = 0")
    case True
    then have "\<bar>s - (S + t x)\<bar> \<le> of_nat m * (1 / 500000) + 1 / 1000000"
      using Cons.prems(4) bx by linarith
    then show ?thesis using True by (simp add: distrib_right)
  next
    case False
    have "\<bar>s + b x\<bar> \<le> 2000000000" using Cons.prems(4) bx St pos m by linarith
    then have "\<bar>fadd s (b x) - (s + b x)\<bar> \<le> eps * 2000000000"
      unfolding fadd_def by (rule flt.r_err_le)
    then have "\<bar>fadd s (b x) - (s + b x)\<bar> \<le> 1 / 1000000" by simp
    then have "\<bar>fadd s (b x) - (S + t x)\<bar> \<le> of_nat m * (1 / 500000) + 1 / 500000"
      using Cons.prems(4) bx by linarith
    then show ?thesis using False by (simp add: distrib_right)
  qed
  have "\<bar>S + t x\<bar> + (\<Sum>x\<leftarrow>xs. \<bar>t x\<bar>) \<le> 1000000000" using St by linarith
  from Cons.IH[OF _ this _ step] Cons.prems(1,3) show ?case by (simp add: add.assoc)
qed simp

lemma sum_list_swap:
  fixes f :: "'a \<Rightarrow> 'b \<Rightarrow> 'c :: comm_monoid_add"
  shows "(\<Sum>x\<leftarrow>xs. \<Sum>y\<leftarrow>ys. f x y) = (\<Sum>y\<leftarrow>ys. \<Sum>x\<leftarrow>xs. f x y)"
proof (induction xs)
  case (Cons x xs)
  have "(\<Sum>y\<leftarrow>ys. f x y + g y) = (\<Sum>y\<leftarrow>ys. f x y) + (\<Sum>y\<leftarrow>ys. g y)" for g
    by (induction ys) (auto simp: add_ac)
  then show ?case by (simp add: Cons.IH)
qed simp

lemma sum_one_key:
  fixes v :: "'a :: comm_monoid_add"
  assumes "distinct (map k xs)"
  shows "(\<Sum>x\<leftarrow>xs. if k x = i \<and> P x then v else 0) = (if \<exists>x \<in> set xs. k x = i \<and> P x then v else 0)"
  using assms
proof (induction xs)
  case (Cons x xs)
  show ?case
  proof (cases "k x = i \<and> P x")
    case True
    then have "\<not> (\<exists>y \<in> set xs. k y = i \<and> P y)" using Cons.prems by (auto simp: rev_image_eqI)
    then have "(\<Sum>x\<leftarrow>xs. if k x = i \<and> P x then v else 0) = 0" using Cons by (simp only: if_False distinct.simps list.simps)
    then show ?thesis using True by auto
  next
    case False
    then show ?thesis using Cons by auto
  qed
qed simp

lemma sum_list_if_filter:
  fixes f :: "'a \<Rightarrow> 'b :: comm_monoid_add"
  shows "(\<Sum>x\<leftarrow>filter P xs. f x) = (\<Sum>x\<leftarrow>xs. if P x then f x else 0)"
  by (induction xs) auto

lemma sum_list_abs_mono:
  fixes f g :: "'a \<Rightarrow> int"
  assumes "\<forall>x \<in> set xs. f x \<le> g x"
  shows "(\<Sum>x\<leftarrow>xs. f x) \<le> (\<Sum>x\<leftarrow>xs. g x)"
  using assms by (induction xs) (auto intro: add_mono)


lemma sheet_readyD:
  assumes "sheet_ready bk as_at"
  shows "distinct (map coa_id (bk_accounts bk))"
    "\<forall>a \<in> set (bk_accounts bk). coa_account_type a \<in> set ACCOUNT_TYPES"
    "\<forall>e \<in> set (bk_entries bk). je_debit e = of_int (dcents e) / 100"
    "\<forall>e \<in> set (bk_entries bk). je_credit e = of_int (ccents e) / 100"
    "length (bk_accounts bk) \<le> 1000"
    "(\<Sum>e\<leftarrow>bk_entries bk. \<bar>dcents e\<bar> + \<bar>ccents e\<bar>) \<le> 10 ^ 10"
  using assms unfolding sheet_ready_def by blast+

lemma counted_all:
  assumes "sheet_ready bk as_at"
  shows "counted bk aid as_at None = filter (\<lambda>e. je_account_id e = aid) (bk_entries bk)"
  unfolding counted_def in_scope_def using assms
  by (intro filter_cong refl) (auto simp: sheet_ready_def)

lemma sum_cents:
  assumes "\<forall>e \<in> set es. f e = of_int (g e) / (100 :: rat)"
  shows "(\<Sum>e\<leftarrow>es. f e) = of_int (\<Sum>e\<leftarrow>es. g e) / 100"
  using assms by (induction es) (auto simp: add_divide_distrib)

lemma abs_sum_le:
  fixes f g :: "'a \<Rightarrow> int"
  assumes "\<forall>x. \<bar>f x\<bar> \<le> g x"
  shows "\<bar>\<Sum>x\<leftarrow>xs. f x\<bar> \<le> (\<Sum>x\<leftarrow>xs. g x)"
proof (induction xs)
  case (Cons x xs)
  then show ?case using assms[rule_format, of x] by simp
qed simp

lemma abs_sum_filter_le:
  fixes f g :: "'a \<Rightarrow> int"
  assumes "\<forall>x. \<bar>f x\<bar> \<le> g x"
  shows "\<bar>\<Sum>x\<leftarrow>filter P xs. f x\<bar> \<le> (\<Sum>x\<leftarrow>xs. g x)"
proof (induction xs)
  case (Cons x xs)
  have "\<bar>f x\<bar> \<le> g x" "0 \<le> g x" using assms abs_ge_zero order_trans by metis+
  then show ?case using Cons by auto
qed simp

definition side :: "string \<Rightarrow> int" where
  "side kind = (if kind = ''asset'' \<or> kind = ''expense'' then 1 else -1)"

lemma account_balance_err:
  assumes "sheet_ready bk as_at"
  shows "\<bar>get_account_balance bk (coa_id a) kind as_at None - of_int (side kind * net_cents bk a) / 100\<bar>
    \<le> 1 / 1000000"
proof -
  let ?es = "filter (\<lambda>e. je_account_id e = coa_id a) (bk_entries bk)"
  define D C where "D = (\<Sum>e\<leftarrow>?es. dcents e)" and "C = (\<Sum>e\<leftarrow>?es. ccents e)"
  note W = sheet_readyD(6)[OF assms]
  have "\<bar>D\<bar> \<le> (\<Sum>e\<leftarrow>bk_entries bk. \<bar>dcents e\<bar> + \<bar>ccents e\<bar>)"
    "\<bar>C\<bar> \<le> (\<Sum>e\<leftarrow>bk_entries bk. \<bar>dcents e\<bar> + \<bar>ccents e\<bar>)"
    unfolding D_def C_def by (rule abs_sum_filter_le; simp)+
  then have b: "\<bar>D\<bar> \<le> 10 ^ 11" "\<bar>C\<bar> \<le> 10 ^ 11" using W by simp_all
  have "(\<Sum>e\<leftarrow>?es. je_debit e) = of_int D / 100" "(\<Sum>e\<leftarrow>?es. je_credit e) = of_int C / 100"
    unfolding D_def C_def using sheet_readyD(3,4)[OF assms] by (intro sum_cents; simp)+
  then have bal: "get_account_balance bk (coa_id a) kind as_at None =
      (if kind = ''asset'' \<or> kind = ''expense'' then fsub (kob D) (kob C) else fsub (kob C) (kob D))"
    by (simp only: get_account_balance_def counted_all[OF assms] kob_def Let_def)
  have net: "net_cents bk a = D - C"
    unfolding net_cents_def D_def C_def
    by (simp add: sum_list_map_diff[symmetric] sum_list_if_filter)
      (intro arg_cong[where f = sum_list] map_cong refl, simp)
  show ?thesis
    using fsub_kob_err[OF b] fsub_kob_err[OF b(2,1)] by (simp add: bal net side_def)
qed

lemma nets_in_range:
  assumes "sheet_ready bk as_at"
  shows "(\<Sum>a\<leftarrow>bk_accounts bk. \<bar>net_cents bk a\<bar>) \<le> 10 ^ 10"
proof -
  let ?v = "\<lambda>e. \<bar>dcents e\<bar> + \<bar>ccents e\<bar>"
  have "\<bar>net_cents bk a\<bar> \<le> (\<Sum>e\<leftarrow>bk_entries bk. if coa_id a = je_account_id e \<and> True then ?v e else 0)" for a
    unfolding net_cents_def
    by (rule abs_sum_le) auto
  then have "(\<Sum>a\<leftarrow>bk_accounts bk. \<bar>net_cents bk a\<bar>) \<le>
      (\<Sum>a\<leftarrow>bk_accounts bk. \<Sum>e\<leftarrow>bk_entries bk. if coa_id a = je_account_id e \<and> True then ?v e else 0)"
    by (intro sum_list_abs_mono) simp
  also have "\<dots> = (\<Sum>e\<leftarrow>bk_entries bk. \<Sum>a\<leftarrow>bk_accounts bk.
      if coa_id a = je_account_id e \<and> True then ?v e else 0)"
    by (rule sum_list_swap)
  also have "\<dots> \<le> (\<Sum>e\<leftarrow>bk_entries bk. ?v e)"
    by (intro sum_list_abs_mono) (simp add: sum_one_key[OF sheet_readyD(1)[OF assms], of _ "\<lambda>_. True", simplified])
  also have "\<dots> \<le> 10 ^ 10" by (rule sheet_readyD(6)[OF assms])
  finally show ?thesis .
qed


lemma section_list:
  "(\<Sum>a\<leftarrow>filter (\<lambda>a. coa_account_type a = kind) (list_accounts bk tenant). net_cents bk a) =
     section_cents bk tenant kind"
  unfolding list_accounts_def section_cents_def sum_list_if_filter sum_list_sort_key
  by (intro arg_cong[where f = sum_list] map_cong refl) simp

lemma sheet_total_err:
  assumes "sheet_ready bk as_at"
  shows "\<bar>sheet_total bk tenant as_at None kind - of_int (side kind * section_cents bk tenant kind) / 100\<bar>
    \<le> 1 / 500"
proof -
  let ?as = "filter (\<lambda>a. coa_account_type a = kind) (list_accounts bk tenant)"
  let ?b = "\<lambda>a. get_account_balance bk (coa_id a) kind as_at None"
  let ?t = "\<lambda>a. of_int (side kind * net_cents bk a) / (100 :: rat)"
  have len: "length ?as \<le> 1000"
  proof -
    have "length ?as \<le> length (bk_accounts bk)"
      unfolding list_accounts_def by (metis length_filter_le length_sort order_trans)
    then show ?thesis using sheet_readyD(5)[OF assms] by simp
  qed
  have "(\<Sum>a\<leftarrow>?as. \<bar>?t a\<bar>) = of_int (\<Sum>a\<leftarrow>?as. \<bar>net_cents bk a\<bar>) / 100"
    by (rule sum_cents) (simp add: side_def)
  also have "(\<Sum>a\<leftarrow>?as. \<bar>net_cents bk a\<bar>) \<le> (\<Sum>a\<leftarrow>bk_accounts bk. \<bar>net_cents bk a\<bar>)"
    unfolding list_accounts_def sum_list_if_filter sum_list_sort_key
    by (intro sum_list_abs_mono) auto
  then have "of_int (\<Sum>a\<leftarrow>?as. \<bar>net_cents bk a\<bar>) / (100 :: rat) \<le> 100000000"
    using nets_in_range[OF assms] by simp
  finally have "\<bar>0\<bar> + (\<Sum>a\<leftarrow>?as. \<bar>?t a\<bar>) \<le> 1000000000" by simp
  from fold_total[of ?as ?b ?t, OF _ this, of 0 0] account_balance_err[OF assms] len
  have "\<bar>sheet_total bk tenant as_at None kind - (\<Sum>a\<leftarrow>?as. ?t a)\<bar> \<le> of_nat (length ?as) * (1 / 500000)"
    by (simp add: sheet_total_def)
  also have "\<dots> \<le> 1 / 500" using len by simp
  also have "(\<Sum>a\<leftarrow>?as. ?t a) = of_int (side kind * section_cents bk tenant kind) / 100"
    by (subst sum_cents[of ?as ?t "\<lambda>a. side kind * net_cents bk a"])
      (simp_all add: sum_list_const_mult section_list)
  finally show ?thesis .
qed

lemma sections_bound:
  assumes "sheet_ready bk as_at"
  shows "\<bar>section_cents bk tenant kind\<bar> \<le> 10 ^ 10"
proof -
  have "\<bar>section_cents bk tenant kind\<bar> \<le> (\<Sum>a\<leftarrow>bk_accounts bk. \<bar>net_cents bk a\<bar>)"
    unfolding section_cents_def by (rule abs_sum_le) simp
  then show ?thesis using nets_in_range[OF assms] by simp
qed

lemma sections_cancel:
  assumes "sheet_ready bk as_at" "balanced_books bk"
  shows "(\<Sum>kind\<leftarrow>ACCOUNT_TYPES. section_cents bk tenant kind) = 0"
proof -
  let ?v = "\<lambda>e. dcents e - ccents e" and ?own = "\<lambda>e. je_tenant_id e = tenant"
  have "(\<Sum>kind\<leftarrow>ACCOUNT_TYPES. section_cents bk tenant kind) =
      (\<Sum>a\<leftarrow>bk_accounts bk. \<Sum>kind\<leftarrow>ACCOUNT_TYPES.
        if coa_tenant_id a = tenant \<and> coa_account_type a = kind then net_cents bk a else 0)"
    unfolding section_cents_def by (rule sum_list_swap)
  also have "\<dots> = (\<Sum>a\<leftarrow>bk_accounts bk. if coa_tenant_id a = tenant then net_cents bk a else 0)"
    using sheet_readyD(2)[OF assms(1)]
    by (intro arg_cong[where f = sum_list] map_cong refl) (auto simp: ACCOUNT_TYPES_def)
  also have "\<dots> = (\<Sum>a\<leftarrow>bk_accounts bk. \<Sum>e\<leftarrow>bk_entries bk.
      if coa_id a = je_account_id e \<and> coa_tenant_id a = tenant then ?v e else 0)"
    unfolding net_cents_def
    by (intro arg_cong[where f = sum_list] map_cong refl) (auto simp: eq_commute)
  also have "\<dots> = (\<Sum>e\<leftarrow>bk_entries bk. \<Sum>a\<leftarrow>bk_accounts bk.
      if coa_id a = je_account_id e \<and> coa_tenant_id a = tenant then ?v e else 0)"
    by (rule sum_list_swap)
  also have "\<dots> = (\<Sum>e\<leftarrow>bk_entries bk. if ?own e then ?v e else 0)"
  proof (intro arg_cong[where f = sum_list] map_cong refl)
    fix e assume "e \<in> set (bk_entries bk)"
    then obtain a where a: "a \<in> set (bk_accounts bk)" "coa_id a = je_account_id e"
      "coa_tenant_id a = je_tenant_id e"
      using assms(1) unfolding sheet_ready_def by blast
    have "(\<exists>b \<in> set (bk_accounts bk). coa_id b = je_account_id e \<and> coa_tenant_id b = tenant) \<longleftrightarrow> ?own e"
      using a sheet_readyD(1)[OF assms(1)] by (metis distinct_map inj_on_def)
    then show "(\<Sum>a\<leftarrow>bk_accounts bk. if coa_id a = je_account_id e \<and> coa_tenant_id a = tenant
        then ?v e else 0) = (if ?own e then ?v e else 0)"
      by (simp only: sum_one_key[OF sheet_readyD(1)[OF assms(1)]])
  qed
  finally have sum: "(\<Sum>kind\<leftarrow>ACCOUNT_TYPES. section_cents bk tenant kind) =
      (\<Sum>e\<leftarrow>filter ?own (bk_entries bk). ?v e)" by (simp add: sum_list_if_filter)
  have "imbalance (filter (\<lambda>e. je_journal_id e = j) (filter ?own (bk_entries bk))) = 0" for j
  proof (cases "\<exists>e \<in> set (bk_entries bk). je_journal_id e = j \<and> ?own e")
    case True
    then have "\<forall>e \<in> set (bk_entries bk). je_journal_id e = j \<longrightarrow> ?own e"
      using assms(1) unfolding sheet_ready_def by metis
    then have "filter (\<lambda>e. je_journal_id e = j) (filter ?own (bk_entries bk)) = get_journal_entries bk j"
      unfolding get_journal_entries_def filter_filter by (intro filter_cong) auto
    then show ?thesis using assms(2) by (simp add: balanced_books_def)
  next
    case False
    then have "filter (\<lambda>e. je_journal_id e = j) (filter ?own (bk_entries bk)) = []"
      by (auto simp: filter_empty_conv)
    then show ?thesis by simp
  qed
  then have "imbalance (filter ?own (bk_entries bk)) = 0"
    using imbalance_by_journal[of "filter ?own (bk_entries bk)"] by simp
  moreover have "imbalance (filter ?own (bk_entries bk)) = of_int (\<Sum>e\<leftarrow>filter ?own (bk_entries bk). ?v e) / 100"
    unfolding imbalance_def
    by (rule sum_cents) (use sheet_readyD(3,4)[OF assms(1)] in \<open>force simp add: diff_divide_distrib\<close>)
  ultimately show ?thesis using sum by simp
qed


lemma round2_total:
  assumes "sheet_ready bk as_at"
  shows "round2 (sheet_total bk tenant as_at None kind) = kob (side kind * section_cents bk tenant kind)"
proof -
  define k where "k = side kind * section_cents bk tenant kind"
  have "\<bar>sheet_total bk tenant as_at None kind - of_int k / 100\<bar> < 1 / 200"
    using sheet_total_err[OF assms, of tenant kind, folded k_def] by linarith
  then show ?thesis unfolding k_def by (rule round2_near)
qed

text \<open>
  C2: The balance sheet closes. For balanced books in range the check it reports is exactly zero,
  its assets, liabilities, capital and earnings are exactly the kobo posted to the accounts of
  each type (over at most 1000 accounts, although balances are added up as floats), and assets
  are liabilities plus equity.
\<close>

theorem balance_sheet_closes:
  assumes "sheet_ready bk as_at" "balanced_books bk"
    and "sheet = get_balance_sheet bk tenant as_at None"
  shows "bs_balance_check sheet = 0 \<and>
    bs_assets sheet = kob (section_cents bk tenant ''asset'') \<and>
    bs_liabilities sheet = kob (- section_cents bk tenant ''liability'') \<and>
    bs_capital sheet = kob (- section_cents bk tenant ''equity'') \<and>
    bs_current_earnings sheet =
      kob (- section_cents bk tenant ''revenue'' - section_cents bk tenant ''expense'') \<and>
    bs_assets sheet = round2 (fadd (bs_liabilities sheet) (bs_equity sheet))"
proof -
  define A L E R X where "A = section_cents bk tenant ''asset''" and "L = - section_cents bk tenant ''liability''"
    and "E = - section_cents bk tenant ''equity''" and "R = - section_cents bk tenant ''revenue''"
    and "X = section_cents bk tenant ''expense''"
  note defs = A_def L_def E_def R_def X_def
  have bounds: "\<bar>A\<bar> \<le> 10 ^ 10" "\<bar>L\<bar> \<le> 10 ^ 10" "\<bar>E\<bar> \<le> 10 ^ 10" "\<bar>R\<bar> \<le> 10 ^ 10" "\<bar>X\<bar> \<le> 10 ^ 10"
    using sections_bound[OF assms(1), of tenant] by (simp_all add: defs)
  have zero: "A = L + (E + (R - X))"
    using sections_cancel[OF assms(1,2), of tenant] by (simp add: ACCOUNT_TYPES_def defs)
  have r: "round2 (sheet_total bk tenant as_at None ''asset'') = kob A"
    "round2 (sheet_total bk tenant as_at None ''liability'') = kob L"
    "round2 (sheet_total bk tenant as_at None ''equity'') = kob E"
    by (simp_all add: round2_total[OF assms(1)] side_def defs)
  have e: "\<bar>sheet_total bk tenant as_at None ''revenue'' - of_int R / 100\<bar> \<le> 1 / 500"
    "\<bar>sheet_total bk tenant as_at None ''expense'' - of_int X / 100\<bar> \<le> 1 / 500"
    using sheet_total_err[OF assms(1), of tenant "''revenue''"]
      sheet_total_err[OF assms(1), of tenant "''expense''"] by (simp_all add: side_def defs)
  have earn: "round2 (fsub (sheet_total bk tenant as_at None ''revenue'')
      (sheet_total bk tenant as_at None ''expense'')) = kob (R - X)"
  proof (rule round2_near)
    let ?r = "sheet_total bk tenant as_at None ''revenue''" and ?x = "sheet_total bk tenant as_at None ''expense''"
    have "\<bar>of_int R / 100 :: rat\<bar> \<le> 100000000" "\<bar>of_int X / 100 :: rat\<bar> \<le> 100000000"
      using of_int_abs_bound[OF bounds(4)] of_int_abs_bound[OF bounds(5)] by simp_all
    then have "\<bar>?r\<bar> \<le> 100000001" "\<bar>?x\<bar> \<le> 100000001" using e by linarith+
    then have "\<bar>?r - ?x\<bar> \<le> 200000002" by linarith
    then have "\<bar>fsub ?r ?x - (?r - ?x)\<bar> \<le> eps * 200000002" unfolding fsub_def by (rule flt.r_err_le)
    then have "\<bar>fsub ?r ?x - (?r - ?x)\<bar> \<le> 1 / 10000" by simp
    then show "\<bar>fsub ?r ?x - of_int (R - X) / 100\<bar> < 1 / 200"
      using e unfolding of_int_diff diff_divide_distrib by linarith
  qed
  have eq: "round2 (fadd (kob E) (kob (R - X))) = kob (E + (R - X))"
    using bounds by (intro round2_fadd_kob) auto
  have total: "round2 (fadd (kob L) (kob (E + (R - X)))) = kob A"
    unfolding zero using bounds by (intro round2_fadd_kob) auto
  have check: "round2 (fsub (fsub (kob A) (kob L)) (kob (E + (R - X)))) = 0"
  proof -
    define Q where "Q = E + (R - X)"
    have Q: "\<bar>Q\<bar> \<le> 10 ^ 11" "A - L = Q" using zero bounds by (auto simp: Q_def)
    have 1: "\<bar>fsub (kob A) (kob L) - of_int Q / 100\<bar> \<le> 1 / 1000000"
      using fsub_kob_err[of A L] bounds(1,2) Q(2) by simp
    have 2: "\<bar>kob Q - of_int Q / 100\<bar> \<le> 1 / 1000000" using Q(1) by (rule kob_err_small)
    have "\<bar>fsub (kob A) (kob L) - kob Q\<bar> \<le> 1 / 1000" using 1 2 by linarith
    then have "\<bar>fsub (fsub (kob A) (kob L)) (kob Q)\<bar> \<le> 2 * (1 / 1000)"
      unfolding fsub_def by (rule flt.r_abs_le2)
    then have "round2 (fsub (fsub (kob A) (kob L)) (kob Q)) = kob 0" by (intro round2_near) simp
    then show ?thesis by (simp add: Q_def)
  qed
  show ?thesis
    unfolding assms(3) get_balance_sheet_def Let_def
    by (simp add: r earn eq total check defs[symmetric])
qed

definition sheet_books :: books where
  "sheet_books = event_books\<lparr>bk_entries :=
     [posted_entry 1 ''d'' ''j'' ''t'' (sample_account ''A'' ''1000'' ''asset'') 50 0 [] ''asset'' 50,
      posted_entry 1 ''c'' ''j'' ''t'' (sample_account ''S'' ''4000'' ''revenue'') 0 50 [] ''revenue'' 50]\<rparr>"

lemma sheet_books_ok: "sheet_ready sheet_books 1" "balanced_books sheet_books"
  by (simp_all add: sheet_ready_def balanced_books_def get_journal_entries_def sheet_books_def
      event_books_def create_account_def no_books_def sample_account_def posted_entry_def
      ACCOUNT_TYPES_def dcents_def ccents_def)

lemma balance_sheet_closes_witness:
  "let sheet = get_balance_sheet sheet_books ''t'' 1 None in
     bs_balance_check sheet = 0 \<and> bs_assets sheet = kob 5000 \<and> bs_current_earnings sheet = kob 5000"
proof -
  have "section_cents sheet_books ''t'' ''asset'' = 5000" "section_cents sheet_books ''t'' ''revenue'' = - 5000"
    "section_cents sheet_books ''t'' ''expense'' = 0"
    by (simp_all add: section_cents_def net_cents_def sheet_books_def event_books_def create_account_def
        no_books_def sample_account_def posted_entry_def dcents_def ccents_def)
  then show ?thesis
    using balance_sheet_closes[OF sheet_books_ok refl, of "''t''"] by (simp add: Let_def)
qed

end
