(* ===== verification/PaymentFlows.thy ===== *)
theory PaymentFlows
  imports Payments LedgerFlows
begin

text \<open>
  Properties of the payment operations: what a payment adds, when it completes a sale, why an
  unpaid sale on the books cannot be paid, the even split, the settlement of fees.
\<close>

section \<open>Unpaid sales on the books\<close>

lemma fold_create_receivables:
  "bk_receivables (fold (\<lambda>e. create_journal_entry (f e)) es bk) = bk_receivables bk"
  by (induction es arbitrary: bk) (simp_all add: create_journal_entry_def)

lemma write_posted_receivables:
  "write_posted now pat by j es bk = Inr bk' \<Longrightarrow> bk_receivables bk' = bk_receivables bk"
  by (auto simp: write_posted_def post_journal_def fold_create_receivables create_journal_def
      split: if_splits)

lemma resolve_entries_keep_code:
  assumes "resolve_entries bk tenant num (e # es) = Inr es'"
    and "get_account_by_code bk tenant (je_account_code e) \<noteq> None"
  shows "\<exists>e' \<in> set es'. je_account_code e' = je_account_code e"
proof -
  let ?m = "code_to_account bk tenant (map je_account_code (e # es))"
  obtain a where a: "map_of ?m (je_account_code e) = Some a"
    using assms(2) map_of_code_to_account[of bk tenant "map je_account_code (e # es)" "je_account_code e"]
    by auto
  from assms(1) obtain out where
    "res_fold (\<lambda>e ds. res_bind (resolve_entry num ?m e) (\<lambda>e'. Inr (ds @ [e']))) (e # es) [] = Inr out"
    "es' = out" by (auto simp: resolve_entries_def res_bind_eq_Inr)
  from resolve_fold[OF this(1)] obtain e' fs where
    "es' = e' # fs" "resolve_entry num ?m e = Inr e'"
    using \<open>es' = out\<close> by (auto simp: list_all2_Cons1)
  moreover from this(2) a have "je_account_code e' = je_account_code e"
    by (auto simp: resolve_entry_def Let_def)
  ultimately show ?thesis by auto
qed

lemma unsettled_receivable:
  assumes "post_sale_journal ids now day tenant sale_id num items (kob T) (kob X) ts cashier pm store
      False customer arid bk = Inr bk'"
    and "get_account_by_code bk tenant ''1100'' \<noteq> None"
    and "0 < T" "T \<le> 10 ^ 12"
  shows "\<exists>ar. bk_receivables bk' = bk_receivables bk @ [ar] \<and> ar_tenant_id ar = tenant \<and>
    ar_invoice_id ar = Some sale_id \<and> ar_status ar = ''pending'' \<and>
    ar_balance ar = PDec (of_int T / 100)"
proof -
  let ?plan = "plan_sale_journal ids day tenant sale_id num items (kob T) (kob X) ts pm store False"
  define j es e where "j = fst ?plan" and "es = tl (snd ?plan)" and "e = hd (snd ?plan)"
  have p: "?plan = (j, e # es)" and e: "je_account_code e = ''1100''"
    by (simp_all add: j_def e_def es_def plan_sale_journal_def Let_def sale_debit_account_def draft_entry_def)
  obtain es' bk1 where r: "resolve_entries bk tenant num (e # es) = Inr es'"
    and w: "write_posted now (Some now) cashier j es' bk = Inr bk1"
    and b: "(if \<not> False \<and> (\<exists>x \<in> set es'. je_account_code x = ''1100'')
      then Inr (bk1\<lparr>bk_receivables := bk_receivables bk1 @
       [stored_receivable \<lparr>ar_id = arid, ar_tenant_id = tenant, ar_invoice_id = Some sale_id,
          ar_customer_id = None, ar_customer_name = str_or customer ''Walk-in'',
          ar_invoice_number = num, ar_amount = PFlt (kob T), ar_amount_paid = PInt 0,
          ar_balance = PFlt (kob T), ar_due_date = now, ar_status = ''pending'',
          ar_store_id = store\<rparr>]\<rparr>) else Inr bk1) = (Inr bk' :: exn + books)"
    using assms(1) unfolding post_sale_journal_def p prod.case res_bind_eq_Inr by (elim exE conjE that)
  have "\<exists>x \<in> set es'. je_account_code x = ''1100''"
    using resolve_entries_keep_code[OF r] e assms(2) by simp
  then show ?thesis
    using b assms(3,4) by (auto simp: write_posted_receivables[OF w] stored_receivable_def stored_num_def
        column_value_kob)
qed

lemma till_books [simp]:
  "tb_books (create_payment p t) = tb_books t" "tb_books (put_sale s t) = tb_books t"
  "tb_books (emit ws t) = tb_books t" "tb_books (book_fee e t) = tb_books t"
  "tb_sales (create_payment p t) = tb_sales t" "tb_sales (emit ws t) = tb_sales t"
  "tb_sales (book_fee e t) = tb_sales t" "tb_fees (create_payment p t) = tb_fees t"
  "tb_fees (put_sale s t) = tb_fees t" "tb_fees (emit ws t) = tb_fees t"
  "tb_payments (put_sale s t) = tb_payments t" "tb_payments (emit ws t) = tb_payments t"
  "tb_payments (book_fee e t) = tb_payments t" "tb_outbox (create_payment p t) = tb_outbox t"
  "tb_outbox (put_sale s t) = tb_outbox t" "tb_outbox (book_fee e t) = tb_outbox t"
  by (simp_all add: create_payment_def put_sale_def emit_def book_fee_def)

lemma paid_sale [simp]:
  "so_id (pay_sale a s) = so_id s" "so_number (pay_sale a s) = so_number s"
  "so_total (pay_sale a s) = so_total s"
  "so_amount_paid (pay_sale a s) = PFlt (fadd (py_float (so_amount_paid s)) a)"
  "so_status (pay_sale a s) =
     paid_status (PFlt (fadd (py_float (so_amount_paid s)) a)) (py_float (so_total s)) (so_status s)"
  by (simp_all add: pay_sale_def Let_def)

lemma noted_sale [simp]:
  "so_id (note_fee f a r s) = so_id s" "so_number (note_fee f a r s) = so_number s"
  "so_total (note_fee f a r s) = so_total s" "so_status (note_fee f a r s) = so_status s"
  "so_amount_paid (note_fee f a r s) = so_amount_paid s"
  by (simp_all add: note_fee_def)

lemma settle_needs_account:
  assumes "open_receivable (tb_books t) tenant s' = Some ar" "so_id s = so_id s'" "so_number s = so_number s'"
    and "0 < amount" "0 < dec_of_str (ar_balance ar)"
  shows "settle_sale_receivable tenant s amount t = Inl (NameError ''get_account_by_code'')"
proof -
  have "open_receivable (tb_books t) tenant s = Some ar"
    using assms(1-3) by (simp add: open_receivable_def)
  then show ?thesis using assms(4,5) by (simp add: settle_sale_receivable_def min_def)
qed

text \<open>C19: An unpaid sale on the books cannot be paid. When the sale's journal was posted as not
  settled, which opened a receivable over its total, and no other receivable of the sale is open,
  recording a payment of any positive amount by any method raises \<open>NameError\<close> for
  \<open>get_account_by_code\<close>, so the payment is not recorded.\<close>

theorem unsettled_sale_cannot_be_paid:
  assumes "post_sale_journal ids now day tenant sale_id num items (kob T) (kob X) ts cashier pm store
      False customer arid bk = Inr bk'"
    and "get_account_by_code bk tenant ''1100'' \<noteq> None" "0 < T" "T \<le> 10 ^ 12"
    and "get_sale_by_id (tb_sales t) sale_id = Some s" "tb_books t = bk'"
    and "open_receivable bk tenant s = None" "0 < amount"
  shows "record_payment pids pnow tenant sale_id method amount reference t =
    Inl (NameError ''get_account_by_code'')"
proof -
  have id: "so_id s = sale_id" using assms(5) by (auto simp: get_sale_by_id_def find_Some_iff)
  obtain ar where ar: "bk_receivables bk' = bk_receivables bk @ [ar]" "ar_tenant_id ar = tenant"
    "ar_invoice_id ar = Some sale_id" "ar_status ar = ''pending''" "ar_balance ar = PDec (of_int T / 100)"
    using unsettled_receivable[OF assms(1-4)] by blast
  have "open_receivable bk' tenant s = Some ar"
    using assms(7) ar id by (simp add: open_receivable_def find_append)
  note opened = this
  have settle: "settle_sale_receivable tenant s' amount t' = Inl (NameError ''get_account_by_code'')"
    if "tb_books t' = bk'" "so_id s' = so_id s" "so_number s' = so_number s" for s' t'
    using settle_needs_account[of t' tenant s ar s' amount] opened that ar(5) assms(3,8) by simp
  show ?thesis
    by (simp add: record_payment_def Let_def assms(5,6) res_bind_eq_Inl settle)
qed

definition unpaid_sale :: "int \<Rightarrow> sale" where
  "unpaid_sale T = \<lparr>so_id = ''s'', so_tenant_id = ''t'', so_number = ''S-1'', so_status = ''pending'',
     so_customer_name = None, so_customer_phone = None, so_store_id = ''st'', so_cashier_id = None,
     so_subtotal = PDec (of_int T / 100), so_discount = PDec 0, so_tax = PDec 0,
     so_tax_breakdown = None, so_total = PDec (of_int T / 100), so_amount_paid = PDec 0,
     so_payment_methods = None, so_notes = None, so_void_reason = None, so_voided_by = None,
     so_voided_at = None, so_created_at = 0\<rparr>"

definition till_of :: "books \<Rightarrow> fee_db \<Rightarrow> sale \<Rightarrow> till" where
  "till_of bk fees s = \<lparr>tb_sales = no_sales\<lparr>db_sales := [s]\<rparr>, tb_fees = fees, tb_payments = [],
     tb_intents = [], tb_subaccounts = [], tb_dvas = [], tb_books = bk, tb_outbox = []\<rparr>"

definition credit_books :: books where
  "credit_books = create_account (sample_account ''A'' ''1100'' ''asset'')
     (create_account (sample_account ''B'' ''4000'' ''revenue'') no_books)"

lemma credit_sale_posted:
  "\<exists>bk'. post_sale_journal (\<lambda>n. ''id'') 0 ''20250101'' ''t'' ''s'' ''S-1'' [] (kob 8000) (kob 0) [] None ''cash''
     None False None ''ar'' credit_books = Inr bk'"
  by (simp add: post_sale_journal_def plan_sale_journal_def sale_debit_account_def Let_def
      draft_entry_def sale_tax_amount_def tax_entries_def total_cost_def py_fsum_def resolve_entries_def
      resolve_entry_def code_to_account_def credit_books_def create_account_def sample_account_def no_books_def
      write_posted_def post_journal_def draft_journal_def create_journal_def create_journal_entry_def)

theorem unsettled_sale_cannot_be_paid_witness:
  "\<exists>t. get_sale_by_id (tb_sales t) ''s'' = Some (unpaid_sale 8000) \<and>
    record_payment (\<lambda>n. ''id'') 1 ''t'' ''s'' ''cash'' 80 None t = Inl (NameError ''get_account_by_code'')"
proof -
  obtain bk' where bk': "post_sale_journal (\<lambda>n. ''id'') 0 ''20250101'' ''t'' ''s'' ''S-1'' [] (kob 8000) (kob 0) [] None
     ''cash'' None False None ''ar'' credit_books = Inr bk'" using credit_sale_posted by blast
  let ?t = "till_of bk' \<lparr>fd_rules = [], fd_ledger = []\<rparr> (unpaid_sale 8000)"
  have "get_sale_by_id (tb_sales ?t) ''s'' = Some (unpaid_sale 8000)"
    by (simp add: till_of_def get_sale_by_id_def unpaid_sale_def)
  moreover have "record_payment (\<lambda>n. ''id'') 1 ''t'' ''s'' ''cash'' 80 None ?t =
      Inl (NameError ''get_account_by_code'')"
    by (rule unsettled_sale_cannot_be_paid[OF bk' _ _ _ calculation])
      (simp_all add: till_of_def credit_books_def create_account_def get_account_by_code_def
        sample_account_def no_books_def open_receivable_def)
  ultimately show ?thesis by blast
qed

section \<open>What a payment adds\<close>

lemma get_put_sale:
  "get_sale_by_id (tb_sales t) (so_id s) \<noteq> None \<Longrightarrow>
     get_sale_by_id (tb_sales (put_sale s t)) (so_id s) = Some (stored_sale s)"
proof -
  have "List.find (\<lambda>x. so_id x = so_id s) xs \<noteq> None \<Longrightarrow>
      List.find (\<lambda>x. so_id x = so_id s) (map (\<lambda>x. if so_id x = so_id s then stored_sale s else x) xs) =
        Some (stored_sale s)" for xs
    by (induction xs) (auto simp: stored_sale_def)
  then show "get_sale_by_id (tb_sales t) (so_id s) \<noteq> None \<Longrightarrow>
     get_sale_by_id (tb_sales (put_sale s t)) (so_id s) = Some (stored_sale s)"
    by (simp add: get_sale_by_id_def put_sale_def)
qed

text \<open>What recording a payment does when no receivable of the sale is open.\<close>

lemma record_payment_effect:
  assumes "get_sale_by_id (tb_sales t) sale_id = Some s" "open_receivable (tb_books t) tenant s = None"
  shows "\<exists>ans t'. record_payment ids now tenant sale_id method amount reference t = Inr (ans, t')
    \<and> pa_sale_status ans = so_status (pay_sale (fl amount) s)
    \<and> map_option (\<lambda>x. (so_status x, so_amount_paid x, so_total x)) (get_sale_by_id (tb_sales t') sale_id) =
        Some (so_status (pay_sale (fl amount) s),
          column_num (PFlt (fadd (py_float (so_amount_paid s)) (fl amount))), column_num (so_total s))
    \<and> tb_payments t' = tb_payments t @ [(new_payment (ids 0) now tenant sale_id method (fl amount) reference)
        \<lparr>py_amount := column_num (PFlt (fl amount))\<rparr>]"
proof -
  have id: "so_id s = sale_id" using assms(1) by (auto simp: get_sale_by_id_def find_Some_iff)
  have settle: "settle_sale_receivable tenant s' a t' = Inr t'"
    if "tb_books t' = tb_books t" "so_id s' = so_id s" "so_number s' = so_number s" for s' a t'
    using assms(2) that by (simp add: settle_sale_receivable_def open_receivable_def)
  have put: "get_sale_by_id (tb_sales (put_sale s' t')) sale_id = Some (stored_sale s')"
    if "so_id s' = so_id s" "tb_sales t' = tb_sales t" for s' t'
    using get_put_sale[of t' s'] that assms(1) id by simp
  show ?thesis
    by (auto simp: record_payment_def Let_def assms(1) settle put stored_sale_def create_payment_def
        new_payment_def simp del: till_books(5))
qed

lemma column_num_cents: "column_num (PDec (of_int k / 100)) = PDec (of_int k / 100)"
  by (simp add: column_num_def column_value_def)

lemma kob_near: "0 \<le> k \<Longrightarrow> k \<le> 10 ^ 11 \<Longrightarrow> \<bar>kob k - of_int k / 100\<bar> \<le> 1 / 10000"
  using kob_err_le(1)[of k "10 ^ 11"] by simp

lemma fadd_compare:
  assumes "0 \<le> P" "0 \<le> A" "P + A \<le> 10 ^ 11" "0 \<le> T" "T \<le> 10 ^ 11"
  shows "P + A < T \<Longrightarrow> fadd (kob P) (kob A) < kob T"
    "T < P + A \<Longrightarrow> kob T < fadd (kob P) (kob A)"
proof -
  have f: "\<bar>fadd (kob P) (kob A) - of_int (P + A) / 100\<bar> \<le> 1 / 10000"
    using fadd_cents[of P A] assms by simp
  note k = kob_near[OF assms(4,5)]
  show "fadd (kob P) (kob A) < kob T" if "P + A < T"
  proof -
    have "of_int (P + A) + 1 \<le> (of_int T :: rat)" using that by (simp flip: of_int_add) 
    then show ?thesis using f k unfolding add_divide_distrib of_int_add by linarith
  qed
  show "kob T < fadd (kob P) (kob A)" if "T < P + A"
  proof -
    have "of_int T + 1 \<le> (of_int (P + A) :: rat)" using that by linarith
    then show ?thesis using f k unfolding add_divide_distrib of_int_add by linarith
  qed
qed

lemma payment_added:
  assumes "get_sale_by_id (tb_sales t) sale_id = Some s" "open_receivable (tb_books t) tenant s = None"
    and "so_total s = PDec (of_int T / 100)" "so_amount_paid s = PDec (of_int P / 100)"
    and "0 \<le> P" "0 < A" "P + A \<le> 10 ^ 11" "0 \<le> T" "T \<le> 10 ^ 11"
  shows "\<exists>ans t' st. record_payment ids now tenant sale_id method (of_int A / 100) reference t = Inr (ans, t')
    \<and> map_option (\<lambda>x. (so_status x, so_amount_paid x, so_total x)) (get_sale_by_id (tb_sales t') sale_id) =
        Some (st, PDec (of_int (P + A) / 100), so_total s)
    \<and> map py_amount (tb_payments t') = map py_amount (tb_payments t) @ [PDec (of_int A / 100)]
    \<and> st = (if P + A < T then ''partial'' else if T < P + A then ''completed''
        else if kob T \<le> fadd (kob P) (kob A) then ''completed'' else ''partial'')"
proof -
  have f: "\<bar>fadd (kob P) (kob A) - of_int (P + A) / 100\<bar> \<le> 1 / 10000"
    using fadd_cents[of P A] assms by simp
  have "1 \<le> (of_int (P + A) :: rat)" using assms(5,6) by (simp flip: of_int_add)
  then have pos: "0 < fadd (kob P) (kob A)" using f unfolding add_divide_distrib of_int_add by linarith
  have col: "column_num (PFlt (fadd (kob P) (kob A))) = PDec (of_int (P + A) / 100)"
    unfolding column_num_def using column_value_near[OF f] assms by simp
  have colA: "column_num (PFlt (kob A)) = PDec (of_int A / 100)"
    unfolding column_num_def using column_value_kob[of A] assms by simp
  have flk: "fl (of_int k / 100) = kob k" for k by (simp add: kob_def)
  have st: "so_status (pay_sale (kob A) s) = (if P + A < T then ''partial'' else if T < P + A then ''completed''
        else if kob T \<le> fadd (kob P) (kob A) then ''completed'' else ''partial'')"
  proof -
    consider "P + A < T" | "T < P + A" | "P + A = T" by linarith
    then show ?thesis
    proof cases
      case 1
      then have "fadd (kob P) (kob A) < kob T" using fadd_compare(1) assms(5-9) by simp
      then show ?thesis using 1 pos by (simp add: assms(3,4) flk paid_status_def)
    next
      case 2
      then have "kob T < fadd (kob P) (kob A)" using fadd_compare(2) assms(5-9) by simp
      then show ?thesis using 2 by (simp add: assms(3,4) flk paid_status_def)
    next
      case 3
      then show ?thesis using pos by (simp add: assms(3,4) flk paid_status_def)
    qed
  qed
  obtain ans t' where r: "record_payment ids now tenant sale_id method (of_int A / 100) reference t = Inr (ans, t')"
    "map_option (\<lambda>x. (so_status x, so_amount_paid x, so_total x)) (get_sale_by_id (tb_sales t') sale_id) =
        Some (so_status (pay_sale (kob A) s), PDec (of_int (P + A) / 100), so_total s)"
    "tb_payments t' = tb_payments t @ [(new_payment (ids 0) now tenant sale_id method (kob A) reference)
        \<lparr>py_amount := PDec (of_int A / 100)\<rparr>]"
    using record_payment_effect[OF assms(1,2), of ids now "method" "of_int A / 100" reference]
    by (auto simp: flk assms(3,4) col colA column_num_cents)
  then show ?thesis using st by auto
qed
text \<open>C20: A payment is added to the kobo. For a sale on which no receivable is open, recording a
  positive whole amount succeeds; the stored amount paid is the exact sum, the payment is stored
  with its exact amount, and the sale is partly paid while the sum is below the total and
  completed once it is above. Only when the sum is the total exactly does the outcome hang on
  the floats: the sale is completed when the float sum does not fall below the float total.\<close>

theorem payment_added_to_the_kobo:
  assumes "get_sale_by_id (tb_sales t) sale_id = Some s" "open_receivable (tb_books t) tenant s = None"
    and "so_total s = PDec (of_int T / 100)" "so_amount_paid s = PDec (of_int P / 100)"
    and "0 \<le> P" "0 < A" "P + A \<le> 10 ^ 11" "0 \<le> T" "T \<le> 10 ^ 11"
  shows "\<exists>ans t' st. record_payment ids now tenant sale_id method (of_int A / 100) reference t = Inr (ans, t')
    \<and> map_option (\<lambda>x. (so_status x, so_amount_paid x, so_total x)) (get_sale_by_id (tb_sales t') sale_id) =
        Some (st, PDec (of_int (P + A) / 100), so_total s)
    \<and> map py_amount (tb_payments t') = map py_amount (tb_payments t) @ [PDec (of_int A / 100)]
    \<and> st = (if P + A < T then ''partial'' else if T < P + A then ''completed''
        else if kob T \<le> fadd (kob P) (kob A) then ''completed'' else ''partial'')"
  using assms by (rule payment_added)

definition owed :: "int \<Rightarrow> int \<Rightarrow> sale" where
  "owed T P = (unpaid_sale T)\<lparr>so_amount_paid := PDec (of_int P / 100)\<rparr>"

lemma owed_fields [simp]:
  "so_total (owed T P) = PDec (of_int T / 100)" "so_amount_paid (owed T P) = PDec (of_int P / 100)"
  "so_id (owed T P) = ''s''"
  by (simp_all add: owed_def unpaid_sale_def)

lemma till_of_sale [simp]:
  "get_sale_by_id (tb_sales (till_of bk fees s)) (so_id s) = Some s"
  "tb_books (till_of bk fees s) = bk" "tb_fees (till_of bk fees s) = fees"
  by (simp_all add: till_of_def get_sale_by_id_def)

lemma no_receivables [simp]: "open_receivable no_books tenant s = None"
  by (simp add: open_receivable_def no_books_def)

theorem payment_added_to_the_kobo_witness:
  "\<exists>ans t'. record_payment (\<lambda>n. ''id'') 1 ''t'' ''s'' ''cash'' (of_int 3000 / 100) None
      (till_of no_books sample_fees (owed 8000 2000)) = Inr (ans, t')"
  using payment_added_to_the_kobo[of "till_of no_books sample_fees (owed 8000 2000)" "''s''" "owed 8000 2000"
      "''t''" 8000 2000 3000 "\<lambda>n. ''id''" 1 "''cash''" None] till_of_sale(1)[of no_books sample_fees "owed 8000 2000"]
  by fastforce

lemma kob_70: "kob 70 = 6305039478318694 / 2 ^ 53"
  unfolding kob_def by (subst fl_eqI[where n = 53 and m = 6305039478318694]) simp_all

lemma kob_10: "kob 10 = 7205759403792794 / 2 ^ 56"
  unfolding kob_def by (subst fl_eqI[where n = 56 and m = 7205759403792794]) simp_all

lemma kob_80: "kob 80 = 7205759403792794 / 2 ^ 53"
  unfolding kob_def by (subst fl_eqI[where n = 53 and m = 7205759403792794]) simp_all

lemma float_dimes: "fadd (kob 70) (kob 10) < kob 80"
proof -
  have "fadd (kob 70) (kob 10) = 7205759403792793 / 2 ^ 53"
    unfolding fadd_def kob_70 kob_10
    by (subst fl_eqI[where n = 53 and m = 7205759403792793]) simp_all
  then show ?thesis by (simp add: kob_80)
qed

text \<open>A sale of 0.80 paid in full by 0.70 and 0.10 stays partly paid. The stored amount paid
  equals the stored total, but the floats add up to less than the float total, so the sale is
  never completed by the payment.\<close>

theorem full_payment_left_partial:
  "\<exists>ans t'. record_payment ids now ''t'' ''s'' method (of_int 10 / 100) reference
      (till_of no_books fees (owed 80 70)) = Inr (ans, t')
    \<and> map_option (\<lambda>x. (so_status x, so_amount_paid x, so_total x)) (get_sale_by_id (tb_sales t') ''s'') =
        Some (''partial'', PDec (of_int 80 / 100), PDec (of_int 80 / 100))"
  using payment_added[of "till_of no_books fees (owed 80 70)" "''s''" "owed 80 70" "''t''" 80 70 10 ids now
      "method" "reference"] till_of_sale(1)[of no_books fees "owed 80 70"] float_dimes
  by fastforce

section \<open>The even split\<close>

lemma even_part_kob:
  assumes "0 \<le> T" "T \<le> 10 ^ 11"
  shows "even_part (kob T) = kob ((T + 1) div 3)"
proof -
  define E where "E = (T + 1) div 3"
  have E: "- 1 \<le> 3 * E - T" "3 * E - T \<le> 1" unfolding E_def by presburger+
  have b: "\<bar>kob T / 3\<bar> \<le> 2000000000" using kob_err_le(2)[of T "10 ^ 11"] assms by simp
  have 1: "\<bar>fdiv (kob T) 3 - kob T / 3\<bar> \<le> eps * 2000000000"
    unfolding fdiv_def by (rule flt.r_err_le[OF b])
  have "eps * 2000000000 \<le> 1 / 10000" by simp
  then have d1: "\<bar>fdiv (kob T) 3 - kob T / 3\<bar> \<le> 1 / 10000" using 1 by linarith
  have 2: "\<bar>kob T - of_int T / 100\<bar> \<le> 1 / 10000"
    using kob_err_le(1)[of T "10 ^ 11"] assms by simp
  have "of_int (- 1) \<le> (of_int (3 * E - T) :: rat)" "of_int (3 * E - T) \<le> (of_int 1 :: rat)"
    using E by (simp_all only: of_int_le_iff)
  then have 3: "- 1 \<le> 3 * (of_int E :: rat) - of_int T" "3 * (of_int E :: rat) - of_int T \<le> 1" by simp_all
  have "\<bar>fdiv (kob T) 3 - of_int E / 100\<bar> < 1 / 200"
    using d1 2 3 by linarith
  then show ?thesis unfolding even_part_def E_def[symmetric] by (rule round2_near)
qed

lemma even_part_bounds: "\<bar>3 * ((T + 1) div 3) - T\<bar> \<le> (1::int)" "3 * ((T + 1) div 3) = T \<longleftrightarrow> 3 dvd T"
  by presburger+

text \<open>An even split is off by at most one kobo. The suggestion names card, transfer and cash with
  equal parts, the nearest kobo to a third of the total, and the parts add up to the total exactly
  when the total is divisible by three.\<close>

theorem even_split_nearest_kobo:
  assumes "get_sale_by_id (tb_sales t) sale_id = Some s" "so_total s = PDec (of_int T / 100)"
    and "0 \<le> T" "T \<le> 10 ^ 11"
  shows "\<exists>E. suggest_even_split t sale_id =
      Inr (kob T, [(''card'', kob E), (''transfer'', kob E), (''cash'', kob E)])
    \<and> \<bar>3 * E - T\<bar> \<le> 1 \<and> (3 * E = T \<longleftrightarrow> 3 dvd T)"
  using assms even_part_kob[OF assms(3,4)] even_part_bounds[of T]
  by (intro exI[of _ "(T + 1) div 3"]) (simp add: suggest_even_split_def Let_def kob_def)

lemma kob_9999: "kob 9999 = 7036170730324623 / 2 ^ 46"
  unfolding kob_def by (subst fl_eqI[where n = 46 and m = 7036170730324623]) simp_all

lemma kob_10000: "kob 10000 = 100"
  using fl_of_int[of 100] by (simp add: kob_def)

lemma fl_cent: "fl (1 / 100) = 5764607523034235 / 2 ^ 59"
  by (subst fl_eqI[where n = 59 and m = 5764607523034235]) simp_all

lemma hundred_off: "fl (1 / 100) < \<bar>fsub (kob 9999) (kob 10000)\<bar>"
proof -
  have "fl (100 - kob 9999) = 5764607523037184 / 2 ^ 59"
    unfolding kob_9999 by (subst fl_eqI[where n = 59 and m = 5764607523037184]) simp_all
  then have "fsub (kob 9999) (kob 10000) = - (5764607523037184 / 2 ^ 59)"
    using flt.r_minus[of "100 - kob 9999"] by (simp add: fsub_def kob_10000)
  then show ?thesis by (simp add: fl_cent)
qed

definition parts_of :: "(string \<times> rat) list \<Rightarrow> split_parts" where
  "parts_of ps = (let part = (\<lambda>m. case map_of ps m of None \<Rightarrow> PInt 0 | Some a \<Rightarrow> PFlt a)
     in \<lparr>sp_cash = part ''cash'', sp_card = part ''card'', sp_transfer = part ''transfer''\<rparr>)"

text \<open>The suggested split of 100.00 is refused. For every state in which a sale of that total
  exists, splitting it as suggested raises \<open>ValueError\<close>: the parts of 33.33 miss one kobo, and the
  float difference lies above the float tolerance of 0.01.\<close>

theorem suggested_split_refused:
  assumes "get_sale_by_id (tb_sales t) sale_id = Some s" "so_total s = PDec 100"
  shows "\<exists>tot parts. suggest_even_split t sale_id = Inr (tot, parts)
    \<and> process_split_payment ids fids jids now day link account tenant sale_id (parts_of parts) t =
        Inl (ValueError [Txt ''Splits sum '', Num (PFlt (kob 9999)), Txt '' does not equal total '',
          Num (PFlt (kob 10000))])"
proof -
  have E: "even_part (kob 10000) = kob 3333" using even_part_kob[of 10000] by simp
  have tot: "py_float (so_total s) = kob 10000" by (simp add: assms(2) kob_def)
  have d: "dec_of_str (PFlt (kob 3333)) = of_int 3333 / 100" by (rule dec_of_str_kob) simp
  let ?p = "parts_of [(''card'', kob 3333), (''transfer'', kob 3333), (''cash'', kob 3333)]"
  have p: "sp_cash ?p = PFlt (kob 3333)" "sp_card ?p = PFlt (kob 3333)" "sp_transfer ?p = PFlt (kob 3333)"
    by (simp_all add: parts_of_def Let_def)
  have s: "of_int 3333 / 100 + of_int 3333 / 100 = (of_int 6666 / 100 :: rat)"
    "of_int 6666 / 100 + of_int 3333 / 100 = (of_int 9999 / 100 :: rat)" by simp_all
  have a: "dctx (of_int 6666 / 100) = of_int 6666 / 100" "dctx (of_int 9999 / 100) = of_int 9999 / 100"
    by (rule dctx_cents, simp)+
  have sum3: "dadd (dadd (of_int 3333 / 100) (of_int 3333 / 100)) (of_int 3333 / 100) = of_int 9999 / 100"
    unfolding dadd_def s a ..
  then have sum: "split_sum ?p = kob 9999" unfolding split_sum_def p d sum3 by (simp only: kob_def)
  have "suggest_even_split t sale_id =
      Inr (kob 10000, [(''card'', kob 3333), (''transfer'', kob 3333), (''cash'', kob 3333)])"
    by (simp add: suggest_even_split_def assms(1) Let_def tot E)
  moreover have "process_split_payment ids fids jids now day link account tenant sale_id ?p t =
        Inl (ValueError [Txt ''Splits sum '', Num (PFlt (kob 9999)), Txt '' does not equal total '',
          Num (PFlt (kob 10000))])"
    unfolding process_split_payment_def assms(1) option.case Let_def tot sum if_P[OF hundred_off] ..
  ultimately show ?thesis by blast
qed

theorem even_split_nearest_kobo_witness:
  "\<exists>E. suggest_even_split (till_of no_books sample_fees (unpaid_sale 10000)) ''s'' =
      Inr (kob 10000, [(''card'', kob E), (''transfer'', kob E), (''cash'', kob E)]) \<and> \<bar>3 * E - 10000\<bar> \<le> 1"
proof -
  have "get_sale_by_id (tb_sales (till_of no_books sample_fees (unpaid_sale 10000))) ''s'' =
      Some (unpaid_sale 10000)"
    by (simp add: till_of_def get_sale_by_id_def unpaid_sale_def)
  then show ?thesis using even_split_nearest_kobo[of _ "''s''" "unpaid_sale 10000" 10000]
    by (force simp: unpaid_sale_def)
qed

theorem suggested_split_refused_witness:
  "\<exists>tot parts e. suggest_even_split (till_of no_books sample_fees (unpaid_sale 10000)) ''s'' = Inr (tot, parts)
    \<and> process_split_payment (\<lambda>n. ''id'') (\<lambda>n. ''f'') (\<lambda>n. ''j'') 1 ''20250101'' (\<lambda>_. ''link'') (''0'', ''bank'')
        ''t'' ''s'' (parts_of parts) (till_of no_books sample_fees (unpaid_sale 10000)) = Inl e"
proof -
  have "get_sale_by_id (tb_sales (till_of no_books sample_fees (unpaid_sale 10000))) ''s'' =
      Some (unpaid_sale 10000)" "so_total (unpaid_sale 10000) = PDec 100"
    by (simp_all add: till_of_def get_sale_by_id_def unpaid_sale_def)
  from suggested_split_refused[OF this, of "\<lambda>n. ''id''" "\<lambda>n. ''f''" "\<lambda>n. ''j''" 1 "''20250101''" "\<lambda>_. ''link''"
      "(''0'', ''bank'')" "''t''"]
  show ?thesis by blast
qed

section \<open>Settling fees\<close>

lemma change_intents_simps [simp]:
  "tb_fees (change_intents P f t) = tb_fees t"
  "tb_intents (change_intents P f t) = map (\<lambda>i. if P i then f i else i) (tb_intents t)"
  by (simp_all add: change_intents_def)

text \<open>The identifiers a settlement's intent carries, and what confirming it does to the ledger.\<close>

definition frozen :: "till \<Rightarrow> uuid \<Rightarrow> uuid list option" where
  "frozen t iid = (case get_intent_by_id t iid of None \<Rightarrow> None
     | Some i \<Rightarrow> (case pi_metadata i of Settlement ids _ \<Rightarrow> Some ids | _ \<Rightarrow> None))"

lemma confirm_frozen:
  assumes "frozen t iid = Some fids"
  shows "\<exists>t'. confirm_settlement_payment now tenant iid t =
      Inr (length (filter (\<lambda>e. fe_tenant_id e = tenant \<and> fe_id e \<in> set fids \<and> fe_status e = ''pending'')
        (fd_ledger (tb_fees t))), t')
    \<and> tb_fees t' = deduct_fees now (\<lambda>e. fe_tenant_id e = tenant \<and> fe_id e \<in> set fids) (tb_fees t)
    \<and> frozen t' iid = Some fids"
proof -
  obtain i who where i: "get_intent_by_id t iid = Some i" "pi_metadata i = Settlement fids who"
    using assms by (auto simp: frozen_def split: option.splits intent_metadata.splits)
  then have id: "pi_id i = iid" by (auto simp: get_intent_by_id_def dest: find_Some_set)
  have "get_intent_by_id (t\<lparr>tb_fees := x\<rparr>) iid = get_intent_by_id t iid" for t :: till and x
    by (simp add: get_intent_by_id_def)
  moreover have "get_intent_by_id (change_intents (\<lambda>x. pi_id x = iid) (\<lambda>x. x\<lparr>pi_status := st\<rparr>) t) iid =
      Some (i\<lparr>pi_status := st\<rparr>)" for st
    using i(1) id by (simp add: get_intent_by_id_def find_map_same)
  ultimately show ?thesis using i id
    by (simp add: confirm_settlement_payment_def update_intent_status_def Let_def frozen_def conj_assoc)
qed

lemma created_settlement:
  assumes "create_settlement_payment ids now link tenant actor t = Inr (i, t1)"
    and "ids 1 \<notin> pi_id ` set (tb_intents t)"
  shows "frozen t1 (pi_id i) = Some (map fe_id (pending_fees (tb_fees t) tenant))" "tb_fees t1 = tb_fees t"
    "\<exists>ref. pi_authorization_url i = Some (link (dec_sum (map fe_amount (pending_fees (tb_fees t) tenant))) ref)
      \<and> pi_gateway_reference i = Some ref"
proof -
  let ?es = "pending_fees (tb_fees t) tenant"
  have "frozen t1 (pi_id i) = Some (map fe_id ?es) \<and> tb_fees t1 = tb_fees t \<and>
    (\<exists>ref. pi_authorization_url i = Some (link (dec_sum (map fe_amount ?es)) ref)
      \<and> pi_gateway_reference i = Some ref)"
  proof (cases "open_settlement t tenant")
    case None
    have "List.find (\<lambda>x. pi_id x = ids 1) (tb_intents t) = None"
      using assms(2) by (simp add: find_None_iff) (metis image_eqI)
    then show ?thesis using assms(1) None
      by (auto simp: create_settlement_payment_def Let_def frozen_def get_intent_by_id_def
          create_intent_def new_intent_def find_append split: if_splits)
  next
    case (Some i0)
    then have "i0 \<in> set (tb_intents t)"
      by (auto simp: open_settlement_def split: list.splits dest!: head_of_sorted)
    then have "List.find (\<lambda>x. pi_id x = pi_id i0) (tb_intents t) \<noteq> None"
      by (auto simp: find_None_iff)
    then show ?thesis using assms(1) Some
      by (auto simp: create_settlement_payment_def Let_def frozen_def get_intent_by_id_def
          find_map_same refreeze_def dest: find_Some_set split: if_splits)
  qed
  then show "frozen t1 (pi_id i) = Some (map fe_id ?es)" "tb_fees t1 = tb_fees t"
    "\<exists>ref. pi_authorization_url i = Some (link (dec_sum (map fe_amount ?es)) ref)
      \<and> pi_gateway_reference i = Some ref" by blast+
qed

definition deducted :: "timestamp \<Rightarrow> fee_entry \<Rightarrow> fee_entry" where
  "deducted now e = e\<lparr>fe_status := ''deducted'', fe_settled_at := Some now\<rparr>"

lemma filter_pending_empty:
  "filter (\<lambda>e. Q e \<and> fe_status e = ''pending'') (map (\<lambda>e. if Q e \<and> fe_status e = ''pending'' then deducted now e else e) es) = []"
  if "\<And>e. Q (deducted now e) = Q e" 
  using that by (induction es) (auto simp: deducted_def)


definition pending_fee :: "uuid \<Rightarrow> fee_entry" where
  "pending_fee i = \<lparr>fe_id = i, fe_tenant_id = ''t'', fe_sale_id = None, fe_document_id = None,
     fe_category = ''commission'', fe_amount = 1, fe_fee_type = ''flat'', fe_rate = 1,
     fe_method = ''cash'', fe_status = ''pending'', fe_settled_at = None\<rparr>"

lemma dec_sum_one: "dec_sum [1] = 1"
  using dctx_of_int[of 1] by (simp add: dec_sum_def dadd_def)

end
