(* ===== verification/CheckoutFlows.thy ===== *)
theory CheckoutFlows
  imports Checkout PaymentFlows
begin

text \<open>
  Properties of the checkout: what it takes from stock, what it writes when it succeeds or fails,
  and what happens to the coupon of a payment intent.
\<close>

section \<open>The stock of a checkout\<close>

lemma max_0_lipschitz: "\<bar>max 0 a - max 0 (b :: rat)\<bar> \<le> \<bar>a - b\<bar>"
  by linarith

lemma close_trans: "\<bar>a - b\<bar> \<le> d \<Longrightarrow> \<bar>c - a\<bar> \<le> e \<Longrightarrow> d + e \<le> f \<Longrightarrow> \<bar>c - b\<bar> \<le> (f :: rat)"
  by linarith

lemma qty_left_err:
  assumes "\<bar>x - of_int D / 100\<bar> \<le> of_nat n * (3 / 1000000)" "n \<le> 1000"
    and "0 \<le> D" "D \<le> 10 ^ 11" "0 \<le> k" "k \<le> 10 ^ 11"
  shows "\<exists>y. qty_left (PDec x) (kob k) = PDec y \<and>
    \<bar>y - of_int (max 0 (D - k)) / 100\<bar> \<le> of_nat (Suc n) * (3 / 1000000)"
proof -
  define K where "K = (of_int k / 100 :: rat)"
  define E where "E = (of_int D / 100 :: rat)"
  define F where "F = fsub (fl x) (kob k)"
  define y where "y = flt_repr (max F 0)"
  have KE: "0 \<le> K" "K \<le> 1000000000" "0 \<le> E" "E \<le> 1000000000"
    using assms(3-6) by (simp_all add: K_def E_def)
  have n: "(of_nat n :: rat) * (3 / 1000000) \<le> 1000 * (3 / 1000000)"
    by (intro mult_right_mono) (use assms(2) in simp_all)
  note x = assms(1)[folded E_def]
  have xb: "\<bar>x\<bar> \<le> 1000000001" using x n KE by linarith
  have fx: "\<bar>fl x - x\<bar> \<le> 2 / 10000000"
    using flt.r_err_le[OF xb] by simp
  have kb: "\<bar>kob k - K\<bar> \<le> 2 / 10000000"
    using flt.r_err_le[of K 1000000000] KE by (simp add: kob_def K_def)
  have "\<bar>fl x - kob k\<bar> \<le> 2000000002" using xb fx kb KE by linarith
  then have F: "\<bar>F - (fl x - kob k)\<bar> \<le> 3 / 10000000"
    using flt.r_err_le[of "fl x - kob k" 2000000002] by (simp add: F_def fsub_def)
  define G where "G = max F 0"
  have "F \<le> 1000000002" using F xb fx kb KE by linarith
  then have "0 \<le> G" "G \<le> 1000000002" by (simp_all add: G_def)
  then have y: "\<bar>y - G\<bar> \<le> 11 / 10000000"
    using flt_repr_err[of G] by (simp add: y_def G_def[symmetric])
  have m: "of_int (max 0 (D - k)) / 100 = max 0 (E - K)"
    by (simp add: E_def K_def max_def diff_divide_distrib)
  define e where "e = (of_nat n * (3 / 1000000) :: rat)"
  have "\<bar>fl x - E\<bar> \<le> e + 2 / 10000000" using x[folded e_def] fx by linarith
  then have "\<bar>fl x - kob k - (E - K)\<bar> \<le> e + 4 / 10000000" using kb by linarith
  then have "\<bar>F - (E - K)\<bar> \<le> e + 7 / 10000000" using F by linarith
  moreover have "\<bar>G - max 0 (E - K)\<bar> \<le> \<bar>F - (E - K)\<bar>"
    unfolding G_def max.commute[of F 0] by (rule max_0_lipschitz)
  ultimately have "\<bar>G - max 0 (E - K)\<bar> \<le> e + 7 / 10000000" by (rule order_trans[rotated])
  then have "\<bar>y - max 0 (E - K)\<bar> \<le> e + 3 / 1000000"
    using y by (rule close_trans) simp
  then have "\<bar>y - max 0 (E - K)\<bar> \<le> of_nat n * (3 / 1000000) + 3 / 1000000" unfolding e_def .
  then show ?thesis
    unfolding m by (intro exI[of _ y]) (simp add: qty_left_def y_def F_def distrib_right)
qed

definition sold :: "uuid \<Rightarrow> (sale_item_line \<Rightarrow> int) \<Rightarrow> sale_item_line list \<Rightarrow> int" where
  "sold pid k ls = (\<Sum>l\<leftarrow>filter (\<lambda>l. sl_product_id l = pid) ls. k l)"

abbreviation cents_sold :: "(sale_item_line \<Rightarrow> int) \<Rightarrow> sale_item_line list \<Rightarrow> bool" where
  "cents_sold k ls \<equiv> list_all (\<lambda>l. sl_qty l = of_int (k l) / 100 \<and> 0 < k l \<and> k l \<le> 10 ^ 11) ls"

lemma fold_deduct:
  assumes "cents_sold k (map snd nls)" "n + length nls \<le> 1000"
    and "stock pid store = Some b" "sb_qty b = PDec x" "\<bar>x - of_int D / 100\<bar> \<le> of_nat n * (3 / 1000000)"
    and "0 \<le> D" "D \<le> 10 ^ 11"
  shows "\<exists>y. fold (\<lambda>nl. deduct_line tenant store nl bids) nls stock pid store = Some (b\<lparr>sb_qty := PDec y\<rparr>)
    \<and> \<bar>y - of_int (max 0 (D - sold pid k (map snd nls))) / 100\<bar> \<le> of_nat (n + length nls) * (3 / 1000000)"
  using assms
proof (induction nls arbitrary: stock b D x n)
  case Nil
  have "stock pid store = Some (b\<lparr>sb_qty := PDec x\<rparr>)" using Nil.prems(3,4) by simp
  then show ?case using Nil.prems(5,6) by (auto simp: sold_def)
next
  case (Cons nl nls)
  obtain i l where nl: "nl = (i, l)" by (cases nl)
  let ?stock = "deduct_line tenant store nl bids stock"
  have l: "sl_qty l = of_int (k l) / 100" "0 < k l" "k l \<le> 10 ^ 11" using Cons.prems(1) nl by simp_all
  have rest: "cents_sold k (map snd nls)" "Suc n + length nls \<le> 1000" using Cons.prems(1,2) by simp_all
  show ?case
  proof (cases "sl_product_id l = pid")
    case True
    obtain y where y: "qty_left (PDec x) (kob (k l)) = PDec y"
      "\<bar>y - of_int (max 0 (D - k l)) / 100\<bar> \<le> of_nat (Suc n) * (3 / 1000000)"
      using qty_left_err[OF Cons.prems(5) _ Cons.prems(6,7), of "k l"] l Cons.prems(2) by auto
    define b' where "b' = b\<lparr>sb_qty := PDec y\<rparr>"
    have s: "?stock pid store = Some b'"
      using True Cons.prems(3,4) y(1)[unfolded kob_def l(1)[symmetric]]
      by (simp add: deduct_line_def nl Let_def b'_def)
    have "0 \<le> sold pid k (map snd nls)"
      unfolding sold_def using rest by (intro sum_list_nonneg) (auto simp: list_all_iff)
    then have m: "max 0 (max 0 (D - k l) - sold pid k (map snd nls)) = max 0 (D - sold pid k (map snd (nl # nls)))"
      using True by (auto simp: sold_def nl)
    show ?thesis
      using Cons.IH[where stock = ?stock and b = b' and D = "max 0 (D - k l)" and x = y and n = "Suc n"]
        rest s y(2) Cons.prems(6,7) l(2)
      by (auto simp: b'_def m)
  next
    case False
    then have s: "?stock pid store = stock pid store" by (simp add: deduct_line_def nl Let_def)
    have "of_nat n * (3 / 1000000) \<le> (of_nat (Suc n) * (3 / 1000000) :: rat)"
      by (intro mult_right_mono) simp_all
    then have "\<bar>x - of_int D / 100\<bar> \<le> of_nat (Suc n) * (3 / 1000000)" using Cons.prems(5) by linarith
    then show ?thesis
      using Cons.IH[where stock = ?stock and b = b and D = D and x = x and n = "Suc n"] rest s Cons.prems False
      by (auto simp: sold_def nl)
  qed
qed

lemma fold_deduct_other:
  "store' \<noteq> store \<or> pid \<notin> sl_product_id ` set (map snd nls) \<Longrightarrow>
    fold (\<lambda>nl. deduct_line tenant store nl bids) nls stock pid store' = stock pid store'"
proof (induction nls arbitrary: stock)
  case (Cons nl nls)
  have "deduct_line tenant store nl bids stock pid store' = stock pid store'"
    using Cons.prems by (cases nl) (auto simp: deduct_line_def Let_def)
  then show ?case using Cons by auto
qed simp

lemma deduct_other:
  "store' \<noteq> store \<Longrightarrow> deduct_stock bids tenant store ls stock pid store' = stock pid store'"
  using fold_deduct_other[of store' store pid "zip [0..<length ls] ls" tenant bids stock]
  by (simp add: deduct_stock_def Let_def)

lemma deduct_exact:
  assumes "cents_sold k ls" "length ls \<le> 1000"
    and "stock pid store = Some b" "sb_qty b = PDec (of_int Q / 100)" "0 \<le> Q" "Q \<le> 10 ^ 11"
  shows "deduct_stock bids tenant store ls stock pid store =
    Some (b\<lparr>sb_qty := PDec (of_int (max 0 (Q - sold pid k ls)) / 100)\<rparr>)"
proof -
  let ?nls = "zip [0..<length ls] ls" and ?S = "max 0 (Q - sold pid k ls)"
  have z: "map snd ?nls = ls" by simp
  obtain y where y: "fold (\<lambda>nl. deduct_line tenant store nl bids) ?nls stock pid store =
      Some (b\<lparr>sb_qty := PDec y\<rparr>)"
    "\<bar>y - of_int ?S / 100\<bar> \<le> of_nat (length ls) * (3 / 1000000)"
    using fold_deduct[of k ?nls 0 stock pid store b "of_int Q / 100" Q tenant bids] assms
    by (auto simp: z)
  have "of_nat (length ls) * (3 / 1000000) \<le> (1000 * (3 / 1000000) :: rat)"
    by (intro mult_right_mono) (use assms(2) in simp_all)
  moreover define S where "S = ?S"
  ultimately have "\<bar>y * 100 - of_int S\<bar> < 1 / 2" using y(2)[folded S_def] by linarith
  then have "\<bar>y * 100 - of_int ?S\<bar> < 1 / 2" by (simp only: S_def)
  then have "column_num (PDec y) = PDec (of_int ?S / 100)"
    by (simp add: column_num_def column_value_def quant2_half_up_def rhu_unique)
  moreover have "b\<lparr>sb_qty := PDec (of_int ?S / 100)\<rparr> = b" if "pid \<notin> sl_product_id ` set ls"
  proof -
    have "sold pid k ls = 0"
      using that by (induction ls) (auto simp: sold_def)
    then show ?thesis using assms(4,5) by simp
  qed
  moreover have "fold (\<lambda>nl. deduct_line tenant store nl bids) ?nls stock pid store = Some b"
    if "pid \<notin> sl_product_id ` set ls"
    using fold_deduct_other[of store store pid ?nls tenant bids stock] that assms(3) by (simp add: z)
  ultimately show ?thesis using y(1) by (auto simp: deduct_stock_def Let_def stored_qty_def)
qed

lemma check_stock_line:
  assumes "check_stock stock store ls = Inr u" "l \<in> set ls"
  shows "\<not> nval (available_qty (stock (sl_product_id l) store)) < fl (sl_qty l)"
  using assms
proof (induction ls)
  case (Cons x ls)
  then show ?case by (auto simp: check_stock_def Let_def split: if_splits)
qed simp

lemma available_kob:
  assumes "sb_qty b = PDec (of_int Q / 100)" "sb_reserved_qty b = PDec (of_int R / 100)"
  shows "nval (available_qty (Some b)) = fsub (kob Q) (kob R)"
  using assms by (simp add: available_qty_def kob_def)

text \<open>C23: A checkout takes from every stock row what the lines of that product sell, and no row
  below zero. With two-decimal quantities and at most a thousand lines the row of a product afterwards holds exactly what it
  held less everything its lines sell, or nothing when they sell more; rows of other stores do
  not change; and a line for which the check passes sells at most what the row held without its
  reservation.\<close>

theorem checkout_takes_what_it_sells:
  assumes "list_all (\<lambda>l. sl_qty l = of_int (k l) / 100 \<and> 0 < k l \<and> k l \<le> 10 ^ 11) ls"
    and "length ls \<le> 1000" "stock pid store = Some b" "sb_qty b = PDec (of_int Q / 100)"
    and "sb_reserved_qty b = PDec (of_int R / 100)" "0 \<le> Q" "Q \<le> 10 ^ 11" "0 \<le> R" "R \<le> 10 ^ 11"
    and "check_stock stock store ls = Inr u"
  shows "deduct_stock bids tenant store ls stock pid store =
      Some (b\<lparr>sb_qty := PDec (of_int (max 0 (Q - sold pid k ls)) / 100)\<rparr>)
    \<and> (\<forall>store'. store' \<noteq> store \<longrightarrow> deduct_stock bids tenant store ls stock pid store' = stock pid store')
    \<and> list_all (\<lambda>l. k l \<le> Q - R) (filter (\<lambda>l. sl_product_id l = pid) ls)"
proof (intro conjI allI impI)
  show "deduct_stock bids tenant store ls stock pid store =
      Some (b\<lparr>sb_qty := PDec (of_int (max 0 (Q - sold pid k ls)) / 100)\<rparr>)"
    using deduct_exact[of k ls stock pid store b Q] assms by simp
  show "deduct_stock bids tenant store ls stock pid store' = stock pid store'" if "store' \<noteq> store" for store'
    using deduct_other[OF that] by simp
  have "k l \<le> Q - R" if l: "l \<in> set ls" "sl_product_id l = pid" for l
  proof (rule ccontr)
    assume "\<not> k l \<le> Q - R"
    then have gap: "of_int (Q - R) + 1 \<le> (of_int (k l) :: rat)" by linarith
    have q: "sl_qty l = of_int (k l) / 100" "0 < k l" "k l \<le> 10 ^ 11"
      using assms(1) l(1) by (auto simp: list_all_iff)
    have "\<not> fsub (kob Q) (kob R) < kob (k l)"
      using check_stock_line[OF assms(10) l(1)] l(2) assms(3) available_kob[OF assms(4,5)] q(1)
      by (simp add: kob_def)
    moreover have "\<bar>fsub (kob Q) (kob R) - of_int (Q - R) / 100\<bar> \<le> 1 / 1000000"
      using fsub_kob_err[of Q R] assms(6-9) by simp
    moreover have "\<bar>kob (k l) - of_int (k l) / 100\<bar> \<le> 1 / 10000" using kob_near q by simp
    ultimately show False using gap unfolding diff_divide_distrib of_int_diff by linarith
  qed
  then show "list_all (\<lambda>l. k l \<le> Q - R) (filter (\<lambda>l. sl_product_id l = pid) ls)"
    by (simp add: list_all_iff)
qed

definition sample_balance :: "int \<Rightarrow> stock_balance" where
  "sample_balance Q = \<lparr>sb_id = ''b'', sb_tenant_id = ''t'', sb_product_id = ''p'', sb_store_id = ''st'',
     sb_qty = PDec (of_int Q / 100), sb_reserved_qty = PDec 0, sb_min_stock_level = PDec 0,
     sb_unit_cost = None\<rparr>"

definition sample_stock :: "int \<Rightarrow> uuid \<Rightarrow> uuid \<Rightarrow> stock_balance option" where
  "sample_stock Q pid store = (if pid = ''p'' \<and> store = ''st'' then Some (sample_balance Q) else None)"

definition three_units :: sale_item_line where
  "three_units = taxed_line ''p'' ''Rice'' (of_int 300 / 100) (of_int 100 / 100) []"

lemma check_repeated:
  "check_stock (sample_stock 500) ''st'' [three_units, three_units] = Inr ()"
  "check_stock (sample_stock 500) ''st'' [three_units] = Inr ()"
proof -
  have "kob 500 = 5" "kob 300 = 3" using fl_of_int[of 5] fl_of_int[of 3] by (simp_all add: kob_def)
  then show "check_stock (sample_stock 500) ''st'' [three_units, three_units] = Inr ()"
    "check_stock (sample_stock 500) ''st'' [three_units] = Inr ()"
    using fl_of_int[of 5] fl_of_int[of 3]
    by (simp_all add: check_stock_def sample_stock_def three_units_def taxed_line_def available_qty_def
        sample_balance_def fsub_def Let_def)
qed

theorem checkout_takes_what_it_sells_witness:
  "deduct_stock (\<lambda>n. ''id'') ''t'' ''st'' [three_units] (sample_stock 500) ''p'' ''st'' =
     Some (sample_balance 200)"
proof -
  from checkout_takes_what_it_sells[where k = "\<lambda>_. 300" and Q = 500 and R = 0, OF _ _ _ _ _ _ _ _ _ check_repeated(2),
      of "''p''" "sample_balance 500" "\<lambda>n. ''id''" "''t''"]
  show ?thesis
    by (simp add: three_units_def taxed_line_def sample_stock_def sold_def) (simp add: sample_balance_def)
qed

text \<open>A checkout can sell more than there is. With five units on the shelf and nothing reserved,
  two lines of three units of the same product both pass the stock check; the row is left at zero
  and the sale sells six.\<close>

theorem repeated_lines_oversell:
  "check_stock (sample_stock 500) ''st'' [three_units, three_units] = Inr ()
   \<and> deduct_stock bids ''t'' ''st'' [three_units, three_units] (sample_stock 500) ''p'' ''st'' =
       Some (sample_balance 0)
   \<and> (\<Sum>l\<leftarrow>[three_units, three_units]. sl_qty l) = 6"
proof (intro conjI)
  show "deduct_stock bids ''t'' ''st'' [three_units, three_units] (sample_stock 500) ''p'' ''st'' =
       Some (sample_balance 0)"
    using deduct_exact[where k = "\<lambda>_. 300" and Q = 500 and ls = "[three_units, three_units]" and
        stock = "sample_stock 500" and pid = "''p''" and store = "''st''" and b = "sample_balance 500" and
        bids = bids and tenant = "''t''"]
    by (simp add: three_units_def taxed_line_def sample_stock_def sold_def) (simp add: sample_balance_def)
  show "(\<Sum>l\<leftarrow>[three_units, three_units]. sl_qty l) = 6" by (simp add: three_units_def taxed_line_def)
qed (rule check_repeated(1))

section \<open>Coupons of intents\<close>

lemma check_used_up:
  "cp_max_uses c \<le> cp_used_count c \<Longrightarrow> 0 < cp_max_uses c \<Longrightarrow> \<exists>m. check_coupon now c s = Refused m"
  by (auto simp: check_coupon_def)

lemma redeem_used_up:
  assumes "\<forall>c \<in> set (pr_coupons p). cp_tenant_id c = tenant \<and> cp_code c = coupon_code code \<longrightarrow>
      0 < cp_max_uses c \<and> cp_max_uses c \<le> cp_used_count c"
  shows "\<exists>e. redeem_coupon now tenant code s p = Inl e"
proof -
  let ?F = "filter (\<lambda>c. cp_tenant_id c = tenant \<and> cp_code c = coupon_code code) (pr_coupons p)"
  consider "?F = []" | c where "?F = [c]" | a b xs where "?F = a # b # xs" by (metis neq_Nil_conv)
  then show ?thesis
  proof cases
    case (2 c)
    then have "c \<in> set ?F" by simp
    then have "0 < cp_max_uses c" "cp_max_uses c \<le> cp_used_count c" using assms by auto
    then obtain m where "check_coupon now c (dec_of_str s) = Refused m" using check_used_up by blast
    then show ?thesis using 2 by (simp add: redeem_coupon_def validate_coupon_def)
  qed (simp_all add: redeem_coupon_def validate_coupon_def)
qed

lemma redeem_spends:
  assumes "redeem_coupon now tenant code s p = Inr (d, ccode, p')"
    and "\<forall>c \<in> set (pr_coupons p). cp_tenant_id c = tenant \<and> cp_code c = coupon_code code \<longrightarrow>
      0 \<le> cp_used_count c \<and> cp_max_uses c = cp_used_count c + 1"
    and "x \<in> set (pr_coupons p')" "cp_tenant_id x = tenant" "cp_code x = coupon_code code"
  shows "0 < cp_max_uses x \<and> cp_max_uses x \<le> cp_used_count x"
proof -
  obtain c where c: "c \<in> set (pr_coupons p)"
    "filter (\<lambda>c. cp_tenant_id c = tenant \<and> cp_code c = coupon_code code) (pr_coupons p) = [c]"
    "p' = increment_coupon_usage tenant (cp_id c) p"
    using redeemed_below_limit[OF assms(1)] by blast
  obtain y where y: "y \<in> set (pr_coupons p)"
    "x = (if cp_id y = cp_id c \<and> cp_tenant_id y = tenant then y\<lparr>cp_used_count := cp_used_count y + 1\<rparr> else y)"
    using assms(3) by (auto simp: c(3) increment_coupon_usage_def)
  have own: "cp_tenant_id y = tenant" "cp_code y = coupon_code code"
    using assms(4,5) y(2) by (simp_all split: if_splits)
  have "y \<in> set (filter (\<lambda>c. cp_tenant_id c = tenant \<and> cp_code c = coupon_code code) (pr_coupons p))"
    using y(1) own by simp
  then have "y = c" unfolding c(2) by simp
  moreover have "0 \<le> cp_used_count y \<and> cp_max_uses y = cp_used_count y + 1" using assms(2) y(1) own by blast
  ultimately show ?thesis using y(2) own(1) by simp
qed

lemma used_up_checkout_refused:
  assumes "str_truthy (xr_coupon r)"
    and "\<forall>c \<in> set (pr_coupons (sh_promotions sh)). cp_tenant_id c = tenant \<and>
      cp_code c = coupon_code (str_or (xr_coupon r) []) \<longrightarrow> 0 < cp_max_uses c \<and> cp_max_uses c \<le> cp_used_count c"
  shows "\<exists>e. checkout_cart ids now today day tenant cid r sh = (Inl e, sh)"
proof -
  have "\<exists>e. checkout_discount now tenant r ls (sh_promotions sh) = Inl e" for ls
    using redeem_used_up[OF assms(2), of now "PFlt (lines_subtotal ls)"] assms(1)
    by (auto simp: checkout_discount_def)
  then obtain e where e: "\<And>ls. checkout_discount now tenant r ls (sh_promotions sh) = Inl (e ls)" by metis
  have "\<exists>e. new_checkout ids now today day tenant ct r items sh = (Inl e, sh)" for ct items
    by (cases "prepare_checkout today tenant ct items sh") (auto simp: new_checkout_def e)
  moreover have "\<exists>e. legacy_checkout ids now today day tenant ct r sh = (Inl e, sh)" for ct
    by (cases "prepare_legacy today tenant (get_cart_items (sh_cart sh) (ct_id ct)) sh")
      (simp_all add: legacy_checkout_def e del: split_paired_Ex)
  ultimately show ?thesis
    by (simp add: checkout_cart_def split: sum.split option.split)
qed

text \<open>C24: The last use of a coupon cannot be paid through an intent. An intent opened with a coupon
  that had one use left spends that use; confirming the intent validates the coupon again, so as
  long as the coupon is as the intent left it, every confirmation of a pending intent with this
  coupon is refused and changes nothing but an expired intent.\<close>

theorem last_coupon_use_cannot_be_confirmed:
  assumes "initiate_payment ids now account tenant q sh = Inr (i, sh1)" "str_truthy (ir_coupon q)"
    and "\<forall>c \<in> set (pr_coupons (sh_promotions sh)). cp_tenant_id c = tenant \<and>
      cp_code c = coupon_code (str_or (ir_coupon q) []) \<longrightarrow>
      0 \<le> cp_used_count c \<and> cp_max_uses c = cp_used_count c + 1"
    and "sh_promotions sh2 = sh_promotions sh1" "get_intent_by_id (sh_till sh2) iid = Some j"
    and "pi_status j = ''pending''" "pi_coupon_code j = ir_coupon q"
  shows "\<exists>e. fst (confirm_payment ids2 now2 today day src tenant iid sh2) = Inl e"
proof -
  obtain code where code: "ir_coupon q = Some code" "code \<noteq> []"
    using assms(2) by (auto simp: str_truthy_def split: option.splits)
  obtain s d cc where red: "redeem_coupon now tenant code s (sh_promotions sh) = Inr (d, cc, sh_promotions sh1)"
    using assms(1,2) code
    by (auto simp: initiate_payment_def Let_def res_bind_eq_Inr str_or_def split: option.splits if_splits)
  have used: "\<forall>c \<in> set (pr_coupons (sh_promotions sh2)). cp_tenant_id c = tenant \<and>
      cp_code c = coupon_code (str_or (xr_coupon (intent_checkout j)) []) \<longrightarrow>
      0 < cp_max_uses c \<and> cp_max_uses c \<le> cp_used_count c"
    
    using redeem_spends[OF red] assms(3,4,7) code by (auto simp: intent_checkout_def str_or_def)
  have "str_truthy (xr_coupon (intent_checkout j))" using assms(2,7) by (simp add: intent_checkout_def)
  then have "\<exists>e. checkout_cart ids2 now2 today day tenant cid (intent_checkout j) sh2 = (Inl e, sh2)" for cid
    by (rule used_up_checkout_refused[OF _ used])
  then obtain e where e: "\<And>cid. checkout_cart ids2 now2 today day tenant cid (intent_checkout j) sh2 = (Inl (e cid), sh2)"
    by metis
  show ?thesis using assms(6) by (simp add: confirm_payment_def assms(5) e split: option.splits)
qed

definition sample_shop :: shop where
  "sample_shop = \<lparr>sh_cart = \<lparr>cd_carts = [\<lparr>ct_id = ''k'', ct_name = None, ct_tenant_id = ''t'',
       ct_store_id = ''st'', ct_session_id = ''x'', ct_status = ''open'', ct_customer_name = None,
       ct_customer_phone = None, ct_created_by = None, ct_expires_at = 9, ct_created_at = 0\<rparr>],
     cd_items = [\<lparr>ci_id = ''i'', ci_cart_id = ''k'', ci_store_id = ''st'', ci_product_id = ''p'',
       ci_product_public_id = ''P'', ci_name = ''Rice'', ci_unit_price = PInt 1, ci_qty = PInt 1,
       ci_created_by = None, ci_created_at = 0\<rparr>], cd_outbox = [], cd_audit = []\<rparr>,
     sh_till = \<lparr>tb_sales = no_sales, tb_fees = sample_fees, tb_payments = [], tb_intents = [],
       tb_subaccounts = [], tb_dvas = [], tb_books = no_books, tb_outbox = []\<rparr>,
     sh_promotions = sample_promotions, sh_stock = sample_stock 500, sh_products = [],
     sh_store_products = [], sh_tax_rows = [], sh_product_taxes = []\<rparr>"

definition card_request :: intent_request where
  "card_request = \<lparr>ir_cart = ''k'', ir_method = ''card'', ir_customer_name = None,
     ir_customer_phone = None, ir_coupon = Some '' save'', ir_store_id = None, ir_actor = None\<rparr>"

lemma sample_redeemed: "redeem_coupon 1 ''t'' '' save'' (PFlt 0) sample_promotions =
    Inr (dec_of_str (PFlt (kob 0)), ''SAVE'', increment_coupon_usage ''t'' ''c'' sample_promotions)"
proof -
  have "kob 0 = 0" by simp
  then show ?thesis using sample_validation by (simp add: redeem_coupon_def)
qed

lemma card_request_opened:
  "\<exists>i sh1. initiate_payment (\<lambda>_. ''id'') 1 g ''t'' card_request sample_shop = Inr (i, sh1)
     \<and> get_intent_by_id (sh_till sh1) ''id'' = Some (i\<lparr>pi_amount := column_num (pi_amount i)\<rparr>)
     \<and> pi_status i = ''pending'' \<and> pi_coupon_code i = ir_coupon card_request"
proof -
  have "py_float (PInt 1) = 1" using fl_of_int[of 1] by simp
  moreover have "flt_repr 0 = 0" "dctx 0 = 0" using dec_of_str_kob[of 0] dctx_cents[of 0] by simp_all
  ultimately
  have "intent_total (map (intent_item sample_shop ''st'') (get_cart_items (sh_cart sample_shop) ''k'')) = 0"
    by (simp add: intent_total_def intent_item_def intent_price_def sample_shop_def get_cart_items_def
        store_product_of_def dec_sum_def dmul_def dadd_def)
  then show ?thesis
    using sample_redeemed
    by (simp add: initiate_payment_def card_request_def sample_shop_def get_cart_by_id_def get_cart_items_def
        Let_def str_or_def snapshot_intent_def new_intent_def create_intent_def get_intent_by_id_def)
qed

theorem last_coupon_use_cannot_be_confirmed_witness:
  "\<exists>i sh1 e. initiate_payment (\<lambda>_. ''id'') 1 \<lparr>ga_number = ''1'', ga_bank = ''b'', ga_ttl = None\<rparr> ''t''
       card_request sample_shop = Inr (i, sh1)
     \<and> fst (confirm_payment (\<lambda>_ _. ''id'') 2 0 ''d'' (''id'', 2, ''d'', ([], [], []), \<lambda>_. ([], []))
       ''t'' ''id'' sh1) = Inl e"
proof -
  let ?g = "\<lparr>ga_number = ''1'', ga_bank = ''b'', ga_ttl = None\<rparr>"
  obtain i sh1 where i: "initiate_payment (\<lambda>_. ''id'') 1 ?g ''t'' card_request sample_shop = Inr (i, sh1)"
    "get_intent_by_id (sh_till sh1) ''id'' = Some (i\<lparr>pi_amount := column_num (pi_amount i)\<rparr>)"
    "pi_status i = ''pending''" "pi_coupon_code i = ir_coupon card_request"
    using card_request_opened by blast
  have "str_truthy (ir_coupon card_request)" by (simp add: card_request_def str_truthy_def)
  moreover have "\<forall>c \<in> set (pr_coupons (sh_promotions sample_shop)). cp_tenant_id c = ''t'' \<and>
      cp_code c = coupon_code (str_or (ir_coupon card_request) []) \<longrightarrow>
      0 \<le> cp_used_count c \<and> cp_max_uses c = cp_used_count c + 1"
    by (simp add: sample_shop_def sample_promotions_def sample_coupon_def)
  ultimately have "\<exists>e. fst (confirm_payment (\<lambda>_ _. ''id'') 2 0 ''d''
      (''id'', 2, ''d'', ([], [], []), \<lambda>_. ([], [])) ''t'' ''id'' sh1) = Inl e"
    by (rule last_coupon_use_cannot_be_confirmed[OF i(1) _ _ refl i(2)]) (use i(3,4) in simp_all)
  then show ?thesis using i(1) by blast
qed

section \<open>What a checkout writes\<close>

lemma checkout_entry_amounts: "checkout_entry num m e = Inr e' \<Longrightarrow> amounts e' = amounts e"
  by (auto simp: checkout_entry_def amounts_def Let_def split: option.splits if_splits)

lemma checkout_fold_amounts:
  assumes "res_fold (\<lambda>e ds. res_bind (checkout_entry num m e) (\<lambda>e'. Inr (ds @ [e']))) es acc = Inr out"
  shows "map amounts out = map amounts acc @ map amounts es"
  using assms
proof (induction es arbitrary: acc)
  case (Cons e es)
  then obtain e' where "checkout_entry num m e = Inr e'"
    "res_fold (\<lambda>e ds. res_bind (checkout_entry num m e) (\<lambda>e'. Inr (ds @ [e']))) es (acc @ [e']) = Inr out"
    by (auto simp: res_bind_eq_Inr)
  then show ?case using Cons.IH checkout_entry_amounts by fastforce
qed simp

lemma book_checkout_balanced:
  assumes "book_checkout jids now day tenant actor pm res s costs bk = Inr bk'" "balanced_books bk"
    and "ss_total res = kob T" "ss_tax res = kob X" "0 \<le> X" "X \<le> 10 ^ 12" "\<bar>T\<bar> \<le> 10 ^ 12"
    and "cents_lines (case so_tax_breakdown s of None \<Rightarrow> [] | Some ts \<Rightarrow> ts)"
  shows "balanced_books bk'"
proof -
  define p where "p = plan_sale_journal jids day tenant (ss_id res) (ss_number res) costs (kob T) (kob X)
    (case so_tax_breakdown s of None \<Rightarrow> [] | Some ts \<Rightarrow> ts) pm (Some (so_store_id s)) True"
  have "\<bar>X\<bar> \<le> 10 ^ 12" using assms(5,6) by simp
  note facts = sale_entries_facts[OF assms(8) this assms(5,7), where ids = jids and day = day and tenant = tenant
      and sale_id = "ss_id res" and num = "ss_number res" and items = costs and pm = pm
      and store = "Some (so_store_id s)" and settled = True, folded p_def]
  obtain es' where es': "res_fold (\<lambda>e done. res_bind
      (checkout_entry (ss_number res) (code_to_account bk tenant (map je_account_code (snd p))) e)
      (\<lambda>e'. Inr (done @ [e']))) (snd p) [] = Inr es'"
    and w: "write_posted now (Some now) actor (fst p) es' bk = Inr bk'"
    using assms(1) unfolding book_checkout_def assms(3,4) p_def[symmetric]
    by (auto simp: split_def res_bind_eq_Inr)
  have am: "map amounts es' = map amounts (snd p)" using checkout_fold_amounts[OF es'] by simp
  show ?thesis
    by (rule write_posted_balanced[OF w assms(2) journal_ids_amounts[OF am facts(4)]])
      (use imbalance_amounts[OF am] facts(1) in simp)
qed


lemma stored_sale_keeps [simp]: "so_status (stored_sale s) = so_status s" "so_id (stored_sale s) = so_id s"
  by (simp_all add: stored_sale_def)

lemma book_checkout_stored:
  "book_checkout jids now day tenant actor pm res (stored_sale s) costs bk =
     book_checkout jids now day tenant actor pm res s costs bk"
  by (simp add: book_checkout_def stored_sale_def)

lemma finished_cart:
  assumes "finish_cart cid items ws db = Inr db'"
  shows "map_option ct_status (get_cart_by_id db' cid) = Some ''checked_out''"
    "map ct_id (cd_carts db') = map ct_id (cd_carts db)"
proof -
  have f: "get_cart_by_id db cid \<noteq> None"
    and db': "cd_carts db' = map (\<lambda>c. if ct_id c = cid then c\<lparr>ct_status := ''checked_out''\<rparr> else c) (cd_carts db)"
    using assms by (auto simp: finish_cart_def res_bind_eq_Inr update_cart_status_def bulk_add_cart_items_def
        add_writes_def get_cart_by_id_def split: if_splits)
  obtain c where "get_cart_by_id db cid = Some c" using f by auto
  then show "map_option ct_status (get_cart_by_id db' cid) = Some ''checked_out''"
    unfolding get_cart_by_id_def db' by (subst find_map_update) simp_all
  show "map ct_id (cd_carts db') = map ct_id (cd_carts db)" by (simp add: db')
qed

lemma commit_checkout_writes:
  assumes "commit_checkout ids now day tenant ct r xs resolved ls costs disc ccode sh = Inr (ans, sh')"
  obtains s where "so_status s = ''pending''" "so_id s = ss_id (xa_result ans)"
    "db_sales (tb_sales (sh_till sh')) = db_sales (tb_sales (sh_till sh)) @ [s]"
    "book_checkout (ids 4) now day tenant (xr_actor r) (xr_method r) (xa_result ans) s
       (journal_items costs ls) (tb_books (sh_till sh)) = Inr (tb_books (sh_till sh'))"
    "sh_stock sh' = deduct_stock (ids 5) tenant (ct_store_id ct) ls (sh_stock sh)"
    "check_stock (sh_stock sh) (ct_store_id ct) ls = Inr ()"
    "map_option ct_status (get_cart_by_id (sh_cart sh') (ct_id ct)) = Some ''checked_out''"
proof -
  define cmd where "cmd = sale_command tenant ct r (text_or (xr_customer_name r) (ct_customer_name ct))
    (text_or (xr_customer_phone r) (ct_customer_phone ct)) disc ls"
  obtain res s items ws where plan: "plan_sale_creation (ids 0) (ids 1 0) now day cmd = (res, s, items, ws)"
    by (metis surj_pair)
  have s: "so_status s = ''pending''" "so_id s = ss_id res"
    using plan by (auto simp: plan_sale_creation_def Let_def)
  obtain t bk cdb cart_items cart_ws where
    chk: "check_stock (sh_stock sh) (ct_store_id ct) ls = Inr ()" and
    t: "store_sale s items ws (sh_till sh) = Inr t" and
    bk: "book_checkout (ids 4) now day tenant (xr_actor r) (xr_method r) res s (journal_items costs ls)
      (tb_books t) = Inr bk" and
    cdb: "finish_cart (ct_id ct) cart_items cart_ws (sh_cart sh) = Inr cdb" and
    ans: "xa_result ans = res" and
    sh': "sh' = sh\<lparr>sh_till := t\<lparr>tb_books := bk\<rparr>, sh_cart := cdb,
      sh_stock := deduct_stock (ids 5) tenant (ct_store_id ct) ls (sh_stock sh)\<rparr>"
    using assms plan unfolding commit_checkout_def Let_def cmd_def[symmetric]
    by (auto simp: res_bind_eq_Inr answer_of_def plan cmd_def[symmetric] split: prod.splits)
  have "tb_books t = tb_books (sh_till sh)"
    "db_sales (tb_sales t) = db_sales (tb_sales (sh_till sh)) @ [stored_sale s]"
    using t by (auto simp: store_sale_def res_bind_eq_Inr emit_def create_sale_def create_sale_items_def
        split: if_splits)
  then show ?thesis
    using that[of "stored_sale s"] s chk bk finished_cart(1)[OF cdb] ans
    by (simp add: sh' book_checkout_stored)
qed


definition stocked_shop :: shop where
  "stocked_shop = sample_shop\<lparr>sh_products := [\<lparr>pd_id = ''p'', pd_tenant_id = ''t'', pd_public_id = ''P'',
       pd_name = ''Rice'', pd_selling_price = 100, pd_block_sale_after_expiry = False,
       pd_expiry_date = None\<rparr>],
     sh_till := (sh_till sample_shop)\<lparr>tb_books := create_account (sample_account ''A'' ''1000'' ''asset'')
       (create_account (sample_account ''B'' ''4000'' ''revenue'') no_books)\<rparr>\<rparr>"

definition sample_cart :: cart where
  "sample_cart = hd (cd_carts (sh_cart sample_shop))"

definition walk_in :: checkout_request where
  "walk_in = \<lparr>xr_actor = None, xr_items = Some [(''P'', PInt 1)], xr_customer_name = None,
     xr_customer_phone = None, xr_store_id = None, xr_coupon = None, xr_discount_id = None,
     xr_method = ''cash''\<rparr>"

definition one_rice :: sale_item_line where
  "one_rice = taxed_line ''p'' ''Rice'' 1 100 []"

lemma one_rice_taxes:
  "tx_breakdown (sale_taxes (sale_command ''t'' sample_cart walk_in None None 0 [one_rice])) = []"
  "tx_total_tax (sale_taxes (sale_command ''t'' sample_cart walk_in None None 0 [one_rice])) = 0"
proof -
  have n: "fl 1 = 1" "fl 100 = 100" using fl_of_int[of 1] fl_of_int[of 100] by simp_all
  have g: "line_gross (sale_tax_line one_rice) = 100" "line_discount (sale_tax_line one_rice) = 0"
    by (simp_all add: line_gross_def line_discount_def sale_tax_line_def one_rice_def taxed_line_def
        fmul_def fdiv_def n)
  show "tx_breakdown (sale_taxes (sale_command ''t'' sample_cart walk_in None None 0 [one_rice])) = []"
    "tx_total_tax (sale_taxes (sale_command ''t'' sample_cart walk_in None None 0 [one_rice])) = 0"
    using g tax_round_kob[of 0]
    by (simp_all add: sale_taxes_def compute_taxes_def sale_command_def Let_def py_fsum_def
        line_base_def fsub_def n sale_tax_line_def one_rice_def taxed_line_def apply_taxes_def group_tax_lines_def)
qed

lemma prepared:
  "prepare_checkout 0 ''t'' sample_cart [(''P'', PInt 1)] stocked_shop =
    Inr ([\<lparr>xi_product_public_id = ''P'', xi_qty = 1\<rparr>],
      [(''p'', ''P'', ''Rice'', 100, 1, ''st'')], [one_rice], [])"
proof -
  have "fl 100 = 100" using fl_of_int[of 100] by simp
  moreover have "flt_repr 100 = 100" using dec_of_str_kob[of 10000] fl_of_int[of 100] by (simp add: kob_def)
  ultimately show ?thesis
  by (simp add: prepare_checkout_def validated_items_def public_id_of_def looks_like_uuid_def valid_checkout_item_def
      Let_def products_of_def stocked_shop_def sample_shop_def check_products_def sale_blocked_by_expiry_def
      checked_lines_def sale_line_def product_of_def product_tax_map_def taxes_of_product_def valid_sale_line_def
      taxed_line_def one_rice_def resolved_line_def store_product_of_def sample_cart_def cost_map_def)
qed


lemma sample_stock_ok: "check_stock (sample_stock 500) ''st'' [one_rice] = Inr ()"
proof -
  have "kob 500 = 5" "fl 1 = 1" using fl_of_int[of 5] fl_of_int[of 1] by (simp_all add: kob_def)
  then show ?thesis using fl_of_int[of 5]
    by (simp add: check_stock_def sample_stock_def one_rice_def taxed_line_def available_qty_def
        sample_balance_def fsub_def Let_def)
qed

lemma sample_booked:
  assumes "ss_tax res = 0" "so_tax_breakdown s = None"
  shows "\<exists>bk. book_checkout jids now day ''t'' actor ''cash'' res s (journal_items [] [one_rice])
    (tb_books (sh_till stocked_shop)) = Inr bk"
proof -
  have "total_cost (journal_items [] [one_rice]) = 0"
    by (simp add: total_cost_def journal_items_def py_fsum_def num_truthy_def)
  then show ?thesis
    using assms
    by (simp add: book_checkout_def plan_sale_journal_def Let_def sale_tax_amount_def tax_entries_def
        sale_debit_account_def draft_entry_def checkout_entry_def code_to_account_def stocked_shop_def
        sample_shop_def create_account_def sample_account_def no_books_def write_posted_def post_journal_def
        create_journal_def create_journal_entry_def draft_journal_def)
qed

lemma walk_in_committed:
  "\<exists>ans sh'. commit_checkout (\<lambda>_ _. ''id'') 1 ''d'' ''t'' sample_cart walk_in
      [\<lparr>xi_product_public_id = ''P'', xi_qty = 1\<rparr>] [(''p'', ''P'', ''Rice'', 100, 1, ''st'')] [one_rice] []
      0 None stocked_shop = Inr (ans, sh')"
proof -
  let ?c = "sale_command ''t'' sample_cart walk_in None None 0 [one_rice]"
  obtain res s items ws where plan: "plan_sale_creation (\<lambda>_. ''id'') ''id'' 1 ''d'' ?c = (res, s, items, ws)"
    by (metis surj_pair)
  then have "ss_tax res = 0" "so_tax_breakdown s = None"
    using one_rice_taxes by (auto simp: plan_sale_creation_def Let_def list_or_None_def)
  from sample_booked[OF this] obtain bk where
    bk: "book_checkout (\<lambda>_. ''id'') 1 ''d'' ''t'' None ''cash'' res s (journal_items [] [one_rice])
      (tb_books (sh_till stocked_shop)) = Inr bk" by blast
  have t: "\<exists>t. store_sale s items ws (sh_till stocked_shop) = Inr t \<and>
      tb_books t = tb_books (sh_till stocked_shop)"
    by (simp add: store_sale_def stocked_shop_def sample_shop_def create_sale_def no_sales_def get_sale_by_id_def
        get_sale_by_number_def emit_def)
  then obtain t where t: "store_sale s items ws (sh_till stocked_shop) = Inr t"
      "tb_books t = tb_books (sh_till stocked_shop)" by blast
  have fields: "ct_id sample_cart = ''k''" "ct_store_id sample_cart = ''st''"
    "sh_stock stocked_shop = sample_stock 500" "xr_actor walk_in = None" "xr_method walk_in = ''cash''"
    "text_or (xr_customer_name walk_in) (ct_customer_name sample_cart) = None"
    "text_or (xr_customer_phone walk_in) (ct_customer_phone sample_cart) = None"
    by (simp_all add: sample_cart_def stocked_shop_def sample_shop_def walk_in_def text_or_def str_truthy_def)
  have fin: "\<exists>db. finish_cart ''k'' cs ws' (sh_cart stocked_shop) = Inr db" for cs ws'
    by (simp add: finish_cart_def update_cart_status_def bulk_add_cart_items_def get_cart_by_id_def
        stocked_shop_def sample_shop_def)
  have chk: "\<exists>out. plan_checkout eid now c ct [fst (bulk_item now c iid jid p)] = Inr out" for eid now c ct iid jid p
    by (cases p) (auto simp: plan_checkout_def items_total_def bulk_item_def py_mul_def py_sum_def split: prod.splits)
  obtain fdb where "\<And>cs ws'. finish_cart ''k'' cs ws' (sh_cart stocked_shop) = Inr (fdb cs ws')"
    using fin by metis
  moreover obtain pc where "\<And>eid now c ct iid jid p. plan_checkout eid now c ct [fst (bulk_item now c iid jid p)] =
      Inr (pc eid now c ct iid jid p)" using chk by metis
  ultimately show ?thesis
    using plan bk t sample_stock_ok
    by (simp add: commit_checkout_def Let_def fields plan_bulk_add_items_def)
qed

lemma walk_in_sold:
  "\<exists>ans sh'. new_checkout (\<lambda>_ _. ''id'') 1 0 ''d'' ''t'' sample_cart walk_in [(''P'', PInt 1)] stocked_shop =
    (Inr ans, sh')"
proof -
  have "checkout_discount 1 ''t'' walk_in [one_rice] (sh_promotions stocked_shop) =
      Inr (0, None, sh_promotions stocked_shop)"
    by (simp add: checkout_discount_def walk_in_def str_truthy_def)
  with walk_in_committed show ?thesis by (auto simp: new_checkout_def prepared)
qed


end
