(* ===== verification/DocumentFlows.thy ===== *)
theory DocumentFlows
  imports Documents CheckoutFlows
begin

text \<open>
  Properties of \<open>Documents\<close>: the statuses documents can reach under every sequence of operations, what a
  conversion to a sale keeps of the quoted figures, what a failed conversion leaves behind, and what
  reaches the books of a sent or paid invoice.
\<close>

section \<open>Statuses\<close>

definition well_typed_document :: "document \<Rightarrow> bool" where
  "well_typed_document d \<longleftrightarrow> dc_type d \<in> set doc_types \<and>
     (dc_status d \<in> set (allowed_statuses (dc_type d)) \<or>
      dc_type d = ''invoice'' \<and> dc_status d = ''accepted'' \<and> dc_linked_sale_id d \<noteq> None)"

definition well_typed_desk :: "desk \<Rightarrow> bool" where
  "well_typed_desk k \<longleftrightarrow> list_all well_typed_document (dk_documents k) \<and>
     distinct (map dc_id (dk_documents k)) \<and> distinct (map dc_number (dk_documents k))"

inductive desk_step :: "desk \<Rightarrow> desk \<Rightarrow> bool" where
  create: "create_document ids eid fid now day header rs k = Inr (res, k') \<Longrightarrow> desk_step k k'"
| status: "update_document_status eid now tenant did actor new_status k = Inr (ans, k') \<Longrightarrow> desk_step k k'"
| convert: "convert_document_to_sale cids now day tenant did cashier corr k = (out, k') \<Longrightarrow> desk_step k k'"

lemma allowed_of:
  "allowed_statuses ''quote'' = [''draft'', ''sent'', ''accepted'', ''expired'', ''void'']"
  "allowed_statuses ''invoice'' = [''draft'', ''sent'', ''paid'', ''overdue'', ''void'']"
  "allowed_statuses ''receipt'' = [''draft'', ''issued'', ''void'']"
  "allowed_statuses ''purchase_order'' = [''draft'', ''sent'', ''confirmed'', ''received'', ''cancelled'']"
  by (simp_all add: allowed_statuses_def VALID_TRANSITIONS_def)

lemma stored_document_keeps [simp]:
  "dc_id (stored_document d) = dc_id d" "dc_number (stored_document d) = dc_number d"
  "dc_type (stored_document d) = dc_type d" "dc_status (stored_document d) = dc_status d"
  "dc_linked_sale_id (stored_document d) = dc_linked_sale_id d"
  by (simp_all add: stored_document_def)

lemma insert_well_typed:
  assumes "insert_document d k = Inr k'" "well_typed_document d" "well_typed_desk k"
  shows "well_typed_desk k'"
proof -
  have fresh: "dc_id d \<notin> set (map dc_id (dk_documents k))" "dc_number d \<notin> set (map dc_number (dk_documents k))"
    and k': "dk_documents k' = dk_documents k @ [stored_document d]"
    using assms(1) by (auto simp: insert_document_def find_document_def get_document_by_number_def find_None_iff
        split: if_splits)
  then show ?thesis using assms(2,3) by (auto simp: well_typed_desk_def well_typed_document_def)
qed

lemma change_well_typed:
  assumes "change_document did f k = Inr k'" "well_typed_desk k"
    and "\<And>d. dc_id (f d) = dc_id d \<and> dc_number (f d) = dc_number d"
    and "\<And>d. d \<in> set (dk_documents k) \<Longrightarrow> dc_id d = did \<Longrightarrow> well_typed_document (f d)"
  shows "well_typed_desk k'"
proof -
  have k': "dk_documents k' = map (\<lambda>d. if dc_id d = did then f d else d) (dk_documents k)"
    using assms(1) by (auto simp: change_document_def split: if_splits)
  have "map dc_id (dk_documents k') = map dc_id (dk_documents k)"
    "map dc_number (dk_documents k') = map dc_number (dk_documents k)"
    using assms(3) by (simp_all add: k')
  moreover have "list_all well_typed_document (dk_documents k')"
    using assms(2,4) by (auto simp: well_typed_desk_def k' list_all_iff)
  ultimately show ?thesis using assms(2) by (simp add: well_typed_desk_def)
qed

lemma create_well_typed:
  assumes "create_document ids eid fid now day header rs k = Inr (res, k')" "well_typed_desk k"
  shows "well_typed_desk k'"
proof -
  let ?tm = "product_tax_map (dk_tax_rows k) (dk_product_taxes k) (dcc_tenant_id header) (map dq_product_id rs)"
  define c where "c = with_lines header (map (requested_line ?tm (chosen_taxes k (dcc_tenant_id header) rs)) rs)"
  obtain r doc items ws where p: "plan_document_creation ids eid now day c = (r, doc, items, ws)"
    by (metis surj_pair)
  have v: "valid_document_command c" and
    "res_bind (insert_document doc k) (\<lambda>k1.
        let k2 = create_document_items items k1;
            (_, fees) = book_document_fee fid (dcc_tenant_id header) (dc_id doc) None (tb_fees (dk_till k2))
        in Inr (r, k2\<lparr>dk_outbox := dk_outbox k2 @ ws, dk_till := (dk_till k2)\<lparr>tb_fees := fees\<rparr>\<rparr>)) =
      (Inr (res, k') :: exn + document_result \<times> desk)"
    using assms(1) p unfolding create_document_def Let_def c_def[symmetric]
    by (auto simp: res_bind_eq_Inr split: if_splits)
  then obtain k1 where c: "insert_document doc k = Inr k1" "dk_documents k' = dk_documents k1"
    by (auto simp: res_bind_eq_Inr Let_def create_document_items_def split_def)
  have "well_typed_document doc"
    using p v by (auto simp: plan_document_creation_def Let_def well_typed_document_def
        valid_document_command_def doc_types_def allowed_of split: if_splits)
  from insert_well_typed[OF c(1) this assms(2)] show ?thesis using c(2) by (simp add: well_typed_desk_def)
qed

lemma owned_document_eq:
  "owned_document k tenant did = Some d \<longleftrightarrow> find_document k did = Some d \<and> dc_tenant_id d = tenant"
  by (auto simp: owned_document_def split: option.splits if_splits)

lemma found_document:
  assumes "find_document k did = Some d" "well_typed_desk k" "d' \<in> set (dk_documents k)" "dc_id d' = did"
  shows "d' = d"
proof -
  have "d \<in> set (dk_documents k)" "dc_id d = did"
    using assms(1) by (auto simp: find_document_def dest: find_Some_set)
  moreover have "inj_on dc_id (set (dk_documents k))"
    using assms(2) by (simp add: well_typed_desk_def distinct_map)
  ultimately show ?thesis using assms(3,4) by (auto dest: inj_onD)
qed

lemma status_well_typed:
  assumes "update_document_status eid now tenant did actor new_status k = Inr (ans, k')" "well_typed_desk k"
  shows "well_typed_desk k'"
proof -
  obtain d k1 where d: "find_document k did = Some d" and ok: "new_status \<in> set (allowed_statuses (dc_type d))"
    and k1: "set_document_status did new_status k = Inr k1" "dk_documents k' = dk_documents k1"
    using assms(1)
    by (auto simp: update_document_status_def plan_status_change_def res_bind_eq_Inr owned_document_eq
        split: option.splits if_splits)
  have ty: "dc_type d \<in> set doc_types"
    using d assms(2) by (auto simp: find_document_def well_typed_desk_def list_all_iff well_typed_document_def
        dest!: find_Some_set)
  have "well_typed_desk k1"
    by (rule change_well_typed[OF k1(1)[unfolded set_document_status_def] assms(2)])
      (use found_document[OF d assms(2)] ok ty in \<open>auto simp: well_typed_document_def\<close>)
  then show ?thesis using k1(2) by (simp add: well_typed_desk_def)
qed

lemma service_keeps_documents:
  "create_sale_via_service ids now day r k = (out, k') \<Longrightarrow> dk_documents k' = dk_documents k"
  by (auto simp: create_sale_via_service_def Let_def split: if_splits prod.splits sum.splits)

lemma convert_well_typed:
  assumes "convert_document_to_sale ids now day tenant did cashier corr k = (out, k')" "well_typed_desk k"
  shows "well_typed_desk k'"
proof (cases "\<exists>d sid k1 k2. find_document k did = Some d \<and> dc_type d \<in> {''quote'', ''invoice''} \<and>
    dk_documents k1 = dk_documents k \<and> set_document_status did ''accepted'' k1 = Inr k2 \<and>
    link_document_to_sale did sid k2 = Inr k'")
  case True
  then obtain d sid k1 k2 where d: "find_document k did = Some d" "dc_type d \<in> {''quote'', ''invoice''}"
    and k1: "dk_documents k1 = dk_documents k" and k2: "set_document_status did ''accepted'' k1 = Inr k2"
    and k': "link_document_to_sale did sid k2 = Inr k'" by blast
  let ?f = "\<lambda>x. x\<lparr>dc_status := ''accepted'', dc_linked_sale_id := Some sid\<rparr>"
  have "dk_documents k' = map (\<lambda>x. if dc_id x = did then ?f x else x) (dk_documents k)"
    using k1 k2 k' by (auto simp: set_document_status_def link_document_to_sale_def change_document_def
        split: if_splits)
  then have ch: "change_document did ?f k = Inr (k\<lparr>dk_documents := dk_documents k'\<rparr>)"
    using d(1) by (simp add: change_document_def)
  have "well_typed_desk (k\<lparr>dk_documents := dk_documents k'\<rparr>)"
    by (rule change_well_typed[OF ch assms(2)])
      (use found_document[OF d(1) assms(2)] d(2) in \<open>auto simp: well_typed_document_def doc_types_def allowed_of\<close>)
  then show ?thesis by (simp add: well_typed_desk_def)
next
  case False
  have "dk_documents k' = dk_documents k"
  proof (cases "owned_document k tenant did")
    case None
    then show ?thesis using assms(1) by (simp add: convert_document_to_sale_def)
  next
    case (Some d)
    then have d: "find_document k did = Some d" by (simp add: owned_document_eq)
    show ?thesis
      using assms(1) Some False d
      unfolding convert_document_to_sale_def Let_def
      by (auto simp: res_bind_eq_Inr dest!: service_keeps_documents split: if_splits sum.splits prod.splits)
  qed
  then show ?thesis using assms(2) by (simp add: well_typed_desk_def)
qed

text \<open>C28: Documents keep their types. From any desk on which numbers and identifiers are unique and
  every document has one of the four types and a status listed for it, no sequence of creations,
  status changes and conversions, failed ones included, leads to a document outside its list, with one
  exception: a converted invoice is \<open>accepted\<close>, a status invoices do not have.\<close>

theorem documents_stay_well_typed:
  assumes "desk_step\<^sup>*\<^sup>* k k'" "well_typed_desk k"
  shows "well_typed_desk k'"
  using assms
proof (induction rule: rtranclp_induct)
  case (step k1 k2)
  have "well_typed_desk k1" using step by blast
  with step(2) show ?case
    by cases (auto intro: create_well_typed status_well_typed convert_well_typed)
qed


section \<open>A conversion keeps what was quoted\<close>

lemma price_tax_twice:
  assumes "float_of (td_rate t) = kob R" "\<bar>R\<bar> \<le> 10 ^ 15"
  shows "price_tax base (price_tax base t) = price_tax base t"
proof -
  have n: "str_or (Some (str_or x ''Tax'')) ''Tax'' = str_or x ''Tax''" for x
    by (cases x) (auto simp: str_or_def)
  have a: "account_for \<lparr>td_id = i, td_name = nm, td_rate = r, td_amount = am,
      td_account_code = Some (account_for t)\<rparr> = account_for t" for i nm r am
    by (auto simp: account_for_def str_or_def DEFAULT_TAX_ACCOUNT_def split: option.splits)
  show ?thesis using assms by (simp add: price_tax_def Let_def n a tax_round_kob)
qed

lemma dedup_priced: "dedup_key t \<noteq> [] \<Longrightarrow> dedup_key (price_tax base t) = dedup_key t"
  by (auto simp: dedup_key_def price_tax_def Let_def str_or_def split: option.splits if_splits)

lemma apply_distinct:
  assumes "distinct (map dedup_key ts)" "dedup_key ` set ts \<inter> seen = {}"
  shows "fst (fold (apply_tax base) ts (applied, seen)) = applied @ map (price_tax base) ts"
  using assms
proof (induction ts arbitrary: applied seen)
  case (Cons t ts)
  then show ?case by (auto simp: apply_tax_def)
qed simp

text \<open>Taxing a base with its own snapshots gives the snapshots.\<close>

lemma apply_taxes_twice:
  assumes "\<forall>t \<in> set ts. dedup_key t \<noteq> [] \<and> (\<exists>R. float_of (td_rate t) = kob R \<and> \<bar>R\<bar> \<le> 10 ^ 15)"
  shows "apply_taxes base (apply_taxes base ts) = apply_taxes base ts"
proof -
  have ne: "\<forall>t \<in> set ts. dedup_key t \<noteq> []" using assms by blast
  obtain us seen where us: "fold (apply_tax base) ts ([], {}) = ([] @ map (price_tax base) us, seen)"
    "subseq us ts" "distinct (map dedup_key us)" using fold_apply_tax[OF ne, of base "[]" "{}"] by blast
  have sub: "set us \<subseteq> set ts" using us(2) by (induction rule: list_emb.induct) auto
  have ap: "apply_taxes base ts = map (price_tax base) us" by (simp add: apply_taxes_def us(1))
  have "map dedup_key (map (price_tax base) us) = map dedup_key us"
    using sub ne by (auto simp: dedup_priced subset_iff)
  then have "apply_taxes base (map (price_tax base) us) = map (price_tax base) (map (price_tax base) us)"
    using apply_distinct[of "map (price_tax base) us" "{}" base "[]"] us(3)
    by (simp add: apply_taxes_def del: map_map)
  also have "\<dots> = map (price_tax base) us"
  proof -
    have "price_tax base (price_tax base t) = price_tax base t" if "t \<in> set us" for t
      using sub assms that price_tax_twice by blast
    then show ?thesis by simp
  qed
  finally show ?thesis by (simp add: ap)
qed

lemma apply_taxes_nonempty: "ts \<noteq> [] \<Longrightarrow> apply_taxes base ts \<noteq> []"
proof -
  have grow: "fst s \<noteq> [] \<Longrightarrow> fst (fold (apply_tax base) us s) \<noteq> []" for us s
    by (induction us arbitrary: s) (auto simp: apply_tax_def split: prod.splits)
  assume "ts \<noteq> []"
  then show ?thesis
    by (cases ts) (auto simp: apply_taxes_def apply_tax_def intro!: grow)
qed

definition quoted_line :: "document_item_line \<Rightarrow> bool" where
  "quoted_line l \<longleftrightarrow> line_taxes l \<noteq> [] \<and>
     (\<exists>q p d. dl_qty l = of_int q / 100 \<and> dl_unit_price l = of_int p / 100 \<and> dl_discount_pct l = of_int d / 100 \<and>
        \<bar>q\<bar> \<le> 10 ^ 12 \<and> \<bar>p\<bar> \<le> 10 ^ 12 \<and> \<bar>d\<bar> \<le> 10 ^ 12) \<and>
     (\<forall>t \<in> set (line_taxes l). dedup_key t \<noteq> [] \<and> (\<exists>R. float_of (td_rate t) = kob R \<and> \<bar>R\<bar> \<le> 10 ^ 15))"

lemma fl_stored_cents:
  assumes "x = of_int k / 100" "\<bar>k\<bar> \<le> 10 ^ 12"
  shows "fl (dec_of_str (column_num (PFlt (fl x)))) = fl x"
proof -
  have c: "column_value (PFlt (kob k)) = of_int k / 100" using column_value_kob[of k] assms(2) by simp
  show ?thesis unfolding assms(1) kob_def[symmetric] column_num_def dec_of_str.simps c by (simp only: kob_def)
qed

lemma line_parts_taxes [simp]:
  "line_gross (l\<lparr>tl_taxes := ts\<rparr>) = line_gross l" "line_discount (l\<lparr>tl_taxes := ts\<rparr>) = line_discount l"
  "line_base (l\<lparr>tl_taxes := ts\<rparr>) s = line_base l s"
  by (simp_all add: line_gross_def line_discount_def line_base_def)

lemma compute_retaxed:
  fixes ls :: "tax_line list" and cd :: num
  defines "calc \<equiv> compute_taxes ls cd"
  assumes "\<forall>l \<in> set ls. \<forall>base. apply_taxes base (apply_taxes base (tl_taxes l)) = apply_taxes base (tl_taxes l)"
    and "py_float cd' = py_float cd"
  shows "compute_taxes (map2 (\<lambda>l ts. l\<lparr>tl_taxes := ts\<rparr>) ls (tx_line_taxes calc)) cd' = calc"
proof -
  define shares where "shares = cart_shares (max (py_float cd) 0) (py_fsum (map line_gross ls))
    (max (py_float cd) 0) (map line_gross ls)"
  define bases where "bases = map2 line_base ls shares"
  define taxed where "taxed = map2 (\<lambda>base l. apply_taxes base (tl_taxes l)) bases ls"
  let ?ls = "map2 (\<lambda>l ts. l\<lparr>tl_taxes := ts\<rparr>) ls taxed"
  have len: "length shares = length ls" "length bases = length ls" "length taxed = length ls"
    by (simp_all add: shares_def bases_def taxed_def)
  have taxed: "tx_line_taxes calc = taxed"
    by (simp add: calc_def compute_taxes_def Let_def taxed_def bases_def shares_def)
  have g: "map line_gross ?ls = map line_gross ls" "map line_discount ?ls = map line_discount ls"
    using len by (auto intro!: nth_equalityI)
  have b: "map2 line_base ?ls shares = bases" unfolding bases_def
    using len by (auto intro!: nth_equalityI)
  have t: "map2 (\<lambda>base l. apply_taxes base (tl_taxes l)) bases ?ls = taxed"
  proof (rule nth_equalityI)
    fix n assume "n < length (map2 (\<lambda>base l. apply_taxes base (tl_taxes l)) bases ?ls)"
    then have n: "n < length ls" using len by simp
    have "taxed ! n = apply_taxes (bases ! n) (tl_taxes (ls ! n))" using n len by (simp add: taxed_def)
    then show "map2 (\<lambda>base l. apply_taxes base (tl_taxes l)) bases ?ls ! n = taxed ! n"
      using n len assms(2) by simp
  qed (simp add: len)
  show ?thesis
    unfolding taxed
    unfolding compute_taxes_def Let_def assms(3) g shares_def[symmetric] b t calc_def
    by (simp add: shares_def[symmetric] bases_def[symmetric] taxed_def[symmetric])
qed

lemma conversion_taxes:
  fixes c :: document_create_command
  assumes "plan_document_creation ids eid now day c = (res, doc, items, ws)"
    and "\<forall>l \<in> set (dcc_items c). quoted_line l"
  shows "sale_taxes (service_command tm (conversion_request fresh tenant cashier st corr d
    (map stored_document_item items)) store) = doc_calc c"
proof -
  let ?ls = "dcc_items c" and ?calc = "doc_calc c"
  let ?n = "length ?ls"
  have items: "items = doc_items_of ids (ids 0) ?ls ?calc"
    using assms(1) by (simp add: plan_document_creation_def Let_def)
  have len: "length (tx_line_taxes ?calc) = ?n" "length (tx_line_rates ?calc) = ?n"
    "length (tx_line_bases ?calc) = ?n" "length items = ?n"
    by (simp_all add: doc_calc_def compute_taxes_def Let_def items doc_items_of_def)
  define shares where "shares = cart_shares (max (py_float (PInt 0)) 0)
    (py_fsum (map line_gross (map doc_tax_line ?ls))) (max (py_float (PInt 0)) 0) (map line_gross (map doc_tax_line ?ls))"
  define bases where "bases = map2 line_base (map doc_tax_line ?ls) shares"
  have lens: "length bases = ?n" by (simp add: bases_def shares_def)
  have taxed: "tx_line_taxes ?calc = map2 (\<lambda>base l. apply_taxes base (tl_taxes l)) bases (map doc_tax_line ?ls)"
    by (simp add: doc_calc_def compute_taxes_def Let_def bases_def shares_def)
  have lines: "map sale_tax_line (map (service_line tm) (map (converted_line fresh)
      (zip [0..<length items] (map stored_document_item items)))) =
    map2 (\<lambda>l ts. l\<lparr>tl_taxes := ts\<rparr>) (map doc_tax_line ?ls) (tx_line_taxes ?calc)"
  proof (rule nth_equalityI)
    fix n assume "n < length (map sale_tax_line (map (service_line tm) (map (converted_line fresh)
      (zip [0..<length items] (map stored_document_item items)))))"
    then have n: "n < ?n" using len by simp
    let ?l = "?ls ! n" and ?ts = "tx_line_taxes ?calc ! n"
    have l: "quoted_line ?l" using assms(2) n by simp
    then obtain q p dd where two: "dl_qty ?l = of_int q / 100" "dl_unit_price ?l = of_int p / 100"
      "dl_discount_pct ?l = of_int dd / 100" "\<bar>q\<bar> \<le> 10 ^ 12" "\<bar>p\<bar> \<le> 10 ^ 12" "\<bar>dd\<bar> \<le> 10 ^ 12"
      by (auto simp: quoted_line_def)
    have "?ts = apply_taxes (bases ! n) (line_taxes ?l)"
      using n lens by (simp add: taxed doc_tax_line_def)
    then have ne: "?ts \<noteq> []" using l apply_taxes_nonempty by (simp add: quoted_line_def)
    have item: "items ! n = \<lparr>dt_id = ids (2 + n), dt_document_id = ids 0, dt_product_id = dl_product_id ?l,
        dt_description = dl_description ?l, dt_qty = PFlt (fl (dl_qty ?l)),
        dt_unit_price = PFlt (fl (dl_unit_price ?l)), dt_discount_pct = PFlt (fl (dl_discount_pct ?l)),
        dt_tax_rate = Some (PFlt (tx_line_rates ?calc ! n)),
        dt_tax_breakdown = Some ?ts, dt_line_total = PFlt (tx_line_bases ?calc ! n)\<rparr>"
      using n len ne by (simp add: items doc_items_of_def list_or_None_def)
    show "map sale_tax_line (map (service_line tm) (map (converted_line fresh)
        (zip [0..<length items] (map stored_document_item items)))) ! n =
      map2 (\<lambda>l ts. l\<lparr>tl_taxes := ts\<rparr>) (map doc_tax_line ?ls) (tx_line_taxes ?calc) ! n"
      using n len ne fl_stored_cents[OF two(1,4)] fl_stored_cents[OF two(2,5)] fl_stored_cents[OF two(3,6)]
      by (simp add: item converted_line_def service_line_def sale_tax_line_def stored_document_item_def doc_tax_line_def)
  qed (simp add: len)
  have "compute_taxes (map2 (\<lambda>l ts. l\<lparr>tl_taxes := ts\<rparr>) (map doc_tax_line ?ls) (tx_line_taxes ?calc)) (PFlt (fl 0)) =
      ?calc"
    unfolding doc_calc_def
    by (rule compute_retaxed) (use assms(2) apply_taxes_twice in \<open>auto simp: quoted_line_def doc_tax_line_def\<close>)
  then show ?thesis
    using lines by (simp add: sale_taxes_def service_command_def conversion_request_def)
qed

lemma service_sale_cases:
  assumes "create_sale_via_service ids now day r k = (out, k')"
  obtains (refused) e where "out = Inl e" "k' = k"
  | (unbooked) e s where "out = Inl e" "so_status s = ''pending''"
      "db_sales (tb_sales (dk_till k')) = db_sales (tb_sales (dk_till k)) @ [s]"
      "tb_books (dk_till k') = tb_books (dk_till k)" "dk_documents k' = dk_documents k"
  | (sold) store tm s items ws res where "out = Inr res" "dk_documents k' = dk_documents k"
      "sv_store_id r = Some store"
      "plan_sale_creation (ids 0) (ids 1 0) now day (service_command tm r store) = (res, s, items, ws)"
proof (cases "\<not> str_truthy (sv_store_id r)")
  case True
  then show ?thesis using assms refused by (auto simp: create_sale_via_service_def)
next
  case False
  then obtain store where store: "sv_store_id r = Some store" "store \<noteq> []"
    by (auto simp: str_truthy_def split: option.splits)
  define tm where "tm = product_tax_map (dk_tax_rows k) (dk_product_taxes k) (sv_tenant_id r)
    (map (\<lambda>i. Some (srl_product_id i)) (sv_items r))"
  define c where "c = service_command tm r store"
  obtain res s items ws where plan: "plan_sale_creation (ids 0) (ids 1 0) now day c = (res, s, items, ws)"
    by (metis surj_pair)
  have pending: "so_status (stored_sale s) = ''pending''"
    using plan by (auto simp: plan_sale_creation_def Let_def)
  show ?thesis
  proof (cases "list_all valid_sale_line (sc_items c) \<and> valid_sale_command c")
    case invalid: False
    then have "out = Inl (ValueError [Txt ''ValidationError''])" "k' = k"
      using assms False store unfolding create_sale_via_service_def Let_def
      by (auto simp: tm_def[symmetric] c_def[symmetric])
    then show ?thesis by (rule refused)
  next
    case True
    show ?thesis
    proof (cases "store_sale s items ws (dk_till k)")
      case (Inl e)
      then have "out = Inl e" "k' = k"
        using assms False True store plan unfolding create_sale_via_service_def Let_def
        by (auto simp: tm_def[symmetric] c_def[symmetric])
      then show ?thesis by (rule refused)
    next
      case (Inr t)
      then have t: "tb_books t = tb_books (dk_till k)"
        "db_sales (tb_sales t) = db_sales (tb_sales (dk_till k)) @ [stored_sale s]"
        by (auto simp: store_sale_def res_bind_eq_Inr emit_def create_sale_def create_sale_items_def
            split: if_splits)
      consider e where "out = Inl e" "k' = k\<lparr>dk_till := t\<rparr>"
        | bk where "out = Inr res" "k' = k\<lparr>dk_till := t\<lparr>tb_books := bk\<rparr>\<rparr>"
        using assms False True store plan Inr unfolding create_sale_via_service_def Let_def
        by (auto simp: tm_def[symmetric] c_def[symmetric] split: sum.splits)
      then show ?thesis
      proof cases
        case (1 e)
        then show ?thesis using unbooked[OF 1(1) pending] t by simp
      next
        case (2 bk)
        then show ?thesis using sold[OF 2(1) _ store(1) plan[unfolded c_def]] by simp
      qed
    qed
  qed
qed

lemma conversion_cases:
  assumes "convert_document_to_sale ids now day tenant did cashier corr k = (out, k')"
  obtains (refused) e where "out = Inl e" "k' = k"
  | (unbooked) e s where "out = Inl e" "so_status s = ''pending''"
      "db_sales (tb_sales (dk_till k')) = db_sales (tb_sales (dk_till k)) @ [s]"
      "tb_books (dk_till k') = tb_books (dk_till k)" "dk_documents k' = dk_documents k"
  | (converted) d store st tm s items ws res where "out = Inr res" "find_document k did = Some d"
      "plan_sale_creation (ids 0) (ids 1 0) now day (service_command tm
        (conversion_request (ids 4) tenant cashier st corr d (get_document_items k did)) store) =
        (res, s, items, ws)"
proof (cases "owned_document k tenant did")
  case None
  then have "out = Inl (ValueError [Txt ''document_not_found''])" "k' = k"
    using assms by (simp_all add: convert_document_to_sale_def)
  then show ?thesis by (rule refused)
next
  case (Some d)
  define st where "st = conversion_store k cashier d"
  define r where "r = conversion_request (ids 4) tenant cashier st corr d (get_document_items k did)"
  obtain o1 k1 where svc: "create_sale_via_service ids now day r k = (o1, k1)" by (metis surj_pair)
  show ?thesis
  proof (cases "dc_type d \<in> {''quote'', ''invoice''} \<and> dc_status d \<in> {''sent'', ''accepted''} \<and>
      dc_linked_sale_id d = None \<and> st \<noteq> None")
    case False
    then have "\<exists>e. out = Inl e \<and> k' = k"
      using assms Some by (auto simp: convert_document_to_sale_def Let_def st_def split: if_splits)
    then show ?thesis using refused by blast
  next
    case True
    then have conv: "(case o1 of Inl e \<Rightarrow> (Inl e, k1)
        | Inr res \<Rightarrow> (case res_bind (set_document_status did ''accepted'' k1)
            (link_document_to_sale did (ss_id res)) of Inl e \<Rightarrow> (Inl e, k1) | Inr k2 \<Rightarrow> (Inr res, k2))) = (out, k')"
      using assms Some svc by (auto simp: convert_document_to_sale_def Let_def st_def r_def split: if_splits sum.splits)
    from svc show ?thesis
    proof (cases rule: service_sale_cases)
      case (refused e)
      then show ?thesis using conv that(1) by auto
    next
      case (unbooked e s)
      then show ?thesis using conv that(2) by auto
    next
      case (sold store tm s items ws res)
      have found: "find_document k did = Some d" using Some by (simp add: owned_document_eq)
      have "\<exists>k2. set_document_status did ''accepted'' k1 = Inr k2 \<and> find_document k2 did \<noteq> None"
        using found sold(2) by (auto simp: set_document_status_def change_document_def find_document_def
            find_map_update)
      then have "out = Inr res"
        using conv sold(1) by (auto simp: link_document_to_sale_def change_document_def)
      then show ?thesis using that(3)[OF _ found] sold(4) by (simp add: r_def)
    qed
  qed
qed


text \<open>A failed conversion may leave its sale behind. When a conversion raises, either nothing has
  changed, or one pending sale has been added that no journal and no document mentions; the
  document is as it was, so it can be converted again, and again adds a sale.\<close>

theorem failed_conversion_leaves_sale:
  assumes "convert_document_to_sale ids now day tenant did cashier corr k = (Inl e, k')"
  shows "k' = k \<or> (\<exists>s. so_status s = ''pending''
    \<and> db_sales (tb_sales (dk_till k')) = db_sales (tb_sales (dk_till k)) @ [s]
    \<and> tb_books (dk_till k') = tb_books (dk_till k)
    \<and> (\<forall>t i. owned_document k' t i = owned_document k t i))"
  using assms
proof (cases rule: conversion_cases)
  case (unbooked e' s)
  then show ?thesis by (auto simp: owned_document_def find_document_def)
qed simp_all

section \<open>Invoices and the books\<close>

text \<open>No status change of a document reaches the books. Whatever a status change stages, the
  handler that is to open and settle the receivable of an invoice returns at once, because
  it looks for the tenant in the payload, and the event carries it only in its envelope.\<close>

theorem invoice_events_not_booked:
  assumes "plan_status_change eid now c d = Inr (d', ws)" "w \<in> set ws"
  shows "handle_document_status_changed ids now' day parse_iso doc_store (ow_event w) bk = Inr bk"
proof -
  have "event_string (ow_event w) ''tenant_id'' = None"
    using assms by (auto simp: plan_status_change_def status_event_def document_status_changed_event_def
        event_string_def json_str_def split: if_splits)
  then show ?thesis by (simp add: handle_document_status_changed_def split: option.split)
qed

lemma create_entry_fields [simp]:
  "bk_receivables (create_journal_entry e bk) = bk_receivables bk"
  "bk_journals (create_journal_entry e bk) = bk_journals bk"
  "bk_accounts (create_journal_entry e bk) = bk_accounts bk"
  by (simp_all add: create_journal_entry_def)

lemma fold_entry_fields:
  "bk_receivables (fold create_journal_entry es bk) = bk_receivables bk"
  "bk_accounts (fold create_journal_entry es bk) = bk_accounts bk"
  by (induction es arbitrary: bk) simp_all

lemma add_posted_fields:
  "bk_receivables (add_posted now day jid tenant d rid rt store es bk) = bk_receivables bk"
  "bk_accounts (add_posted now day jid tenant d rid rt store es bk) = bk_accounts bk"
  "invoice_journals (add_posted now day jid tenant d did kind store es bk) tenant did kind \<noteq> []"
  "length (invoice_journals (add_posted now day jid tenant d did kind store es bk) tenant did kind) =
     Suc (length (invoice_journals bk tenant did kind))"
  by (simp_all add: add_posted_def fold_entry_fields fold_create_entries create_journal_def invoice_journals_def)

lemma sent_once: "invoice_receivables bk tenant did = [ar] \<Longrightarrow> invoice_to_send env tenant did bk = Inr None"
  by (simp add: invoice_to_send_def at_most_one_def split: option.split)

lemma to_send_unsent:
  "invoice_to_send env tenant did bk = Inr (Some due) \<Longrightarrow> invoice_receivables bk tenant did = []"
  by (auto simp: invoice_to_send_def res_bind_eq_Inr at_most_one_simps split: option.splits if_splits)

lemma invoice_sent_again:
  assumes "book_invoice_sent ids now day parse_iso doc_store env tenant did bk = Inr bk'"
  shows "book_invoice_sent ids' now' day' parse' store' env tenant did bk' = Inr bk'"
proof -
  obtain due where due: "invoice_to_send env tenant did bk = Inr due"
    using assms by (auto simp: book_invoice_sent_def res_bind_eq_Inr)
  show ?thesis
  proof (cases due)
    case None
    then show ?thesis using assms due by (auto simp: book_invoice_sent_def)
  next
    case (Some x)
    obtain ar where "bk_receivables bk' = bk_receivables bk @ [ar]" "ar_invoice_id ar = Some did"
      "ar_tenant_id ar = tenant"
      using assms due Some by (auto simp: book_invoice_sent_def res_bind_eq_Inr Let_def add_posted_fields
          stored_receivable_def split: prod.splits)
    then have "invoice_receivables bk' tenant did = [ar]"
      using to_send_unsent[OF due[unfolded Some]] by (simp add: invoice_receivables_def)
    then show ?thesis by (simp add: book_invoice_sent_def sent_once)
  qed
qed

lemma paid_once:
  "length (invoice_journals bk tenant did ''invoice_paid'') = 1 \<Longrightarrow> invoice_to_pay env tenant did bk = Inr None"
  by (auto simp: invoice_to_pay_def at_most_one_def split: option.split list.split)

lemma to_pay_unpaid:
  "invoice_to_pay env tenant did bk = Inr (Some due) \<Longrightarrow> invoice_journals bk tenant did ''invoice_paid'' = []"
  by (auto simp: invoice_to_pay_def res_bind_eq_Inr at_most_one_simps split: option.splits if_splits)

lemma update_ar_journals: "update_ar_payment i x bk = Inr bk' \<Longrightarrow> bk_journals bk' = bk_journals bk"
  by (auto simp: update_ar_payment_def res_bind_eq_Inr split: option.splits)

lemma invoice_paid_again:
  assumes "book_invoice_paid ids now day env tenant did bk = Inr bk'"
  shows "book_invoice_paid ids' now' day' env tenant did bk' = Inr bk'"
proof -
  obtain due where due: "invoice_to_pay env tenant did bk = Inr due"
    using assms by (auto simp: book_invoice_paid_def res_bind_eq_Inr)
  show ?thesis
  proof (cases due)
    case None
    then show ?thesis using assms due by (auto simp: book_invoice_paid_def)
  next
    case (Some x)
    obtain c r ar amount where x: "x = (c, r, ar, amount)" by (metis surj_pair)
    obtain bk1 where bk1: "update_ar_payment (ar_id ar) amount bk = Inr bk1" and
      "length (invoice_journals bk' tenant did ''invoice_paid'') =
        Suc (length (invoice_journals bk1 tenant did ''invoice_paid''))"
      using assms due Some x by (auto simp: book_invoice_paid_def res_bind_eq_Inr Let_def add_posted_fields)
    then have "length (invoice_journals bk' tenant did ''invoice_paid'') = 1"
      using to_pay_unpaid[OF due[unfolded Some]] update_ar_journals[OF bk1] by (simp add: invoice_journals_def)
    then show ?thesis by (simp add: book_invoice_paid_def paid_once)
  qed
qed

lemma add_posted_pair_balanced:
  "balanced_books bk \<Longrightarrow> bk_entries bk1 = bk_entries bk \<Longrightarrow>
    balanced_books (add_posted now day jid tenant d rid rt store
    [posted_entry now i1 jid tenant a x 0 d1 k1 y, posted_entry now i2 jid tenant b 0 x d2 k2 z] bk1)"
  by (rule add_posted_balanced, rule balanced_same_entries)

lemma invoice_sent_balanced:
  "book_invoice_sent ids now day parse_iso doc_store env tenant did bk = Inr bk' \<Longrightarrow> balanced_books bk \<Longrightarrow>
     balanced_books bk'"
  by (auto simp: book_invoice_sent_def res_bind_eq_Inr Let_def intro!: add_posted_pair_balanced
      split: option.splits)

lemma invoice_paid_balanced:
  "book_invoice_paid ids now day env tenant did bk = Inr bk' \<Longrightarrow> balanced_books bk \<Longrightarrow> balanced_books bk'"
  by (auto simp: book_invoice_paid_def res_bind_eq_Inr Let_def update_ar_entries intro!: add_posted_pair_balanced
      split: option.splits)


section \<open>The theorems on a desk\<close>

definition zero_rated :: tax_dict where
  "zero_rated = \<lparr>td_id = Some ''z'', td_name = Some ''Zero'', td_rate = Some (PFlt (kob 0)), td_amount = None,
     td_account_code = None\<rparr>"

definition sample_quote :: document_create_command where
  "sample_quote = \<lparr>dcc_tenant_id = ''t'', dcc_actor_id = ''u'', dcc_doc_type = ''quote'', dcc_customer_id = None,
     dcc_customer_name = None, dcc_customer_email = None, dcc_customer_phone = None,
     dcc_customer_address = None, dcc_due_date = None, dcc_notes = None, dcc_terms = None,
     dcc_items = [\<lparr>dl_product_id = Some ''p'', dl_description = ''Rice'', dl_qty = 2, dl_unit_price = 3,
       dl_discount_pct = 0, dl_tax_rate = None, dl_taxes = [zero_rated]\<rparr>],
     dcc_linked_sale_id = None, dcc_store_id = Some ''st'', dcc_correlation_id = None\<rparr>"

definition sample_plan :: "document_result \<times> document \<times> document_item list \<times> outbox_write list" where
  "sample_plan = plan_document_creation (\<lambda>_. ''d'') ''e'' 1 ''20250101'' sample_quote"

definition desk_with :: "books \<Rightarrow> string \<Rightarrow> desk" where
  "desk_with bk st = (case sample_plan of (res, doc, items, ws) \<Rightarrow>
     \<lparr>dk_documents = [stored_document (doc\<lparr>dc_status := st\<rparr>)], dk_items = map stored_document_item items,
      dk_outbox = ws, dk_till = \<lparr>tb_sales = no_sales, tb_fees = sample_fees, tb_payments = [], tb_intents = [],
        tb_subaccounts = [], tb_dvas = [], tb_books = bk, tb_outbox = []\<rparr>,
      dk_tax_rows = [], dk_product_taxes = [], dk_users = []\<rparr>)"

lemma sample_quoted: "\<forall>l \<in> set (dcc_items sample_quote). quoted_line l"
proof -
  have "\<exists>R. kob 0 = kob R \<and> \<bar>R\<bar> \<le> 10 ^ 15" by (rule exI[of _ 0]) simp
  moreover have "\<exists>q p d. (2::rat) = of_int q / 100 \<and> (3::rat) = of_int p / 100 \<and> (0::rat) = of_int d / 100 \<and>
      \<bar>q\<bar> \<le> 10 ^ 12 \<and> \<bar>p\<bar> \<le> 10 ^ 12 \<and> \<bar>d\<bar> \<le> 10 ^ 12"
    by (rule exI[of _ 200], rule exI[of _ 300], rule exI[of _ 0]) simp
  ultimately show ?thesis
    by (simp add: sample_quote_def quoted_line_def line_taxes_def zero_rated_def dedup_key_def str_or_def)
qed

lemma untaxed_sale_posted:
  assumes "total_cost items = 0" "sale_tax_amount x ts = 0"
  shows "\<exists>bk'. post_sale_journal ids now day ''t'' sid number items tot x ts cashier ''cash'' store False customer
    arid credit_books = Inr bk'"
  using assms
  by (simp add: post_sale_journal_def plan_sale_journal_def sale_debit_account_def Let_def
      draft_entry_def tax_entries_def resolve_entries_def
      resolve_entry_def code_to_account_def credit_books_def create_account_def sample_account_def no_books_def
      write_posted_def post_journal_def draft_journal_def create_journal_def create_journal_entry_def)

lemma quote_taxes:
  "tx_breakdown (doc_calc sample_quote) \<noteq> []" "sale_tax_amount x (tx_breakdown (doc_calc sample_quote)) = 0"
  "\<forall>t \<in> set (tx_breakdown (doc_calc sample_quote)). td_account_code t \<noteq> Some ''1000''"
  using tax_round_kob[of 0] round2_kob[of 0]
  by (simp_all add: doc_calc_def sample_quote_def compute_taxes_def Let_def doc_tax_line_def line_taxes_def
        apply_taxes_def apply_tax_def price_tax_def zero_rated_def group_tax_lines_def group_one_def
        group_entry_def sale_tax_amount_def py_fsum_def amount_of_def float_of_def num_or_zero_def
        fmul_def fdiv_def account_for_def DEFAULT_TAX_ACCOUNT_def str_or_def)

lemma desk_of_plan:
  assumes "sample_plan = (res, doc, items, ws)"
  shows "desk_with bk st = \<lparr>dk_documents = [stored_document (doc\<lparr>dc_status := st\<rparr>)],
      dk_items = map stored_document_item items, dk_outbox = ws,
      dk_till = \<lparr>tb_sales = no_sales, tb_fees = sample_fees, tb_payments = [], tb_intents = [],
        tb_subaccounts = [], tb_dvas = [], tb_books = bk, tb_outbox = []\<rparr>,
      dk_tax_rows = [], dk_product_taxes = [], dk_users = []\<rparr>"
    and "dc_id doc = ''d''" "dc_tenant_id doc = ''t''" "dc_type doc = ''quote''" "dc_store_id doc = Some ''st''"
    "dc_linked_sale_id doc = None" "dc_customer_name doc = None" "dc_status doc = ''draft''"
    "items = doc_items_of (\<lambda>_. ''d'') ''d'' (dcc_items sample_quote) (doc_calc sample_quote)"
    "length items = 1" "dt_document_id (items ! 0) = ''d''" "dc_created_by doc = Some ''u''"
  using assms
  by (auto simp: desk_with_def sample_plan_def plan_document_creation_def Let_def sample_quote_def doc_items_of_def
      doc_calc_def compute_taxes_def)

lemma desk_items:
  assumes "sample_plan = (res, doc, items, ws)"
  shows "get_document_items (desk_with bk st) ''d'' = map stored_document_item items"
proof -
  obtain i where "items = [i]" "dt_document_id i = ''d''"
    using desk_of_plan(10,11)[OF assms] by (auto simp: length_Suc_conv)
  then show ?thesis
    by (simp add: get_document_items_def desk_of_plan(1)[OF assms] stored_document_item_def)
qed

theorem documents_stay_well_typed_witness:
  "\<exists>ans k'. update_document_status ''e'' 1 ''t'' ''d'' ''u'' ''sent'' (desk_with no_books ''draft'') = Inr (ans, k')
    \<and> map dc_status (dk_documents k') = [''sent''] \<and> well_typed_desk k'"
proof -
  obtain res doc items ws where plan: "sample_plan = (res, doc, items, ws)" by (metis surj_pair)
  note desk = desk_of_plan[OF plan]
  have "\<exists>ans k'. update_document_status ''e'' 1 ''t'' ''d'' ''u'' ''sent'' (desk_with no_books ''draft'') =
      Inr (ans, k') \<and> map dc_status (dk_documents k') = [''sent'']"
    by (simp add: desk update_document_status_def owned_document_def find_document_def plan_status_change_def
        allowed_of stored_document_def set_document_status_def change_document_def stored_document_def)
  then obtain ans k' where k': "update_document_status ''e'' 1 ''t'' ''d'' ''u'' ''sent'' (desk_with no_books ''draft'') =
      Inr (ans, k')" "map dc_status (dk_documents k') = [''sent'']" by auto
  have "well_typed_desk (desk_with no_books ''draft'')"
    by (simp add: desk well_typed_desk_def well_typed_document_def doc_types_def allowed_of)
  then have "well_typed_desk k'"
    using documents_stay_well_typed[OF r_into_rtranclp[of desk_step, OF desk_step.status[OF k'(1)]]] by blast
  with k' show ?thesis by (intro exI[of _ ans] exI[of _ k'] conjI)
qed

lemma quote_item:
  assumes "sample_plan = (res, doc, items, ws)"
  obtains i where "items = [i]" "dt_product_id i = Some ''p''" "dt_description i = ''Rice''"
    "dt_qty i = PFlt (kob 200)" "dt_unit_price i = PFlt (kob 300)" "dt_discount_pct i = PFlt (kob 0)"
    "dt_document_id i = ''d''"
proof -
  have "length (tx_line_taxes (doc_calc sample_quote)) = 1" "length (tx_line_rates (doc_calc sample_quote)) = 1"
    "length (tx_line_bases (doc_calc sample_quote)) = 1"
    by (simp_all add: doc_calc_def compute_taxes_def Let_def sample_quote_def)
  then obtain ts r b where "tx_line_taxes (doc_calc sample_quote) = [ts]" "tx_line_rates (doc_calc sample_quote) = [r]"
    "tx_line_bases (doc_calc sample_quote) = [b]" by (auto simp: length_Suc_conv)
  then show thesis using that desk_of_plan(9)[OF assms]
    by (simp add: doc_items_of_def sample_quote_def[THEN arg_cong[of _ _ dcc_items]] kob_def)
qed

lemma quote_sale_line:
  assumes "sample_plan = (res, doc, items, ws)"
  shows "list_all valid_sale_line (map (service_line tm) (map (converted_line fresh)
      (zip [0..<length items] (map stored_document_item items))))"
proof -
  obtain i where "items = [i]" "dt_description i = ''Rice''" "dt_qty i = PFlt (kob 200)"
    "dt_unit_price i = PFlt (kob 300)" using quote_item[OF assms] by metis
  then show ?thesis using column_value_kob[of 200] column_value_kob[of 300]
    by (simp add: converted_line_def service_line_def stored_document_item_def valid_sale_line_def column_num_def)
qed

text \<open>What a conversion of the sample does, up to its journal.\<close>

lemma sample_conversion:
  fixes bk :: books
  obtains t tot x sid number ts its made where "total_cost its = 0" "sale_tax_amount x ts = 0" "tb_books t = bk"
    "\<forall>y \<in> set ts. td_account_code y \<noteq> Some ''1000''"
    "\<And>bk'. post_sale_journal (\<lambda>_. ''n'') 2 ''20250102'' ''t'' sid number its tot x ts (Some ''u'') ''cash''
       (Some ''st'') False None ''n'' bk = Inr bk' \<Longrightarrow>
     \<exists>k'. convert_document_to_sale (\<lambda>_ _. ''n'') 2 ''20250102'' ''t'' ''d'' ''u'' None (desk_with bk ''sent'') =
       (Inr made, k')"
    "\<And>e. post_sale_journal (\<lambda>_. ''n'') 2 ''20250102'' ''t'' sid number its tot x ts (Some ''u'') ''cash''
       (Some ''st'') False None ''n'' bk = Inl e \<Longrightarrow>
     convert_document_to_sale (\<lambda>_ _. ''n'') 2 ''20250102'' ''t'' ''d'' ''u'' None (desk_with bk ''sent'') =
       (Inl e, (desk_with bk ''sent'')\<lparr>dk_till := t\<rparr>)" "db_sales (tb_sales t) \<noteq> []"
proof -
  obtain res doc items ws where plan: "sample_plan = (res, doc, items, ws)" by (metis surj_pair)
  let ?k = "desk_with bk ''sent''"
  note desk = desk_of_plan[OF plan]
  define d where "d = stored_document (doc\<lparr>dc_status := ''sent''\<rparr>)"
  have d: "owned_document ?k ''t'' ''d'' = Some d" "dc_type d = ''quote''" "dc_status d = ''sent''"
    "dc_linked_sale_id d = None" "conversion_store ?k ''u'' d = Some ''st''" "dc_customer_name d = None"
    "dk_documents ?k = [d]" "dc_id d = ''d''"
    by (simp_all add: desk d_def owned_document_def find_document_def conversion_store_def opt_or_def
        stored_document_def)
  define r where "r = conversion_request (\<lambda>_. ''n'') ''t'' ''u'' (Some ''st'') None d (map stored_document_item items)"
  define tm where "tm = product_tax_map (dk_tax_rows ?k) (dk_product_taxes ?k) ''t''
    (map (\<lambda>i. Some (srl_product_id i)) (sv_items r))"
  define c where "c = service_command tm r ''st''"
  obtain sr s its sws where sp: "plan_sale_creation (\<lambda>_. ''n'') ''n'' 2 ''20250102'' c = (sr, s, its, sws)"
    by (metis surj_pair)
  have "sale_taxes c = doc_calc sample_quote"
    unfolding c_def r_def by (rule conversion_taxes[OF plan[unfolded sample_plan_def] sample_quoted])
  then have s: "so_tax_breakdown s = list_or_None (tx_breakdown (doc_calc sample_quote))"
    "so_customer_name s = None" "ss_number sr = so_number s" "ss_id sr = so_id s"
    using sp d(6) by (auto simp: plan_sale_creation_def Let_def c_def service_command_def r_def conversion_request_def)
  have valid: "list_all valid_sale_line (sc_items c)" "valid_sale_command c"
    using quote_sale_line[OF plan] desk(10)
    by (simp_all add: c_def r_def service_command_def conversion_request_def valid_sale_command_def)
  have fields: "sv_store_id r = Some ''st''" "sv_tenant_id r = ''t''" "sv_cashier_id r = ''u''"
    by (simp_all add: r_def conversion_request_def)
  obtain t where t: "store_sale s its sws (dk_till ?k) = Inr t" "tb_books t = bk" "db_sales (tb_sales t) \<noteq> []"
    by (auto simp: store_sale_def desk create_sale_def no_sales_def get_sale_by_id_def
        get_sale_by_number_def emit_def create_sale_items_def)
  let ?its = "map (\<lambda>i. \<lparr>sic_cost_price = Some (PInt 0), sic_qty = Some (PFlt (py_float (si_qty i)))\<rparr>) its"
  have run: "create_sale_via_service (\<lambda>_ _. ''n'') 2 ''20250102'' r ?k =
     (case post_sale_journal (\<lambda>_. ''n'') 2 ''20250102'' ''t'' (ss_id sr) (ss_number sr) ?its
         (ss_total sr) (ss_tax sr) (tx_breakdown (doc_calc sample_quote)) (Some ''u'')
         ''cash'' (Some ''st'') False None ''n'' bk of
        Inl e \<Rightarrow> (Inl e, ?k\<lparr>dk_till := t\<rparr>)
      | Inr bk \<Rightarrow> (Inr sr, ?k\<lparr>dk_till := t\<lparr>tb_books := bk\<rparr>\<rparr>))"
    using valid sp t s quote_taxes(1)
    by (simp add: create_sale_via_service_def fields str_truthy_def str_or_def Let_def tm_def[symmetric]
        c_def[symmetric] list_or_None_def)
  show thesis
  proof (rule that)
    show "total_cost ?its = 0" by (simp add: total_cost_def py_fsum_def num_truthy_def comp_def filter_map)
    show "sale_tax_amount (ss_tax sr) (tx_breakdown (doc_calc sample_quote)) = 0" by (rule quote_taxes(2))
    show "\<forall>y \<in> set (tx_breakdown (doc_calc sample_quote)). td_account_code y \<noteq> Some ''1000''"
      by (rule quote_taxes(3))
  next
    fix e assume "post_sale_journal (\<lambda>_. ''n'') 2 ''20250102'' ''t'' (ss_id sr) (ss_number sr) ?its
         (ss_total sr) (ss_tax sr) (tx_breakdown (doc_calc sample_quote)) (Some ''u'')
         ''cash'' (Some ''st'') False None ''n'' bk = Inl e"
    then show "convert_document_to_sale (\<lambda>_ _. ''n'') 2 ''20250102'' ''t'' ''d'' ''u'' None ?k = (Inl e, ?k\<lparr>dk_till := t\<rparr>)"
      using run d by (simp add: convert_document_to_sale_def Let_def desk_items[OF plan] r_def)
  next
    fix bk' assume "post_sale_journal (\<lambda>_. ''n'') 2 ''20250102'' ''t'' (ss_id sr) (ss_number sr) ?its
         (ss_total sr) (ss_tax sr) (tx_breakdown (doc_calc sample_quote)) (Some ''u'')
         ''cash'' (Some ''st'') False None ''n'' bk = Inr bk'"
    then have "create_sale_via_service (\<lambda>_ _. ''n'') 2 ''20250102'' r ?k = (Inr sr, ?k\<lparr>dk_till := t\<lparr>tb_books := bk'\<rparr>\<rparr>)"
      using run by simp
    then show "\<exists>k'. convert_document_to_sale (\<lambda>_ _. ''n'') 2 ''20250102'' ''t'' ''d'' ''u'' None ?k = (Inr sr, k')"
      using d by (simp add: convert_document_to_sale_def Let_def desk_items[OF plan] r_def set_document_status_def
        link_document_to_sale_def change_document_def find_document_def)
  qed (rule t)+
qed


theorem failed_conversion_leaves_sale_witness:
  "\<exists>e k'. convert_document_to_sale (\<lambda>_ _. ''n'') 2 ''20250102'' ''t'' ''d'' ''u'' None
      (desk_with no_books ''sent'') = (Inl e, k')
    \<and> map so_status (db_sales (tb_sales (dk_till k'))) = [''pending''] \<and> tb_books (dk_till k') = no_books"
proof -
  obtain res doc items ws where plan: "sample_plan = (res, doc, items, ws)" by (metis surj_pair)
  let ?k = "desk_with no_books ''sent''"
  have absent: "get_account_by_code no_books ''t'' ''1100'' = None"
    by (simp add: get_account_by_code_def no_books_def)
  have sale_debit: "sale_debit_account ''cash'' False = (''1100'', ''Receivable'')" "''1100'' \<noteq> ''1000''"
    by (simp_all add: sale_debit_account_def)
  note missing = no_fallback_to_cash[OF _ _ absent, where pm = "''cash''" and settled = False]
  have "\<exists>e t. convert_document_to_sale (\<lambda>_ _. ''n'') 2 ''20250102'' ''t'' ''d'' ''u'' None ?k =
      (Inl e, ?k\<lparr>dk_till := t\<rparr>) \<and> db_sales (tb_sales t) \<noteq> []"
  proof (rule sample_conversion[of no_books], goal_cases)
    case (1 t tot x sid number ts its made)
    then show ?case using 1(6)[OF missing[OF sale_debit 1(4)]] 1(7) by blast
  qed
  then obtain e t where e: "convert_document_to_sale (\<lambda>_ _. ''n'') 2 ''20250102'' ''t'' ''d'' ''u'' None ?k =
      (Inl e, ?k\<lparr>dk_till := t\<rparr>)" "db_sales (tb_sales t) \<noteq> []" by blast
  have empty: "db_sales (tb_sales (dk_till ?k)) = []" "tb_books (dk_till ?k) = no_books"
    by (simp_all add: desk_of_plan(1)[OF plan] no_sales_def)
  have "dk_till (?k\<lparr>dk_till := t\<rparr>) = t" by simp
  then have "?k\<lparr>dk_till := t\<rparr> \<noteq> ?k" using e(2) empty(1) by metis
  with failed_conversion_leaves_sale[OF e(1)] e(1) empty show ?thesis by auto
qed

theorem invoice_events_not_booked_witness:
  "\<exists>d' w. plan_status_change ''e'' 1 \<lparr>dsc_document_id = ''d'', dsc_tenant_id = ''t'', dsc_actor_id = ''u'',
      dsc_new_status = ''sent'', dsc_correlation_id = None\<rparr> (hd (dk_documents (desk_with credit_books ''draft''))) =
      Inr (d', [w])
    \<and> handle_document_status_changed (\<lambda>_. ''n'') 2 ''20250102'' (\<lambda>_. None) (\<lambda>_. None) (ow_event w) credit_books =
      Inr credit_books"
proof -
  obtain res doc items ws where plan: "sample_plan = (res, doc, items, ws)" by (metis surj_pair)
  note desk = desk_of_plan[OF plan]
  let ?c = "\<lparr>dsc_document_id = ''d'', dsc_tenant_id = ''t'', dsc_actor_id = ''u'',
      dsc_new_status = ''sent'', dsc_correlation_id = None\<rparr>"
  obtain d' w where w: "plan_status_change ''e'' 1 ?c (hd (dk_documents (desk_with credit_books ''draft''))) = Inr (d', [w])"
    by (auto simp: plan_status_change_def allowed_of desk stored_document_def)
  from invoice_events_not_booked[OF w, of w] w show ?thesis by auto
qed

definition sent_invoice :: envelope where
  "sent_invoice = mk_event ''e'' 1 DOCUMENT_STATUS_CHANGED ''t'' (Some ''u'') None
     [(''tenant_id'', JStr ''t''), (''document_id'', JStr ''d''), (''doc_number'', JStr ''INV-1''),
      (''doc_type'', JStr ''invoice''), (''new_status'', JStr ''sent''), (''total'', JNum (PInt 80)),
      (''customer_name'', JStr ''Ada''), (''customer_id'', JStr ''c'')]"

lemma sample_to_send: "invoice_to_send sent_invoice ''t'' ''d'' credit_books = Inr (Some (''c'', ''INV-1'',
    sample_account ''A'' ''1100'' ''asset'', sample_account ''B'' ''4000'' ''revenue''))"
  by (simp add: event_string_def json_str_def sent_invoice_def num_truthy_def
        invoice_to_send_def invoice_receivables_def invoice_journals_def get_account_by_code_def credit_books_def
        create_account_def sample_account_def no_books_def)
lemma sample_sent: "\<exists>bk'. book_invoice_sent ids 1 ''20250101'' (\<lambda>_. None) (\<lambda>_. None) sent_invoice ''t'' ''d'' credit_books =
      Inr bk' \<and> map ar_customer_name (bk_receivables bk') = [''Ada'']"
proof -
  have "json_float (jget (payload sent_invoice) ''total'') = Inr (fl 80)" "event_customer sent_invoice = Inr ''Ada''"
    by (simp_all add: sent_invoice_def event_customer_def)
  moreover have "bk_receivables credit_books = []" by (simp add: credit_books_def create_account_def no_books_def)
  ultimately show ?thesis by (simp add: book_invoice_sent_def sample_to_send Let_def add_posted_fields stored_receivable_def)
qed
lemma credit_books_balanced: "balanced_books credit_books"
    by (simp add: balanced_books_def get_journal_entries_def credit_books_def create_account_def no_books_def)
lemma sent_fields:
  "event_string sent_invoice ''doc_type'' = Some ''invoice''" "event_string sent_invoice ''new_status'' = Some ''sent''"
  "event_string sent_invoice ''document_id'' = Some ''d''" "event_string sent_invoice ''tenant_id'' = Some ''t''"
  by (simp_all add: event_string_def json_str_def sent_invoice_def)


end
