(* ===== verification/ReturnFlows.thy ===== *)
theory ReturnFlows
  imports Returns DocumentFlows
begin

text \<open>
  Properties of \<open>Returns\<close>: a void against the checkout it undoes, in stock and in the books, and a
  void that follows a return.
\<close>

section \<open>What goes back to stock\<close>

definition given_back :: "uuid \<Rightarrow> sale_item list \<Rightarrow> rat" where
  "given_back pid items = (\<Sum>i\<leftarrow>filter (\<lambda>i. si_product_id i = pid) items. dec_of_str (si_qty i))"

definition cents_items :: "sale_item list \<Rightarrow> bool" where
  "cents_items items \<longleftrightarrow> (\<forall>i \<in> set items. \<exists>k. si_qty i = PDec (of_int k / 100) \<and> 0 \<le> k \<and> k \<le> 10 ^ 11)"

lemma fold_restock:
  assumes "cents_items (map snd nis)" "0 \<le> Q" "Q + 10 ^ 11 * int (length nis) < 10 ^ 28"
    and "fst st pid (so_store_id s) = Some b" "sb_tenant_id b = tenant" "sb_qty b = PDec (of_int Q / 100)"
  shows "\<exists>R. fst (fold (restock_item kind reason tenant user s ids) nis st) pid (so_store_id s) =
      Some (b\<lparr>sb_qty := PDec (of_int R / 100)\<rparr>)
    \<and> of_int R / 100 = of_int Q / 100 + given_back pid (map snd nis)"
  using assms
proof (induction nis arbitrary: st b Q)
  case Nil
  have "b\<lparr>sb_qty := PDec (of_int Q / 100)\<rparr> = b" using Nil.prems(6) by simp
  then show ?case using Nil.prems(4) by (auto simp: given_back_def intro!: exI[of _ Q])
next
  case (Cons ni nis)
  obtain n i where ni: "ni = (n, i)" by (cases ni)
  obtain k where k: "si_qty i = PDec (of_int k / 100)" "0 \<le> k" "k \<le> 10 ^ 11"
    using Cons.prems(1) by (auto simp: cents_items_def ni)
  obtain stock mv where st: "st = (stock, mv)" by (cases st)
  let ?st = "restock_item kind reason tenant user s ids ni st"
  have rest: "cents_items (map snd nis)" using Cons.prems(1) by (simp add: cents_items_def)
  show ?case
  proof (cases "si_product_id i = pid")
    case True
    have "dadd (of_int Q / 100) (of_int k / 100) = of_int (Q + k) / 100"
      unfolding dadd_def add_divide_distrib[symmetric] of_int_add[symmetric]
      by (rule dctx_cents) (use Cons.prems(2,3) k in auto)
    then have row: "fst ?st pid (so_store_id s) = Some (b\<lparr>sb_qty := PDec (of_int (Q + k) / 100)\<rparr>)"
      using True Cons.prems(4-6) k(1) by (simp add: restock_item_def ni st Let_def)
    have "\<exists>R. fst (fold (restock_item kind reason tenant user s ids) nis ?st) pid (so_store_id s) =
        Some (b\<lparr>sb_qty := PDec (of_int (Q + k) / 100), sb_qty := PDec (of_int R / 100)\<rparr>)
      \<and> of_int R / 100 = of_int (Q + k) / 100 + given_back pid (map snd nis)"
      by (rule Cons.IH[OF rest _ _ row]) (use Cons.prems(2,3,5) k in auto)
    then show ?thesis using True k(1)
      by (auto simp: given_back_def ni add_divide_distrib)
  next
    case False
    then have row: "fst ?st pid (so_store_id s) = Some b"
      using Cons.prems(4) by (auto simp: restock_item_def ni st Let_def split: option.split)
    have "given_back pid (map snd (ni # nis)) = given_back pid (map snd nis)"
      using False by (simp add: given_back_def ni)
    then show ?thesis using Cons.IH[OF rest Cons.prems(2) _ row Cons.prems(5,6)] Cons.prems(3) by simp
  qed
qed

lemma fold_restock_other:
  assumes "store \<noteq> so_store_id s \<or> pid \<notin> si_product_id ` set (map snd nis) \<or> fst st pid store = None"
  shows "fst (fold (restock_item kind reason tenant user s ids) nis st) pid store = fst st pid store"
  using assms
proof (induction nis arbitrary: st)
  case (Cons ni nis)
  have "fst (restock_item kind reason tenant user s ids ni st) pid store = fst st pid store"
    using Cons.prems by (cases ni; cases st) (auto simp: restock_item_def Let_def split: option.split)
  then show ?case
    using Cons.IH[of "restock_item kind reason tenant user s ids ni st"] Cons.prems by simp blast
qed simp

lemma restock_row:
  assumes "cents_items items" "length items \<le> 1000" "0 \<le> Q" "Q \<le> 10 ^ 13"
    and "fst st pid (so_store_id s) = Some b" "sb_tenant_id b = tenant" "sb_qty b = PDec (of_int Q / 100)"
  shows "fst (restock kind reason tenant user s ids items st) pid (so_store_id s) =
      Some (b\<lparr>sb_qty := PDec (of_int Q / 100 + given_back pid items)\<rparr>)"
proof -
  let ?nis = "zip [0..<length items] items"
  have z: "map snd ?nis = items" by simp
  obtain R where R: "fst (fold (restock_item kind reason tenant user s ids) ?nis st) pid (so_store_id s) =
      Some (b\<lparr>sb_qty := PDec (of_int R / 100)\<rparr>)"
    and sum: "of_int R / 100 = of_int Q / 100 + given_back pid items"
    using fold_restock[of ?nis Q st pid s b tenant kind reason user ids] assms unfolding z by auto
  have "column_num (PDec (of_int R / 100)) = PDec (of_int R / 100)" by (rule column_num_cents)
  then show ?thesis using R sum
    by (simp add: restock_def split_def stored_qty_def)
qed

lemma restock_other:
  "store \<noteq> so_store_id s \<Longrightarrow> fst (restock kind reason tenant user s ids items st) pid store = fst st pid store"
  using fold_restock_other[of store s pid "zip [0..<length items] items" st kind reason tenant user ids]
  by (simp add: restock_def split_def)

lemma undo_effect:
  assumes "undo_sale ids now day st mk word jk tenant user reason s ws audit bf = Inr bf'"
  shows "sh_stock (bf_shop bf') = fst (restock mk reason tenant user s (ids 1)
      (items_of_sale (tb_sales (sh_till (bf_shop bf))) (so_id s)) (sh_stock (bf_shop bf), bf_movements bf))"
    and "tb_books (sh_till (bf_shop bf')) =
      reverse_sale_journal (ids 0) now day word jk reason tenant s (tb_books (sh_till (bf_shop bf)))"
    and "get_sale_by_id (tb_sales (sh_till (bf_shop bf'))) (so_id s) =
      map_option (close_sale st reason user now) (get_sale_by_id (tb_sales (sh_till (bf_shop bf))) (so_id s))"
    and "db_items (tb_sales (sh_till (bf_shop bf'))) = db_items (tb_sales (sh_till (bf_shop bf)))"
proof -
  obtain db where db: "change_sale (so_id s) (close_sale st reason user now)
      (tb_sales (sh_till (bf_shop bf))) = Inr db"
    and bf': "bf_shop bf' = (bf_shop bf)\<lparr>sh_stock := fst (restock mk reason tenant user s (ids 1)
        (items_of_sale (tb_sales (sh_till (bf_shop bf))) (so_id s)) (sh_stock (bf_shop bf), bf_movements bf)),
      sh_till := emit ws ((sh_till (bf_shop bf))\<lparr>tb_sales := db, tb_books := reverse_sale_journal (ids 0) now day
        word jk reason tenant s (tb_books (sh_till (bf_shop bf)))\<rparr>)\<rparr>"
    using assms by (auto simp: undo_sale_def Let_def res_bind_eq_Inr split: prod.splits)
  show "sh_stock (bf_shop bf') = fst (restock mk reason tenant user s (ids 1)
      (items_of_sale (tb_sales (sh_till (bf_shop bf))) (so_id s)) (sh_stock (bf_shop bf), bf_movements bf))"
    "tb_books (sh_till (bf_shop bf')) =
      reverse_sale_journal (ids 0) now day word jk reason tenant s (tb_books (sh_till (bf_shop bf)))"
    by (simp_all add: bf' emit_def)
  show "get_sale_by_id (tb_sales (sh_till (bf_shop bf'))) (so_id s) =
      map_option (close_sale st reason user now) (get_sale_by_id (tb_sales (sh_till (bf_shop bf))) (so_id s))"
    using get_sale_change(1)[OF db] by (simp add: bf' emit_def close_sale_def)
  show "db_items (tb_sales (sh_till (bf_shop bf'))) = db_items (tb_sales (sh_till (bf_shop bf)))"
    using db by (auto simp: bf' emit_def change_sale_def split: if_splits)
qed

lemma undo_succeeds:
  assumes "get_sale_by_id (tb_sales (sh_till (bf_shop bf))) (so_id s) \<noteq> None"
  shows "\<exists>bf'. undo_sale ids now day st mk word jk tenant user reason s ws audit bf = Inr bf'"
  using assms by (auto simp: undo_sale_def Let_def change_sale_def split: prod.split)

lemma owned_sale_eq:
  "owned_sale db tenant sid = Some s \<longleftrightarrow> get_sale_by_id db sid = Some s \<and> so_tenant_id s = tenant"
  by (auto simp: owned_sale_def split: option.splits)

lemma found_sale_id: "get_sale_by_id db sid = Some s \<Longrightarrow> so_id s = sid"
  by (auto simp: get_sale_by_id_def dest: find_Some_set)

lemma planned_item_qtys:
  fixes c :: sale_create_command
  shows "map (\<lambda>i. (si_product_id i, si_qty i)) (sale_items_of ids sid (sc_items c) (sale_taxes c)) =
    map (\<lambda>l. (sl_product_id l, PFlt (fl (sl_qty l)))) (sc_items c)"
proof -
  have len: "length (tx_line_taxes (sale_taxes c)) = length (sc_items c)"
    "length (tx_line_rates (sale_taxes c)) = length (sc_items c)"
    "length (tx_line_bases (sale_taxes c)) = length (sc_items c)" by (simp_all add: sale_taxes_def)
  show ?thesis
    by (rule nth_equalityI) (use len in \<open>auto simp: sale_items_of_def sale_item_of_def\<close>)
qed

text \<open>What a committed checkout stored of its sale.\<close>

lemma checkout_sale:
  assumes "commit_checkout ids now day tenant ct r xs resolved ls costs disc ccode sh = Inr (ans, sh')"
    and "\<forall>i \<in> set (db_items (tb_sales (sh_till sh))). si_sale_id i \<noteq> ids 0 0"
  obtains s items where "get_sale_by_id (tb_sales (sh_till sh')) (ss_id (xa_result ans)) = Some s"
    "so_id s = ss_id (xa_result ans)" "so_tenant_id s = tenant" "so_store_id s = str_or (xr_store_id r) (ct_store_id ct)"
    "so_status s = ''pending''"
    "items_of_sale (tb_sales (sh_till sh')) (so_id s) = map stored_item items"
    "map (\<lambda>i. (si_product_id i, si_qty i)) items = map (\<lambda>l. (sl_product_id l, PFlt (fl (sl_qty l)))) ls"
    "sh_stock sh' = deduct_stock (ids 5) tenant (ct_store_id ct) ls (sh_stock sh)"
proof -
  define cmd where "cmd = sale_command tenant ct r (text_or (xr_customer_name r) (ct_customer_name ct))
    (text_or (xr_customer_phone r) (ct_customer_phone ct)) disc ls"
  obtain res s items ws where plan: "plan_sale_creation (ids 0) (ids 1 0) now day cmd = (res, s, items, ws)"
    by (metis surj_pair)
  have ls: "sc_items cmd = ls" by (simp add: cmd_def sale_command_def)
  have s: "so_status s = ''pending''" "so_id s = ids 0 0" "ss_id res = ids 0 0" "so_tenant_id s = tenant"
    "so_store_id s = str_or (xr_store_id r) (ct_store_id ct)" "items = sale_items_of (ids 0) (ids 0 0) ls (sale_taxes cmd)"
    using plan by (auto simp: plan_sale_creation_def Let_def cmd_def sale_command_def)
  obtain t bk cdb cart_items cart_ws where
    t: "store_sale s items ws (sh_till sh) = Inr t" and
    ans: "xa_result ans = res" and
    sh': "sh' = sh\<lparr>sh_till := t\<lparr>tb_books := bk\<rparr>, sh_cart := cdb,
      sh_stock := deduct_stock (ids 5) tenant (ct_store_id ct) ls (sh_stock sh)\<rparr>"
    using assms(1) plan unfolding commit_checkout_def Let_def cmd_def[symmetric]
    by (auto simp: res_bind_eq_Inr answer_of_def plan cmd_def[symmetric] split: prod.splits)
  have new: "get_sale_by_id (tb_sales (sh_till sh)) (ids 0 0) = None"
    and db: "tb_sales t = create_sale_items items ((tb_sales (sh_till sh))\<lparr>db_sales := db_sales (tb_sales (sh_till sh)) @ [stored_sale s]\<rparr>)"
    using t s(2) by (auto simp: store_sale_def res_bind_eq_Inr emit_def create_sale_def split: if_splits)
  have sid: "list_all (\<lambda>i. si_sale_id i = ids 0 0) items"
    using sale_items_of_maps(5)[where ids = "ids 0" and sid = "ids 0 0" and c = cmd] by (simp add: s(6) ls)
  show thesis
  proof (rule that[of "stored_sale s" items])
    show "get_sale_by_id (tb_sales (sh_till sh')) (ss_id (xa_result ans)) = Some (stored_sale s)"
      using new s by (simp add: sh' db ans get_sale_by_id_def create_sale_items_def find_append stored_sale_def)
    show "items_of_sale (tb_sales (sh_till sh')) (so_id (stored_sale s)) = map stored_item items"
      using assms(2) sid s(2)
      by (auto simp: sh' db items_of_sale_def create_sale_items_def stored_sale_def stored_item_def
          filter_empty_conv filter_id_conv list_all_iff)
    show "map (\<lambda>i. (si_product_id i, si_qty i)) items = map (\<lambda>l. (sl_product_id l, PFlt (fl (sl_qty l)))) ls"
      using planned_item_qtys[where ids = "ids 0" and sid = "ids 0 0" and c = cmd] by (simp add: s(6) ls)
  qed (simp_all add: sh' ans s stored_sale_def)
qed

lemma stored_items_given_back:
  assumes "map (\<lambda>i. (si_product_id i, si_qty i)) items = map (\<lambda>l. (sl_product_id l, PFlt (fl (sl_qty l)))) ls"
    and "cents_sold k ls"
  shows "given_back pid (map stored_item items) = of_int (sold pid k ls) / 100"
    and "cents_items (map stored_item items)" "si_product_id ` set items = sl_product_id ` set ls"
  using assms
proof (induction items arbitrary: ls)
  case Nil
  case 1 then show ?case using Nil by (simp add: given_back_def sold_def)
  case 2 then show ?case by (simp add: cents_items_def)
  case 3 then show ?case by simp
next
  case (Cons i items)
  have step: "\<exists>l ls'. ls = l # ls' \<and> si_product_id i = sl_product_id l \<and> si_qty (stored_item i) = PDec (of_int (k l) / 100) \<and>
      0 \<le> k l \<and> k l \<le> 10 ^ 11 \<and> cents_sold k ls' \<and>
      map (\<lambda>i. (si_product_id i, si_qty i)) items = map (\<lambda>l. (sl_product_id l, PFlt (fl (sl_qty l)))) ls'"
    if prem: "map (\<lambda>i. (si_product_id i, si_qty i)) (i # items) = map (\<lambda>l. (sl_product_id l, PFlt (fl (sl_qty l)))) ls"
      "cents_sold k ls" for ls
  proof -
    obtain l ls' where ls: "ls = l # ls'" using prem(1) by (cases ls) auto
    have k: "sl_qty l = of_int (k l) / 100" "0 < k l" "k l \<le> 10 ^ 11" using prem(2) by (simp_all add: ls)
    have "si_qty i = PFlt (kob (k l))" using prem(1) k(1) by (simp add: ls kob_def)
    then have "si_qty (stored_item i) = PDec (of_int (k l) / 100)"
      using column_value_kob[of "k l"] k by (simp add: stored_item_def column_num_def)
    then show ?thesis using prem k by (auto simp: ls)
  qed
  have p: "si_product_id (stored_item i) = si_product_id i" by (simp add: stored_item_def)
  case 1
  then obtain l ls' where "ls = l # ls'" "si_product_id i = sl_product_id l" "si_qty (stored_item i) = PDec (of_int (k l) / 100)"
    "cents_sold k ls'" "map (\<lambda>i. (si_product_id i, si_qty i)) items = map (\<lambda>l. (sl_product_id l, PFlt (fl (sl_qty l)))) ls'"
    using step by blast
  then show ?case using Cons.IH(1) p by (auto simp: given_back_def sold_def add_divide_distrib)
  case 2
  then obtain l ls' where "si_qty (stored_item i) = PDec (of_int (k l) / 100)" "0 \<le> k l" "k l \<le> 10 ^ 11"
    "cents_sold k ls'" "map (\<lambda>i. (si_product_id i, si_qty i)) items = map (\<lambda>l. (sl_product_id l, PFlt (fl (sl_qty l)))) ls'"
    using step by blast
  then show ?case using Cons.IH(2) by (auto simp: cents_items_def)
  case 3
  then obtain l ls' where "ls = l # ls'" "si_product_id i = sl_product_id l"
    "cents_sold k ls'" "map (\<lambda>i. (si_product_id i, si_qty i)) items = map (\<lambda>l. (sl_product_id l, PFlt (fl (sl_qty l)))) ls'"
    using step by blast
  then show ?case using Cons.IH(3) by auto
qed

lemma restock_undoes_deduct:
  assumes "map (\<lambda>i. (si_product_id i, si_qty i)) items = map (\<lambda>l. (sl_product_id l, PFlt (fl (sl_qty l)))) ls"
    and "cents_sold k ls" "length ls \<le> 1000"
    and "\<forall>l \<in> set ls. \<exists>b Q. stock (sl_product_id l) (so_store_id s) = Some b \<and> sb_tenant_id b = tenant
      \<and> sb_qty b = PDec (of_int Q / 100) \<and> sold (sl_product_id l) k ls \<le> Q \<and> Q \<le> 10 ^ 11"
  shows "fst (restock kind reason tenant user s ids (map stored_item items)
      (deduct_stock bids tenant (so_store_id s) ls stock, ms)) = stock"
proof (intro ext)
  fix pid store
  note given = stored_items_given_back[OF assms(1,2)]
  let ?less = "deduct_stock bids tenant (so_store_id s) ls stock"
  show "fst (restock kind reason tenant user s ids (map stored_item items) (?less, ms)) pid store = stock pid store"
  proof (cases "store = so_store_id s \<and> pid \<in> sl_product_id ` set ls")
    case False
    then have "store \<noteq> so_store_id s \<or> pid \<notin> si_product_id ` set (map stored_item items)"
      using given(3) by (auto simp: stored_item_def)
    then have "fst (restock kind reason tenant user s ids (map stored_item items) (?less, ms)) pid store = ?less pid store"
      using fold_restock_other[of store s pid "zip [0..<length items] (map stored_item items)"
          "(?less, ms)" kind reason tenant user ids] by (auto simp: restock_def split_def)
    moreover have "?less pid store = stock pid store"
      using False fold_deduct_other[of store "so_store_id s" pid "zip [0..<length ls] ls"]
      by (auto simp: deduct_stock_def Let_def)
    ultimately show ?thesis by simp
  next
    case True
    then obtain b Q where b: "stock pid store = Some b" "sb_tenant_id b = tenant"
      "sb_qty b = PDec (of_int Q / 100)" "sold pid k ls \<le> Q" "Q \<le> 10 ^ 11"
      using assms(4) by auto
    have S: "0 \<le> sold pid k ls"
      unfolding sold_def using assms(2) by (intro sum_list_nonneg) (auto simp: list_all_iff)
    have left: "?less pid (so_store_id s) = Some (b\<lparr>sb_qty := PDec (of_int (Q - sold pid k ls) / 100)\<rparr>)"
      using deduct_exact[of k ls stock pid "so_store_id s" b Q bids tenant] assms(2,3) b S True
      by (simp add: max_def)
    have "fst (restock kind reason tenant user s ids (map stored_item items) (?less, ms)) pid store =
        Some (b\<lparr>sb_qty := PDec (of_int (Q - sold pid k ls) / 100),
          sb_qty := PDec (of_int (Q - sold pid k ls) / 100 + given_back pid (map stored_item items))\<rparr>)"
      using restock_row[OF given(2), of "Q - sold pid k ls" "(?less, ms)" pid s _ tenant] left b(2,4,5) S
        assms(3) arg_cong[OF assms(1), of length] True by simp
    also have "\<dots> = Some (b\<lparr>sb_qty := PDec (of_int Q / 100)\<rparr>)"
      by (simp add: given(1) diff_divide_distrib)
    also have "\<dots> = stock pid store" using b(1,3) by simp
    finally show ?thesis .
  qed
qed


section \<open>The books of a void\<close>

definition account_net :: "uuid \<Rightarrow> journal_entry list \<Rightarrow> rat" where
  "account_net a es = (\<Sum>e\<leftarrow>es. if je_account_id e = a then je_debit e - je_credit e else 0)"

definition cents_entry :: "journal_entry \<Rightarrow> bool" where
  "cents_entry e \<longleftrightarrow> (\<exists>d c. je_debit e = of_int d / 100 \<and> je_credit e = of_int c / 100 \<and>
     \<bar>d\<bar> \<le> 2 * 10 ^ 12 \<and> \<bar>c\<bar> \<le> 2 * 10 ^ 12)"

lemma account_net_simps [simp]:
  "account_net a [] = 0" "account_net a (es @ fs) = account_net a es + account_net a fs"
  "account_net a (e # es) = (if je_account_id e = a then je_debit e - je_credit e else 0) + account_net a es"
  by (simp_all add: account_net_def)

lemma reversed_amounts:
  assumes "cents_entry e"
  shows "je_debit (stored_entry (reversed_entry now jid tenant label eid e)) = je_credit e"
    "je_credit (stored_entry (reversed_entry now jid tenant label eid e)) = je_debit e"
    "je_account_id (stored_entry (reversed_entry now jid tenant label eid e)) = je_account_id e"
    "je_journal_id (stored_entry (reversed_entry now jid tenant label eid e)) = jid"
proof -
  obtain d c where dc: "je_debit e = of_int d / 100" "je_credit e = of_int c / 100"
    "\<bar>d\<bar> \<le> 2 * 10 ^ 12" "\<bar>c\<bar> \<le> 2 * 10 ^ 12" using assms by (auto simp: cents_entry_def)
  show "je_debit (stored_entry (reversed_entry now jid tenant label eid e)) = je_credit e"
    "je_credit (stored_entry (reversed_entry now jid tenant label eid e)) = je_debit e"
    using stored_kob[OF dc(3), unfolded kob_def, folded dc(1)] stored_kob[OF dc(4), unfolded kob_def, folded dc(2)]
    by (simp_all add: reversed_entry_def Let_def)
qed (simp_all add: reversed_entry_def Let_def)

definition mirror :: "(nat \<Rightarrow> uuid) \<Rightarrow> timestamp \<Rightarrow> uuid \<Rightarrow> string \<Rightarrow> journal_entry list \<Rightarrow> journal_entry list" where
  "mirror ids now tenant label es =
     map (\<lambda>(n, e). reversed_entry now (ids 0) tenant label (ids (Suc n)) e) (zip [0..<length es] es)"

lemma mirror_fields:
  assumes "\<forall>e \<in> set es. cents_entry e"
  shows "account_net a (map stored_entry (mirror ids now tenant label es)) = - account_net a es"
    "imbalance (map stored_entry (mirror ids now tenant label es)) = - imbalance es"
    "\<forall>e \<in> set (map stored_entry (mirror ids now tenant label es)). je_journal_id e = ids 0"
proof -
  define ms where "ms = map stored_entry (mirror ids now tenant label es)"
  have "ms ! n = stored_entry (reversed_entry now (ids 0) tenant label (ids (Suc n)) (es ! n))" if "n < length es" for n
    using that by (simp add: ms_def mirror_def)
  moreover have "length ms = length es" by (simp add: ms_def mirror_def)
  ultimately have "list_all2 (\<lambda>m e. je_debit m = je_credit e \<and> je_credit m = je_debit e \<and>
      je_account_id m = je_account_id e \<and> je_journal_id m = ids 0) ms es"
    using assms reversed_amounts by (simp add: list_all2_conv_all_nth)
  then have "account_net a ms = - account_net a es \<and> imbalance ms = - imbalance es \<and>
      (\<forall>e \<in> set ms. je_journal_id e = ids 0)"
    by (induction ms es) auto
  then show "account_net a (map stored_entry (mirror ids now tenant label es)) = - account_net a es"
    "imbalance (map stored_entry (mirror ids now tenant label es)) = - imbalance es"
    "\<forall>e \<in> set (map stored_entry (mirror ids now tenant label es)). je_journal_id e = ids 0"
    unfolding ms_def by simp_all
qed

lemma reverse_books:
  assumes "sale_journals bk tenant (so_id s) = original # rest"
    and "bk' = reverse_sale_journal ids now day word kind reason tenant s bk"
  shows "bk_entries bk' = bk_entries bk @ map stored_entry (mirror ids now tenant (word @ '' '' @ so_number s)
      (get_journal_entries bk (jn_id original)))"
    and "bk_receivables bk' = bk_receivables bk"
    and "kind \<noteq> ''sale'' \<Longrightarrow> sale_journals bk' tenant (so_id s) = original # rest"
    and "\<forall>e \<in> set (get_journal_entries bk (jn_id original)). cents_entry e \<Longrightarrow> ids 0 \<noteq> jn_id original \<Longrightarrow>
      get_journal_entries bk' (jn_id original) = get_journal_entries bk (jn_id original)"
proof -
  have bk': "bk' = add_posted now day (ids 0) tenant (word @ '' sale '' @ so_number s @ '': '' @ reason) (so_id s) kind
      (Some (so_store_id s)) (mirror ids now tenant (word @ '' '' @ so_number s)
        (get_journal_entries bk (jn_id original))) bk"
    using assms by (simp add: reverse_sale_journal_def Let_def mirror_def)
  show entries: "bk_entries bk' = bk_entries bk @ map stored_entry (mirror ids now tenant (word @ '' '' @ so_number s)
      (get_journal_entries bk (jn_id original)))"
    by (simp add: bk' add_posted_def fold_create_entries create_journal_def)
  show "bk_receivables bk' = bk_receivables bk" by (simp add: bk' add_posted_fields)
  show "sale_journals bk' tenant (so_id s) = original # rest" if "kind \<noteq> ''sale''"
    using assms(1) that by (simp add: bk' add_posted_def fold_create_entries create_journal_def sale_journals_def)
  show "get_journal_entries bk' (jn_id original) = get_journal_entries bk (jn_id original)"
    if "\<forall>e \<in> set (get_journal_entries bk (jn_id original)). cents_entry e" "ids 0 \<noteq> jn_id original"
  proof -
    let ?ms = "map stored_entry (mirror ids now tenant (word @ '' '' @ so_number s) (get_journal_entries bk (jn_id original)))"
    have "\<forall>e \<in> set ?ms. je_journal_id e \<noteq> jn_id original"
      using mirror_fields(3)[OF that(1), of ids now tenant "word @ '' '' @ so_number s"] that(2) by metis
    then have "filter (\<lambda>e. je_journal_id e = jn_id original) ?ms = []" by (simp only: filter_empty_conv)
    then show ?thesis
      by (simp only: get_journal_entries_def[of bk'] entries filter_append append_Nil2)
        (simp only: get_journal_entries_def)
  qed
qed

lemma reverse_balanced:
  assumes "balanced_books bk" "bk' = reverse_sale_journal ids now day word kind reason tenant s bk"
    and "\<forall>j es. sale_journals bk tenant (so_id s) = j # es \<longrightarrow>
      (\<forall>e \<in> set (get_journal_entries bk (jn_id j)). cents_entry e)"
  shows "balanced_books bk'"
proof (cases "sale_journals bk tenant (so_id s)")
  case Nil
  then show ?thesis using assms by (simp add: reverse_sale_journal_def)
next
  case (Cons original rest)
  have c: "\<forall>e \<in> set (get_journal_entries bk (jn_id original)). cents_entry e" using assms(3) Cons by simp
  have "imbalance (get_journal_entries bk (jn_id original)) = 0" using assms(1) by (simp add: balanced_books_def)
  then show ?thesis
    using balanced_append[OF assms(1) mirror_fields(3)[OF c] _ reverse_books(1)[OF Cons assms(2)]]
      mirror_fields(2)[OF c] by simp
qed

text \<open>C26: A void mirrors the journal of its sale. When the lines of the sale's journal are whole kobo, the
  balance of every account after the void is what it was without that journal, and balanced books
  stay balanced; but a receivable the sale opened stays open with its balance.\<close>

theorem void_mirrors_journal:
  assumes "service_void_sale ids now day tenant user (so_id s) reason bf = Inr bf'"
    and "sale_journals (tb_books (sh_till (bf_shop bf))) tenant (so_id s) = original # rest"
    and "owned_sale (tb_sales (sh_till (bf_shop bf))) tenant (so_id s) = Some s"
    and "\<forall>e \<in> set (get_journal_entries (tb_books (sh_till (bf_shop bf))) (jn_id original)). cents_entry e"
    and "balanced_books (tb_books (sh_till (bf_shop bf)))"
  shows "account_net a (bk_entries (tb_books (sh_till (bf_shop bf')))) =
      account_net a (bk_entries (tb_books (sh_till (bf_shop bf)))) -
      account_net a (get_journal_entries (tb_books (sh_till (bf_shop bf))) (jn_id original))
    \<and> balanced_books (tb_books (sh_till (bf_shop bf')))
    \<and> bk_receivables (tb_books (sh_till (bf_shop bf'))) = bk_receivables (tb_books (sh_till (bf_shop bf)))"
proof -
  obtain ws audit where undo: "undo_sale ids now day ''voided'' ''void_return'' ''Void'' ''sale_void''
      tenant user reason s ws audit bf = Inr bf'"
    using assms(1,3) by (auto simp: service_void_sale_def split: if_splits)
  note books = reverse_books[OF assms(2) undo_effect(2)[OF undo]]
  show ?thesis
    using books(1,2) mirror_fields(1)[OF assms(4)] reverse_balanced[OF assms(5) undo_effect(2)[OF undo]] assms(2,4)
    by simp
qed

lemma given_back_cents:
  "cents_items is \<Longrightarrow> \<exists>G. given_back pid is = of_int G / 100 \<and> 0 \<le> G \<and> G \<le> int (length is) * 10 ^ 11"
proof (induction "is")
  case Nil
  then show ?case by (simp add: given_back_def)
next
  case (Cons i "is")
  obtain k where k: "si_qty i = PDec (of_int k / 100)" "0 \<le> k" "k \<le> 10 ^ 11"
    using Cons.prems by (auto simp: cents_items_def)
  obtain G where G: "given_back pid is = of_int G / 100" "0 \<le> G" "G \<le> int (length is) * 10 ^ 11"
    using Cons by (auto simp: cents_items_def)
  have "given_back pid (i # is) = of_int (if si_product_id i = pid then k + G else G) / 100"
    using G(1) k(1) by (simp add: given_back_def add_divide_distrib)
  moreover have "0 \<le> (if si_product_id i = pid then k + G else G)"
    "(if si_product_id i = pid then k + G else G) \<le> int (length (i # is)) * 10 ^ 11"
    using G(2,3) k by (simp_all add: distrib_right)
  ultimately show ?case by blast
qed

text \<open>A returned sale can be voided, and everything is given back twice. The void does not look at
  a return: after both, every stock row of the sale's store holds what it held plus twice the
  quantities of the sale, and the sale's journal has been reversed twice.\<close>

theorem returned_sale_voided_again:
  assumes "service_return_sale ids now day tenant user (so_id s) reason bf = Inr (refund, bf1)"
    and "owned_sale (tb_sales (sh_till (bf_shop bf))) tenant (so_id s) = Some s"
    and "sh_stock (bf_shop bf) pid (so_store_id s) = Some b" "sb_tenant_id b = tenant"
    and "sb_qty b = PDec (of_int Q / 100)" "0 \<le> Q" "Q \<le> 10 ^ 12"
    and "cents_items (items_of_sale (tb_sales (sh_till (bf_shop bf))) (so_id s))"
    and "length (items_of_sale (tb_sales (sh_till (bf_shop bf))) (so_id s)) \<le> 10"
    and "sale_journals (tb_books (sh_till (bf_shop bf))) tenant (so_id s) = original # rest"
    and "\<forall>e \<in> set (get_journal_entries (tb_books (sh_till (bf_shop bf))) (jn_id original)). cents_entry e"
    and "ids 0 0 \<noteq> jn_id original"
  shows "\<exists>bf2. service_void_sale ids' now' day' tenant user' (so_id s) reason' bf1 = Inr bf2
    \<and> sh_stock (bf_shop bf2) pid (so_store_id s) = Some (b\<lparr>sb_qty := PDec (of_int Q / 100 +
        2 * given_back pid (items_of_sale (tb_sales (sh_till (bf_shop bf))) (so_id s)))\<rparr>)
    \<and> account_net a (bk_entries (tb_books (sh_till (bf_shop bf2)))) =
        account_net a (bk_entries (tb_books (sh_till (bf_shop bf)))) -
        2 * account_net a (get_journal_entries (tb_books (sh_till (bf_shop bf))) (jn_id original))"
proof -
  let ?items = "items_of_sale (tb_sales (sh_till (bf_shop bf))) (so_id s)"
  let ?g = "given_back pid ?items"
  obtain ws audit where undo: "undo_sale ids now day ''returned'' ''sale_return'' ''Return'' ''sale_return''
      tenant user reason s ws audit bf = Inr bf1"
    using assms(1,2) by (auto simp: service_return_sale_def res_bind_eq_Inr split: if_splits)
  have found: "get_sale_by_id (tb_sales (sh_till (bf_shop bf))) (so_id s) = Some s" "so_tenant_id s = tenant"
    using assms(2) by (simp_all add: owned_sale_eq)
  let ?s1 = "close_sale ''returned'' reason user now s"
  have s1: "get_sale_by_id (tb_sales (sh_till (bf_shop bf1))) (so_id s) = Some ?s1"
    using undo_effect(3)[OF undo] found by simp
  have s1f: "so_id ?s1 = so_id s" "so_tenant_id ?s1 = tenant" "so_store_id ?s1 = so_store_id s"
    "so_status ?s1 = ''returned''" "so_number ?s1 = so_number s" using found by (simp_all add: close_sale_def)
  then have own1: "owned_sale (tb_sales (sh_till (bf_shop bf1))) tenant (so_id s) = Some ?s1"
    using s1 by (simp add: owned_sale_eq)
  have exists1: "get_sale_by_id (tb_sales (sh_till (bf_shop bf1))) (so_id ?s1) \<noteq> None" using s1 s1f(1) by simp
  have "\<exists>bf2. service_void_sale ids' now' day' tenant user' (so_id s) reason' bf1 = Inr bf2"
    using own1 s1f(4) undo_succeeds[OF exists1] by (simp add: service_void_sale_def)
  then obtain bf2 where bf2: "service_void_sale ids' now' day' tenant user' (so_id s) reason' bf1 = Inr bf2" by blast
  then obtain ws' audit' where undo': "undo_sale ids' now' day' ''voided'' ''void_return'' ''Void'' ''sale_void''
      tenant user' reason' ?s1 ws' audit' bf1 = Inr bf2"
    using own1 s1f by (auto simp: service_void_sale_def)
  have items1: "items_of_sale (tb_sales (sh_till (bf_shop bf1))) (so_id s) = ?items"
    using undo_effect(4)[OF undo] by (simp add: items_of_sale_def)
  have row1: "sh_stock (bf_shop bf1) pid (so_store_id s) = Some (b\<lparr>sb_qty := PDec (of_int Q / 100 + ?g)\<rparr>)"
    using restock_row[OF assms(8), of Q "(sh_stock (bf_shop bf), bf_movements bf)" pid s b tenant]
      assms(3-7,9) undo_effect(1)[OF undo] by simp
  obtain G where G: "?g = of_int G / 100" "0 \<le> G" "G \<le> int (length ?items) * 10 ^ 11"
    using given_back_cents[OF assms(8)] by blast
  have "int (length ?items) * 10 ^ 11 \<le> 10 * 10 ^ 11" using assms(9) by simp
  then have GB: "G \<le> 10 * 10 ^ 11" using G(3) by linarith
  have row2: "sh_stock (bf_shop bf2) pid (so_store_id s) =
      Some (b\<lparr>sb_qty := PDec (of_int Q / 100 + ?g), sb_qty := PDec (of_int (Q + G) / 100 + ?g)\<rparr>)"
    using restock_row[OF assms(8), of "Q + G" "(sh_stock (bf_shop bf1), bf_movements bf1)" pid ?s1
        "b\<lparr>sb_qty := PDec (of_int Q / 100 + ?g)\<rparr>" tenant]
      row1 assms(4,6,7,9) G GB undo_effect(1)[OF undo'] s1f items1 by (simp add: add_divide_distrib)
  note books1 = reverse_books[OF assms(10) undo_effect(2)[OF undo]]
  have j1: "sale_journals (tb_books (sh_till (bf_shop bf1))) tenant (so_id ?s1) = original # rest"
    using books1(3) s1f by simp
  have e1: "get_journal_entries (tb_books (sh_till (bf_shop bf1))) (jn_id original) =
      get_journal_entries (tb_books (sh_till (bf_shop bf))) (jn_id original)"
    by (rule books1(4)) (use assms(11,12) in auto)
  note books2 = reverse_books[OF j1 undo_effect(2)[OF undo']]
  have "account_net a (bk_entries (tb_books (sh_till (bf_shop bf2)))) =
      account_net a (bk_entries (tb_books (sh_till (bf_shop bf)))) -
      2 * account_net a (get_journal_entries (tb_books (sh_till (bf_shop bf))) (jn_id original))"
    using books1(1) books2(1) mirror_fields(1)[OF assms(11)] by (simp add: e1)
  then show ?thesis using bf2 row2 G(1) by (simp add: add_divide_distrib)
qed

section \<open>The theorems on a sale\<close>


definition paid_rice :: books where
  "paid_rice = add_posted 0 ''d'' ''J'' ''t'' ''Sale'' ''s'' ''sale'' None
     [posted_entry 0 ''e'' ''J'' ''t'' (sample_account ''A'' ''1000'' ''asset'') (kob 8000) 0 ''x'' ''asset'' (kob 8000),
      posted_entry 0 ''f'' ''J'' ''t'' (sample_account ''B'' ''4000'' ''revenue'') 0 (kob 8000) ''y'' ''revenue'' (kob 8000)]
     no_books"

definition sold_rice :: back_office where
  "sold_rice = \<lparr>bf_shop = stocked_shop\<lparr>sh_till := (till_of paid_rice sample_fees (unpaid_sale 8000))\<lparr>tb_sales :=
       no_sales\<lparr>db_sales := [unpaid_sale 8000],
         db_items := [\<lparr>si_id = ''i'', si_sale_id = ''s'', si_product_id = ''p'', si_product_name = ''Rice'',
           si_qty = PDec 2, si_unit_price = PDec 40, si_discount_pct = PDec 0, si_tax_id = None,
           si_tax_rate = None, si_tax_breakdown = None, si_line_total = PDec 80\<rparr>]\<rparr>\<rparr>\<rparr>,
     bf_movements = [], bf_audit = []\<rparr>"

lemma paid_rice_entries:
  "bk_entries paid_rice = map stored_entry
     [posted_entry 0 ''e'' ''J'' ''t'' (sample_account ''A'' ''1000'' ''asset'') (kob 8000) 0 ''x'' ''asset'' (kob 8000),
      posted_entry 0 ''f'' ''J'' ''t'' (sample_account ''B'' ''4000'' ''revenue'') 0 (kob 8000) ''y'' ''revenue'' (kob 8000)]"
  "sale_journals paid_rice ''t'' ''s'' = [\<lparr>jn_id = ''J'', jn_tenant_id = ''t'', jn_number = journal_number ''d'' ''J'',
     jn_description = [Txt ''Sale''], jn_reference_id = Some ''s'', jn_reference_type = Some ''sale'',
     jn_status = ''posted'', jn_posted_by = None, jn_posted_at = Some 0, jn_store_id = None\<rparr>]"
  "get_journal_entries paid_rice ''J'' = bk_entries paid_rice"
  by (simp_all add: paid_rice_def add_posted_def fold_create_entries create_journal_def no_books_def
      create_journal_entry_def sale_journals_def get_journal_entries_def posted_entry_def)

lemma paid_rice_facts:
  "\<forall>e \<in> set (bk_entries paid_rice). cents_entry e" "balanced_books paid_rice"
  "account_net ''A'' (bk_entries paid_rice) = 80"
proof -
  have k: "stored_amount (kob 8000) = 80" using stored_kob[of 8000] by simp
  have c: "\<exists>d c. (80::rat) = of_int d / 100 \<and> (0::rat) = of_int c / 100 \<and> \<bar>d\<bar> \<le> 2 * 10 ^ 12 \<and> \<bar>c\<bar> \<le> 2 * 10 ^ 12"
    "\<exists>d c. (0::rat) = of_int d / 100 \<and> (80::rat) = of_int c / 100 \<and> \<bar>d\<bar> \<le> 2 * 10 ^ 12 \<and> \<bar>c\<bar> \<le> 2 * 10 ^ 12"
    by (rule exI[of _ 8000], rule exI[of _ 0], simp) (rule exI[of _ 0], rule exI[of _ 8000], simp)
  show "\<forall>e \<in> set (bk_entries paid_rice). cents_entry e"
    using c by (simp add: paid_rice_entries cents_entry_def posted_entry_def k)
  show "balanced_books paid_rice"
    by (simp add: balanced_books_def get_journal_entries_def paid_rice_entries posted_entry_def)
  show "account_net ''A'' (bk_entries paid_rice) = 80"
    by (simp add: paid_rice_entries posted_entry_def k sample_account_def)
qed

lemma sold_rice_facts:
  "owned_sale (tb_sales (sh_till (bf_shop sold_rice))) ''t'' ''s'' = Some (unpaid_sale 8000)"
  "tb_books (sh_till (bf_shop sold_rice)) = paid_rice" "so_id (unpaid_sale 8000) = ''s''"
  "so_store_id (unpaid_sale 8000) = ''st''"
  "sh_stock (bf_shop sold_rice) ''p'' ''st'' = Some (sample_balance 500)"
  by (simp_all add: sold_rice_def owned_sale_def get_sale_by_id_def no_sales_def unpaid_sale_def till_of_def
      stocked_shop_def sample_shop_def sample_stock_def)

theorem void_mirrors_journal_witness:
  "\<exists>bf'. service_void_sale (\<lambda>_ _. ''v'') 1 ''d'' ''t'' ''u'' ''s'' ''oops'' sold_rice = Inr bf'
    \<and> account_net ''A'' (bk_entries (tb_books (sh_till (bf_shop bf')))) = 0
    \<and> balanced_books (tb_books (sh_till (bf_shop bf')))"
proof -
  note f = sold_rice_facts
  have "get_sale_by_id (tb_sales (sh_till (bf_shop sold_rice))) (so_id (unpaid_sale 8000)) \<noteq> None"
    using f(1,3) by (simp add: owned_sale_eq)
  then have "\<exists>bf'. service_void_sale (\<lambda>_ _. ''v'') 1 ''d'' ''t'' ''u'' ''s'' ''oops'' sold_rice = Inr bf'"
    using undo_succeeds f(1) by (simp add: service_void_sale_def unpaid_sale_def)
  then obtain bf' where bf': "service_void_sale (\<lambda>_ _. ''v'') 1 ''d'' ''t'' ''u'' (so_id (unpaid_sale 8000)) ''oops'' sold_rice = Inr bf'"
    unfolding f(3) by blast
  from void_mirrors_journal[OF bf', unfolded f(2,3), OF paid_rice_entries(2) f(1), of "''A''"] bf'
  show ?thesis using paid_rice_facts by (auto simp: paid_rice_entries(3) f(3))
qed

theorem returned_sale_voided_again_witness:
  "\<exists>refund bf1 bf2. service_return_sale (\<lambda>_ _. ''r'') 1 ''d'' ''t'' ''u'' ''s'' ''oops'' sold_rice = Inr (refund, bf1)
    \<and> service_void_sale (\<lambda>_ _. ''v'') 2 ''d'' ''t'' ''u'' ''s'' ''again'' bf1 = Inr bf2
    \<and> sh_stock (bf_shop bf2) ''p'' ''st'' = Some (sample_balance 900)
    \<and> account_net ''A'' (bk_entries (tb_books (sh_till (bf_shop bf2)))) = - 80"
proof -
  note f = sold_rice_facts
  have "get_sale_by_id (tb_sales (sh_till (bf_shop sold_rice))) (so_id (unpaid_sale 8000)) \<noteq> None"
    using f(1,3) by (simp add: owned_sale_eq)
  then have "\<exists>refund bf1. service_return_sale (\<lambda>_ _. ''r'') 1 ''d'' ''t'' ''u'' ''s'' ''oops'' sold_rice = Inr (refund, bf1)"
    using undo_succeeds[of sold_rice "unpaid_sale 8000"] f(1) by (auto simp: service_return_sale_def unpaid_sale_def res_bind_eq_Inr)
  then obtain refund bf1 where r: "service_return_sale (\<lambda>_ _. ''r'') 1 ''d'' ''t'' ''u'' (so_id (unpaid_sale 8000)) ''oops'' sold_rice =
      Inr (refund, bf1)" unfolding f(3) by blast
  have items: "items_of_sale (tb_sales (sh_till (bf_shop sold_rice))) ''s'' = [\<lparr>si_id = ''i'', si_sale_id = ''s'',
      si_product_id = ''p'', si_product_name = ''Rice'',
           si_qty = PDec 2, si_unit_price = PDec 40, si_discount_pct = PDec 0, si_tax_id = None,
           si_tax_rate = None, si_tax_breakdown = None, si_line_total = PDec 80\<rparr>]"
    by (simp add: items_of_sale_def sold_rice_def)
  have two: "\<exists>k. (2::rat) = of_int k / 100 \<and> 0 \<le> k \<and> k \<le> 10 ^ 11" by (rule exI[of _ 200]) simp
  have five: "sb_qty (sample_balance 500) = PDec (of_int 500 / 100)" "sb_tenant_id (sample_balance 500) = ''t''"
    by (simp_all add: sample_balance_def)
  obtain orig where orig: "sale_journals paid_rice ''t'' ''s'' = [orig]" "jn_id orig = ''J''"
    by (simp add: paid_rice_entries(2))
  have "\<exists>bf2. service_void_sale (\<lambda>_ _. ''v'') 2 ''d'' ''t'' ''u'' (so_id (unpaid_sale 8000)) ''again'' bf1 = Inr bf2
    \<and> sh_stock (bf_shop bf2) ''p'' (so_store_id (unpaid_sale 8000)) = Some ((sample_balance 500)\<lparr>sb_qty := PDec (of_int 500 / 100 +
        2 * given_back ''p'' (items_of_sale (tb_sales (sh_till (bf_shop sold_rice))) (so_id (unpaid_sale 8000))))\<rparr>)
    \<and> account_net ''A'' (bk_entries (tb_books (sh_till (bf_shop bf2)))) =
        account_net ''A'' (bk_entries (tb_books (sh_till (bf_shop sold_rice)))) -
        2 * account_net ''A'' (get_journal_entries (tb_books (sh_till (bf_shop sold_rice))) (jn_id orig))"
    by (rule returned_sale_voided_again[OF r])
      (use f five two orig paid_rice_facts(1) in \<open>simp_all add: items cents_items_def paid_rice_entries(3)\<close>)
  then obtain bf2 where "service_void_sale (\<lambda>_ _. ''v'') 2 ''d'' ''t'' ''u'' ''s'' ''again'' bf1 = Inr bf2"
    "sh_stock (bf_shop bf2) ''p'' ''st'' = Some (sample_balance 900)"
    "account_net ''A'' (bk_entries (tb_books (sh_till (bf_shop bf2)))) = - 80"
    by (auto simp: f items orig(2) paid_rice_entries(3) paid_rice_facts(3) given_back_def sample_balance_def)
  then show ?thesis using r f(3) by metis
qed

end
