(* ===== verification/Identity.thy ===== *)
theory Identity
  imports Events "HOL-Library.List_Lexorder"
begin

text \<open>
  \<open>app/identity\<close>: users, roles and permissions with their tables, the planning functions of
  \<open>service.py\<close> and the queries of \<open>repository.py\<close>. A row of a table is a record; a relation is the
  list of its rows. Passwords and PINs are kept as the hashes the program stores. A query without
  an \<open>ORDER BY\<close> answers in the order the rows were written.
\<close>

section \<open>Roles and ranks: \<open>constants.py\<close>\<close>

definition OWNER_ROLE_NAME :: string where
  "OWNER_ROLE_NAME = ''owner''"

definition BUILTIN_ROLE_NAMES :: "string set" where
  "BUILTIN_ROLE_NAMES = {''owner'', ''manager'', ''cashier'', ''inventory'', ''viewer''}"

definition ROLE_RANKS :: "(string \<times> int) list" where
  "ROLE_RANKS = [(''super_admin'', 100), (''developer'', 90), (''admin'', 85), (''owner'', 80),
     (''moderator'', 75), (''auditor'', 70), (''manager'', 60), (''inventory'', 50),
     (''cashier'', 40), (''viewer'', 20)]"

definition OWNER_RANK :: int where
  "OWNER_RANK = the (map_of ROLE_RANKS OWNER_ROLE_NAME)"

definition UNKNOWN_ROLE_RANK :: int where
  "UNKNOWN_ROLE_RANK = 999"

section \<open>Tables: \<open>models.py\<close>\<close>

record user =
  usr_id :: uuid
  usr_tenant_id :: uuid
  usr_email :: string
  usr_password_hash :: "string option"
  usr_full_name :: string
  usr_phone :: "string option"
  usr_status :: string
  usr_totp_secret :: "string option"
  usr_totp_enabled :: bool
  usr_auto_create_cart :: bool
  usr_last_login_at :: "timestamp option"
  usr_avatar_url :: "string option"
  usr_store_id :: "uuid option"
  usr_provider :: "string option"
  usr_provider_id :: "string option"
  usr_created_at :: timestamp

record user_role =
  urole_user_id :: uuid
  urole_role_id :: uuid
  urole_assigned_by :: "uuid option"
  urole_assigned_at :: timestamp

record role =
  role_id :: uuid
  role_tenant_id :: "uuid option"
  role_name :: string
  role_rank :: int
  role_description :: "string option"

record permission =
  perm_id :: uuid
  perm_name :: string
  perm_description :: "string option"

record role_permission =
  rperm_role_id :: uuid
  rperm_permission_id :: uuid

record password_reset_token =
  reset_id :: uuid
  reset_user_id :: uuid
  reset_token_hash :: string
  reset_expires_at :: timestamp
  reset_ip_address :: "string option"

record auth_log =
  alog_user_id :: "uuid option"
  alog_tenant_id :: "uuid option"
  alog_action :: string
  alog_ip_address :: "string option"
  alog_user_agent :: "string option"
  alog_details :: "(string \<times> json) list option"
  alog_created_at :: timestamp

record supervisor_pin =
  spin_user_id :: uuid
  spin_pin_hash :: string
  spin_expires_at :: timestamp
  spin_created_at :: timestamp

record identity_db =
  idb_users :: "user list"
  idb_roles :: "role list"
  idb_permissions :: "permission list"
  idb_role_permissions :: "role_permission list"
  idb_user_roles :: "user_role list"
  idb_reset_tokens :: "password_reset_token list"
  idb_auth_logs :: "auth_log list"
  idb_pins :: "supervisor_pin list"
  idb_outbox :: "outbox_write list"

text \<open>What the database answers to a write that breaks a key, a unique column or a reference.\<close>

definition integrity_error :: "exn + 'a" where
  "integrity_error = Inl (ValueError [Txt ''IntegrityError''])"

section \<open>Planning: \<open>service.py\<close>\<close>

record user_create_command =
  ucc_tenant_id :: uuid
  ucc_actor_id :: "uuid option"
  ucc_email :: string
  ucc_full_name :: string
  ucc_phone :: "string option"
  ucc_password_hash :: string
  ucc_correlation_id :: "string option"

record user_result =
  ures_user_id :: uuid
  ures_tenant_id :: uuid
  ures_email :: string
  ures_full_name :: string
  ures_role :: string
  ures_status :: string
  ures_totp_enabled :: bool
  ures_auto_create_cart :: bool
  ures_last_login_at :: "string option"

definition valid_full_name :: "string \<Rightarrow> bool" where
  "valid_full_name s \<longleftrightarrow> 2 \<le> length s \<and> length s \<le> 100"

text \<open>
  The fresh identifiers are the user's and the event's; the columns the constructor leaves out
  hold their defaults.
\<close>

definition plan_user_creation ::
  "uuid \<Rightarrow> uuid \<Rightarrow> timestamp \<Rightarrow> user_create_command \<Rightarrow> user_result \<times> user \<times> outbox_write list" where
  "plan_user_creation uid eid now c =
    (let usr = \<lparr>usr_id = uid, usr_tenant_id = ucc_tenant_id c, usr_email = ucc_email c,
           usr_password_hash = Some (ucc_password_hash c), usr_full_name = ucc_full_name c,
           usr_phone = ucc_phone c, usr_status = ''active'', usr_totp_secret = None,
           usr_totp_enabled = False, usr_auto_create_cart = False, usr_last_login_at = None,
           usr_avatar_url = None, usr_store_id = None, usr_provider = None, usr_provider_id = None,
           usr_created_at = now\<rparr>;
         event = user_created_event eid now (ucc_tenant_id c) uid (ucc_email c) (ucc_full_name c) []
           (ucc_correlation_id c);
         result = \<lparr>ures_user_id = uid, ures_tenant_id = ucc_tenant_id c, ures_email = ucc_email c,
           ures_full_name = ucc_full_name c, ures_role = [], ures_status = ''active'',
           ures_totp_enabled = False, ures_auto_create_cart = False, ures_last_login_at = None\<rparr>
     in (result, usr, [\<lparr>ow_event = event, aggregate_type = ''user'', aggregate_id = uid\<rparr>]))"

definition plan_role_assignment ::
  "uuid \<Rightarrow> timestamp \<Rightarrow> uuid \<Rightarrow> uuid \<Rightarrow> string \<Rightarrow> uuid option \<Rightarrow> string option \<Rightarrow> outbox_write list" where
  "plan_role_assignment eid now tenant uid name actor corr =
     [\<lparr>ow_event = role_changed_event eid now tenant uid [] name actor corr,
       aggregate_type = ''user'', aggregate_id = uid\<rparr>]"

section \<open>Queries: \<open>repository.py\<close>\<close>

definition get_user_by_email :: "identity_db \<Rightarrow> string \<Rightarrow> user option" where
  "get_user_by_email d email = List.find (\<lambda>u. usr_email u = email) (idb_users d)"

definition get_user_by_id :: "identity_db \<Rightarrow> uuid \<Rightarrow> user option" where
  "get_user_by_id d uid = List.find (\<lambda>u. usr_id u = uid) (idb_users d)"

definition get_users_by_tenant :: "identity_db \<Rightarrow> uuid \<Rightarrow> user list" where
  "get_users_by_tenant d tenant =
     sort_key (\<lambda>u. - usr_created_at u) (filter (\<lambda>u. usr_tenant_id u = tenant) (idb_users d))"

text \<open>The primary key and the e-mail address are unique.\<close>

definition repo_create_user :: "user \<Rightarrow> identity_db \<Rightarrow> exn + identity_db" where
  "repo_create_user u d =
    (if get_user_by_id d (usr_id u) \<noteq> None \<or> get_user_by_email d (usr_email u) \<noteq> None then integrity_error
     else Inr (d\<lparr>idb_users := idb_users d @ [u]\<rparr>))"

definition change_user :: "uuid \<Rightarrow> (user \<Rightarrow> user) \<Rightarrow> identity_db \<Rightarrow> identity_db" where
  "change_user uid f d = d\<lparr>idb_users := map (\<lambda>u. if usr_id u = uid then f u else u) (idb_users d)\<rparr>"

definition update_user_totp :: "uuid \<Rightarrow> string option \<Rightarrow> bool \<Rightarrow> identity_db \<Rightarrow> exn + identity_db" where
  "update_user_totp uid secret enabled d =
    (if get_user_by_id d uid = None then Inl (ValueError [Txt ''NoResultFound''])
     else Inr (change_user uid (usr_totp_secret_update (\<lambda>_. secret) \<circ> usr_totp_enabled_update (\<lambda>_. enabled)) d))"

definition create_password_reset_token :: "password_reset_token \<Rightarrow> identity_db \<Rightarrow> identity_db" where
  "create_password_reset_token t d = d\<lparr>idb_reset_tokens := idb_reset_tokens d @ [t]\<rparr>"

definition get_valid_reset_token ::
  "timestamp \<Rightarrow> identity_db \<Rightarrow> string \<Rightarrow> exn + password_reset_token option" where
  "get_valid_reset_token now d h = at_most_one
     (filter (\<lambda>t. reset_token_hash t = h \<and> now < reset_expires_at t) (idb_reset_tokens d))"

definition log_auth_event :: "auth_log \<Rightarrow> identity_db \<Rightarrow> identity_db" where
  "log_auth_event l d = d\<lparr>idb_auth_logs := idb_auth_logs d @ [l]\<rparr>"

definition get_recent_login_attempts :: "identity_db \<Rightarrow> uuid \<Rightarrow> nat \<Rightarrow> auth_log list" where
  "get_recent_login_attempts d uid limit = take limit (sort_key (\<lambda>l. - alog_created_at l)
     (filter (\<lambda>l. alog_user_id l = Some uid \<and> alog_action l \<in> {''login_success'', ''login_failed''})
       (idb_auth_logs d)))"

text \<open>Times are microseconds.\<close>

definition get_failed_login_count :: "timestamp \<Rightarrow> identity_db \<Rightarrow> uuid \<Rightarrow> int \<Rightarrow> nat" where
  "get_failed_login_count now d uid minutes =
     length (filter (\<lambda>l. alog_user_id l = Some uid \<and> alog_action l = ''login_failed''
       \<and> now - minutes * 60000000 \<le> alog_created_at l) (idb_auth_logs d))"

definition get_unique_ips_for_user :: "timestamp \<Rightarrow> identity_db \<Rightarrow> uuid \<Rightarrow> int \<Rightarrow> string list" where
  "get_unique_ips_for_user now d uid days = remdups (List.map_filter alog_ip_address
     (filter (\<lambda>l. alog_user_id l = Some uid \<and> alog_action l = ''login_success''
       \<and> now - days * 86400000000 \<le> alog_created_at l) (idb_auth_logs d)))"

definition list_audit_logs ::
  "identity_db \<Rightarrow> uuid \<Rightarrow> string option \<Rightarrow> uuid option \<Rightarrow> nat \<Rightarrow> nat \<Rightarrow> auth_log list" where
  "list_audit_logs d tenant action uid limit offset =
     take limit (drop offset (sort_key (\<lambda>l. - alog_created_at l)
       (filter (\<lambda>l. alog_tenant_id l = Some tenant
          \<and> (str_truthy action \<longrightarrow> Some (alog_action l) = action)
          \<and> (uid \<noteq> None \<longrightarrow> alog_user_id l = uid)) (idb_auth_logs d))))"

definition get_all_roles :: "identity_db \<Rightarrow> role list" where
  "get_all_roles d = sort_key (\<lambda>r. - role_rank r) (idb_roles d)"

definition get_assignable_roles :: "identity_db \<Rightarrow> role list" where
  "get_assignable_roles d =
     sort_key (\<lambda>r. - role_rank r) (filter (\<lambda>r. 20 \<le> role_rank r \<and> role_rank r \<le> 80) (idb_roles d))"

definition get_permissions_for_role :: "identity_db \<Rightarrow> uuid \<Rightarrow> permission list" where
  "get_permissions_for_role d rid =
     filter (\<lambda>p. \<lparr>rperm_role_id = rid, rperm_permission_id = perm_id p\<rparr> \<in> set (idb_role_permissions d))
       (idb_permissions d)"

definition get_permission_by_name :: "identity_db \<Rightarrow> string \<Rightarrow> permission option" where
  "get_permission_by_name d name = List.find (\<lambda>p. perm_name p = name) (idb_permissions d)"

definition holds_role :: "identity_db \<Rightarrow> uuid \<Rightarrow> uuid \<Rightarrow> bool" where
  "holds_role d uid rid \<longleftrightarrow>
     list_ex (\<lambda>x. urole_user_id x = uid \<and> urole_role_id x = rid) (idb_user_roles d)"

definition get_effective_permissions :: "identity_db \<Rightarrow> uuid \<Rightarrow> permission list" where
  "get_effective_permissions d uid =
     filter (\<lambda>p. list_ex (\<lambda>x. rperm_permission_id x = perm_id p \<and> holds_role d uid (rperm_role_id x))
       (idb_role_permissions d)) (idb_permissions d)"

text \<open>The assignment of a role the user already has breaks the primary key, an unknown one its reference.\<close>

definition assign_role_to_user ::
  "timestamp \<Rightarrow> uuid \<Rightarrow> uuid \<Rightarrow> uuid option \<Rightarrow> identity_db \<Rightarrow> exn + identity_db" where
  "assign_role_to_user now uid rid actor d =
    (if holds_role d uid rid \<or> uid \<notin> usr_id ` set (idb_users d) \<or> rid \<notin> role_id ` set (idb_roles d)
     then integrity_error
     else Inr (d\<lparr>idb_user_roles := idb_user_roles d @ [\<lparr>urole_user_id = uid, urole_role_id = rid,
       urole_assigned_by = actor, urole_assigned_at = now\<rparr>]\<rparr>))"

definition remove_role_from_user :: "uuid \<Rightarrow> uuid \<Rightarrow> identity_db \<Rightarrow> identity_db" where
  "remove_role_from_user uid rid d = d\<lparr>idb_user_roles :=
     filter (\<lambda>x. \<not> (urole_user_id x = uid \<and> urole_role_id x = rid)) (idb_user_roles d)\<rparr>"

definition repo_get_user_roles :: "identity_db \<Rightarrow> uuid \<Rightarrow> role list" where
  "repo_get_user_roles d uid =
     sort_key (\<lambda>r. - role_rank r) (filter (\<lambda>r. holds_role d uid (role_id r)) (idb_roles d))"

definition get_all_permissions :: "identity_db \<Rightarrow> permission list" where
  "get_all_permissions d = sort_key (\<lambda>p. map (of_char :: char \<Rightarrow> nat) (perm_name p)) (idb_permissions d)"

definition get_role_by_id :: "identity_db \<Rightarrow> uuid \<Rightarrow> role option" where
  "get_role_by_id d rid = List.find (\<lambda>r. role_id r = rid) (idb_roles d)"

definition get_roles_by_tenant :: "identity_db \<Rightarrow> uuid \<Rightarrow> role list" where
  "get_roles_by_tenant d tenant =
     sort_key (\<lambda>r. - role_rank r) (filter (\<lambda>r. role_tenant_id r = Some tenant) (idb_roles d))"

definition get_role_by_name_for_tenant :: "identity_db \<Rightarrow> uuid \<Rightarrow> string \<Rightarrow> role option" where
  "get_role_by_name_for_tenant d tenant name =
     List.find (\<lambda>r. role_tenant_id r = Some tenant \<and> role_name r = name) (idb_roles d)"

text \<open>Names are unique within a tenant; roles of no tenant may share one.\<close>

definition name_taken :: "identity_db \<Rightarrow> uuid \<Rightarrow> uuid option \<Rightarrow> string \<Rightarrow> bool" where
  "name_taken d rid tenant name \<longleftrightarrow> tenant \<noteq> None \<and>
     list_ex (\<lambda>r. role_id r \<noteq> rid \<and> role_tenant_id r = tenant \<and> role_name r = name) (idb_roles d)"

definition repo_create_role ::
  "uuid \<Rightarrow> uuid \<Rightarrow> string \<Rightarrow> int \<Rightarrow> string option \<Rightarrow> identity_db \<Rightarrow> exn + role \<times> identity_db" where
  "repo_create_role rid tenant name rank description d =
    (let r = \<lparr>role_id = rid, role_tenant_id = Some tenant, role_name = name, role_rank = rank,
           role_description = description\<rparr>
     in if get_role_by_id d rid \<noteq> None \<or> name_taken d rid (Some tenant) name then integrity_error
        else Inr (r, d\<lparr>idb_roles := idb_roles d @ [r]\<rparr>))"

definition edited_role :: "string option \<Rightarrow> int option \<Rightarrow> string option \<Rightarrow> role \<Rightarrow> role" where
  "edited_role name rank description r = r\<lparr>
     role_name := (case name of None \<Rightarrow> role_name r | Some x \<Rightarrow> x),
     role_rank := (case rank of None \<Rightarrow> role_rank r | Some x \<Rightarrow> x),
     role_description := (case description of None \<Rightarrow> role_description r | Some x \<Rightarrow> Some x)\<rparr>"

definition repo_update_role ::
  "uuid \<Rightarrow> string option \<Rightarrow> int option \<Rightarrow> string option \<Rightarrow> identity_db \<Rightarrow> exn + role option \<times> identity_db" where
  "repo_update_role rid name rank description d =
    (case get_role_by_id d rid of
       None \<Rightarrow> Inr (None, d)
     | Some r \<Rightarrow>
        (let r' = edited_role name rank description r
         in if name_taken d rid (role_tenant_id r') (role_name r') then integrity_error
            else Inr (Some r', d\<lparr>idb_roles := map (\<lambda>x. if role_id x = rid then r' else x) (idb_roles d)\<rparr>)))"

text \<open>The rows that name a deleted role go with it.\<close>

definition repo_delete_role :: "uuid \<Rightarrow> identity_db \<Rightarrow> bool \<times> identity_db" where
  "repo_delete_role rid d =
    (if get_role_by_id d rid = None then (False, d)
     else (True, d\<lparr>idb_roles := filter (\<lambda>r. role_id r \<noteq> rid) (idb_roles d),
       idb_role_permissions := filter (\<lambda>x. rperm_role_id x \<noteq> rid) (idb_role_permissions d),
       idb_user_roles := filter (\<lambda>x. urole_role_id x \<noteq> rid) (idb_user_roles d)\<rparr>))"

definition repo_set_role_permissions :: "uuid \<Rightarrow> uuid list \<Rightarrow> identity_db \<Rightarrow> exn + identity_db" where
  "repo_set_role_permissions rid pids d =
    (if \<not> distinct pids \<or> \<not> set pids \<subseteq> perm_id ` set (idb_permissions d)
        \<or> (pids \<noteq> [] \<and> rid \<notin> role_id ` set (idb_roles d)) then integrity_error
     else Inr (d\<lparr>idb_role_permissions :=
       filter (\<lambda>x. rperm_role_id x \<noteq> rid) (idb_role_permissions d)
       @ map (\<lambda>p. \<lparr>rperm_role_id = rid, rperm_permission_id = p\<rparr>) pids\<rparr>))"

end
