(* ===== verification/Roles.thy ===== *)
theory Roles
  imports Identity
begin

text \<open>
  Who may do what: the role operations of \<open>app/common/bridge.py\<close>, the employees of
  \<open>app/common/auth_service.py\<close>, and the two caches of \<open>app/core/dependencies.py\<close> and
  \<open>auth_service.py\<close> that decide requests: the permission set (\<open>sf:perms\<close>) and the highest rank
  (\<open>sm:role_rank\<close>) of a user. A cache is the list of its entries; it answers and takes writes only
  while Redis is up. Expiry only drops entries and is left out. An operation that raises has
  written nothing.
\<close>

section \<open>The directory and its caches\<close>

record listed_role =
  lr_role :: role
  lr_builtin :: bool
  lr_permissions :: "string list"

record directory =
  dir_db :: identity_db
  dir_perms :: "(uuid \<times> string list) list"
  dir_ranks :: "(uuid \<times> int) list"
  dir_lists :: "((string \<times> uuid option) \<times> listed_role list) list"
  dir_catalog :: "permission list option"
  dir_up :: bool

definition cache_entry :: "bool \<Rightarrow> ('k \<times> 'v) list \<Rightarrow> 'k \<Rightarrow> 'v option" where
  "cache_entry up c k = (if up then map_of c k else None)"

definition cache_put :: "bool \<Rightarrow> 'k \<Rightarrow> 'v \<Rightarrow> ('k \<times> 'v) list \<Rightarrow> ('k \<times> 'v) list" where
  "cache_put up k v c = (if up then dict_set k v c else c)"

definition cache_drop :: "bool \<Rightarrow> ('k \<Rightarrow> bool) \<Rightarrow> ('k \<times> 'v) list \<Rightarrow> ('k \<times> 'v) list" where
  "cache_drop up p c = (if up then filter (\<lambda>(k, _). \<not> p k) c else c)"

section \<open>Reading through the caches\<close>

definition perms_of :: "identity_db \<Rightarrow> uuid \<Rightarrow> string list" where
  "perms_of d uid = map perm_name (get_effective_permissions d uid)"

definition get_perms :: "uuid \<Rightarrow> directory \<Rightarrow> string list \<times> directory" where
  "get_perms uid D = (case cache_entry (dir_up D) (dir_perms D) uid of
     Some ps \<Rightarrow> (ps, D)
   | None \<Rightarrow> (let ps = perms_of (dir_db D) uid
              in (ps, D\<lparr>dir_perms := cache_put (dir_up D) uid ps (dir_perms D)\<rparr>)))"

definition get_role_names :: "uuid \<Rightarrow> directory \<Rightarrow> string list" where
  "get_role_names uid D = (let names = map role_name (repo_get_user_roles (dir_db D) uid)
     in if names = [] then [''viewer''] else names)"

fun joined :: "string \<Rightarrow> string list \<Rightarrow> string" where
  "joined sep [] = []"
| "joined sep [x] = x"
| "joined sep (x # y # xs) = x @ sep @ joined sep (y # xs)"

definition role_claim :: "string list \<Rightarrow> string" where
  "role_claim names = joined '','' names"

definition bust_perms :: "uuid \<Rightarrow> directory \<Rightarrow> directory" where
  "bust_perms uid D = D\<lparr>dir_perms := cache_drop (dir_up D) (\<lambda>k. k = uid) (dir_perms D)\<rparr>"

definition top_rank :: "identity_db \<Rightarrow> uuid \<Rightarrow> int" where
  "top_rank d uid = (case repo_get_user_roles d uid of [] \<Rightarrow> 0 | r # _ \<Rightarrow> role_rank r)"

definition get_cached_role_rank :: "uuid \<Rightarrow> directory \<Rightarrow> int \<times> directory" where
  "get_cached_role_rank uid D = (case cache_entry (dir_up D) (dir_ranks D) uid of
     Some n \<Rightarrow> (n, D)
   | None \<Rightarrow> (let n = top_rank (dir_db D) uid
              in (n, D\<lparr>dir_ranks := cache_put (dir_up D) uid n (dir_ranks D)\<rparr>)))"

definition min_role :: "string \<Rightarrow> uuid \<Rightarrow> directory \<Rightarrow> bool \<times> directory" where
  "min_role name uid D = (case get_cached_role_rank uid D of (n, D') \<Rightarrow>
     ((case map_of ROLE_RANKS name of None \<Rightarrow> UNKNOWN_ROLE_RANK | Some k \<Rightarrow> k) \<le> n, D'))"

definition require_owner :: "uuid \<Rightarrow> directory \<Rightarrow> exn + directory" where
  "require_owner uid D = (case get_cached_role_rank uid D of (n, D') \<Rightarrow>
     if n < OWNER_RANK then Inl (HTTPError 403 ''Owner or higher required'') else Inr D')"

section \<open>Lists of roles\<close>

definition listed :: "identity_db \<Rightarrow> uuid option \<Rightarrow> role list \<Rightarrow> listed_role list" where
  "listed d tenant rs = map (\<lambda>r. \<lparr>lr_role = r, lr_builtin = (role_name r \<in> BUILTIN_ROLE_NAMES),
       lr_permissions = map perm_name (get_permissions_for_role d (role_id r))\<rparr>)
     (filter (\<lambda>r. tenant = None \<or> role_tenant_id r = tenant) rs)"

text \<open>The decorator \<open>cached\<close>: the key holds the prefix and the tenant.\<close>

definition cached_list ::
  "string \<Rightarrow> uuid option \<Rightarrow> (identity_db \<Rightarrow> role list) \<Rightarrow> directory \<Rightarrow> listed_role list \<times> directory" where
  "cached_list pre tenant query D = (case cache_entry (dir_up D) (dir_lists D) (pre, tenant) of
     Some rs \<Rightarrow> (rs, D)
   | None \<Rightarrow> (let rs = listed (dir_db D) tenant (query (dir_db D))
              in (rs, D\<lparr>dir_lists := cache_put (dir_up D) (pre, tenant) rs (dir_lists D)\<rparr>)))"

definition list_assignable_roles :: "uuid option \<Rightarrow> directory \<Rightarrow> listed_role list \<times> directory" where
  "list_assignable_roles tenant = cached_list ''roles:list'' tenant get_assignable_roles"

definition list_all_roles :: "uuid option \<Rightarrow> directory \<Rightarrow> listed_role list \<times> directory" where
  "list_all_roles tenant = cached_list ''roles:all'' tenant get_all_roles"

definition list_all_permissions :: "directory \<Rightarrow> permission list \<times> directory" where
  "list_all_permissions D = (case (if dir_up D then dir_catalog D else None) of
     Some ps \<Rightarrow> (ps, D)
   | None \<Rightarrow> (let ps = get_all_permissions (dir_db D)
              in (ps, if dir_up D then D\<lparr>dir_catalog := Some ps\<rparr> else D)))"

definition tenant_user :: "identity_db \<Rightarrow> uuid \<Rightarrow> uuid \<Rightarrow> user option" where
  "tenant_user d tenant uid = (case get_user_by_id d uid of
     Some u \<Rightarrow> if usr_tenant_id u = tenant then Some u else None | None \<Rightarrow> None)"

definition get_user_roles :: "uuid \<Rightarrow> uuid \<Rightarrow> directory \<Rightarrow> role list option" where
  "get_user_roles tenant uid D =
     map_option (\<lambda>_. repo_get_user_roles (dir_db D) uid) (tenant_user (dir_db D) tenant uid)"

section \<open>Users and assignments\<close>

text \<open>The check of an e-mail address is a library's.\<close>

definition create_user ::
  "(string \<Rightarrow> bool) \<Rightarrow> uuid \<Rightarrow> uuid \<Rightarrow> timestamp \<Rightarrow> user_create_command \<Rightarrow> directory \<Rightarrow>
   exn + user_result \<times> directory" where
  "create_user valid_email uid eid now c D =
    (if \<not> valid_email (ucc_email c) \<or> \<not> valid_full_name (ucc_full_name c)
     then Inl (ValueError [Txt ''ValidationError''])
     else (case plan_user_creation uid eid now c of (result, usr, ws) \<Rightarrow>
       res_bind (repo_create_user usr (dir_db D)) (\<lambda>d.
       Inr (result, D\<lparr>dir_db := d\<lparr>idb_outbox := idb_outbox d @ ws\<rparr>\<rparr>))))"

definition invalidate_user_auth_caches :: "uuid \<Rightarrow> directory \<Rightarrow> directory" where
  "invalidate_user_auth_caches uid D = (let D1 = bust_perms uid D
     in D1\<lparr>dir_ranks := cache_drop (dir_up D1) (\<lambda>k. k = uid) (dir_ranks D1)\<rparr>)"

text \<open>The pattern \<open>sf:cache:roles:*:tenant*\<close>, and the one with the prefix of a single list.\<close>

definition drop_lists :: "(string \<Rightarrow> bool) \<Rightarrow> uuid \<Rightarrow> directory \<Rightarrow> directory" where
  "drop_lists p tenant D = D\<lparr>dir_lists :=
     cache_drop (dir_up D) (\<lambda>(pre, t). p pre \<and> t = Some tenant) (dir_lists D)\<rparr>"

definition assign_role ::
  "uuid \<Rightarrow> timestamp \<Rightarrow> uuid \<Rightarrow> uuid \<Rightarrow> string \<Rightarrow> uuid option \<Rightarrow> directory \<Rightarrow>
   exn + (uuid \<times> string) \<times> directory" where
  "assign_role eid now tenant uid name actor D =
    (let d = dir_db D in
     if tenant_user d tenant uid = None then Inl (ValueError [Txt ''user_not_found''])
     else case get_role_by_name_for_tenant d tenant name of
       None \<Rightarrow> Inl (ValueError [Txt (''role_not_found:'' @ name)])
     | Some r \<Rightarrow>
        if list_ex (\<lambda>x. role_id x = role_id r) (repo_get_user_roles d uid)
        then Inl (ValueError [Txt ''role_already_assigned''])
        else res_bind (assign_role_to_user now uid (role_id r) actor d) (\<lambda>d1.
          let ws = plan_role_assignment eid now tenant uid name actor None;
              D1 = D\<lparr>dir_db := d1\<lparr>idb_outbox := idb_outbox d1 @ ws\<rparr>\<rparr>
          in Inr ((uid, name), invalidate_user_auth_caches uid (drop_lists (\<lambda>_. True) tenant D1))))"

definition remove_role ::
  "uuid \<Rightarrow> uuid \<Rightarrow> string \<Rightarrow> directory \<Rightarrow> exn + (uuid \<times> string) \<times> directory" where
  "remove_role tenant uid name D =
    (let d = dir_db D in
     if tenant_user d tenant uid = None then Inl (ValueError [Txt ''user_not_found''])
     else case get_role_by_name_for_tenant d tenant name of
       None \<Rightarrow> Inl (ValueError [Txt (''role_not_found:'' @ name)])
     | Some r \<Rightarrow> Inr ((uid, name), invalidate_user_auth_caches uid (drop_lists (\<lambda>_. True) tenant
         (D\<lparr>dir_db := remove_role_from_user uid (role_id r) d\<rparr>))))"

section \<open>Custom roles\<close>

text \<open>
  \<open>UUID(text)\<close> accepts the prefixes \<open>urn:\<close> and \<open>uuid:\<close>, braces and hyphens around 32 hexadecimal
  digits, and is kept in canonical form.
\<close>

definition hex_digit :: "char \<Rightarrow> bool" where
  "hex_digit c = (let n = of_char c :: nat
     in (48 \<le> n \<and> n \<le> 57) \<or> (65 \<le> n \<and> n \<le> 70) \<or> (97 \<le> n \<and> n \<le> 102))"

fun without :: "string \<Rightarrow> string \<Rightarrow> string" where
  "without w [] = []"
| "without w (c # s) = (if w \<noteq> [] \<and> take (length w) (c # s) = w then without w (drop (length w - 1) s)
     else c # without w s)"

definition parse_uuid :: "string \<Rightarrow> uuid option" where
  "parse_uuid s =
    (let s1 = without ''uuid:'' (without ''urn:'' s);
         braces = (\<lambda>c. c = CHR ''{'' \<or> c = CHR ''}'');
         s2 = filter (\<lambda>c. c \<noteq> CHR ''-'') (rev (dropWhile braces (rev (dropWhile braces s1))));
         h = map lower_char s2
     in if length h = 32 \<and> list_all hex_digit h
        then Some (take 8 h @ ''-'' @ take 4 (drop 8 h) @ ''-'' @ take 4 (drop 12 h) @ ''-''
          @ take 4 (drop 16 h) @ ''-'' @ drop 20 h)
        else None)"

definition resolve_permission_id :: "identity_db \<Rightarrow> string \<Rightarrow> exn + uuid" where
  "resolve_permission_id d s = (case parse_uuid s of
     Some u \<Rightarrow> Inr u
   | None \<Rightarrow> (case get_permission_by_name d s of
       Some p \<Rightarrow> Inr (perm_id p)
     | None \<Rightarrow> Inl (ValueError [Txt (''Unknown permission: '' @ s)])))"

definition resolve_permission_ids :: "identity_db \<Rightarrow> string list \<Rightarrow> exn + uuid list" where
  "resolve_permission_ids d ss =
     res_fold (\<lambda>s ids. res_bind (resolve_permission_id d s) (\<lambda>u. Inr (ids @ [u]))) ss []"

definition outranks_owner :: "exn + 'a" where
  "outranks_owner = Inl (ValueError [Txt ''rank must not exceed 80 (the owner rank)''])"

definition create_role_for_tenant ::
  "uuid \<Rightarrow> uuid \<Rightarrow> string \<Rightarrow> int \<Rightarrow> string option \<Rightarrow> string list \<Rightarrow> directory \<Rightarrow> exn + role \<times> directory" where
  "create_role_for_tenant rid tenant name rank description pids D =
    (if OWNER_RANK < rank then outranks_owner
     else if get_role_by_name_for_tenant (dir_db D) tenant name \<noteq> None
     then Inl (ValueError [Txt (''Role '' @ in_quotes name @ '' already exists for this tenant'')])
     else res_bind (repo_create_role rid tenant name rank description (dir_db D)) (\<lambda>(r, d1).
       if pids = [] then Inr (r, D\<lparr>dir_db := d1\<rparr>)
       else res_bind (resolve_permission_ids d1 pids) (\<lambda>ids.
            res_bind (repo_set_role_permissions (role_id r) ids d1) (\<lambda>d2. Inr (r, D\<lparr>dir_db := d2\<rparr>)))))"

text \<open>A role the tenant may edit: its own, and not one of those the onboarding seeds.\<close>

definition editable_role :: "string \<Rightarrow> identity_db \<Rightarrow> uuid \<Rightarrow> uuid \<Rightarrow> exn + role option" where
  "editable_role what d tenant rid = (case get_role_by_id d rid of
     None \<Rightarrow> Inr None
   | Some r \<Rightarrow>
       if role_tenant_id r \<noteq> Some tenant then Inr None
       else if role_name r \<in> BUILTIN_ROLE_NAMES
       then Inl (ValueError [Txt (in_quotes (role_name r) @ '' is a built-in role and '' @ what
         @ ''; create a role with the permissions you need instead'')])
       else Inr (Some r))"

definition role_holders :: "identity_db \<Rightarrow> uuid \<Rightarrow> uuid list" where
  "role_holders d rid = map urole_user_id (filter (\<lambda>x. urole_role_id x = rid) (idb_user_roles d))"

definition invalidate_role_caches :: "uuid \<Rightarrow> uuid list \<Rightarrow> directory \<Rightarrow> directory" where
  "invalidate_role_caches tenant holders D =
     drop_lists (\<lambda>pre. take 9 pre = ''roles:all'') tenant (fold invalidate_user_auth_caches holders D)"

definition update_role_for_tenant ::
  "uuid \<Rightarrow> uuid \<Rightarrow> string option \<Rightarrow> int option \<Rightarrow> string option \<Rightarrow> directory \<Rightarrow>
   exn + (role \<times> string list) option \<times> directory" where
  "update_role_for_tenant tenant rid name rank description D =
    (if (case rank of None \<Rightarrow> False | Some n \<Rightarrow> OWNER_RANK < n) then outranks_owner
     else res_bind (editable_role ''cannot be edited'' (dir_db D) tenant rid) (\<lambda>found. case found of
       None \<Rightarrow> Inr (None, D)
     | Some _ \<Rightarrow>
        res_bind (repo_update_role rid name rank description (dir_db D)) (\<lambda>(updated, d1).
          Inr (map_option (\<lambda>r. (r, map perm_name (get_permissions_for_role d1 rid))) updated,
            invalidate_role_caches tenant (role_holders d1 rid) (D\<lparr>dir_db := d1\<rparr>)))))"

definition delete_role_for_tenant :: "uuid \<Rightarrow> uuid \<Rightarrow> directory \<Rightarrow> exn + bool \<times> directory" where
  "delete_role_for_tenant tenant rid D =
     res_bind (editable_role ''cannot be deleted'' (dir_db D) tenant rid) (\<lambda>found. case found of
       None \<Rightarrow> Inr (False, D)
     | Some _ \<Rightarrow> (case repo_delete_role rid (dir_db D) of (gone, d1) \<Rightarrow> Inr (gone, D\<lparr>dir_db := d1\<rparr>)))"

definition sorted_names :: "string list \<Rightarrow> string list" where
  "sorted_names xs = sort_key (map (of_char :: char \<Rightarrow> nat)) (remdups xs)"

definition set_role_permissions_for_tenant ::
  "timestamp \<Rightarrow> uuid \<Rightarrow> uuid \<Rightarrow> string list \<Rightarrow> uuid option \<Rightarrow> uuid option \<Rightarrow> directory \<Rightarrow>
   exn + (role \<times> string list) option \<times> directory" where
  "set_role_permissions_for_tenant now tenant rid pids actor supervisor D =
     res_bind (editable_role ''its permissions cannot be edited'' (dir_db D) tenant rid) (\<lambda>found. case found of
       None \<Rightarrow> Inr (None, D)
     | Some r \<Rightarrow>
        (let d = dir_db D;
             before = map perm_name (get_permissions_for_role d rid);
             holders = role_holders d rid
         in res_bind (resolve_permission_ids d pids) (\<lambda>ids.
            res_bind (repo_set_role_permissions rid ids d) (\<lambda>d1.
            let after = map perm_name (get_permissions_for_role d1 rid);
                entry = \<lparr>alog_user_id = actor, alog_tenant_id = Some tenant,
                  alog_action = ''role_permissions_updated'', alog_ip_address = None,
                  alog_user_agent = None, alog_details = Some
                    [(''role_id'', JStr rid), (''role_name'', JStr (role_name r)),
                     (''added'', JList (map JStr (sorted_names (filter (\<lambda>p. p \<notin> set before) after)))),
                     (''removed'', JList (map JStr (sorted_names (filter (\<lambda>p. p \<notin> set after) before)))),
                     (''permission_count'', jint (int (length after))),
                     (''holders_affected'', jint (int (length holders))),
                     (''supervisor_id'', jopt supervisor)], alog_created_at = now\<rparr>
            in Inr (Some (r, after),
                 invalidate_role_caches tenant holders (D\<lparr>dir_db := log_auth_event entry d1\<rparr>))))))"

section \<open>Employees\<close>

record employee_form =
  ef_email :: string
  ef_full_name :: string
  ef_phone :: "string option"
  ef_roles :: "string list option"
  ef_store_id :: "uuid option"

definition first_seen :: "'a list \<Rightarrow> 'a list" where
  "first_seen xs = rev (remdups (rev xs))"

text \<open>A role of the tenant or of the system; two of one name are refused by the query.\<close>

definition employee_role :: "identity_db \<Rightarrow> uuid \<Rightarrow> string \<Rightarrow> exn + role option" where
  "employee_role d business name = at_most_one (filter (\<lambda>r. role_name r = name
     \<and> (role_tenant_id r = Some business \<or> role_tenant_id r = None)) (idb_roles d))"

definition grant_roles ::
  "timestamp \<Rightarrow> uuid option \<Rightarrow> uuid \<Rightarrow> uuid \<Rightarrow> string list \<Rightarrow> identity_db \<Rightarrow> exn + identity_db" where
  "grant_roles now actor uid business names = res_fold (\<lambda>name d.
     res_bind (employee_role d business name) (\<lambda>found. case found of
       None \<Rightarrow> Inr d
     | Some r \<Rightarrow> assign_role_to_user now uid (role_id r) actor d)) names"

text \<open>\<open>pw_hash\<close> is the stored hash of the password, or of a random one when none is given.\<close>

definition create_employee ::
  "uuid \<Rightarrow> timestamp \<Rightarrow> string \<Rightarrow> uuid \<Rightarrow> uuid option \<Rightarrow> employee_form \<Rightarrow> directory \<Rightarrow>
   exn + (uuid \<times> string list) \<times> directory" where
  "create_employee uid now pw_hash business actor f D =
    (let d = dir_db D in
     if get_user_by_email d (ef_email f) \<noteq> None
     then Inl (AuthError ''A user with this email already exists'' ''duplicate_email'')
     else
       (let u = \<lparr>usr_id = uid, usr_tenant_id = business, usr_email = ef_email f,
              usr_password_hash = Some pw_hash, usr_full_name = ef_full_name f, usr_phone = ef_phone f,
              usr_status = ''active'', usr_totp_secret = None, usr_totp_enabled = False,
              usr_auto_create_cart = False, usr_last_login_at = None, usr_avatar_url = None,
              usr_store_id = ef_store_id f, usr_provider = None, usr_provider_id = None,
              usr_created_at = now\<rparr>;
            asked = (case ef_roles f of None \<Rightarrow> [''viewer''] | Some rs \<Rightarrow> if rs = [] then [''viewer''] else rs);
            names = first_seen (filter (\<lambda>n. n \<noteq> []) asked)
        in res_bind (repo_create_user u d) (\<lambda>d1.
           res_bind (grant_roles now actor uid business names d1) (\<lambda>d2.
           Inr ((uid, names), D\<lparr>dir_db := d2\<rparr>)))))"

definition employee_of :: "identity_db \<Rightarrow> uuid \<Rightarrow> uuid \<Rightarrow> exn + user" where
  "employee_of d business uid = (case tenant_user d business uid of
     None \<Rightarrow> Inl (AuthError ''Employee not found'' ''not_found'') | Some u \<Rightarrow> Inr u)"

record employee_edit =
  ee_full_name :: "string option"
  ee_phone :: "string option"
  ee_email :: "string option"
  ee_store_id :: "string option"
  ee_roles :: "string list option"

definition edited_user :: "employee_edit \<Rightarrow> user \<Rightarrow> user" where
  "edited_user e u = u\<lparr>
     usr_email := str_or (ee_email e) (usr_email u),
     usr_full_name := (case ee_full_name e of None \<Rightarrow> usr_full_name u | Some x \<Rightarrow> x),
     usr_phone := (case ee_phone e of None \<Rightarrow> usr_phone u | Some x \<Rightarrow> Some x),
     usr_store_id := (case ee_store_id e of None \<Rightarrow> usr_store_id u
       | Some x \<Rightarrow> if x = [] then None else Some x)\<rparr>"

definition update_employee ::
  "timestamp \<Rightarrow> uuid \<Rightarrow> uuid \<Rightarrow> employee_edit \<Rightarrow> directory \<Rightarrow> exn + (user \<times> string list) \<times> directory" where
  "update_employee now business uid e D =
     res_bind (employee_of (dir_db D) business uid) (\<lambda>u.
     if str_truthy (ee_email e) \<and> ee_email e \<noteq> Some (usr_email u)
        \<and> get_user_by_email (dir_db D) (str_or (ee_email e) []) \<noteq> None
     then Inl (AuthError ''A user with this email already exists'' ''duplicate_email'')
     else
      (let d1 = change_user uid (edited_user e) (dir_db D)
       in res_bind (case ee_roles e of
            None \<Rightarrow> Inr d1
          | Some rs \<Rightarrow> grant_roles now None uid business (first_seen (filter (\<lambda>n. n \<noteq> []) rs))
              (d1\<lparr>idb_user_roles := filter (\<lambda>x. urole_user_id x \<noteq> uid) (idb_user_roles d1)\<rparr>)) (\<lambda>d2.
          Inr ((edited_user e u, map role_name (filter (\<lambda>r. holds_role d2 uid (role_id r)) (idb_roles d2))),
               D\<lparr>dir_db := d2\<rparr>))))"

definition delete_employee :: "uuid \<Rightarrow> uuid \<Rightarrow> directory \<Rightarrow> exn + directory" where
  "delete_employee business uid D = res_bind (employee_of (dir_db D) business uid) (\<lambda>_.
     Inr (D\<lparr>dir_db := (dir_db D)\<lparr>idb_users := filter (\<lambda>u. usr_id u \<noteq> uid) (idb_users (dir_db D)),
       idb_user_roles := filter (\<lambda>x. urole_user_id x \<noteq> uid) (idb_user_roles (dir_db D)),
       idb_pins := filter (\<lambda>p. spin_user_id p \<noteq> uid) (idb_pins (dir_db D))\<rparr>\<rparr>))"

definition set_employee_status ::
  "uuid \<Rightarrow> uuid \<Rightarrow> string \<Rightarrow> directory \<Rightarrow> exn + (uuid \<times> string) \<times> directory" where
  "set_employee_status business uid st D = res_bind (employee_of (dir_db D) business uid) (\<lambda>_.
     Inr ((uid, st), D\<lparr>dir_db := change_user uid (usr_status_update (\<lambda>_. st)) (dir_db D)\<rparr>))"

definition get_employee :: "uuid \<Rightarrow> uuid \<Rightarrow> directory \<Rightarrow> user option" where
  "get_employee business uid D = tenant_user (dir_db D) business uid"

end
