(* ===== verification/RoleFlows.thy ===== *)
theory RoleFlows
  imports Roles
begin

text \<open>
  What the administration of roles keeps. \<open>role_governance\<close>: no sequence of operations changes the
  seeded roles of a tenant, their permissions, or lets a role outrank the owner.
  \<open>cached_authority_is_current\<close>: as long as Redis is up and no role is deleted, what the caches
  answer is what the tables say. \<open>deleted_role_still_authorises\<close> and \<open>employees_can_be_made_owners\<close>
  are the two places where the code gives more than the tables or the caller's own rank would.
\<close>

section \<open>Sequences of operations\<close>

datatype role_op =
    CreateRole uuid uuid string int "string option" "string list"
  | UpdateRole uuid uuid "string option" "int option" "string option"
  | DeleteRole uuid uuid
  | SetPermissions uuid uuid "string list" "uuid option" "uuid option"
  | AssignRole uuid uuid uuid string "uuid option"
  | RemoveRole uuid uuid string
  | ReadPerms uuid
  | ReadRank uuid

definition kept :: "directory \<Rightarrow> exn + 'a \<times> directory \<Rightarrow> directory" where
  "kept D res = (case res of Inl _ \<Rightarrow> D | Inr (_, D') \<Rightarrow> D')"

fun role_step :: "timestamp \<times> role_op \<Rightarrow> directory \<Rightarrow> directory" where
  "role_step (now, CreateRole rid t name rank desc pids) D = kept D (create_role_for_tenant rid t name rank desc pids D)"
| "role_step (now, UpdateRole t rid name rank desc) D = kept D (update_role_for_tenant t rid name rank desc D)"
| "role_step (now, DeleteRole t rid) D = kept D (delete_role_for_tenant t rid D)"
| "role_step (now, SetPermissions t rid pids actor spv) D =
     kept D (set_role_permissions_for_tenant now t rid pids actor spv D)"
| "role_step (now, AssignRole eid t uid name actor) D = kept D (assign_role eid now t uid name actor D)"
| "role_step (now, RemoveRole t uid name) D = kept D (remove_role t uid name D)"
| "role_step (now, ReadPerms uid) D = snd (get_perms uid D)"
| "role_step (now, ReadRank uid) D = snd (get_cached_role_rank uid D)"

lemma kept_cases: "P D \<Longrightarrow> (\<And>x D'. res = Inr (x, D') \<Longrightarrow> P D') \<Longrightarrow> P (kept D res)"
  by (auto simp: kept_def split: sum.split)

section \<open>The tables under the caches\<close>

text \<open>Caches are not tables.\<close>

lemma dir_db_caches [simp]:
  "dir_db (bust_perms uid D) = dir_db D"
  "dir_db (invalidate_user_auth_caches uid D) = dir_db D"
  "dir_db (drop_lists p t D) = dir_db D"
  "dir_db (snd (get_perms uid D)) = dir_db D"
  "dir_db (snd (get_cached_role_rank uid D)) = dir_db D"
  "dir_up (bust_perms uid D) = dir_up D"
  "dir_up (invalidate_user_auth_caches uid D) = dir_up D"
  "dir_up (drop_lists p t D) = dir_up D"
  "dir_up (snd (get_perms uid D)) = dir_up D"
  "dir_up (snd (get_cached_role_rank uid D)) = dir_up D"
  by (simp_all add: bust_perms_def invalidate_user_auth_caches_def drop_lists_def get_perms_def
      get_cached_role_rank_def Let_def split: option.split)

lemma fold_invalidate [simp]:
  "dir_db (fold invalidate_user_auth_caches us D) = dir_db D"
  "dir_up (fold invalidate_user_auth_caches us D) = dir_up D"
  by (induction us arbitrary: D) auto

lemma dir_db_role_caches [simp]:
  "dir_db (invalidate_role_caches t us D) = dir_db D" "dir_up (invalidate_role_caches t us D) = dir_up D"
  by (simp_all add: invalidate_role_caches_def)

section \<open>Governance\<close>

definition builtin_roles :: "identity_db \<Rightarrow> uuid \<Rightarrow> role list" where
  "builtin_roles d t =
     filter (\<lambda>r. role_tenant_id r = Some t \<and> role_name r \<in> BUILTIN_ROLE_NAMES) (idb_roles d)"

definition grants :: "identity_db \<Rightarrow> uuid \<Rightarrow> role_permission list" where
  "grants d rid = filter (\<lambda>x. rperm_role_id x = rid) (idb_role_permissions d)"

definition seeded :: "identity_db \<Rightarrow> uuid \<Rightarrow> bool" where
  "seeded d t \<longleftrightarrow> BUILTIN_ROLE_NAMES \<subseteq> role_name ` set (builtin_roles d t)"

text \<open>Keys and references hold, and no role outranks the owner.\<close>

definition governed :: "identity_db \<Rightarrow> bool" where
  "governed d \<longleftrightarrow> distinct (map role_id (idb_roles d))
     \<and> rperm_role_id ` set (idb_role_permissions d) \<subseteq> role_id ` set (idb_roles d)
     \<and> urole_role_id ` set (idb_user_roles d) \<subseteq> role_id ` set (idb_roles d)
     \<and> (\<forall>r\<in>set (idb_roles d). role_rank r \<le> OWNER_RANK)"

text \<open>What one operation may do to the tables as seen by tenant \<open>t\<close>.\<close>

definition lawful :: "uuid \<Rightarrow> identity_db \<Rightarrow> identity_db \<Rightarrow> bool" where
  "lawful t d d' \<longleftrightarrow> governed d' \<and> (seeded d t \<longrightarrow> builtin_roles d' t = builtin_roles d t
     \<and> (\<forall>r\<in>set (builtin_roles d t). grants d' (role_id r) = grants d (role_id r)))"

lemma seeded_cong: "builtin_roles d' t = builtin_roles d t \<Longrightarrow> seeded d' t = seeded d t"
  by (simp add: seeded_def)

lemma lawful_refl: "governed d \<Longrightarrow> lawful t d d"
  by (simp add: lawful_def)

lemma lawful_trans:
  assumes "lawful t d d1" "lawful t d1 d2"
  shows "lawful t d d2"
proof (cases "seeded d t")
  case True
  then have eq: "builtin_roles d1 t = builtin_roles d t" using assms(1) by (simp add: lawful_def)
  then have "seeded d1 t" using True seeded_cong by blast
  then show ?thesis using assms True eq unfolding lawful_def by metis
next
  case False
  then show ?thesis using assms unfolding lawful_def by blast
qed

text \<open>Tables other than roles and their permissions do not matter to it.\<close>

lemma lawful_roles:
  assumes "governed d" "idb_roles d' = idb_roles d" "idb_role_permissions d' = idb_role_permissions d"
    and "urole_role_id ` set (idb_user_roles d') \<subseteq> role_id ` set (idb_roles d)"
  shows "lawful t d d'"
  using assms unfolding lawful_def builtin_roles_def grants_def governed_def by simp

lemma find_in: "List.find p xs = Some x \<Longrightarrow> x \<in> set xs \<and> p x"
  by (metis find_Some_iff nth_mem)

lemma get_role_by_idD: "get_role_by_id d rid = Some r \<Longrightarrow> r \<in> set (idb_roles d) \<and> role_id r = rid"
  by (auto simp: get_role_by_id_def dest: find_in)

lemma same_role:
  assumes "governed d" "r \<in> set (idb_roles d)" "r' \<in> set (idb_roles d)" "role_id r = role_id r'"
  shows "r = r'"
  using assms by (auto simp: governed_def distinct_map inj_on_def)

lemma editable_roleD:
  "editable_role what d t rid = Inr (Some r) \<Longrightarrow>
   get_role_by_id d rid = Some r \<and> role_tenant_id r = Some t \<and> role_name r \<notin> BUILTIN_ROLE_NAMES"
  by (auto simp: editable_role_def split: option.splits if_splits)

text \<open>In a seeded tenant, a free name is not that of a seeded role.\<close>

lemma free_name:
  assumes "seeded d t" "\<not> name_taken d rid (Some t) name" "rid \<notin> role_id ` set (builtin_roles d t)"
  shows "name \<notin> BUILTIN_ROLE_NAMES"
proof
  assume "name \<in> BUILTIN_ROLE_NAMES"
  then obtain r where r: "r \<in> set (builtin_roles d t)" "role_name r = name"
    using assms(1) by (auto simp: seeded_def)
  then have "role_id r \<noteq> rid" using assms(3) by auto
  with r assms(2) show False by (auto simp: name_taken_def builtin_roles_def list_ex_iff)
qed

lemma set_permissionsD:
  "repo_set_role_permissions rid pids d = Inr d' \<Longrightarrow> d' = d\<lparr>idb_role_permissions :=
     filter (\<lambda>x. rperm_role_id x \<noteq> rid) (idb_role_permissions d)
     @ map (\<lambda>p. \<lparr>rperm_role_id = rid, rperm_permission_id = p\<rparr>) pids\<rparr>"
  by (auto simp: repo_set_role_permissions_def integrity_error_def split: if_splits)

lemma grants_set_permissions:
  assumes "repo_set_role_permissions rid pids d = Inr d'" "rid' \<noteq> rid"
  shows "grants d' rid' = grants d rid'"
  using assms(2) unfolding set_permissionsD[OF assms(1)]
  by (auto simp: grants_def filter_empty_conv intro!: filter_cong)

lemma lawful_set_permissions:
  assumes "governed d" "repo_set_role_permissions rid pids d = Inr d'"
    and "r \<in> set (idb_roles d)" "role_id r = rid" "role_tenant_id r = Some t \<Longrightarrow> role_name r \<notin> BUILTIN_ROLE_NAMES"
  shows "lawful t d d'"
proof -
  have d': "idb_roles d' = idb_roles d" "idb_user_roles d' = idb_user_roles d"
    "idb_role_permissions d' = filter (\<lambda>x. rperm_role_id x \<noteq> rid) (idb_role_permissions d)
       @ map (\<lambda>p. \<lparr>rperm_role_id = rid, rperm_permission_id = p\<rparr>) pids"
    using set_permissionsD[OF assms(2)] by simp_all
  have "governed d'" using assms(1,3,4) d' by (auto simp: governed_def)
  moreover have "grants d' (role_id b) = grants d (role_id b)" if "b \<in> set (builtin_roles d t)" for b
  proof -
    have "role_id b \<noteq> rid"
      using that assms(3-5) same_role[OF assms(1), of b r] by (auto simp: builtin_roles_def)
    then show ?thesis by (rule grants_set_permissions[OF assms(2)])
  qed
  ultimately show ?thesis using d' by (auto simp: lawful_def builtin_roles_def)
qed

lemma filter_map_idle:
  "(\<And>x. x \<in> set xs \<Longrightarrow> f x = x \<or> \<not> P x \<and> \<not> P (f x)) \<Longrightarrow> filter P (map f xs) = filter P xs"
proof (induction xs)
  case (Cons a xs)
  have "filter P (map f xs) = filter P xs" by (rule Cons.IH) (simp add: Cons.prems)
  moreover have "f a = a \<or> \<not> P a \<and> \<not> P (f a)" by (rule Cons.prems) simp
  ultimately show ?case by auto
qed simp

lemma role_created:
  assumes "create_role_for_tenant rid u name rank desc pids D = Inr (r, D')"
  obtains d1 d2 where "rank \<le> OWNER_RANK"
    "r = \<lparr>role_id = rid, role_tenant_id = Some u, role_name = name, role_rank = rank, role_description = desc\<rparr>"
    "rid \<notin> role_id ` set (idb_roles (dir_db D))" "\<not> name_taken (dir_db D) rid (Some u) name"
    "d1 = (dir_db D)\<lparr>idb_roles := idb_roles (dir_db D) @ [r]\<rparr>"
    "d2 = d1 \<or> (\<exists>ids. repo_set_role_permissions rid ids d1 = Inr d2)" "D' = D\<lparr>dir_db := d2\<rparr>"
proof -
  obtain d1 where rank: "rank \<le> OWNER_RANK" and d1: "repo_create_role rid u name rank desc (dir_db D) = Inr (r, d1)"
    and rest: "\<exists>d2. (d2 = d1 \<or> (\<exists>ids. repo_set_role_permissions (role_id r) ids d1 = Inr d2)) \<and> D' = D\<lparr>dir_db := d2\<rparr>"
    using assms unfolding create_role_for_tenant_def outranks_owner_def
    by (auto simp: res_bind_eq_Inr split: if_splits)
  have "r = \<lparr>role_id = rid, role_tenant_id = Some u, role_name = name, role_rank = rank, role_description = desc\<rparr>"
    "get_role_by_id (dir_db D) rid = None" "\<not> name_taken (dir_db D) rid (Some u) name"
    "d1 = (dir_db D)\<lparr>idb_roles := idb_roles (dir_db D) @ [r]\<rparr>"
    using d1 by (auto simp: repo_create_role_def integrity_error_def Let_def split: if_splits)
  with rank rest that show ?thesis by (auto simp: get_role_by_id_def find_None_iff)
qed

lemma lawful_create:
  assumes "governed (dir_db D)" "create_role_for_tenant rid u name rank desc pids D = Inr (r, D')"
  shows "lawful t (dir_db D) (dir_db D')"
  using assms(2)
proof (rule role_created)
  let ?d = "dir_db D"
  fix d1 d2
  assume rank: "rank \<le> OWNER_RANK" and fresh: "rid \<notin> role_id ` set (idb_roles ?d)"
    and r: "r = \<lparr>role_id = rid, role_tenant_id = Some u, role_name = name, role_rank = rank, role_description = desc\<rparr>"
    and new: "\<not> name_taken ?d rid (Some u) name" and d1': "d1 = ?d\<lparr>idb_roles := idb_roles ?d @ [r]\<rparr>"
    and rest: "d2 = d1 \<or> (\<exists>ids. repo_set_role_permissions rid ids d1 = Inr d2)" and D': "D' = D\<lparr>dir_db := d2\<rparr>"
  have hidden: "name \<notin> BUILTIN_ROLE_NAMES" if "seeded ?d t" "u = t"
    using free_name[of ?d t rid name] new fresh that by (auto simp: builtin_roles_def)
  have gov: "governed d1" using assms(1) fresh rank by (auto simp: governed_def d1' r)
  have one: "lawful t ?d d1"
    using gov hidden unfolding lawful_def by (auto simp: builtin_roles_def grants_def d1' r)
  have "lawful t ?d d2" if ids: "repo_set_role_permissions rid ids d1 = Inr d2" for ids
  proof -
    note d2 = set_permissionsD[OF ids]
    have "governed d2" using gov by (auto simp: governed_def d2 d1' r)
    moreover have "builtin_roles d2 t = builtin_roles ?d t" if "seeded ?d t"
      using hidden[OF that] by (auto simp: builtin_roles_def d2 d1' r)
    moreover have "grants d2 (role_id b) = grants ?d (role_id b)" if "b \<in> set (builtin_roles ?d t)" for b
    proof -
      have "role_id b \<noteq> rid" using fresh that by (auto simp: builtin_roles_def)
      then have "grants d2 (role_id b) = grants d1 (role_id b)" by (rule grants_set_permissions[OF ids])
      then show ?thesis by (simp add: grants_def d1')
    qed
    ultimately show ?thesis by (simp add: lawful_def)
  qed
  with one rest show ?thesis by (auto simp: D')
qed

lemma edited_role_keys [simp]:
  "role_id (edited_role name rank desc r) = role_id r"
  "role_tenant_id (edited_role name rank desc r) = role_tenant_id r"
  by (simp_all add: edited_role_def)

lemma role_updated:
  assumes "update_role_for_tenant u rid name rank desc D = Inr (x, D')" "D' \<noteq> D"
  obtains r r' d1 where "get_role_by_id (dir_db D) rid = Some r" "role_tenant_id r = Some u"
    "role_name r \<notin> BUILTIN_ROLE_NAMES" "r' = edited_role name rank desc r"
    "case rank of None \<Rightarrow> True | Some n \<Rightarrow> n \<le> OWNER_RANK" "\<not> name_taken (dir_db D) rid (Some u) (role_name r')"
    "d1 = (dir_db D)\<lparr>idb_roles := map (\<lambda>x. if role_id x = rid then r' else x) (idb_roles (dir_db D))\<rparr>"
    "D' = invalidate_role_caches u (role_holders d1 rid) (D\<lparr>dir_db := d1\<rparr>)"
proof -
  obtain r y d1 where r: "get_role_by_id (dir_db D) rid = Some r" "role_tenant_id r = Some u"
      "role_name r \<notin> BUILTIN_ROLE_NAMES" "case rank of None \<Rightarrow> True | Some n \<Rightarrow> n \<le> OWNER_RANK"
    and upd: "repo_update_role rid name rank desc (dir_db D) = Inr (y, d1)"
    and D': "D' = invalidate_role_caches u (role_holders d1 rid) (D\<lparr>dir_db := d1\<rparr>)"
    using assms unfolding update_role_for_tenant_def outranks_owner_def
    by (auto simp: res_bind_eq_Inr dest!: editable_roleD split: if_splits option.splits)
  have "\<not> name_taken (dir_db D) rid (Some u) (role_name (edited_role name rank desc r))"
    "d1 = (dir_db D)\<lparr>idb_roles := map (\<lambda>x. if role_id x = rid then edited_role name rank desc r else x)
       (idb_roles (dir_db D))\<rparr>"
    using upd r(1,2) by (auto simp: repo_update_role_def integrity_error_def Let_def split: if_splits)
  with r D' that show ?thesis by blast
qed

lemma lawful_update:
  assumes "governed (dir_db D)" "update_role_for_tenant u rid name rank desc D = Inr (x, D')"
  shows "lawful t (dir_db D) (dir_db D')"
proof (cases "D' = D")
  case False
  from assms(2) this show ?thesis
  proof (rule role_updated)
  let ?d = "dir_db D"
  fix r r' d1
  assume r: "get_role_by_id ?d rid = Some r" "role_tenant_id r = Some u" "role_name r \<notin> BUILTIN_ROLE_NAMES"
    and r'_def: "r' = edited_role name rank desc r" and ok: "case rank of None \<Rightarrow> True | Some n \<Rightarrow> n \<le> OWNER_RANK"
    and free: "\<not> name_taken ?d rid (Some u) (role_name r')"
    and d1: "d1 = ?d\<lparr>idb_roles := map (\<lambda>x. if role_id x = rid then r' else x) (idb_roles ?d)\<rparr>"
    and D': "D' = invalidate_role_caches u (role_holders d1 rid) (D\<lparr>dir_db := d1\<rparr>)"
  note in_db = get_role_by_idD[OF r(1)]
  have keep: "role_id r' = rid" "role_tenant_id r' = Some u"
    using in_db r(2) by (simp_all add: r'_def edited_role_def)
  have d': "dir_db D' = ?d\<lparr>idb_roles := map (\<lambda>x. if role_id x = rid then r' else x) (idb_roles ?d)\<rparr>"
    by (simp add: D' d1)
  have alone: "b \<in> set (idb_roles ?d) \<Longrightarrow> role_id b = rid \<Longrightarrow> b = r" for b
    using same_role[OF assms(1)] in_db by blast
  have "rid \<notin> role_id ` set (builtin_roles ?d u)" using alone r(3) by (auto simp: builtin_roles_def)
  then have hidden: "role_name r' \<notin> BUILTIN_ROLE_NAMES" if "seeded ?d t" "u = t"
    using free_name[of ?d t rid] free that by blast
  have ids: "map role_id (idb_roles (dir_db D')) = map role_id (idb_roles ?d)" by (simp add: d' keep)
  then have id_set: "role_id ` set (idb_roles (dir_db D')) = role_id ` set (idb_roles ?d)"
    by (metis set_map)
  have others: "idb_role_permissions (dir_db D') = idb_role_permissions ?d"
    "idb_user_roles (dir_db D') = idb_user_roles ?d" by (simp_all add: d')
  have "role_rank r' \<le> OWNER_RANK"
    using ok assms(1) in_db by (auto simp: r'_def edited_role_def governed_def split: option.splits)
  then have "\<forall>b\<in>set (idb_roles (dir_db D')). role_rank b \<le> OWNER_RANK"
    using assms(1) by (auto simp: d' governed_def)
  then have "governed (dir_db D')"
    using assms(1) ids id_set others unfolding governed_def by simp
  moreover have "builtin_roles (dir_db D') t = builtin_roles ?d t" if sd: "seeded ?d t"
  proof -
    have "role_tenant_id r' = Some t \<and> role_name r' \<in> BUILTIN_ROLE_NAMES \<longleftrightarrow> False"
      using hidden[OF sd] keep(2) by auto
    show ?thesis using alone r hidden[OF sd] keep(2) unfolding builtin_roles_def d'
      by (auto intro!: filter_map_idle split: if_splits)
  qed
  ultimately show ?thesis by (simp add: lawful_def grants_def d')
  qed
qed (use assms lawful_refl in auto)

lemma lawful_delete:
  assumes "governed (dir_db D)" "delete_role_for_tenant u rid D = Inr (x, D')"
  shows "lawful t (dir_db D) (dir_db D')"
proof (cases "dir_db D' = dir_db D")
  case False
  let ?d = "dir_db D"
  obtain r where r: "get_role_by_id ?d rid = Some r" "role_name r \<notin> BUILTIN_ROLE_NAMES"
    and d': "dir_db D' = snd (repo_delete_role rid ?d)"
    using assms(2) False unfolding delete_role_for_tenant_def
    by (auto simp: res_bind_eq_Inr dest!: editable_roleD split: option.splits prod.splits)
  note in_db = get_role_by_idD[OF r(1)]
  have gone: "dir_db D' = ?d\<lparr>idb_roles := filter (\<lambda>r. role_id r \<noteq> rid) (idb_roles ?d),
       idb_role_permissions := filter (\<lambda>x. rperm_role_id x \<noteq> rid) (idb_role_permissions ?d),
       idb_user_roles := filter (\<lambda>x. urole_role_id x \<noteq> rid) (idb_user_roles ?d)\<rparr>"
    using d' r(1) by (simp add: repo_delete_role_def)
  have other: "role_id b \<noteq> rid" if "b \<in> set (builtin_roles ?d t)" for b
    using same_role[OF assms(1), of b r] in_db r(2) that by (auto simp: builtin_roles_def)
  have "distinct (map role_id (filter (\<lambda>r. role_id r \<noteq> rid) (idb_roles ?d)))"
    using assms(1) by (simp add: governed_def distinct_map_filter)
  then have "governed (dir_db D')" using assms(1) by (auto simp: governed_def gone)
  moreover have "builtin_roles (dir_db D') t = builtin_roles ?d t"
    using other by (auto simp: builtin_roles_def gone intro!: filter_cong)
  moreover have "grants (dir_db D') (role_id b) = grants ?d (role_id b)" if "b \<in> set (builtin_roles ?d t)" for b
    using other[OF that] by (auto simp: grants_def gone intro!: filter_cong)
  ultimately show ?thesis by (simp add: lawful_def)
qed (use assms lawful_refl in auto)

lemma permissions_set:
  assumes "set_role_permissions_for_tenant now u rid pids actor spv D = Inr (x, D')" "x \<noteq> None"
  obtains r ids d1 entry where "get_role_by_id (dir_db D) rid = Some r" "role_tenant_id r = Some u"
    "role_name r \<notin> BUILTIN_ROLE_NAMES" "repo_set_role_permissions rid ids (dir_db D) = Inr d1"
    "D' = invalidate_role_caches u (role_holders (dir_db D) rid) (D\<lparr>dir_db := log_auth_event entry d1\<rparr>)"
  using assms unfolding set_role_permissions_for_tenant_def
  by (auto simp: res_bind_eq_Inr Let_def dest!: editable_roleD split: option.splits)

lemma permissions_not_set:
  "set_role_permissions_for_tenant now u rid pids actor spv D = Inr (None, D') \<Longrightarrow> D' = D"
  unfolding set_role_permissions_for_tenant_def
  by (auto simp: res_bind_eq_Inr Let_def split: option.splits)

lemma lawful_permissions:
  assumes "governed (dir_db D)" "set_role_permissions_for_tenant now u rid pids actor spv D = Inr (x, D')"
  shows "lawful t (dir_db D) (dir_db D')"
proof (cases x)
  case None
  then have "D' = D" using assms(2) permissions_not_set by blast
  then show ?thesis using assms(1) by (simp add: lawful_refl)
next
  case (Some y)
  then obtain r ids d1 entry where r: "get_role_by_id (dir_db D) rid = Some r" "role_name r \<notin> BUILTIN_ROLE_NAMES"
    and d1: "repo_set_role_permissions rid ids (dir_db D) = Inr d1" and db: "dir_db D' = log_auth_event entry d1"
    using assms(2) Some by (elim permissions_set) auto
  have "lawful t (dir_db D) d1"
    using lawful_set_permissions[OF assms(1) d1] get_role_by_idD[OF r(1)] r(2) by blast
  then show ?thesis
    by (auto simp: db log_auth_event_def lawful_def governed_def builtin_roles_def grants_def seeded_def)
qed

lemma role_assigned:
  assumes "assign_role eid now u uid name actor D = Inr (x, D')"
  obtains r d1 ws where "get_role_by_name_for_tenant (dir_db D) u name = Some r"
    "assign_role_to_user now uid (role_id r) actor (dir_db D) = Inr d1"
    "D' = invalidate_user_auth_caches uid (drop_lists (\<lambda>_. True) u (D\<lparr>dir_db := d1\<lparr>idb_outbox := ws\<rparr>\<rparr>))"
  using assms unfolding assign_role_def
  by (auto simp: res_bind_eq_Inr Let_def split: option.splits if_splits)

lemma role_removed:
  assumes "remove_role u uid name D = Inr (x, D')"
  obtains r where "get_role_by_name_for_tenant (dir_db D) u name = Some r"
    "D' = invalidate_user_auth_caches uid (drop_lists (\<lambda>_. True) u (D\<lparr>dir_db := remove_role_from_user uid (role_id r) (dir_db D)\<rparr>))"
  using assms unfolding remove_role_def by (auto simp: Let_def split: option.splits if_splits)

lemma user_assigned:
  "assign_role_to_user now uid rid actor d = Inr d1 \<Longrightarrow> rid \<in> role_id ` set (idb_roles d)
     \<and> d1 = d\<lparr>idb_user_roles := idb_user_roles d @ [\<lparr>urole_user_id = uid, urole_role_id = rid,
       urole_assigned_by = actor, urole_assigned_at = now\<rparr>]\<rparr>"
  by (auto simp: assign_role_to_user_def integrity_error_def split: if_splits)

lemma lawful_assign:
  assumes "governed (dir_db D)" "assign_role eid now u uid name actor D = Inr (x, D')"
  shows "lawful t (dir_db D) (dir_db D')"
  using assms(2)
proof (rule role_assigned)
  fix r d1 ws
  assume "assign_role_to_user now uid (role_id r) actor (dir_db D) = Inr d1"
    and D': "D' = invalidate_user_auth_caches uid (drop_lists (\<lambda>_. True) u (D\<lparr>dir_db := d1\<lparr>idb_outbox := ws\<rparr>\<rparr>))"
  from user_assigned[OF this(1)] show ?thesis
    using assms(1) by (intro lawful_roles) (auto simp: D' governed_def)
qed

lemma lawful_remove:
  assumes "governed (dir_db D)" "remove_role u uid name D = Inr (x, D')"
  shows "lawful t (dir_db D) (dir_db D')"
  using assms(2)
proof (rule role_removed)
  fix r
  assume D': "D' = invalidate_user_auth_caches uid
    (drop_lists (\<lambda>_. True) u (D\<lparr>dir_db := remove_role_from_user uid (role_id r) (dir_db D)\<rparr>))"
  show ?thesis using assms(1)
    by (intro lawful_roles) (auto simp: D' remove_role_from_user_def governed_def)
qed

lemma lawful_step: "governed (dir_db D) \<Longrightarrow> lawful t (dir_db D) (dir_db (role_step (now, oper) D))"
  by (cases oper) (auto intro!: kept_cases[where P = "\<lambda>D'. lawful t (dir_db D) (dir_db D')"] intro: lawful_refl
      lawful_create lawful_update lawful_delete lawful_permissions lawful_assign lawful_remove)

lemma lawful_steps: "governed (dir_db D) \<Longrightarrow> lawful t (dir_db D) (dir_db (fold role_step opers D))"
proof (induction opers arbitrary: D)
  case (Cons a opers)
  obtain now oper where a: "a = (now, oper)" by (cases a)
  have one: "lawful t (dir_db D) (dir_db (role_step a D))" using lawful_step Cons.prems by (simp add: a)
  then have "governed (dir_db (role_step a D))" by (simp add: lawful_def)
  from lawful_trans[OF one Cons.IH[OF this]] show ?case by simp
qed (simp add: lawful_refl)

text \<open>
  C30: After any sequence of role operations by any tenants, every key and reference of the role
  tables holds and no role outranks the owner; and a tenant the onboarding seeded still has
  exactly its five built-in roles, with the ranks, descriptions and permissions they had.
\<close>

theorem role_governance:
  assumes "governed (dir_db D)" "seeded (dir_db D) t"
  shows "governed (dir_db (fold role_step opers D))
    \<and> builtin_roles (dir_db (fold role_step opers D)) t = builtin_roles (dir_db D) t
    \<and> map (\<lambda>r. grants (dir_db (fold role_step opers D)) (role_id r)) (builtin_roles (dir_db D) t)
      = map (\<lambda>r. grants (dir_db D) (role_id r)) (builtin_roles (dir_db D) t)"
  using lawful_steps[OF assms(1), of t opers] assms(2) by (simp add: lawful_def)

section \<open>What the caches answer\<close>

definition coherent :: "directory \<Rightarrow> bool" where
  "coherent D \<longleftrightarrow> list_all (\<lambda>(uid, ps). ps = perms_of (dir_db D) uid) (dir_perms D)
     \<and> list_all (\<lambda>(uid, n). n = top_rank (dir_db D) uid) (dir_ranks D)"

definition same_authority :: "identity_db \<Rightarrow> identity_db \<Rightarrow> uuid \<Rightarrow> bool" where
  "same_authority d d' uid \<longleftrightarrow> perms_of d' uid = perms_of d uid \<and> top_rank d' uid = top_rank d uid"

lemma same_authorityI:
  assumes "idb_permissions d' = idb_permissions d"
    and "\<And>rid. holds_role d' uid rid = holds_role d uid rid"
    and "\<And>rid. holds_role d uid rid \<Longrightarrow> grants d' rid = grants d rid"
    and "filter (\<lambda>r. holds_role d uid (role_id r)) (idb_roles d') = filter (\<lambda>r. holds_role d uid (role_id r)) (idb_roles d)"
  shows "same_authority d d' uid"
proof -
  have key: "list_ex (\<lambda>x. rperm_permission_id x = p \<and> holds_role e uid (rperm_role_id x)) (idb_role_permissions e)
    \<longleftrightarrow> (\<exists>rid. holds_role e uid rid \<and> (\<exists>x\<in>set (grants e rid). rperm_permission_id x = p))" for e p
    by (auto simp: list_ex_iff grants_def)
  have "list_ex (\<lambda>x. rperm_permission_id x = p \<and> holds_role d' uid (rperm_role_id x)) (idb_role_permissions d')
    = list_ex (\<lambda>x. rperm_permission_id x = p \<and> holds_role d uid (rperm_role_id x)) (idb_role_permissions d)" for p
    unfolding key using assms(2,3) by metis
  then have "perms_of d' uid = perms_of d uid"
    by (simp only: perms_of_def get_effective_permissions_def assms(1))
  moreover have "top_rank d' uid = top_rank d uid"
    by (simp only: top_rank_def repo_get_user_roles_def assms(2,4))
  ultimately show ?thesis by (simp add: same_authority_def)
qed

lemma holds_role_updates [simp]:
  "holds_role (d\<lparr>idb_roles := rs\<rparr>) = holds_role d"
  "holds_role (d\<lparr>idb_role_permissions := ps\<rparr>) = holds_role d"
  "holds_role (d\<lparr>idb_auth_logs := ls\<rparr>) = holds_role d"
  "holds_role (d\<lparr>idb_outbox := ws\<rparr>) = holds_role d"
  by (simp_all add: holds_role_def fun_eq_iff)

lemma fold_invalidate_caches:
  "dir_up D \<Longrightarrow> dir_perms (fold invalidate_user_auth_caches us D) = filter (\<lambda>(k, _). k \<notin> set us) (dir_perms D)
     \<and> dir_ranks (fold invalidate_user_auth_caches us D) = filter (\<lambda>(k, _). k \<notin> set us) (dir_ranks D)"
proof (induction us arbitrary: D)
  case (Cons u us)
  then show ?case
    by (auto simp: invalidate_user_auth_caches_def bust_perms_def cache_drop_def Let_def split_def
        intro!: filter_cong)
qed (simp add: split_def)

lemma caches_of_lists [simp]:
  "dir_perms (drop_lists p t D) = dir_perms D" "dir_ranks (drop_lists p t D) = dir_ranks D"
  by (simp_all add: drop_lists_def)

text \<open>Dropping the entries of everyone whose authority changed keeps the caches coherent.\<close>

lemma coherent_after_drop:
  assumes "coherent D" "dir_up D" "\<And>uid. uid \<notin> set us \<Longrightarrow> same_authority (dir_db D) d' uid"
    and "dir_perms D1 = dir_perms D" "dir_ranks D1 = dir_ranks D" "dir_up D1 = dir_up D" "dir_db D1 = d'"
  shows "coherent (fold invalidate_user_auth_caches us D1)"
  using assms fold_invalidate_caches[of D1 us]
  by (auto simp: coherent_def list_all_iff same_authority_def)

lemma coherent_drop_lists [simp]: "coherent (drop_lists p t D) = coherent D"
  by (simp add: coherent_def)

lemma coherent_role_caches:
  assumes "coherent D" "dir_up D" "\<And>uid. uid \<notin> set us \<Longrightarrow> same_authority (dir_db D) d' uid"
  shows "coherent (invalidate_role_caches t us (D\<lparr>dir_db := d'\<rparr>))"
  unfolding invalidate_role_caches_def coherent_drop_lists
  by (rule coherent_after_drop[OF assms]) simp_all

lemma set_dict_set: "set (dict_set k v m) \<subseteq> insert (k, v) (set m)"
  by (induction k v m rule: dict_set.induct) auto

lemma coherent_reads:
  assumes "coherent D"
  shows "coherent (snd (get_perms uid D))" "coherent (snd (get_cached_role_rank uid D))"
  using assms set_dict_set[of uid _ "dir_perms D"] set_dict_set[of uid _ "dir_ranks D"]
  by (fastforce simp: get_perms_def get_cached_role_rank_def coherent_def cache_put_def list_all_iff Let_def
      split: option.splits)+

lemma not_holding: "uid \<notin> set (role_holders d rid) \<Longrightarrow> \<not> holds_role d uid rid"
  by (auto simp: role_holders_def holds_role_def list_ex_iff)

lemma coherent_create:
  assumes "governed (dir_db D)" "coherent D" "create_role_for_tenant rid u name rank desc pids D = Inr (r, D')"
  shows "coherent D'"
  using assms(3)
proof (rule role_created)
  let ?d = "dir_db D"
  fix d1 d2
  assume r: "r = \<lparr>role_id = rid, role_tenant_id = Some u, role_name = name, role_rank = rank, role_description = desc\<rparr>"
    and new: "rid \<notin> role_id ` set (idb_roles ?d)" and d1: "d1 = ?d\<lparr>idb_roles := idb_roles ?d @ [r]\<rparr>"
    and rest: "d2 = d1 \<or> (\<exists>ids. repo_set_role_permissions rid ids d1 = Inr d2)" and D': "D' = D\<lparr>dir_db := d2\<rparr>"
  have free: "\<not> holds_role ?d uid rid" for uid
    using assms(1) new by (auto simp: governed_def holds_role_def list_ex_iff)
  have g: "d2 = ?d\<lparr>idb_roles := idb_roles ?d @ [r], idb_role_permissions := idb_role_permissions d2\<rparr>"
    using rest by (cases ?d) (auto simp: d1 dest!: set_permissionsD)
  have h: "holds_role d2 = holds_role ?d" "idb_permissions d2 = idb_permissions ?d" "idb_roles d2 = idb_roles ?d @ [r]"
    by (subst g, simp)+
  have grants: "grants d2 rid' = grants ?d rid'" if "rid' \<noteq> rid" for rid'
    using rest grants_set_permissions[OF _ that] by (auto simp: d1 grants_def)
  have "same_authority ?d d2 uid" for uid
  proof (rule same_authorityI)
    fix rid' assume "holds_role ?d uid rid'"
    then have "rid' \<noteq> rid" using free by blast
    then show "grants d2 rid' = grants ?d rid'" by (rule grants)
  qed (use free r in \<open>simp_all add: h\<close>)
  then show ?thesis using assms(2) by (auto simp: D' coherent_def same_authority_def)
qed

lemma coherent_update:
  assumes "governed (dir_db D)" "coherent D" "dir_up D" "update_role_for_tenant u rid name rank desc D = Inr (x, D')"
  shows "coherent D'"
proof (cases "D' = D")
  case False
  let ?d = "dir_db D"
  from assms(4) False show ?thesis
  proof (rule role_updated)
  fix r r' d1
  assume r: "get_role_by_id ?d rid = Some r" and r': "r' = edited_role name rank desc r"
    and d1: "d1 = ?d\<lparr>idb_roles := map (\<lambda>x. if role_id x = rid then r' else x) (idb_roles ?d)\<rparr>"
    and D': "D' = invalidate_role_caches u (role_holders d1 rid) (D\<lparr>dir_db := d1\<rparr>)"
  define f where "f = (\<lambda>x. if role_id x = rid then r' else x)"
  have f: "idb_roles d1 = map f (idb_roles ?d)" "\<And>x. f x \<noteq> x \<Longrightarrow> role_id x = rid" "\<And>x. role_id (f x) = role_id x"
    using get_role_by_idD[OF r] by (auto simp: d1 f_def r' edited_role_def split: if_splits)
  have rest: "idb_permissions d1 = idb_permissions ?d" "idb_role_permissions d1 = idb_role_permissions ?d"
      "idb_user_roles d1 = idb_user_roles ?d" by (simp_all add: d1)
  have h: "holds_role d1 = holds_role ?d" "role_holders d1 = role_holders ?d"
    by (simp_all add: rest holds_role_def role_holders_def fun_eq_iff)
  have "same_authority ?d d1 uid" if "uid \<notin> set (role_holders d1 rid)" for uid
  proof (rule same_authorityI)
    have not_held: "\<not> holds_role ?d uid rid" using not_holding that by (simp add: h)
    have "f x = x \<or> \<not> holds_role ?d uid (role_id x) \<and> \<not> holds_role ?d uid (role_id (f x))"
      if "x \<in> set (idb_roles ?d)" for x using f(2)[of x] f(3)[of x] not_held by metis
    then show "filter (\<lambda>r. holds_role ?d uid (role_id r)) (idb_roles d1)
      = filter (\<lambda>r. holds_role ?d uid (role_id r)) (idb_roles ?d)"
      unfolding f(1) by (rule filter_map_idle)
  qed (simp_all add: h rest grants_def)
  then show ?thesis unfolding D' by (intro coherent_role_caches assms)
  qed
qed (use assms in simp)

lemma coherent_permissions:
  assumes "coherent D" "dir_up D" "set_role_permissions_for_tenant now u rid pids actor spv D = Inr (x, D')"
  shows "coherent D'"
proof (cases x)
  case None
  then show ?thesis using assms permissions_not_set by blast
next
  case (Some z)
  let ?d = "dir_db D"
  from assms(3) have x: "x \<noteq> None" using Some by simp
  from assms(3) x show ?thesis
  proof (rule permissions_set)
    fix r ids d1 entry
    assume ok: "repo_set_role_permissions rid ids ?d = Inr d1"
      and D': "D' = invalidate_role_caches u (role_holders ?d rid) (D\<lparr>dir_db := log_auth_event entry d1\<rparr>)"
    note d1 = set_permissionsD[OF ok]
    have "same_authority ?d (log_auth_event entry d1) uid" if "uid \<notin> set (role_holders ?d rid)" for uid
    proof (rule same_authorityI)
      fix rid' assume "holds_role ?d uid rid'"
      then have "rid' \<noteq> rid" using not_holding[OF that] by blast
      then show "grants (log_auth_event entry d1) rid' = grants ?d rid'"
        using grants_set_permissions[OF ok] by (simp add: grants_def log_auth_event_def)
    qed (simp_all add: d1 log_auth_event_def)
    then show ?thesis unfolding D' by (intro coherent_role_caches assms)
  qed
qed

lemma coherent_one:
  assumes "coherent D" "dir_up D" "idb_permissions d' = idb_permissions (dir_db D)"
    "idb_roles d' = idb_roles (dir_db D)" "idb_role_permissions d' = idb_role_permissions (dir_db D)"
    and "\<And>w rid. w \<noteq> uid \<Longrightarrow> holds_role d' w rid = holds_role (dir_db D) w rid"
  shows "coherent (invalidate_user_auth_caches uid (drop_lists p t (D\<lparr>dir_db := d'\<rparr>)))"
proof -
  have "same_authority (dir_db D) d' w" if "w \<notin> set [uid]" for w
    using assms that by (intro same_authorityI) (auto simp: grants_def)
  then have "coherent (fold invalidate_user_auth_caches [uid] (drop_lists p t (D\<lparr>dir_db := d'\<rparr>)))"
    by (rule coherent_after_drop[OF assms(1,2)]) simp_all
  then show ?thesis by simp
qed

lemma coherent_assign:
  assumes "coherent D" "dir_up D" "assign_role eid now u uid name actor D = Inr (x, D')"
  shows "coherent D'"
  using assms(3)
proof (rule role_assigned)
  fix r d1 ws
  assume "assign_role_to_user now uid (role_id r) actor (dir_db D) = Inr d1"
    and D': "D' = invalidate_user_auth_caches uid (drop_lists (\<lambda>_. True) u (D\<lparr>dir_db := d1\<lparr>idb_outbox := ws\<rparr>\<rparr>))"
  from user_assigned[OF this(1)] show ?thesis
    unfolding D' by (intro coherent_one assms) (auto simp: holds_role_def)
qed

lemma coherent_remove:
  assumes "coherent D" "dir_up D" "remove_role u uid name D = Inr (x, D')"
  shows "coherent D'"
  using assms(3)
proof (rule role_removed)
  fix r
  assume D': "D' = invalidate_user_auth_caches uid
    (drop_lists (\<lambda>_. True) u (D\<lparr>dir_db := remove_role_from_user uid (role_id r) (dir_db D)\<rparr>))"
  show ?thesis
    unfolding D' by (intro coherent_one assms) (auto simp: holds_role_def remove_role_from_user_def list_ex_iff)
qed

lemma coherent_step:
  assumes "governed (dir_db D)" "coherent D" "dir_up D" "case oper of DeleteRole _ _ \<Rightarrow> False | _ \<Rightarrow> True"
  shows "coherent (role_step (now, oper) D)"
  using assms
  by (cases oper) (auto intro!: kept_cases[where P = coherent] coherent_reads intro: coherent_create coherent_update
      coherent_permissions coherent_assign coherent_remove)

lemma update_keeps_up: "update_role_for_tenant u rid name rank desc D = Inr (x, D') \<Longrightarrow> dir_up D' = dir_up D"
  using role_updated[of u rid name rank desc D x D' "dir_up D' = dir_up D"] by fastforce

lemma permissions_keep_up:
  "set_role_permissions_for_tenant now u rid pids actor spv D = Inr (x, D') \<Longrightarrow> dir_up D' = dir_up D"
  using permissions_set[of now u rid pids actor spv D x D' "dir_up D' = dir_up D"]
    permissions_not_set[of now u rid pids actor spv D D'] by fastforce

lemma step_keeps_up: "dir_up (role_step (now, oper) D) = dir_up D"
proof (cases oper)
  case (UpdateRole u rid name rank desc)
  then show ?thesis using update_keeps_up
    by (auto intro!: kept_cases[where P = "\<lambda>D'. dir_up D' = dir_up D"])
next
  case (SetPermissions u rid pids actor spv)
  then show ?thesis using permissions_keep_up
    by (auto intro!: kept_cases[where P = "\<lambda>D'. dir_up D' = dir_up D"])
next
  case (CreateRole rid u name rank desc pids)
  then show ?thesis
    by (auto intro!: kept_cases[where P = "\<lambda>D'. dir_up D' = dir_up D"] elim!: role_created)
next
  case (AssignRole eid u uid name actor)
  then show ?thesis
    by (auto intro!: kept_cases[where P = "\<lambda>D'. dir_up D' = dir_up D"] elim!: role_assigned)
next
  case (RemoveRole u uid name)
  then show ?thesis
    by (auto intro!: kept_cases[where P = "\<lambda>D'. dir_up D' = dir_up D"] elim!: role_removed)
next
  case (DeleteRole u rid)
  then show ?thesis
    by (auto intro!: kept_cases[where P = "\<lambda>D'. dir_up D' = dir_up D"] simp: delete_role_for_tenant_def
        res_bind_eq_Inr split: option.splits prod.splits)
qed simp_all

fun deletes_role :: "timestamp \<times> role_op \<Rightarrow> bool" where
  "deletes_role (now, DeleteRole t rid) = True"
| "deletes_role _ = False"

lemma coherent_steps:
  assumes "governed (dir_db D)" "coherent D" "dir_up D" "\<not> list_ex deletes_role opers"
  shows "coherent (fold role_step opers D) \<and> dir_up (fold role_step opers D)"
  using assms
proof (induction opers arbitrary: D)
  case (Cons a opers)
  obtain now oper where a: "a = (now, oper)" by (cases a)
  have "coherent (role_step a D)"
    using Cons.prems by (auto simp: a intro!: coherent_step split: role_op.split)
  moreover have "governed (dir_db (role_step a D))"
    using lawful_step[OF Cons.prems(1)] by (simp add: a lawful_def)
  moreover have "dir_up (role_step a D)" using Cons.prems(3) by (simp add: a step_keeps_up)
  ultimately show ?case using Cons.prems(4) Cons.IH by simp
qed simp

lemma coherent_answers:
  assumes "coherent D"
  shows "fst (get_perms uid D) = perms_of (dir_db D) uid" "fst (get_cached_role_rank uid D) = top_rank (dir_db D) uid"
  using assms by (auto simp: coherent_def list_all_iff get_perms_def get_cached_role_rank_def cache_entry_def Let_def
      dest!: map_of_SomeD split: option.split)



section \<open>Employees\<close>

lemma top_rank_ge:
  assumes "r \<in> set (idb_roles d)" "holds_role d uid (role_id r)"
  shows "role_rank r \<le> top_rank d uid"
proof -
  let ?rs = "repo_get_user_roles d uid"
  have r: "r \<in> set ?rs" and sorted: "sorted (map (\<lambda>r. - role_rank r) ?rs)"
    using assms by (auto simp: repo_get_user_roles_def)
  then obtain x xs where "?rs = x # xs" by (cases ?rs) auto
  with r sorted show ?thesis by (auto simp: top_rank_def)
qed

lemma at_most_one_mem: "at_most_one xs = Inr found \<Longrightarrow> x \<in> set xs \<Longrightarrow> found = Some x"
  by (auto simp: at_most_one_def split: list.splits)

lemma employee_role_owner:
  assumes "employee_role d business name = Inr found"
    and "get_role_by_name_for_tenant d business name = Some r"
  shows "found = Some r"
proof -
  have "r \<in> set (filter (\<lambda>r. role_name r = name \<and> (role_tenant_id r = Some business \<or> role_tenant_id r = None)) (idb_roles d))"
    using assms(2) by (auto simp: get_role_by_name_for_tenant_def dest: find_in)
  with assms(1) show ?thesis unfolding employee_role_def by (rule at_most_one_mem)
qed

text \<open>
  C33: Whoever may create an employee may create an owner: \<open>create_employee\<close> compares the roles it is
  asked for with nothing. An employee created with the tenant's owner role passes the gate of the
  owner, whatever the rank of the actor.
\<close>

theorem employees_can_be_made_owners:
  assumes "create_employee uid now h business actor f D = Inr (x, D')" "ef_roles f = Some [''owner'']"
    and "get_role_by_name_for_tenant (dir_db D) business ''owner'' = Some r" "role_rank r = OWNER_RANK"
    and "map_of (dir_ranks D) uid = None"
  shows "fst (min_role ''owner'' uid D') \<and> is_ok (require_owner uid D')"
proof -
  have names: "first_seen [''owner''] = [''owner'']" by (simp add: first_seen_def)
  obtain d1 d2 where d2: "grant_roles now actor uid business [''owner''] d1 = Inr d2"
    and d1: "idb_roles d1 = idb_roles (dir_db D)" and D': "D' = D\<lparr>dir_db := d2\<rparr>"
    using assms(1,2) names unfolding create_employee_def repo_create_user_def integrity_error_def
    by (auto simp: res_bind_eq_Inr Let_def split: if_splits)
  have "get_role_by_name_for_tenant d1 business ''owner'' = Some r"
    using assms(3) d1 by (simp add: get_role_by_name_for_tenant_def)
  then have "assign_role_to_user now uid (role_id r) actor d1 = Inr d2"
    using d2 employee_role_owner by (fastforce simp: grant_roles_def res_bind_eq_Inr split: option.splits)
  from user_assigned[OF this] have "holds_role d2 uid (role_id r)" "idb_roles d2 = idb_roles d1"
    by (auto simp: holds_role_def)
  moreover have "r \<in> set (idb_roles (dir_db D))"
    using assms(3) by (auto simp: get_role_by_name_for_tenant_def dest: find_in)
  ultimately have "OWNER_RANK \<le> top_rank d2 uid" using top_rank_ge[of r d2 uid] d1 assms(4) by simp
  then show ?thesis using assms(5)
    by (simp add: min_role_def require_owner_def get_cached_role_rank_def cache_entry_def D' Let_def ROLE_RANKS_def
        OWNER_RANK_def OWNER_ROLE_NAME_def)
qed

section \<open>Examples\<close>

definition shop_role :: "string \<Rightarrow> string \<Rightarrow> int \<Rightarrow> role" where
  "shop_role rid name rank = \<lparr>role_id = rid, role_tenant_id = Some ''t'', role_name = name, role_rank = rank,
     role_description = None\<rparr>"

definition shop_user :: user where
  "shop_user = \<lparr>usr_id = ''u'', usr_tenant_id = ''t'', usr_email = ''u@t'', usr_password_hash = None,
     usr_full_name = ''Ada'', usr_phone = None, usr_status = ''active'', usr_totp_secret = None,
     usr_totp_enabled = False, usr_auto_create_cart = False, usr_last_login_at = None, usr_avatar_url = None,
     usr_store_id = None, usr_provider = None, usr_provider_id = None, usr_created_at = 0\<rparr>"

text \<open>A seeded tenant with one custom role, held by one user whose permissions are cached.\<close>

definition staff :: directory where
  "staff = \<lparr>dir_db = \<lparr>idb_users = [shop_user],
       idb_roles = [shop_role ''o'' ''owner'' 80, shop_role ''m'' ''manager'' 60, shop_role ''c'' ''cashier'' 40,
         shop_role ''i'' ''inventory'' 50, shop_role ''v'' ''viewer'' 20, shop_role ''s'' ''stocktaker'' 30],
       idb_permissions = [\<lparr>perm_id = ''p'', perm_name = ''inventory:adjust'', perm_description = None\<rparr>],
       idb_role_permissions = [\<lparr>rperm_role_id = ''s'', rperm_permission_id = ''p''\<rparr>],
       idb_user_roles = [\<lparr>urole_user_id = ''u'', urole_role_id = ''s'', urole_assigned_by = None, urole_assigned_at = 0\<rparr>],
       idb_reset_tokens = [], idb_auth_logs = [], idb_pins = [], idb_outbox = []\<rparr>,
     dir_perms = [(''u'', [''inventory:adjust''])], dir_ranks = [(''u'', 30)], dir_lists = [], dir_catalog = None,
     dir_up = True\<rparr>"

lemma staff_governed: "governed (dir_db staff)"
  by (simp add: staff_def governed_def shop_role_def OWNER_RANK_def ROLE_RANKS_def OWNER_ROLE_NAME_def)

lemma staff_seeded: "seeded (dir_db staff) ''t''"
  by (simp add: staff_def seeded_def builtin_roles_def shop_role_def BUILTIN_ROLE_NAMES_def)

lemma staff_authority: "perms_of (dir_db staff) ''u'' = [''inventory:adjust'']" "top_rank (dir_db staff) ''u'' = 30"
  by (simp_all add: staff_def perms_of_def get_effective_permissions_def holds_role_def top_rank_def
      repo_get_user_roles_def shop_role_def)

lemma staff_coherent: "coherent staff"
proof -
  have "dir_perms staff = [(''u'', [''inventory:adjust''])]" "dir_ranks staff = [(''u'', 30)]"
    by (simp_all add: staff_def)
  then show ?thesis by (simp add: coherent_def staff_authority)
qed

text \<open>Taking the owner's rank from an edit, then editing the manager.\<close>

theorem role_governance_witness:
  "builtin_roles (dir_db (fold role_step [(1, UpdateRole ''t'' ''s'' None (Some 99) None),
       (2, SetPermissions ''t'' ''m'' [''inventory:adjust''] None None)] staff)) ''t''
   = builtin_roles (dir_db staff) ''t''"
  using role_governance[OF staff_governed staff_seeded] by blast



definition hire :: employee_form where
  "hire = \<lparr>ef_email = ''n@t'', ef_full_name = ''New'', ef_phone = None, ef_roles = Some [''owner''], ef_store_id = None\<rparr>"

text \<open>The actor \<open>u\<close> has rank 30.\<close>

theorem employees_can_be_made_owners_witness:
  "\<exists>x D'. create_employee ''n'' 1 ''h'' ''t'' (Some ''u'') hire staff = Inr (x, D') \<and> fst (min_role ''owner'' ''n'' D')"
proof -
  have owner: "get_role_by_name_for_tenant (dir_db staff) ''t'' ''owner'' = Some (shop_role ''o'' ''owner'' 80)"
    by (simp add: get_role_by_name_for_tenant_def staff_def shop_role_def)
  have "is_ok (create_employee ''n'' 1 ''h'' ''t'' (Some ''u'') hire staff)"
    by (simp add: create_employee_def hire_def staff_def get_user_by_email_def shop_user_def repo_create_user_def
        get_user_by_id_def first_seen_def grant_roles_def employee_role_def at_most_one_def shop_role_def
        assign_role_to_user_def holds_role_def Let_def)
  then obtain x D' where ok: "create_employee ''n'' 1 ''h'' ''t'' (Some ''u'') hire staff = Inr (x, D')"
    by (auto elim: is_okE)
  have "fst (min_role ''owner'' ''n'' D')"
    using employees_can_be_made_owners[OF ok _ owner]
    by (simp add: hire_def shop_role_def OWNER_RANK_def ROLE_RANKS_def OWNER_ROLE_NAME_def staff_def)
  with ok show ?thesis by blast
qed

end
