(* ===== verification/Tenancy.thy ===== *)
theory Tenancy
  imports RoleFlows Ledger
begin

text \<open>
  \<open>app/tenancy\<close> and the onboarding of \<open>bridge.create_tenant\<close>: the slug of a business, its tenant and
  owner, the five seeded roles with their permissions, the chart of accounts and the default tax.
  Text is Latin-1, one character per code point: a letter outside ASCII never becomes one of the
  characters a slug keeps.
\<close>

section \<open>Slugs\<close>

definition SUBDOMAIN_SUFFIX :: string where
  "SUBDOMAIN_SUFFIX = ''.storeflow.ng''"

definition white :: "char \<Rightarrow> bool" where
  "white c = (let n = of_char c :: nat in (9 \<le> n \<and> n \<le> 13) \<or> (28 \<le> n \<and> n \<le> 32) \<or> n = 133 \<or> n = 160)"

definition strip :: "(char \<Rightarrow> bool) \<Rightarrow> string \<Rightarrow> string" where
  "strip p s = rev (dropWhile p (rev (dropWhile p s)))"

definition slug_letter :: "char \<Rightarrow> bool" where
  "slug_letter c = (let n = of_char c :: nat in (97 \<le> n \<and> n \<le> 122) \<or> (48 \<le> n \<and> n \<le> 57))"

text \<open>\<open>re.sub\<close> of a run of characters by one hyphen.\<close>

function runs_to_hyphen :: "(char \<Rightarrow> bool) \<Rightarrow> string \<Rightarrow> string" where
  "runs_to_hyphen p [] = []"
| "runs_to_hyphen p (c # s) = (if p c then CHR ''-'' # runs_to_hyphen p (dropWhile p s) else c # runs_to_hyphen p s)"
  by pat_completeness auto

termination
  by (relation "measure (\<lambda>(_, s). length s)") (auto simp: le_imp_less_Suc length_dropWhile_le)

definition slugify :: "string \<Rightarrow> string" where
  "slugify name =
    (let s1 = strip white (map lower_char name);
         s2 = filter (\<lambda>c. slug_letter c \<or> white c \<or> c = CHR ''-'') s1;
         s3 = runs_to_hyphen (\<lambda>c. white c \<or> c = CHR ''_'') s2;
         s4 = runs_to_hyphen (\<lambda>c. c = CHR ''-'') s3
     in take 80 (strip (\<lambda>c. c = CHR ''-'') s4))"

section \<open>Tables and planning\<close>

record tenant =
  tn_id :: uuid
  tn_slug :: string
  tn_subdomain :: string
  tn_business_name :: string
  tn_business_email :: "string option"
  tn_tier :: string
  tn_status :: string
  tn_owner_name :: string
  tn_owner_email :: string
  tn_owner_phone :: "string option"
  tn_settings :: string
  tn_created_at :: timestamp

record tenant_tier_projection =
  tp_id :: uuid
  tp_tenant_id :: uuid
  tp_tier :: string
  tp_max_terminals :: int
  tp_max_products :: int
  tp_max_users :: int

record tenant_create_command =
  tcc_actor_id :: "uuid option"
  tcc_business_name :: string
  tcc_business_email :: string
  tcc_owner_name :: string
  tcc_owner_email :: string
  tcc_owner_phone :: "string option"
  tcc_owner_password_hash :: "string option"
  tcc_tier :: string
  tcc_correlation_id :: "string option"

record tenant_result =
  tres_tenant_id :: uuid
  tres_slug :: string
  tres_subdomain :: string
  tres_business_name :: string
  tres_tier :: string
  tres_status :: string
  tres_owner_user_id :: uuid

definition TIER_LIMITS :: "(string \<times> int \<times> int \<times> int) list" where
  "TIER_LIMITS = [(''starter'', 1, 100, 2), (''growth'', 3, 1000, 10), (''enterprise'', 10, 10000, 100)]"

definition valid_tenant_command :: "tenant_create_command \<Rightarrow> bool" where
  "valid_tenant_command c \<longleftrightarrow> 2 \<le> length (tcc_business_name c) \<and> length (tcc_business_name c) \<le> 120
     \<and> 2 \<le> length (tcc_owner_name c) \<and> length (tcc_owner_name c) \<le> 100 \<and> tcc_owner_password_hash c \<noteq> None"

text \<open>
  Fresh identifiers: 0 the tenant, 1 the \<open>owner_user_id\<close> of the answer, 2 the user, 3 and 4 the
  events. The command of the user checks the owner's e-mail address again.
\<close>

definition plan_tenant_creation ::
  "(string \<Rightarrow> bool) \<Rightarrow> (nat \<Rightarrow> uuid) \<Rightarrow> timestamp \<Rightarrow> tenant_create_command \<Rightarrow> string \<Rightarrow>
   exn + tenant_result \<times> tenant \<times> user \<times> outbox_write list" where
  "plan_tenant_creation valid_email ids now c slug =
    (let tid = ids 0; sub = slug @ SUBDOMAIN_SUFFIX;
         tn = \<lparr>tn_id = tid, tn_slug = slug, tn_subdomain = sub, tn_business_name = tcc_business_name c,
           tn_business_email = Some (tcc_business_email c), tn_tier = tcc_tier c, tn_status = ''active'',
           tn_owner_name = tcc_owner_name c, tn_owner_email = tcc_owner_email c,
           tn_owner_phone = tcc_owner_phone c, tn_settings = ''{}'', tn_created_at = now\<rparr>;
         uc = \<lparr>ucc_tenant_id = tid, ucc_actor_id = tcc_actor_id c, ucc_email = tcc_owner_email c,
           ucc_full_name = tcc_owner_name c, ucc_phone = tcc_owner_phone c,
           ucc_password_hash = the (tcc_owner_password_hash c), ucc_correlation_id = tcc_correlation_id c\<rparr>
     in if \<not> valid_tenant_command c \<or> \<not> valid_email (tcc_owner_email c)
        then Inl (ValueError [Txt ''ValidationError''])
        else (case plan_user_creation (ids 2) (ids 4) now uc of (_, u, user_outbox) \<Rightarrow>
          Inr (\<lparr>tres_tenant_id = tid, tres_slug = slug, tres_subdomain = sub,
                tres_business_name = tcc_business_name c, tres_tier = tcc_tier c, tres_status = ''active'',
                tres_owner_user_id = ids 1\<rparr>, tn, u,
              \<lparr>ow_event = tenant_created_event (ids 3) now tid (tcc_actor_id c) slug (tcc_business_name c)
                 (tcc_owner_email c) (tcc_tier c) (tcc_correlation_id c),
               aggregate_type = ''tenant'', aggregate_id = tid\<rparr> # user_outbox)))"

definition tier_limits :: "string \<Rightarrow> int \<times> int \<times> int" where
  "tier_limits tier = (case map_of TIER_LIMITS tier of
     Some l \<Rightarrow> l | None \<Rightarrow> the (map_of TIER_LIMITS ''starter''))"

definition plan_tier_change ::
  "uuid \<Rightarrow> uuid \<Rightarrow> timestamp \<Rightarrow> uuid \<Rightarrow> string \<Rightarrow> string \<Rightarrow> uuid option \<Rightarrow> string option \<Rightarrow>
   outbox_write list \<times> tenant_tier_projection" where
  "plan_tier_change pid eid now tid old_tier new_tier actor corr = (case tier_limits new_tier of (m, p, u) \<Rightarrow>
     ([\<lparr>ow_event = tier_changed_event eid now tid actor old_tier new_tier corr,
        aggregate_type = ''tenant'', aggregate_id = tid\<rparr>],
      \<lparr>tp_id = pid, tp_tenant_id = tid, tp_tier = new_tier, tp_max_terminals = m, tp_max_products = p,
       tp_max_users = u\<rparr>))"

section \<open>\<open>repository.py\<close>\<close>

record registry =
  rg_tenants :: "tenant list"
  rg_projections :: "tenant_tier_projection list"
  rg_directory :: directory
  rg_books :: books
  rg_taxes :: "tax_row list"

definition get_tenant_by_slug :: "registry \<Rightarrow> string \<Rightarrow> tenant option" where
  "get_tenant_by_slug g slug = List.find (\<lambda>t. tn_slug t = slug) (rg_tenants g)"

definition get_tenant_by_id :: "registry \<Rightarrow> uuid \<Rightarrow> tenant option" where
  "get_tenant_by_id g tid = List.find (\<lambda>t. tn_id t = tid) (rg_tenants g)"

definition slug_exists :: "registry \<Rightarrow> string \<Rightarrow> bool" where
  "slug_exists g slug \<longleftrightarrow> 0 < length (filter (\<lambda>t. tn_slug t = slug) (rg_tenants g))"

text \<open>The slug's column holds 80 characters, the subdomain's 160; both are unique.\<close>

definition repo_create_tenant :: "tenant \<Rightarrow> registry \<Rightarrow> exn + registry" where
  "repo_create_tenant t g =
    (if 80 < length (tn_slug t) \<or> 160 < length (tn_subdomain t) then Inl (ValueError [Txt ''DataError''])
     else if list_ex (\<lambda>x. tn_id x = tn_id t \<or> tn_slug x = tn_slug t \<or> tn_subdomain x = tn_subdomain t) (rg_tenants g)
     then integrity_error
     else Inr (g\<lparr>rg_tenants := rg_tenants g @ [t]\<rparr>))"

definition update_tenant_tier :: "uuid \<Rightarrow> string \<Rightarrow> registry \<Rightarrow> exn + registry" where
  "update_tenant_tier tid tier g =
    (if get_tenant_by_id g tid = None then Inl (ValueError [Txt ''NoResultFound''])
     else Inr (g\<lparr>rg_tenants := map (\<lambda>t. if tn_id t = tid then t\<lparr>tn_tier := tier\<rparr> else t) (rg_tenants g)\<rparr>))"

definition get_tier_projection :: "registry \<Rightarrow> uuid \<Rightarrow> tenant_tier_projection option" where
  "get_tier_projection g tid = List.find (\<lambda>p. tp_tenant_id p = tid) (rg_projections g)"

definition upsert_tier_projection :: "tenant_tier_projection \<Rightarrow> registry \<Rightarrow> registry" where
  "upsert_tier_projection p g =
    (if get_tier_projection g (tp_tenant_id p) = None then g\<lparr>rg_projections := rg_projections g @ [p]\<rparr>
     else g\<lparr>rg_projections := map (\<lambda>q. if tp_tenant_id q = tp_tenant_id p
       then q\<lparr>tp_tier := tp_tier p, tp_max_terminals := tp_max_terminals p,
              tp_max_products := tp_max_products p, tp_max_users := tp_max_users p\<rparr> else q) (rg_projections g)\<rparr>)"

section \<open>Onboarding\<close>

text \<open>\<open>while await slug_exists(session, slug)\<close>: the loop has no bound of its own.\<close>

partial_function (option) free_slug :: "registry \<Rightarrow> string \<Rightarrow> string \<Rightarrow> nat \<Rightarrow> string option" where
  "free_slug g base slug counter = (if slug_exists g slug
     then free_slug g base (base @ ''-'' @ nat_str counter) (counter + 1) else Some slug)"

definition DEFAULT_ROLE_DEFS :: "(string \<times> int \<times> string) list" where
  "DEFAULT_ROLE_DEFS = [(''manager'', 60, ''Day-to-day operations''), (''cashier'', 40, ''Process sales at registers''),
     (''inventory'', 50, ''Manage product stock''), (''viewer'', 20, ''Read-only access'')]"

definition ROLE_PERMISSIONS_MAP :: "(string \<times> string list) list" where
  "ROLE_PERMISSIONS_MAP = [(''manager'', [''auth:login'', ''auth:manage_totp'', ''auth:manage_sessions'', ''users:create'',
      ''users:read'', ''users:update'', ''roles:read'', ''products:create'', ''products:read'',
      ''products:update'', ''products:delete'', ''categories:create'', ''categories:read'',
      ''categories:update'', ''categories:delete'', ''inventory:read'', ''inventory:write'',
      ''inventory:adjust'', ''inventory:transfer'', ''warehouses:create'', ''warehouses:read'',
      ''warehouses:update'', ''sales:create'', ''sales:read'', ''sales:void'',
      ''documents:create'', ''documents:read'', ''documents:update'', ''documents:manage'',
      ''payments:create'', ''payments:read'', ''payments:confirm'', ''terminals:create'',
      ''terminals:read'', ''terminals:update'', ''employees:create'', ''employees:read'',
      ''employees:update'', ''accounting:read'', ''accounting:write'', ''accounting:post'',
      ''reports:read'', ''ai:generate'', ''ai:read'', ''ai:manage'', ''cart:create'',
      ''cart:read'', ''cart:checkout'', ''sync:read'', ''sync:manage'', ''discounts:create'',
      ''discounts:read'', ''discounts:update'', ''discounts:delete'', ''coupons:create'',
      ''coupons:read'', ''coupons:update'', ''coupons:delete'', ''taxes:read'', ''taxes:manage'',
      ''inventory:distribution_create'', ''inventory:distribution_receive'',
      ''inventory:distribution_read'']),
     (''cashier'', [''auth:login'', ''auth:manage_totp'', ''auth:manage_sessions'', ''users:read'',
      ''products:read'', ''categories:read'', ''inventory:read'', ''warehouses:read'',
      ''sales:create'', ''sales:read'', ''documents:read'', ''payments:create'', ''payments:read'',
      ''terminals:read'', ''reports:read'', ''ai:read'', ''cart:create'', ''cart:read'',
      ''cart:checkout'']),
     (''inventory'', [''auth:login'', ''auth:manage_totp'', ''auth:manage_sessions'', ''users:read'',
      ''products:create'', ''products:read'', ''products:update'', ''products:delete'',
      ''categories:create'', ''categories:read'', ''categories:update'', ''categories:delete'',
      ''inventory:read'', ''inventory:write'', ''inventory:adjust'', ''inventory:transfer'',
      ''inventory:distribution_create'', ''inventory:distribution_receive'',
      ''inventory:distribution_read'', ''warehouses:create'', ''warehouses:read'',
      ''warehouses:update'', ''reports:read'']),
     (''viewer'', [''auth:login'', ''auth:manage_totp'', ''auth:manage_sessions'', ''users:read'',
      ''roles:read'', ''products:read'', ''categories:read'', ''inventory:read'',
      ''inventory:distribution_read'', ''warehouses:read'', ''sales:read'', ''documents:read'',
      ''payments:read'', ''terminals:read'', ''employees:read'', ''accounting:read'',
      ''reports:read'', ''ai:read'', ''cart:read'', ''sync:read''])]"

text \<open>The owner role with every permission, when the tenant has none, and its assignment.\<close>

definition seed_owner :: "timestamp \<Rightarrow> uuid \<Rightarrow> uuid \<Rightarrow> uuid \<Rightarrow> identity_db \<Rightarrow> exn + identity_db" where
  "seed_owner now rid tid uid d =
    (let all_perms = get_all_permissions d
     in res_bind (case get_role_by_name_for_tenant d tid OWNER_ROLE_NAME of
          Some r \<Rightarrow> Inr (r, d)
        | None \<Rightarrow> res_bind (repo_create_role rid tid OWNER_ROLE_NAME OWNER_RANK
              (Some ''Full access to all features'') d) (\<lambda>(r, d1).
            res_bind (repo_set_role_permissions (role_id r) (map perm_id all_perms) d1) (\<lambda>d2. Inr (r, d2))))
      (\<lambda>(r, d3). assign_role_to_user now uid (role_id r) (Some uid) d3))"

definition seed_role :: "uuid \<Rightarrow> (string \<times> uuid) list \<Rightarrow> uuid \<times> string \<times> int \<times> string \<Rightarrow> identity_db \<Rightarrow> exn + identity_db" where
  "seed_role tid perm_id_by_name = (\<lambda>(rid, name, rank, desc) d.
     if get_role_by_name_for_tenant d tid name \<noteq> None then Inr d
     else res_bind (repo_create_role rid tid name rank (Some desc) d) (\<lambda>(r, d1).
       let names = (case map_of ROLE_PERMISSIONS_MAP name of None \<Rightarrow> [] | Some ps \<Rightarrow> ps)
       in Inr (d1\<lparr>idb_role_permissions := idb_role_permissions d1
            @ map (\<lambda>p. \<lparr>rperm_role_id = role_id r, rperm_permission_id = p\<rparr>)
                (List.map_filter (map_of perm_id_by_name) names)\<rparr>)))"

definition seed_roles :: "timestamp \<Rightarrow> (nat \<Rightarrow> uuid) \<Rightarrow> uuid \<Rightarrow> uuid \<Rightarrow> identity_db \<Rightarrow> exn + identity_db" where
  "seed_roles now ids tid uid d =
    (let by_name = map (\<lambda>p. (perm_name p, perm_id p)) (idb_permissions d)
     in res_bind (seed_owner now (ids 5) tid uid d)
          (res_fold (seed_role tid by_name)
            (map2 (\<lambda>n def. (ids (6 + n), def)) [0..<length DEFAULT_ROLE_DEFS] DEFAULT_ROLE_DEFS)))"

text \<open>
  The slug is looked up in a session of its own; everything else is one transaction. The accounts
  take the identifiers from 20 on, the tax 10.
\<close>

definition create_tenant ::
  "(string \<Rightarrow> bool) \<Rightarrow> (tax_row list \<Rightarrow> tax_row list) \<Rightarrow> (nat \<Rightarrow> uuid) \<Rightarrow> timestamp \<Rightarrow>
   tenant_create_command \<Rightarrow> registry \<Rightarrow> (exn + tenant_result \<times> registry) option" where
  "create_tenant valid_email by_name ids now c g =
    (let base = slugify (tcc_business_name c)
     in map_option (\<lambda>slug.
        res_bind (plan_tenant_creation valid_email ids now (c\<lparr>tcc_tier := ''starter''\<rparr>) slug) (\<lambda>(result, tn, u, outbox).
        res_bind (repo_create_tenant tn g) (\<lambda>g1.
        let D = rg_directory g1 in
        res_bind (repo_create_user u (dir_db D)) (\<lambda>d1.
        res_bind (seed_roles now ids (tn_id tn) (usr_id u) d1) (\<lambda>d2.
        Inr (result, g1\<lparr>
          rg_directory := D\<lparr>dir_db := d2\<lparr>idb_outbox := idb_outbox d2 @ outbox\<rparr>\<rparr>,
          rg_books := fst (seed_chart_of_accounts (\<lambda>n. ids (20 + n)) (tn_id tn) (rg_books g1)),
          rg_taxes := seed_default_taxes by_name (ids 10) (tn_id tn) (rg_taxes g1)\<rparr>))))))
      (free_slug g base base 1))"

section \<open>The search for a free slug ends\<close>

definition candidate :: "string \<Rightarrow> nat \<Rightarrow> string" where
  "candidate base n = (if n = 0 then base else base @ ''-'' @ nat_str n)"

lemma candidate_inject: "candidate base m = candidate base n \<longleftrightarrow> m = n"
  by (auto simp: candidate_def)

lemma free_slug_steps:
  assumes "m \<le> n" "\<And>k. m \<le> k \<Longrightarrow> k < n \<Longrightarrow> slug_exists g (candidate base k)" "\<not> slug_exists g (candidate base n)"
  shows "free_slug g base (candidate base m) (m + 1) = Some (candidate base n)"
  using assms
proof (induction "n - m" arbitrary: m)
  case 0
  then show ?case by (simp add: free_slug.simps)
next
  case (Suc x)
  then have "slug_exists g (candidate base m)" by simp
  moreover have "free_slug g base (candidate base (m + 1)) (m + 1 + 1) = Some (candidate base n)"
    using Suc by (intro Suc.hyps(1)) auto
  ultimately show ?case by (subst free_slug.simps) (simp add: candidate_def)
qed

lemma slug_exists_iff: "slug_exists g s \<longleftrightarrow> s \<in> tn_slug ` set (rg_tenants g)"
  by (auto simp: slug_exists_def filter_empty_conv)

lemma some_candidate_free: "\<exists>n\<le>length (rg_tenants g). \<not> slug_exists g (candidate base n)"
proof (rule ccontr)
  assume "\<not> ?thesis"
  then have "candidate base ` {..length (rg_tenants g)} \<subseteq> set (map tn_slug (rg_tenants g))"
    by (auto simp: slug_exists_iff)
  from card_mono[OF _ this] have "card (candidate base ` {..length (rg_tenants g)}) \<le> length (rg_tenants g)"
    using card_length[of "map tn_slug (rg_tenants g)"] by simp
  moreover have "inj_on (candidate base) {..length (rg_tenants g)}" by (simp add: inj_on_def candidate_inject)
  ultimately show False by (simp add: card_image)
qed

lemma free_slug_least:
  obtains n where "n \<le> length (rg_tenants g)" "\<not> slug_exists g (candidate base n)"
    "\<And>k. k < n \<Longrightarrow> slug_exists g (candidate base k)" "free_slug g base base 1 = Some (candidate base n)"
proof -
  define n where "n = (LEAST n. \<not> slug_exists g (candidate base n))"
  obtain m where m: "m \<le> length (rg_tenants g)" "\<not> slug_exists g (candidate base m)"
    using some_candidate_free by blast
  have free: "\<not> slug_exists g (candidate base n)" unfolding n_def using m(2) by (rule LeastI)
  have least: "slug_exists g (candidate base k)" if "k < n" for k
    using not_less_Least[of k] that unfolding n_def by blast
  have "n \<le> m" unfolding n_def using m(2) by (rule Least_le)
  moreover have "free_slug g base (candidate base 0) (0 + 1) = Some (candidate base n)"
    by (rule free_slug_steps) (use free least in auto)
  ultimately show ?thesis using that[of n] m(1) free least by (simp add: candidate_def)
qed

text \<open>
  C34: The loop that looks for a free slug always ends, after at most as many tries as there are
  tenants; the slug it ends with is taken by nobody, and every earlier candidate (the plain slug,
  then its numbered variants in order) is taken.
\<close>

theorem slug_search_terminates:
  "\<exists>n. free_slug g base base 1 = Some (candidate base n) \<and> n \<le> length (rg_tenants g)
     \<and> \<not> slug_exists g (candidate base n) \<and> list_all (slug_exists g) (map (candidate base) [0..<n])"
proof -
  obtain n where n: "n \<le> length (rg_tenants g)" "\<not> slug_exists g (candidate base n)"
    "\<And>k. k < n \<Longrightarrow> slug_exists g (candidate base k)" "free_slug g base base 1 = Some (candidate base n)"
    using free_slug_least[of g base] by blast
  then show ?thesis by (auto simp: list_all_iff)
qed

section \<open>The shape of a slug\<close>

fun no_double :: "char \<Rightarrow> string \<Rightarrow> bool" where
  "no_double c (x # y # s) = (\<not> (x = c \<and> y = c) \<and> no_double c (y # s))"
| "no_double c _ = True"

lemma runs_set: "set (runs_to_hyphen p s) \<subseteq> insert (CHR ''-'') {c \<in> set s. \<not> p c}"
  by (induction p s rule: runs_to_hyphen.induct) (auto dest: set_dropWhileD split: if_splits)

lemma runs_head: "runs_to_hyphen p s = x # t \<Longrightarrow> s \<noteq> [] \<and> (x = CHR ''-'' \<longleftrightarrow> p (hd s) \<or> hd s = CHR ''-'')"
  by (cases s) (auto split: if_splits)

lemma runs_no_double: "p (CHR ''-'') \<Longrightarrow> no_double (CHR ''-'') (runs_to_hyphen p s)"
proof (induction p s rule: runs_to_hyphen.induct)
  case (2 p c s)
  show ?case
  proof (cases "p c")
    case True
    show ?thesis
    proof (cases "runs_to_hyphen p (dropWhile p s)")
      case (Cons x t)
      from runs_head[OF this] have "x \<noteq> CHR ''-''" using 2(3) hd_dropWhile[of p s] by auto
      then show ?thesis using 2(1)[OF True 2(3)] True Cons by simp
    qed (use True in simp)
  next
    case False
    then have "c \<noteq> CHR ''-''" using 2(3) by auto
    then show ?thesis using 2(2)[OF False 2(3)] False by (cases "runs_to_hyphen p s") auto
  qed
qed simp

lemma no_double_append: "no_double c (xs @ ys) \<Longrightarrow> no_double c xs \<and> no_double c ys"
proof (induction xs)
  case (Cons x xs)
  then show ?case by (cases xs; cases ys) auto
qed simp

lemma strip_infix: "\<exists>as bs. s = as @ strip p s @ bs"
proof -
  have "s = takeWhile p s @ dropWhile p s" by simp
  moreover have "dropWhile p s = strip p s @ rev (takeWhile p (rev (dropWhile p s)))"
    unfolding strip_def by (metis rev_append rev_rev_ident takeWhile_dropWhile_id)
  ultimately show ?thesis by metis
qed

lemma strip_first: "strip p s = x # t \<Longrightarrow> \<not> p x"
proof -
  assume *: "strip p s = x # t"
  have "dropWhile p s = strip p s @ rev (takeWhile p (rev (dropWhile p s)))"
    unfolding strip_def by (metis rev_append rev_rev_ident takeWhile_dropWhile_id)
  with * have "dropWhile p s = x # t @ rev (takeWhile p (rev (dropWhile p s)))" by simp
  then show ?thesis by (metis hd_dropWhile list.distinct(1) list.sel(1))
qed

lemma slugify_shape:
  "list_all (\<lambda>c. slug_letter c \<or> c = CHR ''-'') (slugify name) \<and> no_double (CHR ''-'') (slugify name)
   \<and> take 1 (slugify name) \<noteq> ''-'' \<and> length (slugify name) \<le> 80"
proof -
  define s2 where "s2 = filter (\<lambda>c. slug_letter c \<or> white c \<or> c = CHR ''-'') (strip white (map lower_char name))"
  define s3 where "s3 = runs_to_hyphen (\<lambda>c. white c \<or> c = CHR ''_'') s2"
  define s4 where "s4 = runs_to_hyphen (\<lambda>c. c = CHR ''-'') s3"
  define s5 where "s5 = strip (\<lambda>c. c = CHR ''-'') s4"
  have slug: "slugify name = take 80 s5" unfolding slugify_def Let_def s5_def s4_def s3_def s2_def ..
  have "set s2 \<subseteq> {c. slug_letter c \<or> white c \<or> c = CHR ''-''}" unfolding s2_def set_filter by blast
  then have "set s3 \<subseteq> {c. slug_letter c \<or> c = CHR ''-''}"
    using runs_set[of "\<lambda>c. white c \<or> c = CHR ''_''" s2] unfolding s3_def[symmetric] by blast
  then have "set s4 \<subseteq> {c. slug_letter c \<or> c = CHR ''-''}"
    using runs_set[of "\<lambda>c. c = CHR ''-''" s3] unfolding s4_def[symmetric] by blast
  moreover obtain as bs where s4: "s4 = as @ s5 @ bs" unfolding s5_def using strip_infix by metis
  ultimately have chars: "set s5 \<subseteq> {c. slug_letter c \<or> c = CHR ''-''}" unfolding s4 set_append by blast
  have "no_double (CHR ''-'') s4" unfolding s4_def by (rule runs_no_double) simp
  then have "no_double (CHR ''-'') (as @ (s5 @ bs))" unfolding s4 .
  then have "no_double (CHR ''-'') s5" by (meson no_double_append)
  then have "no_double (CHR ''-'') (take 80 s5 @ drop 80 s5)" by simp
  then have "no_double (CHR ''-'') (take 80 s5)" by (meson no_double_append)
  moreover have "take 1 s5 \<noteq> ''-''"
    using strip_first[of "\<lambda>c. c = CHR ''-''" s4] unfolding s5_def[symmetric] by (cases s5) auto
  moreover have "set (take 80 s5) \<subseteq> {c. slug_letter c \<or> c = CHR ''-''}" using chars set_take_subset by fast
  moreover have "take 1 (take 80 s5) = take 1 s5" "length (take 80 s5) \<le> 80" by simp_all
  ultimately show ?thesis unfolding slug list_all_iff by (simp only: subset_iff mem_Collect_eq) blast
qed

section \<open>What onboarding leaves\<close>

lemma created_role:
  "repo_create_role rid tid name rank desc d = Inr (r, d1) \<Longrightarrow> rank \<le> OWNER_RANK \<Longrightarrow> governed d \<Longrightarrow>
   governed d1 \<and> idb_roles d1 = idb_roles d @ [r] \<and> role_id r = rid \<and> role_tenant_id r = Some tid \<and> role_name r = name"
  by (auto simp: repo_create_role_def integrity_error_def Let_def governed_def get_role_by_id_def find_None_iff
      split: if_splits) blast+

lemma governed_grants:
  "governed d \<Longrightarrow> r \<in> set (idb_roles d) \<Longrightarrow>
   governed (d\<lparr>idb_role_permissions := idb_role_permissions d
     @ map (\<lambda>p. \<lparr>rperm_role_id = role_id r, rperm_permission_id = p\<rparr>) ps\<rparr>)"
  by (auto simp: governed_def)

lemma governed_set: "governed d \<Longrightarrow> repo_set_role_permissions rid ids d = Inr d' \<Longrightarrow> rid \<in> role_id ` set (idb_roles d)
  \<Longrightarrow> governed d' \<and> idb_roles d' = idb_roles d"
  by (drule set_permissionsD) (auto simp: governed_def)

definition role_named :: "uuid \<Rightarrow> string \<Rightarrow> identity_db \<Rightarrow> bool" where
  "role_named t name d \<longleftrightarrow> list_ex (\<lambda>r. role_tenant_id r = Some t \<and> role_name r = name) (idb_roles d)"

lemma found_by_name: "get_role_by_name_for_tenant d t name \<noteq> None \<Longrightarrow> role_named t name d"
  by (auto simp: get_role_by_name_for_tenant_def role_named_def list_ex_iff find_None_iff)

lemma seed_owner_effect:
  assumes "governed d" "seed_owner now rid tid uid d = Inr d'"
  shows "governed d' \<and> set (idb_roles d) \<subseteq> set (idb_roles d') \<and> role_named tid ''owner'' d'"
proof -
  obtain r d3 where r: "(case get_role_by_name_for_tenant d tid OWNER_ROLE_NAME of
          Some r \<Rightarrow> Inr (r, d)
        | None \<Rightarrow> res_bind (repo_create_role rid tid OWNER_ROLE_NAME OWNER_RANK
              (Some ''Full access to all features'') d) (\<lambda>(r, d1).
            res_bind (repo_set_role_permissions (role_id r) (map perm_id (get_all_permissions d)) d1) (\<lambda>d2. Inr (r, d2))))
        = Inr (r, d3)" and assigned: "assign_role_to_user now uid (role_id r) (Some uid) d3 = Inr d'"
    using assms(2) by (auto simp: seed_owner_def Let_def res_bind_eq_Inr)
  have "governed d3 \<and> set (idb_roles d) \<subseteq> set (idb_roles d3) \<and> role_named tid ''owner'' d3"
  proof (cases "get_role_by_name_for_tenant d tid OWNER_ROLE_NAME")
    case None
    then obtain d1 where d1: "repo_create_role rid tid OWNER_ROLE_NAME OWNER_RANK (Some ''Full access to all features'') d = Inr (r, d1)"
      and set: "repo_set_role_permissions (role_id r) (map perm_id (get_all_permissions d)) d1 = Inr d3"
      using r by (auto simp: res_bind_eq_Inr)
    note made = created_role[OF d1 _ assms(1), simplified]
    have "governed d3 \<and> idb_roles d3 = idb_roles d1" by (rule governed_set[OF _ set]) (use made in auto)
    then show ?thesis using made by (auto simp: role_named_def OWNER_ROLE_NAME_def)
  next
    case (Some a)
    then show ?thesis using r assms(1) found_by_name[of d tid OWNER_ROLE_NAME] by (auto simp: OWNER_ROLE_NAME_def)
  qed
  with user_assigned[OF assigned] show ?thesis by (auto simp: governed_def role_named_def)
qed

lemma seed_role_effect:
  assumes "governed d" "seed_role tid names (rid, name, rank, desc) d = Inr d'" "rank \<le> OWNER_RANK"
  shows "governed d' \<and> set (idb_roles d) \<subseteq> set (idb_roles d') \<and> role_named tid name d'"
proof (cases "get_role_by_name_for_tenant d tid name")
  case None
  then obtain r d1 ps where d1: "repo_create_role rid tid name rank (Some desc) d = Inr (r, d1)"
    and d': "d' = d1\<lparr>idb_role_permissions := idb_role_permissions d1 @ map (\<lambda>p. \<lparr>rperm_role_id = role_id r, rperm_permission_id = p\<rparr>) ps\<rparr>"
    using assms(2) by (auto simp: seed_role_def res_bind_eq_Inr Let_def)
  note made = created_role[OF d1 assms(3,1)]
  then have "governed d'" unfolding d' by (intro governed_grants) auto
  then show ?thesis using made by (auto simp: d' role_named_def)
next
  case (Some a)
  then show ?thesis using assms found_by_name[of d tid name] by (auto simp: seed_role_def)
qed

lemma role_named_mono: "role_named t name d \<Longrightarrow> set (idb_roles d) \<subseteq> set (idb_roles d') \<Longrightarrow> role_named t name d'"
  by (auto simp: role_named_def list_ex_iff)

lemma seed_roles_effect:
  assumes "governed d" "seed_roles now ids tid uid d = Inr d'"
  shows "governed d' \<and> seeded d' tid"
proof -
  let ?names = "map (\<lambda>p. (perm_name p, perm_id p)) (idb_permissions d)"
  have ranks: "60 \<le> OWNER_RANK" "40 \<le> OWNER_RANK" "50 \<le> OWNER_RANK" "20 \<le> OWNER_RANK"
    by (simp_all add: OWNER_RANK_def ROLE_RANKS_def OWNER_ROLE_NAME_def)
  obtain d0 d1 d2 d3 where steps: "seed_owner now (ids 5) tid uid d = Inr d0"
    "seed_role tid ?names (ids 6, ''manager'', 60, ''Day-to-day operations'') d0 = Inr d1"
    "seed_role tid ?names (ids 7, ''cashier'', 40, ''Process sales at registers'') d1 = Inr d2"
    "seed_role tid ?names (ids 8, ''inventory'', 50, ''Manage product stock'') d2 = Inr d3"
    "seed_role tid ?names (ids 9, ''viewer'', 20, ''Read-only access'') d3 = Inr d'"
    using assms(2) by (auto simp: seed_roles_def DEFAULT_ROLE_DEFS_def Let_def res_bind_eq_Inr upt_rec)
  note e0 = seed_owner_effect[OF assms(1) steps(1)]
  note e1 = seed_role_effect[OF e0[THEN conjunct1] steps(2) ranks(1)]
  note e2 = seed_role_effect[OF e1[THEN conjunct1] steps(3) ranks(2)]
  note e3 = seed_role_effect[OF e2[THEN conjunct1] steps(4) ranks(3)]
  note e4 = seed_role_effect[OF e3[THEN conjunct1] steps(5) ranks(4)]
  have named: "role_named tid ''owner'' d'" "role_named tid ''manager'' d'" "role_named tid ''cashier'' d'"
    "role_named tid ''inventory'' d'" "role_named tid ''viewer'' d'"
    using e0 e1 e2 e3 e4 role_named_mono by (meson subset_trans)+
  have "name \<in> role_name ` set (builtin_roles d' tid)" if "role_named tid name d'" "name \<in> BUILTIN_ROLE_NAMES" for name
    using that by (auto simp: role_named_def list_ex_iff builtin_roles_def)
  with named have "seeded d' tid" by (auto simp: seeded_def BUILTIN_ROLE_NAMES_def)
  with e4 show ?thesis by blast
qed

lemma governed_cong:
  "idb_roles d' = idb_roles d \<Longrightarrow> idb_role_permissions d' = idb_role_permissions d \<Longrightarrow>
   idb_user_roles d' = idb_user_roles d \<Longrightarrow> governed d' = governed d"
  by (simp add: governed_def)

lemma create_tenant_some:
  assumes "create_tenant ve by_name ids now c g = Some (Inr (res, g'))"
  obtains d1 d2 ob where "governed (dir_db (rg_directory g)) \<Longrightarrow> governed d1"
    "seed_roles now ids (tres_tenant_id res) (ids 2) d1 = Inr d2"
    "dir_db (rg_directory g') = d2\<lparr>idb_outbox := ob\<rparr>"
proof -
  obtain slug tn u outbox g1 d1 d2 where
    plan: "plan_tenant_creation ve ids now (c\<lparr>tcc_tier := ''starter''\<rparr>) slug = Inr (res, tn, u, outbox)"
    and g1: "repo_create_tenant tn g = Inr g1"
    and d1: "repo_create_user u (dir_db (rg_directory g1)) = Inr d1"
    and d2: "seed_roles now ids (tn_id tn) (usr_id u) d1 = Inr d2"
    and g': "dir_db (rg_directory g') = d2\<lparr>idb_outbox := idb_outbox d2 @ outbox\<rparr>"
    using assms by (auto simp: create_tenant_def Let_def res_bind_eq_Inr)
  have "tn_id tn = tres_tenant_id res" "usr_id u = ids 2"
    using plan by (auto simp: plan_tenant_creation_def plan_user_creation_def Let_def split: if_splits)
  moreover have "rg_directory g1 = rg_directory g"
    using g1 by (auto simp: repo_create_tenant_def integrity_error_def split: if_splits)
  moreover have "governed (dir_db (rg_directory g1)) \<Longrightarrow> governed d1"
    using d1 by (subst governed_cong[of d1 "dir_db (rg_directory g1)"])
      (auto simp: repo_create_user_def integrity_error_def split: if_splits)
  ultimately show ?thesis using that[of d1 d2 "idb_outbox d2 @ outbox"] d2 g' by simp
qed


text \<open>
  A second business whose name slugs to the same 79 or 80 characters cannot register: its
  numbered slug is longer than the column, and the insertion fails whatever the counter.
\<close>

theorem long_taken_slug_refused:
  assumes "slug_exists g (slugify (tcc_business_name c))" "79 \<le> length (slugify (tcc_business_name c))"
  shows "\<exists>e. create_tenant ve by_name ids now c g = Some (Inl e)"
proof -
  let ?base = "slugify (tcc_business_name c)"
  obtain n where n: "\<not> slug_exists g (candidate ?base n)" "free_slug g ?base ?base 1 = Some (candidate ?base n)"
    using free_slug_least[of g ?base] by blast
  from n(1) have "n \<noteq> 0" using assms(1) by (cases "n = 0") (simp_all add: candidate_def)
  moreover have "nat_str n \<noteq> []" by (subst nat_str.simps) simp
  ultimately have long: "80 < length (candidate ?base n)" using assms(2) by (cases "nat_str n") (auto simp: candidate_def)
  have "\<exists>e. res_bind (plan_tenant_creation ve ids now (c\<lparr>tcc_tier := ''starter''\<rparr>) (candidate ?base n)) k = Inl e"
    if "\<And>res tn u ob. 80 < length (tn_slug tn) \<Longrightarrow> \<exists>e. k (res, tn, u, ob) = Inl e" for k :: "_ \<Rightarrow> exn + tenant_result \<times> registry"
    using that long by (auto simp: plan_tenant_creation_def Let_def split: prod.splits)
  then show ?thesis by (simp add: create_tenant_def Let_def n(2) repo_create_tenant_def del: One_nat_def)
qed

section \<open>Examples\<close>

definition eighty :: string where
  "eighty = replicate 80 CHR ''a''"

definition crowded :: registry where
  "crowded = \<lparr>rg_tenants = [\<lparr>tn_id = ''t'', tn_slug = eighty, tn_subdomain = ''s'', tn_business_name = eighty,
       tn_business_email = None, tn_tier = ''starter'', tn_status = ''active'', tn_owner_name = ''Ada'',
       tn_owner_email = ''a'', tn_owner_phone = None, tn_settings = ''{}'', tn_created_at = 0\<rparr>],
     rg_projections = [], rg_directory = staff, rg_books = no_books, rg_taxes = []\<rparr>"

definition newcomer :: "string \<Rightarrow> tenant_create_command" where
  "newcomer name = \<lparr>tcc_actor_id = None, tcc_business_name = name, tcc_business_email = ''b@x'', tcc_owner_name = ''Bo'',
     tcc_owner_email = ''b@x'', tcc_owner_phone = None, tcc_owner_password_hash = Some ''h'', tcc_tier = ''starter'',
     tcc_correlation_id = None\<rparr>"

definition numbered :: "nat \<Rightarrow> uuid" where
  "numbered n = ''id-'' @ nat_str n"

lemma runs_replicate: "\<not> p c \<Longrightarrow> runs_to_hyphen p (replicate n c) = replicate n c"
  by (induction n) auto

lemma slugify_eighty: "slugify eighty = eighty"
proof -
  have a: "lower_char CHR ''a'' = CHR ''a''" "slug_letter CHR ''a''" "\<not> white CHR ''a''"
    by (simp_all add: lower_char_def slug_letter_def white_def Let_def)
  have "runs_to_hyphen (\<lambda>c. white c \<or> c = CHR ''_'') eighty = eighty" "runs_to_hyphen (\<lambda>c. c = CHR ''-'') eighty = eighty"
    "map lower_char eighty = eighty" "filter (\<lambda>c. slug_letter c \<or> white c \<or> c = CHR ''-'') eighty = eighty"
    "strip white eighty = eighty" "strip (\<lambda>c. c = CHR ''-'') eighty = eighty" "take 80 eighty = eighty"
    unfolding eighty_def by (simp_all add: a runs_replicate strip_def dropWhile_replicate filter_replicate)
  then show ?thesis by (simp add: slugify_def Let_def)
qed

theorem long_taken_slug_refused_witness:
  "\<exists>e. create_tenant (\<lambda>_. True) (\<lambda>x. x) numbered 0 (newcomer eighty) crowded = Some (Inl e)"
  by (rule long_taken_slug_refused)
    (simp_all add: newcomer_def slugify_eighty slug_exists_def crowded_def, simp add: eighty_def)

lemma eighty_other: "eighty \<noteq> ''acme''"
proof
  assume "eighty = ''acme''"
  then have "length eighty = length ''acme''" by simp
  then show False by (simp add: eighty_def)
qed

lemma acme_slug: "free_slug crowded (slugify ''Acme'') (slugify ''Acme'') 1 = Some ''acme''"
proof -
  have "map lower_char ''Acme'' = ''acme''" by (simp add: lower_char_def Let_def char_of_eq_iff)
  then have slug: "slugify ''Acme'' = ''acme''"
    by (simp add: slugify_def strip_def Let_def slug_letter_def white_def del: list.map)
  have "\<not> slug_exists crowded ''acme''" by (simp add: slug_exists_def crowded_def eighty_other)
  then show ?thesis by (simp add: slug free_slug.simps)
qed

lemma crowded_start: "dir_db (rg_directory crowded) = dir_db staff" "governed (dir_db (rg_directory crowded))"
  using staff_governed by (simp_all add: crowded_def)

lemma numbered_ids: "numbered 0 = ''id-0''" "numbered 2 = ''id-2''" "numbered 5 = ''id-5''" "numbered 6 = ''id-6''"
  "numbered 7 = ''id-7''" "numbered 8 = ''id-8''" "numbered 9 = ''id-9''"
  by (simp_all add: numbered_def nat_str.simps char_of_eq_iff)

lemma owner_seeded:
  assumes "d = (dir_db staff)\<lparr>idb_users := us\<rparr>" "''id-2'' \<in> usr_id ` set us"
  obtains d' where "seed_owner 0 ''id-5'' ''id-0'' ''id-2'' d = Inr d'" "idb_permissions d' = idb_permissions (dir_db staff)"
    "idb_roles d' = idb_roles (dir_db staff) @ [\<lparr>role_id = ''id-5'', role_tenant_id = Some ''id-0'', role_name = ''owner'',
       role_rank = 80, role_description = Some ''Full access to all features''\<rparr>]"
  using assms(2)
  by (simp add: seed_owner_def assms(1) staff_def get_role_by_name_for_tenant_def shop_role_def OWNER_ROLE_NAME_def
      OWNER_RANK_def ROLE_RANKS_def repo_create_role_def get_role_by_id_def name_taken_def get_all_permissions_def
      repo_set_role_permissions_def assign_role_to_user_def holds_role_def Let_def)

lemma role_seeded:
  assumes "rid \<notin> role_id ` set (idb_roles d)" "\<not> role_named tid name d"
  obtains d' where "seed_role tid names (rid, name, rank, desc) d = Inr d'" "idb_roles d' = idb_roles d @
    [\<lparr>role_id = rid, role_tenant_id = Some tid, role_name = name, role_rank = rank, role_description = Some desc\<rparr>]"
proof -
  have "get_role_by_name_for_tenant d tid name = None" using assms(2) found_by_name by blast
  moreover have "get_role_by_id d rid = None" using assms(1) by (auto simp: get_role_by_id_def find_None_iff)
  moreover have "\<not> name_taken d rid (Some tid) name"
    using assms(2) by (auto simp: name_taken_def role_named_def list_ex_iff)
  ultimately show ?thesis using that by (simp add: seed_role_def repo_create_role_def Let_def)
qed

lemma staff_seeds:
  assumes "d = (dir_db staff)\<lparr>idb_users := us\<rparr>" "''id-2'' \<in> usr_id ` set us"
  shows "is_ok (seed_roles 0 numbered ''id-0'' ''id-2'' d)"
proof -
  let ?n = "map (\<lambda>p. (perm_name p, perm_id p)) (idb_permissions d)"
  obtain d0 where d0: "seed_owner 0 ''id-5'' ''id-0'' ''id-2'' d = Inr d0"
    and r0: "idb_roles d0 = idb_roles (dir_db staff) @ [\<lparr>role_id = ''id-5'', role_tenant_id = Some ''id-0'', role_name = ''owner'',
       role_rank = 80, role_description = Some ''Full access to all features''\<rparr>]"
    using owner_seeded[OF assms] by blast
  note facts = r0 staff_def shop_role_def role_named_def
  obtain d1 where d1: "seed_role ''id-0'' ?n (''id-6'', ''manager'', 60, ''Day-to-day operations'') d0 = Inr d1"
    and r1: "idb_roles d1 = idb_roles d0 @ [\<lparr>role_id = ''id-6'', role_tenant_id = Some ''id-0'', role_name = ''manager'',
       role_rank = 60, role_description = Some ''Day-to-day operations''\<rparr>]"
    by (rule role_seeded[of "''id-6''" d0 "''id-0''" "''manager''"]) (auto simp: facts)
  obtain d2 where d2: "seed_role ''id-0'' ?n (''id-7'', ''cashier'', 40, ''Process sales at registers'') d1 = Inr d2"
    and r2: "idb_roles d2 = idb_roles d1 @ [\<lparr>role_id = ''id-7'', role_tenant_id = Some ''id-0'', role_name = ''cashier'',
       role_rank = 40, role_description = Some ''Process sales at registers''\<rparr>]"
    by (rule role_seeded[of "''id-7''" d1 "''id-0''" "''cashier''"]) (auto simp: r1 facts)
  obtain d3 where d3: "seed_role ''id-0'' ?n (''id-8'', ''inventory'', 50, ''Manage product stock'') d2 = Inr d3"
    and r3: "idb_roles d3 = idb_roles d2 @ [\<lparr>role_id = ''id-8'', role_tenant_id = Some ''id-0'', role_name = ''inventory'',
       role_rank = 50, role_description = Some ''Manage product stock''\<rparr>]"
    by (rule role_seeded[of "''id-8''" d2 "''id-0''" "''inventory''"]) (auto simp: r2 r1 facts)
  obtain d4 where d4: "seed_role ''id-0'' ?n (''id-9'', ''viewer'', 20, ''Read-only access'') d3 = Inr d4"
    by (rule role_seeded[of "''id-9''" d3 "''id-0''" "''viewer''"]) (auto simp: r3 r2 r1 facts)
  show ?thesis
    by (simp add: seed_roles_def Let_def DEFAULT_ROLE_DEFS_def upt_rec numbered_ids d0 d1 d2 d3 d4)
qed

lemma newcomer_registered: "\<exists>res g'. create_tenant (\<lambda>_. True) (\<lambda>x. x) numbered 0 (newcomer ''Acme'') crowded = Some (Inr (res, g'))"
proof -
  obtain res tn u ob where plan: "plan_tenant_creation (\<lambda>_. True) numbered 0 ((newcomer ''Acme'')\<lparr>tcc_tier := ''starter''\<rparr>) ''acme''
      = Inr (res, tn, u, ob)" and tn: "tn_id tn = ''id-0''" "tn_slug tn = ''acme''" "tn_subdomain tn = ''acme.storeflow.ng''"
    and u: "usr_id u = ''id-2''" "usr_email u = ''b@x''"
    by (simp add: plan_tenant_creation_def plan_user_creation_def valid_tenant_command_def newcomer_def Let_def
        numbered_ids SUBDOMAIN_SUFFIX_def)
  have stored: "repo_create_tenant tn crowded = Inr (crowded\<lparr>rg_tenants := rg_tenants crowded @ [tn]\<rparr>)"
    by (simp add: repo_create_tenant_def tn crowded_def eighty_other)
  have user: "repo_create_user u (dir_db staff) = Inr ((dir_db staff)\<lparr>idb_users := [shop_user, u]\<rparr>)"
    by (simp add: repo_create_user_def get_user_by_id_def get_user_by_email_def u staff_def shop_user_def)
  have "is_ok (seed_roles 0 numbered ''id-0'' ''id-2'' ((dir_db staff)\<lparr>idb_users := [shop_user, u]\<rparr>))"
    by (rule staff_seeds[OF refl]) (simp add: u)
  then obtain d2 where d2: "seed_roles 0 numbered ''id-0'' ''id-2'' ((dir_db staff)\<lparr>idb_users := [shop_user, u]\<rparr>) = Inr d2"
    by (auto elim: is_okE)
  have name: "tcc_business_name (newcomer ''Acme'') = ''Acme''" by (simp add: newcomer_def)
  show ?thesis
    unfolding create_tenant_def Let_def name acme_slug
    by (simp add: plan stored crowded_start user d2 tn u)
qed


end
