(* ===== verification/Access.thy ===== *)
theory Access
  imports Tenancy
begin

text \<open>
  Signing in: \<open>app/core/security.py\<close> (tokens and the sessions kept in Redis), the flows of
  \<open>app/common/auth_service.py\<close> and the guards of \<open>app/core/dependencies.py\<close>. Signed tokens, the
  password and token hashes and one-time codes are the work of libraries: they are the fields of
  \<open>outside\<close>. Times are microseconds. An operation answers a result and the state it leaves: when
  it raises, the request's transaction is rolled back, but what it did in Redis stays.
\<close>

section \<open>What libraries provide\<close>

record token_claims =
  tk_sub :: uuid
  tk_bid :: uuid
  tk_sid :: "string option"
  tk_role :: string
  tk_roles :: "string list option"
  tk_perms :: "string list"
  tk_type :: string
  tk_jti :: string
  tk_exp :: timestamp
  tk_iat :: timestamp

datatype decoded = Valid token_claims | ExpiredSignature | InvalidToken

record google_payload =
  gp_aud :: string
  gp_sub :: string
  gp_email :: string
  gp_name :: string
  gp_picture :: string

datatype apple_answer = KeyNotFound | AppleInvalid | AppleClaims string string string

record outside =
  ox_encode :: "string \<Rightarrow> token_claims \<Rightarrow> string"
  ox_decode :: "timestamp \<Rightarrow> string \<Rightarrow> string \<Rightarrow> decoded"
  ox_sha256 :: "string \<Rightarrow> string"
  ox_hashpw :: "nat list \<Rightarrow> string"
  ox_checkpw :: "nat list \<Rightarrow> string \<Rightarrow> bool"
  ox_totp :: "timestamp \<Rightarrow> string \<Rightarrow> string \<Rightarrow> bool"
  ox_google :: "string \<Rightarrow> google_payload option"
  ox_apple :: "string \<Rightarrow> apple_answer"

text \<open>\<open>settings\<close>.\<close>

record auth_settings =
  st_access_secret :: string
  st_refresh_secret :: string
  st_google_clients :: "string list"

definition access_token_expire_minutes :: int where
  "access_token_expire_minutes = 600"

definition refresh_token_expire_days :: int where
  "refresh_token_expire_days = 7"

definition seconds :: "int \<Rightarrow> timestamp" where
  "seconds n = n * 1000000"

section \<open>Passwords and tokens: \<open>security.py\<close>\<close>

text \<open>\<open>encode("utf-8")\<close> of Latin-1 text.\<close>

definition utf8 :: "string \<Rightarrow> nat list" where
  "utf8 s = concat (map (\<lambda>c. let n = of_char c :: nat in
     if n < 128 then [n] else [192 + n div 64, 128 + n mod 64]) s)"

definition hash_password :: "outside \<Rightarrow> string \<Rightarrow> string" where
  "hash_password ox pw = ox_hashpw ox (take 72 (utf8 pw))"

definition verify_password :: "outside \<Rightarrow> string \<Rightarrow> string \<Rightarrow> bool" where
  "verify_password ox pw h = ox_checkpw ox (take 72 (utf8 pw)) h"

definition hash_pin :: "outside \<Rightarrow> string \<Rightarrow> string" where
  "hash_pin ox pin = ox_hashpw ox (utf8 pin)"

definition verify_pin :: "outside \<Rightarrow> string \<Rightarrow> string \<Rightarrow> bool" where
  "verify_pin ox pin h = ox_checkpw ox (utf8 pin) h"

definition between :: "nat \<Rightarrow> nat \<Rightarrow> char \<Rightarrow> bool" where
  "between a b c = (let n = of_char c :: nat in a \<le> n \<and> n \<le> b)"

text \<open>Letters and digits of ASCII.\<close>

definition validate_password_strength :: "string \<Rightarrow> string list" where
  "validate_password_strength pw =
     (if length pw < 8 then [''Password must be at least 8 characters''] else [])
     @ (if list_ex (between 65 90) pw then [] else [''Password must include an uppercase letter''])
     @ (if list_ex (between 97 122) pw then [] else [''Password must include a lowercase letter''])
     @ (if list_ex is_digit pw then [] else [''Password must include a number''])"

definition create_access_token ::
  "outside \<Rightarrow> auth_settings \<Rightarrow> timestamp \<Rightarrow> string \<Rightarrow> uuid \<Rightarrow> uuid \<Rightarrow> string \<Rightarrow> string list \<Rightarrow> string list \<Rightarrow> string" where
  "create_access_token ox st now jti uid business role perms roles =
     ox_encode ox (st_access_secret st) \<lparr>tk_sub = uid, tk_bid = business, tk_sid = None, tk_role = role,
       tk_roles = (if roles = [] then None else Some roles), tk_perms = perms, tk_type = ''access'', tk_jti = jti,
       tk_exp = now + seconds (access_token_expire_minutes * 60), tk_iat = now\<rparr>"

definition create_refresh_token ::
  "outside \<Rightarrow> auth_settings \<Rightarrow> timestamp \<Rightarrow> string \<Rightarrow> uuid \<Rightarrow> uuid \<Rightarrow> string \<Rightarrow> string" where
  "create_refresh_token ox st now jti uid business sid =
     ox_encode ox (st_refresh_secret st) \<lparr>tk_sub = uid, tk_bid = business, tk_sid = Some sid, tk_role = [],
       tk_roles = None, tk_perms = [], tk_type = ''refresh'', tk_jti = jti,
       tk_exp = now + seconds (refresh_token_expire_days * 86400), tk_iat = now\<rparr>"

definition verify_totp :: "outside \<Rightarrow> timestamp \<Rightarrow> string option \<Rightarrow> string \<Rightarrow> bool" where
  "verify_totp ox now secret code = (case secret of None \<Rightarrow> False | Some s \<Rightarrow> s \<noteq> [] \<and> ox_totp ox now s code)"

section \<open>Sessions in Redis\<close>

record session =
  sn_token_hash :: string
  sn_user_id :: uuid
  sn_device_name :: "string option"
  sn_user_agent :: "string option"
  sn_ip_address :: "string option"
  sn_created_at :: timestamp
  sn_last_active_at :: timestamp

record device =
  dv_device_name :: "string option"
  dv_user_agent :: "string option"
  dv_ip_address :: "string option"

text \<open>A session is stored under its user and its id until it expires, a blacklisted token under its \<open>jti\<close>.\<close>

record session_store =
  ss_sessions :: "((uuid \<times> string) \<times> session \<times> timestamp) list"
  ss_blacklist :: "(string \<times> timestamp) list"
  ss_up :: bool

definition live_sessions :: "timestamp \<Rightarrow> session_store \<Rightarrow> ((uuid \<times> string) \<times> session) list" where
  "live_sessions now S = List.map_filter (\<lambda>(k, s, e). if now < e then Some (k, s) else None) (ss_sessions S)"

definition stored_session :: "timestamp \<Rightarrow> uuid \<Rightarrow> string \<Rightarrow> session_store \<Rightarrow> session option" where
  "stored_session now uid sid S = (case map_of (ss_sessions S) (uid, sid) of
     None \<Rightarrow> None | Some (s, e) \<Rightarrow> if now < e then Some s else None)"

definition store_refresh_session ::
  "timestamp \<Rightarrow> uuid \<Rightarrow> string \<Rightarrow> string \<Rightarrow> device \<Rightarrow> int \<Rightarrow> timestamp option \<Rightarrow> timestamp option \<Rightarrow>
   session_store \<Rightarrow> session_store" where
  "store_refresh_session now uid sid h dv ttl created active S =
    (if \<not> ss_up S then S
     else S\<lparr>ss_sessions := dict_set (uid, sid) (\<lparr>sn_token_hash = h, sn_user_id = uid,
        sn_device_name = dv_device_name dv, sn_user_agent = dv_user_agent dv, sn_ip_address = dv_ip_address dv,
        sn_created_at = (case created of None \<Rightarrow> now | Some t \<Rightarrow> t),
        sn_last_active_at = (case active of None \<Rightarrow> now | Some t \<Rightarrow> t)\<rparr>, now + seconds ttl) (ss_sessions S)\<rparr>)"

definition get_session :: "timestamp \<Rightarrow> uuid \<Rightarrow> string \<Rightarrow> session_store \<Rightarrow> session option" where
  "get_session now uid sid S = (if ss_up S then stored_session now uid sid S else None)"

definition touch_session :: "timestamp \<Rightarrow> uuid \<Rightarrow> string \<Rightarrow> string \<Rightarrow> int \<Rightarrow> session_store \<Rightarrow> session_store" where
  "touch_session now uid sid h ttl S = (case get_session now uid sid S of
     None \<Rightarrow> S
   | Some s \<Rightarrow> if sn_token_hash s \<noteq> h then S
       else S\<lparr>ss_sessions := dict_set (uid, sid) (s\<lparr>sn_last_active_at := now\<rparr>, now + seconds ttl) (ss_sessions S)\<rparr>)"

definition drop_sessions :: "(uuid \<Rightarrow> string \<Rightarrow> bool) \<Rightarrow> session_store \<Rightarrow> session_store" where
  "drop_sessions p S = (if ss_up S then S\<lparr>ss_sessions := filter (\<lambda>((u, s), _). \<not> p u s) (ss_sessions S)\<rparr> else S)"

text \<open>A session id holds no colon, so the suffix test of the code is equality.\<close>

definition single_sign_on_device :: "uuid \<Rightarrow> string \<Rightarrow> session_store \<Rightarrow> session_store" where
  "single_sign_on_device uid sid = drop_sessions (\<lambda>u s. u = uid \<and> s \<noteq> sid)"

definition verify_session_hash ::
  "outside \<Rightarrow> timestamp \<Rightarrow> string \<Rightarrow> string \<Rightarrow> uuid option \<Rightarrow> session_store \<Rightarrow> bool" where
  "verify_session_hash ox now sid raw uid S =
    (if \<not> ss_up S then True
     else case (case uid of Some u \<Rightarrow> stored_session now u sid S
                | None \<Rightarrow> map_option snd (List.find (\<lambda>((u, s), _). s = sid) (live_sessions now S))) of
       None \<Rightarrow> False | Some s \<Rightarrow> sn_token_hash s = ox_sha256 ox raw)"

definition revoke_session :: "string \<Rightarrow> uuid option \<Rightarrow> session_store \<Rightarrow> session_store" where
  "revoke_session sid uid = drop_sessions (\<lambda>u s. s = sid \<and> (uid = None \<or> uid = Some u))"

definition revoke_all_sessions :: "uuid \<Rightarrow> session_store \<Rightarrow> session_store" where
  "revoke_all_sessions uid = drop_sessions (\<lambda>u s. u = uid)"

text \<open>An empty list of users is falsy and filters nothing.\<close>

definition list_all_sessions ::
  "timestamp \<Rightarrow> uuid list option \<Rightarrow> session_store \<Rightarrow> (string \<times> session) list" where
  "list_all_sessions now users S =
    (if \<not> ss_up S then []
     else map (\<lambda>((u, sid), s). (sid, s)) (filter (\<lambda>(k, s). case users of None \<Rightarrow> True
       | Some us \<Rightarrow> us = [] \<or> sn_user_id s \<in> set us) (live_sessions now S)))"

definition list_user_sessions :: "timestamp \<Rightarrow> uuid \<Rightarrow> session_store \<Rightarrow> (string \<times> session) list" where
  "list_user_sessions now uid S = filter (\<lambda>(_, s). sn_user_id s = uid) (list_all_sessions now (Some [uid]) S)"

definition blacklist_token :: "timestamp \<Rightarrow> string \<Rightarrow> int \<Rightarrow> session_store \<Rightarrow> session_store" where
  "blacklist_token now jti ttl S = (if ss_up S
     then S\<lparr>ss_blacklist := dict_set jti (now + seconds (max ttl 1)) (ss_blacklist S)\<rparr> else S)"

definition is_token_blacklisted :: "timestamp \<Rightarrow> string \<Rightarrow> session_store \<Rightarrow> bool" where
  "is_token_blacklisted now jti S \<longleftrightarrow> ss_up S \<and>
     (case map_of (ss_blacklist S) jti of None \<Rightarrow> False | Some e \<Rightarrow> now < e)"

text \<open>\<open>max(int((dt - now).total_seconds()), 0)\<close>: the fraction of a second is cut off.\<close>

definition seconds_until :: "timestamp \<Rightarrow> timestamp \<Rightarrow> int" where
  "seconds_until now t = max ((t - now) div 1000000) 0"

section \<open>The request\<close>

record http_request =
  rq_user_agent :: "string option"
  rq_forwarded_for :: "string option"
  rq_client_host :: "string option"

fun contains :: "string \<Rightarrow> string \<Rightarrow> bool" where
  "contains w [] = (w = [])"
| "contains w (c # s) = (take (length w) (c # s) = w \<or> contains w s)"

definition device_from_ua :: "http_request \<Rightarrow> string option" where
  "device_from_ua req = (let ua = map lower_char (str_or (rq_user_agent req) []) in
     if contains ''iphone'' ua then Some ''iPhone''
     else if contains ''ipad'' ua then Some ''iPad''
     else if contains ''android'' ua then Some ''Android''
     else if contains ''windows'' ua then Some ''Windows PC''
     else if contains ''mac'' ua then Some ''Mac'' else None)"

definition client_ip :: "http_request \<Rightarrow> string" where
  "client_ip req = (if str_truthy (rq_forwarded_for req)
     then strip white (takeWhile (\<lambda>c. c \<noteq> CHR '','') (the (rq_forwarded_for req)))
     else case rq_client_host req of None \<Rightarrow> ''0.0.0.0'' | Some h \<Rightarrow> h)"

section \<open>Signing in and out: \<open>auth_service.py\<close>\<close>

record gate =
  gt_registry :: registry
  gt_sessions :: session_store
  gt_totp_pending :: "(uuid \<times> string) list"

abbreviation gate_db :: "gate \<Rightarrow> identity_db" where
  "gate_db G \<equiv> dir_db (rg_directory (gt_registry G))"

definition on_directory :: "(directory \<Rightarrow> directory) \<Rightarrow> gate \<Rightarrow> gate" where
  "on_directory f G = G\<lparr>gt_registry := (gt_registry G)\<lparr>rg_directory := f (rg_directory (gt_registry G))\<rparr>\<rparr>"

definition on_db :: "(identity_db \<Rightarrow> identity_db) \<Rightarrow> gate \<Rightarrow> gate" where
  "on_db f = on_directory (\<lambda>D. D\<lparr>dir_db := f (dir_db D)\<rparr>)"

definition on_sessions :: "(session_store \<Rightarrow> session_store) \<Rightarrow> gate \<Rightarrow> gate" where
  "on_sessions f G = G\<lparr>gt_sessions := f (gt_sessions G)\<rparr>"

definition audit ::
  "timestamp \<Rightarrow> http_request option \<Rightarrow> uuid \<Rightarrow> uuid option \<Rightarrow> string \<Rightarrow> (string \<times> json) list option \<Rightarrow> gate \<Rightarrow> gate" where
  "audit now req uid tenant action details = on_db (log_auth_event \<lparr>alog_user_id = Some uid, alog_tenant_id = tenant,
     alog_action = action, alog_ip_address = map_option client_ip req,
     alog_user_agent = map_option (\<lambda>q. case rq_user_agent q of None \<Rightarrow> [] | Some a \<Rightarrow> a) req,
     alog_details = details, alog_created_at = now\<rparr>)"

definition tenant_status :: "gate \<Rightarrow> uuid \<Rightarrow> string option" where
  "tenant_status G tid = map_option tn_status (get_tenant_by_id (gt_registry G) tid)"

definition TENANT_BLOCKED_STATUSES :: "string set" where
  "TENANT_BLOCKED_STATUSES = {''suspended'', ''cancelled''}"

text \<open>
  Everything a password login may refuse. The audit entries the code writes before it raises are
  rolled back with the request.
\<close>

definition check_login ::
  "outside \<Rightarrow> timestamp \<Rightarrow> string \<Rightarrow> string \<Rightarrow> string option \<Rightarrow> gate \<Rightarrow> exn + user" where
  "check_login ox now email password code G = (case get_user_by_email (gate_db G) email of
     None \<Rightarrow> Inl (AuthError ''Invalid email or password'' ''invalid_credentials'')
   | Some u \<Rightarrow>
      if (case tenant_status G (usr_tenant_id u) of None \<Rightarrow> False | Some s \<Rightarrow> s \<in> TENANT_BLOCKED_STATUSES)
      then Inl (AuthError ''Your business account is currently suspended. Contact support.'' ''tenant_suspended'')
      else if \<not> str_truthy (usr_password_hash u)
      then Inl (AuthError ''This account uses social login. Please sign in with Google or Apple.'' ''social_login_required'')
      else if \<not> verify_password ox password (the (usr_password_hash u))
      then Inl (AuthError ''Invalid email or password'' ''invalid_credentials'')
      else if usr_totp_enabled u \<and> \<not> str_truthy code then Inl TotpRequired
      else if usr_totp_enabled u \<and> \<not> verify_totp ox now (usr_totp_secret u) (the code)
      then Inl (AuthError ''Invalid TOTP code'' ''invalid_totp'')
      else Inr u)"

record token_pair =
  tp_access :: string
  tp_refresh :: string

record signed_in =
  sg_user :: user
  sg_roles :: "string list"
  sg_permissions :: "string list"

text \<open>The identifiers of the tokens, and the session id, are fresh.\<close>

record token_ids =
  ti_access_jti :: string
  ti_refresh_jti :: string
  ti_sid :: string

definition access_for ::
  "outside \<Rightarrow> auth_settings \<Rightarrow> timestamp \<Rightarrow> string \<Rightarrow> uuid \<Rightarrow> uuid \<Rightarrow> gate \<Rightarrow> (string \<times> string list \<times> string list) \<times> gate" where
  "access_for ox st now jti uid business G =
    (case get_perms uid (rg_directory (gt_registry G)) of (perms, D) \<Rightarrow>
      (let names = get_role_names uid D
       in ((create_access_token ox st now jti uid business (role_claim names) perms names, names, perms),
           on_directory (\<lambda>_. D) G)))"

definition session_ttl :: int where
  "session_ttl = refresh_token_expire_days * 86400"

definition login ::
  "outside \<Rightarrow> auth_settings \<Rightarrow> timestamp \<Rightarrow> token_ids \<Rightarrow> string \<Rightarrow> string \<Rightarrow> string option \<Rightarrow> http_request \<Rightarrow>
   string option \<Rightarrow> gate \<Rightarrow> (exn + token_pair \<times> signed_in) \<times> gate" where
  "login ox st now ti email password code req device_name G = (case check_login ox now email password code G of
     Inl e \<Rightarrow> (Inl e, G)
   | Inr u \<Rightarrow>
     (case access_for ox st now (ti_access_jti ti) (usr_id u) (usr_tenant_id u) G of ((access, names, perms), G1) \<Rightarrow>
      (let sid = ti_sid ti;
           refresh = create_refresh_token ox st now (ti_refresh_jti ti) (usr_id u) (usr_tenant_id u) sid;
           dv = \<lparr>dv_device_name = (if str_truthy device_name then device_name else device_from_ua req),
             dv_user_agent = Some (case rq_user_agent req of None \<Rightarrow> [] | Some a \<Rightarrow> a),
             dv_ip_address = Some (client_ip req)\<rparr>;
           G2 = on_sessions (store_refresh_session now (usr_id u) sid (ox_sha256 ox refresh) dv session_ttl None None
             \<circ> single_sign_on_device (usr_id u) sid) G1;
           G3 = on_db (change_user (usr_id u) (usr_last_login_at_update (\<lambda>_. Some now))) G2
       in (Inr (\<lparr>tp_access = access, tp_refresh = refresh\<rparr>,
             \<lparr>sg_user = u, sg_roles = names, sg_permissions = perms\<rparr>),
           audit now (Some req) (usr_id u) (Some (usr_tenant_id u)) ''login_success'' None G3))))"

text \<open>A refresh token without a session id raises \<open>KeyError\<close>.\<close>

definition refresh_tokens ::
  "outside \<Rightarrow> auth_settings \<Rightarrow> timestamp \<Rightarrow> token_ids \<Rightarrow> string \<Rightarrow> gate \<Rightarrow> (exn + token_pair) \<times> gate" where
  "refresh_tokens ox st now ti raw G = (case ox_decode ox now (st_refresh_secret st) raw of
     ExpiredSignature \<Rightarrow> (Inl (AuthError ''Refresh token expired'' ''token_expired''), G)
   | InvalidToken \<Rightarrow> (Inl (AuthError ''Invalid refresh token'' ''invalid_token''), G)
   | Valid c \<Rightarrow> (case tk_sid c of
       None \<Rightarrow> (Inl KeyError, G)
     | Some sid \<Rightarrow>
       (let uid = tk_sub c; old = get_session now uid sid (gt_sessions G)
        in if \<not> verify_session_hash ox now sid raw (Some uid) (gt_sessions G)
           then (Inl (AuthError ''Token reuse detected. All sessions revoked.'' ''token_reuse''),
                 on_sessions (revoke_all_sessions uid) G)
           else
            (let refresh = create_refresh_token ox st now (ti_refresh_jti ti) uid (tk_bid c) (ti_sid ti);
                 dv = \<lparr>dv_device_name = Option.bind old sn_device_name, dv_user_agent = Option.bind old sn_user_agent,
                   dv_ip_address = Option.bind old sn_ip_address\<rparr>;
                 G1 = on_sessions (store_refresh_session now uid (ti_sid ti) (ox_sha256 ox refresh) dv session_ttl
                     (map_option sn_created_at old) (Some now) \<circ> revoke_session sid (Some uid)) G
             in case access_for ox st now (ti_access_jti ti) uid (tk_bid c) G1 of ((access, _, _), G2) \<Rightarrow>
                  (Inr \<lparr>tp_access = access, tp_refresh = refresh\<rparr>, G2)))))"

text \<open>Logging out one device needs its refresh token; one that does not verify is ignored.\<close>

definition logout ::
  "outside \<Rightarrow> auth_settings \<Rightarrow> timestamp \<Rightarrow> string \<Rightarrow> string \<Rightarrow> uuid \<Rightarrow> bool \<Rightarrow> gate \<Rightarrow> (exn + unit) \<times> gate" where
  "logout ox st now access raw_refresh uid all_devices G =
    (let G1 = (case ox_decode ox now (st_access_secret st) access of
           Valid c \<Rightarrow> on_sessions (blacklist_token now (tk_jti c) (seconds_until now (tk_exp c))) G | _ \<Rightarrow> G);
         out = (\<lambda>G. (Inr (), audit now None uid None ''logout'' (Some [(''all_devices'', JBool all_devices)]) G))
     in if all_devices then out (on_sessions (revoke_all_sessions uid) G1)
        else case ox_decode ox now (st_refresh_secret st) raw_refresh of
          Valid c \<Rightarrow> (case tk_sid c of
              Some sid \<Rightarrow> out (on_sessions (revoke_session sid None) G1) | None \<Rightarrow> (Inl KeyError, G1))
        | _ \<Rightarrow> out G1)"

section \<open>Passwords and second factors\<close>

definition change_password ::
  "outside \<Rightarrow> timestamp \<Rightarrow> uuid \<Rightarrow> string \<Rightarrow> string \<Rightarrow> bool \<Rightarrow> http_request \<Rightarrow> gate \<Rightarrow> (exn + unit) \<times> gate" where
  "change_password ox now uid cur_pw new_pw revoke_others req G =
    (case get_user_by_id (gate_db G) uid of
       None \<Rightarrow> (Inl (AuthError ''Current password is incorrect'' ''invalid_password''), G)
     | Some u \<Rightarrow> (case usr_password_hash u of
         None \<Rightarrow> (Inl TypeError, G)
       | Some h \<Rightarrow>
          if \<not> verify_password ox cur_pw h
          then (Inl (AuthError ''Current password is incorrect'' ''invalid_password''), G)
          else
           (let G1 = on_db (change_user uid (usr_password_hash_update (\<lambda>_. Some (hash_password ox new_pw)))) G;
                G2 = (if revoke_others then on_sessions (revoke_all_sessions uid) G1 else G1);
                G3 = on_directory (bust_perms uid) G2
            in (Inr (), audit now (Some req) uid None ''password_changed''
                  (Some [(''revoked_other_sessions'', JBool revoke_others)]) G3))))"

text \<open>The token that \<open>generate_reset_token\<close> draws is hashed and dropped.\<close>

definition forgot_password ::
  "outside \<Rightarrow> timestamp \<Rightarrow> uuid \<Rightarrow> string \<Rightarrow> string \<Rightarrow> http_request \<Rightarrow> gate \<Rightarrow> gate" where
  "forgot_password ox now rid reset_token email req G = (case get_user_by_email (gate_db G) email of
     None \<Rightarrow> G
   | Some u \<Rightarrow> audit now (Some req) (usr_id u) (Some (usr_tenant_id u)) ''password_reset_requested'' None
       (on_db (create_password_reset_token \<lparr>reset_id = rid, reset_user_id = usr_id u,
          reset_token_hash = ox_sha256 ox reset_token, reset_expires_at = now + seconds 7200,
          reset_ip_address = Some (client_ip req)\<rparr>) G))"

definition complete_reset ::
  "outside \<Rightarrow> timestamp \<Rightarrow> string \<Rightarrow> string \<Rightarrow> http_request \<Rightarrow> gate \<Rightarrow> (exn + bool) \<times> gate" where
  "complete_reset ox now token new_pw req G = (case get_valid_reset_token now (gate_db G) (ox_sha256 ox token) of
     Inl e \<Rightarrow> (Inl e, G)
   | Inr None \<Rightarrow> (Inr False, G)
   | Inr (Some t) \<Rightarrow> (case get_user_by_id (gate_db G) (reset_user_id t) of
       None \<Rightarrow> (Inr False, G)
     | Some u \<Rightarrow>
        (let G1 = on_db (\<lambda>d. (change_user (usr_id u) (usr_password_hash_update (\<lambda>_. Some (hash_password ox new_pw))) d)
               \<lparr>idb_reset_tokens := filter (\<lambda>x. reset_id x \<noteq> reset_id t) (idb_reset_tokens d)\<rparr>) G;
             G2 = on_directory (bust_perms (usr_id u)) G1
         in (Inr True, audit now (Some req) (usr_id u) (Some (usr_tenant_id u)) ''password_reset_completed'' None G2))))"

text \<open>The pending secret waits in Redis; its ten minutes are left out.\<close>

definition setup_totp :: "uuid \<Rightarrow> string \<Rightarrow> gate \<Rightarrow> string \<times> gate" where
  "setup_totp uid secret G = (secret, if dir_up (rg_directory (gt_registry G))
     then G\<lparr>gt_totp_pending := dict_set uid secret (gt_totp_pending G)\<rparr> else G)"

definition pending_secret :: "uuid \<Rightarrow> gate \<Rightarrow> string option" where
  "pending_secret uid G = cache_entry (dir_up (rg_directory (gt_registry G))) (gt_totp_pending G) uid"

definition enable_totp :: "outside \<Rightarrow> timestamp \<Rightarrow> uuid \<Rightarrow> string \<Rightarrow> gate \<Rightarrow> (exn + unit) \<times> gate" where
  "enable_totp ox now uid code G =
    (let secret = pending_secret uid G
     in if \<not> verify_totp ox now secret code then (Inl (AuthError ''Invalid TOTP code'' ''invalid_totp''), G)
        else case update_user_totp uid secret True (gate_db G) of
          Inl e \<Rightarrow> (Inl e, G)
        | Inr d \<Rightarrow> (Inr (), (on_db (\<lambda>_. d) G)\<lparr>gt_totp_pending := filter (\<lambda>(k, _). k \<noteq> uid) (gt_totp_pending G)\<rparr>))"

definition disable_totp :: "outside \<Rightarrow> uuid \<Rightarrow> string \<Rightarrow> gate \<Rightarrow> (exn + unit) \<times> gate" where
  "disable_totp ox uid password G = (case get_user_by_id (gate_db G) uid of
     None \<Rightarrow> (Inl (AuthError ''Invalid password'' ''invalid_password''), G)
   | Some u \<Rightarrow> (case usr_password_hash u of
       None \<Rightarrow> (Inl TypeError, G)
     | Some h \<Rightarrow> if \<not> verify_password ox password h
         then (Inl (AuthError ''Invalid password'' ''invalid_password''), G)
         else (Inr (), on_db (change_user uid (usr_totp_secret_update (\<lambda>_. None) \<circ> usr_totp_enabled_update (\<lambda>_. False))) G)))"

section \<open>Social sign-in\<close>

record social_profile =
  sp_provider_user_id :: string
  sp_email :: string
  sp_full_name :: string
  sp_avatar :: string

definition social_profile_of :: "outside \<Rightarrow> auth_settings \<Rightarrow> string \<Rightarrow> string \<Rightarrow> exn + social_profile" where
  "social_profile_of ox st provider id_token =
    (if provider = ''google'' then (case ox_google ox id_token of
        None \<Rightarrow> Inl (AuthError ''Invalid Google ID token'' ''invalid_token'')
      | Some p \<Rightarrow> if gp_aud p \<notin> set (filter (\<lambda>c. c \<noteq> []) (st_google_clients st))
          then Inl (AuthError ''Invalid Google ID token audience'' ''invalid_token'')
          else Inr \<lparr>sp_provider_user_id = gp_sub p, sp_email = gp_email p, sp_full_name = gp_name p, sp_avatar = gp_picture p\<rparr>)
     else if provider = ''apple'' then (case ox_apple ox id_token of
        KeyNotFound \<Rightarrow> Inl (AuthError ''Apple signing key not found'' ''invalid_token'')
      | AppleInvalid \<Rightarrow> Inl (AuthError ''Invalid Apple ID token'' ''invalid_token'')
      | AppleClaims s email name \<Rightarrow> Inr \<lparr>sp_provider_user_id = s, sp_email = email,
          sp_full_name = (if name = [] then takeWhile (\<lambda>c. c \<noteq> CHR ''@'') email else name), sp_avatar = []\<rparr>)
     else Inl (AuthError (''Unsupported provider: '' @ provider) ''unsupported_provider''))"

text \<open>
  A known account is found by its provider, or by its address and then linked. For a new one the
  code inserts a user without a tenant into a column that refuses it, before it creates the tenant.
\<close>

definition social_user :: "string \<Rightarrow> social_profile \<Rightarrow> identity_db \<Rightarrow> exn + user \<times> identity_db" where
  "social_user provider p d =
     res_bind (at_most_one (filter (\<lambda>u. usr_provider u = Some provider \<and> usr_provider_id u = Some (sp_provider_user_id p))
         (idb_users d))) (\<lambda>known. case known of
       Some u \<Rightarrow> Inr (u, d)
     | None \<Rightarrow> (case get_user_by_email d (sp_email p) of
         Some u \<Rightarrow>
          (let u' = u\<lparr>usr_provider := Some provider, usr_provider_id := Some (sp_provider_user_id p),
             usr_avatar_url := (if sp_avatar p \<noteq> [] \<and> \<not> str_truthy (usr_avatar_url u) then Some (sp_avatar p)
               else usr_avatar_url u)\<rparr>
           in Inr (u', change_user (usr_id u) (\<lambda>_. u') d))
       | None \<Rightarrow> integrity_error))"

definition login_with_social ::
  "outside \<Rightarrow> auth_settings \<Rightarrow> timestamp \<Rightarrow> token_ids \<Rightarrow> string \<Rightarrow> string \<Rightarrow> http_request \<Rightarrow> gate \<Rightarrow>
   (exn + token_pair \<times> signed_in) \<times> gate" where
  "login_with_social ox st now ti id_token provider req G =
    (case res_bind (social_profile_of ox st provider id_token) (\<lambda>p.
          if sp_email p = [] then Inl (AuthError ''Email not available from social provider'' ''no_email'')
          else social_user provider p (gate_db G)) of
       Inl e \<Rightarrow> (Inl e, G)
     | Inr (u, d) \<Rightarrow>
       (case access_for ox st now (ti_access_jti ti) (usr_id u) (usr_tenant_id u) (on_db (\<lambda>_. d) G) of ((access, names, perms), G1) \<Rightarrow>
        (let refresh = create_refresh_token ox st now (ti_refresh_jti ti) (usr_id u) (usr_tenant_id u) (ti_sid ti);
             G2 = on_sessions (store_refresh_session now (usr_id u) (ti_sid ti) (ox_sha256 ox refresh)
               \<lparr>dv_device_name = None, dv_user_agent = None, dv_ip_address = None\<rparr> session_ttl None None) G1;
             G3 = on_db (change_user (usr_id u) (usr_last_login_at_update (\<lambda>_. Some now))) G2
         in (Inr (\<lparr>tp_access = access, tp_refresh = refresh\<rparr>, \<lparr>sg_user = u, sg_roles = names, sg_permissions = perms\<rparr>),
             audit now (Some req) (usr_id u) (Some (usr_tenant_id u)) ''login_success''
               (Some [(''provider'', JStr provider)]) G3))))"

section \<open>Guards: \<open>dependencies.py\<close>\<close>

fun split_on :: "char \<Rightarrow> string \<Rightarrow> string list" where
  "split_on c [] = [[]]"
| "split_on c (x # s) = (case split_on c s of [] \<Rightarrow> [[x]] | w # ws \<Rightarrow> if x = c then [] # w # ws else (x # w) # ws)"

definition roles_from_payload :: "token_claims \<Rightarrow> string list" where
  "roles_from_payload c = (case tk_roles c of
     Some (r # rs) \<Rightarrow> filter (\<lambda>x. x \<noteq> []) (r # rs)
   | _ \<Rightarrow> filter (\<lambda>x. x \<noteq> []) (map (strip white) (split_on CHR '','' (tk_role c))))"

definition has_perm :: "token_claims \<Rightarrow> string \<Rightarrow> bool" where
  "has_perm c p \<longleftrightarrow> p \<in> set (tk_perms c)"

definition has_role :: "token_claims \<Rightarrow> string list \<Rightarrow> bool" where
  "has_role c rs \<longleftrightarrow> list_ex (\<lambda>r. r \<in> set rs) (roles_from_payload c)"

definition primary_role :: "token_claims \<Rightarrow> string" where
  "primary_role c = (case roles_from_payload c of r # _ \<Rightarrow> r | [] \<Rightarrow> tk_role c)"

definition unauthenticated :: "exn + 'a" where
  "unauthenticated = Inl (HTTPError 401 ''Authentication required'')"

definition authenticate ::
  "outside \<Rightarrow> auth_settings \<Rightarrow> timestamp \<Rightarrow> string option \<Rightarrow> gate \<Rightarrow> exn + token_claims" where
  "authenticate ox st now creds G = (case creds of
     None \<Rightarrow> unauthenticated
   | Some token \<Rightarrow> (case ox_decode ox now (st_access_secret st) token of
       ExpiredSignature \<Rightarrow> Inl (HTTPError 401 ''Token expired'')
     | InvalidToken \<Rightarrow> unauthenticated
     | Valid c \<Rightarrow> if tk_type c \<noteq> ''access'' \<or> is_token_blacklisted now (tk_jti c) (gt_sessions G)
         then unauthenticated else Inr c))"

definition assert_tenant_active :: "gate \<Rightarrow> uuid \<Rightarrow> exn + unit" where
  "assert_tenant_active G business =
    (if business = [] \<or> business = ''platform'' then Inr ()
     else if (case tenant_status G business of None \<Rightarrow> False | Some s \<Rightarrow> s \<in> TENANT_BLOCKED_STATUSES)
     then Inl (HTTPError 403 ''tenant_suspended'') else Inr ())"

definition get_tenant_context ::
  "outside \<Rightarrow> auth_settings \<Rightarrow> timestamp \<Rightarrow> string option \<Rightarrow> gate \<Rightarrow> exn + token_claims" where
  "get_tenant_context ox st now creds G = res_bind (authenticate ox st now creds G) (\<lambda>c.
     res_bind (assert_tenant_active G (tk_bid c)) (\<lambda>_. Inr c))"

definition require_permission :: "string \<Rightarrow> token_claims \<Rightarrow> exn + unit" where
  "require_permission p c = (if has_perm c p then Inr ()
     else Inl (HTTPError 403 (''Permission denied: '' @ in_quotes p)))"

definition require_role :: "string list \<Rightarrow> token_claims \<Rightarrow> exn + unit" where
  "require_role rs c = (if has_role c rs then Inr ()
     else Inl (HTTPError 403 (''Role required: '' @ joined '' or '' rs)))"

definition require_min_role :: "string \<Rightarrow> token_claims \<Rightarrow> gate \<Rightarrow> (exn + unit) \<times> gate" where
  "require_min_role minimum c G = (case min_role minimum (tk_sub c) (rg_directory (gt_registry G)) of (ok, D) \<Rightarrow>
     (if ok then Inr () else Inl (HTTPError 403 (''Minimum role: '' @ minimum @ '' or higher'')), on_directory (\<lambda>_. D) G))"

section \<open>Suspicious sign-ins: \<open>suspicious_login.py\<close>\<close>

record suspicion =
  su_flagged :: bool
  su_reasons :: "string list"
  su_failed_attempts :: int
  su_is_new_ip :: bool
  su_is_new_device :: bool
  su_is_unusual_hour :: bool

text \<open>Each check adds its reason; \<open>hour\<close> is the hour of the clock in UTC.\<close>

definition analyze_login ::
  "nat \<Rightarrow> string option \<Rightarrow> string option \<Rightarrow> int \<Rightarrow> string list \<Rightarrow> string list option \<Rightarrow> int \<Rightarrow> nat \<Rightarrow> nat \<Rightarrow> suspicion" where
  "analyze_login hour ip agent failed known_ips known_agents max_failed h0 h1 =
    (let many = max_failed \<le> failed;
         new_ip = (str_truthy ip \<and> known_ips \<noteq> [] \<and> the ip \<notin> set known_ips);
         late = (h0 \<le> hour \<and> hour \<le> h1);
         new_device = (str_truthy agent \<and> (case known_agents of None \<Rightarrow> False | Some ks \<Rightarrow> ks \<noteq> [] \<and> the agent \<notin> set ks))
     in \<lparr>su_flagged = (many \<or> new_ip \<or> late \<or> new_device),
         su_reasons = (if many then [''Too many failed login attempts: ''
              @ (if failed < 0 then ''-'' else []) @ nat_str (nat \<bar>failed\<bar>) @ '' in last 15 minutes''] else [])
           @ (if new_ip then [''Login from new IP address: '' @ the ip] else [])
           @ (if late then [''Login at unusual hour: '' @ nat_str hour @ '':00 UTC''] else [])
           @ (if new_device then [''Login from new device: '' @ take 50 (the agent) @ ''...''] else []),
         su_failed_attempts = failed, su_is_new_ip = new_ip, su_is_new_device = new_device,
         su_is_unusual_hour = late\<rparr>)"

definition should_require_mfa :: "suspicion \<Rightarrow> bool" where
  "should_require_mfa r \<longleftrightarrow> su_flagged r \<and> 3 \<le> su_failed_attempts r"

definition should_block_login :: "suspicion \<Rightarrow> bool" where
  "should_block_login r \<longleftrightarrow> 10 \<le> su_failed_attempts r"

definition should_send_alert :: "suspicion \<Rightarrow> bool" where
  "should_send_alert r \<longleftrightarrow> (su_is_new_ip r \<or> su_is_new_device r) \<and> 0 < su_failed_attempts r"

section \<open>Supervisor PINs: \<open>approval.py\<close>\<close>

definition PIN_MAX_ATTEMPTS :: int where
  "PIN_MAX_ATTEMPTS = 5"

definition PIN_LOCKOUT_SECONDS :: int where
  "PIN_LOCKOUT_SECONDS = 60"

text \<open>
  The counters of failed attempts, by address and user, with their expiry. \<open>pc_awaitable\<close> says whether
  the pipeline of the Redis library can be awaited: \<open>_GuardedRedis\<close> then wraps it in a coroutine, on
  which \<open>pipe.incr\<close> raises, and the exception is swallowed.
\<close>

record pin_counters =
  pc_counts :: "((string \<times> uuid) \<times> int \<times> timestamp) list"
  pc_up :: bool
  pc_awaitable :: bool

definition failures :: "timestamp \<Rightarrow> string \<times> uuid \<Rightarrow> pin_counters \<Rightarrow> int" where
  "failures now k P = (case map_of (pc_counts P) k of None \<Rightarrow> 0 | Some (n, e) \<Rightarrow> if now < e then n else 0)"

definition locked_out :: "timestamp \<Rightarrow> string \<times> uuid \<Rightarrow> pin_counters \<Rightarrow> bool" where
  "locked_out now k P \<longleftrightarrow> pc_up P \<and> PIN_MAX_ATTEMPTS \<le> failures now k P"

definition note_failure :: "timestamp \<Rightarrow> string \<times> uuid \<Rightarrow> pin_counters \<Rightarrow> pin_counters" where
  "note_failure now k P = (if pc_up P \<and> \<not> pc_awaitable P then P\<lparr>pc_counts :=
     dict_set k (failures now k P + 1, now + seconds PIN_LOCKOUT_SECONDS) (pc_counts P)\<rparr> else P)"

definition clear_failures :: "string \<times> uuid \<Rightarrow> pin_counters \<Rightarrow> pin_counters" where
  "clear_failures k P = (if pc_up P then P\<lparr>pc_counts := filter (\<lambda>(j, _). j \<noteq> k) (pc_counts P)\<rparr> else P)"

definition find_approver ::
  "outside \<Rightarrow> timestamp \<Rightarrow> identity_db \<Rightarrow> uuid \<Rightarrow> string \<Rightarrow> string \<Rightarrow> uuid option" where
  "find_approver ox now d tenant pin permission =
     map_option spin_user_id (List.find (\<lambda>r. verify_pin ox pin (spin_pin_hash r) \<and> permission \<in> set (perms_of d (spin_user_id r)))
       (filter (\<lambda>r. now < spin_expires_at r \<and> (case get_user_by_id d (spin_user_id r) of None \<Rightarrow> False
          | Some u \<Rightarrow> usr_tenant_id u = tenant \<and> usr_status u = ''active'')) (idb_pins d)))"

text \<open>
  \<open>None\<close> in the answer means that the actor, an owner or higher, needs no approval. Only the
  lookup of the PIN costs an attempt.
\<close>

definition require_supervisor_approval ::
  "outside \<Rightarrow> timestamp \<Rightarrow> uuid \<times> uuid \<Rightarrow> string \<Rightarrow> string option \<Rightarrow> string \<Rightarrow> gate \<Rightarrow> pin_counters \<Rightarrow>
   (exn + uuid option) \<times> gate \<times> pin_counters" where
  "require_supervisor_approval ox now actor permission pin host G P = (case actor of (uid, business) \<Rightarrow>
    (case min_role ''owner'' uid (rg_directory (gt_registry G)) of (owner, D) \<Rightarrow>
      (let G1 = on_directory (\<lambda>_. D) G; k = (host, uid)
       in if owner then (Inr None, G1, P)
          else if \<not> str_truthy pin then (Inl (HTTPError 403 ''supervisor_pin_required''), G1, P)
          else if locked_out now k P
          then (Inl (HTTPError 429 ''Too many PIN attempts. Try again in 60 seconds.''), G1, P)
          else case find_approver ox now (gate_db G1) business (the pin) permission of
            None \<Rightarrow> (Inl (HTTPError 403 ''invalid_supervisor_pin''), G1, note_failure now k P)
          | Some who \<Rightarrow> (Inr (Some who), G1, clear_failures k P))))"

section \<open>Rate limits: \<open>ratelimit.py\<close>\<close>

record window =
  wn_count :: int
  wn_start :: timestamp

text \<open>A window entry expires like any other; it is found while it lives.\<close>

definition check_rate_limit ::
  "timestamp \<Rightarrow> bool \<Rightarrow> int \<Rightarrow> int \<Rightarrow> string \<Rightarrow> (string \<times> window \<times> timestamp) list \<Rightarrow>
   (exn + unit) \<times> (string \<times> window \<times> timestamp) list" where
  "check_rate_limit now up max_requests window_seconds key c =
    (let found = (case cache_entry up c key of Some (w, e) \<Rightarrow> if now < e then Some w else None | None \<Rightarrow> None);
         w0 = (case found of None \<Rightarrow> \<lparr>wn_count = 0, wn_start = now\<rparr> | Some w \<Rightarrow> w);
         w1 = (if seconds window_seconds < now - wn_start w0 then \<lparr>wn_count = 0, wn_start = now\<rparr> else w0);
         w2 = w1\<lparr>wn_count := wn_count w1 + 1\<rparr>
     in (if max_requests < wn_count w2 then Inl (HTTPError 429 ''Rate limit exceeded'') else Inr (),
         cache_put up key (w2, now + seconds window_seconds) c))"

end
