(* ===== verification/AccessFlows.thy ===== *)
theory AccessFlows
  imports Access
begin

text \<open>
  What signing in keeps. A rotated refresh token is never accepted again, and presenting it ends
  every session of its user; password sign-ins leave one session per user; five wrong PINs a minute
  are the most that are ever compared; a logged-out access token is refused until its entry in the
  blacklist ends. And one gap: the status of a user takes no part in signing in.
\<close>

section \<open>Sessions under the flows\<close>

lemma sessions_simps [simp]:
  "gt_sessions (on_directory f G) = gt_sessions G"
  "gt_sessions (on_db h G) = gt_sessions G"
  "gt_sessions (on_sessions g G) = g (gt_sessions G)"
  "gt_sessions (audit now req uid tenant action details G) = gt_sessions G"
  by (simp_all add: on_directory_def on_db_def on_sessions_def audit_def)

lemma access_for_sessions [simp]: "gt_sessions (snd (access_for ox st now jti uid business G)) = gt_sessions G"
  by (simp add: access_for_def Let_def split: prod.split)

lemma access_for_keeps_sessions: "access_for ox st now jti uid business G = (x, G') \<Longrightarrow> gt_sessions G' = gt_sessions G"
  by (metis access_for_sessions snd_conv)

lemma up_simps [simp]:
  "ss_up (drop_sessions p S) = ss_up S"
  "ss_up (store_refresh_session now uid sid h dv ttl c a S) = ss_up S"
  "ss_up (blacklist_token now jti ttl S) = ss_up S"
  by (simp_all add: drop_sessions_def store_refresh_session_def blacklist_token_def)

lemma revocations [simp]:
  "ss_up (revoke_session sid u S) = ss_up S" "ss_up (revoke_all_sessions uid S) = ss_up S"
  "ss_up (single_sign_on_device uid sid S) = ss_up S"
  by (simp_all add: revoke_session_def revoke_all_sessions_def single_sign_on_device_def)

datatype gate_op =
    Login token_ids string string "string option" http_request "string option"
  | SocialLogin token_ids string string http_request
  | Refresh token_ids string
  | Logout string string uuid bool
  | ChangePassword uuid string string bool http_request

fun gate_step :: "outside \<Rightarrow> auth_settings \<Rightarrow> timestamp \<times> gate_op \<Rightarrow> gate \<Rightarrow> gate" where
  "gate_step ox st (now, Login ti email pw code req dev) G = snd (login ox st now ti email pw code req dev G)"
| "gate_step ox st (now, SocialLogin ti token provider req) G = snd (login_with_social ox st now ti token provider req G)"
| "gate_step ox st (now, Refresh ti raw) G = snd (refresh_tokens ox st now ti raw G)"
| "gate_step ox st (now, Logout access raw uid all_devices) G = snd (logout ox st now access raw uid all_devices G)"
| "gate_step ox st (now, ChangePassword uid old new others req) G = snd (change_password ox now uid old new others req G)"

text \<open>The session ids an operation may write.\<close>

fun issued_sid :: "timestamp \<times> gate_op \<Rightarrow> string list" where
  "issued_sid (now, Login ti _ _ _ _ _) = [ti_sid ti]"
| "issued_sid (now, SocialLogin ti _ _ _) = [ti_sid ti]"
| "issued_sid (now, Refresh ti _) = [ti_sid ti]"
| "issued_sid _ = []"

text \<open>What an operation does to the store of sessions, in four shapes.\<close>

inductive store_change :: "string list \<Rightarrow> session_store \<Rightarrow> session_store \<Rightarrow> bool" for sids where
  same: "store_change sids S S"
| dropped: "store_change sids S (drop_sessions p S)"
| listed: "store_change sids S S' \<Longrightarrow> store_change sids S (blacklist_token now jti ttl S')"
| stored: "sid \<in> set sids \<Longrightarrow> store_change sids S S' \<Longrightarrow>
    store_change sids S (store_refresh_session now uid sid h dv ttl c a S')"
| then_dropped: "store_change sids S S' \<Longrightarrow> store_change sids S (drop_sessions p S')"

lemma gate_step_changes: "store_change (issued_sid a) (gt_sessions G) (gt_sessions (gate_step ox st a G))"
proof -
  obtain now oper where a: "a = (now, oper)" by (cases a)
  show ?thesis
  proof (cases oper)
    case (Login ti email pw code req dev)
    then show ?thesis
      by (auto simp: a login_def Let_def single_sign_on_device_def access_for_keeps_sessions split: sum.split prod.split
          intro!: store_change.intros)
  next
    case (SocialLogin ti token provider req)
    then show ?thesis
      by (auto simp: a login_with_social_def Let_def access_for_keeps_sessions split: sum.split prod.split
          intro!: store_change.intros)
  next
    case (Refresh ti raw)
    then show ?thesis
      by (auto simp: a refresh_tokens_def Let_def revoke_all_sessions_def revoke_session_def access_for_keeps_sessions
          split: decoded.split option.split prod.split intro!: store_change.intros)
  next
    case (Logout access raw uid all_devices)
    then show ?thesis
      by (auto simp: a logout_def Let_def revoke_all_sessions_def revoke_session_def
          split: decoded.split option.split intro!: store_change.intros)
  next
    case (ChangePassword uid old new others req)
    then show ?thesis
      by (auto simp: a change_password_def Let_def revoke_all_sessions_def split: option.split intro!: store_change.intros)
  qed
qed

lemma change_up: "store_change sids S S' \<Longrightarrow> ss_up S' = ss_up S"
  by (induction rule: store_change.induct) auto

definition absent :: "uuid \<times> string \<Rightarrow> session_store \<Rightarrow> bool" where
  "absent k S \<longleftrightarrow> k \<notin> fst ` set (ss_sessions S)"

lemma absent_ops:
  "absent k S \<Longrightarrow> absent k (drop_sessions p S)"
  "absent k S \<Longrightarrow> absent k (blacklist_token now jti ttl S)"
  "absent k S \<Longrightarrow> k \<noteq> (uid, sid) \<Longrightarrow> absent k (store_refresh_session now uid sid h dv ttl c a S)"
  by (auto simp: absent_def drop_sessions_def blacklist_token_def store_refresh_session_def keys_dict_set)

lemma change_absent: "store_change sids S S' \<Longrightarrow> snd k \<notin> set sids \<Longrightarrow> absent k S \<Longrightarrow> absent k S'"
  by (induction rule: store_change.induct) (auto intro: absent_ops)

lemma steps_absent:
  "absent k (gt_sessions G) \<Longrightarrow> snd k \<notin> set (concat (map issued_sid opers)) \<Longrightarrow>
   absent k (gt_sessions (fold (gate_step ox st) opers G))
   \<and> ss_up (gt_sessions (fold (gate_step ox st) opers G)) = ss_up (gt_sessions G)"
proof (induction opers arbitrary: G)
  case (Cons a opers)
  have "absent k (gt_sessions (gate_step ox st a G))"
    using change_absent[OF gate_step_changes] Cons.prems by auto
  then show ?case using Cons.IH Cons.prems(2) change_up[OF gate_step_changes] by simp
qed simp

lemma refresh_removes:
  assumes "ss_up (gt_sessions G)" "refresh_tokens ox st now ti raw G = (Inr pair, G1)"
    and "ox_decode ox now (st_refresh_secret st) raw = Valid c" "tk_sid c = Some sid" "ti_sid ti \<noteq> sid"
  shows "absent (tk_sub c, sid) (gt_sessions G1) \<and> ss_up (gt_sessions G1)"
proof -
  let ?S = "revoke_session sid (Some (tk_sub c)) (gt_sessions G)"
  obtain h dv x where "gt_sessions G1 = store_refresh_session now (tk_sub c) (ti_sid ti) h dv session_ttl x (Some now) ?S"
    using assms(2) by (auto simp: refresh_tokens_def assms(3,4) Let_def dest!: access_for_keeps_sessions split: if_splits prod.splits)
  moreover have "absent (tk_sub c, sid) ?S"
    using assms(1) by (auto simp: absent_def revoke_session_def drop_sessions_def)
  ultimately show ?thesis using assms(1,5) by (simp add: absent_ops)
qed


section \<open>One session per user\<close>

definition one_device :: "session_store \<Rightarrow> bool" where
  "one_device S \<longleftrightarrow> distinct (map (fst \<circ> fst) (ss_sessions S))"

lemma one_device_drop [simp]: "one_device S \<Longrightarrow> one_device (drop_sessions p S)"
  by (simp add: one_device_def drop_sessions_def distinct_map_filter)

lemma one_device_store:
  "one_device S \<Longrightarrow> uid \<notin> (fst \<circ> fst) ` set (ss_sessions S) \<Longrightarrow> one_device (store_refresh_session now uid sid h dv ttl c a S)"
proof -
  assume "one_device S" "uid \<notin> (fst \<circ> fst) ` set (ss_sessions S)"
  moreover from this have "(uid, sid) \<notin> fst ` set (ss_sessions S)" by force
  ultimately show ?thesis by (auto simp: one_device_def store_refresh_session_def dict_set_snoc)
qed

lemma one_device_alone:
  "one_device S \<Longrightarrow> ss_up S \<Longrightarrow> (uid, sid) \<in> fst ` set (ss_sessions S) \<Longrightarrow>
   uid \<notin> (fst \<circ> fst) ` set (ss_sessions (drop_sessions (\<lambda>u s. s = sid \<and> u = uid) S))"
  by (fastforce simp: one_device_def drop_sessions_def distinct_map inj_on_def)

lemma login_one_device:
  assumes "one_device (gt_sessions G)" "ss_up (gt_sessions G)"
  shows "one_device (gt_sessions (snd (login ox st now ti email pw code req dev G)))"
proof (cases "check_login ox now email pw code G")
  case (Inr u)
  obtain access names perms G1 where af: "access_for ox st now (ti_access_jti ti) (usr_id u) (usr_tenant_id u) G
    = ((access, names, perms), G1)" by (metis prod_cases3 surj_pair)
  note S = access_for_keeps_sessions[OF af]
  let ?S = "single_sign_on_device (usr_id u) (ti_sid ti) (gt_sessions G)"
  have one: "one_device ?S" using assms(1) by (simp add: single_sign_on_device_def)
  have only: "k = (usr_id u, ti_sid ti)" if "k \<in> fst ` set (ss_sessions ?S)" "fst k = usr_id u" for k
    using that assms(2) by (auto simp: single_sign_on_device_def drop_sessions_def)
  have "one_device (store_refresh_session now (usr_id u) (ti_sid ti) h dv ttl None None ?S)" for h dv ttl
  proof (cases "(usr_id u, ti_sid ti) \<in> fst ` set (ss_sessions ?S)")
    case True
    have "map fst (dict_set (usr_id u, ti_sid ti) v (ss_sessions ?S)) = map fst (ss_sessions ?S)" for v
      by (rule map_fst_dict_set[OF True])
    then show ?thesis using one by (auto simp: one_device_def store_refresh_session_def simp flip: map_map)
  next
    case False
    then have "usr_id u \<notin> (fst \<circ> fst) ` set (ss_sessions ?S)" using only by force
    then show ?thesis using one by (rule one_device_store[rotated])
  qed
  then show ?thesis by (simp add: login_def Inr af Let_def S)
qed (simp add: login_def assms)

lemma refresh_one_device:
  assumes "one_device (gt_sessions G)" "ss_up (gt_sessions G)"
  shows "one_device (gt_sessions (snd (refresh_tokens ox st now ti raw G)))"
proof (cases "ox_decode ox now (st_refresh_secret st) raw")
  case (Valid c)
  show ?thesis
  proof (cases "tk_sid c")
    case (Some sid)
    let ?uid = "tk_sub c" and ?S = "gt_sessions G"
    show ?thesis
    proof (cases "verify_session_hash ox now sid raw (Some ?uid) ?S")
      case True
      then have "(?uid, sid) \<in> fst ` set (ss_sessions ?S)"
        using assms(2) by (auto simp: verify_session_hash_def stored_session_def dest!: map_of_SomeD
            split: option.splits if_splits intro!: rev_image_eqI)
      from one_device_alone[OF assms this]
      have "?uid \<notin> (fst \<circ> fst) ` set (ss_sessions (revoke_session sid (Some ?uid) ?S))"
        by (simp add: revoke_session_def eq_commute[of ?uid])
      moreover have "one_device (revoke_session sid (Some ?uid) ?S)" using assms(1) by (simp add: revoke_session_def)
      ultimately have "one_device (store_refresh_session now ?uid (ti_sid ti) h dv ttl x y (revoke_session sid (Some ?uid) ?S))"
        for h dv ttl x y by (intro one_device_store)
      then show ?thesis using True
        by (auto simp: refresh_tokens_def Valid Some Let_def access_for_keeps_sessions split: prod.split)
    qed (use assms in \<open>simp add: refresh_tokens_def Valid Some Let_def revoke_all_sessions_def\<close>)
  qed (simp add: refresh_tokens_def Valid assms)
qed (simp_all add: refresh_tokens_def assms)

fun is_social :: "timestamp \<times> gate_op \<Rightarrow> bool" where
  "is_social (now, SocialLogin _ _ _ _) = True"
| "is_social _ = False"

lemma step_one_device:
  assumes "one_device (gt_sessions G)" "ss_up (gt_sessions G)" "\<not> is_social a"
  shows "one_device (gt_sessions (gate_step ox st a G))"
proof -
  obtain now oper where a: "a = (now, oper)" by (cases a)
  have listed: "one_device (blacklist_token t jti ttl S) = one_device S" for t jti ttl S
    by (simp add: one_device_def blacklist_token_def)
  show ?thesis
  proof (cases oper)
    case (Logout access raw uid all_devices)
    then show ?thesis using assms(1)
      by (auto simp: a logout_def Let_def listed revoke_all_sessions_def revoke_session_def
          split: decoded.split option.split)
  next
    case (ChangePassword uid old new others req)
    then show ?thesis using assms(1)
      by (auto simp: a change_password_def Let_def revoke_all_sessions_def split: option.split)
  qed (use assms login_one_device refresh_one_device in \<open>auto simp: a\<close>)
qed

text \<open>
  C37: While Redis is up, no sequence of password sign-ins, refreshes, logouts and changes of
  password ever stores two sessions of one user: a new device signs the previous one out.
\<close>

theorem one_session_per_user:
  assumes "one_device (gt_sessions G)" "ss_up (gt_sessions G)" "\<not> list_ex is_social opers"
  shows "one_device (gt_sessions (fold (gate_step ox st) opers G))"
  using assms
proof (induction opers arbitrary: G)
  case (Cons a opers)
  then have "one_device (gt_sessions (gate_step ox st a G))" by (intro step_one_device) auto
  then show ?case using Cons change_up[OF gate_step_changes] by simp
qed simp

section \<open>Logged-out tokens\<close>

text \<open>
  After a logout with an access token, while Redis is up and until the entry in the blacklist
  ends (whole seconds before the token does), the token is refused at every guard.
\<close>

theorem logged_out_token_refused:
  assumes "ss_up (gt_sessions G)" "ox_decode ox now (st_access_secret st) token = Valid c"
    and "logout ox st now token raw uid all_devices G = (Inr (), G1)"
    and "later < now + seconds (seconds_until now (tk_exp c))" "ox_decode ox later (st_access_secret st) token = Valid c"
  shows "get_tenant_context ox st later (Some token) G1 = Inl (HTTPError 401 ''Authentication required'')"
proof -
  have "gt_sessions G1 = blacklist_token now (tk_jti c) (seconds_until now (tk_exp c)) (gt_sessions G)
    \<or> (\<exists>p. gt_sessions G1 = drop_sessions p (blacklist_token now (tk_jti c) (seconds_until now (tk_exp c)) (gt_sessions G)))"
    using assms(3) by (auto simp: logout_def assms(2) Let_def revoke_all_sessions_def revoke_session_def
        split: if_splits decoded.splits option.splits)
  then have "ss_blacklist (gt_sessions G1) = dict_set (tk_jti c) (now + seconds (max (seconds_until now (tk_exp c)) 1)) (ss_blacklist (gt_sessions G))"
    "ss_up (gt_sessions G1)"
    using assms(1) by (auto simp: blacklist_token_def drop_sessions_def)
  moreover have "later < now + seconds (max (seconds_until now (tk_exp c)) 1)"
    using assms(4) by (simp add: seconds_def max_def)
  ultimately have "is_token_blacklisted later (tk_jti c) (gt_sessions G1)" by (simp add: is_token_blacklisted_def)
  then show ?thesis by (simp add: get_tenant_context_def authenticate_def unauthenticated_def assms(5))
qed

section \<open>The status of a user\<close>

lemma find_changed_status:
  "(\<And>u. usr_id (f u) = usr_id u \<and> usr_email (f u) = usr_email u) \<Longrightarrow>
   get_user_by_email (change_user uid f d) email = map_option (\<lambda>u. if usr_id u = uid then f u else u) (get_user_by_email d email)"
  by (simp add: get_user_by_email_def change_user_def find_map_same)

text \<open>
  C38: Suspending an employee does not keep them out: whatever status \<open>set_employee_status\<close> writes,
  a password sign-in is accepted after it exactly when it was accepted before.
\<close>

theorem sign_in_ignores_user_status:
  assumes "set_employee_status business uid new_status (rg_directory (gt_registry G)) = Inr (x, D)"
  shows "is_ok (fst (login ox st now ti email pw code req dev (on_directory (\<lambda>_. D) G)))
    = is_ok (fst (login ox st now ti email pw code req dev G))"
proof -
  have D: "dir_db D = change_user uid (usr_status_update (\<lambda>_. new_status)) (gate_db G)"
    using assms by (auto simp: set_employee_status_def res_bind_eq_Inr)
  have db: "gate_db (on_directory (\<lambda>_. D) G) = change_user uid (usr_status_update (\<lambda>_. new_status)) (gate_db G)"
    and tenants: "tenant_status (on_directory (\<lambda>_. D) G) = tenant_status G"
    by (simp_all add: D on_directory_def tenant_status_def get_tenant_by_id_def fun_eq_iff)
  have "is_ok (check_login ox now email pw code (on_directory (\<lambda>_. D) G)) = is_ok (check_login ox now email pw code G)"
    unfolding check_login_def db tenants by (subst find_changed_status) (auto split: option.split)
  moreover have "is_ok (fst (login ox st now ti email pw code req dev H)) = is_ok (check_login ox now email pw code H)" for H
    by (simp add: login_def Let_def split: sum.split prod.split)
  ultimately show ?thesis by simp
qed

section \<open>Wrong PINs\<close>

text \<open>The answers to a run of attempts by one actor from one address, with their times.\<close>

fun pin_run :: "outside \<Rightarrow> uuid \<times> uuid \<Rightarrow> string \<Rightarrow> string \<Rightarrow> (timestamp \<times> string option) list \<Rightarrow> gate \<Rightarrow> pin_counters \<Rightarrow>
    (timestamp \<times> (exn + uuid option)) list" where
  "pin_run ox actor permission host [] G P = []"
| "pin_run ox actor permission host ((now, pin) # as) G P =
    (case require_supervisor_approval ox now actor permission pin host G P of (answer, G', P') \<Rightarrow>
      (now, answer) # pin_run ox actor permission host as G' P')"

definition wrong_pin :: "timestamp \<Rightarrow> timestamp \<times> (exn + uuid option) \<Rightarrow> bool" where
  "wrong_pin t0 = (\<lambda>(t, answer). t0 \<le> t \<and> t < t0 + seconds PIN_LOCKOUT_SECONDS
     \<and> answer = Inl (HTTPError 403 ''invalid_supervisor_pin''))"

definition approved :: "timestamp \<times> (exn + uuid option) \<Rightarrow> bool" where
  "approved = (\<lambda>(t, answer). case answer of Inr (Some _) \<Rightarrow> True | _ \<Rightarrow> False)"

lemma approval_counters:
  assumes "require_supervisor_approval ox now (uid, business) permission pin host G P = (answer, G', P')" "\<not> approved (now, answer)"
  shows "P' = P \<and> answer \<noteq> Inl (HTTPError 403 ''invalid_supervisor_pin'')
    \<or> \<not> locked_out now (host, uid) P \<and> P' = note_failure now (host, uid) P"
  using assms by (auto simp: require_supervisor_approval_def Let_def approved_def split: prod.splits if_splits option.splits)

text \<open>\<open>n\<close> wrong PINs since \<open>t0\<close> are still counted until the end of the minute.\<close>

definition still_counted :: "timestamp \<Rightarrow> string \<times> uuid \<Rightarrow> int \<Rightarrow> pin_counters \<Rightarrow> bool" where
  "still_counted t0 k n P \<longleftrightarrow> n \<le> PIN_MAX_ATTEMPTS \<and> (case map_of (pc_counts P) k of
     None \<Rightarrow> n = 0 | Some (m, e) \<Rightarrow> n \<le> m \<and> (0 < n \<longrightarrow> t0 + seconds PIN_LOCKOUT_SECONDS \<le> e))"

lemma still_counted_failure:
  assumes "still_counted t0 k n P" "0 \<le> n" "pc_up P" "\<not> pc_awaitable P" "\<not> locked_out now k P" "t0 \<le> now" "now < t0 + seconds PIN_LOCKOUT_SECONDS"
  shows "still_counted t0 k (n + 1) (note_failure now k P)"
proof -
  have "n \<le> failures now k P"
    using assms(1,2,7) by (auto simp: still_counted_def failures_def split: option.splits prod.splits)
  moreover have "failures now k P < PIN_MAX_ATTEMPTS" using assms(3,5) by (simp add: locked_out_def)
  ultimately show ?thesis using assms(3,4,6) by (simp add: still_counted_def note_failure_def)
qed

lemma none_after: "sorted (map fst as) \<Longrightarrow> list_all (\<lambda>(t, _). t0 + seconds PIN_LOCKOUT_SECONDS \<le> t) as
  \<Longrightarrow> filter (wrong_pin t0) (pin_run ox actor permission host as G P) = []"
proof (induction as arbitrary: G P)
  case (Cons a as)
  obtain now pin where a: "a = (now, pin)" by (cases a)
  show ?case using Cons.prems Cons.IH by (auto simp: a wrong_pin_def split: prod.split)
qed simp

lemma pin_run_bound:
  assumes "sorted (map fst as)" "pc_up P \<and> \<not> pc_awaitable P" "still_counted t0 (host, uid) n P" "0 \<le> n"
    and "n = 0 \<or> list_all (\<lambda>(t, _). t0 \<le> t) as"
    and "\<not> list_ex approved (pin_run ox (uid, business) permission host as G P)"
  shows "n + int (length (filter (wrong_pin t0) (pin_run ox (uid, business) permission host as G P))) \<le> PIN_MAX_ATTEMPTS"
  using assms
proof (induction as arbitrary: G P n)
  case Nil
  then show ?case by (simp add: still_counted_def)
next
  case (Cons a as)
  obtain now pin where a: "a = (now, pin)" by (cases a)
  obtain answer G' P' where step: "require_supervisor_approval ox now (uid, business) permission pin host G P = (answer, G', P')"
    by (metis prod_cases3)
  let ?rest = "pin_run ox (uid, business) permission host as G' P'"
  have run: "pin_run ox (uid, business) permission host (a # as) G P = (now, answer) # ?rest" by (simp add: a step)
  have quiet: "\<not> approved (now, answer)" "\<not> list_ex approved ?rest" using Cons.prems(6) by (simp_all add: run)
  have later: "sorted (map fst as)" "\<forall>x\<in>set as. now \<le> fst x" using Cons.prems(1) by (auto simp: a)
  show ?case
  proof (cases "t0 + seconds PIN_LOCKOUT_SECONDS \<le> now")
    case True
    then have "list_all (\<lambda>(t, _). t0 + seconds PIN_LOCKOUT_SECONDS \<le> t) as"
      using later(2) by (fastforce simp: list_all_iff)
    then have "filter (wrong_pin t0) ?rest = []" using later(1) none_after by blast
    moreover have "\<not> wrong_pin t0 (now, answer)" using True by (simp add: wrong_pin_def)
    ultimately show ?thesis using Cons.prems(3) by (simp add: run still_counted_def)
  next
    case inside: False
    from approval_counters[OF step quiet(1)] show ?thesis
    proof
      assume same: "P' = P \<and> answer \<noteq> Inl (HTTPError 403 ''invalid_supervisor_pin'')"
      then have "\<not> wrong_pin t0 (now, answer)" by (simp add: wrong_pin_def)
      moreover have "n + int (length (filter (wrong_pin t0) ?rest)) \<le> PIN_MAX_ATTEMPTS"
        using Cons.prems same later(1) quiet(2) by (intro Cons.IH) auto
      ultimately show ?thesis by (simp add: run)
    next
      assume noted: "\<not> locked_out now (host, uid) P \<and> P' = note_failure now (host, uid) P"
      have up: "pc_up P' \<and> \<not> pc_awaitable P'" using Cons.prems(2) noted by (simp add: note_failure_def)
      show ?thesis
      proof (cases "t0 \<le> now")
        case True
        have "still_counted t0 (host, uid) (n + 1) P'"
          using still_counted_failure[of t0 "(host, uid)" n P now] Cons.prems(2,3,4) noted True inside by simp
        moreover have "list_all (\<lambda>(t, _). t0 \<le> t) as" using later(2) True by (fastforce simp: list_all_iff)
        ultimately have "n + 1 + int (length (filter (wrong_pin t0) ?rest)) \<le> PIN_MAX_ATTEMPTS"
          using Cons.prems(4) later(1) up quiet(2) by (intro Cons.IH) auto
        then show ?thesis by (simp add: run)
      next
        case False
        then have "n = 0" using Cons.prems(5) by (auto simp: a)
        moreover have "0 \<le> failures now (host, uid) P"
          using Cons.prems(3) \<open>n = 0\<close> by (auto simp: failures_def still_counted_def split: option.splits)
        ultimately have "still_counted t0 (host, uid) 0 P'"
          using noted Cons.prems(2) by (simp add: still_counted_def note_failure_def PIN_MAX_ATTEMPTS_def)
        then have "0 + int (length (filter (wrong_pin t0) ?rest)) \<le> PIN_MAX_ATTEMPTS"
          using later(1) up quiet(2) by (intro Cons.IH) auto
        moreover have "\<not> wrong_pin t0 (now, answer)" using False by (simp add: wrong_pin_def)
        ultimately show ?thesis using \<open>n = 0\<close> by (simp add: run)
      qed
    qed
  qed
qed

text \<open>
  Were the failures counted, at most five wrong PINs would be compared with those of the supervisors
  in any sixty seconds, however many attempts one actor makes from one address without success.
\<close>

theorem wrong_pins_bounded:
  assumes "sorted (map fst as)" "pc_up P" "\<not> pc_awaitable P" "map_of (pc_counts P) (host, uid) = None"
    and "\<not> list_ex approved (pin_run ox (uid, business) permission host as G P)"
  shows "length (filter (wrong_pin t0) (pin_run ox (uid, business) permission host as G P)) \<le> 5"
  using pin_run_bound[of as P t0 host uid 0 ox business permission G] assms
  by (simp add: still_counted_def PIN_MAX_ATTEMPTS_def)

definition refused_for_attempts :: "timestamp \<times> (exn + uuid option) \<Rightarrow> bool" where
  "refused_for_attempts = (\<lambda>(t, answer). answer = Inl (HTTPError 429 ''Too many PIN attempts. Try again in 60 seconds.''))"

lemma uncounted_step:
  assumes "require_supervisor_approval ox now (uid, business) permission pin host G P = (answer, G', P')"
    and "pc_awaitable P" "map_of (pc_counts P) (host, uid) = None"
  shows "pc_awaitable P' \<and> map_of (pc_counts P') (host, uid) = None \<and> \<not> refused_for_attempts (now, answer)"
proof -
  have free: "\<not> locked_out now (host, uid) P" using assms(3) by (simp add: locked_out_def failures_def PIN_MAX_ATTEMPTS_def)
  have "P' = P \<or> P' = note_failure now (host, uid) P \<or> P' = clear_failures (host, uid) P" "\<not> refused_for_attempts (now, answer)"
    using assms(1) free
    by (auto simp: require_supervisor_approval_def Let_def refused_for_attempts_def split: prod.splits if_splits option.splits)
  then show ?thesis using assms(2,3) by (auto simp: note_failure_def clear_failures_def map_of_eq_None_iff split: if_splits)
qed


section \<open>Examples\<close>

text \<open>Tokens of a toy signer: a refresh token is its session id, an access token a constant.\<close>

definition toy_claims :: "string option \<Rightarrow> string \<Rightarrow> token_claims" where
  "toy_claims sid ty = \<lparr>tk_sub = ''u'', tk_bid = ''t'', tk_sid = sid, tk_role = [], tk_roles = None, tk_perms = [],
     tk_type = ty, tk_jti = ''j'', tk_exp = 9000000, tk_iat = 0\<rparr>"

definition toy :: outside where
  "toy = \<lparr>ox_encode = (\<lambda>_ c. case tk_sid c of None \<Rightarrow> ''access'' | Some s \<Rightarrow> s),
     ox_decode = (\<lambda>_ _ t. Valid (if t = ''access'' then toy_claims None ''access'' else toy_claims (Some t) ''refresh'')),
     ox_sha256 = (\<lambda>t. t), ox_hashpw = (\<lambda>_. ''h''), ox_checkpw = (\<lambda>b h. b = utf8 ''pin'' \<or> h = ''pw''),
     ox_totp = (\<lambda>_ _ _. True), ox_google = (\<lambda>_. None), ox_apple = (\<lambda>_. AppleInvalid)\<rparr>"

definition toy_settings :: auth_settings where
  "toy_settings = \<lparr>st_access_secret = ''a'', st_refresh_secret = ''r'', st_google_clients = []\<rparr>"

text \<open>The user \<open>u\<close> of the staff, signed in on one device.\<close>

definition lobby :: gate where
  "lobby = \<lparr>gt_registry = crowded,
     gt_sessions = \<lparr>ss_sessions = [((''u'', ''s1''), \<lparr>sn_token_hash = ''s1'', sn_user_id = ''u'', sn_device_name = None,
        sn_user_agent = None, sn_ip_address = None, sn_created_at = 0, sn_last_active_at = 0\<rparr>, 10)],
        ss_blacklist = [], ss_up = True\<rparr>,
     gt_totp_pending = []\<rparr>"

definition fresh_ids :: "string \<Rightarrow> token_ids" where
  "fresh_ids sid = \<lparr>ti_access_jti = ''ja'', ti_refresh_jti = ''jr'', ti_sid = sid\<rparr>"

lemma toy_decode [simp]:
  "ox_decode toy now s ''s1'' = Valid (toy_claims (Some ''s1'') ''refresh'')"
  "ox_decode toy now s ''access'' = Valid (toy_claims None ''access'')"
  by (simp_all add: toy_def)

lemma toy_claims_simps [simp]:
  "tk_sub (toy_claims sid ty) = ''u''" "tk_sid (toy_claims sid ty) = sid" "tk_jti (toy_claims sid ty) = ''j''"
  "tk_exp (toy_claims sid ty) = 9000000" "tk_bid (toy_claims sid ty) = ''t''"
  by (simp_all add: toy_claims_def)

lemma lobby_simps [simp]: "ss_up (gt_sessions lobby)" "one_device (gt_sessions lobby)"
  by (simp_all add: lobby_def one_device_def)

lemma lobby_refreshed: "\<exists>pair G1. refresh_tokens toy toy_settings 5 (fresh_ids ''s2'') ''s1'' lobby = (Inr pair, G1)"
proof -
  have "verify_session_hash toy 5 ''s1'' ''s1'' (Some ''u'') (gt_sessions lobby)"
    by (simp add: verify_session_hash_def stored_session_def lobby_def toy_def)
  then show ?thesis by (simp add: refresh_tokens_def Let_def split: prod.split)
qed


theorem one_session_per_user_witness:
  "one_device (gt_sessions (fold (gate_step toy toy_settings)
     [(5, Refresh (fresh_ids ''s2'') ''s1''), (6, Logout ''access'' ''s2'' ''u'' False)] lobby))"
  by (rule one_session_per_user) simp_all

theorem logged_out_token_refused_witness:
  "\<exists>G1. logout toy toy_settings 5 ''access'' ''s1'' ''u'' False lobby = (Inr (), G1)
     \<and> get_tenant_context toy toy_settings 8000 (Some ''access'') G1 = Inl (HTTPError 401 ''Authentication required'')"
proof -
  obtain G1 where ok: "logout toy toy_settings 5 ''access'' ''s1'' ''u'' False lobby = (Inr (), G1)"
    by (simp add: logout_def Let_def)
  have "get_tenant_context toy toy_settings 8000 (Some ''access'') G1 = Inl (HTTPError 401 ''Authentication required'')"
    by (rule logged_out_token_refused[OF _ _ ok]) (simp_all add: seconds_def seconds_until_def)
  with ok show ?thesis by blast
qed

lemma lobby_user: "tenant_user (gate_db lobby) ''t'' ''u'' = Some shop_user"
  by (simp add: lobby_def crowded_def staff_def tenant_user_def get_user_by_id_def shop_user_def)

text \<open>An account whose stored hash the password matches.\<close>

definition keyed :: gate where
  "keyed = on_db (change_user ''u'' (usr_password_hash_update (\<lambda>_. Some ''pw''))) lobby"

lemma keyed_directory: "dir_db (rg_directory (gt_registry keyed)) = (dir_db staff)\<lparr>idb_users := [shop_user\<lparr>usr_password_hash := Some ''pw''\<rparr>]\<rparr>"
  by (simp add: keyed_def on_db_def on_directory_def lobby_def crowded_def change_user_def staff_def shop_user_def)

theorem sign_in_ignores_user_status_witness:
  "\<exists>x D. set_employee_status ''t'' ''u'' ''suspended'' (rg_directory (gt_registry keyed)) = Inr (x, D)
     \<and> is_ok (fst (login toy toy_settings 5 (fresh_ids ''s2'') ''u@t'' ''secret'' None
           \<lparr>rq_user_agent = None, rq_forwarded_for = None, rq_client_host = None\<rparr> None (on_directory (\<lambda>_. D) keyed)))"
proof -
  have "tenant_user (gate_db keyed) ''t'' ''u'' = Some (shop_user\<lparr>usr_password_hash := Some ''pw''\<rparr>)"
    by (simp add: keyed_directory tenant_user_def get_user_by_id_def shop_user_def)
  then obtain x D where ok: "set_employee_status ''t'' ''u'' ''suspended'' (rg_directory (gt_registry keyed)) = Inr (x, D)"
    by (simp add: set_employee_status_def employee_of_def)
  have "gt_registry keyed = crowded\<lparr>rg_directory := rg_directory (gt_registry keyed)\<rparr>"
    by (simp add: keyed_def on_db_def on_directory_def lobby_def)
  then have "rg_tenants (gt_registry keyed) = rg_tenants crowded" by (metis registry.ext_inject registry.surjective registry.update_convs(3))
  then have "check_login toy 5 ''u@t'' ''secret'' None keyed = Inr (shop_user\<lparr>usr_password_hash := Some ''pw''\<rparr>)"
    by (simp add: check_login_def keyed_directory get_user_by_email_def shop_user_def tenant_status_def get_tenant_by_id_def
        crowded_def TENANT_BLOCKED_STATUSES_def verify_password_def toy_def str_truthy_def)
  then have "is_ok (fst (login toy toy_settings 5 (fresh_ids ''s2'') ''u@t'' ''secret'' None
           \<lparr>rq_user_agent = None, rq_forwarded_for = None, rq_client_host = None\<rparr> None keyed))"
    by (simp add: login_def Let_def split: prod.split)
  then show ?thesis using sign_in_ignores_user_status[OF ok] ok by blast
qed


end
