(* ===== verification/Caches.thy ===== *)
theory Caches
  imports Events
begin

text \<open>
  Redis and what is cached in it: the circuit breaker of \<open>app/core/redis_client.py\<close>, the keys of
  \<open>app/common/cache.py\<close> and the versioned scopes of \<open>app/common/scope_cache.py\<close>. A version never
  expires here and an entry of the cache only goes when it is replaced, the worst case for
  freshness. Times are microseconds of a monotonic clock, which is never zero.
\<close>

section \<open>The circuit breaker\<close>

definition BREAKER_THRESHOLD :: nat where
  "BREAKER_THRESHOLD = 2"

definition BREAKER_RESET :: timestamp where
  "BREAKER_RESET = 30000000"

record breaker =
  br_failures :: nat
  br_open_until :: timestamp
  br_probe_inflight :: bool

definition breaker_allows :: "timestamp \<Rightarrow> breaker \<Rightarrow> bool \<times> breaker" where
  "breaker_allows now b =
    (if br_open_until b = 0 then (True, b)
     else if now < br_open_until b then (False, b)
     else if br_probe_inflight b then (False, b)
     else (True, b\<lparr>br_probe_inflight := True\<rparr>))"

definition record_success :: "breaker \<Rightarrow> breaker" where
  "record_success b = b\<lparr>br_failures := 0, br_open_until := 0, br_probe_inflight := False\<rparr>"

definition record_failure :: "timestamp \<Rightarrow> breaker \<Rightarrow> breaker" where
  "record_failure now b =
    (let b1 = b\<lparr>br_probe_inflight := False, br_failures := br_failures b + 1\<rparr>
     in if (BREAKER_THRESHOLD \<le> br_failures b1 \<and> br_open_until b1 = 0) \<or> br_open_until b1 \<noteq> 0
        then b1\<lparr>br_open_until := now + BREAKER_RESET\<rparr> else b1)"

text \<open>
  \<open>_GuardedRedis._guard\<close> around concurrent commands: one begins if the breaker allows it, and ends
  well, with an \<open>Exception\<close>, or cancelled; \<open>CancelledError\<close> is not an \<open>Exception\<close>, so a cancelled
  command reports nothing. \<open>gd_running\<close> counts the commands under way.
\<close>

datatype guard_event = Begins | Succeeds | Fails | Cancelled

record guard =
  gd_breaker :: breaker
  gd_running :: nat

fun guard_step :: "timestamp \<times> guard_event \<Rightarrow> guard \<Rightarrow> guard" where
  "guard_step (now, Begins) g = (case breaker_allows now (gd_breaker g) of (ok, b) \<Rightarrow>
     \<lparr>gd_breaker = b, gd_running = gd_running g + (if ok then 1 else 0)\<rparr>)"
| "guard_step (now, Succeeds) g = (if gd_running g = 0 then g
     else \<lparr>gd_breaker = record_success (gd_breaker g), gd_running = gd_running g - 1\<rparr>)"
| "guard_step (now, Fails) g = (if gd_running g = 0 then g
     else \<lparr>gd_breaker = record_failure now (gd_breaker g), gd_running = gd_running g - 1\<rparr>)"
| "guard_step (now, Cancelled) g = (if gd_running g = 0 then g else g\<lparr>gd_running := gd_running g - 1\<rparr>)"

definition stuck :: "guard \<Rightarrow> bool" where
  "stuck g \<longleftrightarrow> br_open_until (gd_breaker g) \<noteq> 0 \<and> br_probe_inflight (gd_breaker g) \<and> gd_running g = 0"

lemma stuck_step: "stuck g \<Longrightarrow> guard_step e g = g"
proof -
  assume g: "stuck g"
  obtain now ev where e: "e = (now, ev)" by (cases e)
  from g show ?thesis by (cases ev) (auto simp: e stuck_def breaker_allows_def)
qed

lemma stuck_forever: "stuck g \<Longrightarrow> fold guard_step es g = g"
  by (induction es) (simp_all add: stuck_step)

text \<open>
  C40: If the one probe that an open breaker lets through is cancelled while nothing else runs, no
  command is ever allowed again: Redis stays switched off whatever happens and however long.
\<close>

theorem cancelled_probe_blocks_forever:
  assumes "br_open_until b \<noteq> 0" "br_open_until b \<le> now" "\<not> br_probe_inflight b"
  shows "\<not> fst (breaker_allows later (gd_breaker (fold guard_step
    ((now, Begins) # (t, Cancelled) # es) \<lparr>gd_breaker = b, gd_running = 0\<rparr>)))"
proof -
  define g where "g = fold guard_step [(now, Begins), (t, Cancelled)] \<lparr>gd_breaker = b, gd_running = 0\<rparr>"
  have "stuck g" using assms by (simp add: g_def breaker_allows_def stuck_def)
  then show ?thesis using stuck_forever[of g es] by (auto simp: g_def[symmetric] stuck_def breaker_allows_def g_def)
qed

text \<open>
  Short of that, the breaker does what it promises: two failures in a row open a closed breaker
  for thirty seconds, nothing passes before they are over, then one command does, and its success
  closes the breaker.
\<close>

theorem breaker_opens_and_recovers:
  assumes "br_open_until b = 0" "t1 \<le> t2" "0 < t2" "\<not> br_probe_inflight b"
  shows "(let b2 = record_failure t2 (record_failure t1 (b\<lparr>br_failures := 0\<rparr>)) in
      fst (breaker_allows (t2 + BREAKER_RESET - 1) b2) = False
    \<and> fst (breaker_allows (t2 + BREAKER_RESET) b2)
    \<and> \<not> fst (breaker_allows later (snd (breaker_allows (t2 + BREAKER_RESET) b2)))
    \<and> breaker_allows later (record_success (snd (breaker_allows (t2 + BREAKER_RESET) b2)))
       = (True, \<lparr>br_failures = 0, br_open_until = 0, br_probe_inflight = False\<rparr>))"
  using assms
  by (simp add: record_failure_def BREAKER_THRESHOLD_def BREAKER_RESET_def breaker_allows_def Let_def record_success_def)

theorem cancelled_probe_blocks_forever_witness:
  "\<not> fst (breaker_allows 99000000 (gd_breaker (fold guard_step
     [(31000000, Begins), (31000001, Cancelled), (62000000, Begins), (93000000, Succeeds)]
     \<lparr>gd_breaker = \<lparr>br_failures = 2, br_open_until = 30000001, br_probe_inflight = False\<rparr>, gd_running = 0\<rparr>)))"
  by (rule cancelled_probe_blocks_forever) simp_all

theorem breaker_opens_and_recovers_witness:
  "\<not> fst (breaker_allows 30000001 (record_failure 2 (record_failure 1
     \<lparr>br_failures = 0, br_open_until = 0, br_probe_inflight = False\<rparr>)))"
  using breaker_opens_and_recovers[of "\<lparr>br_failures = 0, br_open_until = 0, br_probe_inflight = False\<rparr>" 1 2]
  by (simp add: Let_def BREAKER_RESET_def)

section \<open>Keys of the tenant cache\<close>

text \<open>\<open>":".join(parts)\<close>, and the patterns Redis matches: \<open>*\<close> stands for any text (no pattern here has its other special characters).\<close>

definition build_key :: "string \<Rightarrow> string option \<Rightarrow> string \<Rightarrow> string" where
  "build_key pre tenant suf = ''sf:cache:'' @ pre
     @ (if str_truthy tenant then '':'' @ the tenant else []) @ (if suf = [] then [] else '':'' @ suf)"

fun glob :: "string \<Rightarrow> string \<Rightarrow> bool" where
  "glob [] s = (s = [])"
| "glob (p # ps) s = (if p = CHR ''*'' then list_ex (glob ps) (map (\<lambda>n. drop n s) [0..<Suc (length s)])
     else case s of [] \<Rightarrow> False | c # cs \<Rightarrow> c = p \<and> glob ps cs)"

definition tenant_pattern :: "string \<Rightarrow> string option \<Rightarrow> string" where
  "tenant_pattern tenant pre = ''sf:cache:'' @ str_or pre [] @ ''*:'' @ tenant @ ''*''"

definition delete_pattern :: "string \<Rightarrow> (string \<times> 'v) list \<Rightarrow> (string \<times> 'v) list" where
  "delete_pattern pattern c = filter (\<lambda>(k, _). \<not> glob pattern k) c"

definition invalidate_tenant :: "string \<Rightarrow> string option \<Rightarrow> (string \<times> 'v) list \<Rightarrow> (string \<times> 'v) list" where
  "invalidate_tenant tenant pre c = delete_pattern (tenant_pattern tenant pre) c"

definition plain :: "string \<Rightarrow> bool" where
  "plain s \<longleftrightarrow> CHR ''*'' \<notin> set s"

lemma glob_plain: "plain w \<Longrightarrow> glob (w @ ps) (w @ s) = glob ps s"
  by (induction w) (auto simp: plain_def)

lemma glob_star: "glob ps (drop n s) \<Longrightarrow> n \<le> length s \<Longrightarrow> glob (CHR ''*'' # ps) s"
  by (auto simp: list_ex_iff less_Suc_eq_le simp del: upt_Suc intro!: bexI[of _ n])

lemma glob_any: "glob ''*'' s"
  using glob_star[of "[]" "length s" s] by simp

text \<open>Invalidating a tenant's keys of a prefix drops every key built from that prefix.\<close>

lemma pattern_matches:
  assumes "plain pre" "plain tenant" "tenant \<noteq> []"
  shows "glob (tenant_pattern tenant (Some pre)) (build_key (pre @ tl_name) (Some tenant) suf)"
proof -
  let ?rest = "if suf = [] then [] else '':'' @ suf"
  have "glob ('':'' @ tenant @ ''*'') ('':'' @ tenant @ ?rest)"
    using glob_plain[of "'':'' @ tenant" "''*''"] assms(2) glob_any by (simp add: plain_def)
  then have "glob ('':'' @ tenant @ ''*'') (drop (length tl_name) (tl_name @ '':'' @ tenant @ ?rest))" by simp
  then have tail: "glob (CHR ''*'' # '':'' @ tenant @ ''*'') (tl_name @ '':'' @ tenant @ ?rest)"
    by (rule glob_star) simp
  have head: "plain (''sf:cache:'' @ pre)" using assms(1) by (simp add: plain_def)
  have pat: "tenant_pattern tenant (Some pre) = (''sf:cache:'' @ pre) @ (CHR ''*'' # '':'' @ tenant @ ''*'')"
    by (simp add: tenant_pattern_def str_or_def)
  have key: "build_key (pre @ tl_name) (Some tenant) suf = (''sf:cache:'' @ pre) @ (tl_name @ '':'' @ tenant @ ?rest)"
    using assms(3) by (simp add: build_key_def str_truthy_def)
  show ?thesis unfolding pat key glob_plain[OF head] by (rule tail)
qed

text \<open>The wrapper of \<open>cached\<close>; the last argument but one is what the wrapped function answers.\<close>

definition cached :: "string \<Rightarrow> string option \<Rightarrow> string \<Rightarrow> 'v option \<Rightarrow> (string \<times> 'v) list \<Rightarrow> 'v option \<times> (string \<times> 'v) list" where
  "cached pre tenant suf fetched c =
    (let key = build_key pre tenant suf
     in case map_of c key of
          Some v \<Rightarrow> (Some v, c)
        | None \<Rightarrow> (fetched, case fetched of None \<Rightarrow> c | Some v \<Rightarrow> dict_set key v c))"

lemma cached_after_invalidation:
  assumes "plain pre" "plain tenant" "tenant \<noteq> []"
  shows "fst (cached (pre @ tl_name) (Some tenant) suf fetched (invalidate_tenant tenant (Some pre) c)) = fetched"
proof -
  have "map_of (invalidate_tenant tenant (Some pre) c) (build_key (pre @ tl_name) (Some tenant) suf) = None"
    using pattern_matches[OF assms, of tl_name suf] by (auto simp: invalidate_tenant_def delete_pattern_def map_of_eq_None_iff)
  then show ?thesis by (simp add: cached_def)
qed

section \<open>Versioned scopes\<close>

type_synonym scope = "string \<times> string \<times> string"

record 'v scope_cache =
  sc_versions :: "(scope \<times> nat) list"
  sc_payloads :: "((scope \<times> nat \<times> string) \<times> 'v) list"

definition scope_version :: "'v scope_cache \<Rightarrow> scope \<Rightarrow> nat" where
  "scope_version S k = (case map_of (sc_versions S) k of None \<Rightarrow> 0 | Some v \<Rightarrow> v)"

text \<open>The two halves of \<open>scope_read\<close>, before and after \<open>fetch()\<close>; the last argument is the digest of the fields.\<close>

definition scope_lookup :: "'v scope_cache \<Rightarrow> scope \<Rightarrow> string \<Rightarrow> 'v option" where
  "scope_lookup S k digest = map_of (sc_payloads S) (k, scope_version S k, digest)"

definition scope_store :: "scope \<Rightarrow> string \<Rightarrow> 'v \<Rightarrow> 'v scope_cache \<Rightarrow> 'v scope_cache" where
  "scope_store k digest v S = S\<lparr>sc_payloads := dict_set (k, scope_version S k, digest) v (sc_payloads S)\<rparr>"

definition scope_read :: "scope \<Rightarrow> string \<Rightarrow> 'v \<Rightarrow> 'v scope_cache \<Rightarrow> 'v \<times> 'v scope_cache" where
  "scope_read k digest fetched S = (case scope_lookup S k digest of
     Some v \<Rightarrow> (v, S) | None \<Rightarrow> (fetched, scope_store k digest fetched S))"

definition bump_one :: "scope \<Rightarrow> 'v scope_cache \<Rightarrow> 'v scope_cache" where
  "bump_one k S = S\<lparr>sc_versions := dict_set k (scope_version S k + 1) (sc_versions S)\<rparr>"

definition scope_bump :: "string \<Rightarrow> string \<Rightarrow> string list \<Rightarrow> 'v scope_cache \<Rightarrow> 'v scope_cache" where
  "scope_bump tenant store scopes S = fold (\<lambda>s. bump_one (tenant, store, s)) scopes S"

lemma scope_bump_one: "scope_bump tenant store [s] S = bump_one (tenant, store, s) S"
  by (simp add: scope_bump_def)

lemma scope_version_bump: "scope_version (bump_one k S) j = (if j = k then scope_version S k + 1 else scope_version S j)"
  by (simp add: bump_one_def scope_version_def)

text \<open>Reads and writes that do not overlap: a write changes one scope and bumps it.\<close>

datatype 'v scope_op = Read scope string | Write scope "string \<Rightarrow> 'v"

fun scope_run :: "(scope \<Rightarrow> string \<Rightarrow> 'v) \<Rightarrow> 'v scope_cache \<Rightarrow> 'v scope_op list \<Rightarrow> 'v list" where
  "scope_run db S [] = []"
| "scope_run db S (Read k d # ops) = (case scope_read k d (db k d) S of (v, S') \<Rightarrow> v # scope_run db S' ops)"
| "scope_run db S (Write (tenant, store, s) f # ops) =
    scope_run (db((tenant, store, s) := f)) (scope_bump tenant store [s] S) ops"

fun direct_run :: "(scope \<Rightarrow> string \<Rightarrow> 'v) \<Rightarrow> 'v scope_op list \<Rightarrow> 'v list" where
  "direct_run db [] = []"
| "direct_run db (Read k d # ops) = db k d # direct_run db ops"
| "direct_run db (Write k f # ops) = direct_run (db(k := f)) ops"

definition fresh_scopes :: "(scope \<Rightarrow> string \<Rightarrow> 'v) \<Rightarrow> 'v scope_cache \<Rightarrow> bool" where
  "fresh_scopes db S \<longleftrightarrow> list_all (\<lambda>((k, n, d), v). n \<le> scope_version S k \<and> (n = scope_version S k \<longrightarrow> v = db k d)) (sc_payloads S)"

lemma dict_set_subset: "set (dict_set k v m) \<subseteq> insert (k, v) (set m)"
  by (induction k v m rule: dict_set.induct) auto

lemma fresh_read:
  assumes "fresh_scopes db S"
  shows "fst (scope_read k d (db k d) S) = db k d \<and> fresh_scopes db (snd (scope_read k d (db k d) S))"
proof (cases "scope_lookup S k d")
  case None
  have "scope_version (scope_store k d v S) = scope_version S" for v
    by (simp add: scope_store_def scope_version_def fun_eq_iff)
  then show ?thesis
    using None assms dict_set_subset[of "(k, scope_version S k, d)" "db k d" "sc_payloads S"]
    by (fastforce simp: scope_read_def fresh_scopes_def list_all_iff scope_store_def)
next
  case (Some v)
  then have "v = db k d" using assms by (auto simp: scope_lookup_def fresh_scopes_def list_all_iff dest!: map_of_SomeD)
  then show ?thesis using Some assms by (simp add: scope_read_def)
qed

lemma fresh_write:
  assumes "fresh_scopes db S"
  shows "fresh_scopes (db(k := f)) (bump_one k S)"
proof -
  have "sc_payloads (bump_one k S) = sc_payloads S" by (simp add: bump_one_def)
  then show ?thesis
    using assms by (fastforce simp: fresh_scopes_def list_all_iff scope_version_bump)
qed

text \<open>
  As long as reads and writes do not overlap, the versioned cache cannot be seen: every read
  answers what the database holds at that moment.
\<close>

theorem scope_cache_transparent:
  assumes "fresh_scopes db S"
  shows "scope_run db S ops = direct_run db ops"
  using assms
proof (induction ops arbitrary: db S)
  case (Cons oper ops)
  show ?case
  proof (cases oper)
    case (Read k d)
    then show ?thesis using fresh_read[OF Cons.prems, of k d] Cons.IH by (auto simp: split_beta)
  next
    case (Write k f)
    obtain tenant store s where k: "k = (tenant, store, s)" by (cases k)
    show ?thesis using Cons.IH[OF fresh_write[OF Cons.prems, of k f]]
      by (simp add: Write k scope_bump_one del: fun_upd_apply)
  qed
qed simp

text \<open>A read whose fetch is followed, before its second half, by a write and its bump.\<close>

definition overlapped_read :: "scope \<Rightarrow> string \<Rightarrow> 'v \<Rightarrow> 'v scope_cache \<Rightarrow> 'v \<times> 'v scope_cache" where
  "overlapped_read k digest fetched S = (case scope_lookup S k digest of
     Some v \<Rightarrow> (v, bump_one k S)
   | None \<Rightarrow> (fetched, scope_store k digest fetched (bump_one k S)))"

text \<open>
  When a write and its bump fall between the fetch and the second half of a read, the value from
  before the write is stored under the new version, and later reads answer it although the
  database holds another.
\<close>

theorem overlapping_read_caches_stale_value:
  assumes "scope_lookup S k d = None"
  shows "fst (scope_read k d new_value (snd (overlapped_read k d old_value S))) = old_value"
proof -
  have "scope_version (scope_store k d old_value T) = scope_version T" for T :: "'a scope_cache"
    by (simp add: scope_store_def scope_version_def fun_eq_iff)
  then have "scope_lookup (scope_store k d old_value T) k d = Some old_value" for T :: "'a scope_cache"
    by (simp add: scope_lookup_def scope_store_def)
  then show ?thesis by (simp add: overlapped_read_def assms scope_read_def)
qed

theorem scope_cache_transparent_witness:
  "scope_run (\<lambda>_ _. 1 :: int) \<lparr>sc_versions = [], sc_payloads = []\<rparr>
     [Read (''t'', ''-'', ''sales'') ''d'', Write (''t'', ''-'', ''sales'') (\<lambda>_. 2), Read (''t'', ''-'', ''sales'') ''d''] = [1, 2]"
  by (subst scope_cache_transparent) (simp_all add: fresh_scopes_def)

theorem overlapping_read_caches_stale_value_witness:
  "fst (scope_read (''t'', ''-'', ''sales'') ''d'' (2 :: int)
     (snd (overlapped_read (''t'', ''-'', ''sales'') ''d'' 1 \<lparr>sc_versions = [], sc_payloads = []\<rparr>))) = 1"
  by (rule overlapping_read_caches_stale_value) (simp add: scope_lookup_def)

end
