(* ===== verification/Spec2Isabelle.thy ===== *)
theory Spec2Isabelle
  imports MessageBus StockFlows ReturnFlows AccessFlows Caches
begin

text \<open>
  A verification library for the StoreFlow point-of-sale backend (\<open>src/app\<close>). The program is a
  set of domain packages (inventory, taxes, accounting, sales, payments, documents and others).
  A domain's \<open>service.py\<close> plans: it takes rows and a command and returns new rows, changed rows and
  staged events. \<open>common/bridge.py\<close> loads the rows, calls the planning functions and persists what they
  return in one transaction, staged events included. A relay publishes the staged events to a
  broker and a consumer per service runs the handlers registered for them.

  Conventions. A row is a record, a heap of mutable rows is a map from identifiers, an operation
  returns \<open>Inl\<close> an exception or \<open>Inr\<close> the new state, and fresh identifiers and the clock are
  arguments. Python's floats, \<open>Decimal\<close>s and integers are the kinds of \<open>num\<close>; float arithmetic is
  exact arithmetic on rationals followed by rounding to 53 bits, half to even. Exponents are not
  bounded: amounts are far from the largest and the smallest double.

  Theories, in the order of their dependency.

  \<^item> \<open>Prelude\<close>: identifiers, results, insertion-ordered dictionaries, lists.
  \<^item> \<open>Rounding\<close>, \<open>PyNum\<close>: rounding to a number of digits; Python's numbers, the rounding of
    \<open>round\<close>, \<open>repr\<close>, the compensated \<open>sum\<close>.
  \<^item> \<open>Kobo\<close>: whole kobo as floats, and the bounds under which the program's float arithmetic is
    integer arithmetic on kobo; \<open>common/money.py\<close>.
  \<^item> \<open>Events\<close>: \<open>common/events\<close> and the event constructors of every domain.
  \<^item> \<open>MessageBus\<close>: the relay, the consumers, the queues and the handler registry.
  \<^item> \<open>Inventory\<close>, \<open>StockLedger\<close>, \<open>StockFlows\<close>: \<open>inventory/service.py\<close>; an abstract ledger of stock
    levels with its interface (locale \<open>level_store\<close>); the refinement and the properties.
  \<^item> \<open>Taxes\<close>: \<open>taxes/calc.py\<close>, the resolution of taxes from rows, the seed.
  \<^item> \<open>Accounting\<close>, \<open>Ledger\<close>, \<open>LedgerProps\<close>, \<open>LedgerFlows\<close>: \<open>accounting/service.py\<close>; the stored books
    with \<open>accounting/repository.py\<close>, the flows of the bridge and the event handlers; double entry.
  \<^item> \<open>Sales\<close>: \<open>sales/service.py\<close>, \<open>sales/repository.py\<close> and the sale handlers of the worker.
  \<^item> \<open>Discounts\<close>: coupons and promotions of \<open>common/bridge.py\<close>; the limit of a coupon as an invariant.
  \<^item> \<open>Fees\<close>: \<open>platform/fee_calculator.py\<close>, tiers, shares and headroom.
  \<^item> \<open>Cart\<close>: \<open>cart/service.py\<close>, \<open>cart/repository.py\<close> and the cart operations of the bridge.
  \<^item> \<open>Payments\<close>: \<open>payments/service.py\<close>, \<open>payments/repository.py\<close> and the operations of the bridge
    that record, split, confirm and settle payments; \<open>PaymentFlows\<close>: their properties.
  \<^item> \<open>Checkout\<close>, \<open>CheckoutFlows\<close>: the checkout of a cart, the payment intent of a cart and its
    confirmation, from \<open>common/bridge.py\<close>; what they write, take from stock and spend.
  \<^item> \<open>Documents\<close>, \<open>DocumentFlows\<close>: quotes, invoices, receipts and purchase orders
    (\<open>documents/\<close> and the bridge), their conversion to a sale, and \<open>worker/handlers/documents.py\<close>.
  \<^item> \<open>Returns\<close>, \<open>ReturnFlows\<close>: voids and returns of sales (\<open>common/services.py\<close>) against the checkout
    they undo.
  \<^item> \<open>Identity\<close>, \<open>Roles\<close>, \<open>RoleFlows\<close>: users, roles and permissions with their tables (\<open>identity/\<close>);
    the role and employee operations (\<open>common/bridge.py\<close>, \<open>common/auth_service.py\<close>) with the caches
    that decide requests; who may rank above whom, and when a cached authority is current.
  \<^item> \<open>Tenancy\<close>: \<open>tenancy/\<close> and the onboarding of a business, with the search for its slug.
  \<^item> \<open>Access\<close>, \<open>AccessFlows\<close>: tokens and sessions (\<open>core/security.py\<close>), signing in and out
    (\<open>common/auth_service.py\<close>), the guards of \<open>core/dependencies.py\<close>, supervisor PINs
    (\<open>core/approval.py\<close>) and rate limits; what a rotated or logged-out token is answered.
  \<^item> \<open>Caches\<close>: the Redis breaker (\<open>core/redis_client.py\<close>), tenant keys and versioned scopes.

  Not modelled: HTTP routes and response schemas, which parse and wrap; the assistant and the
  clients of third parties; analytics and migrations, whose logic is SQL; the sweep of a tenant's
  tables in \<open>delete_own_account\<close>; row level security, which the queries are assumed to pass.

  Bounds and fuel. Amounts are bounded by \<open>10 ^ 12\<close> kobo where sums are involved (columns hold
  \<open>10 ^ 12\<close> kobo at most), and a sum over \<open>n\<close> amounts by \<open>cents_range\<close> or \<open>kobo_range\<close>, which
  multiply the number of summands by the sum of their absolute values. The relay's polling
  is a list of poll times, its length is the fuel. The search for a free slug is a partial function;
  that it ends is the theorem \<open>slug_search_terminates\<close>.
\<close>

end
